(* ===== verification/Go_Base.thy ===== *)
theory Go_Base
  imports "HOL-Library.Char_ord" "HOL-Library.List_Lexorder"
begin

text \<open>
  The pieces of the Go language and its standard library that the modelled packages use:
  byte strings (a Go \<open>string\<close> is a sequence of bytes, here a \<open>char list\<close>, and Go's
  comparison of strings is the lexicographic order of \<open>HOL-Library.List_Lexorder\<close>), the
  functions of \<open>strings\<close>, \<open>bytes\<close>, \<open>sort\<close> and \<open>path/filepath\<close>, instants of
  \<open>time.Time\<close>, files as the operating system presents them, exclusive lock files, and the
  loop that every append-only ledger of the program runs over its file
  (\<open>bufio.Reader.ReadBytes('\n')\<close> until \<open>io.EOF\<close>).
\<close>

named_theorems go_defs \<open>definitions of the standard library pieces\<close>

section \<open>Strings\<close>

definition newline :: char where
  "newline = CHR 0x0A"

definition hasPrefix :: "string \<Rightarrow> string \<Rightarrow> bool" where
  "hasPrefix s p \<longleftrightarrow> take (length p) s = p"

definition trimPrefix :: "string \<Rightarrow> string \<Rightarrow> string" where
  "trimPrefix s p = (if hasPrefix s p then drop (length p) s else s)"

fun contains :: "string \<Rightarrow> string \<Rightarrow> bool" where
  "contains [] p \<longleftrightarrow> p = []"
| "contains (c # s) p \<longleftrightarrow> hasPrefix (c # s) p \<or> contains s p"

definition containsAny :: "string \<Rightarrow> char list \<Rightarrow> bool" where
  "containsAny s cs \<longleftrightarrow> list_ex (\<lambda>c. c \<in> set cs) s"

text \<open>
  \<open>strings.TrimSpace\<close> removes the code points of Unicode's White\_Space. Their UTF-8
  encodings are listed here; each of them is recognised by the bytes alone, at the front and at
  the back of a string.
\<close>

definition space_encodings :: "string list" where
  "space_encodings =
     [[CHR 0x09], [CHR 0x0A], [CHR 0x0B], [CHR 0x0C], [CHR 0x0D], [CHR 0x20],
      [CHR 0xC2, CHR 0x85], [CHR 0xC2, CHR 0xA0], [CHR 0xE1, CHR 0x9A, CHR 0x80],
      [CHR 0xE2, CHR 0x80, CHR 0x80], [CHR 0xE2, CHR 0x80, CHR 0x81], [CHR 0xE2, CHR 0x80, CHR 0x82],
      [CHR 0xE2, CHR 0x80, CHR 0x83], [CHR 0xE2, CHR 0x80, CHR 0x84], [CHR 0xE2, CHR 0x80, CHR 0x85],
      [CHR 0xE2, CHR 0x80, CHR 0x86], [CHR 0xE2, CHR 0x80, CHR 0x87], [CHR 0xE2, CHR 0x80, CHR 0x88],
      [CHR 0xE2, CHR 0x80, CHR 0x89], [CHR 0xE2, CHR 0x80, CHR 0x8A], [CHR 0xE2, CHR 0x80, CHR 0xA8],
      [CHR 0xE2, CHR 0x80, CHR 0xA9], [CHR 0xE2, CHR 0x80, CHR 0xAF], [CHR 0xE2, CHR 0x81, CHR 0x9F],
      [CHR 0xE3, CHR 0x80, CHR 0x80]]"

text \<open>The length of the white space encoding in \<open>es\<close> that \<open>s\<close> starts with, 0 if there is none.\<close>

fun space_prefix :: "string list \<Rightarrow> string \<Rightarrow> nat" where
  "space_prefix [] s = 0"
| "space_prefix (e # es) s = (if hasPrefix s e then length e else space_prefix es s)"

function trim_with :: "string list \<Rightarrow> string \<Rightarrow> string" where
  "trim_with es s =
     (let n = space_prefix es s in if n = 0 \<or> s = [] then s else trim_with es (drop n s))"
  by pat_completeness auto
termination
  by (relation "measure (\<lambda>(es, s). length s)") auto

declare trim_with.simps [simp del]

definition trimLeftSpace :: "string \<Rightarrow> string" where
  "trimLeftSpace s = trim_with space_encodings s"

definition trimRightSpace :: "string \<Rightarrow> string" where
  "trimRightSpace s = rev (trim_with (map rev space_encodings) (rev s))"

definition trimSpace :: "string \<Rightarrow> string" where
  "trimSpace s = trimRightSpace (trimLeftSpace s)"

abbreviation blank :: "string \<Rightarrow> bool" where
  "blank s \<equiv> trimSpace s = []"

text \<open>\<open>sort.Strings\<close>, \<open>sort.Search\<close> on a slice of strings, and strict order of a slice.\<close>

definition strictly_sorted :: "string list \<Rightarrow> bool" where
  "strictly_sorted xs \<longleftrightarrow> sorted_wrt (<) xs"

text \<open>\<open>filepath.Base\<close> on a POSIX system.\<close>

definition slash :: char where
  "slash = CHR ''/''"

definition filepathBase :: "string \<Rightarrow> string" where
  "filepathBase p =
     (if p = [] then ''.''
      else let q = rev (dropWhile (\<lambda>c. c = slash) (rev p))
           in if q = [] then [slash] else rev (takeWhile (\<lambda>c. c \<noteq> slash) (rev q)))"

section \<open>Hexadecimal strings\<close>

definition lower_hex :: "char \<Rightarrow> bool" where
  "lower_hex c \<longleftrightarrow> (48 \<le> (of_char c :: int) \<and> (of_char c :: int) \<le> 57)
     \<or> (97 \<le> (of_char c :: int) \<and> (of_char c :: int) \<le> 102)"

definition hex_digit :: "int \<Rightarrow> char" where
  "hex_digit n = (if n < 10 then char_of (48 + n) else char_of (87 + n))"

definition hex_byte :: "int \<Rightarrow> string" where
  "hex_byte n = [hex_digit (n div 16 mod 16), hex_digit (n mod 16)]"

text \<open>\<open>hex.EncodeToString\<close>.\<close>

definition hexEncode :: "string \<Rightarrow> string" where
  "hexEncode s = concat (map (\<lambda>c. hex_byte (of_char c)) s)"

lemma lower_hex_hex_digit [simp]:
  assumes "0 \<le> n" and "n < 16"
  shows "lower_hex (hex_digit n)"
proof -
  have "list_all (\<lambda>m. lower_hex (hex_digit m)) [0..15]" by code_simp
  moreover have "n \<in> set [0..15]" using assms by simp
  ultimately show ?thesis by (simp only: list_all_iff)
qed

lemma lower_hex_hex_byte [simp]: "c \<in> set (hex_byte n) \<Longrightarrow> lower_hex c"
  by (auto simp: hex_byte_def)

lemma length_hex_byte [simp]: "length (hex_byte n) = 2"
  by (simp add: hex_byte_def)

lemma lower_hex_not_special:
  "lower_hex c \<Longrightarrow> c \<noteq> CHR 0x00 \<and> c \<noteq> CHR 0x22 \<and> c \<noteq> newline"
  by (auto simp: lower_hex_def newline_def)

section \<open>Instants\<close>

text \<open>
  A \<open>time.Time\<close> is the number of nanoseconds since the zero instant (January 1 of year 1,
  00:00:00 UTC). The program stores UTC instants only (every recorded time is \<open>now.UTC()\<close>).
\<close>

type_synonym gotime = int

abbreviation isZeroTime :: "gotime \<Rightarrow> bool" where
  "isZeroTime t \<equiv> t = 0"

section \<open>Files, locks and the ledger loop\<close>

text \<open>
  What opening and reading a file shows: it does not exist, it cannot be opened, or it yields
  bytes and then either \<open>io.EOF\<close> or (the flag) another read error.
\<close>

datatype os_file = NotExist | OpenFails | Readable string bool

definition file_bytes :: "os_file \<Rightarrow> string" where
  "file_bytes f = (case f of Readable b _ \<Rightarrow> b | _ \<Rightarrow> [])"

text \<open>The lines \<open>ReadBytes('\n')\<close> delivers (without the terminator) and what is left after the last one.\<close>

fun split_lines :: "string \<Rightarrow> string list \<times> string" where
  "split_lines [] = ([], [])"
| "split_lines (c # s) =
     (case split_lines s of (ls, r) \<Rightarrow>
        if c = newline then ([] # ls, r)
        else (case ls of [] \<Rightarrow> ([], c # r) | l # ls' \<Rightarrow> ((c # l) # ls', r)))"

text \<open>What the ledgers hand to \<open>json.Unmarshal\<close>: \<open>bytes.TrimSpace\<close> of the line with its terminator.\<close>

definition line_payload :: "string \<Rightarrow> string" where
  "line_payload l = trimSpace (l @ [newline])"

datatype 'e log_error =
    LogOpen
  | LogPartial nat
  | LogDecode nat
  | LogLine nat 'e
  | LogRead

fun run_lines ::
  "(string \<Rightarrow> 'r option) \<Rightarrow> ('r \<Rightarrow> 's \<Rightarrow> 'e + 's) \<Rightarrow> nat \<Rightarrow> string list \<Rightarrow> 's
    \<Rightarrow> 's \<times> 'e log_error option" where
  "run_lines dec step n [] s = (s, None)"
| "run_lines dec step n (l # ls) s =
     (case dec (line_payload l) of
        None \<Rightarrow> (s, Some (LogDecode n))
      | Some r \<Rightarrow>
          (case step r s of
             Inl e \<Rightarrow> (s, Some (LogLine n e))
           | Inr s' \<Rightarrow> run_lines dec step (Suc n) ls s'))"

definition replay_log ::
  "(string \<Rightarrow> 'r option) \<Rightarrow> ('r \<Rightarrow> 's \<Rightarrow> 'e + 's) \<Rightarrow> os_file \<Rightarrow> 's \<Rightarrow> 's \<times> 'e log_error option" where
  "replay_log dec step f s0 =
     (case f of
        NotExist \<Rightarrow> (s0, None)
      | OpenFails \<Rightarrow> (s0, Some LogOpen)
      | Readable b failed \<Rightarrow>
          (case split_lines b of (ls, rest) \<Rightarrow>
             (case run_lines dec step 1 ls s0 of
                (s, Some e) \<Rightarrow> (s, Some e)
              | (s, None) \<Rightarrow>
                  if rest \<noteq> [] then (s, Some (LogPartial (Suc (length ls))))
                  else if failed then (s, Some LogRead) else (s, None))))"

text \<open>
  Appending one encoded record: create the directory, open with \<open>O_APPEND\<close>, write, sync, close.
  The argument says which of these calls fails, and how many bytes a failing or short write left.
\<close>

datatype append_fault = FMkdir | FOpen | FEncode | FWrite nat | FShort nat | FSync | FClose

definition append_bytes :: "append_fault option \<Rightarrow> string option \<Rightarrow> os_file \<Rightarrow> os_file \<times> append_fault option" where
  "append_bytes fault data f =
     (let base = file_bytes f in
      if fault = Some FMkdir then (f, Some FMkdir)
      else if fault = Some FOpen \<or> f = OpenFails then (f, Some FOpen)
      else (case data of
              None \<Rightarrow> (Readable base False, Some FEncode)
            | Some d \<Rightarrow>
                (case fault of
                   Some (FWrite n) \<Rightarrow> (Readable (base @ take n d) False, fault)
                 | Some (FShort n) \<Rightarrow> (Readable (base @ take n d) False, fault)
                 | Some FSync \<Rightarrow> (Readable (base @ d) False, fault)
                 | Some FClose \<Rightarrow> (Readable (base @ d) False, fault)
                 | _ \<Rightarrow> (Readable (base @ d) False, None))))"

text \<open>
  A lock is a file created with \<open>O_EXCL\<close>; the state is whether it exists. A failure after the
  creation removes the file again, which may fail too (the flag says whether the removal works).
\<close>

datatype lock_fault = LMkdir | LOpen | LWrite bool | LSync bool | LClose bool

datatype lock_error = LockHeld | LockFault lock_fault

definition acquire_lock :: "lock_fault option \<Rightarrow> bool \<Rightarrow> bool \<times> lock_error option" where
  "acquire_lock fault held =
     (if fault = Some LMkdir then (held, Some (LockFault LMkdir))
      else if held then (held, Some LockHeld)
      else (case fault of
              None \<Rightarrow> (True, None)
            | Some LMkdir \<Rightarrow> (False, Some (LockFault LMkdir))
            | Some LOpen \<Rightarrow> (False, Some (LockFault LOpen))
            | Some (LWrite removed) \<Rightarrow> (\<not> removed, Some (LockFault (LWrite removed)))
            | Some (LSync removed) \<Rightarrow> (\<not> removed, Some (LockFault (LSync removed)))
            | Some (LClose removed) \<Rightarrow> (\<not> removed, Some (LockFault (LClose removed)))))"

section \<open>Sequences of checks\<close>

text \<open>
  Go functions that only return an \<open>error\<close> are values of type \<open>'e option\<close> (\<open>None\<close> is nil). A run of
  \<open>if cond { return err }\<close> statements is \<open>first_error\<close> of its checks, in the order of the source.
\<close>

definition fail_if :: "bool \<Rightarrow> 'e \<Rightarrow> 'e option" where
  "fail_if b e = (if b then Some e else None)"

fun first_error :: "'e option list \<Rightarrow> 'e option" where
  "first_error [] = None"
| "first_error (Some e # es) = Some e"
| "first_error (None # es) = first_error es"

lemma fail_if_None [simp]: "fail_if b e = None \<longleftrightarrow> \<not> b"
  by (simp add: fail_if_def)

lemma fail_if_False [simp]: "fail_if False e = None"
  by (simp add: fail_if_def)

lemma fail_if_Some: "fail_if b e = Some e' \<longleftrightarrow> b \<and> e = e'"
  by (auto simp: fail_if_def)

lemma first_error_Cons [simp]:
  "first_error (c # cs) = None \<longleftrightarrow> c = None \<and> first_error cs = None"
  by (cases c) auto

lemma first_error_append [simp]:
  "first_error (cs @ ds) = None \<longleftrightarrow> first_error cs = None \<and> first_error ds = None"
  by (induction cs) auto

lemma first_error_map [simp]:
  "first_error (map f xs) = None \<longleftrightarrow> (\<forall>x \<in> set xs. f x = None)"
  by (induction xs) auto

section \<open>Lemmas the components share\<close>

lemma trimSpace_Nil [simp]: "trimSpace [] = []"
  by (simp add: trimSpace_def trimLeftSpace_def trimRightSpace_def trim_with.simps)

lemma hasPrefix_append [simp]: "hasPrefix (p @ s) p"
  by (simp add: hasPrefix_def)

lemma trimPrefix_append [simp]: "trimPrefix (p @ s) p = s"
  by (simp add: trimPrefix_def)

lemma hasPrefixE:
  assumes "hasPrefix s p"
  obtains t where "s = p @ t"
  using assms by (metis append_take_drop_id hasPrefix_def)

lemma split_lines_Cons_newline:
  "split_lines (newline # s) = ([] # fst (split_lines s), snd (split_lines s))"
  by (simp add: case_prod_beta)

lemma split_lines_append:
  assumes "snd (split_lines s) = []"
  shows "split_lines (s @ t) = (fst (split_lines s) @ fst (split_lines t), snd (split_lines t))"
  using assms
proof (induction s)
  case Nil
  then show ?case by simp
next
  case (Cons c s)
  show ?case
  proof (cases "c = newline")
    case True
    with Cons show ?thesis by (simp add: case_prod_beta)
  next
    case False
    with Cons.prems have ne: "fst (split_lines s) \<noteq> []"
      by (auto simp: case_prod_beta split: list.splits)
    with False Cons.prems have "snd (split_lines s) = []"
      by (auto simp: case_prod_beta split: list.splits)
    with Cons.IH have "split_lines (s @ t) = (fst (split_lines s) @ fst (split_lines t), snd (split_lines t))"
      by simp
    with False ne show ?thesis by (auto simp: case_prod_beta split: list.splits)
  qed
qed

lemma split_lines_line:
  "newline \<notin> set l \<Longrightarrow> split_lines (l @ [newline]) = ([l], [])"
  by (induction l) auto

lemma run_lines_append:
  "run_lines dec step n (ls @ ms) s =
     (case run_lines dec step n ls s of
        (s', Some e) \<Rightarrow> (s', Some e)
      | (s', None) \<Rightarrow> run_lines dec step (n + length ls) ms s')"
  by (induction ls arbitrary: n s) (auto split: option.splits sum.splits)

text \<open>
  The law every ledger of the program relies on: a file that replays without error and gets one
  more terminated record whose step succeeds replays to the stepped state.
\<close>

lemma replay_log_append:
  assumes ok: "replay_log dec step (Readable b False) s0 = (s, None)"
    and nl: "newline \<notin> set d" and dec: "dec (line_payload d) = Some r" and st: "step r s = Inr s'"
  shows "replay_log dec step (Readable (b @ d @ [newline]) False) s0 = (s', None)"
proof -
  obtain ls where b: "split_lines b = (ls, [])" and run: "run_lines dec step 1 ls s0 = (s, None)"
    using ok by (auto simp: replay_log_def split: prod.splits option.splits if_splits)
  have "split_lines (b @ d @ [newline]) = (ls @ [d], [])"
    using split_lines_append [of b "d @ [newline]"] b split_lines_line [OF nl] by simp
  with run dec st show ?thesis
    by (simp add: replay_log_def run_lines_append)
qed

lemma replay_log_append_new:
  assumes nl: "newline \<notin> set d" and dec: "dec (line_payload d) = Some r" and st: "step r s0 = Inr s'"
  shows "replay_log dec step (Readable (d @ [newline]) False) s0 = (s', None)"
  using assms by (simp add: replay_log_def split_lines_line)

lemma append_bytes_ok:
  assumes "append_bytes fault (Some d) f = (f', None)"
  shows "f' = Readable (file_bytes f @ d) False" and "f \<noteq> OpenFails"
  using assms
  by (auto simp: append_bytes_def Let_def split: if_splits option.splits append_fault.splits)

lemma acquire_lock_ok: "acquire_lock fault held = (held', None) \<Longrightarrow> \<not> held \<and> held' \<and> fault = None"
  by (auto simp: acquire_lock_def split: if_splits option.splits lock_fault.splits)

lemma acquire_lock_held: "held \<Longrightarrow> \<exists>e. acquire_lock fault held = (held, Some e)"
  by (auto simp: acquire_lock_def)

text \<open>An invariant of the state that every successful step keeps holds after every replay.\<close>

lemma run_lines_invariant:
  assumes "run_lines dec step n ls s = (s', e)" and "I s"
    and "\<And>r s s'. step r s = Inr s' \<Longrightarrow> I s \<Longrightarrow> I s'"
  shows "I s'"
  using assms(1,2)
  by (induction ls arbitrary: n s)
    (auto split: option.splits sum.splits dest: assms(3))

lemma replay_log_invariant:
  assumes "replay_log dec step f s0 = (s, e)" and "I s0"
    and "\<And>r s s'. step r s = Inr s' \<Longrightarrow> I s \<Longrightarrow> I s'"
  shows "I s"
  using assms(1,2) run_lines_invariant [of dec step 1 _ s0 _ _ I, OF _ _ assms(3)]
  by (fastforce simp: replay_log_def split: os_file.splits prod.splits option.splits if_splits)

end
