(* ===== verification/Go_Sha256.thy ===== *)
theory Go_Sha256
  imports Go_Base "HOL-Library.Word"
begin

text \<open>
  SHA-256 as \<open>crypto/sha256\<close> computes it (FIPS 180-4), over 32-bit words, followed by
  \<open>hex.EncodeToString\<close> as everywhere in the program. The message length is written as a
  64-bit big-endian number of bits; messages of \<open>2 ^ 61\<close> bytes or more do not exist in a
  64-bit address space.
\<close>

unbundle bit_operations_syntax

type_synonym u32 = "32 word"

type_synonym sha_state = "u32 \<times> u32 \<times> u32 \<times> u32 \<times> u32 \<times> u32 \<times> u32 \<times> u32"

definition rotr :: "nat \<Rightarrow> u32 \<Rightarrow> u32" where
  "rotr n x = drop_bit n x OR push_bit (32 - n) x"

definition sha_k :: "u32 list" where
  "sha_k = [
  1116352408, 1899447441, 3049323471, 3921009573, 961987163, 1508970993, 2453635748, 2870763221,
  3624381080, 310598401, 607225278, 1426881987, 1925078388, 2162078206, 2614888103, 3248222580,
  3835390401, 4022224774, 264347078, 604807628, 770255983, 1249150122, 1555081692, 1996064986,
  2554220882, 2821834349, 2952996808, 3210313671, 3336571891, 3584528711, 113926993, 338241895,
  666307205, 773529912, 1294757372, 1396182291, 1695183700, 1986661051, 2177026350, 2456956037,
  2730485921, 2820302411, 3259730800, 3345764771, 3516065817, 3600352804, 4094571909, 275423344,
  430227734, 506948616, 659060556, 883997877, 958139571, 1322822218, 1537002063, 1747873779,
  1955562222, 2024104815, 2227730452, 2361852424, 2428436474, 2756734187, 3204031479, 3329325298]"

definition sha_init :: sha_state where
  "sha_init = (1779033703, 3144134277, 1013904242, 2773480762,
               1359893119, 2600822924, 528734635, 1541459225)"

fun sha_round :: "sha_state \<Rightarrow> u32 \<Rightarrow> u32 \<Rightarrow> sha_state" where
  "sha_round (a, b, c, d, e, f, g, h) k w =
    (let s1 = rotr 6 e XOR rotr 11 e XOR rotr 25 e;
         ch = (e AND f) XOR (NOT e AND g);
         t1 = h + s1 + ch + k + w;
         s0 = rotr 2 a XOR rotr 13 a XOR rotr 22 a;
         maj = (a AND b) XOR (a AND c) XOR (b AND c)
     in (t1 + s0 + maj, a, b, c, d + t1, e, f, g))"

text \<open>
  The message schedule is a window of sixteen words: the head is consumed by the round and the
  word sixteen rounds ahead enters at the back.
\<close>

fun sha_rounds :: "u32 list \<Rightarrow> u32 list \<Rightarrow> sha_state \<Rightarrow> sha_state" where
  "sha_rounds [] ws st = st"
| "sha_rounds (k # ks) ws st =
    (let w = hd ws;
         x15 = ws ! 1; x2 = ws ! 14;
         s0 = rotr 7 x15 XOR rotr 18 x15 XOR drop_bit 3 x15;
         s1 = rotr 17 x2 XOR rotr 19 x2 XOR drop_bit 10 x2
     in sha_rounds ks (tl ws @ [w + s0 + ws ! 9 + s1]) (sha_round st k w))"

fun add_state :: "sha_state \<Rightarrow> sha_state \<Rightarrow> sha_state" where
  "add_state (a, b, c, d, e, f, g, h) (a', b', c', d', e', f', g', h') =
     (a + a', b + b', c + c', d + d', e + e', f + f', g + g', h + h')"

fun words_of_bytes :: "int list \<Rightarrow> u32 list" where
  "words_of_bytes (a # b # c # d # r) =
     word_of_int (a * 16777216 + b * 65536 + c * 256 + d) # words_of_bytes r"
| "words_of_bytes _ = []"

function sha_blocks :: "u32 list \<Rightarrow> sha_state \<Rightarrow> sha_state" where
  "sha_blocks ws st =
     (if ws = [] then st
      else sha_blocks (drop 16 ws) (add_state st (sha_rounds sha_k (take 16 ws) st)))"
  by pat_completeness auto
termination
  by (relation "measure (\<lambda>(ws, st). length ws)") auto

declare sha_blocks.simps [simp del]

definition be_bytes8 :: "int \<Rightarrow> int list" where
  "be_bytes8 n = map (\<lambda>k. n div k mod 256)
     [72057594037927936, 281474976710656, 1099511627776, 4294967296, 16777216, 65536, 256, 1]"

definition sha_pad :: "int list \<Rightarrow> int list" where
  "sha_pad bs = bs @ [128] @ replicate ((119 - length bs mod 64) mod 64) 0 @ be_bytes8 (8 * int (length bs))"

fun sha_words :: "sha_state \<Rightarrow> u32 list" where
  "sha_words (a, b, c, d, e, f, g, h) = [a, b, c, d, e, f, g, h]"

definition bytes_of_word :: "u32 \<Rightarrow> int list" where
  "bytes_of_word w =
     (let n = uint w in [n div 16777216 mod 256, n div 65536 mod 256, n div 256 mod 256, n mod 256])"

definition sha256_hex :: "string \<Rightarrow> string" where
  "sha256_hex s = concat (map hex_byte (concat (map bytes_of_word
      (sha_words (sha_blocks (words_of_bytes (sha_pad (map of_char s))) sha_init)))))"

text \<open>
  \<open>sha256_hex ''abc''\<close> is
  \<open>ba7816bf8f01cfea414140de5dae2223b00361a396177a9cb410ff61f20015ad\<close> and the 56-byte test message of
  the standard hashes to \<open>248d6a61...19db06c1\<close>, as the generated code of this definition computes.
\<close>

lemma length_sha256_hex [simp]: "length (sha256_hex s) = 64"
proof -
  obtain a b c d e f g h where
    "sha_blocks (words_of_bytes (sha_pad (map of_char s))) sha_init = (a, b, c, d, e, f, g, h)"
    by (metis prod.collapse)
  then show ?thesis by (simp add: sha256_hex_def bytes_of_word_def Let_def)
qed

lemma lower_hex_sha256_hex: "c \<in> set (sha256_hex s) \<Longrightarrow> lower_hex c"
  by (auto simp: sha256_hex_def)

lemma sha256_hex_ne [simp]: "sha256_hex s \<noteq> []" "[] \<noteq> sha256_hex s"
  by (metis length_sha256_hex list.size(3) zero_neq_numeral)+

text \<open>
  Two given byte strings that collide. SHA-256 has collisions, so no theorem can assume that it has
  none; the integrity theorems say instead that a failure exhibits one, on two named inputs.
\<close>

definition sha_collision :: "string \<Rightarrow> string \<Rightarrow> bool" where
  "sha_collision s t \<longleftrightarrow> s \<noteq> t \<and> sha256_hex s = sha256_hex t"

end
