(* ===== verification/Go_Json.thy ===== *)
theory Go_Json
  imports Go_Base
begin

text \<open>
  \<open>encoding/json\<close> as the ledgers use it: \<open>json.Marshal\<close> of structs, with the field order of the
  declaration, Go's escaping of strings (HTML characters and U+2028/U+2029 escaped, invalid UTF-8
  replaced), decimal integers, and \<open>time.Time\<close> in RFC 3339 form with the fraction trimmed. Marshal
  fails on an instant whose year has not four digits; \<open>None\<close> is that error.
\<close>

section \<open>UTF-8\<close>

definition byte_in :: "int \<Rightarrow> int \<Rightarrow> char \<Rightarrow> bool" where
  "byte_in lo hi c \<longleftrightarrow> lo \<le> of_char c \<and> of_char c \<le> hi"

abbreviation cont :: "char \<Rightarrow> bool" where
  "cont \<equiv> byte_in 0x80 0xBF"

text \<open>The length of the UTF-8 sequence at the front of a string; 0 if there is no valid one.\<close>

definition utf8_two :: "char \<Rightarrow> string \<Rightarrow> bool" where
  "utf8_two a s \<longleftrightarrow> (case s of b # _ \<Rightarrow> byte_in 0xC2 0xDF a \<and> cont b | _ \<Rightarrow> False)"

definition utf8_three :: "char \<Rightarrow> string \<Rightarrow> bool" where
  "utf8_three a s \<longleftrightarrow>
     (case s of b # c # _ \<Rightarrow>
        (byte_in 0xE0 0xE0 a \<and> byte_in 0xA0 0xBF b
         \<or> (byte_in 0xE1 0xEC a \<or> byte_in 0xEE 0xEF a) \<and> cont b
         \<or> byte_in 0xED 0xED a \<and> byte_in 0x80 0x9F b) \<and> cont c
      | _ \<Rightarrow> False)"

definition utf8_four :: "char \<Rightarrow> string \<Rightarrow> bool" where
  "utf8_four a s \<longleftrightarrow>
     (case s of b # c # d # _ \<Rightarrow>
        (byte_in 0xF0 0xF0 a \<and> byte_in 0x90 0xBF b \<or> byte_in 0xF1 0xF3 a \<and> cont b
         \<or> byte_in 0xF4 0xF4 a \<and> byte_in 0x80 0x8F b) \<and> cont c \<and> cont d
      | _ \<Rightarrow> False)"

fun utf8_len :: "string \<Rightarrow> nat" where
  "utf8_len [] = 0"
| "utf8_len (a # s) =
     (if byte_in 0 0x7F a then 1
      else if utf8_two a s then 2
      else if utf8_three a s then 3
      else if utf8_four a s then 4
      else 0)"

function utf8_valid :: "string \<Rightarrow> bool" where
  "utf8_valid s =
     (if s = [] then True
      else if utf8_len s = 0 then False
      else utf8_valid (drop (utf8_len s) s))"
  by pat_completeness auto
termination
  by (relation "measure length") auto

declare utf8_valid.simps [simp del]

section \<open>Values and their encoding\<close>

datatype json =
    JNull
  | JBool bool
  | JInt int
  | JStr string
  | JTime gotime
  | JArr "json list"
  | JObj "(string \<times> json) list"

definition esc4 :: "int \<Rightarrow> string" where
  "esc4 n = CHR 0x5C # CHR ''u'' # hex_byte (n div 256) @ hex_byte (n mod 256)"

definition json_char :: "char \<Rightarrow> string" where
  "json_char c =
     (let n = (of_char c :: int) in
      if n = 0x22 \<or> n = 0x5C then [CHR 0x5C, c]
      else if n = 0x08 then [CHR 0x5C, CHR ''b'']
      else if n = 0x0C then [CHR 0x5C, CHR ''f'']
      else if n = 0x0A then [CHR 0x5C, CHR ''n'']
      else if n = 0x0D then [CHR 0x5C, CHR ''r'']
      else if n = 0x09 then [CHR 0x5C, CHR ''t'']
      else if n < 0x20 \<or> n = 0x3C \<or> n = 0x3E \<or> n = 0x26 then esc4 n
      else [c])"

function json_chars :: "string \<Rightarrow> string" where
  "json_chars s =
     (if s = [] then []
      else let n = utf8_len s in
        if n = 0 then esc4 0xFFFD @ json_chars (tl s)
        else if n = 1 then json_char (hd s) @ json_chars (tl s)
        else if take n s = [CHR 0xE2, CHR 0x80, CHR 0xA8] then esc4 0x2028 @ json_chars (drop n s)
        else if take n s = [CHR 0xE2, CHR 0x80, CHR 0xA9] then esc4 0x2029 @ json_chars (drop n s)
        else take n s @ json_chars (drop n s))"
  by pat_completeness auto
termination
  by (relation "measure length") (auto simp: Let_def)

declare json_chars.simps [simp del]

definition json_string :: "string \<Rightarrow> string" where
  "json_string s = CHR 0x22 # json_chars s @ [CHR 0x22]"

function dec_nat :: "int \<Rightarrow> string" where
  "dec_nat n = (if n < 10 then [char_of (48 + n)] else dec_nat (n div 10) @ [char_of (48 + n mod 10)])"
  by pat_completeness auto
termination
  by (relation "measure nat") auto

declare dec_nat.simps [simp del]

definition json_int :: "int \<Rightarrow> string" where
  "json_int n = (if n < 0 then CHR ''-'' # dec_nat (- n) else dec_nat n)"

text \<open>Decimal numbers are digits and a sign, and determine the number.\<close>

definition dec_value :: "string \<Rightarrow> int" where
  "dec_value s = fold (\<lambda>c v. 10 * v + (of_char c - 48)) s 0"

lemma dec_nat_props: "0 \<le> n \<Longrightarrow> dec_value (dec_nat n) = n \<and> (\<forall>c \<in> set (dec_nat n). byte_in 48 57 c)"
proof (induction n rule: dec_nat.induct)
  case (1 n)
  show ?case
  proof (cases "n < 10")
    case True
    with 1(2) show ?thesis by (subst (1 2) dec_nat.simps) (simp add: dec_value_def byte_in_def)
  next
    case False
    with 1 have "dec_value (dec_nat (n div 10)) = n div 10" "\<forall>c \<in> set (dec_nat (n div 10)). byte_in 48 57 c"
      by simp_all
    with False show ?thesis by (subst (1 2) dec_nat.simps) (simp add: dec_value_def byte_in_def)
  qed
qed

lemma json_int_chars: "c \<in> set (json_int n) \<Longrightarrow> c = CHR ''-'' \<or> byte_in 48 57 c"
  using dec_nat_props [of n] dec_nat_props [of "- n"] by (auto simp: json_int_def split: if_splits)

lemma json_int_inj:
  assumes "json_int a = json_int b" and "0 \<le> a" and "0 \<le> b"
  shows "a = b"
proof -
  have "dec_nat a = dec_nat b" using assms by (simp add: json_int_def)
  then have "dec_value (dec_nat a) = dec_value (dec_nat b)" by (rule arg_cong)
  then show ?thesis using dec_nat_props [OF assms(2)] dec_nat_props [OF assms(3)] by simp
qed

text \<open>The civil date of a day number (days since January 1 of year 1).\<close>

definition civil_of_days :: "int \<Rightarrow> int \<times> int \<times> int" where
  "civil_of_days days =
     (let z = days + 306; era = z div 146097; doe = z mod 146097;
          yoe = (doe - doe div 1460 + doe div 36524 - doe div 146096) div 365;
          doy = doe - (365 * yoe + yoe div 4 - yoe div 100);
          mp = (5 * doy + 2) div 153;
          d = doy - (153 * mp + 2) div 5 + 1;
          m = (if mp < 10 then mp + 3 else mp - 9)
      in (yoe + era * 400 + (if m \<le> 2 then 1 else 0), m, d))"

definition dec2 :: "int \<Rightarrow> string" where
  "dec2 n = [char_of (48 + n div 10 mod 10), char_of (48 + n mod 10)]"

definition dec4 :: "int \<Rightarrow> string" where
  "dec4 n = dec2 (n div 100) @ dec2 (n mod 100)"

definition dec9 :: "int \<Rightarrow> string" where
  "dec9 n = map (\<lambda>k. char_of (48 + n div k mod 10))
     [100000000, 10000000, 1000000, 100000, 10000, 1000, 100, 10, 1]"

definition time_fraction :: "int \<Rightarrow> string" where
  "time_fraction ns =
     (if ns = 0 then [] else CHR ''.'' # rev (dropWhile (\<lambda>c. c = CHR ''0'') (rev (dec9 ns))))"

definition json_time :: "gotime \<Rightarrow> string option" where
  "json_time t =
     (let ns = t mod 1000000000; secs = t div 1000000000; sod = secs mod 86400 in
      case civil_of_days (secs div 86400) of (y, m, d) \<Rightarrow>
        if y < 0 \<or> 9999 < y then None
        else Some (CHR 0x22 # dec4 y @ ''-'' @ dec2 m @ ''-'' @ dec2 d @ ''T'' @
               dec2 (sod div 3600) @ '':'' @ dec2 (sod div 60 mod 60) @ '':'' @ dec2 (sod mod 60) @
               time_fraction ns @ ''Z'' @ [CHR 0x22]))"

fun join_comma :: "string list \<Rightarrow> string" where
  "join_comma [] = []"
| "join_comma [s] = s"
| "join_comma (s # t # ts) = s @ CHR '','' # join_comma (t # ts)"

fun all_some :: "'a option list \<Rightarrow> 'a list option" where
  "all_some [] = Some []"
| "all_some (None # xs) = None"
| "all_some (Some x # xs) = map_option (Cons x) (all_some xs)"

fun marshal :: "json \<Rightarrow> string option" where
  "marshal JNull = Some ''null''"
| "marshal (JBool b) = Some (if b then ''true'' else ''false'')"
| "marshal (JInt n) = Some (json_int n)"
| "marshal (JStr s) = Some (json_string s)"
| "marshal (JTime t) = json_time t"
| "marshal (JArr vs) = map_option (\<lambda>ss. CHR ''['' # join_comma ss @ '']'') (all_some (map marshal vs))"
| "marshal (JObj fs) =
     map_option (\<lambda>ss. CHR ''{'' # join_comma ss @ ''}'')
       (all_some (map (\<lambda>(k, v). map_option (\<lambda>s. json_string k @ CHR '':'' # s) (marshal v)) fs))"

text \<open>Struct fields tagged \<open>omitempty\<close>.\<close>

definition omit_str :: "string \<Rightarrow> string \<Rightarrow> (string \<times> json) list" where
  "omit_str k s = (if s = [] then [] else [(k, JStr s)])"

definition omit_int :: "string \<Rightarrow> int option \<Rightarrow> (string \<times> json) list" where
  "omit_int k v = (case v of None \<Rightarrow> [] | Some n \<Rightarrow> [(k, JInt n)])"

definition omit_opt :: "string \<Rightarrow> json option \<Rightarrow> (string \<times> json) list" where
  "omit_opt k v = (case v of None \<Rightarrow> [] | Some j \<Rightarrow> [(k, j)])"

definition omit_list :: "string \<Rightarrow> json list \<Rightarrow> (string \<times> json) list" where
  "omit_list k vs = (if vs = [] then [] else [(k, JArr vs)])"

text \<open>A slice without \<open>omitempty\<close>: a nil slice (\<open>None\<close>) is \<open>null\<close>.\<close>

definition json_slice :: "('a \<Rightarrow> json) \<Rightarrow> 'a list option \<Rightarrow> json" where
  "json_slice f v = (case v of None \<Rightarrow> JNull | Some xs \<Rightarrow> JArr (map f xs))"

section \<open>Encodings hold no newline\<close>

lemma all_some_mem: "all_some xs = Some ys \<Longrightarrow> y \<in> set ys \<Longrightarrow> Some y \<in> set xs"
  by (induction xs arbitrary: ys rule: all_some.induct) auto

lemma set_join_comma: "c \<in> set (join_comma ss) \<Longrightarrow> c = CHR '','' \<or> (\<exists>s \<in> set ss. c \<in> set s)"
  by (induction ss rule: join_comma.induct) auto

lemma newline_hex_byte [simp]: "newline \<notin> set (hex_byte n)"
  using lower_hex_hex_byte lower_hex_not_special by blast

lemma newline_neq [simp]:
  "newline \<noteq> CHR 0x22" "newline \<noteq> CHR 0x5C" "newline \<noteq> CHR ''u''" "newline \<noteq> CHR ''b''"
  "newline \<noteq> CHR ''f''" "newline \<noteq> CHR ''n''" "newline \<noteq> CHR ''r''" "newline \<noteq> CHR ''t''"
  "newline \<noteq> CHR ''-''" "newline \<noteq> CHR ''.''" "newline \<noteq> CHR '':''" "newline \<noteq> CHR '',''"
  "newline \<noteq> CHR ''T''" "newline \<noteq> CHR ''Z''" "newline \<noteq> CHR ''{''" "newline \<noteq> CHR ''}''"
  "newline \<noteq> CHR ''[''" "newline \<noteq> CHR '']''" "newline \<noteq> CHR ''l''" "newline \<noteq> CHR ''e''"
  "newline \<noteq> CHR ''a''" "newline \<noteq> CHR ''s''"
  by (simp_all add: newline_def)

lemma newline_esc4 [simp]: "newline \<notin> set (esc4 n)"
  by (simp add: esc4_def)

lemma newline_json_char [simp]: "newline \<notin> set (json_char c)"
proof -
  have "newline \<noteq> c" if "(of_char c :: int) \<noteq> 0x0A"
    using that by (auto simp: newline_def)
  then show ?thesis
    by (simp add: json_char_def Let_def)
qed

definition high_byte :: "char \<Rightarrow> bool" where
  "high_byte c \<longleftrightarrow> 128 \<le> (of_char c :: int)"

lemma high_byte_newline: "high_byte c \<Longrightarrow> c \<noteq> newline"
  by (auto simp: high_byte_def newline_def)

lemma utf8_two_high: "utf8_two a s \<Longrightarrow> \<exists>b r. s = b # r \<and> high_byte a \<and> high_byte b"
  by (auto simp: utf8_two_def byte_in_def high_byte_def split: list.splits)

lemma utf8_three_high:
  "utf8_three a s \<Longrightarrow> \<exists>b c r. s = b # c # r \<and> high_byte a \<and> high_byte b \<and> high_byte c"
  by (auto simp: utf8_three_def byte_in_def high_byte_def split: list.splits)

lemma utf8_four_high:
  "utf8_four a s \<Longrightarrow>
     \<exists>b c d r. s = b # c # d # r \<and> high_byte a \<and> high_byte b \<and> high_byte c \<and> high_byte d"
  by (auto simp: utf8_four_def byte_in_def high_byte_def split: list.splits)

lemma utf8_multi_high:
  assumes "1 < utf8_len s" and "c \<in> set (take (utf8_len s) s)"
  shows "high_byte c"
  using assms
  by (cases s) (auto split: if_splits dest!: utf8_two_high utf8_three_high utf8_four_high)

lemma newline_utf8_multi: "1 < utf8_len s \<Longrightarrow> newline \<notin> set (take (utf8_len s) s)"
  using utf8_multi_high high_byte_newline by blast

lemma newline_json_chars [simp]: "newline \<notin> set (json_chars s)"
proof (induction s rule: json_chars.induct)
  case (1 s)
  show ?case
  proof (cases "s = []")
    case True
    then show ?thesis by (simp add: json_chars.simps)
  next
    case False
    have "utf8_len s = 0 \<or> utf8_len s = 1 \<or> 1 < utf8_len s" by arith
    with False 1 newline_utf8_multi [of s] show ?thesis
      by (subst json_chars.simps) (auto simp: Let_def)
  qed
qed

lemma newline_json_string [simp]: "newline \<notin> set (json_string s)"
  by (simp add: json_string_def)

lemma newline_char_of_digit: "0 \<le> n \<Longrightarrow> n < 10 \<Longrightarrow> char_of (48 + n) \<noteq> (newline :: char)" for n :: int
proof
  assume a: "0 \<le> n" "n < 10" and e: "char_of (48 + n) = newline"
  then have "of_char (char_of (48 + n) :: char) = (10 :: int)" by (simp add: newline_def)
  moreover have "of_char (char_of (48 + n) :: char) = (48 + n) mod 256" by simp
  ultimately show False using a by simp
qed

lemma newline_dec_nat [simp]: "0 \<le> n \<Longrightarrow> newline \<notin> set (dec_nat n)"
proof (induction n rule: dec_nat.induct)
  case (1 n)
  then show ?case
    using newline_char_of_digit [of n] newline_char_of_digit [of "n mod 10"]
    by (subst dec_nat.simps) auto
qed

lemma newline_json_int [simp]: "newline \<notin> set (json_int n)"
  using newline_dec_nat [of n] newline_dec_nat [of "- n"]
  by (simp add: json_int_def)

lemma newline_dec2 [simp]: "newline \<notin> set (dec2 n)"
  using newline_char_of_digit [of "n div 10 mod 10"] newline_char_of_digit [of "n mod 10"]
  by (auto simp: dec2_def)

lemma newline_dec4 [simp]: "newline \<notin> set (dec4 n)"
  by (simp add: dec4_def)

lemma newline_time_fraction [simp]: "newline \<notin> set (time_fraction n)"
proof -
  have "newline \<notin> set (dec9 n)"
    by (auto simp: dec9_def dest!: sym [of newline] simp: newline_char_of_digit)
  moreover have "set (dropWhile P (rev (dec9 n))) \<subseteq> set (dec9 n)" for P
    using set_dropWhileD by fastforce
  ultimately show ?thesis by (auto simp: time_fraction_def)
qed

lemma newline_json_time: "json_time t = Some s \<Longrightarrow> newline \<notin> set s"
  using newline_dec2 newline_dec4 newline_time_fraction
  by (auto simp: json_time_def Let_def split: prod.splits if_splits)

lemma newline_marshal: "marshal j = Some s \<Longrightarrow> newline \<notin> set s"
proof (induction j arbitrary: s rule: marshal.induct)
  case (6 vs)
  then obtain ss where "all_some (map marshal vs) = Some ss" and s: "s = CHR ''['' # join_comma ss @ '']''"
    by auto
  with 6 have "\<forall>x \<in> set ss. newline \<notin> set x"
    using all_some_mem by fastforce
  then show ?case
    using set_join_comma [of newline ss] by (auto simp: s)
next
  case (7 fs)
  let ?f = "\<lambda>(k, v). map_option (\<lambda>s. json_string k @ CHR '':'' # s) (marshal v)"
  from 7 obtain ss where ss: "all_some (map ?f fs) = Some ss" and s: "s = CHR ''{'' # join_comma ss @ ''}''"
    by auto
  have "newline \<notin> set x" if x: "x \<in> set ss" for x
  proof -
    from all_some_mem [OF ss x] obtain kv where "kv \<in> set fs" and "?f kv = Some x"
      by (metis (no_types, lifting) image_iff list.set_map)
    then obtain k v t where kv: "(k, v) \<in> set fs" and t: "marshal v = Some t"
      and x: "x = json_string k @ CHR '':'' # t"
      by (metis (no_types, lifting) case_prod_conv map_option_eq_Some surj_pair)
    have "newline \<notin> set t" using 7(1) [OF kv refl t] .
    then show ?thesis by (simp add: x)
  qed
  then show ?case
    using set_join_comma [of newline ss] by (auto simp: s)
qed (auto simp: newline_json_time)

section \<open>Objects whose last field is a digest\<close>

lemma json_chars_lower_hex: "\<forall>c \<in> set p. lower_hex c \<Longrightarrow> json_chars p = p"
proof (induction p)
  case Nil
  then show ?case by (simp add: json_chars.simps)
next
  case (Cons c p)
  then have c: "lower_hex c" by simp
  then have "byte_in 0 0x7F c" by (auto simp: byte_in_def lower_hex_def)
  then have "utf8_len (c # p) = 1" by simp
  moreover have "json_char c = [c]"
    using c by (auto simp: json_char_def lower_hex_def Let_def)
  ultimately show ?case
    using Cons by (subst json_chars.simps) simp
qed

lemma all_some_append:
  "all_some (xs @ ys) =
     (case all_some xs of None \<Rightarrow> None | Some as \<Rightarrow> map_option ((@) as) (all_some ys))"
  by (induction xs rule: all_some.induct)
    (cases "all_some ys", auto split: option.splits)+

lemma join_comma_snoc: "ss \<noteq> [] \<Longrightarrow> join_comma (ss @ [s]) = join_comma ss @ CHR '','' # s"
  by (induction ss rule: join_comma.induct) auto

lemma all_some_eq_Nil: "all_some xs = Some [] \<Longrightarrow> xs = []"
  by (induction xs rule: all_some.induct) auto

text \<open>What an object encodes to before the value of its last field.\<close>

definition object_head :: "(string \<times> json) list \<Rightarrow> string \<Rightarrow> string option" where
  "object_head fs k =
     map_option (\<lambda>ss. CHR ''{'' # join_comma ss @ CHR '','' # json_string k @ '':'')
       (all_some (map (\<lambda>(k, v). map_option (\<lambda>s. json_string k @ CHR '':'' # s) (marshal v)) fs))"

lemma marshal_object_last:
  assumes "marshal (JObj (fs @ [(k, JStr p)])) = Some x" and "fs \<noteq> []" and "\<forall>c \<in> set p. lower_hex c"
  shows "\<exists>h. object_head fs k = Some h \<and> x = h @ CHR 0x22 # p @ [CHR 0x22, CHR ''}'']"
proof -
  let ?f = "\<lambda>(k, v). map_option (\<lambda>s. json_string k @ CHR '':'' # s) (marshal v)"
  obtain ss where ss: "all_some (map ?f fs) = Some ss"
    and x: "x = CHR ''{'' # join_comma (ss @ [json_string k @ CHR '':'' # json_string p]) @ ''}''"
    using assms(1) by (auto simp: all_some_append split: option.splits)
  have "ss \<noteq> []"
    using ss assms(2) all_some_eq_Nil by fastforce
  with ss x assms(3) show ?thesis
    by (simp add: object_head_def join_comma_snoc json_string_def json_chars_lower_hex)
qed

end
