(* ===== verification/Hash_Chain.thy ===== *)
theory Hash_Chain
  imports Go_Json Go_Sha256
begin

text \<open>
  The contract that every append-only ledger of the program shares. A record carries an event and a
  SHA-256 digest over bytes that hold the event, its sequence number and the digest of the record
  before it. The locale \<open>hash_chain\<close> states what a ledger promises about these bytes (they determine
  the digest of the predecessor and the encoded event); the client lemmas proved in it say that two
  intact chains with the same last digest hold the same events, unless they exhibit a collision of
  SHA-256 on bytes that were really hashed. The evidence, review, promotion and rule approval
  ledgers interpret it.
\<close>

definition sha_collision_in :: "string set \<Rightarrow> string set \<Rightarrow> bool" where
  "sha_collision_in A B \<longleftrightarrow> (\<exists>x \<in> A. \<exists>y \<in> B. sha_collision x y)"

definition digest_or_empty :: "string \<Rightarrow> bool" where
  "digest_or_empty p \<longleftrightarrow> p = [] \<or> length p = 64 \<and> (\<forall>c \<in> set p. lower_hex c)"

lemma digest_or_empty_simps [simp]: "digest_or_empty []" "digest_or_empty (sha256_hex s)"
  by (simp_all add: digest_or_empty_def lower_hex_sha256_hex)

lemma digest_or_empty_lower_hex: "digest_or_empty p \<Longrightarrow> \<forall>c \<in> set p. lower_hex c"
  by (auto simp: digest_or_empty_def)

text \<open>A chain of (event, digest) pairs from sequence number \<open>n\<close> and predecessor digest \<open>p\<close>.\<close>

fun chain_from :: "(nat \<Rightarrow> 'e \<Rightarrow> string \<Rightarrow> string option) \<Rightarrow> nat \<Rightarrow> string \<Rightarrow> ('e \<times> string) list \<Rightarrow> bool" where
  "chain_from inp n p [] \<longleftrightarrow> True"
| "chain_from inp n p ((e, h) # rs) \<longleftrightarrow>
     (case inp n e p of None \<Rightarrow> False | Some x \<Rightarrow> h = sha256_hex x) \<and> chain_from inp (Suc n) h rs"

definition chain_last :: "string \<Rightarrow> ('e \<times> string) list \<Rightarrow> string" where
  "chain_last p rs = (if rs = [] then p else snd (last rs))"

text \<open>The byte strings that were hashed along a chain.\<close>

fun chain_inputs :: "(nat \<Rightarrow> 'e \<Rightarrow> string \<Rightarrow> string option) \<Rightarrow> nat \<Rightarrow> string \<Rightarrow> ('e \<times> string) list \<Rightarrow> string list" where
  "chain_inputs inp n p [] = []"
| "chain_inputs inp n p ((e, h) # rs) =
     (case inp n e p of None \<Rightarrow> [] | Some x \<Rightarrow> [x]) @ chain_inputs inp (Suc n) h rs"

lemma chain_last_snoc [simp]: "chain_last p (rs @ [(e, h)]) = h"
  by (simp add: chain_last_def)

lemma chain_last_Nil [simp]: "chain_last p [] = p"
  by (simp add: chain_last_def)

lemma chain_last_Cons [simp]: "chain_last p ((e, h) # rs) = chain_last h rs"
  by (simp add: chain_last_def)

lemma chain_from_append:
  "chain_from inp n p (rs @ qs) \<longleftrightarrow>
     chain_from inp n p rs \<and> chain_from inp (n + length rs) (chain_last p rs) qs"
  by (induction inp n p rs rule: chain_from.induct) auto

lemma chain_inputs_append:
  "chain_inputs inp n p (rs @ qs) =
     chain_inputs inp n p rs @ chain_inputs inp (n + length rs) (chain_last p rs) qs"
  by (induction inp n p rs rule: chain_inputs.induct) auto

lemma chain_from_snoc:
  "chain_from inp n p (rs @ [(e, h)]) \<longleftrightarrow>
     chain_from inp n p rs \<and>
     (\<exists>x. inp (n + length rs) e (chain_last p rs) = Some x \<and> h = sha256_hex x)"
  by (auto simp: chain_from_append split: option.splits)

lemma chain_from_last_digest:
  "chain_from inp n p rs \<Longrightarrow> digest_or_empty p \<Longrightarrow> digest_or_empty (chain_last p rs)"
  by (induction inp n p rs rule: chain_from.induct) (auto split: option.splits)

lemma chain_from_last_empty:
  "chain_from inp n [] rs \<Longrightarrow> chain_last [] rs = [] \<longleftrightarrow> rs = []"
  by (cases rs rule: rev_cases) (auto simp: chain_from_snoc)

locale hash_chain =
  fixes input :: "nat \<Rightarrow> 'e \<Rightarrow> string \<Rightarrow> string option"
    and content :: "nat \<Rightarrow> 'e \<Rightarrow> string option"
  assumes input_previous:
      "input n e p = Some x \<Longrightarrow> input n' e' p' = Some x \<Longrightarrow> digest_or_empty p \<Longrightarrow> digest_or_empty p'
        \<Longrightarrow> p = p'"
    and input_content:
      "input n e p = Some x \<Longrightarrow> input n' e' p = Some x \<Longrightarrow> digest_or_empty p
        \<Longrightarrow> content n e = content n' e'"
begin

definition contents :: "('e \<times> string) list \<Rightarrow> string option list" where
  "contents rs = map (\<lambda>(i, e). content (Suc i) e) (enumerate 0 (map fst rs))"

lemma contents_snoc: "contents (rs @ [(e, h)]) = contents rs @ [content (Suc (length rs)) e]"
  by (simp add: contents_def enumerate_append_eq)

text \<open>Two intact chains from the empty digest that end in the same digest.\<close>

lemma same_last_digest:
  assumes "chain_from input 1 [] rs" and "chain_from input 1 [] qs"
    and "chain_last [] rs = chain_last [] qs"
  shows "contents rs = contents qs \<or>
    (\<exists>x \<in> set (chain_inputs input 1 [] rs). \<exists>y \<in> set (chain_inputs input 1 [] qs). sha_collision x y)"
  using assms
proof (induction rs arbitrary: qs rule: rev_induct)
  case Nil
  then show ?case using chain_from_last_empty [of input 1 qs] by auto
next
  case (snoc r rs)
  obtain e h where r: "r = (e, h)" by fastforce
  have "qs \<noteq> []"
    using snoc.prems chain_from_last_empty [of input 1 "rs @ [r]"] by auto
  then obtain qs' f where qs: "qs = qs' @ [(f, h)]"
    using snoc.prems(3) r by (cases qs rule: rev_cases) auto
  from snoc.prems(1) r obtain x where rs: "chain_from input 1 [] rs"
    and x: "input (Suc (length rs)) e (chain_last [] rs) = Some x" "h = sha256_hex x"
    by (auto simp: chain_from_snoc)
  from snoc.prems(2) qs obtain y where qs': "chain_from input 1 [] qs'"
    and y: "input (Suc (length qs')) f (chain_last [] qs') = Some y" "h = sha256_hex y"
    by (auto simp: chain_from_snoc)
  show ?case
  proof (cases "x = y")
    case False
    then have "sha_collision x y" using x(2) y(2) by (simp add: sha_collision_def)
    then show ?thesis using x(1) y(1) by (auto simp: r qs chain_inputs_append)
  next
    case True
    have dig: "digest_or_empty (chain_last [] rs)" "digest_or_empty (chain_last [] qs')"
      using chain_from_last_digest [OF rs] chain_from_last_digest [OF qs'] by simp_all
    have last: "chain_last [] rs = chain_last [] qs'"
      using input_previous [OF x(1) _ dig] y(1) True by simp
    have "content (Suc (length rs)) e = content (Suc (length qs')) f"
      using input_content [OF x(1) _ dig(1)] y(1) True last by simp
    then show ?thesis
      using snoc.IH [OF rs qs' last] by (auto simp: r qs contents_snoc chain_inputs_append)
  qed
qed

text \<open>In particular the chains have the same length: records cannot be dropped from the front either.\<close>

lemma same_last_digest_length:
  assumes "chain_from input 1 [] rs" and "chain_from input 1 [] qs"
    and "chain_last [] rs = chain_last [] qs"
    and "\<not> (\<exists>x \<in> set (chain_inputs input 1 [] rs). \<exists>y \<in> set (chain_inputs input 1 [] qs). sha_collision x y)"
  shows "length rs = length qs"
proof -
  have "contents rs = contents qs" using same_last_digest [OF assms(1-3)] assms(4) by blast
  then have "length (contents rs) = length (contents qs)" by simp
  then show ?thesis by (simp add: contents_def)
qed

end

section \<open>Records hashed as a JSON envelope that ends with the previous digest\<close>

lemma envelope_previous:
  assumes x: "h @ CHR 0x22 # p @ [CHR 0x22, CHR ''}''] = h' @ CHR 0x22 # p' @ [CHR 0x22, CHR ''}'']"
    and p: "digest_or_empty p" and p': "digest_or_empty p'"
  shows "p = p'"
proof -
  have q: "CHR 0x22 \<notin> set p" "CHR 0x22 \<notin> set p'"
    using digest_or_empty_lower_hex [OF p] digest_or_empty_lower_hex [OF p'] lower_hex_not_special by blast+
  have e: "h @ CHR 0x22 # p = h' @ CHR 0x22 # p'" using x by simp
  have "rev (takeWhile (\<lambda>c. c \<noteq> CHR 0x22) (rev (h @ CHR 0x22 # p))) = p" if "CHR 0x22 \<notin> set p"
    for h p :: string
    using that by (simp add: takeWhile_tail takeWhile_append)
  with q e show ?thesis by metis
qed

definition envelope :: "(string \<times> json) list \<Rightarrow> string \<Rightarrow> string \<Rightarrow> string option" where
  "envelope fs k p = marshal (JObj (fs @ [(k, JStr p)]))"

lemma envelope_eqD:
  assumes "envelope fs k p = Some x" and "envelope fs' k p' = Some x" and "fs \<noteq> []" and "fs' \<noteq> []"
    and "digest_or_empty p" and "digest_or_empty p'"
  shows "p = p' \<and> object_head fs k = object_head fs' k"
proof -
  obtain h h' where h: "object_head fs k = Some h" "x = h @ CHR 0x22 # p @ [CHR 0x22, CHR ''}'']"
    and h': "object_head fs' k = Some h'" "x = h' @ CHR 0x22 # p' @ [CHR 0x22, CHR ''}'']"
    using assms marshal_object_last [of fs k p x] marshal_object_last [of fs' k p' x]
      digest_or_empty_lower_hex unfolding envelope_def by metis
  have "p = p'" using envelope_previous [of h p h' p'] h(2) h'(2) assms(5,6) by simp
  with h h' show ?thesis by simp
qed

end
