(* ===== verification/Ledger_Types.thy ===== *)
theory Ledger_Types
  imports Hash_Chain
begin

text \<open>
  The evidence ledger's data (\<open>internal/ledger/types.go\<close>), its JSON encoding, and the checks that
  \<open>validateEvent\<close> makes. Go's string types (agents, event kinds, statuses) are strings with named
  constants, so that a value outside the constants is a value of the model too; pointers are options;
  the 64-bit sizes and offsets are integers.
\<close>

section \<open>Constants\<close>

abbreviation SchemaVersionV1Alpha1 :: string where "SchemaVersionV1Alpha1 \<equiv> ''evidence-event/v1alpha1''"
abbreviation SchemaVersionV1Alpha2 :: string where "SchemaVersionV1Alpha2 \<equiv> ''evidence-event/v1alpha2''"
abbreviation SchemaVersion :: string where "SchemaVersion \<equiv> SchemaVersionV1Alpha2"

type_synonym agent = string

abbreviation AgentCodex :: agent where "AgentCodex \<equiv> ''codex''"
abbreviation AgentClaudeCode :: agent where "AgentClaudeCode \<equiv> ''claude_code''"
abbreviation AgentOpenCode :: agent where "AgentOpenCode \<equiv> ''opencode''"
abbreviation AgentDeepSeekHarness :: agent where "AgentDeepSeekHarness \<equiv> ''deepseek_harness''"
abbreviation AgentUnknown :: agent where "AgentUnknown \<equiv> ''unknown''"

type_synonym event_kind = string

abbreviation KindUserMessage :: event_kind where "KindUserMessage \<equiv> ''user_message''"
abbreviation KindReasoning :: event_kind where "KindReasoning \<equiv> ''reasoning''"
abbreviation KindToolResult :: event_kind where "KindToolResult \<equiv> ''tool_result''"
abbreviation KindFileChange :: event_kind where "KindFileChange \<equiv> ''file_change''"
abbreviation KindRetrieval :: event_kind where "KindRetrieval \<equiv> ''memory_retrieval''"
abbreviation KindGap :: event_kind where "KindGap \<equiv> ''gap''"

text \<open>The kinds of both schema versions, and those that only the second one has.\<close>

definition baseKinds :: "event_kind list" where
  "baseKinds =
     [KindUserMessage, ''agent_message'', KindReasoning, ''tool_call'', KindToolResult,
      ''approval'', KindFileChange, ''attachment'', ''subagent_event'', ''compaction'',
      ''system_event'', ''source_snapshot'', KindRetrieval, ''memory_injection'', ''memory_adoption'',
      ''evaluation_corpus'', ''evaluation_attestation'', ''task_attempt'', ''evaluation_run'',
      KindGap, ''unknown'']"

definition v1Alpha2Kinds :: "event_kind list" where
  "v1Alpha2Kinds =
     [''compaction_ground_truth'', ''evaluation_trial_plan'', ''task_execution_started'',
      ''task_execution_receipt'', ''episode_generation_attempt'', ''episode_generation'',
      ''task_attempt_contract'']"

abbreviation ReasoningRawExposed :: string where "ReasoningRawExposed \<equiv> ''raw_exposed''"
abbreviation ReasoningSummaryOnly :: string where "ReasoningSummaryOnly \<equiv> ''summary_only''"
abbreviation ReasoningEncryptedOpaque :: string where "ReasoningEncryptedOpaque \<equiv> ''encrypted_opaque''"
abbreviation ReasoningNotExposed :: string where "ReasoningNotExposed \<equiv> ''not_exposed''"

abbreviation CompletenessComplete :: string where "CompletenessComplete \<equiv> ''complete''"

section \<open>Records\<close>

record source =
  src_agent :: agent
  src_adapter :: string
  src_adapter_version :: string
  src_device_id :: string
  src_os :: string
  src_thread_id :: string
  src_session_id :: string
  src_source_event_id :: string
  src_source_path_hash :: string
  src_acquisition_path_hash :: string
  src_source_cursor :: string
  src_byte_start :: "int option"
  src_byte_end :: "int option"

record blob_ref =
  blob_sha256 :: string
  blob_size :: int
  blob_relative_path :: string

record payload =
  pl_encoding :: string
  pl_media_type :: string
  pl_content :: "string option"
  pl_blob :: "blob_ref option"
  pl_sha256 :: string
  pl_size :: int

record reasoning_capture =
  rc_visibility :: string
  rc_provider :: string
  rc_model :: string
  rc_note :: string

record completeness =
  cp_status :: string
  cp_reason :: string
  cp_expected_bytes :: "int option"
  cp_captured_bytes :: "int option"

record causality =
  ca_parent_event_ids :: "string list"
  ca_call_id :: string
  ca_compaction_id :: string

record event =
  ev_schema_version :: string
  ev_event_id :: string
  ev_kind :: event_kind
  ev_observed_at :: gotime
  ev_recorded_at :: gotime
  ev_source :: source
  ev_payload :: "payload option"
  ev_reasoning :: "reasoning_capture option"
  ev_completeness :: completeness
  ev_causality :: "causality option"
  ev_classification :: string

record ledger_record =
  lr_event :: event
  lr_previous :: string
  lr_hash :: string

section \<open>JSON\<close>

definition source_json :: "source \<Rightarrow> json" where
  "source_json s = JObj
     ([(''agent'', JStr (src_agent s)), (''adapter'', JStr (src_adapter s)),
       (''adapter_version'', JStr (src_adapter_version s)), (''device_id'', JStr (src_device_id s))] @
      omit_str ''os'' (src_os s) @
      [(''thread_id'', JStr (src_thread_id s))] @
      omit_str ''session_id'' (src_session_id s) @
      omit_str ''source_event_id'' (src_source_event_id s) @
      omit_str ''source_path_hash'' (src_source_path_hash s) @
      omit_str ''acquisition_path_hash'' (src_acquisition_path_hash s) @
      omit_str ''source_cursor'' (src_source_cursor s) @
      omit_int ''byte_start'' (src_byte_start s) @
      omit_int ''byte_end'' (src_byte_end s))"

definition blob_json :: "blob_ref \<Rightarrow> json" where
  "blob_json b = JObj
     [(''sha256'', JStr (blob_sha256 b)), (''bytes'', JInt (blob_size b)),
      (''relative_path'', JStr (blob_relative_path b))]"

definition payload_json :: "payload \<Rightarrow> json" where
  "payload_json p = JObj
     ([(''encoding'', JStr (pl_encoding p))] @
      omit_str ''media_type'' (pl_media_type p) @
      omit_opt ''content'' (map_option JStr (pl_content p)) @
      omit_opt ''blob'' (map_option blob_json (pl_blob p)) @
      [(''sha256'', JStr (pl_sha256 p)), (''bytes'', JInt (pl_size p))])"

definition reasoning_json :: "reasoning_capture \<Rightarrow> json" where
  "reasoning_json r = JObj
     ([(''visibility'', JStr (rc_visibility r))] @ omit_str ''provider'' (rc_provider r) @
      omit_str ''model'' (rc_model r) @ omit_str ''note'' (rc_note r))"

definition completeness_json :: "completeness \<Rightarrow> json" where
  "completeness_json c = JObj
     ([(''status'', JStr (cp_status c))] @ omit_str ''reason'' (cp_reason c) @
      omit_int ''expected_bytes'' (cp_expected_bytes c) @ omit_int ''captured_bytes'' (cp_captured_bytes c))"

definition causality_json :: "causality \<Rightarrow> json" where
  "causality_json c = JObj
     (omit_list ''parent_event_ids'' (map JStr (ca_parent_event_ids c)) @
      omit_str ''call_id'' (ca_call_id c) @ omit_str ''compaction_id'' (ca_compaction_id c))"

definition event_json :: "event \<Rightarrow> json" where
  "event_json e = JObj
     ([(''schema_version'', JStr (ev_schema_version e)), (''event_id'', JStr (ev_event_id e)),
       (''kind'', JStr (ev_kind e)), (''observed_at'', JTime (ev_observed_at e)),
       (''recorded_at'', JTime (ev_recorded_at e)), (''source'', source_json (ev_source e))] @
      omit_opt ''payload'' (map_option payload_json (ev_payload e)) @
      omit_opt ''reasoning'' (map_option reasoning_json (ev_reasoning e)) @
      [(''completeness'', completeness_json (ev_completeness e))] @
      omit_opt ''causality'' (map_option causality_json (ev_causality e)) @
      [(''privacy'', JObj [(''classification'', JStr (ev_classification e))])])"

definition ledger_record_json :: "ledger_record \<Rightarrow> json" where
  "ledger_record_json r = JObj
     [(''event'', event_json (lr_event r)), (''previous_record_hash'', JStr (lr_previous r)),
      (''record_hash'', JStr (lr_hash r))]"

section \<open>Digests and blob paths\<close>

definition ascii_lower :: "char \<Rightarrow> char" where
  "ascii_lower c =
     (if 65 \<le> (of_char c :: int) \<and> (of_char c :: int) \<le> 90 then char_of (of_char c + (32 :: int)) else c)"

definition hexDecodes :: "string \<Rightarrow> bool" where
  "hexDecodes s \<longleftrightarrow> even (length s) \<and>
     list_all (\<lambda>c. lower_hex c \<or> (65 \<le> (of_char c :: int) \<and> (of_char c :: int) \<le> 70)) s"

text \<open>
  A string with a byte outside ASCII never decodes, so lower-casing the ASCII letters is all that
  \<open>strings.ToLower\<close> can do to the outcome.
\<close>

definition validSHA256 :: "string \<Rightarrow> bool" where
  "validSHA256 value \<longleftrightarrow>
     \<not> (length value \<noteq> 32 * 2 \<or> value \<noteq> map ascii_lower value) \<and> hexDecodes value"

definition validPrefixedHash :: "string \<Rightarrow> string \<Rightarrow> bool" where
  "validPrefixedHash value p \<longleftrightarrow> hasPrefix value p \<and> validSHA256 (trimPrefix value p)"

definition expectedBlobRelativePath :: "string \<Rightarrow> string" where
  "expectedBlobRelativePath digest =
     (if \<not> validSHA256 digest then []
      else ''evidence/blobs/sha256/'' @ take 2 digest @ ''/'' @ drop 2 digest)"

definition InlinePayload :: "string \<Rightarrow> string \<Rightarrow> string \<Rightarrow> payload" where
  "InlinePayload encoding mediaType content =
     \<lparr>pl_encoding = encoding, pl_media_type = mediaType, pl_content = Some content, pl_blob = None,
      pl_sha256 = sha256_hex content, pl_size = int (length content)\<rparr>"

lemma ascii_lower_lower_hex: "lower_hex c \<Longrightarrow> ascii_lower c = c"
  by (auto simp: ascii_lower_def lower_hex_def)

lemma ascii_lower_fixed: "ascii_lower c = c \<Longrightarrow> \<not> (65 \<le> (of_char c :: int) \<and> (of_char c :: int) \<le> 90)"
proof
  assume e: "ascii_lower c = c" and r: "65 \<le> (of_char c :: int) \<and> (of_char c :: int) \<le> 90"
  then have "of_char (char_of (of_char c + (32 :: int)) :: char) = (of_char c :: int)"
    by (simp add: ascii_lower_def)
  then show False using r by simp
qed

lemma validSHA256_iff: "validSHA256 v \<longleftrightarrow> length v = 64 \<and> (\<forall>c \<in> set v. lower_hex c)"
proof
  assume v: "validSHA256 v"
  have "lower_hex c" if c: "c \<in> set v" for c
  proof -
    have "ascii_lower c = c"
      using v c by (auto simp: validSHA256_def) (metis c map_eq_conv map_idI list.map_id0 id_apply)
    then show ?thesis
      using ascii_lower_fixed [of c] v c by (auto simp: validSHA256_def hexDecodes_def list_all_iff)
  qed
  with v show "length v = 64 \<and> (\<forall>c \<in> set v. lower_hex c)" by (auto simp: validSHA256_def)
next
  assume v: "length v = 64 \<and> (\<forall>c \<in> set v. lower_hex c)"
  then have "map ascii_lower v = v" by (simp add: ascii_lower_lower_hex map_idI)
  with v show "validSHA256 v" by (auto simp: validSHA256_def hexDecodes_def list_all_iff)
qed

lemma validSHA256_sha256_hex [simp]: "validSHA256 (sha256_hex s)"
  by (simp add: validSHA256_iff lower_hex_sha256_hex)

lemma validSHA256_Nil [simp]: "\<not> validSHA256 []"
  by (simp add: validSHA256_iff)

lemma validSHA256_digest: "validSHA256 v \<Longrightarrow> digest_or_empty v"
  by (simp add: validSHA256_iff digest_or_empty_def)

lemma validPrefixedHash_append [simp]: "validPrefixedHash (p @ h) p \<longleftrightarrow> validSHA256 h"
  by (simp add: validPrefixedHash_def)

lemma validPrefixedHash_Nil [simp]: "\<not> validPrefixedHash [] p"
  by (simp add: validPrefixedHash_def hasPrefix_def trimPrefix_def)

text \<open>A content address determines the digest and the digest determines the address.\<close>

lemma expectedBlobRelativePath_inj:
  assumes "validSHA256 d" and "validSHA256 d'"
    and "expectedBlobRelativePath d = expectedBlobRelativePath d'"
  shows "d = d'"
proof -
  have "take 2 d @ ''/'' @ drop 2 d = take 2 d' @ ''/'' @ drop 2 d'"
    using assms by (simp add: expectedBlobRelativePath_def)
  moreover have "length (take 2 d) = length (take 2 d')"
    using assms by (simp add: validSHA256_iff)
  ultimately show ?thesis by (metis append_eq_append_conv append_take_drop_id append_Cons list.inject)
qed

section \<open>The checks on an event\<close>

definition validEventKindForVersion :: "string \<Rightarrow> event_kind \<Rightarrow> bool" where
  "validEventKindForVersion version kind =
     (let base = kind \<in> set baseKinds in
      if version = SchemaVersionV1Alpha1 then base
      else if version \<noteq> SchemaVersionV1Alpha2 then False
      else if base then True
      else kind \<in> set v1Alpha2Kinds)"

datatype event_error =
    UnsupportedSchema
  | IdAndKindRequired
  | TimesRequired
  | SourceRequired
  | SourcePathHash
  | AcquisitionPathHash
  | CompletenessRequired
  | PrivacyNotLocalOnly
  | ReasoningRequired
  | InvalidVisibility
  | PayloadNotExactlyOne
  | InlineShaMismatch
  | InlineByteMismatch
  | BlobMetadataMismatch
  | BlobPathMismatch
  | CompleteWithoutPayload
  | ReasonRequired

definition validateReasoning :: "event \<Rightarrow> event_error option" where
  "validateReasoning e =
     (if ev_kind e \<noteq> KindReasoning then None
      else case ev_reasoning e of
        None \<Rightarrow> Some ReasoningRequired
      | Some r \<Rightarrow>
          fail_if (rc_visibility r \<notin> {ReasoningRawExposed, ReasoningSummaryOnly,
                                    ReasoningEncryptedOpaque, ReasoningNotExposed}) InvalidVisibility)"

definition validatePayload :: "payload \<Rightarrow> event_error option" where
  "validatePayload p = first_error
     [fail_if ((pl_content p = None) = (pl_blob p = None)) PayloadNotExactlyOne,
      (case pl_content p of
         None \<Rightarrow> None
       | Some c \<Rightarrow> first_error
           [fail_if (pl_sha256 p \<noteq> sha256_hex c) InlineShaMismatch,
            fail_if (pl_size p \<noteq> int (length c)) InlineByteMismatch]),
      (case pl_blob p of
         None \<Rightarrow> None
       | Some b \<Rightarrow> first_error
           [fail_if (pl_sha256 p \<noteq> blob_sha256 b \<or> pl_size p \<noteq> blob_size b) BlobMetadataMismatch,
            fail_if (blob_relative_path b \<noteq> expectedBlobRelativePath (blob_sha256 b)) BlobPathMismatch])]"

definition validateEvent :: "event \<Rightarrow> event_error option" where
  "validateEvent e = first_error
     [fail_if (\<not> validEventKindForVersion (ev_schema_version e) (ev_kind e)) UnsupportedSchema,
      fail_if (ev_event_id e = [] \<or> ev_kind e = []) IdAndKindRequired,
      fail_if (isZeroTime (ev_observed_at e) \<or> isZeroTime (ev_recorded_at e)) TimesRequired,
      fail_if (let s = ev_source e in src_agent s = [] \<or> src_adapter s = [] \<or>
                 src_adapter_version s = [] \<or> src_device_id s = [] \<or> src_thread_id s = []) SourceRequired,
      fail_if (let h = src_source_path_hash (ev_source e) in h \<noteq> [] \<and> \<not> validSHA256 h) SourcePathHash,
      fail_if (let h = src_acquisition_path_hash (ev_source e) in h \<noteq> [] \<and> \<not> validSHA256 h)
        AcquisitionPathHash,
      fail_if (cp_status (ev_completeness e) = []) CompletenessRequired,
      fail_if (ev_classification e \<noteq> ''local_only'') PrivacyNotLocalOnly,
      validateReasoning e,
      (case ev_payload e of None \<Rightarrow> None | Some p \<Rightarrow> validatePayload p),
      fail_if (cp_status (ev_completeness e) = CompletenessComplete \<and> ev_payload e = None)
        CompleteWithoutPayload,
      fail_if (cp_status (ev_completeness e) \<noteq> CompletenessComplete \<and> blank (cp_reason (ev_completeness e)))
        ReasonRequired]"

lemma validatePayload_content:
  assumes "validatePayload p = None"
  shows "(\<exists>c. pl_content p = Some c \<and> pl_blob p = None \<and> pl_sha256 p = sha256_hex c \<and> pl_size p = int (length c))
       \<or> (\<exists>b. pl_content p = None \<and> pl_blob p = Some b \<and> pl_sha256 p = blob_sha256 b \<and>
             pl_size p = blob_size b \<and> blob_relative_path b = expectedBlobRelativePath (blob_sha256 b))"
  using assms by (auto simp: validatePayload_def split: option.splits)

lemma validateEvent_payload:
  "validateEvent e = None \<Longrightarrow> ev_payload e = Some p \<Longrightarrow> validatePayload p = None"
  by (simp add: validateEvent_def)

text \<open>Every valid event says whether it is complete, and an incomplete one says why.\<close>

lemma validateEvent_gap:
  assumes "validateEvent e = None"
  shows "(cp_status (ev_completeness e) = CompletenessComplete \<longrightarrow> ev_payload e \<noteq> None) \<and>
         (cp_status (ev_completeness e) \<noteq> CompletenessComplete \<longrightarrow> \<not> blank (cp_reason (ev_completeness e)))"
  using assms by (auto simp: validateEvent_def)

text \<open>The payload built by \<open>InlinePayload\<close> passes the payload checks.\<close>

lemma validatePayload_InlinePayload [simp]: "validatePayload (InlinePayload enc mt c) = None"
  by (simp add: validatePayload_def InlinePayload_def)

end
