(* ===== verification/Ledger.thy ===== *)
theory Ledger
  imports Ledger_Types
begin

text \<open>
  The evidence store (\<open>internal/ledger/ledger.go\<close>, \<open>pathguard.go\<close>): the guard that keeps raw
  evidence outside Git worktrees, content-addressed blobs, the exclusive writer lock, the appender
  with its batch writes, and the three readers of the chain (\<open>lastRecordHash\<close>, \<open>visitRecords\<close>,
  \<open>VerifyReader\<close>). \<open>json.Unmarshal\<close> into a \<open>Record\<close> is the argument \<open>dec\<close> of the readers.
  Every system call that can fail has an argument that says whether it does.
\<close>

section \<open>The path guard\<close>

text \<open>A clean absolute path is the list of its names; the root directory is the empty list.\<close>

type_synonym path = "string list"

datatype stat_result = StatOk | StatNotExist | StatError

record filesystem =
  fs_lstat :: "path \<Rightarrow> stat_result"
  fs_eval_symlinks :: "path \<Rightarrow> path option"

datatype guard_error = ResolveFailed | InGitWorktree | InspectFailed

text \<open>
  The current path is held in reverse, so that \<open>filepath.Dir\<close> is the tail; the root is its own
  parent, which ends both loops.
\<close>

fun resolveProjected :: "filesystem \<Rightarrow> path \<Rightarrow> path \<Rightarrow> path option" where
  "resolveProjected fs [] missing =
     (if fs_lstat fs [] = StatOk then map_option (\<lambda>r. r @ missing) (fs_eval_symlinks fs []) else None)"
| "resolveProjected fs (c # cs) missing =
     (case fs_lstat fs (rev (c # cs)) of
        StatOk \<Rightarrow> map_option (\<lambda>r. r @ missing) (fs_eval_symlinks fs (rev (c # cs)))
      | StatNotExist \<Rightarrow> resolveProjected fs cs (c # missing)
      | StatError \<Rightarrow> None)"

definition resolveProjectedPath :: "filesystem \<Rightarrow> path \<Rightarrow> path option" where
  "resolveProjectedPath fs p = resolveProjected fs (rev p) []"

fun outsideGit :: "filesystem \<Rightarrow> path \<Rightarrow> guard_error option" where
  "outsideGit fs [] =
     (case fs_lstat fs [''.git''] of
        StatOk \<Rightarrow> Some InGitWorktree | StatError \<Rightarrow> Some InspectFailed | StatNotExist \<Rightarrow> None)"
| "outsideGit fs (c # cs) =
     (case fs_lstat fs (rev (c # cs) @ [''.git'']) of
        StatOk \<Rightarrow> Some InGitWorktree | StatError \<Rightarrow> Some InspectFailed
      | StatNotExist \<Rightarrow> outsideGit fs cs)"

definition ensureEvidenceRootOutsideGit :: "filesystem \<Rightarrow> path \<Rightarrow> guard_error option" where
  "ensureEvidenceRootOutsideGit fs root =
     (case resolveProjectedPath fs root of
        None \<Rightarrow> Some ResolveFailed
      | Some projected \<Rightarrow> outsideGit fs (rev projected))"

lemma outsideGit_None:
  "outsideGit fs cs = None \<longleftrightarrow>
     (\<forall>n \<le> length cs. fs_lstat fs (rev (drop n cs) @ [''.git'']) = StatNotExist)"
proof (induction cs)
  case Nil
  then show ?case by (auto split: stat_result.splits)
next
  case (Cons c cs)
  have "(\<forall>n \<le> length (c # cs). P (drop n (c # cs))) \<longleftrightarrow>
      P (c # cs) \<and> (\<forall>n \<le> length cs. P (drop n cs))" for P
    by (metis drop0 drop_Suc_Cons length_Cons le0 not0_implies_Suc Suc_le_mono)
  from this [of "\<lambda>p. fs_lstat fs (rev p @ [''.git'']) = StatNotExist"] Cons show ?case
    by (auto split: stat_result.splits)
qed

section \<open>The store\<close>

record evidence_store =
  st_root :: path
  st_device_id :: string
  st_manifest :: os_file
  st_events :: os_file
  st_writer_lock :: bool
  st_blobs :: "string \<Rightarrow> os_file"

section \<open>Identity of a store\<close>

abbreviation storeSchema :: string where "storeSchema \<equiv> ''agent-memory-store/v1alpha1''"

record store_manifest =
  sm_schema_version :: string
  sm_device_id :: string
  sm_created_at :: gotime

datatype manifest_error = ManifestRead | ManifestDecode | ManifestSchema | ManifestNoDevice

text \<open>\<open>dec\<close> is \<open>json.Unmarshal\<close> into a \<open>storeManifest\<close>; the result is the device id that the store takes.\<close>

definition validateManifest :: "(string \<Rightarrow> store_manifest option) \<Rightarrow> os_file \<Rightarrow> manifest_error + string" where
  "validateManifest dec f =
     (case f of
        Readable b failed \<Rightarrow>
          if failed then Inl ManifestRead
          else (case dec b of
                  None \<Rightarrow> Inl ManifestDecode
                | Some m \<Rightarrow>
                    if sm_schema_version m \<noteq> storeSchema then Inl ManifestSchema
                    else if blank (sm_device_id m) then Inl ManifestNoDevice
                    else Inr (sm_device_id m))
      | _ \<Rightarrow> Inl ManifestRead)"

text \<open>The random bytes are an argument.\<close>

definition newDeviceID :: "string \<Rightarrow> string" where
  "newDeviceID random = ''device-'' @ hexEncode random"

fun hex_nat :: "nat \<Rightarrow> string" where
  "hex_nat n = (if n < 16 then [hex_digit (int n)] else hex_nat (n div 16) @ [hex_digit (int n mod 16)])"

declare hex_nat.simps [simp del]

definition hex_padded :: "nat \<Rightarrow> int \<Rightarrow> string" where
  "hex_padded w n =
     (let digits = hex_nat (nat \<bar>n\<bar>); w' = (if n < 0 then w - 1 else w)
      in (if n < 0 then ''-'' else []) @ replicate (w' - length digits) (CHR ''0'') @ digits)"

definition unixMilli :: "gotime \<Rightarrow> int" where
  "unixMilli t = t div 1000000 - 62135596800000"

definition NewEventID :: "gotime \<Rightarrow> string \<Rightarrow> string" where
  "NewEventID now random = hex_padded 16 (unixMilli now) @ ''-'' @ hexEncode random"

datatype init_fault = IMkdir | IRandom | ICreate | IWrite nat | ISync | IClose

datatype init_error =
    RootRequired
  | RootUnresolved
  | InitGuard guard_error
  | InitFault init_fault
  | InitManifest manifest_error

text \<open>
  \<open>absolute\<close> is \<open>filepath.Abs\<close>, \<open>enc\<close> the indenting JSON encoder of the manifest. The manifest is created
  exclusively, so that an existing one is kept.
\<close>

definition Init ::
  "(string \<Rightarrow> path option) \<Rightarrow> filesystem \<Rightarrow> init_fault option \<Rightarrow> string \<Rightarrow> gotime
    \<Rightarrow> (store_manifest \<Rightarrow> string) \<Rightarrow> (string \<Rightarrow> store_manifest option) \<Rightarrow> string
    \<Rightarrow> evidence_store \<Rightarrow> evidence_store \<times> (init_error + string)" where
  "Init absolute fs fault random now enc dec root s =
     (if blank root then (s, Inl RootRequired)
      else case absolute root of
        None \<Rightarrow> (s, Inl RootUnresolved)
      | Some p \<Rightarrow>
          (case ensureEvidenceRootOutsideGit fs p of
             Some g \<Rightarrow> (s, Inl (InitGuard g))
           | None \<Rightarrow>
               if fault = Some IMkdir \<or> fault = Some IRandom then (s, Inl (InitFault (the fault)))
               else
                 (let data = enc \<lparr>sm_schema_version = storeSchema, sm_device_id = newDeviceID random,
                                  sm_created_at = now\<rparr>;
                      created = (if st_manifest s \<noteq> NotExist then (s, None)
                                 else (case fault of
                                         Some ICreate \<Rightarrow> (s, fault)
                                       | Some (IWrite n) \<Rightarrow>
                                           (s\<lparr>st_manifest := Readable (take n data) False\<rparr>, fault)
                                       | _ \<Rightarrow> (s\<lparr>st_manifest := Readable data False\<rparr>, fault)))
                  in case created of
                       (s', Some f) \<Rightarrow> (s', Inl (InitFault f))
                     | (s', None) \<Rightarrow>
                         (case validateManifest dec (st_manifest s') of
                            Inl e \<Rightarrow> (s', Inl (InitManifest e))
                          | Inr d \<Rightarrow> (s'\<lparr>st_root := p, st_device_id := d\<rparr>, Inr d)))))"

definition Open ::
  "(string \<Rightarrow> path option) \<Rightarrow> filesystem \<Rightarrow> (string \<Rightarrow> store_manifest option) \<Rightarrow> string
    \<Rightarrow> evidence_store \<Rightarrow> evidence_store \<times> (init_error + string)" where
  "Open absolute fs dec root s =
     (case absolute root of
        None \<Rightarrow> (s, Inl RootUnresolved)
      | Some p \<Rightarrow>
          (case ensureEvidenceRootOutsideGit fs p of
             Some g \<Rightarrow> (s, Inl (InitGuard g))
           | None \<Rightarrow>
               (case validateManifest dec (st_manifest s) of
                  Inl e \<Rightarrow> (s, Inl (InitManifest e))
                | Inr d \<Rightarrow> (s\<lparr>st_root := p, st_device_id := d\<rparr>, Inr d))))"

definition ValidateLocation :: "filesystem \<Rightarrow> 'a evidence_store_scheme \<Rightarrow> guard_error option" where
  "ValidateLocation fs s = ensureEvidenceRootOutsideGit fs (st_root s)"

section \<open>Blobs\<close>

datatype blob_issue =
  UnsafeBlobPath | BlobUnavailable | BlobUnreadable | BlobSizeMismatch | BlobShaMismatch

definition verifyBlob :: "'a evidence_store_scheme \<Rightarrow> blob_ref \<Rightarrow> blob_issue option" where
  "verifyBlob s b =
     (if blob_relative_path b \<noteq> expectedBlobRelativePath (blob_sha256 b) then Some UnsafeBlobPath
      else case st_blobs s (blob_relative_path b) of
        NotExist \<Rightarrow> Some BlobUnavailable
      | OpenFails \<Rightarrow> Some BlobUnavailable
      | Readable c failed \<Rightarrow>
          if failed then Some BlobUnreadable
          else if int (length c) \<noteq> blob_size b then Some BlobSizeMismatch
          else if sha256_hex c \<noteq> blob_sha256 b then Some BlobShaMismatch
          else None)"

definition OpenBlob :: "'a evidence_store_scheme \<Rightarrow> blob_ref \<Rightarrow> blob_issue + os_file" where
  "OpenBlob s b =
     (if blob_relative_path b \<noteq> expectedBlobRelativePath (blob_sha256 b) then Inl UnsafeBlobPath
      else case st_blobs s (blob_relative_path b) of
        Readable c failed \<Rightarrow> Inr (Readable c failed)
      | _ \<Rightarrow> Inl BlobUnavailable)"

datatype put_fault = PMkdirTemp | PCreateTemp | PCopy | PSync | PClose | PMkdirTarget | PStat | PRename

datatype put_error = PutGuard guard_error | PutFault put_fault | PutIssue blob_issue

text \<open>
  \<open>PutBlob\<close> writes a temporary file, which it removes on every path but the rename, and commits it
  under its content address unless that exists already.
\<close>

definition PutBlob ::
  "filesystem \<Rightarrow> put_fault option \<Rightarrow> string \<Rightarrow> 'a evidence_store_scheme
    \<Rightarrow> 'a evidence_store_scheme \<times> (put_error + blob_ref)" where
  "PutBlob fs fault content s =
     (case ensureEvidenceRootOutsideGit fs (st_root s) of
        Some g \<Rightarrow> (s, Inl (PutGuard g))
      | None \<Rightarrow>
          (case fault of
             Some PMkdirTemp \<Rightarrow> (s, Inl (PutFault PMkdirTemp))
           | Some PCreateTemp \<Rightarrow> (s, Inl (PutFault PCreateTemp))
           | Some PCopy \<Rightarrow> (s, Inl (PutFault PCopy))
           | Some PSync \<Rightarrow> (s, Inl (PutFault PSync))
           | Some PClose \<Rightarrow> (s, Inl (PutFault PClose))
           | Some PMkdirTarget \<Rightarrow> (s, Inl (PutFault PMkdirTarget))
           | Some PStat \<Rightarrow> (s, Inl (PutFault PStat))
           | _ \<Rightarrow>
               (let digest = sha256_hex content;
                    relative = expectedBlobRelativePath digest;
                    ref = \<lparr>blob_sha256 = digest, blob_size = int (length content),
                           blob_relative_path = relative\<rparr>
                in if st_blobs s relative = NotExist \<and> fault = Some PRename
                   then (s, Inl (PutFault PRename))
                   else let s' = (if st_blobs s relative = NotExist
                                  then s\<lparr>st_blobs := (st_blobs s)(relative := Readable content False)\<rparr>
                                  else s)
                        in case verifyBlob s' ref of
                             Some i \<Rightarrow> (s', Inl (PutIssue i))
                           | None \<Rightarrow> (s', Inr ref))))"

section \<open>Records and the chain\<close>

definition record_input :: "event \<Rightarrow> string \<Rightarrow> string option" where
  "record_input e previous = map_option (\<lambda>j. previous @ CHR 0x00 # j) (marshal (event_json e))"

definition makeRecord :: "event \<Rightarrow> string \<Rightarrow> ledger_record option" where
  "makeRecord e previous =
     map_option (\<lambda>x. \<lparr>lr_event = e, lr_previous = previous, lr_hash = sha256_hex x\<rparr>)
       (record_input e previous)"

datatype chain_error = InvalidEvent event_error | HashFailed | IntegrityFailure

text \<open>The body of the loop that \<open>lastRecordHash\<close> and \<open>visitRecords\<close> share: validate, rehash, compare.\<close>

definition check_record :: "ledger_record \<Rightarrow> string \<Rightarrow> chain_error option" where
  "check_record r previous =
     (case validateEvent (lr_event r) of
        Some e \<Rightarrow> Some (InvalidEvent e)
      | None \<Rightarrow>
          (case makeRecord (lr_event r) previous of
             None \<Rightarrow> Some HashFailed
           | Some expected \<Rightarrow>
               fail_if (lr_previous r \<noteq> previous \<or> lr_hash r \<noteq> lr_hash expected) IntegrityFailure))"

definition last_step :: "ledger_record \<Rightarrow> string \<Rightarrow> chain_error + string" where
  "last_step r prev = (case check_record r prev of Some e \<Rightarrow> Inl e | None \<Rightarrow> Inr (lr_hash r))"

definition lastRecordHash ::
  "(string \<Rightarrow> ledger_record option) \<Rightarrow> os_file \<Rightarrow> chain_error log_error + string" where
  "lastRecordHash dec f =
     (case replay_log dec last_step f [] of (prev, None) \<Rightarrow> Inr prev | (_, Some e) \<Rightarrow> Inl e)"

datatype 'x visit_error = ChainError chain_error | VisitorError 'x

definition visit_step ::
  "(ledger_record \<Rightarrow> 'v \<Rightarrow> 'x + 'v) \<Rightarrow> ledger_record \<Rightarrow> string \<times> 'v \<Rightarrow> 'x visit_error + (string \<times> 'v)" where
  "visit_step visitor r = (\<lambda>(previous, v).
     case check_record r previous of
       Some e \<Rightarrow> Inl (ChainError e)
     | None \<Rightarrow>
         (case visitor r v of Inl x \<Rightarrow> Inl (VisitorError x) | Inr v' \<Rightarrow> Inr (lr_hash r, v')))"

text \<open>
  The visitor is a closure; \<open>v\<close> is the state it has captured, which it keeps on an error too.
\<close>

definition visitRecords ::
  "(string \<Rightarrow> ledger_record option) \<Rightarrow> (ledger_record \<Rightarrow> 'v \<Rightarrow> 'x + 'v) \<Rightarrow> os_file \<Rightarrow> 'v
    \<Rightarrow> 'v \<times> ('x visit_error log_error + string)" where
  "visitRecords dec visitor f v =
     (case replay_log dec (visit_step visitor) f ([], v) of
        ((previous, v'), None) \<Rightarrow> (v', Inr previous)
      | ((_, v'), Some e) \<Rightarrow> (v', Inl e))"

section \<open>Verification of a stream\<close>

datatype verify_issue =
    VOpen
  | VIncomplete nat
  | VDecode nat
  | VEvent nat event_error
  | VHash nat
  | VPrevious nat
  | VRecordHash nat
  | VBlob nat blob_issue
  | VRead

record verification_report =
  vr_records :: int
  vr_blobs :: int
  vr_last :: string
  vr_issues :: "verify_issue list"

definition empty_report :: verification_report where
  "empty_report = \<lparr>vr_records = 0, vr_blobs = 0, vr_last = [], vr_issues = []\<rparr>"

definition add_issues :: "verify_issue list \<Rightarrow> verification_report \<Rightarrow> verification_report" where
  "add_issues is rep = rep\<lparr>vr_issues := vr_issues rep @ is\<rparr>"

definition issue_if :: "bool \<Rightarrow> verify_issue \<Rightarrow> verify_issue list" where
  "issue_if b i = (if b then [i] else [])"

text \<open>
  One decoded line: the event and hash issues are collected and the loop goes on; the flag says
  whether it breaks (the event cannot be hashed).
\<close>

definition verify_record ::
  "(blob_ref \<Rightarrow> blob_issue option) \<Rightarrow> nat \<Rightarrow> ledger_record \<Rightarrow> string \<Rightarrow> verification_report
    \<Rightarrow> bool \<times> verification_report" where
  "verify_record vb n r previous rep =
     (let rep1 = add_issues (case validateEvent (lr_event r) of None \<Rightarrow> [] | Some e \<Rightarrow> [VEvent n e]) rep
      in case makeRecord (lr_event r) previous of
           None \<Rightarrow> (True, add_issues [VHash n] rep1)
         | Some expected \<Rightarrow>
             (let rep2 = add_issues
                    (issue_if (lr_previous r \<noteq> previous) (VPrevious n) @
                     issue_if (lr_hash r \<noteq> lr_hash expected) (VRecordHash n)) rep1;
                  rep3 = (case ev_payload (lr_event r) of
                            None \<Rightarrow> rep2
                          | Some p \<Rightarrow>
                              (case pl_blob p of
                                 None \<Rightarrow> rep2
                               | Some b \<Rightarrow>
                                   add_issues (case vb b of None \<Rightarrow> [] | Some i \<Rightarrow> [VBlob n i])
                                     (rep2\<lparr>vr_blobs := vr_blobs rep2 + 1\<rparr>)))
              in (False, rep3\<lparr>vr_records := vr_records rep3 + 1, vr_last := lr_hash r\<rparr>)))"

text \<open>The result's flag says whether the loop broke out before the end of the lines.\<close>

fun verify_lines ::
  "(string \<Rightarrow> ledger_record option) \<Rightarrow> (blob_ref \<Rightarrow> blob_issue option) \<Rightarrow> nat \<Rightarrow> string list
    \<Rightarrow> string \<Rightarrow> verification_report \<Rightarrow> bool \<times> verification_report" where
  "verify_lines dec vb n [] previous rep = (False, rep)"
| "verify_lines dec vb n (l # ls) previous rep =
     (case dec (line_payload l) of
        None \<Rightarrow> (True, add_issues [VDecode n] rep)
      | Some r \<Rightarrow>
          (case verify_record vb n r previous rep of
             (True, rep') \<Rightarrow> (True, rep')
           | (False, rep') \<Rightarrow> verify_lines dec vb (Suc n) ls (lr_hash r) rep'))"

definition VerifyReader ::
  "(string \<Rightarrow> ledger_record option) \<Rightarrow> (blob_ref \<Rightarrow> blob_issue option) \<Rightarrow> string \<Rightarrow> bool
    \<Rightarrow> verification_report" where
  "VerifyReader dec vb bytes failed =
     (case split_lines bytes of (ls, rest) \<Rightarrow>
        (case verify_lines dec vb 1 ls [] empty_report of
           (True, rep) \<Rightarrow> rep
         | (False, rep) \<Rightarrow>
             if rest \<noteq> [] then add_issues [VIncomplete (Suc (length ls))] rep
             else if failed then add_issues [VRead] rep
             else rep))"

definition Verify :: "(string \<Rightarrow> ledger_record option) \<Rightarrow> 'a evidence_store_scheme \<Rightarrow> verification_report" where
  "Verify dec s =
     (case st_events s of
        NotExist \<Rightarrow> empty_report
      | OpenFails \<Rightarrow> add_issues [VOpen] empty_report
      | Readable bytes failed \<Rightarrow> VerifyReader dec (verifyBlob s) bytes failed)"

section \<open>Writer lock and appender\<close>

record appender =
  ap_previous :: string
  ap_failed :: bool
  ap_closed :: bool

datatype open_error =
    OpenGuard guard_error
  | OpenLock lock_error
  | OpenMkdir
  | OpenTail "chain_error log_error"
  | OpenFile

text \<open>
  The faults of opening an appender: the lock's, a failing directory creation, a failing open, and
  whether the release of the lock after such an error works.
\<close>

record open_faults =
  of_lock :: "lock_fault option"
  of_mkdir :: bool
  of_open :: bool
  of_release_ok :: bool

definition no_open_faults :: open_faults where
  "no_open_faults = \<lparr>of_lock = None, of_mkdir = False, of_open = False, of_release_ok = True\<rparr>"

definition acquireWriterLock ::
  "lock_fault option \<Rightarrow> 'a evidence_store_scheme \<Rightarrow> 'a evidence_store_scheme \<times> lock_error option" where
  "acquireWriterLock fault s =
     (case acquire_lock fault (st_writer_lock s) of (held, e) \<Rightarrow> (s\<lparr>st_writer_lock := held\<rparr>, e))"

definition releaseWriterLock :: "bool \<Rightarrow> 'a evidence_store_scheme \<Rightarrow> 'a evidence_store_scheme" where
  "releaseWriterLock ok s = (if ok then s\<lparr>st_writer_lock := False\<rparr> else s)"

definition openAppenderAt ::
  "open_faults \<Rightarrow> string \<Rightarrow> 'a evidence_store_scheme
    \<Rightarrow> 'a evidence_store_scheme \<times> (open_error + appender)" where
  "openAppenderAt faults previous s =
     (if of_mkdir faults then (releaseWriterLock (of_release_ok faults) s, Inl OpenMkdir)
      else if of_open faults \<or> st_events s = OpenFails
        then (releaseWriterLock (of_release_ok faults) s, Inl OpenFile)
      else (s\<lparr>st_events := (if st_events s = NotExist then Readable [] False else st_events s)\<rparr>,
            Inr \<lparr>ap_previous = previous, ap_failed = False, ap_closed = False\<rparr>))"

definition NewAppender ::
  "(string \<Rightarrow> ledger_record option) \<Rightarrow> filesystem \<Rightarrow> open_faults \<Rightarrow> 'a evidence_store_scheme
    \<Rightarrow> 'a evidence_store_scheme \<times> (open_error + appender)" where
  "NewAppender dec fs faults s =
     (case ensureEvidenceRootOutsideGit fs (st_root s) of
        Some g \<Rightarrow> (s, Inl (OpenGuard g))
      | None \<Rightarrow>
          (case acquireWriterLock (of_lock faults) s of
             (s1, Some e) \<Rightarrow> (s1, Inl (OpenLock e))
           | (s1, None) \<Rightarrow>
               if of_mkdir faults then (releaseWriterLock (of_release_ok faults) s1, Inl OpenMkdir)
               else (case lastRecordHash dec (st_events s1) of
                       Inl e \<Rightarrow> (releaseWriterLock (of_release_ok faults) s1, Inl (OpenTail e))
                     | Inr previous \<Rightarrow> openAppenderAt faults previous s1)))"

text \<open>
  \<open>NewAppenderAfterVisit\<close> shows every record to the visitor before it opens at the verified tail. \<open>v\<close> is
  the state that the visitor's closure captures.
\<close>

datatype 'x visit_open_error = VisitOpen open_error | VisitFailed "'x visit_error log_error"

definition NewAppenderAfterVisit ::
  "(string \<Rightarrow> ledger_record option) \<Rightarrow> filesystem \<Rightarrow> open_faults
    \<Rightarrow> (ledger_record \<Rightarrow> 'v \<Rightarrow> 'x + 'v) \<Rightarrow> 'v \<Rightarrow> 'a evidence_store_scheme
    \<Rightarrow> 'a evidence_store_scheme \<times> 'v \<times> ('x visit_open_error + appender)" where
  "NewAppenderAfterVisit dec fs faults visitor v s =
     (case ensureEvidenceRootOutsideGit fs (st_root s) of
        Some g \<Rightarrow> (s, v, Inl (VisitOpen (OpenGuard g)))
      | None \<Rightarrow>
          (case acquireWriterLock (of_lock faults) s of
             (s1, Some e) \<Rightarrow> (s1, v, Inl (VisitOpen (OpenLock e)))
           | (s1, None) \<Rightarrow>
               (case visitRecords dec visitor (st_events s1) v of
                  (v', Inl e) \<Rightarrow> (releaseWriterLock (of_release_ok faults) s1, v', Inl (VisitFailed e))
                | (v', Inr previous) \<Rightarrow>
                    (case openAppenderAt faults previous s1 of
                       (s2, Inl e) \<Rightarrow> (s2, v', Inl (VisitOpen e))
                     | (s2, Inr a) \<Rightarrow> (s2, v', Inr a)))))"

datatype append_error =
    AppenderClosed
  | AppenderFailed
  | AppendEvent event_error
  | AppendBlob blob_issue
  | AppendEncode
  | AppendWrite
  | AppendShort
  | AppendSync

text \<open>What the write of a batch and its sync do; a failing or short write has left some bytes.\<close>

datatype write_outcome = WriteOk | WriteError nat | WriteShort nat | WriteNoSync

fun build_records :: "event list \<Rightarrow> string \<Rightarrow> (ledger_record list \<times> string \<times> string) option" where
  "build_records [] previous = Some ([], [], previous)"
| "build_records (e # es) previous =
     (case makeRecord e previous of
        None \<Rightarrow> None
      | Some r \<Rightarrow>
          (case marshal (ledger_record_json r) of
             None \<Rightarrow> None
           | Some line \<Rightarrow>
               (case build_records es (lr_hash r) of
                  None \<Rightarrow> None
                | Some (rs, buffer, tail) \<Rightarrow> Some (r # rs, line @ newline # buffer, tail))))"

definition check_batch :: "'a evidence_store_scheme \<Rightarrow> event list \<Rightarrow> append_error option" where
  "check_batch s es = first_error (map (\<lambda>e.
     case validateEvent e of
       Some x \<Rightarrow> Some (AppendEvent x)
     | None \<Rightarrow>
         (case Option.bind (ev_payload e) pl_blob of
            None \<Rightarrow> None
          | Some b \<Rightarrow> map_option AppendBlob (verifyBlob s b))) es)"

definition write_events :: "string \<Rightarrow> 'a evidence_store_scheme \<Rightarrow> 'a evidence_store_scheme" where
  "write_events bytes s = s\<lparr>st_events := Readable (file_bytes (st_events s) @ bytes) False\<rparr>"

definition AppendBatch ::
  "write_outcome \<Rightarrow> event list \<Rightarrow> appender \<Rightarrow> 'a evidence_store_scheme
    \<Rightarrow> 'a evidence_store_scheme \<times> appender \<times> (append_error + ledger_record list)" where
  "AppendBatch outcome events a s =
     (if ap_closed a then (s, a, Inl AppenderClosed)
      else if ap_failed a then (s, a, Inl AppenderFailed)
      else if events = [] then (s, a, Inr [])
      else (case check_batch s events of
              Some e \<Rightarrow> (s, a, Inl e)
            | None \<Rightarrow>
                (case build_records events (ap_previous a) of
                   None \<Rightarrow> (s, a, Inl AppendEncode)
                 | Some (records, buffer, tail) \<Rightarrow>
                     (case outcome of
                        WriteError n \<Rightarrow> (write_events (take n buffer) s, a\<lparr>ap_failed := True\<rparr>, Inl AppendWrite)
                      | WriteShort n \<Rightarrow> (write_events (take n buffer) s, a\<lparr>ap_failed := True\<rparr>, Inl AppendShort)
                      | WriteNoSync \<Rightarrow> (write_events buffer s, a\<lparr>ap_failed := True\<rparr>, Inl AppendSync)
                      | WriteOk \<Rightarrow> (write_events buffer s, a\<lparr>ap_previous := tail\<rparr>, Inr records)))))"

datatype close_error = CloseFile | CloseRelease | CloseBoth

text \<open>\<open>Close\<close> always tries to release the lock; the flags say whether the file's close and the lock's removal work.\<close>

definition CloseAppender ::
  "bool \<Rightarrow> bool \<Rightarrow> appender \<Rightarrow> 'a evidence_store_scheme
    \<Rightarrow> 'a evidence_store_scheme \<times> appender \<times> close_error option" where
  "CloseAppender close_ok release_ok a s =
     (if ap_closed a then (s, a, None)
      else (releaseWriterLock release_ok s, a\<lparr>ap_closed := True\<rparr>,
            if \<not> close_ok \<and> \<not> release_ok then Some CloseBoth
            else if \<not> close_ok then Some CloseFile
            else if \<not> release_ok then Some CloseRelease
            else None))"

datatype batch_error = BatchOpen open_error | BatchAppend append_error | BatchClose close_error
  | BatchBoth append_error close_error

definition AppendBatchStore ::
  "(string \<Rightarrow> ledger_record option) \<Rightarrow> filesystem \<Rightarrow> open_faults \<Rightarrow> write_outcome \<Rightarrow> bool \<times> bool
    \<Rightarrow> event list \<Rightarrow> 'a evidence_store_scheme
    \<Rightarrow> 'a evidence_store_scheme \<times> (batch_error + ledger_record list)" where
  "AppendBatchStore dec fs faults outcome close events s =
     (case NewAppender dec fs faults s of
        (s1, Inl e) \<Rightarrow> (s1, Inl (BatchOpen e))
      | (s1, Inr a) \<Rightarrow>
          (case AppendBatch outcome events a s1 of (s2, a2, appended) \<Rightarrow>
             (case CloseAppender (fst close) (snd close) a2 s2 of (s3, a3, closed) \<Rightarrow>
                (s3, case (appended, closed) of
                       (Inl e, Some c) \<Rightarrow> Inl (BatchBoth e c)
                     | (Inl e, None) \<Rightarrow> Inl (BatchAppend e)
                     | (Inr rs, Some c) \<Rightarrow> Inl (BatchClose c)
                     | (Inr rs, None) \<Rightarrow> Inr rs))))"

definition AppendOne ::
  "(string \<Rightarrow> ledger_record option) \<Rightarrow> filesystem \<Rightarrow> open_faults \<Rightarrow> write_outcome \<Rightarrow> bool \<times> bool
    \<Rightarrow> event \<Rightarrow> 'a evidence_store_scheme \<Rightarrow> 'a evidence_store_scheme \<times> (batch_error + ledger_record)" where
  "AppendOne dec fs faults outcome close e s =
     (case AppendBatchStore dec fs faults outcome close [e] s of
        (s', Inl x) \<Rightarrow> (s', Inl x)
      | (s', Inr rs) \<Rightarrow> (s', Inr (hd rs)))"

definition WriterLockPresent :: "'a evidence_store_scheme \<Rightarrow> bool" where
  "WriterLockPresent s = st_writer_lock s"

definition ClearStaleWriterLock :: "bool \<Rightarrow> 'a evidence_store_scheme \<Rightarrow> 'a evidence_store_scheme \<times> (unit + bool)" where
  "ClearStaleWriterLock remove_ok s =
     (if \<not> st_writer_lock s then (s, Inr False)
      else if remove_ok then (s\<lparr>st_writer_lock := False\<rparr>, Inr True)
      else (s, Inl ()))"

end
