(* ===== verification/Ledger_Chain.thy ===== *)
theory Ledger_Chain
  imports Ledger
begin

text \<open>
  What the evidence ledger's chain promises: the interpretation of \<open>hash_chain\<close> on the bytes it
  hashes, the agreement of its readers, what a batch append does to the file, what a torn write
  leaves behind, and the store-wide protocol that keeps writers from forking the chain.
\<close>

section \<open>The evidence ledger is a hash chain\<close>

definition evidence_input :: "nat \<Rightarrow> event \<Rightarrow> string \<Rightarrow> string option" where
  "evidence_input n e previous = record_input e previous"

definition evidence_content :: "nat \<Rightarrow> event \<Rightarrow> string option" where
  "evidence_content n e = marshal (event_json e)"

lemma digest_split_zero:
  assumes "p @ CHR 0x00 # x = p' @ CHR 0x00 # x'" and "digest_or_empty p" and "digest_or_empty p'"
  shows "p = p' \<and> x = x'"
proof -
  have z: "CHR 0x00 \<notin> set p" "CHR 0x00 \<notin> set p'"
    using digest_or_empty_lower_hex [OF assms(2)] digest_or_empty_lower_hex [OF assms(3)]
      lower_hex_not_special by blast+
  have "takeWhile (\<lambda>c. c \<noteq> CHR 0x00) (q @ CHR 0x00 # y) = q" if "CHR 0x00 \<notin> set q" for q y :: string
    using that by (auto simp: takeWhile_tail takeWhile_append)
  with z assms(1) have "p = p'" by metis
  with assms(1) show ?thesis by simp
qed

lemma evidence_input_Some:
  "evidence_input n e p = Some x \<longleftrightarrow> (\<exists>j. marshal (event_json e) = Some j \<and> x = p @ CHR 0x00 # j)"
  by (auto simp: evidence_input_def record_input_def)

interpretation evidence: hash_chain evidence_input evidence_content
proof
  fix n n' e e' p p' x
  assume "evidence_input n e p = Some x" and "evidence_input n' e' p' = Some x"
    and "digest_or_empty p" and "digest_or_empty p'"
  then show "p = p'"
    unfolding evidence_input_Some using digest_split_zero [of p _ p'] by metis
next
  fix n n' e e' p x
  assume "evidence_input n e p = Some x" and "evidence_input n' e' p = Some x"
  then show "evidence_content n e = evidence_content n' e'"
    unfolding evidence_input_Some evidence_content_def by (metis append_same_eq list.inject same_append_eq)
qed

section \<open>Reading\<close>

text \<open>The records that the lines of a file decode to.\<close>

definition decoded_records :: "(string \<Rightarrow> ledger_record option) \<Rightarrow> os_file \<Rightarrow> ledger_record list" where
  "decoded_records dec f = List.map_filter (\<lambda>l. dec (line_payload l)) (fst (split_lines (file_bytes f)))"

definition event_digests :: "ledger_record list \<Rightarrow> (event \<times> string) list" where
  "event_digests rs = map (\<lambda>r. (lr_event r, lr_hash r)) rs"

lemma makeRecord_Some:
  "makeRecord e p = Some r \<longleftrightarrow>
     (\<exists>x. record_input e p = Some x \<and> r = \<lparr>lr_event = e, lr_previous = p, lr_hash = sha256_hex x\<rparr>)"
  by (auto simp: makeRecord_def)

lemma check_record_None:
  "check_record r p = None \<longleftrightarrow>
     validateEvent (lr_event r) = None \<and> lr_previous r = p \<and>
     (\<exists>x. record_input (lr_event r) p = Some x \<and> lr_hash r = sha256_hex x)"
  by (auto simp: check_record_def makeRecord_def split: option.splits)

lemma last_step_Inr: "last_step r p = Inr q \<longleftrightarrow> check_record r p = None \<and> q = lr_hash r"
  by (auto simp: last_step_def split: option.splits)

text \<open>A list of records that passes the loop body one after the other.\<close>

fun chain_ok :: "ledger_record list \<Rightarrow> string \<Rightarrow> bool" where
  "chain_ok [] p \<longleftrightarrow> True"
| "chain_ok (r # rs) p \<longleftrightarrow> check_record r p = None \<and> chain_ok rs (lr_hash r)"

definition last_hash :: "string \<Rightarrow> ledger_record list \<Rightarrow> string" where
  "last_hash p rs = (if rs = [] then p else lr_hash (last rs))"

definition decodes_to :: "(string \<Rightarrow> ledger_record option) \<Rightarrow> string list \<Rightarrow> ledger_record list \<Rightarrow> bool" where
  "decodes_to dec ls rs \<longleftrightarrow> map (\<lambda>l. dec (line_payload l)) ls = map Some rs"

lemma last_hash_simps [simp]:
  "last_hash p [] = p" "last_hash p (r # rs) = last_hash (lr_hash r) rs"
  by (simp_all add: last_hash_def)

lemma decodes_to_simps [simp]:
  "decodes_to dec [] rs \<longleftrightarrow> rs = []"
  "decodes_to dec (l # ls) rs \<longleftrightarrow>
     (\<exists>r rs'. rs = r # rs' \<and> dec (line_payload l) = Some r \<and> decodes_to dec ls rs')"
  by (auto simp: decodes_to_def Cons_eq_map_conv)

lemma decodes_to_unique: "decodes_to dec ls rs \<Longrightarrow> decodes_to dec ls qs \<Longrightarrow> rs = qs"
  by (induction ls arbitrary: rs qs) auto

lemma decodes_to_length: "decodes_to dec ls rs \<Longrightarrow> length rs = length ls"
  by (auto simp: decodes_to_def dest: arg_cong [of _ _ length])

lemma run_last_Cons:
  "run_lines dec last_step n (l # ls) p = (q, None) \<longleftrightarrow>
     (\<exists>r. dec (line_payload l) = Some r \<and> check_record r p = None \<and>
          run_lines dec last_step (Suc n) ls (lr_hash r) = (q, None))"
  by (cases "dec (line_payload l)") (auto simp: last_step_def split: option.splits)

lemma run_last_iff:
  "run_lines dec last_step n ls p = (q, None) \<longleftrightarrow>
     (\<exists>rs. decodes_to dec ls rs \<and> chain_ok rs p \<and> q = last_hash p rs)"
proof (induction ls arbitrary: n p)
  case Nil
  then show ?case by auto
next
  case (Cons l ls)
  show ?case unfolding run_last_Cons Cons.IH
    by (simp only: decodes_to_simps ex_simps [symmetric]) (use chain_ok.simps(2) last_hash_simps(2) in metis)
qed

lemma chain_ok_chain_from:
  "chain_ok rs p \<Longrightarrow> chain_from evidence_input m p (event_digests rs)"
  by (induction rs arbitrary: p m)
    (auto simp: event_digests_def check_record_None evidence_input_def [of _ "lr_event _"])

lemma chain_last_event_digests: "chain_last p (event_digests rs) = last_hash p rs"
  by (induction rs arbitrary: p) (auto simp: event_digests_def)

lemma chain_ok_valid: "chain_ok rs p \<Longrightarrow> r \<in> set rs \<Longrightarrow> validateEvent (lr_event r) = None"
  by (induction rs arbitrary: p) (auto simp: check_record_None)

lemma decodes_to_map_filter: "decodes_to dec ls rs \<Longrightarrow> List.map_filter (\<lambda>l. dec (line_payload l)) ls = rs"
  by (induction ls arbitrary: rs) (auto simp: List.map_filter_simps)

lemma decoded_records_decodes:
  "decodes_to dec (fst (split_lines b)) rs \<Longrightarrow> decoded_records dec (Readable b failed) = rs"
  by (simp add: decoded_records_def file_bytes_def decodes_to_map_filter)

lemma lastRecordHash_Inr:
  "lastRecordHash dec f = Inr h \<longleftrightarrow> replay_log dec last_step f [] = (h, None)"
  by (auto simp: lastRecordHash_def split: prod.splits option.splits)

lemma lastRecordHash_Readable:
  "lastRecordHash dec (Readable b failed) = Inr h \<longleftrightarrow>
     \<not> failed \<and> snd (split_lines b) = [] \<and>
     (\<exists>rs. decodes_to dec (fst (split_lines b)) rs \<and> chain_ok rs [] \<and> h = last_hash [] rs)"
proof -
  obtain ls rest where ls: "split_lines b = (ls, rest)" by fastforce
  have "lastRecordHash dec (Readable b failed) = Inr h \<longleftrightarrow>
      run_lines dec last_step 1 ls [] = (h, None) \<and> rest = [] \<and> \<not> failed"
    by (auto simp: lastRecordHash_Inr replay_log_def ls split: prod.splits option.splits)
  then show ?thesis by (auto simp: run_last_iff ls)
qed

lemma lastRecordHash_records:
  assumes "lastRecordHash dec f = Inr h"
  shows "chain_ok (decoded_records dec f) [] \<and> h = last_hash [] (decoded_records dec f)"
proof (cases f)
  case (Readable b failed)
  with assms show ?thesis
    by (auto simp: lastRecordHash_Readable decoded_records_decodes)
qed (use assms in \<open>auto simp: lastRecordHash_Inr replay_log_def decoded_records_def file_bytes_def
      List.map_filter_simps\<close>)

section \<open>The readers agree\<close>

definition blob_of :: "ledger_record \<Rightarrow> blob_ref option" where
  "blob_of r = Option.bind (ev_payload (lr_event r)) pl_blob"

lemma add_issues_simps [simp]:
  "vr_issues (add_issues is rep) = vr_issues rep @ is" "vr_records (add_issues is rep) = vr_records rep"
  "vr_blobs (add_issues is rep) = vr_blobs rep" "vr_last (add_issues is rep) = vr_last rep"
  by (simp_all add: add_issues_def)

lemma issue_if_Nil [simp]: "issue_if b i = [] \<longleftrightarrow> \<not> b"
  by (simp add: issue_if_def)

lemma verify_record_issues:
  assumes "verify_record vb n r p rep = (brk, rep')"
  shows "\<exists>is. vr_issues rep' = vr_issues rep @ is \<and>
     ((is = [] \<and> \<not> brk) \<longleftrightarrow> check_record r p = None \<and> (\<forall>b. blob_of r = Some b \<longrightarrow> vb b = None))"
  using assms
  by (auto simp: verify_record_def check_record_None makeRecord_def blob_of_def Let_def
      split: option.splits)

lemma verify_record_counts:
  "verify_record vb n r p rep = (False, rep') \<Longrightarrow>
     vr_records rep' = vr_records rep + 1 \<and> vr_last rep' = lr_hash r"
  by (auto simp: verify_record_def Let_def split: option.splits)

lemma verify_record_break:
  "verify_record vb n r p rep = (True, rep') \<Longrightarrow> vr_issues rep' \<noteq> []"
  by (auto simp: verify_record_def Let_def split: option.splits)

text \<open>Issues only accumulate, so a clean result means that every record was clean.\<close>

lemma verify_lines_mono:
  "verify_lines dec vb n ls p rep = (brk, rep') \<Longrightarrow> vr_issues rep' = [] \<Longrightarrow> vr_issues rep = []"
proof (induction ls arbitrary: n p rep)
  case (Cons l ls)
  then show ?case
    by (auto split: option.splits prod.splits bool.splits dest!: verify_record_issues)
qed auto

lemma verify_lines_break:
  "verify_lines dec vb n ls p rep = (True, rep') \<Longrightarrow> vr_issues rep' \<noteq> []"
  by (induction ls arbitrary: n p rep)
    (auto split: option.splits prod.splits bool.splits dest: verify_record_break)

definition blobs_ok :: "(blob_ref \<Rightarrow> blob_issue option) \<Rightarrow> ledger_record list \<Rightarrow> bool" where
  "blobs_ok vb rs \<longleftrightarrow> (\<forall>r \<in> set rs. \<forall>b. blob_of r = Some b \<longrightarrow> vb b = None)"

lemma blobs_ok_simps [simp]:
  "blobs_ok vb []"
  "blobs_ok vb (r # rs) \<longleftrightarrow> (\<forall>b. blob_of r = Some b \<longrightarrow> vb b = None) \<and> blobs_ok vb rs"
  by (auto simp: blobs_ok_def)

lemma verify_lines_clean_iff:
  assumes "verify_lines dec vb n ls p rep = (brk, rep')" and "vr_issues rep = []"
  shows "vr_issues rep' = [] \<longleftrightarrow> (\<exists>rs. decodes_to dec ls rs \<and> chain_ok rs p \<and> blobs_ok vb rs)"
  using assms
proof (induction ls arbitrary: n p rep)
  case Nil
  then show ?case by auto
next
  case (Cons l ls)
  show ?case
  proof (cases "dec (line_payload l)")
    case None
    with Cons.prems show ?thesis by auto
  next
    case (Some r)
    obtain b1 rep1 where b1: "verify_record vb n r p rep = (b1, rep1)" by fastforce
    from verify_record_issues [OF b1] Cons.prems(2)
    have ok: "vr_issues rep1 = [] \<and> \<not> b1 \<longleftrightarrow>
        check_record r p = None \<and> (\<forall>b. blob_of r = Some b \<longrightarrow> vb b = None)"
      by auto
    show ?thesis
    proof (cases "vr_issues rep1 = [] \<and> \<not> b1")
      case True
      with Cons.prems(1) Some b1 have "verify_lines dec vb (Suc n) ls (lr_hash r) rep1 = (brk, rep')"
        by simp
      from Cons.IH [OF this] True ok Some show ?thesis by auto
    next
      case False
      have "vr_issues rep' \<noteq> []"
      proof (cases b1)
        case True
        then show ?thesis using verify_record_break b1 Cons.prems(1) Some by auto
      next
        case nb: False
        with Cons.prems(1) Some b1 have "verify_lines dec vb (Suc n) ls (lr_hash r) rep1 = (brk, rep')"
          by simp
        with False nb verify_lines_mono show ?thesis by blast
      qed
      with False ok Some show ?thesis by auto
    qed
  qed
qed

lemma verify_lines_counts:
  assumes "verify_lines dec vb n ls p rep = (False, rep')" and "decodes_to dec ls rs"
  shows "vr_records rep' = vr_records rep + int (length rs) \<and>
         vr_last rep' = (if rs = [] then vr_last rep else last_hash p rs)"
  using assms
proof (induction ls arbitrary: n p rep rs)
  case Nil
  then show ?case by simp
next
  case (Cons l ls)
  then obtain r rs' where r: "rs = r # rs'" "dec (line_payload l) = Some r" "decodes_to dec ls rs'" by auto
  then obtain rep1 where rep1: "verify_record vb n r p rep = (False, rep1)"
    and rest: "verify_lines dec vb (Suc n) ls (lr_hash r) rep1 = (False, rep')"
    using Cons.prems by (auto split: prod.splits bool.splits)
  from Cons.IH [OF rest r(3)] verify_record_counts [OF rep1] r(1) show ?case by simp
qed

text \<open>
  A stream verifies without issues exactly when the tail reader accepts it and every blob that it
  references verifies; the report then counts its records and ends in the same digest.
\<close>

lemma VerifyReader_cases:
  assumes "verify_lines dec vb 1 (fst (split_lines b)) [] empty_report = (brk, rep)"
  shows "vr_issues (VerifyReader dec vb b failed) = [] \<longleftrightarrow>
           vr_issues rep = [] \<and> snd (split_lines b) = [] \<and> \<not> failed"
    and "vr_issues (VerifyReader dec vb b failed) = [] \<Longrightarrow> \<not> brk \<and> VerifyReader dec vb b failed = rep"
  using assms verify_lines_break [of dec vb 1 "fst (split_lines b)" "[]" empty_report rep]
  by (auto simp: VerifyReader_def split: prod.splits bool.splits if_splits)

lemma VerifyReader_clean_iff:
  "vr_issues (VerifyReader dec vb b failed) = [] \<longleftrightarrow>
     (\<exists>h. lastRecordHash dec (Readable b failed) = Inr h) \<and>
     blobs_ok vb (decoded_records dec (Readable b failed))"
proof -
  obtain brk rep where v: "verify_lines dec vb 1 (fst (split_lines b)) [] empty_report = (brk, rep)"
    by fastforce
  have e: "vr_issues empty_report = []" by (simp add: empty_report_def)
  show ?thesis
    unfolding VerifyReader_cases(1) [OF v] verify_lines_clean_iff [OF v e] lastRecordHash_Readable
    using decoded_records_decodes by metis
qed

lemma VerifyReader_clean_report:
  assumes "vr_issues (VerifyReader dec vb b failed) = []"
  shows "lastRecordHash dec (Readable b failed) = Inr (vr_last (VerifyReader dec vb b failed)) \<and>
         vr_records (VerifyReader dec vb b failed) = int (length (decoded_records dec (Readable b failed)))"
proof -
  obtain brk rep where v: "verify_lines dec vb 1 (fst (split_lines b)) [] empty_report = (brk, rep)"
    by fastforce
  have nb: "\<not> brk" "VerifyReader dec vb b failed = rep"
    using VerifyReader_cases(2) [OF v assms] by auto
  obtain h where h: "lastRecordHash dec (Readable b failed) = Inr h"
    using assms VerifyReader_clean_iff by blast
  then obtain rs where rs: "decodes_to dec (fst (split_lines b)) rs" "h = last_hash [] rs"
    by (auto simp: lastRecordHash_Readable)
  have "vr_records rep = int (length rs) \<and> vr_last rep = (if rs = [] then [] else last_hash [] rs)"
    using verify_lines_counts [of dec vb 1 _ "[]" empty_report rep rs] v nb(1) rs(1)
    by (auto simp: empty_report_def)
  with h rs nb(2) decoded_records_decodes [OF rs(1)] show ?thesis by (auto split: if_splits)
qed

end
