(* ===== verification/Ledger_Props.thy ===== *)
theory Ledger_Props
  imports Ledger_Chain
begin

text \<open>
  Appending to the evidence ledger: what a successful batch leaves in the file, what a torn write
  leaves, the single-writer protocol of the store as a step relation over any number of processes,
  and the properties of the store.
\<close>

section \<open>Encoding\<close>

lemma all_some_None: "all_some xs = None \<longleftrightarrow> None \<in> set xs"
  by (induction xs rule: all_some.induct) auto

lemma marshal_JObj_None: "marshal (JObj fs) = None \<longleftrightarrow> (\<exists>(k, v) \<in> set fs. marshal v = None)"
  by (force simp: all_some_None)

lemma marshal_JArr_None: "marshal (JArr vs) = None \<longleftrightarrow> (\<exists>v \<in> set vs. marshal v = None)"
  by (force simp: all_some_None)

lemmas marshal_None = marshal_JObj_None marshal_JArr_None

lemma omit_marshal [simp]:
  "(\<exists>(k, v) \<in> set (omit_str l s). marshal v = None) \<longleftrightarrow> False"
  "(\<exists>(k, v) \<in> set (omit_int l i). marshal v = None) \<longleftrightarrow> False"
  "(\<exists>(k, v) \<in> set (omit_opt l None). marshal v = None) \<longleftrightarrow> False"
  "(\<exists>(k, v) \<in> set (omit_opt l (Some j)). marshal v = None) \<longleftrightarrow> marshal j = None"
  "(\<exists>(k, v) \<in> set (omit_list l (map JStr ss)). marshal v = None) \<longleftrightarrow> False"
  by (auto simp: omit_str_def omit_int_def omit_opt_def omit_list_def all_some_None split: option.splits)

text \<open>An event encodes whenever its two instants do.\<close>

lemma source_json_None [simp]: "(marshal (source_json s) = None) = False"
  by (simp add: source_json_def marshal_None bex_Un del: marshal.simps(7))

lemma payload_json_None [simp]: "(marshal (payload_json p) = None) = False"
  by (cases "pl_content p"; cases "pl_blob p")
    (simp_all add: payload_json_def blob_json_def marshal_None bex_Un del: marshal.simps(7))

lemma reasoning_json_None [simp]: "(marshal (reasoning_json r) = None) = False"
  by (simp add: reasoning_json_def marshal_None bex_Un del: marshal.simps(7))

lemma completeness_json_None [simp]: "(marshal (completeness_json c) = None) = False"
  by (simp add: completeness_json_def marshal_None bex_Un del: marshal.simps(7))

lemma causality_json_None [simp]: "(marshal (causality_json c) = None) = False"
  by (simp add: causality_json_def marshal_None bex_Un del: marshal.simps(7))

lemma event_json_None:
  "marshal (event_json e) = None \<longleftrightarrow> json_time (ev_observed_at e) = None \<or> json_time (ev_recorded_at e) = None"
  by (cases "ev_payload e"; cases "ev_reasoning e"; cases "ev_causality e")
    (simp_all add: event_json_def marshal_JObj_None bex_Un del: marshal.simps(7))

lemma ledger_record_json_None:
  "marshal (ledger_record_json r) = None \<longleftrightarrow> marshal (event_json (lr_event r)) = None"
  by (simp add: ledger_record_json_def marshal_JObj_None del: marshal.simps(7))

section \<open>One record and one batch\<close>

text \<open>
  The encoded record decodes to itself. \<open>json.Unmarshal\<close> inverts \<open>json.Marshal\<close> on values whose
  strings are valid UTF-8 and whose instants are UTC; the theorems assume it of the records at hand.
\<close>

definition survives :: "(string \<Rightarrow> ledger_record option) \<Rightarrow> ledger_record \<Rightarrow> bool" where
  "survives dec r \<longleftrightarrow> (\<forall>line. marshal (ledger_record_json r) = Some line \<longrightarrow> dec (line_payload line) = Some r)"

lemma map_filter_append: "List.map_filter f (xs @ ys) = List.map_filter f xs @ List.map_filter f ys"
  by (induction xs) (simp_all add: List.map_filter_simps split: option.split)

lemma decoded_records_append:
  assumes "snd (split_lines b) = []"
  shows "decoded_records dec (Readable (b @ t) failed) =
    decoded_records dec (Readable b failed') @ decoded_records dec (Readable t failed'')"
  using split_lines_append [OF assms, of t]
  by (simp add: decoded_records_def file_bytes_def map_filter_append)

lemma decoded_records_line:
  assumes "newline \<notin> set l"
  shows "decoded_records dec (Readable (l @ [newline]) failed) = (case dec (line_payload l) of None \<Rightarrow> [] | Some r \<Rightarrow> [r])"
  using split_lines_line [OF assms]
  by (auto simp: decoded_records_def file_bytes_def List.map_filter_simps split: option.splits)

lemma append_one_record:
  assumes log: "lastRecordHash dec (Readable b False) = Inr p" and mk: "makeRecord e p = Some r"
    and line: "marshal (ledger_record_json r) = Some line" and v: "validateEvent e = None"
    and sv: "survives dec r"
  shows "lastRecordHash dec (Readable (b @ line @ [newline]) False) = Inr (lr_hash r)"
    and "decoded_records dec (Readable (b @ line @ [newline]) False) = decoded_records dec (Readable b False) @ [r]"
proof -
  have nl: "newline \<notin> set line" using newline_marshal [OF line] .
  have d: "dec (line_payload line) = Some r" using sv line by (simp add: survives_def)
  have "check_record r p = None" using mk v by (auto simp: makeRecord_Some check_record_None)
  then have "last_step r p = Inr (lr_hash r)" by (simp add: last_step_def)
  from replay_log_append [OF log [unfolded lastRecordHash_Inr] nl d this]
  show "lastRecordHash dec (Readable (b @ line @ [newline]) False) = Inr (lr_hash r)"
    by (simp add: lastRecordHash_Inr)
  have "snd (split_lines b) = []" using log by (simp add: lastRecordHash_Readable)
  from decoded_records_append [OF this, of dec "line @ [newline]" False False False]
  show "decoded_records dec (Readable (b @ line @ [newline]) False) = decoded_records dec (Readable b False) @ [r]"
    by (simp add: decoded_records_line [OF nl] d)
qed

lemma build_records_Cons:
  assumes "build_records (e # es) p = Some (rs, buf, t)"
  obtains r line rs' buf' where "makeRecord e p = Some r" "marshal (ledger_record_json r) = Some line"
    "build_records es (lr_hash r) = Some (rs', buf', t)" "rs = r # rs'" "buf = line @ newline # buf'"
  using assms by (auto split: option.splits)

lemma build_records_events: "build_records es p = Some (rs, buf, t) \<Longrightarrow> map lr_event rs = es \<and> t = last_hash p rs"
proof (induction es arbitrary: p rs buf)
  case (Cons e es)
  from Cons.prems show ?case
    by (elim build_records_Cons) (auto simp: makeRecord_Some dest!: Cons.IH)
qed simp

lemma batch_log:
  assumes "build_records es p = Some (rs, buf, t)" and "lastRecordHash dec (Readable b False) = Inr p"
    and "\<forall>e \<in> set es. validateEvent e = None" and "\<forall>r \<in> set rs. survives dec r"
  shows "lastRecordHash dec (Readable (b @ buf) False) = Inr t \<and>
    decoded_records dec (Readable (b @ buf) False) = decoded_records dec (Readable b False) @ rs"
  using assms
proof (induction es arbitrary: p rs buf b)
  case Nil
  then show ?case by simp
next
  case (Cons e es)
  from Cons.prems(1) obtain r line rs' buf' where r: "makeRecord e p = Some r"
    "marshal (ledger_record_json r) = Some line" "build_records es (lr_hash r) = Some (rs', buf', t)"
    "rs = r # rs'" "buf = line @ newline # buf'"
    by (elim build_records_Cons)
  from append_one_record [OF Cons.prems(2) r(1,2)] Cons.prems(3,4) r(4)
  have one: "lastRecordHash dec (Readable (b @ line @ [newline]) False) = Inr (lr_hash r)"
    "decoded_records dec (Readable (b @ line @ [newline]) False) = decoded_records dec (Readable b False) @ [r]"
    by auto
  from Cons.IH [OF r(3) one(1)] Cons.prems(3,4) r(4,5) one(2) show ?case by simp
qed

text \<open>A write that stops after any number of bytes: the reader rejects the file or sees a prefix of the batch.\<close>

lemma split_lines_no_newline: "newline \<notin> set l \<Longrightarrow> split_lines l = ([], l)"
  by (induction l) auto

lemma torn_batch_log:
  assumes "build_records es p = Some (rs, buf, t)" and "lastRecordHash dec (Readable b False) = Inr p"
    and "\<forall>e \<in> set es. validateEvent e = None" and "\<forall>r \<in> set rs. survives dec r"
    and "lastRecordHash dec (Readable (b @ take n buf) False) = Inr h"
  shows "\<exists>k \<le> length rs. h = last_hash p (take k rs) \<and>
    decoded_records dec (Readable (b @ take n buf) False) = decoded_records dec (Readable b False) @ take k rs"
  using assms
proof (induction es arbitrary: p rs buf b n)
  case Nil
  then show ?case by auto
next
  case (Cons e es)
  from Cons.prems(1) obtain r line rs' buf' where r: "makeRecord e p = Some r"
    "marshal (ledger_record_json r) = Some line" "build_records es (lr_hash r) = Some (rs', buf', t)"
    "rs = r # rs'" "buf = line @ newline # buf'"
    by (elim build_records_Cons)
  show ?case
  proof (cases "n \<le> length line")
    case True
    then have tk: "take n buf = take n line" using r(5) by simp
    have "newline \<notin> set (take n line)" using newline_marshal [OF r(2)] in_set_takeD by metis
    from split_lines_no_newline [OF this] split_lines_append [of b "take n line"] Cons.prems(2,5)
    have "take n line = []" by (simp add: lastRecordHash_Readable tk)
    with tk have "take n buf = []" by (simp only:)
    with Cons.prems(2,5) show ?thesis by (intro exI [of _ 0]) (simp del: take_eq_Nil)
  next
    case False
    then obtain m where n: "n = length line + Suc m"
      by (metis add_Suc_right less_imp_Suc_add not_le)
    then have tk: "take n buf = line @ [newline] @ take m buf'" using r(5) by simp
    from append_one_record [OF Cons.prems(2) r(1,2)] Cons.prems(3,4) r(4)
    have one: "lastRecordHash dec (Readable (b @ line @ [newline]) False) = Inr (lr_hash r)"
      "decoded_records dec (Readable (b @ line @ [newline]) False) = decoded_records dec (Readable b False) @ [r]"
      by auto
    from Cons.IH [OF r(3) one(1), of m] Cons.prems(3,4,5) r(4) one(2) tk
    obtain k where "k \<le> length rs'" "h = last_hash (lr_hash r) (take k rs')"
      "decoded_records dec (Readable (b @ take n buf) False) = decoded_records dec (Readable b False) @ r # take k rs'"
      by auto
    with r(4) show ?thesis by (intro exI [of _ "Suc k"]) auto
  qed
qed

section \<open>Opening and appending\<close>

lemma NewAppender_ok:
  assumes "NewAppender dec fs faults s = (s', Inr a)"
  shows "\<not> st_writer_lock s \<and> st_writer_lock s' \<and> \<not> ap_closed a \<and> \<not> ap_failed a \<and>
    lastRecordHash dec (st_events s) = Inr (ap_previous a) \<and>
    file_bytes (st_events s') = file_bytes (st_events s) \<and>
    lastRecordHash dec (st_events s') = Inr (ap_previous a) \<and> st_blobs s' = st_blobs s"
proof -
  obtain prev where "\<not> st_writer_lock s" and h: "lastRecordHash dec (st_events s) = Inr prev"
    and a: "openAppenderAt faults prev (s\<lparr>st_writer_lock := True\<rparr>) = (s', Inr a)"
    using assms
    by (auto simp: NewAppender_def acquireWriterLock_def dest!: acquire_lock_ok
        split: option.splits prod.splits if_splits sum.splits)
  moreover have "st_events s = NotExist \<Longrightarrow> prev = []"
    using h by (simp add: lastRecordHash_Inr replay_log_def)
  moreover have "lastRecordHash dec (Readable [] False) = Inr []"
    by (simp add: lastRecordHash_Readable)
  ultimately show ?thesis
    by (auto simp: openAppenderAt_def file_bytes_def split: if_splits)
qed

lemma NewAppender_error:
  assumes "NewAppender dec fs faults s = (s', Inl e)"
  shows "st_events s' = st_events s \<and> st_blobs s' = st_blobs s \<and> (st_writer_lock s \<longrightarrow> s' = s)"
proof -
  have *: "acquire_lock f True = (h', e') \<Longrightarrow> h' \<and> e' \<noteq> None" for f h' e'
    by (auto simp: acquire_lock_def split: if_splits)
  show ?thesis
    using assms
    by (auto simp: NewAppender_def acquireWriterLock_def releaseWriterLock_def openAppenderAt_def dest!: *
        split: option.splits prod.splits if_splits sum.splits)
qed

lemma AppendBatch_bytes:
  "AppendBatch outcome es a s = (s', a', res) \<Longrightarrow>
     (\<exists>t. file_bytes (st_events s') = file_bytes (st_events s) @ t) \<and>
     st_blobs s' = st_blobs s \<and> st_writer_lock s' = st_writer_lock s \<and> ap_closed a' = ap_closed a"
  by (auto simp: AppendBatch_def write_events_def file_bytes_def
      split: if_splits option.splits prod.splits write_outcome.splits os_file.splits)

lemma check_batch_None:
  assumes "check_batch s es = None"
  shows "\<forall>e \<in> set es. validateEvent e = None \<and>
     (\<forall>b. Option.bind (ev_payload e) pl_blob = Some b \<longrightarrow> verifyBlob s b = None)"
proof
  fix e assume "e \<in> set es"
  with assms show "validateEvent e = None \<and>
     (\<forall>b. Option.bind (ev_payload e) pl_blob = Some b \<longrightarrow> verifyBlob s b = None)"
    unfolding check_batch_def first_error_map by (cases "validateEvent e") (fastforce split: option.splits)+
qed

text \<open>The guard under which the log's decoder is known to invert the encoder on a batch.\<close>

definition batch_survives :: "(string \<Rightarrow> ledger_record option) \<Rightarrow> event list \<Rightarrow> string \<Rightarrow> bool" where
  "batch_survives dec es p =
     (case build_records es p of None \<Rightarrow> True | Some (rs, _, _) \<Rightarrow> list_all (survives dec) rs)"

lemma readable_clean:
  assumes "lastRecordHash dec f = Inr h"
  shows "f \<noteq> OpenFails \<and> lastRecordHash dec (Readable (file_bytes f) False) = Inr h \<and>
     decoded_records dec (Readable (file_bytes f) False) = decoded_records dec f"
proof (cases f)
  case (Readable b failed)
  with assms show ?thesis
    by (simp add: lastRecordHash_Readable file_bytes_def decoded_records_def)
qed (use assms in \<open>auto simp: lastRecordHash_Inr replay_log_def decoded_records_def file_bytes_def\<close>)

text \<open>The tail that an appender holds stays the tail of the file, until a write fails.\<close>

lemma AppendBatch_tail:
  assumes "AppendBatch outcome es a s = (s', a', res)" and "batch_survives dec es (ap_previous a)"
    and "lastRecordHash dec (st_events s) = Inr (ap_previous a)"
  shows "ap_failed a' \<or> lastRecordHash dec (st_events s') = Inr (ap_previous a')"
proof (cases "s' = s \<and> a' = a")
  case True
  with assms show ?thesis by simp
next
  case False
  then obtain rs buf t where b: "build_records es (ap_previous a) = Some (rs, buf, t)"
    and c: "check_batch s es = None"
    using assms(1) by (auto simp: AppendBatch_def split: if_splits option.splits)
  with assms False show ?thesis
    using batch_log [OF b readable_clean [OF assms(3), THEN conjunct2, THEN conjunct1]] check_batch_None [OF c]
    by (auto simp: AppendBatch_def write_events_def batch_survives_def list_all_iff
        split: if_splits write_outcome.splits)
qed

section \<open>Any number of writers\<close>

text \<open>
  Processes open appenders, append, close, crash (their lock file stays), store blobs, and clear a
  lock file that no writer holds, as the recovery command's contract requires.
\<close>

record writer_system =
  ws_store :: evidence_store
  ws_writers :: "nat \<Rightarrow> appender option"

inductive writer_step ::
  "(string \<Rightarrow> ledger_record option) \<Rightarrow> filesystem \<Rightarrow> writer_system \<Rightarrow> writer_system \<Rightarrow> bool"
  for dec fs where
  w_open: "ws_writers w p = None \<Longrightarrow> NewAppender dec fs faults (ws_store w) = (s', Inr a) \<Longrightarrow>
     writer_step dec fs w (w\<lparr>ws_store := s', ws_writers := (ws_writers w)(p := Some a)\<rparr>)"
| w_refused: "NewAppender dec fs faults (ws_store w) = (s', Inl e) \<Longrightarrow>
     writer_step dec fs w (w\<lparr>ws_store := s'\<rparr>)"
| w_append: "ws_writers w p = Some a \<Longrightarrow> batch_survives dec es (ap_previous a) \<Longrightarrow>
     AppendBatch outcome es a (ws_store w) = (s', a', res) \<Longrightarrow>
     writer_step dec fs w (w\<lparr>ws_store := s', ws_writers := (ws_writers w)(p := Some a')\<rparr>)"
| w_close: "ws_writers w p = Some a \<Longrightarrow> CloseAppender c_ok r_ok a (ws_store w) = (s', a', err) \<Longrightarrow>
     writer_step dec fs w (w\<lparr>ws_store := s', ws_writers := (ws_writers w)(p := None)\<rparr>)"
| w_crash: "ws_writers w p = Some a \<Longrightarrow>
     writer_step dec fs w (w\<lparr>ws_writers := (ws_writers w)(p := None)\<rparr>)"
| w_put: "PutBlob fs fault content (ws_store w) = (s', out) \<Longrightarrow>
     writer_step dec fs w (w\<lparr>ws_store := s'\<rparr>)"
| w_recover: "\<forall>p. ws_writers w p = None \<Longrightarrow> ClearStaleWriterLock ok (ws_store w) = (s', cleared) \<Longrightarrow>
     writer_step dec fs w (w\<lparr>ws_store := s'\<rparr>)"

inductive_cases writer_stepE: "writer_step dec fs w w'"

definition writer_inv :: "(string \<Rightarrow> ledger_record option) \<Rightarrow> writer_system \<Rightarrow> bool" where
  "writer_inv dec w \<longleftrightarrow>
     (\<forall>p q. ws_writers w p \<noteq> None \<and> ws_writers w q \<noteq> None \<longrightarrow> p = q) \<and>
     (\<forall>p a. ws_writers w p = Some a \<longrightarrow> st_writer_lock (ws_store w) \<and> \<not> ap_closed a \<and>
        (ap_failed a \<or> lastRecordHash dec (st_events (ws_store w)) = Inr (ap_previous a)))"

lemma PutBlob_frame:
  "PutBlob fs fault content s = (s', out) \<Longrightarrow>
     st_events s' = st_events s \<and> st_writer_lock s' = st_writer_lock s \<and>
     (\<forall>p. st_blobs s p \<noteq> NotExist \<longrightarrow> st_blobs s' p = st_blobs s p)"
  by (auto simp: PutBlob_def Let_def split: option.splits put_fault.splits if_splits)

lemma AppendBatch_failed: "ap_failed a \<Longrightarrow> AppendBatch outcome es a s = (s', a', res) \<Longrightarrow> ap_failed a'"
  by (auto simp: AppendBatch_def split: if_splits)

lemma writer_step_inv:
  assumes "writer_step dec fs w w'" and "writer_inv dec w"
  shows "writer_inv dec w'"
  using assms
proof (induction rule: writer_step.induct)
  case (w_open w p faults s' a)
  from NewAppender_ok [OF this(2)] this(3) have "\<forall>q. ws_writers w q = None"
    unfolding writer_inv_def by (metis not_Some_eq)
  with NewAppender_ok [OF w_open(2)] show ?case by (auto simp: writer_inv_def)
next
  case (w_refused faults w s' e)
  from NewAppender_error [OF this(1)] this(2) show ?case by (auto simp: writer_inv_def)
next
  case (w_append w p a es outcome s' a' res)
  have a: "\<not> ap_closed a" "st_writer_lock (ws_store w)"
    and t: "ap_failed a \<or> lastRecordHash dec (st_events (ws_store w)) = Inr (ap_previous a)"
    and u: "\<And>q. ws_writers w q \<noteq> None \<Longrightarrow> q = p"
    using w_append(1,4) unfolding writer_inv_def by blast+
  from t have "ap_failed a' \<or> lastRecordHash dec (st_events s') = Inr (ap_previous a')"
    using AppendBatch_tail [OF w_append(3,2)] AppendBatch_failed [OF _ w_append(3)] by blast
  with AppendBatch_bytes [OF w_append(3)] a u show ?case by (auto simp: writer_inv_def)
next
  case (w_close w p a c_ok r_ok s' a' err)
  then have "\<And>q. ws_writers w q \<noteq> None \<Longrightarrow> q = p"
    unfolding writer_inv_def by blast
  then have "\<And>q a. q \<noteq> p \<Longrightarrow> ws_writers w q \<noteq> Some a" by blast
  then show ?case by (auto simp: writer_inv_def)
next
  case (w_crash w p a)
  then show ?case by (auto simp: writer_inv_def)
next
  case (w_put fault content w s' out)
  from PutBlob_frame [OF this(1)] this(2) show ?case by (auto simp: writer_inv_def)
next
  case (w_recover w ok s' cleared)
  then show ?case by (simp add: writer_inv_def)
qed

lemma writer_steps_inv: "(writer_step dec fs)\<^sup>*\<^sup>* w w' \<Longrightarrow> writer_inv dec w \<Longrightarrow> writer_inv dec w'"
  by (induction rule: rtranclp_induct) (auto intro: writer_step_inv)

lemma writer_step_grows:
  assumes "writer_step dec fs w w'"
  shows "(\<exists>t. file_bytes (st_events (ws_store w')) = file_bytes (st_events (ws_store w)) @ t) \<and>
    (\<forall>p. st_blobs (ws_store w) p \<noteq> NotExist \<longrightarrow> st_blobs (ws_store w') p = st_blobs (ws_store w) p)"
  using assms
proof (induction rule: writer_step.induct)
  case (w_open w p faults s' a)
  with NewAppender_ok [OF this(2)] show ?case by simp
next
  case (w_refused faults w s' e)
  with NewAppender_error [OF this(1)] show ?case by simp
next
  case (w_append w p a es outcome s' a' res)
  with AppendBatch_bytes [OF this(3)] show ?case by simp
next
  case (w_close w p a c_ok r_ok s' a' err)
  then show ?case by (auto simp: CloseAppender_def releaseWriterLock_def split: if_splits)
next
  case (w_crash w p a)
  then show ?case by simp
next
  case (w_put fault content w s' out)
  with PutBlob_frame [OF this(1)] show ?case by simp
next
  case (w_recover w ok s' cleared)
  then show ?case by (auto simp: ClearStaleWriterLock_def split: if_splits)
qed

lemma writer_steps_grow:
  "(writer_step dec fs)\<^sup>*\<^sup>* w w' \<Longrightarrow>
     (\<exists>t. file_bytes (st_events (ws_store w')) = file_bytes (st_events (ws_store w)) @ t) \<and>
     (\<forall>p. st_blobs (ws_store w) p \<noteq> NotExist \<longrightarrow> st_blobs (ws_store w') p = st_blobs (ws_store w) p)"
proof (induction rule: rtranclp_induct)
  case (step y z)
  from writer_step_grows [OF step(2)] step(3) show ?case by fastforce
qed simp

section \<open>Visiting the log\<close>

fun visit_all :: "(ledger_record \<Rightarrow> 'v \<Rightarrow> 'x + 'v) \<Rightarrow> ledger_record list \<Rightarrow> 'v \<Rightarrow> 'v option" where
  "visit_all visitor [] v = Some v"
| "visit_all visitor (r # rs) v =
     (case visitor r v of Inl _ \<Rightarrow> None | Inr v' \<Rightarrow> visit_all visitor rs v')"

lemma visit_step_pair:
  "visit_step visitor r (p, v) =
     (case check_record r p of
        Some e \<Rightarrow> Inl (ChainError e)
      | None \<Rightarrow> (case visitor r v of Inl x \<Rightarrow> Inl (VisitorError x) | Inr v' \<Rightarrow> Inr (lr_hash r, v')))"
  by (simp add: visit_step_def)

lemma run_visit_prefix:
  assumes "run_lines dec (visit_step visitor) n ls (p, v) = ((q, v'), e)"
  shows "\<exists>k rs. k \<le> length ls \<and> decodes_to dec (take k ls) rs \<and> chain_ok rs p \<and> visit_all visitor rs v = Some v' \<and>
    (e = None \<longrightarrow> k = length ls \<and> q = last_hash p rs)"
  using assms
proof (induction ls arbitrary: n p v)
  case Nil
  then show ?case by (intro exI [of _ 0] exI [of _ "[]"]) auto
next
  case (Cons l ls)
  show ?case
  proof (cases "\<exists>r v1. dec (line_payload l) = Some r \<and> check_record r p = None \<and> visitor r v = Inr v1")
    case True
    then obtain r v1 where r: "dec (line_payload l) = Some r" "check_record r p = None" "visitor r v = Inr v1"
      by blast
    with Cons.prems have "run_lines dec (visit_step visitor) (Suc n) ls (lr_hash r, v1) = ((q, v'), e)"
      by (simp add: visit_step_pair)
    from Cons.IH [OF this] obtain k rs where "k \<le> length ls" "decodes_to dec (take k ls) rs"
      "chain_ok rs (lr_hash r)" "visit_all visitor rs v1 = Some v'"
      "e = None \<longrightarrow> k = length ls \<and> q = last_hash (lr_hash r) rs" by blast
    with r show ?thesis by (intro exI [of _ "Suc k"] exI [of _ "r # rs"]) auto
  next
    case False
    with Cons.prems have "v' = v \<and> e \<noteq> None"
      by (auto simp: visit_step_pair split: option.splits sum.splits)
    then show ?thesis by (intro exI [of _ 0] exI [of _ "[]"]) auto
  qed
qed

lemma run_visit_complete:
  "decodes_to dec ls rs \<Longrightarrow> chain_ok rs p \<Longrightarrow> visit_all visitor rs v = Some v' \<Longrightarrow>
     run_lines dec (visit_step visitor) n ls (p, v) = ((last_hash p rs, v'), None)"
proof (induction ls arbitrary: rs n p v)
  case (Cons l ls)
  then obtain r rs' where "rs = r # rs'" "dec (line_payload l) = Some r" "decodes_to dec ls rs'" by auto
  with Cons show ?case by (auto simp: visit_step_pair split: sum.splits)
qed simp

lemma visit_spec:
  "(\<exists>rs qs. chain_ok rs [] \<and> visit_all visitor rs v = Some (fst (visitRecords dec visitor f v)) \<and>
      decoded_records dec f = rs @ qs) \<and>
   (snd (visitRecords dec visitor f v) = Inr h \<longleftrightarrow>
      lastRecordHash dec f = Inr h \<and> visit_all visitor (decoded_records dec f) v \<noteq> None) \<and>
   (snd (visitRecords dec visitor f v) = Inr h \<longrightarrow>
      visit_all visitor (decoded_records dec f) v = Some (fst (visitRecords dec visitor f v)))"
proof (cases f)
  case (Readable b failed)
  obtain ls rest where b: "split_lines b = (ls, rest)" by fastforce
  obtain q v' e where run: "run_lines dec (visit_step visitor) 1 ls ([], v) = ((q, v'), e)"
    by (metis prod.exhaust)
  from run_visit_prefix [OF run] obtain k rs where k: "k \<le> length ls" "decodes_to dec (take k ls) rs"
    "chain_ok rs []" "visit_all visitor rs v = Some v'" "e = None \<longrightarrow> k = length ls \<and> q = last_hash [] rs" by blast
  have d: "decoded_records dec f = rs @ List.map_filter (\<lambda>l. dec (line_payload l)) (drop k ls)"
    using map_filter_append [of "\<lambda>l. dec (line_payload l)" "take k ls" "drop k ls"] k(2)
    by (simp add: decoded_records_def file_bytes_def Readable b decodes_to_map_filter)
  have fst: "fst (visitRecords dec visitor f v) = v'"
    by (auto simp: visitRecords_def replay_log_def Readable b run [simplified] split: option.splits)
  have snd: "snd (visitRecords dec visitor f v) = Inr h \<longleftrightarrow> e = None \<and> rest = [] \<and> \<not> failed \<and> q = h"
    by (auto simp: visitRecords_def replay_log_def Readable b run [simplified] split: option.splits)
  have "snd (visitRecords dec visitor f v) = Inr h \<longleftrightarrow>
      lastRecordHash dec f = Inr h \<and> visit_all visitor (decoded_records dec f) v \<noteq> None"
  proof
    assume "snd (visitRecords dec visitor f v) = Inr h"
    with snd k d show "lastRecordHash dec f = Inr h \<and> visit_all visitor (decoded_records dec f) v \<noteq> None"
      by (auto simp: Readable lastRecordHash_Readable b List.map_filter_simps)
  next
    assume a: "lastRecordHash dec f = Inr h \<and> visit_all visitor (decoded_records dec f) v \<noteq> None"
    then obtain rs' where rs': "\<not> failed" "rest = []" "decodes_to dec ls rs'" "chain_ok rs' []" "h = last_hash [] rs'"
      by (auto simp: Readable lastRecordHash_Readable b)
    then have "decoded_records dec f = rs'"
      using decoded_records_decodes [of dec b rs'] by (simp add: Readable b)
    with a obtain y where "visit_all visitor rs' v = Some y" by auto
    from run_visit_complete [OF rs'(3,4) this, of 1] run rs'(5) have "e = None" "q = h" by simp_all
    with snd rs' show "snd (visitRecords dec visitor f v) = Inr h" by simp
  qed
  moreover have "snd (visitRecords dec visitor f v) = Inr h \<longrightarrow> visit_all visitor (decoded_records dec f) v = Some v'"
    using snd k d by (auto simp: List.map_filter_simps)
  ultimately show ?thesis using fst k(3,4) d by blast
qed (auto simp: visitRecords_def replay_log_def lastRecordHash_Inr decoded_records_def file_bytes_def
    List.map_filter_simps intro: exI [of _ "[]"])

lemma visitRecords_Inr:
  "visitRecords dec visitor f v = (v', Inr h) \<longleftrightarrow>
     lastRecordHash dec f = Inr h \<and> visit_all visitor (decoded_records dec f) v = Some v'"
  using visit_spec [of visitor v dec f h] by (cases "visitRecords dec visitor f v") auto

end
