(* ===== verification/Ledger_Claims.thy ===== *)
theory Ledger_Claims
  imports Ledger_Props
begin

text \<open>
  The properties of the evidence ledger: the path guard, the store's identity, blobs, detection of
  tampering, what an append leaves (whole and torn), and the single-writer protocol.
\<close>

section \<open>Further lemmas\<close>

lemma resolveProjected_Some:
  "resolveProjected fs cs missing = Some p \<longleftrightarrow>
     (\<exists>k \<le> length cs. fs_lstat fs (take k (rev cs)) = StatOk \<and>
        (\<forall>j. k < j \<and> j \<le> length cs \<longrightarrow> fs_lstat fs (take j (rev cs)) = StatNotExist) \<and>
        (\<exists>r. fs_eval_symlinks fs (take k (rev cs)) = Some r \<and> p = r @ drop k (rev cs) @ missing))"
  (is "_ \<longleftrightarrow> (\<exists>k \<le> length cs. ?P cs missing k)")
proof (induction cs arbitrary: missing)
  case Nil
  then show ?case by (auto simp: map_option_case split: option.splits)
next
  case (Cons c cs)
  let ?n = "length (c # cs)"
  have split: "(\<exists>k \<le> ?n. Q k) \<longleftrightarrow> Q ?n \<or> (\<exists>k \<le> length cs. Q k)" for Q
    by (auto simp: le_Suc_eq)
  have low: "?P (c # cs) missing k \<longleftrightarrow>
      fs_lstat fs (rev (c # cs)) = StatNotExist \<and> ?P cs (c # missing) k" if "k \<le> length cs" for k
  proof -
    have "(\<forall>j. k < j \<and> j \<le> ?n \<longrightarrow> Q j) \<longleftrightarrow> Q ?n \<and> (\<forall>j. k < j \<and> j \<le> length cs \<longrightarrow> Q j)" for Q
      using that by (auto simp: le_Suc_eq)
    then show ?thesis using that by (simp add: conj_left_commute)
  qed
  have top: "?P (c # cs) missing ?n \<longleftrightarrow> fs_lstat fs (rev (c # cs)) = StatOk \<and>
      (\<exists>r. fs_eval_symlinks fs (rev (c # cs)) = Some r \<and> p = r @ missing)"
    by auto
  have bot: "(\<exists>k \<le> length cs. ?P (c # cs) missing k) \<longleftrightarrow>
      fs_lstat fs (rev (c # cs)) = StatNotExist \<and> resolveProjected fs cs (c # missing) = Some p"
    unfolding Cons.IH [of "c # missing"] using low by blast
  show ?case
    unfolding split top bot
    by (cases "fs_lstat fs (rev (c # cs))") (auto simp: map_option_case split: option.splits)
qed

lemma contents_event_digests:
  "evidence.contents (event_digests rs) = map (\<lambda>r. marshal (event_json (lr_event r))) rs"
  by (rule nth_equalityI)
    (auto simp: evidence.contents_def event_digests_def evidence_content_def nth_enumerate_eq)

text \<open>The bytes that were hashed along the records of a file.\<close>

definition hashed_inputs :: "(string \<Rightarrow> ledger_record option) \<Rightarrow> os_file \<Rightarrow> string set" where
  "hashed_inputs dec f = set (chain_inputs evidence_input 1 [] (event_digests (decoded_records dec f)))"

lemma Verify_clean_log:
  assumes "vr_issues (Verify dec s) = []"
  shows "lastRecordHash dec (st_events s) = Inr (vr_last (Verify dec s))"
    and "vr_records (Verify dec s) = int (length (decoded_records dec (st_events s)))"
  using assms
  by (cases "st_events s";
      auto simp: Verify_def empty_report_def lastRecordHash_Inr replay_log_def decoded_records_def
        file_bytes_def List.map_filter_simps dest!: VerifyReader_clean_report)+

lemma Verify_clean_iff:
  "vr_issues (Verify dec s) = [] \<longleftrightarrow>
     (\<exists>h. lastRecordHash dec (st_events s) = Inr h) \<and>
     blobs_ok (verifyBlob s) (decoded_records dec (st_events s))"
  by (cases "st_events s")
    (auto simp: Verify_def empty_report_def VerifyReader_clean_iff lastRecordHash_Inr replay_log_def
      decoded_records_def file_bytes_def List.map_filter_simps)

lemma verifyBlob_cong:
  "st_blobs s' = st_blobs s \<Longrightarrow> verifyBlob s' = verifyBlob s"
  by (simp add: verifyBlob_def fun_eq_iff)

lemma CloseAppender_open:
  assumes "CloseAppender c r a s = (s', a', None)" and "\<not> ap_closed a"
  shows "st_events s' = st_events s \<and> st_blobs s' = st_blobs s \<and> \<not> st_writer_lock s'"
  using assms by (auto simp: CloseAppender_def releaseWriterLock_def split: if_splits)

lemma last_hash_append: "last_hash p (rs @ qs) = last_hash (last_hash p rs) qs"
  by (simp add: last_hash_def)

lemma lastRecordHash_prefix:
  assumes "lastRecordHash dec f = Inr h" and "file_bytes g = file_bytes f @ t"
  shows "\<exists>rs. decoded_records dec g = decoded_records dec f @ rs"
proof -
  have "snd (split_lines (file_bytes f)) = []"
    using readable_clean [OF assms(1)] by (simp add: lastRecordHash_Readable)
  from decoded_records_append [OF this, of dec t False False False] assms(2) readable_clean [OF assms(1)]
  show ?thesis by (auto simp: decoded_records_def file_bytes_def)
qed

section \<open>A sample store\<close>

text \<open>A capture gap, its record, and a store whose log holds it.\<close>

definition sample_event :: event where
  "sample_event =
     \<lparr>ev_schema_version = SchemaVersion, ev_event_id = ''e1'', ev_kind = KindGap, ev_observed_at = 1,
      ev_recorded_at = 2,
      ev_source = \<lparr>src_agent = AgentCodex, src_adapter = ''codex'', src_adapter_version = ''1'',
        src_device_id = ''device-1'', src_os = [], src_thread_id = ''t1'', src_session_id = [],
        src_source_event_id = [], src_source_path_hash = [], src_acquisition_path_hash = [],
        src_source_cursor = [], src_byte_start = None, src_byte_end = None\<rparr>,
      ev_payload = None, ev_reasoning = None,
      ev_completeness = \<lparr>cp_status = ''gap'', cp_reason = ''x'', cp_expected_bytes = None,
        cp_captured_bytes = None\<rparr>,
      ev_causality = None, ev_classification = ''local_only''\<rparr>"

definition sample_record :: ledger_record where
  "sample_record = the (makeRecord sample_event [])"

definition sample_dec :: "string \<Rightarrow> ledger_record option" where
  "sample_dec l = Some sample_record"

definition sample_line :: string where
  "sample_line = the (marshal (ledger_record_json sample_record))"

definition sample_fs :: filesystem where
  "sample_fs = \<lparr>fs_lstat = (\<lambda>p. if p = [''evidence''] then StatOk else StatNotExist), fs_eval_symlinks = Some\<rparr>"

definition sample_store :: evidence_store where
  "sample_store = \<lparr>st_root = [''evidence''], st_device_id = ''device-1'', st_manifest = NotExist,
     st_events = NotExist, st_writer_lock = False, st_blobs = \<lambda>_. NotExist\<rparr>"

definition sample_log :: evidence_store where
  "sample_log = sample_store\<lparr>st_events := Readable (sample_line @ [newline]) False\<rparr>"

lemma sample_event_valid [simp]: "validateEvent sample_event = None"
  by (simp add: validateEvent_def sample_event_def validEventKindForVersion_def baseKinds_def
      v1Alpha2Kinds_def validateReasoning_def Let_def) code_simp

lemma sample_event_json: "marshal (event_json sample_event) \<noteq> None"
  unfolding event_json_None sample_event_def event.simps by code_simp

lemma sample_make: "makeRecord sample_event [] = Some sample_record"
  and sample_record_event [simp]: "lr_event sample_record = sample_event"
  using sample_event_json by (auto simp: sample_record_def makeRecord_def record_input_def)

lemma sample_line: "marshal (ledger_record_json sample_record) = Some sample_line"
  using sample_event_json ledger_record_json_None [of sample_record] by (simp add: sample_line_def)

lemma sample_survives [simp]: "survives sample_dec sample_record"
  by (simp add: survives_def sample_dec_def)

lemma sample_empty: "lastRecordHash sample_dec (Readable [] False) = Inr []"
  by (simp add: lastRecordHash_Readable)

lemmas sample_appended =
  append_one_record [OF sample_empty sample_make sample_line sample_event_valid sample_survives, simplified]

lemma sample_log_clean: "vr_issues (Verify sample_dec sample_log) = []"
  using sample_appended
  by (simp add: Verify_clean_iff sample_log_def decoded_records_def file_bytes_def blob_of_def blobs_ok_def
      List.map_filter_simps sample_event_def)

section \<open>Properties\<close>

text \<open>Property C1. Tamper evidence: when two stores verify without an issue and report the same last
  record hash, they hold the same encoded events in the same order, or the bytes that were hashed for
  them contain a collision of SHA-256.\<close>

theorem same_tail_same_events:
  assumes "vr_issues (Verify dec s) = []" and "vr_issues (Verify dec s') = []"
    and "vr_last (Verify dec s) = vr_last (Verify dec s')"
  shows "map (\<lambda>r. marshal (event_json (lr_event r))) (decoded_records dec (st_events s)) =
           map (\<lambda>r. marshal (event_json (lr_event r))) (decoded_records dec (st_events s')) \<or>
         sha_collision_in (hashed_inputs dec (st_events s)) (hashed_inputs dec (st_events s'))"
proof -
  have c: "chain_from evidence_input 1 [] (event_digests (decoded_records dec (st_events t)))"
    "chain_last [] (event_digests (decoded_records dec (st_events t))) = vr_last (Verify dec t)"
    if "vr_issues (Verify dec t) = []" for t
    using lastRecordHash_records [OF Verify_clean_log(1) [OF that]] chain_ok_chain_from
    by (auto simp: chain_last_event_digests)
  show ?thesis
    using evidence.same_last_digest [OF c(1) [OF assms(1)] c(1) [OF assms(2)]]
    by (simp add: contents_event_digests sha_collision_in_def hashed_inputs_def c(2) assms)
qed

theorem same_tail_same_events_witness:
  "map (\<lambda>r. marshal (event_json (lr_event r))) (decoded_records sample_dec (st_events sample_log)) =
     map (\<lambda>r. marshal (event_json (lr_event r))) (decoded_records sample_dec (st_events sample_log)) \<or>
   sha_collision_in (hashed_inputs sample_dec (st_events sample_log)) (hashed_inputs sample_dec (st_events sample_log))"
  by (rule same_tail_same_events [OF sample_log_clean sample_log_clean refl])

text \<open>Property C15. Verification is exact: a store verifies without an issue if and only if its log ends in a
  newline, reads without error, every line decodes to a record with a valid event whose previous hash is
  the hash of the line before and whose own hash is that of its content, and every referenced blob has
  its size and its digest.\<close>

theorem Verify_exact:
  "vr_issues (Verify dec s) = [] \<longleftrightarrow>
     (st_events s = NotExist \<or>
      (\<exists>b rs. st_events s = Readable b False \<and> snd (split_lines b) = [] \<and>
         decodes_to dec (fst (split_lines b)) rs \<and> chain_ok rs [] \<and> blobs_ok (verifyBlob s) rs))"
proof (cases "st_events s")
  case (Readable b failed)
  then show ?thesis
    by (auto simp: Verify_clean_iff lastRecordHash_Readable decoded_records_decodes)
qed (auto simp: Verify_def empty_report_def)

lemma AppendBatch_success:
  assumes "AppendBatch outcome es a s = (s', a', Inr rs)" and "batch_survives dec es (ap_previous a)"
    and "lastRecordHash dec (st_events s) = Inr (ap_previous a)"
  shows "map lr_event rs = es \<and> check_batch s es = None \<and>
    decoded_records dec (st_events s') = decoded_records dec (st_events s) @ rs \<and>
    lastRecordHash dec (st_events s') = Inr (last_hash (ap_previous a) rs)"
proof (cases "es = []")
  case True
  with assms show ?thesis
    by (auto simp: AppendBatch_def check_batch_def split: if_splits)
next
  case False
  then obtain buf t where b: "build_records es (ap_previous a) = Some (rs, buf, t)"
    and c: "check_batch s es = None" and w: "s' = write_events buf s"
    using assms(1) by (auto simp: AppendBatch_def split: if_splits option.splits write_outcome.splits)
  have v: "\<forall>e \<in> set es. validateEvent e = None" "\<forall>r \<in> set rs. survives dec r"
    using check_batch_None [OF c] assms(2) b by (auto simp: batch_survives_def list_all_iff)
  from batch_log [OF b _ v] readable_clean [OF assms(3)] build_records_events [OF b] w c
  show ?thesis by (simp add: write_events_def)
qed

lemma blobs_ok_append: "blobs_ok vb (rs @ qs) \<longleftrightarrow> blobs_ok vb rs \<and> blobs_ok vb qs"
  by (auto simp: blobs_ok_def)

lemma check_batch_blobs:
  assumes "check_batch s (map lr_event rs) = None"
  shows "blobs_ok (verifyBlob s) rs"
  using check_batch_None [OF assms] by (auto simp: blobs_ok_def blob_of_def)

lemma AppendBatchStore_success:
  assumes "AppendBatchStore dec fs faults outcome close es s = (s', Inr rs)"
  obtains a s1 a2 s2 a3 where "NewAppender dec fs faults s = (s1, Inr a)"
    "AppendBatch outcome es a s1 = (s2, a2, Inr rs)"
    "CloseAppender (fst close) (snd close) a2 s2 = (s', a3, None)"
  using assms by (auto simp: AppendBatchStore_def split: prod.splits sum.splits option.splits)

lemma AppendBatchStore_ok:
  assumes "AppendBatchStore dec fs faults outcome close es s = (s', Inr rs)"
    and "\<And>p. lastRecordHash dec (st_events s) = Inr p \<Longrightarrow> batch_survives dec es p"
  shows "\<exists>p. lastRecordHash dec (st_events s) = Inr p \<and> \<not> st_writer_lock s \<and>
    map lr_event rs = es \<and> (\<forall>e \<in> set es. validateEvent e = None) \<and>
    decoded_records dec (st_events s') = decoded_records dec (st_events s) @ rs \<and>
    lastRecordHash dec (st_events s') = Inr (last_hash p rs) \<and>
    \<not> st_writer_lock s' \<and> st_blobs s' = st_blobs s \<and>
    (vr_issues (Verify dec s) = [] \<longrightarrow> vr_issues (Verify dec s') = [])"
proof -
  obtain a s1 a2 s2 a3 where n: "NewAppender dec fs faults s = (s1, Inr a)"
    and b: "AppendBatch outcome es a s1 = (s2, a2, Inr rs)"
    and c: "CloseAppender (fst close) (snd close) a2 s2 = (s', a3, None)"
    using AppendBatchStore_success [OF assms(1)] .
  note N = NewAppender_ok [OF n]
  note B = AppendBatch_success [OF b assms(2)] AppendBatch_bytes [OF b]
  have cl: "\<not> ap_closed a2" using B(2) N by simp
  have d: "decoded_records dec (st_events s1) = decoded_records dec (st_events s)"
    using N by (simp add: decoded_records_def)
  have vb: "verifyBlob s' = verifyBlob s" "verifyBlob s1 = verifyBlob s"
    using CloseAppender_open [OF c cl] B(2) N by (auto intro!: verifyBlob_cong)
  have "blobs_ok (verifyBlob s) rs" using B(1) N check_batch_blobs [of s1 rs] vb by auto
  then show ?thesis
    using N B CloseAppender_open [OF c cl] d check_batch_None [of s1 es] vb
    by (auto simp: Verify_clean_iff blobs_ok_append)
qed

text \<open>Property C2. A successful append to the store (open, append, close) found the lock free and the chain
  intact, adds exactly one record per event in order to the records the log decodes to, moves the tail to
  the last of them, releases the lock and keeps the blobs; a store that verified before verifies after.
  The decoder is assumed to invert the encoder on the records of this batch.\<close>

theorem append_ok:
  assumes "AppendBatchStore dec fs faults outcome close es s = (s', Inr rs)"
    and "\<And>p. lastRecordHash dec (st_events s) = Inr p \<Longrightarrow> batch_survives dec es p"
  shows "\<exists>p. lastRecordHash dec (st_events s) = Inr p \<and> \<not> st_writer_lock s \<and>
    map lr_event rs = es \<and> (\<forall>e \<in> set es. validateEvent e = None) \<and>
    decoded_records dec (st_events s') = decoded_records dec (st_events s) @ rs \<and>
    lastRecordHash dec (st_events s') = Inr (last_hash p rs) \<and>
    \<not> st_writer_lock s' \<and> st_blobs s' = st_blobs s \<and>
    (vr_issues (Verify dec s) = [] \<longrightarrow> vr_issues (Verify dec s') = [])"
  using AppendBatchStore_ok [OF assms] .

lemma sample_guard: "ensureEvidenceRootOutsideGit sample_fs [''evidence''] = None"
  by (simp add: ensureEvidenceRootOutsideGit_def resolveProjectedPath_def sample_fs_def)

lemma sample_build: "build_records [sample_event] [] = Some ([sample_record], sample_line @ [newline], lr_hash sample_record)"
  by (simp add: sample_make sample_line)

lemma sample_check: "check_batch s [sample_event] = None"
  by (simp add: check_batch_def sample_event_def [THEN arg_cong, of ev_payload])

lemma sample_append_store:
  "AppendBatchStore sample_dec sample_fs no_open_faults WriteOk (True, True) [sample_event] sample_store =
     (sample_log, Inr [sample_record])"
  by (simp add: AppendBatchStore_def NewAppender_def sample_store_def sample_guard acquireWriterLock_def
      acquire_lock_def no_open_faults_def lastRecordHash_def replay_log_def openAppenderAt_def AppendBatch_def
      sample_check sample_build CloseAppender_def releaseWriterLock_def write_events_def file_bytes_def
      sample_log_def del: build_records.simps)

lemma sample_batch_survives [simp]: "batch_survives sample_dec [sample_event] []"
  by (simp add: batch_survives_def sample_build del: build_records.simps)

theorem append_ok_witness:
  "decoded_records sample_dec (st_events sample_log) =
     decoded_records sample_dec (st_events sample_store) @ [sample_record] \<and>
   \<not> st_writer_lock sample_log \<and> vr_issues (Verify sample_dec sample_log) = []"
proof -
  have e: "vr_issues (Verify sample_dec sample_store) = []"
    by (simp add: Verify_def sample_store_def empty_report_def)
  have "\<And>p. lastRecordHash sample_dec (st_events sample_store) = Inr p \<Longrightarrow> batch_survives sample_dec [sample_event] p"
    by (simp add: sample_store_def lastRecordHash_Inr replay_log_def)
  from append_ok [OF sample_append_store this] e show ?thesis by blast
qed

lemma check_batch_valid:
  assumes "\<forall>e \<in> set es. validateEvent e = None \<and>
     (\<forall>b. Option.bind (ev_payload e) pl_blob = Some b \<longrightarrow> verifyBlob s b = None)"
  shows "check_batch s es = None"
  using assms by (auto simp: check_batch_def split: option.splits)

lemma build_records_total:
  assumes "\<forall>e \<in> set es. marshal (event_json e) \<noteq> None"
  shows "\<exists>rs buf t. build_records es p = Some (rs, buf, t)"
  using assms
proof (induction es arbitrary: p)
  case (Cons e es)
  then obtain x where "record_input e p = Some x" by (auto simp: record_input_def)
  moreover have "marshal (event_json e) \<noteq> None" using Cons.prems by simp
  ultimately show ?case
    using Cons.IH [of "sha256_hex x"] Cons.prems
    by (auto simp: makeRecord_def ledger_record_json_None split: option.splits)
qed simp

lemma AppendBatchStore_accepts:
  assumes "ensureEvidenceRootOutsideGit fs (st_root s) = None" and "\<not> st_writer_lock s"
    and "lastRecordHash dec (st_events s) = Inr p"
    and "\<forall>e \<in> set es. validateEvent e = None \<and> json_time (ev_observed_at e) \<noteq> None \<and>
       json_time (ev_recorded_at e) \<noteq> None \<and>
       (\<forall>b. Option.bind (ev_payload e) pl_blob = Some b \<longrightarrow> verifyBlob s b = None)"
  shows "\<exists>s' rs. AppendBatchStore dec fs no_open_faults WriteOk (True, True) es s = (s', Inr rs) \<and>
    map lr_event rs = es"
proof -
  obtain rs buf t where b: "build_records es p = Some (rs, buf, t)"
    using build_records_total [of es p] assms(4) by (auto simp: event_json_None)
  define s1 where "s1 = s\<lparr>st_writer_lock := True,
    st_events := (if st_events s = NotExist then Readable [] False else st_events s)\<rparr>"
  have "check_batch s1 es = None"
    using check_batch_valid [of es s1] verifyBlob_cong [of s1 s] assms(4) by (simp add: s1_def)
  moreover have "NewAppender dec fs no_open_faults s =
      (s1, Inr \<lparr>ap_previous = p, ap_failed = False, ap_closed = False\<rparr>)"
    using assms(1-3) readable_clean [OF assms(3)]
    by (simp add: NewAppender_def acquireWriterLock_def acquire_lock_def no_open_faults_def openAppenderAt_def s1_def)
  ultimately show ?thesis
    using build_records_events [OF b] b
    by (auto simp: AppendBatchStore_def AppendBatch_def CloseAppender_def releaseWriterLock_def)
qed

text \<open>Property C36. A batch is accepted whenever it should be: outside Git worktrees, with the lock free, an
  intact chain, valid events whose blobs verify and whose instants JSON can express, and no failing system
  call, \<open>AppendBatch\<close> returns one record per event.\<close>

theorem append_accepts:
  assumes "ensureEvidenceRootOutsideGit fs (st_root s) = None" and "\<not> st_writer_lock s"
    and "lastRecordHash dec (st_events s) = Inr p"
    and "\<forall>e \<in> set es. validateEvent e = None \<and> json_time (ev_observed_at e) \<noteq> None \<and>
       json_time (ev_recorded_at e) \<noteq> None \<and>
       (\<forall>b. Option.bind (ev_payload e) pl_blob = Some b \<longrightarrow> verifyBlob s b = None)"
  shows "\<exists>s' rs. AppendBatchStore dec fs no_open_faults WriteOk (True, True) es s = (s', Inr rs) \<and>
    map lr_event rs = es"
  using AppendBatchStore_accepts [OF assms] .

theorem append_accepts_witness:
  "\<exists>s' rs. AppendBatchStore sample_dec sample_fs no_open_faults WriteOk (True, True) [sample_event] sample_store
     = (s', Inr rs) \<and> map lr_event rs = [sample_event]"
proof (rule append_accepts)
  show "ensureEvidenceRootOutsideGit sample_fs (st_root sample_store) = None"
    using sample_guard by (simp add: sample_store_def)
  show "lastRecordHash sample_dec (st_events sample_store) = Inr []"
    by (simp add: sample_store_def lastRecordHash_Inr replay_log_def)
  show "\<forall>e \<in> set [sample_event]. validateEvent e = None \<and> json_time (ev_observed_at e) \<noteq> None \<and>
      json_time (ev_recorded_at e) \<noteq> None \<and>
      (\<forall>b. Option.bind (ev_payload e) pl_blob = Some b \<longrightarrow> verifyBlob sample_store b = None)"
    using sample_event_json unfolding event_json_None by (simp add: sample_event_def [THEN arg_cong, of ev_payload])
qed (simp add: sample_store_def)

lemma check_batch_error:
  "check_batch s es = Some e \<Longrightarrow> e \<notin> {AppendWrite, AppendShort, AppendSync}"
proof (induction es)
  case (Cons x xs)
  then show ?case
    by (cases "validateEvent x"; cases "Option.bind (ev_payload x) pl_blob")
      (auto simp: check_batch_def map_option_case split: option.splits)
qed (simp add: check_batch_def)

lemma AppendBatch_torn:
  assumes "AppendBatch outcome es a s = (s', a', Inl err)" and "err \<in> {AppendWrite, AppendShort, AppendSync}"
  obtains rs buf t n where "build_records es (ap_previous a) = Some (rs, buf, t)" "check_batch s es = None"
    "s' = write_events (take n buf) s" "a' = a\<lparr>ap_failed := True\<rparr>" "\<not> ap_closed a"
proof -
  obtain rs buf t where b: "build_records es (ap_previous a) = Some (rs, buf, t)"
    and c: "check_batch s es = None" and cl: "\<not> ap_closed a" "\<not> ap_failed a" "es \<noteq> []"
    using assms check_batch_error [of s es]
    by (fastforce simp: AppendBatch_def split: if_splits option.splits)
  have "\<exists>n. s' = write_events (take n buf) s \<and> a' = a\<lparr>ap_failed := True\<rparr>"
    using assms(1) b c cl
    by (cases outcome) (auto simp: AppendBatch_def intro: exI [of _ "length buf"])
  with b c cl that show ?thesis by blast
qed

text \<open>Property C4. A write of a batch that fails or stops after any number of bytes never corrupts silently: the
  appender refuses every later batch without touching the store, and the file is either rejected by the
  reader or decodes to the old records followed by a prefix of the batch.\<close>

theorem torn_write:
  assumes "AppendBatch outcome es a s = (s', a', Inl err)" and "err \<in> {AppendWrite, AppendShort, AppendSync}"
    and "batch_survives dec es (ap_previous a)"
    and "lastRecordHash dec (st_events s) = Inr (ap_previous a)"
  shows "(\<forall>outcome' es'. es' \<noteq> [] \<longrightarrow> AppendBatch outcome' es' a' s' = (s', a', Inl AppenderFailed)) \<and>
    (\<forall>h. lastRecordHash dec (st_events s') = Inr h \<longrightarrow>
       (\<exists>rs. map lr_event rs = take (length rs) es \<and> h = last_hash (ap_previous a) rs \<and>
          decoded_records dec (st_events s') = decoded_records dec (st_events s) @ rs))"
proof -
  obtain rs buf t n where b: "build_records es (ap_previous a) = Some (rs, buf, t)"
    and c: "check_batch s es = None" and s': "s' = write_events (take n buf) s"
    and a'_def: "a' = a\<lparr>ap_failed := True\<rparr>" and cl: "\<not> ap_closed a"
    by (rule AppendBatch_torn [OF assms(1,2)])
  from s' have n: "st_events s' = Readable (file_bytes (st_events s) @ take n buf) False"
    by (simp add: write_events_def)
  from a'_def cl have a': "ap_failed a'" "\<not> ap_closed a'" by simp_all
  have v: "\<forall>e \<in> set es. validateEvent e = None" "\<forall>r \<in> set rs. survives dec r"
    using check_batch_None [OF c] assms(3) b by (auto simp: batch_survives_def list_all_iff)
  note r = readable_clean [OF assms(4)]
  have "\<exists>k \<le> length rs. h = last_hash (ap_previous a) (take k rs) \<and>
      decoded_records dec (st_events s') = decoded_records dec (st_events s) @ take k rs"
    if "lastRecordHash dec (st_events s') = Inr h" for h
    using torn_batch_log [OF b _ v, of "file_bytes (st_events s)"] r n that by auto
  moreover have "map lr_event (take k rs) = take (length (take k rs)) es" if "k \<le> length rs" for k
    using build_records_events [OF b] that by (auto simp: take_map)
  ultimately show ?thesis using a' by (auto simp: AppendBatch_def)
qed

theorem torn_write_witness:
  "AppendBatch WriteOk [sample_event] \<lparr>ap_previous = [], ap_failed = True, ap_closed = False\<rparr>
     (write_events (take 3 (sample_line @ [newline])) sample_store) =
   (write_events (take 3 (sample_line @ [newline])) sample_store,
    \<lparr>ap_previous = [], ap_failed = True, ap_closed = False\<rparr>, Inl AppenderFailed)"
proof -
  have "AppendBatch (WriteShort 3) [sample_event] \<lparr>ap_previous = [], ap_failed = False, ap_closed = False\<rparr> sample_store =
      (write_events (take 3 (sample_line @ [newline])) sample_store,
       \<lparr>ap_previous = [], ap_failed = True, ap_closed = False\<rparr>, Inl AppendShort)"
    by (simp add: AppendBatch_def sample_check sample_build del: build_records.simps)
  from torn_write [OF this, of sample_dec, THEN conjunct1] show ?thesis
    by (simp add: sample_store_def lastRecordHash_Inr replay_log_def)
qed

text \<open>Property C3. Single writer: however processes open, append (with any outcome), close, crash, store blobs and
  recover stale locks, at most one of them holds an appender, and unless its last write failed the tail it
  will chain to is the last record hash of the file: the chain never forks.\<close>

theorem single_writer:
  assumes "(writer_step dec fs)\<^sup>*\<^sup>* w w'" and "\<forall>p. ws_writers w p = None"
  shows "(\<forall>p q. ws_writers w' p \<noteq> None \<and> ws_writers w' q \<noteq> None \<longrightarrow> p = q) \<and>
    (\<forall>p a. ws_writers w' p = Some a \<longrightarrow> ap_failed a \<or>
       lastRecordHash dec (st_events (ws_store w')) = Inr (ap_previous a))"
  using writer_steps_inv [OF assms(1)] assms(2) by (auto simp: writer_inv_def)

lemma sample_open:
  "NewAppender sample_dec sample_fs no_open_faults sample_store =
     (sample_store\<lparr>st_events := Readable [] False, st_writer_lock := True\<rparr>,
      Inr \<lparr>ap_previous = [], ap_failed = False, ap_closed = False\<rparr>)"
  by (simp add: NewAppender_def sample_store_def sample_guard acquireWriterLock_def
      acquire_lock_def no_open_faults_def lastRecordHash_def replay_log_def openAppenderAt_def)

definition sample_opened :: "writer_system" where
  "sample_opened = \<lparr>ws_store = sample_store\<lparr>st_events := Readable [] False, st_writer_lock := True\<rparr>,
     ws_writers = (\<lambda>_. None)(1 := Some \<lparr>ap_previous = [], ap_failed = False, ap_closed = False\<rparr>)\<rparr>"

lemma sample_opens: "(writer_step sample_dec sample_fs)\<^sup>*\<^sup>* \<lparr>ws_store = sample_store, ws_writers = \<lambda>_. None\<rparr> sample_opened"
  using w_open [of "\<lparr>ws_store = sample_store, ws_writers = \<lambda>_. None\<rparr>" 1 sample_dec sample_fs no_open_faults] sample_open
  by (intro r_into_rtranclp) (simp add: sample_opened_def)

theorem single_writer_witness:
  "\<exists>a. ws_writers sample_opened 1 = Some a \<and> \<not> ap_failed a \<and>
     lastRecordHash sample_dec (st_events (ws_store sample_opened)) = Inr (ap_previous a)"
proof -
  have "ws_writers sample_opened 1 = Some \<lparr>ap_previous = [], ap_failed = False, ap_closed = False\<rparr>"
    by (simp add: sample_opened_def)
  with single_writer [OF sample_opens] show ?thesis by fastforce
qed

text \<open>Property C34. Evidence is append-only: across any such history the bytes of the log only grow at the end, the
  records of an intact log stay a prefix of what it decodes to later, and no blob that exists is changed.\<close>

theorem evidence_append_only:
  assumes "(writer_step dec fs)\<^sup>*\<^sup>* w w'"
  shows "(\<exists>t. file_bytes (st_events (ws_store w')) = file_bytes (st_events (ws_store w)) @ t) \<and>
    (\<forall>h. lastRecordHash dec (st_events (ws_store w)) = Inr h \<longrightarrow>
       (\<exists>rs. decoded_records dec (st_events (ws_store w')) = decoded_records dec (st_events (ws_store w)) @ rs)) \<and>
    (\<forall>p. st_blobs (ws_store w) p \<noteq> NotExist \<longrightarrow> st_blobs (ws_store w') p = st_blobs (ws_store w) p)"
  using writer_steps_grow [OF assms] lastRecordHash_prefix by metis

theorem evidence_append_only_witness:
  "\<exists>t. file_bytes (st_events (ws_store sample_opened)) = file_bytes (st_events sample_store) @ t"
  using evidence_append_only [OF sample_opens] by simp

text \<open>Property C38. Content addressing: a blob that \<open>PutBlob\<close> returns has the size and the digest of the content and
  can be opened under its reference, giving that content (or the bytes stored before collide with it under
  SHA-256); blobs that were there are unchanged, and so is the log.\<close>

theorem PutBlob_ok:
  assumes "PutBlob fs fault content s = (s', Inr ref)"
  shows "blob_sha256 ref = sha256_hex content \<and> blob_size ref = int (length content) \<and>
    verifyBlob s' ref = None \<and>
    (\<exists>c. OpenBlob s' ref = Inr (Readable c False) \<and> (c = content \<or> sha_collision c content)) \<and>
    (\<forall>p. st_blobs s p \<noteq> NotExist \<longrightarrow> st_blobs s' p = st_blobs s p) \<and> st_events s' = st_events s"
proof -
  have r: "ref = \<lparr>blob_sha256 = sha256_hex content, blob_size = int (length content),
      blob_relative_path = expectedBlobRelativePath (sha256_hex content)\<rparr>"
    and v: "verifyBlob s' ref = None"
    using assms by (auto simp: PutBlob_def Let_def split: option.splits put_fault.splits if_splits)
  from v r have "\<exists>c. OpenBlob s' ref = Inr (Readable c False) \<and> (c = content \<or> sha_collision c content)"
    by (auto simp: verifyBlob_def OpenBlob_def sha_collision_def split: os_file.splits if_splits)
  with v r PutBlob_frame [OF assms] show ?thesis by simp
qed

lemma sample_put:
  "PutBlob sample_fs None ''x'' sample_store =
     (sample_store\<lparr>st_blobs := (st_blobs sample_store)(expectedBlobRelativePath (sha256_hex ''x'') := Readable ''x'' False)\<rparr>,
      Inr \<lparr>blob_sha256 = sha256_hex ''x'', blob_size = 1,
           blob_relative_path = expectedBlobRelativePath (sha256_hex ''x'')\<rparr>)"
  using sample_guard by (simp add: PutBlob_def sample_store_def Let_def verifyBlob_def)

theorem PutBlob_ok_witness:
  "\<exists>s' ref. PutBlob sample_fs None ''x'' sample_store = (s', Inr ref) \<and> verifyBlob s' ref = None \<and>
     (\<exists>c. OpenBlob s' ref = Inr (Readable c False) \<and> (c = ''x'' \<or> sha_collision c ''x''))"
  using PutBlob_ok [OF sample_put] sample_put by blast

text \<open>Property C39. The path guard is exact: evidence may be written below a root exactly when its longest existing
  ancestor resolves and no directory on the resolved path, from the root directory to the evidence root,
  holds a \<open>.git\<close> entry.\<close>

theorem path_guard_exact:
  "ensureEvidenceRootOutsideGit fs root = None \<longleftrightarrow>
     (\<exists>k \<le> length root. fs_lstat fs (take k root) = StatOk \<and>
        (\<forall>j. k < j \<and> j \<le> length root \<longrightarrow> fs_lstat fs (take j root) = StatNotExist) \<and>
        (\<exists>r. fs_eval_symlinks fs (take k root) = Some r \<and>
           (\<forall>n \<le> length (r @ drop k root).
              fs_lstat fs (take n (r @ drop k root) @ [''.git'']) = StatNotExist)))"
proof -
  have tk: "(\<forall>n \<le> length (rev q). Q (rev (drop n (rev q)))) \<longleftrightarrow> (\<forall>n \<le> length q. Q (take n q))"
    for q :: path and Q
    by (simp add: rev_drop) (metis diff_diff_cancel diff_le_self)
  have "ensureEvidenceRootOutsideGit fs root = None \<longleftrightarrow>
      (\<exists>p. resolveProjected fs (rev root) [] = Some p \<and> outsideGit fs (rev p) = None)"
    by (simp add: ensureEvidenceRootOutsideGit_def resolveProjectedPath_def split: option.split)
  also have "\<dots> \<longleftrightarrow> (\<exists>p. resolveProjected fs (rev root) [] = Some p \<and>
      (\<forall>n \<le> length p. fs_lstat fs (take n p @ [''.git'']) = StatNotExist))"
    unfolding outsideGit_None tk [of _ "\<lambda>q. fs_lstat fs (q @ [''.git'']) = StatNotExist"] ..
  finally show ?thesis
    unfolding resolveProjected_Some length_rev rev_rev_ident append_Nil2 by blast
qed

theorem path_guard_exact_witness:
  "ensureEvidenceRootOutsideGit sample_fs [''evidence'', ''new''] = None"
  unfolding path_guard_exact
  by (rule exI [of _ 1]) (auto simp: sample_fs_def le_Suc_eq take_Cons split: nat.splits)

text \<open>The identity of a store is stable: after a successful \<open>Init\<close>, opening the same root yields the
  device id that \<open>Init\<close> returned, a further \<open>Init\<close> (with other random bytes and another clock) keeps the
  manifest and returns the same id, an existing manifest was not touched, and neither was the evidence.\<close>

theorem Init_stable:
  assumes "Init absolute fs fault random now enc dec root s = (s', Inr d)"
  shows "Open absolute fs dec root s' = (s', Inr d) \<and>
    Init absolute fs None random' now' enc dec root s' = (s', Inr d) \<and>
    (st_manifest s \<noteq> NotExist \<longrightarrow> st_manifest s' = st_manifest s) \<and> \<not> blank d \<and>
    st_device_id s' = d \<and> st_events s' = st_events s \<and> st_blobs s' = st_blobs s"
proof -
  obtain p where p: "absolute root = Some p" "ensureEvidenceRootOutsideGit fs p = None" "\<not> blank root"
    and s': "st_root s' = p" "st_device_id s' = d" "st_events s' = st_events s" "st_blobs s' = st_blobs s"
    and m: "validateManifest dec (st_manifest s') = Inr d"
    and k: "st_manifest s \<noteq> NotExist \<longrightarrow> st_manifest s' = st_manifest s"
    using assms
    by (auto simp: Init_def Let_def split: if_splits option.splits prod.splits sum.splits init_fault.splits)
  from m have "st_manifest s' \<noteq> NotExist" "\<not> blank d"
    by (auto simp: validateManifest_def split: os_file.splits option.splits if_splits)
  moreover have "s'\<lparr>st_root := p, st_device_id := d\<rparr> = s'" using s' by simp
  ultimately show ?thesis using p s' m k by (simp add: Open_def Init_def)
qed

definition sample_manifest :: store_manifest where
  "sample_manifest = \<lparr>sm_schema_version = storeSchema, sm_device_id = newDeviceID ''r'', sm_created_at = 5\<rparr>"

definition sample_inited :: evidence_store where
  "sample_inited = sample_store\<lparr>st_manifest := Readable ''m'' False, st_device_id := newDeviceID ''r''\<rparr>"

lemma sample_init:
  "Init (\<lambda>_. Some [''evidence'']) sample_fs None ''r'' 5 (\<lambda>_. ''m'') (\<lambda>_. Some sample_manifest) ''x'' sample_store =
     (sample_inited, Inr (newDeviceID ''r''))"
proof -
  have "\<not> blank ''x''" "\<not> blank (newDeviceID ''r'')" by code_simp+
  then show ?thesis
    by (simp add: Init_def sample_guard sample_store_def validateManifest_def sample_manifest_def sample_inited_def)
qed

theorem Init_stable_witness:
  "Open (\<lambda>_. Some [''evidence'']) sample_fs (\<lambda>_. Some sample_manifest) ''x'' sample_inited =
     (sample_inited, Inr (newDeviceID ''r''))"
  using Init_stable [OF sample_init] by blast

text \<open>Property C37. A visitor of the log only ever sees verified records: whatever it does, the records shown to it
  are a prefix of an intact chain, in order; and the visit ends without an error exactly when the whole log
  is intact and the visitor accepts every record, with the last record hash as the result.\<close>

theorem visit_verified:
  "(\<exists>rs qs. chain_ok rs [] \<and> visit_all visitor rs v = Some (fst (visitRecords dec visitor f v)) \<and>
      decoded_records dec f = rs @ qs) \<and>
   (snd (visitRecords dec visitor f v) = Inr h \<longleftrightarrow>
      lastRecordHash dec f = Inr h \<and> visit_all visitor (decoded_records dec f) v \<noteq> None)"
  using visit_spec [of visitor v dec f h] by blast

end
