(* ===== verification/Secret_Scan.thy ===== *)
theory Secret_Scan
  imports Complex_Main Hash_Chain "HOL-Library.Product_Lexorder"
begin

text \<open>
  The sensitive-content scanner (\<open>internal/secretscan/scan.go\<close>): the scan that collects findings of the
  detectors and of the entropy check, and the application of redactions, which must replace exactly the
  sensitive bytes. The regular expression engine and the floating-point entropy are arguments
  (\<open>scan_engine\<close>); the table of the detectors, the handling of their matches and everything after is
  modelled.
\<close>

section \<open>Data\<close>

abbreviation ScanSchemaVersion :: string where "ScanSchemaVersion \<equiv> ''sensitive-content-scan/v1alpha1''"
abbreviation ScannerVersion :: string where "ScannerVersion \<equiv> ''deterministic/v1alpha1''"

record finding =
  fd_finding_id :: string
  fd_detector :: string
  fd_category :: string
  fd_start :: int
  fd_end :: int
  fd_match_sha256 :: string

record scan_report =
  sr_schema_version :: string
  sr_scanner_version :: string
  sr_content_sha256 :: string
  sr_bytes :: int
  sr_findings :: "finding list"

record redaction =
  rd_start :: int
  rd_end :: int
  rd_source_sha256 :: string
  rd_replacement :: string

record detector =
  dt_name :: string
  dt_category :: string
  dt_group :: nat

definition detectors :: "detector list" where
  "detectors = map (\<lambda>(n, c, g). \<lparr>dt_name = n, dt_category = c, dt_group = g\<rparr>)
     [(''private_key'', ''private_key'', 0),
      (''github_token'', ''credential'', 0),
      (''openai_token'', ''credential'', 0),
      (''aws_access_key'', ''credential'', 0),
      (''google_api_key'', ''credential'', 0),
      (''slack_token'', ''credential'', 0),
      (''jwt'', ''credential'', 0),
      (''credential_uri'', ''credential'', 0),
      (''bearer_token'', ''credential'', 1),
      (''assigned_secret'', ''credential'', 2),
      (''windows_path'', ''local_path'', 0),
      (''unc_path'', ''local_path'', 0),
      (''user_home_path'', ''local_path'', 0),
      (''tilde_path'', ''local_path'', 0),
      (''email'', ''personal_identifier'', 0),
      (''uuid'', ''opaque_identifier'', 0)]"

text \<open>
  \<open>en_matches d content\<close> is \<open>FindAllStringSubmatchIndex\<close> of the detector named \<open>d\<close> (the index pairs of the
  match and its groups, flattened, \<open>-1\<close> for a group that did not take part); \<open>en_tokens\<close> is
  \<open>FindAllStringIndex\<close> of the entropy token pattern; \<open>en_entropy\<close> is the value of the \<open>float64\<close> sum over
  the byte counts of a token.
\<close>

record scan_engine =
  en_matches :: "string \<Rightarrow> string \<Rightarrow> int list list"
  en_tokens :: "string \<Rightarrow> (int \<times> int) list"
  en_entropy :: "string \<Rightarrow> rat"

definition slice :: "string \<Rightarrow> int \<Rightarrow> int \<Rightarrow> string" where
  "slice s a b = take (nat (b - a)) (drop (nat a) s)"

section \<open>Scanning\<close>

definition validReplacement :: "string \<Rightarrow> bool" where
  "validReplacement v \<longleftrightarrow> v \<in> set
     [''[REDACTED:credential]'', ''[REDACTED:private-key]'', ''[REDACTED:path]'',
      ''[REDACTED:personal]'', ''[REDACTED:identifier]'', ''[REDACTED:secret]'']"

definition finding_key :: "string \<Rightarrow> string \<Rightarrow> int \<Rightarrow> int \<Rightarrow> string" where
  "finding_key content name a b =
     name @ CHR 0x00 # json_int a @ CHR 0x00 # json_int b @ CHR 0x00 # sha256_hex (slice content a b)"

definition mk_finding :: "string \<Rightarrow> string \<Rightarrow> string \<Rightarrow> int \<Rightarrow> int \<Rightarrow> finding" where
  "mk_finding content name category a b =
     \<lparr>fd_finding_id = ''finding-'' @ sha256_hex (finding_key content name a b), fd_detector = name,
      fd_category = category, fd_start = a, fd_end = b, fd_match_sha256 = sha256_hex (slice content a b)\<rparr>"

text \<open>The state is the set of keys seen (as a list) and the findings so far.\<close>

definition addFinding ::
  "string \<Rightarrow> string \<times> string \<times> int \<times> int \<Rightarrow> string list \<times> finding list \<Rightarrow> string list \<times> finding list" where
  "addFinding content = (\<lambda>(name, category, a, b) (seen, findings).
     if a < 0 \<or> b \<le> a \<or> int (length content) < b then (seen, findings)
     else if finding_key content name a b \<in> set seen then (seen, findings)
     else (finding_key content name a b # seen, findings @ [mk_finding content name category a b]))"

text \<open>The range that one match of a detector reports, if it reports one.\<close>

definition match_range :: "detector \<Rightarrow> int list \<Rightarrow> (int \<times> int) option" where
  "match_range d ix =
     (if dt_group d = 0 then Some (ix ! 0, ix ! 1)
      else let p = dt_group d * 2 in
        if length ix \<le> p + 1 \<or> ix ! p < 0 then None else Some (ix ! p, ix ! (p + 1)))"

definition match_hits :: "string \<Rightarrow> detector \<Rightarrow> int list \<Rightarrow> (string \<times> string \<times> int \<times> int) list" where
  "match_hits content d ix =
     (case match_range d ix of
        None \<Rightarrow> []
      | Some (a, b) \<Rightarrow>
          if validReplacement (slice content a b) then [] else [(dt_name d, dt_category d, a, b)])"

definition detector_hits :: "scan_engine \<Rightarrow> string \<Rightarrow> (string \<times> string \<times> int \<times> int) list" where
  "detector_hits en content =
     concat (map (\<lambda>d. concat (map (match_hits content d) (en_matches en (dt_name d) content))) detectors)"

definition upper_ascii :: "char \<Rightarrow> bool" where "upper_ascii c \<longleftrightarrow> byte_in 65 90 c"
definition lower_ascii :: "char \<Rightarrow> bool" where "lower_ascii c \<longleftrightarrow> byte_in 97 122 c"
definition digit_ascii :: "char \<Rightarrow> bool" where "digit_ascii c \<longleftrightarrow> byte_in 48 57 c"

definition char_classes :: "string \<Rightarrow> nat" where
  "char_classes token = length (filter id
     [list_ex upper_ascii token, list_ex lower_ascii token, list_ex digit_ascii token,
      list_ex (\<lambda>c. \<not> upper_ascii c \<and> \<not> lower_ascii c \<and> \<not> digit_ascii c) token])"

definition looksHighEntropy :: "scan_engine \<Rightarrow> string \<Rightarrow> bool" where
  "looksHighEntropy en token \<longleftrightarrow>
     (if contains token ''REDACTED'' then False
      else let e = en_entropy en token in
        if list_all (\<lambda>c. digit_ascii c \<or> byte_in 97 102 c \<or> byte_in 65 70 c) token
        then 32 \<le> length token \<and> 32 / 10 \<le> e
        else 3 \<le> char_classes token \<and>
          (24 \<le> length token \<and> 4 \<le> e \<or> 40 \<le> length token \<and> 37 / 10 \<le> e))"

definition entropy_hits :: "scan_engine \<Rightarrow> string \<Rightarrow> (string \<times> string \<times> int \<times> int) list" where
  "entropy_hits en content =
     map (\<lambda>(a, b). (''high_entropy'', ''high_entropy'', a, b))
       (filter (\<lambda>(a, b). looksHighEntropy en (slice content a b)) (en_tokens en content))"

definition finding_order :: "finding \<Rightarrow> int \<times> int \<times> string" where
  "finding_order f = (fd_start f, fd_end f, fd_detector f)"

definition Scan :: "scan_engine \<Rightarrow> string \<Rightarrow> scan_report" where
  "Scan en content =
     (let (seen, found) = fold (addFinding content) (detector_hits en content @ entropy_hits en content) ([], [])
      in \<lparr>sr_schema_version = ScanSchemaVersion, sr_scanner_version = ScannerVersion,
          sr_content_sha256 = sha256_hex content, sr_bytes = int (length content),
          sr_findings = sort_key finding_order found\<rparr>)"

section \<open>Redaction\<close>

datatype redaction_error =
    NotUtf8
  | ReportMismatch
  | BadRange nat
  | NotAligned nat
  | BadReplacement nat
  | SourceHashMismatch nat
  | PartialCover nat
  | NotExactUnion nat
  | SpansNonSensitive nat
  | NotCovered string
  | Remaining nat

definition check_range :: "string \<Rightarrow> nat \<Rightarrow> int \<Rightarrow> redaction \<Rightarrow> redaction_error option" where
  "check_range content i previousEnd r = first_error
     [fail_if (rd_start r < previousEnd \<or> rd_start r < 0 \<or> rd_end r \<le> rd_start r \<or>
               int (length content) < rd_end r) (BadRange i),
      fail_if (\<not> utf8_valid (take (nat (rd_start r)) content) \<or>
               \<not> utf8_valid (take (nat (rd_end r)) content)) (NotAligned i),
      fail_if (\<not> validReplacement (rd_replacement r)) (BadReplacement i),
      fail_if (rd_source_sha256 r \<noteq> sha256_hex (slice content (rd_start r) (rd_end r))) (SourceHashMismatch i)]"

fun check_ranges :: "string \<Rightarrow> nat \<Rightarrow> int \<Rightarrow> redaction list \<Rightarrow> redaction_error option" where
  "check_ranges content i previousEnd [] = None"
| "check_ranges content i previousEnd (r # rs) =
     (case check_range content i previousEnd r of
        Some e \<Rightarrow> Some e
      | None \<Rightarrow> check_ranges content (Suc i) (rd_end r) rs)"

definition covers :: "finding \<Rightarrow> redaction \<Rightarrow> bool" where
  "covers f r \<longleftrightarrow> rd_start r \<le> fd_start f \<and> fd_end f \<le> rd_end r"

definition partially :: "finding \<Rightarrow> redaction \<Rightarrow> bool" where
  "partially f r \<longleftrightarrow> rd_start r < fd_end f \<and> fd_start f < rd_end r \<and>
     (fd_start f < rd_start r \<or> rd_end r < fd_end f)"

fun covered_end :: "int \<Rightarrow> finding list \<Rightarrow> int option" where
  "covered_end e [] = Some e"
| "covered_end e (f # fs) =
     (if e < fd_start f then None else covered_end (if e < fd_end f then fd_end f else e) fs)"

definition check_union :: "finding list \<Rightarrow> nat \<Rightarrow> redaction \<Rightarrow> redaction_error option" where
  "check_union findings i r =
     (if list_ex (\<lambda>f. partially f r) findings then Some (PartialCover i)
      else case filter (\<lambda>f. covers f r) findings of
        [] \<Rightarrow> Some (NotExactUnion i)
      | f # fs \<Rightarrow>
          if fd_start f \<noteq> rd_start r then Some (NotExactUnion i)
          else (case covered_end (fd_end f) fs of
                  None \<Rightarrow> Some (SpansNonSensitive i)
                | Some e \<Rightarrow> fail_if (e \<noteq> rd_end r) (NotExactUnion i)))"

definition check_covered :: "redaction list \<Rightarrow> finding \<Rightarrow> redaction_error option" where
  "check_covered rs f = fail_if (\<not> list_ex (covers f) rs) (NotCovered (fd_finding_id f))"

fun replace_ranges :: "string \<Rightarrow> int \<Rightarrow> redaction list \<Rightarrow> string" where
  "replace_ranges content a [] = drop (nat a) content"
| "replace_ranges content a (r # rs) =
     slice content a (rd_start r) @ rd_replacement r @ replace_ranges content (rd_end r) rs"

definition ApplyRedactions ::
  "scan_engine \<Rightarrow> string \<Rightarrow> scan_report \<Rightarrow> redaction list \<Rightarrow> redaction_error + string" where
  "ApplyRedactions en content report rs =
     (case first_error
        ([fail_if (\<not> utf8_valid content) NotUtf8,
          fail_if (report \<noteq> Scan en content) ReportMismatch,
          check_ranges content 0 0 rs] @
         map (\<lambda>(i, r). check_union (sr_findings report) i r) (enumerate 0 rs) @
         map (check_covered rs) (sr_findings report)) of
        Some e \<Rightarrow> Inl e
      | None \<Rightarrow>
          (let redacted = replace_ranges content 0 rs;
               remaining = sr_findings (Scan en redacted)
           in if remaining \<noteq> [] then Inl (Remaining (length remaining)) else Inr redacted))"

section \<open>What a scan finds\<close>

definition hit_order :: "string \<times> string \<times> int \<times> int \<Rightarrow> int \<times> int \<times> string" where
  "hit_order = (\<lambda>(n, c, a, b). (a, b, n))"

definition hit_ok :: "string \<Rightarrow> string \<times> string \<times> int \<times> int \<Rightarrow> bool" where
  "hit_ok content = (\<lambda>(n, c, a, b). 0 \<le> a \<and> a < b \<and> b \<le> int (length content))"

definition finding_ok :: "string \<Rightarrow> finding \<Rightarrow> bool" where
  "finding_ok content f \<longleftrightarrow> 0 \<le> fd_start f \<and> fd_start f < fd_end f \<and> fd_end f \<le> int (length content) \<and>
     fd_match_sha256 f = sha256_hex (slice content (fd_start f) (fd_end f))"

lemma mk_finding_simps [simp]:
  "finding_order (mk_finding content n c a b) = (a, b, n)"
  "finding_ok content (mk_finding content n c a b) \<longleftrightarrow> hit_ok content (n, c, a, b)"
  by (auto simp: finding_order_def mk_finding_def finding_ok_def hit_ok_def)

lemma zero_not_in_json_int: "CHR 0x00 \<notin> set (json_int n)"
  using json_int_chars [of "CHR 0x00" n] by (auto simp: byte_in_def)

lemma split_at_zero:
  assumes "x @ CHR 0x00 # y = x' @ CHR 0x00 # y'" and "CHR 0x00 \<notin> set x" and "CHR 0x00 \<notin> set x'"
  shows "x = x' \<and> y = y'"
  using assms
proof (induction x arbitrary: x')
  case Nil
  then show ?case by (cases x') auto
next
  case (Cons c x)
  then show ?case by (cases x') auto
qed

lemma finding_key_inj:
  assumes "finding_key content n a b = finding_key content n' a' b'"
    and "CHR 0x00 \<notin> set n" and "CHR 0x00 \<notin> set n'" and "0 \<le> a" "0 \<le> b" "0 \<le> a'" "0 \<le> b'"
  shows "n = n' \<and> a = a' \<and> b = b'"
proof -
  from split_at_zero [OF assms(1) [unfolded finding_key_def] assms(2,3)]
  have n: "n = n'" and r: "json_int a @ CHR 0x00 # json_int b @ CHR 0x00 # sha256_hex (slice content a b) =
      json_int a' @ CHR 0x00 # json_int b' @ CHR 0x00 # sha256_hex (slice content a' b')" by auto
  from split_at_zero [OF r zero_not_in_json_int zero_not_in_json_int]
  have a: "json_int a = json_int a'" and r': "json_int b @ CHR 0x00 # sha256_hex (slice content a b) =
      json_int b' @ CHR 0x00 # sha256_hex (slice content a' b')" by auto
  from split_at_zero [OF r' zero_not_in_json_int zero_not_in_json_int] have "json_int b = json_int b'" by blast
  with n a assms(4-) show ?thesis using json_int_inj by blast
qed

definition scan_inv :: "string \<Rightarrow> string list \<Rightarrow> finding list \<Rightarrow> bool" where
  "scan_inv content seen fs \<longleftrightarrow>
     set seen = (\<lambda>f. finding_key content (fd_detector f) (fd_start f) (fd_end f)) ` set fs \<and>
     distinct (map finding_order fs) \<and> list_all (finding_ok content) fs \<and>
     list_all (\<lambda>f. CHR 0x00 \<notin> set (fd_detector f)) fs"

lemma addFinding_inv:
  assumes "scan_inv content seen fs" and "CHR 0x00 \<notin> set n"
    and "addFinding content (n, c, a, b) (seen, fs) = (seen', fs')"
  shows "scan_inv content seen' fs' \<and>
    finding_order ` set fs' = finding_order ` set fs \<union> (if hit_ok content (n, c, a, b) then {(a, b, n)} else {})"
proof (cases "hit_ok content (n, c, a, b)")
  case False
  then have "seen' = seen" "fs' = fs" using assms(3) by (auto simp: addFinding_def hit_ok_def split: if_splits)
  with assms(1) False show ?thesis by simp
next
  case True
  show ?thesis
  proof (cases "finding_key content n a b \<in> set seen")
    case old: True
    then obtain f where f: "f \<in> set fs"
      "finding_key content n a b = finding_key content (fd_detector f) (fd_start f) (fd_end f)"
      using assms(1) by (auto simp: scan_inv_def)
    from f(1) assms(1) have "finding_ok content f" "CHR 0x00 \<notin> set (fd_detector f)"
      by (auto simp: scan_inv_def list_all_iff)
    with finding_key_inj [OF f(2) assms(2)] True have "finding_order f = (a, b, n)"
      by (auto simp: finding_ok_def hit_ok_def finding_order_def)
    moreover have "seen' = seen" "fs' = fs" using assms(3) old by (auto simp: addFinding_def split: if_splits)
    ultimately show ?thesis using assms(1) f(1) True by (auto simp: image_iff) (metis)
  next
    case new: False
    then have e: "seen' = finding_key content n a b # seen" "fs' = fs @ [mk_finding content n c a b]"
      using assms(3) True by (auto simp: addFinding_def hit_ok_def split: if_splits)
    have "(a, b, n) \<notin> finding_order ` set fs"
      using new assms(1) by (auto simp: scan_inv_def finding_order_def)
    with e assms(1,2) True show ?thesis
      by (auto simp: scan_inv_def mk_finding_def [of content n c a b, THEN arg_cong, of fd_detector]
          mk_finding_def [of content n c a b, THEN arg_cong, of fd_start]
          mk_finding_def [of content n c a b, THEN arg_cong, of fd_end])
  qed
qed

lemma fold_addFinding:
  assumes "fold (addFinding content) hits (seen, fs) = (seen', fs')" and "scan_inv content seen fs"
    and "\<forall>h \<in> set hits. CHR 0x00 \<notin> set (fst h)"
  shows "scan_inv content seen' fs' \<and>
    finding_order ` set fs' = finding_order ` set fs \<union> hit_order ` {h \<in> set hits. hit_ok content h}"
  using assms
proof (induction hits arbitrary: seen fs)
  case (Cons h hits)
  obtain n c a b where h: "h = (n, c, a, b)" by (cases h) auto
  obtain seen1 fs1 where s1: "addFinding content h (seen, fs) = (seen1, fs1)" by fastforce
  have n: "CHR 0x00 \<notin> set n" using Cons.prems(3) h by simp
  have "{h' \<in> set (h # hits). hit_ok content h'} =
      (if hit_ok content h then insert h {h' \<in> set hits. hit_ok content h'} else {h' \<in> set hits. hit_ok content h'})"
    by auto
  with addFinding_inv [OF Cons.prems(2) n s1 [unfolded h]] Cons.IH [of seen1 fs1] Cons.prems(1,3) s1 h
  show ?case by (simp add: hit_order_def)
qed auto

lemma detector_names: "\<forall>d \<in> set detectors. CHR 0x00 \<notin> set (dt_name d)"
  by (simp add: detectors_def)

lemma hits_names: "\<forall>h \<in> set (detector_hits en content @ entropy_hits en content). CHR 0x00 \<notin> set (fst h)"
  using detector_names
  by (auto simp: detector_hits_def entropy_hits_def match_hits_def split: option.splits if_splits)

lemma scan_findings:
  "sr_findings (Scan en content) = fs \<Longrightarrow>
     sorted (map finding_order fs) \<and> distinct (map finding_order fs) \<and> list_all (finding_ok content) fs \<and>
     finding_order ` set fs =
       hit_order ` {h \<in> set (detector_hits en content @ entropy_hits en content). hit_ok content h}"
proof -
  assume a: "sr_findings (Scan en content) = fs"
  obtain seen found where f: "fold (addFinding content) (detector_hits en content @ entropy_hits en content) ([], []) = (seen, found)"
    by fastforce
  have fs: "fs = sort_key finding_order found" using a f by (auto simp: Scan_def simp del: fold_append)
  have "scan_inv content seen found \<and> finding_order ` set found =
      hit_order ` {h \<in> set (detector_hits en content @ entropy_hits en content). hit_ok content h}"
    using fold_addFinding [OF f _ hits_names] by (simp add: scan_inv_def)
  then show ?thesis
    by (simp add: fs scan_inv_def distinct_map list_all_iff)
qed

section \<open>What a redaction removes\<close>

definition sensitive :: "finding list \<Rightarrow> int \<Rightarrow> bool" where
  "sensitive fs i \<longleftrightarrow> (\<exists>f \<in> set fs. fd_start f \<le> i \<and> i < fd_end f)"

definition redacted_at :: "redaction list \<Rightarrow> int \<Rightarrow> bool" where
  "redacted_at rs i \<longleftrightarrow> (\<exists>r \<in> set rs. rd_start r \<le> i \<and> i < rd_end r)"

fun weave :: "string list \<Rightarrow> string list \<Rightarrow> string" where
  "weave (p # ps) (r # rs) = p @ r @ weave ps rs"
| "weave (p # ps) [] = p"
| "weave [] rs = []"

fun kept :: "string \<Rightarrow> int \<Rightarrow> redaction list \<Rightarrow> string list" where
  "kept content a [] = [drop (nat a) content]"
| "kept content a (r # rs) = slice content a (rd_start r) # kept content (rd_end r) rs"

fun ranges_ok :: "string \<Rightarrow> int \<Rightarrow> redaction list \<Rightarrow> bool" where
  "ranges_ok content a [] \<longleftrightarrow> True"
| "ranges_ok content a (r # rs) \<longleftrightarrow>
     a \<le> rd_start r \<and> 0 \<le> rd_start r \<and> rd_start r < rd_end r \<and> rd_end r \<le> int (length content) \<and>
     ranges_ok content (rd_end r) rs"

lemma check_ranges_ok: "check_ranges content i a rs = None \<Longrightarrow> ranges_ok content a rs"
  by (induction rs arbitrary: i a) (auto simp: check_range_def split: option.splits)

lemma check_ranges_replacement:
  "check_ranges content i a rs = None \<Longrightarrow> r \<in> set rs \<Longrightarrow> validReplacement (rd_replacement r)"
  by (induction rs arbitrary: i a) (auto simp: check_range_def split: option.splits)

lemma replace_ranges_weave: "replace_ranges content a rs = weave (kept content a rs) (map rd_replacement rs)"
  by (induction rs arbitrary: a) auto

lemma slice_upt:
  assumes "0 \<le> a" and "a \<le> b" and "b \<le> int (length s)"
  shows "slice s a b = map (nth s) [nat a..<nat b]"
  using assms by (intro nth_equalityI) (auto simp: slice_def nat_diff_distrib)

lemma drop_upt: "drop n s = map (nth s) [n..<length s]"
  by (rule nth_equalityI) auto

lemma ranges_ok_lower: "ranges_ok content a rs \<Longrightarrow> i < a \<Longrightarrow> \<not> redacted_at rs i"
  by (induction rs arbitrary: a) (fastforce simp: redacted_at_def)+

lemma redacted_at_Cons: "redacted_at (r # rs) i \<longleftrightarrow> rd_start r \<le> i \<and> i < rd_end r \<or> redacted_at rs i"
  by (auto simp: redacted_at_def)

lemma kept_filter:
  assumes "ranges_ok content a rs" and "0 \<le> a" and "a \<le> int (length content)"
  shows "concat (kept content a rs) =
    map (nth content) (filter (\<lambda>i. \<not> redacted_at rs (int i)) [nat a..<length content])"
  using assms
proof (induction rs arbitrary: a)
  case Nil
  then show ?case by (simp add: redacted_at_def drop_upt)
next
  case (Cons r rs)
  let ?s = "nat (rd_start r)" and ?e = "nat (rd_end r)"
  have r: "a \<le> rd_start r" "0 \<le> rd_start r" "rd_start r < rd_end r" "rd_end r \<le> int (length content)"
    and ok: "ranges_ok content (rd_end r) rs" using Cons.prems by auto
  have split: "[nat a..<length content] = [nat a..<?s] @ [?s..<?e] @ [?e..<length content]"
    using r Cons.prems(2) upt_add_eq_append [of "nat a" ?s "length content - ?s"]
      upt_add_eq_append [of ?s ?e "length content - ?e"]
    by (simp add: nat_le_iff)
  have 1: "filter (\<lambda>i. \<not> redacted_at (r # rs) (int i)) [nat a..<?s] = [nat a..<?s]"
    using ranges_ok_lower [OF ok] r by (auto simp: filter_id_conv redacted_at_Cons)
  have 2: "filter (\<lambda>i. \<not> redacted_at (r # rs) (int i)) [?s..<?e] = []"
    using r by (auto simp: filter_empty_conv redacted_at_Cons)
  have 3: "filter (\<lambda>i. \<not> redacted_at (r # rs) (int i)) [?e..<length content] =
      filter (\<lambda>i. \<not> redacted_at rs (int i)) [?e..<length content]"
    using r by (intro filter_cong) (auto simp: redacted_at_Cons)
  have "slice content a (rd_start r) = map (nth content) [nat a..<?s]"
    using r Cons.prems(2) by (intro slice_upt) auto
  with Cons.IH [OF ok] r show ?case by (simp add: split 1 2 3)
qed

lemma covered_end_sensitive:
  "covered_end e fs = Some e' \<Longrightarrow> e \<le> i \<Longrightarrow> i < e' \<Longrightarrow> sensitive fs i"
  by (induction fs arbitrary: e) (fastforce simp: sensitive_def split: if_splits)+

lemma check_union_sensitive:
  assumes "check_union fs n r = None" and "rd_start r \<le> i" and "i < rd_end r"
  shows "sensitive fs i"
proof -
  obtain f gs where f: "filter (\<lambda>f. covers f r) fs = f # gs" "fd_start f = rd_start r"
    and e: "covered_end (fd_end f) gs = Some (rd_end r)"
    using assms(1) by (auto simp: check_union_def split: if_splits list.splits option.splits)
  have "sensitive (f # gs) i"
  proof (cases "i < fd_end f")
    case True
    with f(2) assms(2) show ?thesis by (auto simp: sensitive_def)
  next
    case False
    with covered_end_sensitive [OF e, of i] assms(3) show ?thesis by (auto simp: sensitive_def)
  qed
  moreover have "set (f # gs) \<subseteq> set fs" unfolding f(1) [symmetric] by simp
  ultimately show ?thesis by (auto simp: sensitive_def)
qed

lemma redacted_iff_sensitive:
  assumes "\<forall>(n, r) \<in> set (enumerate 0 rs). check_union fs n r = None" and "\<forall>f \<in> set fs. check_covered rs f = None"
  shows "redacted_at rs i \<longleftrightarrow> sensitive fs i"
proof
  assume "redacted_at rs i"
  then obtain r where r: "r \<in> set rs" "rd_start r \<le> i" "i < rd_end r" by (auto simp: redacted_at_def)
  from r(1) obtain n where "n < length rs" "rs ! n = r" by (auto simp: in_set_conv_nth)
  then have "(n, r) \<in> set (enumerate 0 rs)" by (simp add: in_set_enumerate_eq)
  with assms(1) check_union_sensitive r(2,3) show "sensitive fs i" by blast
next
  assume "sensitive fs i"
  then obtain f where f: "f \<in> set fs" "fd_start f \<le> i" "i < fd_end f" by (auto simp: sensitive_def)
  with assms(2) obtain r where "r \<in> set rs" "covers f r" by (auto simp: check_covered_def list_ex_iff)
  with f show "redacted_at rs i" by (auto simp: redacted_at_def covers_def intro!: bexI [of _ r])
qed

lemma ApplyRedactions_Inr:
  assumes "ApplyRedactions en content report rs = Inr out"
  shows "report = Scan en content" "check_ranges content 0 0 rs = None"
    "\<forall>(n, r) \<in> set (enumerate 0 rs). check_union (sr_findings report) n r = None"
    "\<forall>f \<in> set (sr_findings report). check_covered rs f = None"
    "out = replace_ranges content 0 rs" "sr_findings (Scan en out) = []"
  using assms
  by (auto simp: ApplyRedactions_def Let_def split: option.splits if_splits)

section \<open>Properties\<close>

text \<open>Property C40. The scan is exact: its findings are in strict order of start, end and detector, each carries
  the digest of its bytes and lies inside the content, and there is one for exactly the non-empty ranges
  inside the content that a detector (or the entropy check) reports and that are not placeholders.\<close>

theorem Scan_exact:
  "sorted_wrt (<) (map finding_order (sr_findings (Scan en content))) \<and>
   list_all (finding_ok content) (sr_findings (Scan en content)) \<and>
   set (map finding_order (sr_findings (Scan en content))) =
     hit_order ` set (filter (hit_ok content) (detector_hits en content @ entropy_hits en content)) \<and>
   sr_content_sha256 (Scan en content) = sha256_hex content"
  using scan_findings [OF refl, of en content]
  by (simp add: strict_sorted_iff set_filter [symmetric] Scan_def [THEN arg_cong, of sr_content_sha256]
      case_prod_beta Let_def del: set_filter set_append)

text \<open>Property C26. A redaction is exact: when \<open>ApplyRedactions\<close> returns a text, nothing sensitive is found in it,
  the redacted byte positions of the source are exactly those that lie in a finding, and the text is the
  untouched bytes, in order and complete, with an allowed placeholder in place of each redacted range.\<close>

theorem ApplyRedactions_exact:
  assumes "ApplyRedactions en content report rs = Inr out"
  shows "sr_findings (Scan en out) = [] \<and>
    (\<forall>i. redacted_at rs i \<longleftrightarrow> sensitive (sr_findings (Scan en content)) i) \<and>
    (\<forall>r \<in> set rs. validReplacement (rd_replacement r)) \<and>
    (\<exists>pieces. length pieces = Suc (length rs) \<and> out = weave pieces (map rd_replacement rs) \<and>
       concat pieces = map (nth content)
         (filter (\<lambda>i. \<not> sensitive (sr_findings (Scan en content)) (int i)) [0..<length content]))"
proof -
  note a = ApplyRedactions_Inr [OF assms]
  have iff: "redacted_at rs i \<longleftrightarrow> sensitive (sr_findings (Scan en content)) i" for i
    using redacted_iff_sensitive a(1,3,4) by blast
  have "length (kept content b rs) = Suc (length rs)" for b
    by (induction rs arbitrary: b) auto
  moreover have "concat (kept content 0 rs) = map (nth content)
      (filter (\<lambda>i. \<not> sensitive (sr_findings (Scan en content)) (int i)) [0..<length content])"
    using kept_filter [OF check_ranges_ok [OF a(2)]] iff by simp
  moreover have "out = weave (kept content 0 rs) (map rd_replacement rs)"
    by (simp add: a(5) replace_ranges_weave)
  ultimately show ?thesis
    using iff a(6) check_ranges_replacement [OF a(2)] by blast
qed

definition sample_engine :: scan_engine where
  "sample_engine = \<lparr>en_matches = (\<lambda>d s. if d = ''email'' \<and> s = ''hi a@b.c'' then [[3, 8]] else []),
     en_tokens = (\<lambda>_. []), en_entropy = (\<lambda>_. 0)\<rparr>"

definition sample_redaction :: redaction where
  "sample_redaction = \<lparr>rd_start = 3, rd_end = 8, rd_source_sha256 = sha256_hex ''a@b.c'',
     rd_replacement = ''[REDACTED:personal]''\<rparr>"

lemma sample_scan: "sr_findings (Scan sample_engine ''hi a@b.c'') =
    [mk_finding ''hi a@b.c'' ''email'' ''personal_identifier'' 3 8]"
  "sr_findings (Scan sample_engine ''hi [REDACTED:personal]'') = []"
  by (simp_all add: Scan_def detector_hits_def detectors_def sample_engine_def match_hits_def match_range_def
      entropy_hits_def validReplacement_def slice_def addFinding_def)

lemma sample_redacts:
  "ApplyRedactions sample_engine ''hi a@b.c'' (Scan sample_engine ''hi a@b.c'') [sample_redaction] =
     Inr ''hi [REDACTED:personal]''"
proof -
  have u: "utf8_valid ''hi a@b.c''" "utf8_valid ''hi ''" by code_simp+
  have v: "validReplacement ''[REDACTED:personal]''" by (simp add: validReplacement_def)
  show ?thesis
    using u v sample_scan
    by (simp add: ApplyRedactions_def check_range_def sample_redaction_def check_union_def check_covered_def
        mk_finding_def partially_def covers_def slice_def)
qed

theorem ApplyRedactions_exact_witness:
  "sr_findings (Scan sample_engine ''hi [REDACTED:personal]'') = [] \<and> redacted_at [sample_redaction] 4 \<and>
   sensitive (sr_findings (Scan sample_engine ''hi a@b.c'')) 4"
proof -
  have "redacted_at [sample_redaction] 4" by (simp add: redacted_at_def sample_redaction_def)
  with ApplyRedactions_exact [OF sample_redacts] show ?thesis by blast
qed

end
