(* ===== verification/Sequenced_Log.thy ===== *)
theory Sequenced_Log
  imports Hash_Chain
begin

text \<open>
  What the review, promotion and rule approval ledgers have in common (\<open>replay\<close>, \<open>makeRecord\<close> and
  \<open>appendRecord\<close> of \<open>internal/review/ledger.go\<close>, \<open>internal/promotion/ledger.go\<close> and
  \<open>internal/ruleapproval/ledger.go\<close>): a record is hashed as the JSON object of its schema, sequence number,
  event and predecessor digest, the replay steps through the records of the file, and appending writes one
  line. The locale \<open>sequenced_log\<close> states what a ledger's step promises; its lemmas say that the records of a
  replay are a hash chain, that equal tails mean equal events, and what a failing append leaves behind.
\<close>

section \<open>The hashed bytes\<close>

definition event_envelope :: "string \<Rightarrow> int \<Rightarrow> json \<Rightarrow> string \<Rightarrow> string option" where
  "event_envelope schema n event previous =
     envelope [(''schema_version'', JStr schema), (''sequence'', JInt n), (''event'', event)]
       ''previous_record_sha256'' previous"

lemma int_comma_split:
  assumes "json_int n @ CHR '','' # x = json_int n' @ CHR '','' # x'" and "0 \<le> n" and "0 \<le> n'"
  shows "n = n' \<and> x = x'"
proof -
  have c: "CHR '','' \<notin> set (json_int m)" for m
    using json_int_chars by (fastforce simp: byte_in_def)
  have t: "takeWhile (\<lambda>c. c \<noteq> CHR '','') (q @ CHR '','' # y) = q" if "CHR '','' \<notin> set q" for q y :: string
    using that by (auto simp: takeWhile_tail takeWhile_append)
  from t [OF c [of n]] t [OF c [of n']] assms(1) have "json_int n = json_int n'" by metis
  with assms json_int_inj show ?thesis by auto
qed

lemma event_envelope_head:
  "object_head [(''schema_version'', JStr schema), (''sequence'', JInt n), (''event'', event)] k =
     map_option (\<lambda>j. CHR ''{'' # json_string ''schema_version'' @ CHR '':'' # json_string schema @ CHR '','' #
       json_string ''sequence'' @ CHR '':'' # json_int n @ CHR '','' # json_string ''event'' @ CHR '':'' # j @
       CHR '','' # json_string k @ '':'') (marshal event)"
  by (cases "marshal event") (simp_all add: object_head_def)

lemma event_envelope_eqD:
  assumes "event_envelope schema n event p = Some x" and "event_envelope schema n' event' p' = Some x"
    and "digest_or_empty p" and "digest_or_empty p'" and "0 \<le> n" and "0 \<le> n'"
  shows "p = p' \<and> n = n' \<and> marshal event = marshal event'"
proof -
  let ?fs = "\<lambda>n e. [(''schema_version'', JStr schema), (''sequence'', JInt n), (''event'', e)]"
  let ?k = "''previous_record_sha256''"
  have e: "p = p'" "object_head (?fs n event) ?k = object_head (?fs n' event') ?k"
    using envelope_eqD [OF assms(1,2) [unfolded event_envelope_def] _ _ assms(3,4)] by simp_all
  have "marshal event \<noteq> None" if "event_envelope schema n event p = Some x" for n event p
    using that by (cases "marshal event") (simp_all add: event_envelope_def envelope_def)
  with assms(1,2) have "marshal event \<noteq> None" "marshal event' \<noteq> None" by blast+
  then obtain j j' where j: "marshal event = Some j" "marshal event' = Some j'" by auto
  have "json_int n @ CHR '','' # json_string ''event'' @ CHR '':'' # j @ CHR '','' # json_string ?k @ '':'' =
      json_int n' @ CHR '','' # json_string ''event'' @ CHR '':'' # j' @ CHR '','' # json_string ?k @ '':''"
    using e(2) by (simp add: event_envelope_head j)
  from int_comma_split [OF this assms(5,6)] e(1) j show ?thesis by simp
qed

section \<open>A ledger whose records are hashed in sequence\<close>

locale sequenced_log =
  fixes schema :: string
    and encode_event :: "'e \<Rightarrow> json"
    and event_of :: "'r \<Rightarrow> 'e"
    and hash_of :: "'r \<Rightarrow> string"
    and step :: "'r \<Rightarrow> 's \<Rightarrow> 'x + 's"
    and initial :: 's
    and next_number :: "'s \<Rightarrow> int"
    and last_digest :: "'s \<Rightarrow> string"
    and history :: "'s \<Rightarrow> 'r list"
  assumes step_hashed: "step r st = Inr st' \<Longrightarrow>
      \<exists>x. event_envelope schema (next_number st) (encode_event (event_of r)) (last_digest st) = Some x \<and>
        hash_of r = sha256_hex x"
    and step_state: "step r st = Inr st' \<Longrightarrow> next_number st' = next_number st + 1 \<and>
      last_digest st' = hash_of r \<and> history st' = history st @ [r]"
    and initial_state: "next_number initial = 1" "last_digest initial = []" "history initial = []"

definition sequenced_input :: "string \<Rightarrow> ('e \<Rightarrow> json) \<Rightarrow> nat \<Rightarrow> 'e \<Rightarrow> string \<Rightarrow> string option" where
  "sequenced_input schema encode n e p = event_envelope schema (int n) (encode e) p"

definition encoded_event :: "('e \<Rightarrow> json) \<Rightarrow> nat \<Rightarrow> 'e \<Rightarrow> string option" where
  "encoded_event encode n e = marshal (encode e)"

sublocale sequenced_log \<subseteq> hash_chain "sequenced_input schema encode_event" "encoded_event encode_event"
  by unfold_locales (auto simp: sequenced_input_def encoded_event_def dest: event_envelope_eqD)

context sequenced_log
begin

definition links :: "'s \<Rightarrow> ('e \<times> string) list" where
  "links st = map (\<lambda>r. (event_of r, hash_of r)) (history st)"

definition chained :: "'s \<Rightarrow> bool" where
  "chained st \<longleftrightarrow> chain_from (sequenced_input schema encode_event) 1 [] (links st) \<and>
     last_digest st = chain_last [] (links st) \<and> next_number st = int (length (history st)) + 1"

text \<open>The byte strings hashed for the records of a state.\<close>

definition hashed :: "'s \<Rightarrow> string set" where
  "hashed st = set (chain_inputs (sequenced_input schema encode_event) 1 [] (links st))"

lemma step_chained: "step r st = Inr st' \<Longrightarrow> chained st \<Longrightarrow> chained st'"
  using step_hashed [of r st st'] step_state [of r st st']
  by (auto simp: chained_def links_def chain_from_append sequenced_input_def add.commute)

lemma replay_chained: "replay_log dec step f initial = (st, e) \<Longrightarrow> chained st"
  by (erule replay_log_invariant [where I = chained])
    (simp add: chained_def links_def initial_state, rule step_chained)

lemma contents_links: "contents (links st) = map (\<lambda>r. marshal (encode_event (event_of r))) (history st)"
proof -
  have "map (\<lambda>(i, e). encoded_event encode_event (Suc i) e) (enumerate 0 es) = map (marshal \<circ> encode_event) es" for es
    by (rule nth_equalityI) (simp_all add: nth_enumerate_eq encoded_event_def)
  then show ?thesis by (simp add: contents_def links_def)
qed

lemma same_digest_same_events:
  assumes "replay_log dec step f initial = (st, e)" and "replay_log dec' step f' initial = (st', e')"
    and "last_digest st = last_digest st'" and "\<not> sha_collision_in (hashed st) (hashed st')"
  shows "map (\<lambda>r. marshal (encode_event (event_of r))) (history st) =
    map (\<lambda>r. marshal (encode_event (event_of r))) (history st')"
  using same_last_digest [of "links st" "links st'"] replay_chained [OF assms(1)] replay_chained [OF assms(2)]
    assms(3,4) unfolding chained_def contents_links hashed_def sha_collision_in_def
  by (metis (no_types, lifting))

end

section \<open>Appending a line\<close>

definition encode_line :: "json \<Rightarrow> string option" where
  "encode_line j = map_option (\<lambda>d. d @ [newline]) (marshal j)"

lemma torn_line:
  assumes ok: "replay_log dec step (Readable b False) s0 = (s, None)" and nl: "newline \<notin> set d"
    and d: "d \<noteq> []"
  shows "replay_log dec step (Readable (b @ d) False) s0 = (s, Some (LogPartial (Suc (length (fst (split_lines b))))))"
proof -
  obtain ls where b: "split_lines b = (ls, [])" and run: "run_lines dec step 1 ls s0 = (s, None)"
    using ok by (auto simp: replay_log_def split: prod.splits option.splits if_splits)
  have n: "split_lines d = ([], d)" using nl by (induction d) auto
  have "split_lines (b @ d) = (ls, d)" using split_lines_append [of b d] b n by simp
  with run d b show ?thesis by (simp add: replay_log_def)
qed

lemma readable_log:
  assumes "replay_log dec step f s0 = (s, None)"
  shows "replay_log dec step (Readable (file_bytes f) False) s0 = (s, None)"
proof (cases f)
  case (Readable b failed)
  with assms show ?thesis
    by (cases failed) (auto simp: replay_log_def file_bytes_def split: prod.splits option.splits if_splits)
qed (use assms in \<open>auto simp: replay_log_def file_bytes_def\<close>)

text \<open>
  Appending one line to a log that replays: a complete line is stepped over; a partial one is refused by
  every later replay; and whatever fails, the log replays to the old or the new state or is refused.
\<close>

definition old_new_or_refused :: "'s \<Rightarrow> 's \<Rightarrow> 's \<times> 'e log_error option \<Rightarrow> bool" where
  "old_new_or_refused old new r \<longleftrightarrow> r = (old, None) \<or> r = (new, None) \<or> (\<exists>k. r = (old, Some (LogPartial k)))"

lemma append_line_ok:
  assumes "replay_log dec step f s0 = (s, None)" and "newline \<notin> set d" and "dec (line_payload d) = Some r"
    and "step r s = Inr s'" and "append_bytes fault (Some (d @ [newline])) f = (f', None)"
  shows "replay_log dec step f' s0 = (s', None)"
  using replay_log_append [OF readable_log [OF assms(1)] assms(2-4)] append_bytes_ok [OF assms(5)] by simp

lemma take_line:
  assumes "replay_log dec step (Readable b False) s0 = (s, None)" and "newline \<notin> set d"
    and "dec (line_payload d) = Some r" and "step r s = Inr s'"
  shows "old_new_or_refused s s' (replay_log dec step (Readable (b @ take n (d @ [newline])) False) s0)"
proof (cases "n \<le> length d")
  case True
  show ?thesis
  proof (cases "take n d = []")
    case True
    with \<open>n \<le> length d\<close> assms(1) show ?thesis by (auto simp: old_new_or_refused_def)
  next
    case False
    have "newline \<notin> set (take n d)" using assms(2) by (auto dest: in_set_takeD)
    from torn_line [OF assms(1) this False] \<open>n \<le> length d\<close> show ?thesis
      by (simp add: old_new_or_refused_def)
  qed
next
  case False
  with replay_log_append [OF assms] show ?thesis by (simp add: old_new_or_refused_def)
qed

lemma append_line_fault:
  assumes "replay_log dec step f s0 = (s, None)" and "newline \<notin> set d" and "dec (line_payload d) = Some r"
    and "step r s = Inr s'" and "append_bytes fault (Some (d @ [newline])) f = (f', e)"
  shows "old_new_or_refused s s' (replay_log dec step f' s0)"
proof -
  have t: "old_new_or_refused s s' (replay_log dec step (Readable (file_bytes f @ take n (d @ [newline])) False) s0)" for n
    by (rule take_line [OF readable_log [OF assms(1)] assms(2-4)])
  consider "f' = f" | n where "f' = Readable (file_bytes f @ take n (d @ [newline])) False"
    | "f' = Readable (file_bytes f @ d @ [newline]) False"
    using assms(5) by (auto simp: append_bytes_def Let_def split: if_splits option.splits append_fault.splits)
  then show ?thesis
  proof cases
    case 1
    with assms(1) show ?thesis by (simp add: old_new_or_refused_def)
  next
    case 2
    with t show ?thesis by simp
  next
    case 3
    with t [of "Suc (length d)"] show ?thesis by simp
  qed
qed

end
