(* ===== verification/Candidate_Text.thy ===== *)
theory Candidate_Text
  imports Ledger_Types
begin

text \<open>
  The text functions of the candidate detectors (\<open>internal/candidates/extract.go\<close>,
  \<open>internal/episodes/remember.go\<close> and \<open>normalizeText\<close> of \<open>internal/episodes/analyze.go\<close>): normalisation,
  polarity, the semantic core that ignores polarity words, the rule-change check and the
  explicit-remember check. Go strings are bytes, so the Chinese phrases of the source appear as their
  UTF-8 encodings. The Unicode tables are an argument.
\<close>

section \<open>Runes\<close>

text \<open>
  \<open>uc_lower\<close> is \<open>strings.ToLower\<close>; \<open>uc_word\<close> says of an encoded rune whether \<open>unicode.IsLetter\<close> or
  \<open>unicode.IsDigit\<close> holds of it.
\<close>

record unicode =
  uc_lower :: "string \<Rightarrow> string"
  uc_word :: "string \<Rightarrow> bool"

abbreviation runeError :: string where "runeError \<equiv> [CHR 0xEF, CHR 0xBF, CHR 0xBD]"

text \<open>The runes that \<open>range\<close> delivers over a string, each as its encoding; an invalid byte is U+FFFD.\<close>

function runes :: "string \<Rightarrow> string list" where
  "runes s =
     (if s = [] then []
      else let n = utf8_len s in
        if n = 0 then runeError # runes (tl s) else take n s # runes (drop n s))"
  by pat_completeness auto
termination
  by (relation "measure length") (auto simp: Let_def)

declare runes.simps [simp del]

function replaceAll :: "string \<Rightarrow> string \<Rightarrow> string \<Rightarrow> string" where
  "replaceAll old new s =
     (if s = [] then []
      else if old \<noteq> [] \<and> hasPrefix s old then new @ replaceAll old new (drop (length old) s)
      else hd s # replaceAll old new (tl s))"
  by pat_completeness auto
termination
  by (relation "measure (\<lambda>(old, new, s). length s)") auto

declare replaceAll.simps [simp del]

text \<open>\<open>strings.Fields\<close>: \<open>word\<close> is the field being read.\<close>

function fields_from :: "string \<Rightarrow> string \<Rightarrow> string list" where
  "fields_from word s =
     (let n = space_prefix space_encodings s in
      if s = [] then (if word = [] then [] else [word])
      else if n = 0 then fields_from (word @ [hd s]) (tl s)
      else (if word = [] then [] else [word]) @ fields_from [] (drop n s))"
  by pat_completeness auto
termination
  by (relation "measure (\<lambda>(word, s). length s)") auto

declare fields_from.simps [simp del]

definition fields :: "string \<Rightarrow> string list" where
  "fields s = fields_from [] s"

fun join_with :: "string \<Rightarrow> string list \<Rightarrow> string" where
  "join_with sep [] = []"
| "join_with sep [s] = s"
| "join_with sep (s # t # ts) = s @ sep @ join_with sep (t # ts)"

section \<open>Normalisation\<close>

text \<open>The builder's content so far, and the flag that its last byte is a space.\<close>

fun normalize_runes :: "unicode \<Rightarrow> string \<Rightarrow> bool \<Rightarrow> string list \<Rightarrow> string" where
  "normalize_runes u built space [] = built"
| "normalize_runes u built space (r # rs) =
     (if uc_word u r then normalize_runes u (built @ r) False rs
      else if \<not> space \<and> built \<noteq> [] then normalize_runes u (built @ '' '') True rs
      else normalize_runes u built space rs)"

definition normalizeText :: "unicode \<Rightarrow> string \<Rightarrow> string" where
  "normalizeText u t = trimSpace (normalize_runes u [] False (runes (uc_lower u t)))"

section \<open>Detectors on normalised text\<close>

abbreviation PolarityAffirmative :: string where "PolarityAffirmative \<equiv> ''affirmative''"
abbreviation PolarityProhibitive :: string where "PolarityProhibitive \<equiv> ''prohibitive''"

definition prohibitive_words :: "string list" where
  "prohibitive_words =
     ['' must not '', '' do not '', '' don t '', '' never '', '' without '',
      '' prohibited '', '' forbid '']"

definition prohibitive_phrases :: "string list" where
  "prohibitive_phrases =
     [[CHR 0xE4, CHR 0xB8, CHR 0x8D, CHR 0xE8, CHR 0xA6, CHR 0x81],
      [CHR 0xE4, CHR 0xB8, CHR 0x8D, CHR 0xE5, CHR 0xBE, CHR 0x97],
      [CHR 0xE4, CHR 0xB8, CHR 0x8D, CHR 0xE8, CHR 0x83, CHR 0xBD],
      [CHR 0xE7, CHR 0xA6, CHR 0x81, CHR 0xE6, CHR 0xAD, CHR 0xA2],
      [CHR 0xE4, CHR 0xB8, CHR 0x8D, CHR 0xE5, CHR 0x8F, CHR 0xAF],
      [CHR 0xE4, CHR 0xB8, CHR 0x8D, CHR 0xE5, CHR 0x85, CHR 0x81, CHR 0xE8, CHR 0xAE, CHR 0xB8]]"

definition detectPolarity :: "string \<Rightarrow> string" where
  "detectPolarity normalized =
     (if list_ex (contains ('' '' @ normalized @ '' '')) prohibitive_words \<or>
         list_ex (contains (replaceAll '' '' [] normalized)) prohibitive_phrases
      then PolarityProhibitive else PolarityAffirmative)"

definition core_phrases :: "string list" where
  "core_phrases =
     [[CHR 0xE8, CHR 0xAF, CHR 0xB7, CHR 0xE8, CHR 0xAE, CHR 0xB0, CHR 0xE4, CHR 0xBD, CHR 0x8F],
      [CHR 0xE8, CHR 0xAE, CHR 0xB0, CHR 0xE4, CHR 0xBD, CHR 0x8F],
      [CHR 0xE4, CHR 0xBB, CHR 0xA5, CHR 0xE5, CHR 0x90, CHR 0x8E, CHR 0xE9, CHR 0x83, CHR 0xBD],
      [CHR 0xE4, CHR 0xBB, CHR 0x8E, CHR 0xE7, CHR 0x8E, CHR 0xB0, CHR 0xE5, CHR 0x9C, CHR 0xA8, CHR 0xE5, CHR 0xBC, CHR 0x80, CHR 0xE5, CHR 0xA7, CHR 0x8B],
      [CHR 0xE6, CHR 0x88, CHR 0x91, CHR 0xE5, CHR 0x86, CHR 0x8D, CHR 0xE6, CHR 0xAC, CHR 0xA1, CHR 0xE5, CHR 0xBC, CHR 0xBA, CHR 0xE8, CHR 0xB0, CHR 0x83],
      [CHR 0xE9, CHR 0x87, CHR 0x8D, CHR 0xE6, CHR 0x96, CHR 0xB0, CHR 0xE5, CHR 0xBC, CHR 0xBA, CHR 0xE8, CHR 0xB0, CHR 0x83],
      [CHR 0xE5, CHR 0x86, CHR 0x8D, CHR 0xE6, CHR 0xAC, CHR 0xA1],
      [CHR 0xE6, CHR 0x88, CHR 0x91, CHR 0xE8, CHR 0xAF, CHR 0xB4],
      [CHR 0xE5, CHR 0x88, CHR 0x9A, CHR 0xE6, CHR 0x89, CHR 0x8D],
      [CHR 0xE5, CHR 0x89, CHR 0x8D, CHR 0xE9, CHR 0x9D, CHR 0xA2],
      [CHR 0xE4, CHR 0xBB, CHR 0x8D, CHR 0xE7, CHR 0x84, CHR 0xB6],
      [CHR 0xE5, CHR 0xBF, CHR 0x85, CHR 0xE9, CHR 0xA1, CHR 0xBB],
      [CHR 0xE4, CHR 0xB8, CHR 0x8D, CHR 0xE8, CHR 0xA6, CHR 0x81],
      [CHR 0xE4, CHR 0xB8, CHR 0x8D, CHR 0xE5, CHR 0xBE, CHR 0x97],
      [CHR 0xE4, CHR 0xB8, CHR 0x8D, CHR 0xE8, CHR 0x83, CHR 0xBD],
      [CHR 0xE7, CHR 0xA6, CHR 0x81, CHR 0xE6, CHR 0xAD, CHR 0xA2],
      [CHR 0xE4, CHR 0xB8, CHR 0x8D, CHR 0xE5, CHR 0x8F, CHR 0xAF],
      [CHR 0xE4, CHR 0xB8, CHR 0x8D, CHR 0xE5, CHR 0x85, CHR 0x81, CHR 0xE8, CHR 0xAE, CHR 0xB8]]"

definition ignored_words :: "string list" where
  "ignored_words =
     [''a'', ''again'', ''already'', ''always'', ''an'', ''as'', ''be'', ''do'', ''don'',
      ''forbid'', ''from'', ''i'', ''keep'', ''must'', ''never'', ''not'', ''only'',
      ''please'', ''preserve'', ''prohibited'', ''remember'', ''required'', ''said'',
      ''shall'', ''should'', ''still'', ''t'', ''that'', ''to'', ''without'', ''you'']"

definition semanticCore :: "string \<Rightarrow> string" where
  "semanticCore normalized =
     (let core = join_with '' '' (filter (\<lambda>w. w \<notin> set ignored_words)
                   (fields (fold (\<lambda>p v. replaceAll p [] v) core_phrases normalized)))
      in if core = [] then normalized else core)"

definition rule_change_phrases :: "string list" where
  "rule_change_phrases =
     [''agents md'', ''skill'', ''skills'', ''hook'', ''hooks'', ''plugin'', ''plugins'',
      ''global rule'', ''global config'', ''codex config'',
      [CHR 0xE5, CHR 0x85, CHR 0xA8, CHR 0xE5, CHR 0xB1, CHR 0x80, CHR 0xE8, CHR 0xA7, CHR 0x84, CHR 0xE5, CHR 0x88, CHR 0x99],
      [CHR 0xE5, CHR 0x85, CHR 0xA8, CHR 0xE5, CHR 0xB1, CHR 0x80, CHR 0xE9, CHR 0x85, CHR 0x8D, CHR 0xE7, CHR 0xBD, CHR 0xAE],
      [CHR 0xE6, CHR 0x8A, CHR 0x80, CHR 0xE8, CHR 0x83, CHR 0xBD],
      [CHR 0xE9, CHR 0x92, CHR 0xA9, CHR 0xE5, CHR 0xAD, CHR 0x90],
      [CHR 0xE6, CHR 0x8F, CHR 0x92, CHR 0xE4, CHR 0xBB, CHR 0xB6]]"

definition requiresRuleChangeApproval :: "string \<Rightarrow> bool" where
  "requiresRuleChangeApproval normalized \<longleftrightarrow>
     list_ex (\<lambda>p. contains normalized p \<or>
       contains (replaceAll '' '' [] normalized) (replaceAll '' '' [] p)) rule_change_phrases"

section \<open>Explicit requests to remember\<close>

definition restated_prefixes :: "string list" where
  "restated_prefixes =
     [''as i said '', ''i said '', ''again '',
      [CHR 0xE6, CHR 0x88, CHR 0x91, CHR 0xE5, CHR 0x86, CHR 0x8D, CHR 0xE6, CHR 0xAC, CHR 0xA1, CHR 0xE5, CHR 0xBC, CHR 0xBA, CHR 0xE8, CHR 0xB0, CHR 0x83],
      [CHR 0xE9, CHR 0x87, CHR 0x8D, CHR 0xE6, CHR 0x96, CHR 0xB0, CHR 0xE5, CHR 0xBC, CHR 0xBA, CHR 0xE8, CHR 0xB0, CHR 0x83],
      [CHR 0xE5, CHR 0x86, CHR 0x8D, CHR 0xE6, CHR 0xAC, CHR 0xA1]]"

definition remember_prefixes :: "string list" where
  "remember_prefixes =
     [''remember'', ''just remember'', ''always remember'', ''can you remember'',
      ''can you please remember'', ''could you remember'', ''could you please remember'',
      ''would you remember'', ''would you please remember'', ''will you remember'',
      ''will you please remember'', ''i want you to remember'',
      ''i would like you to remember'', ''i d like you to remember'', ''you must remember'',
      ''you should remember'', ''you need to remember'', ''from now on'']"

definition remember_phrases :: "string list" where
  "remember_phrases =
     [[CHR 0xE8, CHR 0xAE, CHR 0xB0, CHR 0xE4, CHR 0xBD, CHR 0x8F],
      [CHR 0xE8, CHR 0xAF, CHR 0xB7, CHR 0xE8, CHR 0xAE, CHR 0xB0, CHR 0xE4, CHR 0xBD, CHR 0x8F],
      [CHR 0xE8, CHR 0xAF, CHR 0xB7, CHR 0xE4, CHR 0xBD, CHR 0xA0, CHR 0xE8, CHR 0xAE, CHR 0xB0, CHR 0xE4, CHR 0xBD, CHR 0x8F],
      [CHR 0xE5, CHR 0xB8, CHR 0xAE, CHR 0xE6, CHR 0x88, CHR 0x91, CHR 0xE8, CHR 0xAE, CHR 0xB0, CHR 0xE4, CHR 0xBD, CHR 0x8F],
      [CHR 0xE8, CHR 0xAF, CHR 0xB7, CHR 0xE5, CHR 0xB8, CHR 0xAE, CHR 0xE6, CHR 0x88, CHR 0x91, CHR 0xE8, CHR 0xAE, CHR 0xB0, CHR 0xE4, CHR 0xBD, CHR 0x8F],
      [CHR 0xE4, CHR 0xBD, CHR 0xA0, CHR 0xE8, CHR 0xA6, CHR 0x81, CHR 0xE8, CHR 0xAE, CHR 0xB0, CHR 0xE4, CHR 0xBD, CHR 0x8F],
      [CHR 0xE4, CHR 0xBB, CHR 0xA5, CHR 0xE5, CHR 0x90, CHR 0x8E, CHR 0xE9, CHR 0x83, CHR 0xBD],
      [CHR 0xE4, CHR 0xBB, CHR 0x8E, CHR 0xE7, CHR 0x8E, CHR 0xB0, CHR 0xE5, CHR 0x9C, CHR 0xA8, CHR 0xE5, CHR 0xBC, CHR 0x80, CHR 0xE5, CHR 0xA7, CHR 0x8B]]"

text \<open>The first prefix that matches is removed, and only that one.\<close>

fun strip_restated :: "string list \<Rightarrow> string \<Rightarrow> string" where
  "strip_restated [] s = s"
| "strip_restated (p # ps) s = (if hasPrefix s p then trimSpace (trimPrefix s p) else strip_restated ps s)"

definition isExplicitRememberNormalized :: "string \<Rightarrow> bool" where
  "isExplicitRememberNormalized normalized \<longleftrightarrow>
     (let n = fold (\<lambda>p s. trimPrefix s p) [''please '', ''kindly ''] (strip_restated restated_prefixes normalized);
          compact = replaceAll '' '' [] n
      in list_ex (\<lambda>p. hasPrefix n (p @ '' '')) remember_prefixes \<or>
         list_ex (\<lambda>p. hasPrefix compact p \<and> length p < length compact) remember_phrases)"

definition IsExplicitRemember :: "unicode \<Rightarrow> string \<Rightarrow> bool" where
  "IsExplicitRemember u t = isExplicitRememberNormalized (normalizeText u t)"

end
