(* ===== verification/Candidates.thy ===== *)
theory Candidates
  imports Candidate_Text "HOL-Library.Product_Lexorder"
begin

text \<open>
  Candidate derivation (\<open>internal/candidates/types.go\<close>, \<open>extract.go\<close>): the observations an episode gives,
  their aggregation into candidates, and the linking of candidates with the same semantic core, which
  quarantines those of opposite polarity. Of an episode only the fields that the derivation reads are
  modelled. Go iterates over its maps in no fixed order; every such loop ends in a sort, so the model
  keeps the order of first appearance.
\<close>

section \<open>Data\<close>

abbreviation CandidateSchemaVersion :: string where "CandidateSchemaVersion \<equiv> ''candidate/v1alpha1''"
abbreviation KindConstraint :: string where "KindConstraint \<equiv> ''constraint''"
abbreviation KindCorrection :: string where "KindCorrection \<equiv> ''correction''"
abbreviation KindDirective :: string where "KindDirective \<equiv> ''directive''"

abbreviation SupportUserInstruction :: string where "SupportUserInstruction \<equiv> ''user_instruction''"
abbreviation SupportUserCorrection :: string where "SupportUserCorrection \<equiv> ''user_correction''"
abbreviation SupportExplicitRemember :: string where "SupportExplicitRemember \<equiv> ''explicit_remember''"
abbreviation SupportCompactionDrift :: string where "SupportCompactionDrift \<equiv> ''compaction_drift''"
abbreviation SupportStableRepetition :: string where "SupportStableRepetition \<equiv> ''stable_repetition''"

abbreviation StatusUntrusted :: string where "StatusUntrusted \<equiv> ''untrusted''"
abbreviation StatusReviewReady :: string where "StatusReviewReady \<equiv> ''review_ready''"
abbreviation CandidateQuarantined :: string where "CandidateQuarantined \<equiv> ''quarantined''"
abbreviation ScopeUnconfirmed :: string where "ScopeUnconfirmed \<equiv> ''unconfirmed''"

record statement =
  sm_statement_id :: string
  sm_kind :: string
  sm_text :: string
  sm_evidence_event_ids :: "string list"
  sm_first_seen_at :: gotime
  sm_last_seen_at :: gotime

record continuity_check =
  ck_statement_id :: string
  ck_status :: string
  ck_correction_event_ids :: "string list"

record compaction_checkpoint =
  cc_status :: string
  cc_checks :: "continuity_check list"

record episode =
  ep_schema_version :: string
  ep_episode_id :: string
  ep_agent :: agent
  ep_statements :: "statement list"
  ep_compactions :: "compaction_checkpoint list"
  ep_privacy :: string

record observation =
  ob_episode_id :: string
  ob_statement_id :: string
  ob_statement_kind :: string
  ob_evidence_event_ids :: "string list"
  ob_correction_event_ids :: "string list"
  ob_support_types :: "string list"
  ob_first_seen_at :: gotime
  ob_last_seen_at :: gotime

record validation =
  vd_status :: string
  vd_reasons :: "string list"
  vd_scope_confirmation_required :: bool
  vd_automatic_promotion_eligible :: bool

record candidate_scope =
  cs_agent :: agent
  cs_status :: string

record candidate =
  cd_schema_version :: string
  cd_candidate_id :: string
  cd_content_sha256 :: string
  cd_semantic_key_sha256 :: string
  cd_kind :: string
  cd_text :: string
  cd_polarity :: string
  cd_scope :: candidate_scope
  cd_support_types :: "string list"
  cd_observations :: "observation list"
  cd_episode_count :: int
  cd_evidence_event_count :: int
  cd_first_seen_at :: gotime
  cd_last_seen_at :: gotime
  cd_validation :: validation
  cd_conflict_group_id :: string
  cd_conflicting_candidate_ids :: "string list"
  cd_related_candidate_ids :: "string list"
  cd_requires_approval :: bool
  cd_privacy :: string

record staged_observation =
  sg_candidate_id :: string
  sg_normalized_text :: string
  sg_semantic_core :: string
  sg_semantic_key_sha256 :: string
  sg_kind :: string
  sg_text :: string
  sg_polarity :: string
  sg_agent :: agent
  sg_requires_approval :: bool
  sg_observation :: observation

section \<open>Helpers\<close>

definition deterministicHex :: "string \<Rightarrow> string list \<Rightarrow> string" where
  "deterministicHex namespace parts = sha256_hex (namespace @ concat (map (\<lambda>p. CHR 0x00 # p) parts))"

definition deterministicID :: "string \<Rightarrow> string list \<Rightarrow> string" where
  "deterministicID namespace parts = namespace @ ''-'' @ deterministicHex namespace parts"

definition appendUnique :: "string list \<Rightarrow> string list \<Rightarrow> string list" where
  "appendUnique values added = sort (remdups (filter (\<lambda>v. v \<noteq> []) (values @ added)))"

definition sortedSupportTypes :: "string list \<Rightarrow> string list" where
  "sortedSupportTypes values = sort (remdups values)"

definition candidateContentSHA256 :: "candidate \<Rightarrow> string" where
  "candidateContentSHA256 c =
     sha256_hex (case marshal (JObj
       [(''kind'', JStr (cd_kind c)), (''text'', JStr (cd_text c)), (''polarity'', JStr (cd_polarity c)),
        (''scope'', JObj [(''agent'', JStr (cs_agent (cd_scope c))), (''status'', JStr (cs_status (cd_scope c)))])])
       of None \<Rightarrow> [] | Some data \<Rightarrow> data)"

definition observation_order :: "observation \<Rightarrow> string \<times> string" where
  "observation_order ob = (ob_episode_id ob, ob_statement_id ob)"

definition observationLess :: "observation \<Rightarrow> observation \<Rightarrow> bool" where
  "observationLess l r \<longleftrightarrow> observation_order l < observation_order r"

definition validationFor :: "string list \<Rightarrow> bool \<Rightarrow> validation" where
  "validationFor support approval =
     (let reason = (\<lambda>s. if s = SupportExplicitRemember then [''explicit_user_remember'']
                        else if s = SupportUserCorrection then [''user_correction'']
                        else if s = SupportCompactionDrift then [''compaction_drift_with_user_correction'']
                        else if s = SupportStableRepetition then [''stable_repetition''] else []);
          strong = list_ex (\<lambda>s. reason s \<noteq> []) support
      in \<lparr>vd_status = (if strong then StatusReviewReady else StatusUntrusted),
          vd_reasons = sort ([''scope_confirmation_required''] @ concat (map reason support) @
            (if strong then [] else [''single_task_instruction_only'']) @
            (if approval then [''rule_change_requires_explicit_approval''] else [])),
          vd_scope_confirmation_required = True, vd_automatic_promotion_eligible = False\<rparr>)"

section \<open>Observations of an episode\<close>

definition correction_evidence :: "episode \<Rightarrow> string \<Rightarrow> string list" where
  "correction_evidence ep =
     fold (\<lambda>ck m. m(ck_statement_id ck := appendUnique (m (ck_statement_id ck)) (ck_correction_event_ids ck)))
       (filter (\<lambda>ck. ck_status ck = ''correction_after_compaction'')
         (concat (map cc_checks (filter (\<lambda>cp. cc_status cp = ''drift_evidence'') (ep_compactions ep)))))
       (\<lambda>_. [])"

text \<open>The candidate kind and the support of a statement; the empty kind means that it gives no candidate.\<close>

definition statement_support :: "unicode \<Rightarrow> string list \<Rightarrow> statement \<Rightarrow> string \<times> string list" where
  "statement_support u corrections st =
     (let (kind1, support1) =
            (if sm_kind st = ''constraint'' then (KindConstraint, [SupportUserInstruction])
             else if sm_kind st = ''correction'' then (KindCorrection, [SupportUserCorrection])
             else ([], []));
          (kind2, support2) =
            (if IsExplicitRemember u (sm_text st) then (KindDirective, support1 @ [SupportExplicitRemember])
             else (kind1, support1))
      in if corrections \<noteq> []
         then (if kind2 = [] then KindConstraint else kind2,
               support2 @ [SupportUserCorrection, SupportCompactionDrift])
         else (kind2, support2))"

definition derive_statement :: "unicode \<Rightarrow> episode \<Rightarrow> statement \<Rightarrow> staged_observation option" where
  "derive_statement u ep st =
     (let corrections = correction_evidence ep (sm_statement_id st);
          (kind, support) = statement_support u corrections st;
          normalized = normalizeText u (sm_text st)
      in if kind = [] \<or> normalized = [] then None
         else Some
           \<lparr>sg_candidate_id = deterministicID ''candidate'' [kind, ep_agent ep, normalized],
            sg_normalized_text = normalized, sg_semantic_core = semanticCore normalized,
            sg_semantic_key_sha256 =
              deterministicHex ''candidate-semantic-key'' [ep_agent ep, semanticCore normalized],
            sg_kind = kind, sg_text = sm_text st, sg_polarity = detectPolarity normalized,
            sg_agent = ep_agent ep, sg_requires_approval = requiresRuleChangeApproval normalized,
            sg_observation =
              \<lparr>ob_episode_id = ep_episode_id ep, ob_statement_id = sm_statement_id st,
               ob_statement_kind = sm_kind st,
               ob_evidence_event_ids = appendUnique [] (sm_evidence_event_ids st),
               ob_correction_event_ids = appendUnique [] corrections,
               ob_support_types = sortedSupportTypes support,
               ob_first_seen_at = sm_first_seen_at st, ob_last_seen_at = sm_last_seen_at st\<rparr>\<rparr>)"

definition deriveEpisodeObservations :: "unicode \<Rightarrow> episode \<Rightarrow> staged_observation list" where
  "deriveEpisodeObservations u ep =
     sort_key (\<lambda>s. (sg_candidate_id s, observation_order (sg_observation s)))
       (List.map_filter (derive_statement u ep) (ep_statements ep))"

section \<open>Aggregation\<close>

record candidate_aggregate =
  ag_base :: staged_observation
  ag_observations :: "observation list"

definition absorb_record :: "candidate_aggregate \<Rightarrow> staged_observation \<Rightarrow> candidate_aggregate" where
  "absorb_record a r =
     (let b = ag_base a in
      \<lparr>ag_base = b\<lparr>sg_text := (if sg_text r < sg_text b then sg_text r else sg_text b),
                  sg_requires_approval := sg_requires_approval b \<or> sg_requires_approval r\<rparr>,
       ag_observations = ag_observations a @ [sg_observation r]\<rparr>)"

definition same_identity :: "staged_observation \<Rightarrow> staged_observation \<Rightarrow> bool" where
  "same_identity b r \<longleftrightarrow>
     sg_normalized_text b = sg_normalized_text r \<and> sg_kind b = sg_kind r \<and> sg_agent b = sg_agent r"

text \<open>The aggregates by candidate id; a different identity under the same id is a collision error.\<close>

fun add_record :: "staged_observation \<Rightarrow> candidate_aggregate list \<Rightarrow> string + candidate_aggregate list" where
  "add_record r [] = Inr [\<lparr>ag_base = r, ag_observations = [sg_observation r]\<rparr>]"
| "add_record r (a # as) =
     (if sg_candidate_id (ag_base a) = sg_candidate_id r then
        if \<not> same_identity (ag_base a) r then Inl (sg_candidate_id r) else Inr (absorb_record a r # as)
      else (case add_record r as of Inl e \<Rightarrow> Inl e | Inr as' \<Rightarrow> Inr (a # as')))"

fun add_records :: "staged_observation list \<Rightarrow> candidate_aggregate list \<Rightarrow> string + candidate_aggregate list" where
  "add_records [] as = Inr as"
| "add_records (r # rs) as =
     (case add_record r as of Inl e \<Rightarrow> Inl e | Inr as' \<Rightarrow> add_records rs as')"

definition clean_observation :: "observation \<Rightarrow> observation" where
  "clean_observation ob =
     ob\<lparr>ob_evidence_event_ids := appendUnique [] (ob_evidence_event_ids ob),
        ob_correction_event_ids := appendUnique [] (ob_correction_event_ids ob),
        ob_support_types := sortedSupportTypes (ob_support_types ob)\<rparr>"

definition absorb_observation :: "observation \<Rightarrow> observation \<Rightarrow> observation" where
  "absorb_observation current ob =
     current\<lparr>ob_evidence_event_ids := appendUnique (ob_evidence_event_ids current) (ob_evidence_event_ids ob),
             ob_correction_event_ids := appendUnique (ob_correction_event_ids current) (ob_correction_event_ids ob),
             ob_support_types := sortedSupportTypes (ob_support_types current @ ob_support_types ob),
             ob_first_seen_at := min (ob_first_seen_at current) (ob_first_seen_at ob),
             ob_last_seen_at := max (ob_last_seen_at current) (ob_last_seen_at ob)\<rparr>"

text \<open>The loop over the sorted observations; the result is kept in reverse, its last element at the head.\<close>

fun merge_sorted :: "observation list \<Rightarrow> observation list \<Rightarrow> observation list" where
  "merge_sorted done [] = rev done"
| "merge_sorted [] (ob # obs) = merge_sorted [clean_observation ob] obs"
| "merge_sorted (current # done) (ob # obs) =
     (if observation_order current \<noteq> observation_order ob
      then merge_sorted (clean_observation ob # current # done) obs
      else merge_sorted (absorb_observation current (clean_observation ob) # done) obs)"

definition mergeObservations :: "observation list \<Rightarrow> observation list" where
  "mergeObservations obs = merge_sorted [] (sort_key observation_order obs)"

text \<open>What a candidate's observations say together.\<close>

definition observed_episodes :: "observation list \<Rightarrow> string list" where
  "observed_episodes obs = remdups (map ob_episode_id obs)"

definition observed_events :: "observation list \<Rightarrow> string list" where
  "observed_events obs = remdups (concat (map (\<lambda>ob. ob_evidence_event_ids ob @ ob_correction_event_ids ob) obs))"

definition observed_support :: "observation list \<Rightarrow> string list" where
  "observed_support obs = sortedSupportTypes
     (concat (map ob_support_types obs) @
      (if 2 \<le> length (observed_episodes obs) then [SupportStableRepetition] else []))"

definition observed_first :: "observation list \<Rightarrow> gotime" where
  "observed_first obs = fold (\<lambda>ob t. min t (ob_first_seen_at ob)) obs (ob_first_seen_at (hd obs))"

definition observed_last :: "observation list \<Rightarrow> gotime" where
  "observed_last obs = fold (\<lambda>ob t. max t (ob_last_seen_at ob)) obs (ob_last_seen_at (hd obs))"

definition finalizeCandidate :: "candidate_aggregate \<Rightarrow> candidate" where
  "finalizeCandidate a =
     (let b = ag_base a; obs = mergeObservations (ag_observations a); support = observed_support obs in
      \<lparr>cd_schema_version = CandidateSchemaVersion, cd_candidate_id = sg_candidate_id b,
       cd_content_sha256 = [], cd_semantic_key_sha256 = sg_semantic_key_sha256 b, cd_kind = sg_kind b,
       cd_text = sg_text b, cd_polarity = sg_polarity b,
       cd_scope = \<lparr>cs_agent = sg_agent b, cs_status = ScopeUnconfirmed\<rparr>,
       cd_support_types = support, cd_observations = obs,
       cd_episode_count = int (length (observed_episodes obs)),
       cd_evidence_event_count = int (length (observed_events obs)),
       cd_first_seen_at = observed_first obs, cd_last_seen_at = observed_last obs,
       cd_validation = validationFor support (sg_requires_approval b),
       cd_conflict_group_id = [], cd_conflicting_candidate_ids = [], cd_related_candidate_ids = [],
       cd_requires_approval = sg_requires_approval b, cd_privacy = ''local_only''\<rparr>)"

section \<open>Links between candidates\<close>

definition groupKey :: "candidate_aggregate \<Rightarrow> string" where
  "groupKey a = sg_agent (ag_base a) @ CHR 0x00 # sg_semantic_core (ag_base a)"

definition opposed :: "candidate \<Rightarrow> bool" where
  "opposed c \<longleftrightarrow> cd_polarity c = PolarityAffirmative \<or> cd_polarity c = PolarityProhibitive"

definition conflicted :: "candidate list \<Rightarrow> bool" where
  "conflicted members \<longleftrightarrow>
     2 \<le> length members \<and> list_ex (\<lambda>c. cd_polarity c = PolarityAffirmative) members \<and>
     list_ex (\<lambda>c. cd_polarity c = PolarityProhibitive) members"

definition related_in :: "candidate list \<Rightarrow> candidate \<Rightarrow> string list" where
  "related_in members c = fold (\<lambda>other ids.
     if cd_candidate_id other \<noteq> cd_candidate_id c \<and> cd_polarity other = cd_polarity c
     then appendUnique ids [cd_candidate_id other] else ids) members (cd_related_candidate_ids c)"

definition conflicting_in :: "candidate list \<Rightarrow> candidate \<Rightarrow> string list" where
  "conflicting_in members c = fold (\<lambda>other ids.
     if cd_candidate_id other \<noteq> cd_candidate_id c \<and> cd_polarity other \<noteq> cd_polarity c \<and> opposed other
     then appendUnique ids [cd_candidate_id other] else ids) members (cd_conflicting_candidate_ids c)"

definition quarantine :: "validation \<Rightarrow> validation" where
  "quarantine v = v\<lparr>vd_status := CandidateQuarantined,
     vd_reasons := appendUnique (vd_reasons v) [''semantic_conflict'']\<rparr>"

definition link_candidate :: "string \<Rightarrow> candidate list \<Rightarrow> candidate \<Rightarrow> candidate" where
  "link_candidate key members c =
     (let c1 = (if length members < 2 then c else c\<lparr>cd_related_candidate_ids := related_in members c\<rparr>)
      in if \<not> conflicted members \<or> \<not> opposed c then c1
         else let ids = conflicting_in members c;
                  c2 = c1\<lparr>cd_conflict_group_id := deterministicID ''candidate-conflict'' [key],
                          cd_conflicting_candidate_ids := ids\<rparr>
              in if ids = [] then c2 else c2\<lparr>cd_validation := quarantine (cd_validation c2)\<rparr>)"

definition settle_candidate :: "candidate \<Rightarrow> candidate" where
  "settle_candidate c =
     (let c' = c\<lparr>cd_conflicting_candidate_ids := sort (cd_conflicting_candidate_ids c),
                cd_related_candidate_ids := sort (cd_related_candidate_ids c),
                cd_validation := (cd_validation c)\<lparr>vd_reasons := sort (vd_reasons (cd_validation c))\<rparr>\<rparr>
      in c'\<lparr>cd_content_sha256 := candidateContentSHA256 c'\<rparr>)"

definition group_members :: "candidate_aggregate list \<Rightarrow> string \<Rightarrow> candidate list" where
  "group_members as key = map finalizeCandidate (filter (\<lambda>a. groupKey a = key) as)"

definition aggregateCandidates :: "staged_observation list \<Rightarrow> string + (candidate list \<times> int)" where
  "aggregateCandidates records =
     (case add_records records [] of
        Inl e \<Rightarrow> Inl e
      | Inr as \<Rightarrow> Inr
          (sort_key cd_candidate_id
             (map (\<lambda>a. settle_candidate (link_candidate (groupKey a) (group_members as (groupKey a)) (finalizeCandidate a))) as),
           int (length (filter (\<lambda>key. conflicted (group_members as key)) (remdups (map groupKey as))))))"

end
