(* ===== verification/Candidate_Generation.thy ===== *)
theory Candidate_Generation
  imports Candidates Ledger
begin

text \<open>
  Reading a candidate generation (\<open>internal/candidates/generation.go\<close>, \<open>list.go\<close>): the manifest, the checks
  on a candidate and on the links between candidates, the proof that the selected candidates carry exactly
  the observations of their source episodes, and the operations \<open>OpenGeneration\<close>, \<open>Select\<close>, \<open>All\<close> and
  \<open>List\<close>. What a generation directory resolves to and the JSON decoders are arguments
  (\<open>candidate_env\<close>).
\<close>

section \<open>Data\<close>

abbreviation ManifestSchemaVersion :: string where
  "ManifestSchemaVersion \<equiv> ''candidate-derivation-manifest/v1alpha1''"
abbreviation CandidateDerivationVersion :: string where
  "CandidateDerivationVersion \<equiv> ''candidates/v1alpha1''"

record candidate_manifest =
  cm_schema_version :: string
  cm_derivation_version :: string
  cm_privacy :: string
  cm_source_episode_generation :: string
  cm_source_episode_manifest_sha256 :: string
  cm_source_episodes_sha256 :: string
  cm_source_episodes :: int
  cm_observations :: int
  cm_candidates :: int
  cm_review_ready :: int
  cm_untrusted :: int
  cm_quarantined :: int
  cm_conflict_groups :: int
  cm_candidates_file :: string
  cm_candidates_sha256 :: string

record generation =
  gn_name :: string
  gn_manifest :: candidate_manifest
  gn_file :: os_file

record selection =
  sl_candidates :: "string \<Rightarrow> candidate option"
  sl_conflict_groups :: "string \<Rightarrow> string list option"

text \<open>The episode generation a candidate generation was derived from: what its manifest says, and its file.\<close>

record episode_source =
  es_source_records :: int
  es_source_last_record_hash :: string
  es_manifest_sha256 :: string
  es_episodes_sha256 :: string
  es_episodes :: int
  es_file :: os_file

text \<open>
  \<open>ce_directory\<close> resolves a generation to the base name of its directory and its two files; the decoders of
  JSON streams return the values read and whether an error ended the stream.
\<close>

record candidate_env =
  ce_unicode :: unicode
  ce_directory :: "string \<Rightarrow> (string \<times> os_file \<times> os_file) option"
  ce_decode_manifest :: "string \<Rightarrow> candidate_manifest option"
  ce_decode_candidates :: "string \<Rightarrow> candidate list \<times> bool"
  ce_source :: "string \<Rightarrow> episode_source option"
  ce_decode_episodes :: "string \<Rightarrow> episode list \<times> bool"

datatype candidate_error =
    SchemaOrPrivacy
  | IdentityInvalid
  | KindOrScopeInvalid
  | DerivedIdentityInconsistent
  | ObservationRangeInvalid
  | ObservationsNotSorted
  | ObservationInvalid
  | AggregateInconsistent
  | LinksInvalid
  | ConflictGroupInvalid
  | GroupWithoutConflicts
  | ValidationInconsistent

datatype generation_error =
    GenerationPathRequired
  | GenerationNotAName
  | GenerationUnresolved
  | ManifestUnreadable
  | ManifestIncompatible
  | ManifestIdentity
  | ManifestCounts
  | InvalidCandidateId
  | CandidatesUnreadable
  | CandidatesDecode
  | InvalidCandidate nat candidate_error
  | NotStrictlySorted
  | ManifestMismatch
  | InvalidLinks
  | CandidateNotPresent
  | SourceUnavailable
  | SourceMismatch
  | RepeatedProof
  | EpisodesUnreadable
  | EpisodesDecode
  | EpisodeUnsupported
  | OmittedObservation
  | InconsistentProvenance
  | SourceVerification
  | AbsentObservation
  | ListLimit
  | ListStatus

section \<open>The checks on one candidate\<close>

definition validateManifest_candidates :: "candidate_manifest \<Rightarrow> generation_error option" where
  "validateManifest_candidates m = first_error
     [fail_if (cm_schema_version m \<noteq> ManifestSchemaVersion \<or>
               cm_derivation_version m \<noteq> CandidateDerivationVersion \<or> cm_privacy m \<noteq> ''local_only'' \<or>
               cm_candidates_file m \<noteq> ''candidates.jsonl'') ManifestIncompatible,
      fail_if (blank (cm_source_episode_generation m) \<or> \<not> validSHA256 (cm_source_episode_manifest_sha256 m) \<or>
               \<not> validSHA256 (cm_source_episodes_sha256 m) \<or> \<not> validSHA256 (cm_candidates_sha256 m))
        ManifestIdentity,
      fail_if (cm_source_episodes m < 0 \<or> cm_observations m < 0 \<or> cm_candidates m < 0 \<or> cm_review_ready m < 0 \<or>
               cm_untrusted m < 0 \<or> cm_quarantined m < 0 \<or> cm_conflict_groups m < 0 \<or>
               cm_review_ready m + cm_untrusted m + cm_quarantined m \<noteq> cm_candidates m) ManifestCounts]"

definition validCandidateKind :: "string \<Rightarrow> bool" where
  "validCandidateKind k \<longleftrightarrow> k \<in> set [KindConstraint, KindCorrection, KindDirective]"

definition validAgent :: "agent \<Rightarrow> bool" where
  "validAgent a \<longleftrightarrow> a \<in> set [AgentCodex, AgentClaudeCode, AgentOpenCode, AgentDeepSeekHarness, AgentUnknown]"

definition validSupport :: "string \<Rightarrow> bool" where
  "validSupport s \<longleftrightarrow> s \<in> set [SupportUserInstruction, SupportUserCorrection, SupportExplicitRemember,
     SupportCompactionDrift, SupportStableRepetition]"

definition sortedUniqueSupport :: "string list \<Rightarrow> bool" where
  "sortedUniqueSupport vs \<longleftrightarrow> vs \<noteq> [] \<and> list_all validSupport vs \<and> strictly_sorted vs"

definition sortedUniqueCandidateIDs :: "string list \<Rightarrow> bool" where
  "sortedUniqueCandidateIDs vs \<longleftrightarrow> list_all (\<lambda>v. validPrefixedHash v ''candidate-'') vs \<and> strictly_sorted vs"

definition sortedUniqueStrings :: "string list \<Rightarrow> bool \<Rightarrow> bool" where
  "sortedUniqueStrings vs allowEmpty \<longleftrightarrow>
     (allowEmpty \<or> vs \<noteq> []) \<and> list_all (\<lambda>v. \<not> blank v) vs \<and> strictly_sorted vs"

text \<open>\<open>sort.SearchStrings\<close> on a sorted slice finds the first value that is not below the wanted one.\<close>

definition containsSortedString :: "string list \<Rightarrow> string \<Rightarrow> bool" where
  "containsSortedString vs w \<longleftrightarrow> (case filter (\<lambda>v. w \<le> v) vs of [] \<Rightarrow> False | v # _ \<Rightarrow> v = w)"

definition validObservation :: "observation \<Rightarrow> bool" where
  "validObservation ob \<longleftrightarrow>
     validPrefixedHash (ob_episode_id ob) ''episode-'' \<and> validPrefixedHash (ob_statement_id ob) ''statement-'' \<and>
     ob_statement_kind ob \<in> set [''goal'', ''constraint'', ''correction''] \<and> ob_evidence_event_ids ob \<noteq> [] \<and>
     \<not> isZeroTime (ob_first_seen_at ob) \<and> \<not> isZeroTime (ob_last_seen_at ob) \<and>
     \<not> ob_last_seen_at ob < ob_first_seen_at ob \<and>
     sortedUniqueStrings (ob_evidence_event_ids ob) False \<and>
     sortedUniqueStrings (ob_correction_event_ids ob) True \<and> sortedUniqueSupport (ob_support_types ob)"

fun check_observations :: "observation option \<Rightarrow> observation list \<Rightarrow> candidate_error option" where
  "check_observations p [] = None"
| "check_observations p (ob # obs) =
     (if (case p of None \<Rightarrow> False | Some previous \<Rightarrow> \<not> observationLess previous ob) then Some ObservationsNotSorted
      else if \<not> validObservation ob then Some ObservationInvalid
      else check_observations (Some ob) obs)"

definition expected_conflict_id :: "unicode \<Rightarrow> candidate \<Rightarrow> string" where
  "expected_conflict_id u c =
     deterministicID ''candidate-conflict'' [cs_agent (cd_scope c) @ CHR 0x00 # semanticCore (normalizeText u (cd_text c))]"

definition expected_validation :: "candidate \<Rightarrow> validation" where
  "expected_validation c =
     (let v = validationFor (observed_support (cd_observations c)) (cd_requires_approval c)
      in if cd_conflicting_candidate_ids c = [] then v else quarantine v)"

definition validateCandidate :: "unicode \<Rightarrow> candidate \<Rightarrow> candidate_error option" where
  "validateCandidate u c =
     (let normalized = normalizeText u (cd_text c); obs = cd_observations c in first_error
     [fail_if (cd_schema_version c \<noteq> CandidateSchemaVersion \<or> cd_privacy c \<noteq> ''local_only'') SchemaOrPrivacy,
      fail_if (blank (cd_text c) \<or> \<not> validSHA256 (cd_content_sha256 c) \<or>
               \<not> validSHA256 (cd_semantic_key_sha256 c) \<or> \<not> validPrefixedHash (cd_candidate_id c) ''candidate-'')
        IdentityInvalid,
      fail_if (\<not> validCandidateKind (cd_kind c) \<or> \<not> validAgent (cs_agent (cd_scope c)) \<or>
               cs_status (cd_scope c) \<noteq> ScopeUnconfirmed) KindOrScopeInvalid,
      fail_if (cd_candidate_id c \<noteq>
                 deterministicID ''candidate'' [cd_kind c, cs_agent (cd_scope c), normalized] \<or>
               cd_semantic_key_sha256 c \<noteq>
                 deterministicHex ''candidate-semantic-key'' [cs_agent (cd_scope c), semanticCore normalized] \<or>
               cd_polarity c \<noteq> detectPolarity normalized \<or>
               cd_requires_approval c \<noteq> requiresRuleChangeApproval normalized \<or>
               cd_content_sha256 c \<noteq> candidateContentSHA256 c) DerivedIdentityInconsistent,
      fail_if (obs = [] \<or> isZeroTime (cd_first_seen_at c) \<or> isZeroTime (cd_last_seen_at c) \<or>
               cd_last_seen_at c < cd_first_seen_at c) ObservationRangeInvalid,
      check_observations None obs,
      fail_if (cd_episode_count c \<noteq> int (length (observed_episodes obs)) \<or>
               cd_evidence_event_count c \<noteq> int (length (observed_events obs)) \<or>
               cd_first_seen_at c \<noteq> observed_first obs \<or> cd_last_seen_at c \<noteq> observed_last obs \<or>
               cd_support_types c \<noteq> observed_support obs) AggregateInconsistent,
      fail_if (\<not> sortedUniqueCandidateIDs (cd_conflicting_candidate_ids c) \<or>
               \<not> sortedUniqueCandidateIDs (cd_related_candidate_ids c)) LinksInvalid,
      (if cd_conflicting_candidate_ids c \<noteq> []
       then fail_if (cd_conflict_group_id c \<noteq> expected_conflict_id u c) ConflictGroupInvalid
       else fail_if (cd_conflict_group_id c \<noteq> []) GroupWithoutConflicts),
      fail_if (cd_validation c \<noteq> expected_validation c) ValidationInconsistent])"

section \<open>Links\<close>

definition candidate_by_id :: "candidate list \<Rightarrow> string \<Rightarrow> candidate option" where
  "candidate_by_id cs i = List.find (\<lambda>c. cd_candidate_id c = i) cs"

definition conflict_link_ok :: "candidate list \<Rightarrow> candidate \<Rightarrow> string \<Rightarrow> bool" where
  "conflict_link_ok cs c i =
     (case candidate_by_id cs i of
        None \<Rightarrow> False
      | Some other \<Rightarrow>
          cd_conflict_group_id other = cd_conflict_group_id c \<and>
          cd_semantic_key_sha256 other = cd_semantic_key_sha256 c \<and> cd_polarity other \<noteq> cd_polarity c \<and>
          containsSortedString (cd_conflicting_candidate_ids other) (cd_candidate_id c))"

definition related_link_ok :: "candidate list \<Rightarrow> candidate \<Rightarrow> string \<Rightarrow> bool" where
  "related_link_ok cs c i =
     (i \<noteq> cd_candidate_id c \<and>
      (case candidate_by_id cs i of
         None \<Rightarrow> False
       | Some other \<Rightarrow>
           cd_semantic_key_sha256 other = cd_semantic_key_sha256 c \<and> cd_polarity other = cd_polarity c \<and>
           containsSortedString (cd_related_candidate_ids other) (cd_candidate_id c)))"

text \<open>Two different candidates with the same semantic key must be linked.\<close>

definition pair_linked :: "candidate \<Rightarrow> candidate \<Rightarrow> bool" where
  "pair_linked l r \<longleftrightarrow>
     (if cd_polarity l = cd_polarity r then containsSortedString (cd_related_candidate_ids l) (cd_candidate_id r)
      else if opposed l \<and> opposed r
      then cd_conflict_group_id l \<noteq> [] \<and> cd_conflict_group_id l = cd_conflict_group_id r \<and>
        containsSortedString (cd_conflicting_candidate_ids l) (cd_candidate_id r)
      else True)"

definition validateCandidateLinks :: "candidate list \<Rightarrow> generation_error option" where
  "validateCandidateLinks cs =
     fail_if (\<not> (list_all (\<lambda>c. list_all (conflict_link_ok cs c) (cd_conflicting_candidate_ids c) \<and>
                   list_all (related_link_ok cs c) (cd_related_candidate_ids c)) cs \<and>
                list_all (\<lambda>l. list_all (\<lambda>r.
                   cd_candidate_id l \<noteq> cd_candidate_id r \<and>
                   cd_semantic_key_sha256 l = cd_semantic_key_sha256 r \<longrightarrow> pair_linked l r) cs) cs))
       InvalidLinks"

section \<open>Provenance\<close>

definition equalObservation :: "observation \<Rightarrow> observation \<Rightarrow> bool" where
  "equalObservation l r \<longleftrightarrow> l = r"

text \<open>A proof is an observation of a selected candidate; \<open>open\<close> are those not found yet.\<close>

fun take_proof ::
  "(string \<times> observation) list \<Rightarrow> staged_observation \<Rightarrow> (string \<times> observation) list
    \<Rightarrow> generation_error + (string \<times> observation) list" where
  "take_proof proofs s pending =
     (let key = (\<lambda>(i, ob). (i, observation_order ob)); k = key (sg_candidate_id s, sg_observation s) in
      case List.find (\<lambda>p. key p = k) proofs of
        None \<Rightarrow> Inl OmittedObservation
      | Some (i, ob) \<Rightarrow>
          if (i, ob) \<notin> set pending \<or> \<not> equalObservation ob (sg_observation s) then Inl InconsistentProvenance
          else Inr (remove1 (i, ob) pending))"

fun take_proofs ::
  "(string \<times> observation) list \<Rightarrow> staged_observation list \<Rightarrow> (string \<times> observation) list
    \<Rightarrow> generation_error + (string \<times> observation) list" where
  "take_proofs proofs [] pending = Inr pending"
| "take_proofs proofs (s # ss) pending =
     (case take_proof proofs s pending of Inl e \<Rightarrow> Inl e | Inr p \<Rightarrow> take_proofs proofs ss p)"

fun check_episodes ::
  "unicode \<Rightarrow> string set \<Rightarrow> (string \<times> observation) list \<Rightarrow> episode list \<Rightarrow> (string \<times> observation) list
    \<Rightarrow> generation_error + (string \<times> observation) list" where
  "check_episodes u ids proofs [] pending = Inr pending"
| "check_episodes u ids proofs (ep # eps) pending =
     (if ep_schema_version ep \<noteq> ''episode/v1alpha1'' \<or> ep_privacy ep \<noteq> ''local_only'' then Inl EpisodeUnsupported
      else (case take_proofs proofs (filter (\<lambda>s. sg_candidate_id s \<in> ids) (deriveEpisodeObservations u ep)) pending of
              Inl e \<Rightarrow> Inl e
            | Inr p \<Rightarrow> check_episodes u ids proofs eps p))"

definition candidate_proofs :: "candidate list \<Rightarrow> (string \<times> observation) list" where
  "candidate_proofs cs = concat (map (\<lambda>c. map (Pair (cd_candidate_id c)) (cd_observations c)) cs)"

definition verifySelectedProvenance ::
  "candidate_env \<Rightarrow> generation \<Rightarrow> candidate list \<Rightarrow> generation_error option" where
  "verifySelectedProvenance env g selected =
     (let m = gn_manifest g in
      case ce_source env (cm_source_episode_generation m) of
        None \<Rightarrow> Some SourceUnavailable
      | Some src \<Rightarrow>
          if es_manifest_sha256 src \<noteq> cm_source_episode_manifest_sha256 m \<or>
             es_episodes_sha256 src \<noteq> cm_source_episodes_sha256 m \<or> es_episodes src \<noteq> cm_source_episodes m
          then Some SourceMismatch
          else let proofs = candidate_proofs selected in
            if \<not> distinct (map (\<lambda>(i, ob). (i, observation_order ob)) proofs) then Some RepeatedProof
            else (case es_file src of
                    Readable bytes failed \<Rightarrow>
                      (case ce_decode_episodes env bytes of (eps, decode_failed) \<Rightarrow>
                         (case check_episodes (ce_unicode env) (set (map cd_candidate_id selected)) proofs eps proofs of
                            Inl e \<Rightarrow> Some e
                          | Inr pending \<Rightarrow> first_error
                              [fail_if (failed \<or> decode_failed) EpisodesDecode,
                               fail_if (sha256_hex bytes \<noteq> cm_source_episodes_sha256 m \<or>
                                        int (length eps) \<noteq> cm_source_episodes m) SourceVerification,
                               fail_if (pending \<noteq> []) AbsentObservation]))
                  | _ \<Rightarrow> Some EpisodesUnreadable))"

section \<open>Operations\<close>

definition OpenGeneration :: "candidate_env \<Rightarrow> string \<Rightarrow> generation_error + generation" where
  "OpenGeneration env supplied =
     (if blank supplied then Inl GenerationPathRequired
      else if \<not> hasPrefix supplied [slash] \<and> filepathBase supplied \<noteq> supplied then Inl GenerationNotAName
      else case ce_directory env supplied of
        None \<Rightarrow> Inl GenerationUnresolved
      | Some (name, manifest, file) \<Rightarrow>
          (case manifest of
             Readable bytes failed \<Rightarrow>
               (case (if failed then None else ce_decode_manifest env bytes) of
                  None \<Rightarrow> Inl ManifestUnreadable
                | Some m \<Rightarrow>
                    (case validateManifest_candidates m of
                       Some e \<Rightarrow> Inl e
                     | None \<Rightarrow> Inr \<lparr>gn_name = name, gn_manifest = m, gn_file = file\<rparr>))
           | _ \<Rightarrow> Inl ManifestUnreadable))"

fun check_candidates :: "unicode \<Rightarrow> nat \<Rightarrow> string \<Rightarrow> candidate list \<Rightarrow> generation_error option" where
  "check_candidates u n previousID [] = None"
| "check_candidates u n previousID (c # cs) =
     (case validateCandidate u c of
        Some e \<Rightarrow> Some (InvalidCandidate n e)
      | None \<Rightarrow>
          if previousID \<noteq> [] \<and> cd_candidate_id c \<le> previousID then Some NotStrictlySorted
          else check_candidates u (Suc n) (cd_candidate_id c) cs)"

definition with_status :: "string \<Rightarrow> candidate list \<Rightarrow> int" where
  "with_status s cs = int (length (filter (\<lambda>c. vd_status (cd_validation c) = s) cs))"

definition conflict_group_ids :: "candidate list \<Rightarrow> string list" where
  "conflict_group_ids cs = remdups (filter (\<lambda>g. g \<noteq> []) (map cd_conflict_group_id cs))"

definition conflict_members :: "candidate list \<Rightarrow> string \<Rightarrow> string list option" where
  "conflict_members cs g =
     (if g \<in> set (conflict_group_ids cs)
      then Some (sort (map cd_candidate_id (filter (\<lambda>c. cd_conflict_group_id c = g) cs))) else None)"

definition manifest_counts_ok :: "candidate_manifest \<Rightarrow> string \<Rightarrow> candidate list \<Rightarrow> bool" where
  "manifest_counts_ok m bytes cs \<longleftrightarrow>
     sha256_hex bytes = cm_candidates_sha256 m \<and> int (length cs) = cm_candidates m \<and>
     with_status StatusReviewReady cs = cm_review_ready m \<and> with_status StatusUntrusted cs = cm_untrusted m \<and>
     with_status CandidateQuarantined cs = cm_quarantined m \<and>
     int (length (conflict_group_ids cs)) = cm_conflict_groups m"

definition Select :: "candidate_env \<Rightarrow> generation \<Rightarrow> string list \<Rightarrow> generation_error + selection" where
  "Select env g ids =
     (if \<not> list_all (\<lambda>i. validPrefixedHash i ''candidate-'') ids then Inl InvalidCandidateId
      else case gn_file g of
        Readable bytes failed \<Rightarrow>
          (case ce_decode_candidates env bytes of (cs, decode_failed) \<Rightarrow>
             let selected = filter (\<lambda>c. cd_candidate_id c \<in> set ids) cs in
             (case first_error
                [check_candidates (ce_unicode env) 1 [] cs,
                 fail_if (failed \<or> decode_failed) CandidatesDecode,
                 fail_if (\<not> manifest_counts_ok (gn_manifest g) bytes cs) ManifestMismatch,
                 validateCandidateLinks cs,
                 fail_if (list_ex (\<lambda>i. candidate_by_id cs i = None) ids) CandidateNotPresent,
                 verifySelectedProvenance env g selected] of
                Some e \<Rightarrow> Inl e
              | None \<Rightarrow> Inr \<lparr>sl_candidates = candidate_by_id selected, sl_conflict_groups = conflict_members cs\<rparr>))
      | _ \<Rightarrow> Inl CandidatesUnreadable)"

definition file_candidates :: "candidate_env \<Rightarrow> generation \<Rightarrow> generation_error + candidate list" where
  "file_candidates env g =
     (case gn_file g of
        Readable bytes failed \<Rightarrow>
          (case ce_decode_candidates env bytes of (cs, decode_failed) \<Rightarrow>
             if failed \<or> decode_failed then Inl CandidatesDecode else Inr cs)
      | _ \<Rightarrow> Inl CandidatesUnreadable)"

definition All :: "candidate_env \<Rightarrow> generation \<Rightarrow> generation_error + candidate list" where
  "All env g =
     (case file_candidates env g of
        Inl e \<Rightarrow> Inl e
      | Inr cs \<Rightarrow>
          (case Select env g (map cd_candidate_id cs) of
             Inl e \<Rightarrow> Inl e
           | Inr sel \<Rightarrow> Inr (List.map_filter (\<lambda>c. sl_candidates sel (cd_candidate_id c)) cs)))"

text \<open>
  The ledger prefix that the source episodes cover, and the check that it is the whole evidence ledger, or
  all of it but the audit record of the episode generation. \<open>audits\<close> is what
  \<open>episodes.ListVerifiedGenerationAudits\<close> returns.
\<close>

record generation_audit =
  ga_ledger_index :: int
  ga_record_hash :: string
  ga_source_records :: int
  ga_source_last_record_hash :: string
  ga_generation_name :: string

datatype evidence_error = PrefixError generation_error | LedgerIssues | PrefixNotCurrent | AuditsUnavailable

definition SourceEvidencePrefix :: "candidate_env \<Rightarrow> generation \<Rightarrow> generation_error + int \<times> string" where
  "SourceEvidencePrefix env g =
     (let m = gn_manifest g in
      case ce_source env (cm_source_episode_generation m) of
        None \<Rightarrow> Inl SourceUnavailable
      | Some src \<Rightarrow>
          if es_manifest_sha256 src \<noteq> cm_source_episode_manifest_sha256 m \<or>
             es_episodes_sha256 src \<noteq> cm_source_episodes_sha256 m \<or> es_episodes src \<noteq> cm_source_episodes m
          then Inl SourceMismatch
          else Inr (es_source_records src, es_source_last_record_hash src))"

definition RequireCurrentEvidence ::
  "candidate_env \<Rightarrow> verification_report \<Rightarrow> generation_audit list option \<Rightarrow> generation \<Rightarrow> evidence_error option" where
  "RequireCurrentEvidence env report audits g =
     (case SourceEvidencePrefix env g of
        Inl e \<Rightarrow> Some (PrefixError e)
      | Inr (records, last_hash) \<Rightarrow>
          if vr_issues report \<noteq> [] then Some LedgerIssues
          else if records = vr_records report \<and> last_hash = vr_last report then None
          else if vr_records report \<noteq> records + 1 then Some PrefixNotCurrent
          else (case audits of
                  None \<Rightarrow> Some AuditsUnavailable
                | Some as \<Rightarrow>
                    if as = [] then Some PrefixNotCurrent
                    else let a = last as in
                      fail_if (ga_ledger_index a \<noteq> vr_records report \<or> ga_record_hash a \<noteq> vr_last report \<or>
                               ga_source_records a \<noteq> records \<or> ga_source_last_record_hash a \<noteq> last_hash \<or>
                               ga_generation_name a \<noteq> cm_source_episode_generation (gn_manifest g)) PrefixNotCurrent))"

record list_result =
  ls_total :: int
  ls_matching :: int
  ls_returned :: int
  ls_truncated :: bool
  ls_candidates :: "(candidate \<times> string) list"

definition ListCandidates :: "candidate_env \<Rightarrow> generation \<Rightarrow> string list \<Rightarrow> int \<Rightarrow> generation_error + list_result" where
  "ListCandidates env g statuses limit0 =
     (let limit = (if limit0 = 0 then 50 else limit0) in
      if limit < 1 \<or> 1000 < limit then Inl ListLimit
      else if \<not> list_all (\<lambda>s. s \<in> set [StatusReviewReady, StatusUntrusted, CandidateQuarantined]) statuses
      then Inl ListStatus
      else case file_candidates env g of
        Inl e \<Rightarrow> Inl e
      | Inr cs \<Rightarrow>
          (let matching = filter (\<lambda>c. statuses = [] \<or> vd_status (cd_validation c) \<in> set statuses) cs;
               ids = take (nat limit) (map cd_candidate_id matching)
           in case Select env g ids of
                Inl e \<Rightarrow> Inl e
              | Inr sel \<Rightarrow>
                  (let items = map (\<lambda>c. (c, sha256_hex (cd_text c))) (List.map_filter (sl_candidates sel) ids)
                   in Inr \<lparr>ls_total = int (length cs), ls_matching = int (length matching),
                           ls_returned = int (length items),
                           ls_truncated = (length items < length matching), ls_candidates = items\<rparr>)))"

end
