(* ===== verification/Candidate_Props.thy ===== *)
theory Candidate_Props
  imports Candidate_Generation
begin

text \<open>
  The properties of candidates: aggregation produces what the reader of a generation accepts, candidates
  that contradict each other are quarantined, and the selected candidates carry exactly the observations of
  their source.
\<close>

section \<open>Sorted lists without duplicates\<close>

lemma in_set_not_Nil: "x \<in> set xs \<Longrightarrow> xs \<noteq> []"
  by auto

lemma strictly_sorted_iff: "strictly_sorted vs \<longleftrightarrow> sorted vs \<and> distinct vs"
  by (simp add: strictly_sorted_def strict_sorted_iff)

lemma appendUnique_props [simp]:
  "set (appendUnique vs ws) = (set vs \<union> set ws) - {[]}" "strictly_sorted (appendUnique vs ws)"
  by (auto simp: appendUnique_def strictly_sorted_iff)

lemma sortedSupportTypes_props [simp]:
  "set (sortedSupportTypes vs) = set vs" "strictly_sorted (sortedSupportTypes vs)"
  by (auto simp: sortedSupportTypes_def strictly_sorted_iff)

lemma strictly_sorted_eq: "strictly_sorted vs \<Longrightarrow> strictly_sorted ws \<Longrightarrow> set vs = set ws \<Longrightarrow> vs = ws"
  by (simp add: strictly_sorted_iff sorted_distinct_set_unique)

lemma sort_strictly_sorted: "strictly_sorted vs \<Longrightarrow> sort vs = vs"
  by (simp add: strictly_sorted_iff sort_key_id_if_sorted)

lemma containsSortedString_sorted: "strictly_sorted vs \<Longrightarrow> containsSortedString vs w \<longleftrightarrow> w \<in> set vs"
proof (induction vs)
  case Nil
  then show ?case by (simp add: containsSortedString_def)
next
  case (Cons v vs)
  then have s: "strictly_sorted vs" "\<forall>x \<in> set vs. v < x" by (auto simp: strictly_sorted_def)
  show ?case
  proof (cases "w \<le> v")
    case True
    with s(2) show ?thesis by (auto simp: containsSortedString_def)
  next
    case False
    with Cons.IH [OF s(1)] show ?thesis by (auto simp: containsSortedString_def)
  qed
qed

text \<open>The loops that collect the ids of linked candidates.\<close>

lemma fold_appendUnique:
  assumes "strictly_sorted ids" and "[] \<notin> set ids" and "\<forall>m \<in> set ms. f m \<noteq> []"
  shows "strictly_sorted (fold (\<lambda>m ids. if P m then appendUnique ids [f m] else ids) ms ids) \<and>
    set (fold (\<lambda>m ids. if P m then appendUnique ids [f m] else ids) ms ids) = set ids \<union> f ` {m \<in> set ms. P m}"
  using assms
proof (induction ms arbitrary: ids)
  case (Cons m ms)
  show ?case
  proof (cases "P m")
    case True
    with Cons.prems Cons.IH [of "appendUnique ids [f m]"] show ?thesis by auto
  next
    case False
    with Cons show ?thesis by auto
  qed
qed simp

section \<open>Merged observations\<close>

lemma sortedUniqueStrings_no_empty: "sortedUniqueStrings vs b \<Longrightarrow> [] \<notin> set vs"
  by (auto simp: sortedUniqueStrings_def list_all_iff)

lemma sortedUniqueStrings_appendUnique:
  assumes "sortedUniqueStrings vs b" and "sortedUniqueStrings ws b"
  shows "sortedUniqueStrings (appendUnique vs ws) b"
proof -
  have "appendUnique vs ws \<noteq> []" if "vs \<noteq> []"
  proof -
    have "hd vs \<in> set vs" using that by simp
    then have "hd vs \<in> set (appendUnique vs ws)" using sortedUniqueStrings_no_empty [OF assms(1)] by auto
    then show ?thesis by (rule in_set_not_Nil)
  qed
  with assms sortedUniqueStrings_no_empty [OF assms(1)] sortedUniqueStrings_no_empty [OF assms(2)]
  show ?thesis by (auto simp: sortedUniqueStrings_def list_all_iff)
qed

lemma sortedUniqueStrings_clean: "sortedUniqueStrings vs b \<Longrightarrow> appendUnique [] vs = vs"
  using sortedUniqueStrings_no_empty [of vs b]
  by (intro strictly_sorted_eq) (auto simp: sortedUniqueStrings_def)

lemma sortedUniqueSupport_append:
  assumes "sortedUniqueSupport vs" and "sortedUniqueSupport ws"
  shows "sortedUniqueSupport (sortedSupportTypes (vs @ ws))"
proof -
  have "hd vs \<in> set (sortedSupportTypes (vs @ ws))" using assms(1) by (simp add: sortedUniqueSupport_def)
  then have "sortedSupportTypes (vs @ ws) \<noteq> []" by (rule in_set_not_Nil)
  with assms show ?thesis by (auto simp: sortedUniqueSupport_def list_all_iff)
qed

lemma sortedUniqueSupport_clean: "sortedUniqueSupport vs \<Longrightarrow> sortedSupportTypes vs = vs"
  by (intro strictly_sorted_eq) (auto simp: sortedUniqueSupport_def)

lemma clean_valid: "validObservation ob \<Longrightarrow> clean_observation ob = ob"
  by (auto simp: validObservation_def clean_observation_def sortedUniqueStrings_clean sortedUniqueSupport_clean)

lemma absorb_order [simp]: "observation_order (absorb_observation a b) = observation_order a"
  by (simp add: observation_order_def absorb_observation_def)

lemma absorb_valid:
  assumes "validObservation a" and "validObservation b"
  shows "validObservation (absorb_observation a b)"
proof -
  have e: "sortedUniqueStrings (appendUnique (ob_evidence_event_ids a) (ob_evidence_event_ids b)) False"
    "sortedUniqueStrings (appendUnique (ob_correction_event_ids a) (ob_correction_event_ids b)) True"
    "sortedUniqueSupport (sortedSupportTypes (ob_support_types a @ ob_support_types b))"
    using assms by (auto simp: validObservation_def sortedUniqueStrings_appendUnique sortedUniqueSupport_append)
  from e(1) have "appendUnique (ob_evidence_event_ids a) (ob_evidence_event_ids b) \<noteq> []"
    by (simp add: sortedUniqueStrings_def)
  with e assms show ?thesis
    by (simp add: validObservation_def absorb_observation_def min_def max_def)
qed

lemma merge_sorted_ok:
  assumes "sorted_wrt (\<lambda>a b. observation_order b < observation_order a) done"
    and "\<forall>ob \<in> set (done @ obs). validObservation ob"
    and "sorted (map observation_order obs)"
    and "\<forall>d \<in> set done. \<forall>ob \<in> set obs. observation_order d \<le> observation_order ob"
  shows "sorted_wrt observationLess (merge_sorted done obs) \<and> list_all validObservation (merge_sorted done obs) \<and>
    (merge_sorted done obs = [] \<longleftrightarrow> done = [] \<and> obs = [])"
  using assms
proof (induction "done" obs rule: merge_sorted.induct)
  case (1 "done")
  then show ?case
    by (auto simp: sorted_wrt_rev list_all_iff observationLess_def)
next
  case (2 ob obs)
  then show ?case by (simp add: clean_valid)
next
  case (3 current "done" ob obs)
  show ?case
  proof (cases "observation_order current = observation_order ob")
    case False
    have "observation_order current < observation_order ob" using 3(6) False by force
    moreover have "\<forall>d \<in> set done. observation_order d < observation_order ob"
      using 3(3) calculation by (auto intro: less_trans)
    ultimately show ?thesis using 3(1) [OF False] 3(3-) False by (auto simp: clean_valid)
  next
    case True
    then show ?thesis using 3(2) 3(3-) by (auto simp: clean_valid absorb_valid)
  qed
qed

lemma mergeObservations_ok:
  assumes "\<forall>ob \<in> set obs. validObservation ob" and "obs \<noteq> []"
  shows "sorted_wrt observationLess (mergeObservations obs)" "list_all validObservation (mergeObservations obs)"
    "mergeObservations obs \<noteq> []"
proof -
  have "sort_key observation_order obs \<noteq> []" using assms(2) by (metis length_0_conv length_sort)
  with merge_sorted_ok [of "[]" "sort_key observation_order obs"] assms(1)
  show "sorted_wrt observationLess (mergeObservations obs)" "list_all validObservation (mergeObservations obs)"
    "mergeObservations obs \<noteq> []"
    by (auto simp: mergeObservations_def)
qed

lemma check_observations_ok:
  assumes "sorted_wrt observationLess obs" and "list_all validObservation obs"
    and "\<forall>ob \<in> set obs. case p of None \<Rightarrow> True | Some q \<Rightarrow> observationLess q ob"
  shows "check_observations p obs = None"
  using assms by (induction p obs rule: check_observations.induct) (auto split: option.splits)

text \<open>Bounds of the times of valid observations.\<close>

lemma fold_min_le: "fold (\<lambda>ob t. min t (f ob)) obs t \<le> t \<and> (\<forall>ob \<in> set obs. fold (\<lambda>ob t. min t (f ob)) obs t \<le> f ob) \<and>
    (fold (\<lambda>ob t. min t (f ob)) obs t = t \<or> fold (\<lambda>ob t. min t (f ob)) obs t \<in> f ` set obs)"
  for f :: "'a \<Rightarrow> int"
proof (induction obs arbitrary: t)
  case (Cons ob obs)
  show ?case using Cons [of "min t (f ob)"] by (auto simp: min_def split: if_splits)
qed simp

lemma fold_max_ge: "t \<le> fold (\<lambda>ob t. max t (f ob)) obs t \<and>
    (fold (\<lambda>ob t. max t (f ob)) obs t = t \<or> fold (\<lambda>ob t. max t (f ob)) obs t \<in> f ` set obs)"
  for f :: "'a \<Rightarrow> int"
proof (induction obs arbitrary: t)
  case (Cons ob obs)
  show ?case using Cons [of "max t (f ob)"] by (auto simp: max_def split: if_splits)
qed simp

lemma observed_range:
  assumes "obs \<noteq> []" and "list_all validObservation obs"
  shows "observed_first obs \<noteq> 0" "observed_last obs \<noteq> 0" "observed_first obs \<le> observed_last obs"
proof -
  have hd: "hd obs \<in> set obs" using assms(1) by simp
  have f: "observed_first obs \<in> ob_first_seen_at ` set obs" "observed_first obs \<le> ob_first_seen_at (hd obs)"
    using fold_min_le [of ob_first_seen_at obs "ob_first_seen_at (hd obs)"] hd by (auto simp: observed_first_def)
  have l: "observed_last obs \<in> ob_last_seen_at ` set obs" "ob_last_seen_at (hd obs) \<le> observed_last obs"
    using fold_max_ge [of "ob_last_seen_at (hd obs)" ob_last_seen_at obs] hd by (auto simp: observed_last_def)
  have v: "\<forall>ob \<in> set obs. ob_first_seen_at ob \<noteq> 0 \<and> ob_last_seen_at ob \<noteq> 0 \<and> ob_first_seen_at ob \<le> ob_last_seen_at ob"
    using assms(2) by (auto simp: list_all_iff validObservation_def)
  show "observed_first obs \<noteq> 0" "observed_last obs \<noteq> 0" using f(1) l(1) v by auto
  from f(2) l(2) v hd show "observed_first obs \<le> observed_last obs" by fastforce
qed

section \<open>Staged observations\<close>

text \<open>What \<open>deriveEpisodeObservations\<close> makes of every observation that it stages.\<close>

definition staged_ok :: "unicode \<Rightarrow> staged_observation \<Rightarrow> bool" where
  "staged_ok u s \<longleftrightarrow>
     sg_normalized_text s = normalizeText u (sg_text s) \<and> sg_normalized_text s \<noteq> [] \<and>
     sg_candidate_id s = deterministicID ''candidate'' [sg_kind s, sg_agent s, sg_normalized_text s] \<and>
     sg_semantic_core s = semanticCore (sg_normalized_text s) \<and>
     sg_semantic_key_sha256 s = deterministicHex ''candidate-semantic-key'' [sg_agent s, sg_semantic_core s] \<and>
     sg_polarity s = detectPolarity (sg_normalized_text s) \<and>
     sg_requires_approval s = requiresRuleChangeApproval (sg_normalized_text s) \<and>
     validCandidateKind (sg_kind s) \<and> validAgent (sg_agent s) \<and> validObservation (sg_observation s)"

text \<open>Letters and digits survive \<open>strings.TrimSpace\<close>: a text that normalises to something is not blank.\<close>

definition unicode_ok :: "unicode \<Rightarrow> bool" where
  "unicode_ok u \<longleftrightarrow> (\<forall>t. normalizeText u t \<noteq> [] \<longrightarrow> \<not> blank t)"

definition statement_ok :: "statement \<Rightarrow> bool" where
  "statement_ok st \<longleftrightarrow>
     validPrefixedHash (sm_statement_id st) ''statement-'' \<and>
     sm_kind st \<in> set [''goal'', ''constraint'', ''correction''] \<and>
     sm_evidence_event_ids st \<noteq> [] \<and> list_all (\<lambda>e. \<not> blank e) (sm_evidence_event_ids st) \<and>
     \<not> isZeroTime (sm_first_seen_at st) \<and> \<not> isZeroTime (sm_last_seen_at st) \<and>
     sm_first_seen_at st \<le> sm_last_seen_at st"

definition episode_ok :: "episode \<Rightarrow> bool" where
  "episode_ok ep \<longleftrightarrow>
     validPrefixedHash (ep_episode_id ep) ''episode-'' \<and> validAgent (ep_agent ep) \<and>
     list_all statement_ok (ep_statements ep) \<and>
     list_all (\<lambda>cp. list_all (\<lambda>ck. list_all (\<lambda>e. \<not> blank e) (ck_correction_event_ids ck)) (cc_checks cp))
       (ep_compactions ep)"

lemma correction_evidence_ok:
  assumes "episode_ok ep" and "e \<in> set (correction_evidence ep sid)"
  shows "\<not> blank e"
proof -
  define step :: "continuity_check \<Rightarrow> (string \<Rightarrow> string list) \<Rightarrow> string \<Rightarrow> string list" where
    "step = (\<lambda>ck m. m(ck_statement_id ck := appendUnique (m (ck_statement_id ck)) (ck_correction_event_ids ck)))"
  have *: "\<forall>e \<in> set (fold step cks m sid). \<not> blank e"
    if "\<forall>ck \<in> set cks. \<forall>e \<in> set (ck_correction_event_ids ck). \<not> blank e" "\<forall>i. \<forall>e \<in> set (m i). \<not> blank e"
    for cks m
    using that
  proof (induction cks arbitrary: m)
    case (Cons ck cks)
    have "\<forall>i. \<forall>e \<in> set (step ck m i). \<not> blank e" using Cons.prems by (auto simp: step_def)
    with Cons.IH [of "step ck m"] Cons.prems(1) show ?case by simp
  qed simp
  define cks where "cks = filter (\<lambda>ck. ck_status ck = ''correction_after_compaction'')
    (concat (map cc_checks (filter (\<lambda>cp. cc_status cp = ''drift_evidence'') (ep_compactions ep))))"
  have "correction_evidence ep = fold step cks (\<lambda>_. [])"
    by (simp add: correction_evidence_def step_def cks_def)
  moreover have "\<forall>ck \<in> set cks. \<forall>e \<in> set (ck_correction_event_ids ck). \<not> blank e"
    using assms(1) by (auto simp: cks_def episode_ok_def list_all_iff)
  ultimately show ?thesis using *[of cks "\<lambda>_. []"] assms(2) by simp
qed

lemma statement_support_ok:
  assumes "statement_support u corr st = (kind, support)" and "kind \<noteq> []"
  shows "validCandidateKind kind \<and> support \<noteq> [] \<and> (\<forall>s \<in> set support. validSupport s)"
  using assms
  by (auto simp: statement_support_def validCandidateKind_def validSupport_def Let_def split: if_splits)

lemma derive_statement_ok:
  assumes "episode_ok ep" and "st \<in> set (ep_statements ep)" and "derive_statement u ep st = Some s"
  shows "staged_ok u s"
proof -
  let ?corr = "correction_evidence ep (sm_statement_id st)"
  obtain kind support where k: "statement_support u ?corr st = (kind, support)" by fastforce
  have st: "statement_ok st" using assms(1,2) by (simp add: episode_ok_def list_all_iff)
  have kind: "kind \<noteq> []" using assms(3) k by (auto simp: derive_statement_def Let_def split: if_splits)
  note ks = statement_support_ok [OF k kind]
  have ev: "sortedUniqueStrings (appendUnique [] (sm_evidence_event_ids st)) False"
  proof -
    have "[] \<notin> set (sm_evidence_event_ids st)" using st by (auto simp: statement_ok_def list_all_iff)
    then have "hd (sm_evidence_event_ids st) \<in> set (appendUnique [] (sm_evidence_event_ids st))"
      using st by (auto simp: statement_ok_def)
    then have "appendUnique [] (sm_evidence_event_ids st) \<noteq> []" by (rule in_set_not_Nil)
    then show ?thesis using st by (auto simp: sortedUniqueStrings_def statement_ok_def list_all_iff)
  qed
  have co: "sortedUniqueStrings (appendUnique [] ?corr) True"
    using correction_evidence_ok [OF assms(1)] by (auto simp: sortedUniqueStrings_def list_all_iff)
  have su: "sortedUniqueSupport (sortedSupportTypes support)"
  proof -
    have "hd support \<in> set (sortedSupportTypes support)" using ks by simp
    then have "sortedSupportTypes support \<noteq> []" by (rule in_set_not_Nil)
    then show ?thesis using ks by (auto simp: sortedUniqueSupport_def list_all_iff)
  qed
  from ev have "appendUnique [] (sm_evidence_event_ids st) \<noteq> []" by (simp add: sortedUniqueStrings_def)
  with ev co su ks st assms(1,3) k kind show ?thesis
    by (auto simp: staged_ok_def derive_statement_def Let_def validObservation_def statement_ok_def
        episode_ok_def split: if_splits)
qed

lemma deriveEpisodeObservations_ok:
  "episode_ok ep \<Longrightarrow> s \<in> set (deriveEpisodeObservations u ep) \<Longrightarrow> staged_ok u s"
  using derive_statement_ok
  by (auto simp: deriveEpisodeObservations_def List.map_filter_def)

section \<open>Aggregates\<close>

definition aggregate_ok :: "unicode \<Rightarrow> candidate_aggregate \<Rightarrow> bool" where
  "aggregate_ok u a \<longleftrightarrow> staged_ok u (ag_base a) \<and> ag_observations a \<noteq> [] \<and>
     (\<forall>ob \<in> set (ag_observations a). validObservation ob)"

abbreviation ag_id :: "candidate_aggregate \<Rightarrow> string" where
  "ag_id a \<equiv> sg_candidate_id (ag_base a)"

lemma absorb_record_ok:
  assumes "aggregate_ok u a" and "staged_ok u r" and "same_identity (ag_base a) r"
  shows "aggregate_ok u (absorb_record a r) \<and> ag_id (absorb_record a r) = ag_id a"
proof -
  obtain b obs where a: "a = \<lparr>ag_base = b, ag_observations = obs\<rparr>" by (cases a)
  have "validObservation (sg_observation r)" using assms(2) by (simp add: staged_ok_def)
  with assms show ?thesis
    by (cases b; cases r) (auto simp: a aggregate_ok_def staged_ok_def absorb_record_def same_identity_def)
qed

lemma add_record_ok:
  assumes "add_record r as = Inr as'" and "staged_ok u r" and "\<forall>a \<in> set as. aggregate_ok u a" and "distinct (map ag_id as)"
  shows "(\<forall>a \<in> set as'. aggregate_ok u a) \<and> distinct (map ag_id as') \<and>
    set (map ag_id as') = insert (sg_candidate_id r) (set (map ag_id as))"
  using assms
proof (induction r as arbitrary: as' rule: add_record.induct)
  case (1 r)
  then have "validObservation (sg_observation r)" by (simp add: staged_ok_def)
  with 1 show ?case by (auto simp: aggregate_ok_def)
next
  case (2 r a as)
  show ?case
  proof (cases "ag_id a = sg_candidate_id r")
    case True
    then have i: "same_identity (ag_base a) r" "as' = absorb_record a r # as"
      using 2(2) by (simp_all split: if_split_asm)
    from absorb_record_ok [OF _ 2(3) i(1)] 2(4,5) True show ?thesis by (simp add: i(2))
  next
    case False
    then obtain as1 where "add_record r as = Inr as1" "as' = a # as1"
      using 2(2) by (auto split: sum.splits)
    with 2(1) [OF False this(1) 2(3)] 2(4,5) False show ?thesis by auto
  qed
qed

lemma add_records_ok:
  assumes "add_records rs as = Inr as'" and "\<forall>r \<in> set rs. staged_ok u r" and "\<forall>a \<in> set as. aggregate_ok u a"
    and "distinct (map ag_id as)"
  shows "(\<forall>a \<in> set as'. aggregate_ok u a) \<and> distinct (map ag_id as') \<and>
    set (map ag_id as') = sg_candidate_id ` set rs \<union> set (map ag_id as)"
  using assms
proof (induction rs arbitrary: as)
  case (Cons r rs)
  from Cons.prems(1) obtain as1 where a: "add_record r as = Inr as1" "add_records rs as1 = Inr as'"
    by (auto split: sum.splits)
  have r: "staged_ok u r" and rs: "\<forall>r \<in> set rs. staged_ok u r" using Cons.prems(2) by simp_all
  from add_record_ok [OF a(1) r Cons.prems(3,4)] Cons.IH [OF a(2) rs] show ?case by simp
qed simp

section \<open>Linked candidates\<close>

text \<open>The candidate that an aggregate ends up as.\<close>

definition linked :: "candidate_aggregate list \<Rightarrow> candidate_aggregate \<Rightarrow> candidate" where
  "linked as a = settle_candidate (link_candidate (groupKey a) (group_members as (groupKey a)) (finalizeCandidate a))"

lemma finalize_simps [simp]:
  "cd_candidate_id (finalizeCandidate a) = ag_id a" "cd_polarity (finalizeCandidate a) = sg_polarity (ag_base a)"
  "cd_conflicting_candidate_ids (finalizeCandidate a) = []" "cd_related_candidate_ids (finalizeCandidate a) = []"
  "cd_conflict_group_id (finalizeCandidate a) = []"
  by (simp_all add: finalizeCandidate_def Let_def)

lemma linked_fields [simp]:
  "cd_schema_version (linked as a) = CandidateSchemaVersion"
  "cd_candidate_id (linked as a) = ag_id a" "cd_polarity (linked as a) = sg_polarity (ag_base a)"
  "cd_semantic_key_sha256 (linked as a) = sg_semantic_key_sha256 (ag_base a)" "cd_kind (linked as a) = sg_kind (ag_base a)"
  "cd_text (linked as a) = sg_text (ag_base a)" "cs_agent (cd_scope (linked as a)) = sg_agent (ag_base a)"
  "cs_status (cd_scope (linked as a)) = ScopeUnconfirmed"
  "cd_observations (linked as a) = mergeObservations (ag_observations a)"
  "cd_support_types (linked as a) = observed_support (mergeObservations (ag_observations a))"
  "cd_episode_count (linked as a) = int (length (observed_episodes (mergeObservations (ag_observations a))))"
  "cd_evidence_event_count (linked as a) = int (length (observed_events (mergeObservations (ag_observations a))))"
  "cd_first_seen_at (linked as a) = observed_first (mergeObservations (ag_observations a))"
  "cd_last_seen_at (linked as a) = observed_last (mergeObservations (ag_observations a))"
  "cd_requires_approval (linked as a) = sg_requires_approval (ag_base a)"
  "cd_privacy (linked as a) = ''local_only''"
  by (simp_all add: linked_def settle_candidate_def link_candidate_def finalizeCandidate_def Let_def)

lemma linked_content [simp]: "cd_content_sha256 (linked as a) = candidateContentSHA256 (linked as a)"
  by (simp add: linked_def settle_candidate_def candidateContentSHA256_def Let_def)

lemma aggregate_opposed: "aggregate_ok u a \<Longrightarrow> opposed (finalizeCandidate a)"
  by (auto simp: opposed_def aggregate_ok_def staged_ok_def detectPolarity_def)

lemma ag_id_ne: "aggregate_ok u a \<Longrightarrow> ag_id a \<noteq> []"
  by (auto simp: aggregate_ok_def staged_ok_def deterministicID_def)

lemma ag_id_valid: "aggregate_ok u a \<Longrightarrow> validPrefixedHash (ag_id a) ''candidate-''"
  using validPrefixedHash_append [of "''candidate-''"]
  by (auto simp: aggregate_ok_def staged_ok_def deterministicID_def deterministicHex_def)

definition peers :: "candidate_aggregate list \<Rightarrow> candidate_aggregate \<Rightarrow> bool \<Rightarrow> string set" where
  "peers as a same = ag_id ` {b \<in> set as. groupKey b = groupKey a \<and> ag_id b \<noteq> ag_id a \<and>
     (sg_polarity (ag_base b) = sg_polarity (ag_base a)) = same}"

lemma members_image:
  "cd_candidate_id ` {m \<in> set (group_members as key). P (cd_candidate_id m) (cd_polarity m)} =
     ag_id ` {b \<in> set as. groupKey b = key \<and> P (ag_id b) (sg_polarity (ag_base b))}"
proof -
  have "{m \<in> set (group_members as key). P (cd_candidate_id m) (cd_polarity m)} =
      finalizeCandidate ` {b \<in> set as. groupKey b = key \<and> P (ag_id b) (sg_polarity (ag_base b))}"
    by (auto simp: group_members_def)
  then show ?thesis by (simp add: image_image)
qed

lemma members_ne: "\<forall>a \<in> set as. aggregate_ok u a \<Longrightarrow> \<forall>m \<in> set (group_members as key). cd_candidate_id m \<noteq> []"
  using ag_id_ne by (auto simp: group_members_def)

lemma related_in_peers:
  assumes "\<forall>a \<in> set as. aggregate_ok u a"
  shows "strictly_sorted (related_in (group_members as (groupKey a)) (finalizeCandidate a)) \<and>
    set (related_in (group_members as (groupKey a)) (finalizeCandidate a)) = peers as a True"
  using fold_appendUnique [of "[]" "group_members as (groupKey a)" cd_candidate_id
      "\<lambda>m. cd_candidate_id m \<noteq> ag_id a \<and> cd_polarity m = sg_polarity (ag_base a)"]
    members_ne [OF assms, of "groupKey a"]
    members_image [of as "groupKey a" "\<lambda>i p. i \<noteq> ag_id a \<and> p = sg_polarity (ag_base a)"]
  by (simp add: related_in_def peers_def strictly_sorted_def)

lemma conflicting_in_peers:
  assumes "\<forall>a \<in> set as. aggregate_ok u a"
  shows "strictly_sorted (conflicting_in (group_members as (groupKey a)) (finalizeCandidate a)) \<and>
    set (conflicting_in (group_members as (groupKey a)) (finalizeCandidate a)) = peers as a False"
proof -
  have o: "opposed m" if "m \<in> set (group_members as (groupKey a))" for m
    using that assms aggregate_opposed by (auto simp: group_members_def)
  have "conflicting_in (group_members as (groupKey a)) (finalizeCandidate a) =
      fold (\<lambda>m ids. if cd_candidate_id m \<noteq> ag_id a \<and> cd_polarity m \<noteq> sg_polarity (ag_base a)
        then appendUnique ids [cd_candidate_id m] else ids) (group_members as (groupKey a)) []"
    unfolding conflicting_in_def by (rule fold_cong) (use o in auto)
  then show ?thesis
    using fold_appendUnique [of "[]" "group_members as (groupKey a)" cd_candidate_id
        "\<lambda>m. cd_candidate_id m \<noteq> ag_id a \<and> cd_polarity m \<noteq> sg_polarity (ag_base a)"]
      members_ne [OF assms, of "groupKey a"]
      members_image [of as "groupKey a" "\<lambda>i p. i \<noteq> ag_id a \<and> p \<noteq> sg_polarity (ag_base a)"]
    by (simp add: peers_def strictly_sorted_def)
qed

lemma conflicted_iff:
  assumes "\<forall>a \<in> set as. aggregate_ok u a" and "a \<in> set as" and "distinct (map ag_id as)"
  shows "conflicted (group_members as (groupKey a)) \<longleftrightarrow> peers as a False \<noteq> {}"
proof
  assume c: "conflicted (group_members as (groupKey a))"
  then obtain b d where b: "b \<in> set as" "groupKey b = groupKey a" "sg_polarity (ag_base b) = PolarityAffirmative"
    and d: "d \<in> set as" "groupKey d = groupKey a" "sg_polarity (ag_base d) = PolarityProhibitive"
    by (auto simp: conflicted_def group_members_def list_ex_iff)
  define e where "e = (if sg_polarity (ag_base a) = PolarityAffirmative then d else b)"
  have e: "e \<in> set as" "groupKey e = groupKey a" "sg_polarity (ag_base e) \<noteq> sg_polarity (ag_base a)"
    using b d by (auto simp: e_def)
  then have "ag_id e \<noteq> ag_id a" using assms(2,3) by (auto simp: distinct_map inj_on_def)
  with e show "peers as a False \<noteq> {}" by (auto simp: peers_def)
next
  assume "peers as a False \<noteq> {}"
  then obtain b where b: "b \<in> set as" "groupKey b = groupKey a" "ag_id b \<noteq> ag_id a"
      "sg_polarity (ag_base b) \<noteq> sg_polarity (ag_base a)" by (auto simp: peers_def)
  let ?ms = "group_members as (groupKey a)"
  have m: "finalizeCandidate a \<in> set ?ms" "finalizeCandidate b \<in> set ?ms"
    using b assms(2) by (auto simp: group_members_def)
  have ne: "finalizeCandidate a \<noteq> finalizeCandidate b" using b(3) finalize_simps(1) by metis
  have "card {finalizeCandidate a, finalizeCandidate b} \<le> card (set ?ms)" using m by (intro card_mono) auto
  also have "\<dots> \<le> length ?ms" by (rule card_length)
  finally have "2 \<le> length ?ms" using ne by simp
  moreover have "opposed (finalizeCandidate a)" "opposed (finalizeCandidate b)"
    using assms(1,2) b(1) aggregate_opposed by blast+
  ultimately show "conflicted ?ms"
    using m b(4) unfolding conflicted_def list_ex_iff opposed_def finalize_simps by (metis finalize_simps(2))
qed

lemma linked_links:
  assumes "\<forall>a \<in> set as. aggregate_ok u a" and "a \<in> set as" and "distinct (map ag_id as)"
  shows "strictly_sorted (cd_related_candidate_ids (linked as a))" "set (cd_related_candidate_ids (linked as a)) = peers as a True"
    "strictly_sorted (cd_conflicting_candidate_ids (linked as a))"
    "set (cd_conflicting_candidate_ids (linked as a)) = peers as a False"
    "cd_conflict_group_id (linked as a) =
       (if peers as a False = {} then [] else deterministicID ''candidate-conflict'' [groupKey a])"
proof -
  let ?ms = "group_members as (groupKey a)" and ?c = "finalizeCandidate a"
  note r = related_in_peers [OF assms(1), of a] and c = conflicting_in_peers [OF assms(1), of a]
  have o: "opposed ?c" using assms(1,2) aggregate_opposed by blast
  have one: "related_in ?ms ?c = []" if "length ?ms < 2"
  proof -
    have "?c \<in> set ?ms" using assms(2) by (auto simp: group_members_def)
    with that have "?ms = [?c]" by (cases ?ms; cases "tl ?ms") auto
    then show ?thesis by (simp add: related_in_def)
  qed
  have rel: "cd_related_candidate_ids (linked as a) = related_in ?ms ?c"
    using one r by (auto simp: linked_def settle_candidate_def link_candidate_def Let_def sort_strictly_sorted)
  from rel r show "strictly_sorted (cd_related_candidate_ids (linked as a))"
    "set (cd_related_candidate_ids (linked as a)) = peers as a True" by simp_all
  have con: "cd_conflicting_candidate_ids (linked as a) = conflicting_in ?ms ?c"
  proof (cases "peers as a False = {}")
    case True
    then have "\<not> conflicted ?ms" "conflicting_in ?ms ?c = []" using conflicted_iff [OF assms] c by auto
    then show ?thesis by (simp add: linked_def settle_candidate_def link_candidate_def Let_def)
  next
    case False
    then have "conflicted ?ms" using conflicted_iff [OF assms] by blast
    with o c show ?thesis
      by (simp add: linked_def settle_candidate_def link_candidate_def Let_def sort_strictly_sorted)
  qed
  from con c show "strictly_sorted (cd_conflicting_candidate_ids (linked as a))"
    "set (cd_conflicting_candidate_ids (linked as a)) = peers as a False" by simp_all
  show "cd_conflict_group_id (linked as a) =
       (if peers as a False = {} then [] else deterministicID ''candidate-conflict'' [groupKey a])"
    using conflicted_iff [OF assms] o
    by (simp add: linked_def settle_candidate_def link_candidate_def Let_def)
qed

lemma groupKey_hash:
  assumes "aggregate_ok u a"
  shows "sg_semantic_key_sha256 (ag_base a) = sha256_hex (''candidate-semantic-key'' @ CHR 0x00 # groupKey a)"
    "expected_conflict_id u (linked as a) = deterministicID ''candidate-conflict'' [groupKey a]"
  using assms
  by (simp_all add: aggregate_ok_def staged_ok_def deterministicHex_def groupKey_def expected_conflict_id_def)

lemma linked_validation:
  assumes "\<forall>a \<in> set as. aggregate_ok u a" and "a \<in> set as" and "distinct (map ag_id as)"
  shows "cd_validation (linked as a) = expected_validation (linked as a)"
proof -
  let ?v = "validationFor (observed_support (mergeObservations (ag_observations a))) (sg_requires_approval (ag_base a))"
  have v: "cd_validation (finalizeCandidate a) = ?v" by (simp add: finalizeCandidate_def Let_def)
  have s: "sort (vd_reasons ?v) = vd_reasons ?v"
    unfolding validationFor_def Let_def validation.select_convs by (rule sorted_sort_id [OF sorted_sort])
  have q: "sort (vd_reasons (quarantine ?v)) = vd_reasons (quarantine ?v)"
    by (simp add: quarantine_def sort_strictly_sorted)
  have vq: "v\<lparr>vd_reasons := vd_reasons v\<rparr> = v" for v :: validation by simp
  have o: "opposed (finalizeCandidate a)" using assms(1,2) aggregate_opposed by blast
  note l = linked_links [OF assms]
  show ?thesis
  proof (cases "peers as a False = {}")
    case True
    then have "\<not> conflicted (group_members as (groupKey a))" using conflicted_iff [OF assms] by blast
    then have "cd_validation (linked as a) = ?v"
      by (simp add: linked_def settle_candidate_def link_candidate_def Let_def v s vq)
    moreover have "cd_conflicting_candidate_ids (linked as a) = []" using True l(4) by simp
    ultimately show ?thesis by (simp add: expected_validation_def)
  next
    case False
    then have "conflicted (group_members as (groupKey a))" using conflicted_iff [OF assms] by blast
    moreover have ne: "cd_conflicting_candidate_ids (linked as a) \<noteq> []" using False l(4) by auto
    moreover have "conflicting_in (group_members as (groupKey a)) (finalizeCandidate a) \<noteq> []"
      using False conflicting_in_peers [OF assms(1), of a] by auto
    ultimately have "cd_validation (linked as a) = quarantine ?v"
      by (simp add: linked_def settle_candidate_def link_candidate_def Let_def v q vq o)
    with ne show ?thesis by (simp add: expected_validation_def)
  qed
qed

lemma linked_valid:
  assumes "\<forall>a \<in> set as. aggregate_ok u a" and "a \<in> set as" and "distinct (map ag_id as)" and "unicode_ok u"
  shows "validateCandidate u (linked as a) = None"
proof -
  have a: "aggregate_ok u a" and s: "staged_ok u (ag_base a)" using assms(1,2) by (auto simp: aggregate_ok_def)
  have n: "normalizeText u (sg_text (ag_base a)) = sg_normalized_text (ag_base a)" using s by (simp add: staged_ok_def)
  have b: "\<not> blank (sg_text (ag_base a))" using assms(4) s unfolding unicode_ok_def staged_ok_def by metis
  note m = mergeObservations_ok [of "ag_observations a"]
  have obs: "ag_observations a \<noteq> []" "\<forall>ob \<in> set (ag_observations a). validObservation ob"
    using a by (simp_all add: aggregate_ok_def)
  have co: "check_observations None (mergeObservations (ag_observations a)) = None"
    using m [OF obs(2,1)] by (intro check_observations_ok) auto
  note rg = observed_range [OF m(3) [OF obs(2,1)] m(2) [OF obs(2,1)]]
  note l = linked_links [OF assms(1-3)]
  have ids: "sortedUniqueCandidateIDs (cd_conflicting_candidate_ids (linked as a))"
    "sortedUniqueCandidateIDs (cd_related_candidate_ids (linked as a))"
    using l assms(1) ag_id_valid by (auto simp: sortedUniqueCandidateIDs_def list_all_iff peers_def)
  have grp: "(if cd_conflicting_candidate_ids (linked as a) \<noteq> []
       then fail_if (cd_conflict_group_id (linked as a) \<noteq> expected_conflict_id u (linked as a)) ConflictGroupInvalid
       else fail_if (cd_conflict_group_id (linked as a) \<noteq> []) GroupWithoutConflicts) = None"
    using l(4,5) groupKey_hash(2) [OF a, of as] by (cases "peers as a False = {}") (auto simp del: linked_fields)
  have id: "ag_id a = deterministicID ''candidate'' [sg_kind (ag_base a), sg_agent (ag_base a), sg_normalized_text (ag_base a)]"
    "sg_semantic_key_sha256 (ag_base a) =
       deterministicHex ''candidate-semantic-key'' [sg_agent (ag_base a), semanticCore (sg_normalized_text (ag_base a))]"
    "sg_polarity (ag_base a) = detectPolarity (sg_normalized_text (ag_base a))"
    "sg_requires_approval (ag_base a) = requiresRuleChangeApproval (sg_normalized_text (ag_base a))"
    "validCandidateKind (sg_kind (ag_base a))" "validAgent (sg_agent (ag_base a))"
    using s by (simp_all add: staged_ok_def)
  have sha: "validSHA256 (candidateContentSHA256 (linked as a))" "validSHA256 (sg_semantic_key_sha256 (ag_base a))"
    by (simp_all add: candidateContentSHA256_def id(2) deterministicHex_def)
  show ?thesis
    unfolding validateCandidate_def Let_def first_error_Cons fail_if_None linked_fields linked_content n
    using b sha ag_id_valid [OF a] id co rg ids grp linked_validation [OF assms(1-3)] m(3) [OF obs(2,1)]
    by (simp del: fail_if_None)
qed

section \<open>Generations of linked candidates\<close>

definition linked_all :: "candidate_aggregate list \<Rightarrow> candidate list" where
  "linked_all as = sort_key cd_candidate_id (map (linked as) as)"

lemma candidate_by_id_mem:
  assumes "distinct (map cd_candidate_id cs)" and "c \<in> set cs"
  shows "candidate_by_id cs (cd_candidate_id c) = Some c"
  using assms by (induction cs) (auto simp: candidate_by_id_def rev_image_eqI)

lemma candidate_by_id_Some: "candidate_by_id cs i = Some c \<Longrightarrow> c \<in> set cs \<and> cd_candidate_id c = i"
  by (induction cs) (auto simp: candidate_by_id_def split: if_splits)

lemma linked_all_ids:
  assumes "distinct (map ag_id as)"
  shows "distinct (map cd_candidate_id (linked_all as))" "strictly_sorted (map cd_candidate_id (linked_all as))"
proof -
  have "distinct (map cd_candidate_id (map (linked as) as))" using assms by (simp add: o_def)
  then have "distinct (map (linked as) as)" "inj_on cd_candidate_id (set (map (linked as) as))"
    unfolding distinct_map [of cd_candidate_id] by blast+
  then show "distinct (map cd_candidate_id (linked_all as))"
    unfolding linked_all_def distinct_map [of cd_candidate_id] by simp
  then show "strictly_sorted (map cd_candidate_id (linked_all as))"
    by (simp add: strictly_sorted_iff linked_all_def)
qed

lemma check_candidates_ok:
  assumes "\<forall>c \<in> set cs. validateCandidate u c = None" and "strictly_sorted (map cd_candidate_id cs)"
    and "\<forall>c \<in> set cs. p < cd_candidate_id c"
  shows "check_candidates u n p cs = None"
  using assms by (induction cs arbitrary: n p) (auto simp: strictly_sorted_def)

lemma check_candidates_conv:
  assumes "check_candidates u n p cs = None"
  shows "(\<forall>c \<in> set cs. validateCandidate u c = None) \<and> (p \<noteq> [] \<longrightarrow> (\<forall>c \<in> set cs. p < cd_candidate_id c)) \<and>
    strictly_sorted (map cd_candidate_id cs)"
  using assms
proof (induction cs arbitrary: n p)
  case Nil
  then show ?case by (simp add: strictly_sorted_def)
next
  case (Cons c cs)
  then have c: "validateCandidate u c = None" "\<not> (p \<noteq> [] \<and> cd_candidate_id c \<le> p)"
    "check_candidates u (Suc n) (cd_candidate_id c) cs = None"
    by (auto split: option.splits if_splits)
  have "cd_candidate_id c \<noteq> []" using c(1) by (auto simp: validateCandidate_def Let_def)
  with Cons.IH [OF c(3)] c(1,2) show ?case by (auto simp: strictly_sorted_def)
qed

end
