(* ===== verification/Candidate_Selection.thy ===== *)
theory Candidate_Selection
  imports Candidate_Props "HOL-Library.Multiset"
begin

text \<open>
  Selecting candidates of a generation: what a successful \<open>Select\<close> has checked, when it succeeds for more
  candidates, and the interface \<open>candidate_source\<close> that the review, promotion and rule approval ledgers
  rely on, with its interpretation on \<open>Select\<close>.
\<close>

section \<open>What a selection has checked\<close>

lemma find_holds: "List.find P xs = Some x \<Longrightarrow> P x"
  by (induction xs) (auto split: if_splits)

lemma take_proof_Inr:
  assumes "take_proof proofs s pending = Inr p"
  shows "mset pending = add_mset (sg_candidate_id s, sg_observation s) (mset p)"
proof -
  let ?key = "\<lambda>(i, ob). (i, observation_order ob)"
  obtain i ob where f: "List.find (\<lambda>q. ?key q = ?key (sg_candidate_id s, sg_observation s)) proofs = Some (i, ob)"
    and m: "(i, ob) \<in> set pending" "ob = sg_observation s" "p = remove1 (i, ob) pending"
    using assms by (auto simp: equalObservation_def Let_def split: option.splits if_splits)
  from find_holds [OF f] m show ?thesis by simp
qed

lemma take_proofs_Inr:
  "take_proofs proofs ss pending = Inr p \<Longrightarrow>
     mset pending = mset (map (\<lambda>s. (sg_candidate_id s, sg_observation s)) ss) + mset p"
  by (induction ss arbitrary: pending) (auto simp del: take_proof.simps dest!: take_proof_Inr split: sum.splits)

text \<open>What the source episodes give for the candidates with these ids.\<close>

definition source_observations :: "unicode \<Rightarrow> string set \<Rightarrow> episode list \<Rightarrow> (string \<times> observation) list" where
  "source_observations u ids eps =
     map (\<lambda>s. (sg_candidate_id s, sg_observation s))
       (filter (\<lambda>s. sg_candidate_id s \<in> ids) (concat (map (deriveEpisodeObservations u) eps)))"

lemma check_episodes_Inr:
  "check_episodes u ids proofs eps pending = Inr p \<Longrightarrow>
     mset pending = mset (source_observations u ids eps) + mset p"
  by (induction eps arbitrary: pending)
    (auto simp: source_observations_def split: if_splits sum.splits dest!: take_proofs_Inr)

lemma verifySelectedProvenance_None:
  assumes "verifySelectedProvenance env g selected = None"
  shows "\<exists>src bytes eps. ce_source env (cm_source_episode_generation (gn_manifest g)) = Some src \<and>
    es_file src = Readable bytes False \<and> ce_decode_episodes env bytes = (eps, False) \<and>
    sha256_hex bytes = cm_source_episodes_sha256 (gn_manifest g) \<and>
    mset (candidate_proofs selected) =
      mset (source_observations (ce_unicode env) (set (map cd_candidate_id selected)) eps)"
  using assms
  by (auto simp: verifySelectedProvenance_def Let_def split: option.splits if_splits os_file.splits prod.splits sum.splits
      dest!: check_episodes_Inr)

lemma Select_Inr:
  assumes "Select env g ids = Inr sel"
  obtains bytes cs where "gn_file g = Readable bytes False" "ce_decode_candidates env bytes = (cs, False)"
    "check_candidates (ce_unicode env) 1 [] cs = None" "manifest_counts_ok (gn_manifest g) bytes cs"
    "validateCandidateLinks cs = None" "\<forall>i \<in> set ids. candidate_by_id cs i \<noteq> None"
    "verifySelectedProvenance env g (filter (\<lambda>c. cd_candidate_id c \<in> set ids) cs) = None"
    "sel = \<lparr>sl_candidates = candidate_by_id (filter (\<lambda>c. cd_candidate_id c \<in> set ids) cs),
            sl_conflict_groups = conflict_members cs\<rparr>"
  using assms
  by (auto simp: Select_def Let_def list_ex_iff split: if_splits os_file.splits prod.splits option.splits)

section \<open>When the provenance check succeeds\<close>

definition proof_key :: "string \<times> observation \<Rightarrow> string \<times> string \<times> string" where
  "proof_key p = (fst p, observation_order (snd p))"

definition supported :: "episode \<Rightarrow> bool" where
  "supported ep \<longleftrightarrow> ep_schema_version ep = ''episode/v1alpha1'' \<and> ep_privacy ep = ''local_only''"

lemma find_unique:
  assumes "inj_on f (set xs)" and "x \<in> set xs"
  shows "List.find (\<lambda>y. f y = f x) xs = Some x"
  using assms by (induction xs) (auto simp: inj_on_def)

lemma take_proof_conv:
  assumes "inj_on proof_key (set proofs)" and "set pending \<subseteq> set proofs"
    and "(sg_candidate_id s, sg_observation s) \<in> set pending"
  shows "take_proof proofs s pending = Inr (remove1 (sg_candidate_id s, sg_observation s) pending)"
proof -
  have "List.find (\<lambda>y. proof_key y = proof_key (sg_candidate_id s, sg_observation s)) proofs =
      Some (sg_candidate_id s, sg_observation s)"
    using find_unique [OF assms(1)] assms(2,3) by blast
  then have "List.find (\<lambda>p. (case p of (i, ob) \<Rightarrow> (i, observation_order ob)) =
      (case (sg_candidate_id s, sg_observation s) of (i, ob) \<Rightarrow> (i, observation_order ob))) proofs =
      Some (sg_candidate_id s, sg_observation s)"
    by (simp add: proof_key_def split_def)
  with assms(3) show ?thesis by (simp add: Let_def equalObservation_def del: case_prod_conv)
qed

lemma take_proofs_conv:
  assumes "inj_on proof_key (set proofs)" and "set pending \<subseteq> set proofs"
    and "mset (map (\<lambda>s. (sg_candidate_id s, sg_observation s)) ss) \<subseteq># mset pending"
  shows "\<exists>p. take_proofs proofs ss pending = Inr p \<and> set p \<subseteq> set proofs"
  using assms(2,3)
proof (induction ss arbitrary: pending)
  case (Cons s ss)
  let ?x = "(sg_candidate_id s, sg_observation s)"
  have x: "?x \<in> set pending" using Cons.prems(2) by (simp add: insert_subset_eq_iff)
  have "mset (map (\<lambda>s. (sg_candidate_id s, sg_observation s)) ss) \<subseteq># mset (remove1 ?x pending)"
    using Cons.prems(2) by (simp add: insert_subset_eq_iff)
  moreover have "set (remove1 ?x pending) \<subseteq> set proofs" using Cons.prems(1) set_remove1_subset by fast
  ultimately obtain p where "take_proofs proofs ss (remove1 ?x pending) = Inr p" "set p \<subseteq> set proofs"
    using Cons.IH by blast
  with take_proof_conv [OF assms(1) Cons.prems(1) x] show ?case by (simp del: take_proof.simps)
qed simp

lemma source_observations_Cons:
  "source_observations u ids (ep # eps) =
     map (\<lambda>s. (sg_candidate_id s, sg_observation s)) (filter (\<lambda>s. sg_candidate_id s \<in> ids) (deriveEpisodeObservations u ep)) @
     source_observations u ids eps"
  by (simp add: source_observations_def)

lemma check_episodes_conv:
  assumes "inj_on proof_key (set proofs)" and "list_all supported eps"
    and "set pending \<subseteq> set proofs" and "mset (source_observations u ids eps) \<subseteq># mset pending"
  shows "\<exists>p. check_episodes u ids proofs eps pending = Inr p"
  using assms(2-4)
proof (induction eps arbitrary: pending)
  case (Cons ep eps)
  let ?ss = "filter (\<lambda>s. sg_candidate_id s \<in> ids) (deriveEpisodeObservations u ep)"
  let ?m = "mset (map (\<lambda>s. (sg_candidate_id s, sg_observation s)) ?ss)"
  have sub: "?m + mset (source_observations u ids eps) \<subseteq># mset pending"
    using Cons.prems(3) by (simp add: source_observations_Cons)
  then have "?m \<subseteq># mset pending" using subset_mset.order_trans mset_subset_eq_add_left by blast
  then obtain p where p: "take_proofs proofs ?ss pending = Inr p" "set p \<subseteq> set proofs"
    using take_proofs_conv [OF assms(1) Cons.prems(2)] by blast
  have "mset (source_observations u ids eps) \<subseteq># mset p"
    using sub take_proofs_Inr [OF p(1)] by simp
  with Cons.IH [OF _ p(2)] Cons.prems(1) obtain q where "check_episodes u ids proofs eps p = Inr q" by auto
  with p(1) Cons.prems(1) show ?case by (simp add: supported_def)
qed simp

lemma check_episodes_supported: "check_episodes u ids proofs eps pending = Inr p \<Longrightarrow> list_all supported eps"
  by (induction eps arbitrary: pending) (auto simp: supported_def split: if_splits sum.splits)

text \<open>The whole of the check, as a condition on what the source episodes give.\<close>

definition provenance_of :: "candidate_env \<Rightarrow> generation \<Rightarrow> episode list option" where
  "provenance_of env g =
     (case ce_source env (cm_source_episode_generation (gn_manifest g)) of
        Some src \<Rightarrow>
          (case es_file src of
             Readable bytes False \<Rightarrow>
               (case ce_decode_episodes env bytes of (eps, decode_failed) \<Rightarrow>
                  if \<not> decode_failed \<and> es_manifest_sha256 src = cm_source_episode_manifest_sha256 (gn_manifest g) \<and>
                     es_episodes_sha256 src = cm_source_episodes_sha256 (gn_manifest g) \<and>
                     es_episodes src = cm_source_episodes (gn_manifest g) \<and>
                     sha256_hex bytes = cm_source_episodes_sha256 (gn_manifest g) \<and>
                     int (length eps) = cm_source_episodes (gn_manifest g) \<and> list_all supported eps
                  then Some eps else None)
           | _ \<Rightarrow> None)
      | None \<Rightarrow> None)"

lemma provenance_iff:
  "verifySelectedProvenance env g selected = None \<longleftrightarrow>
     (\<exists>eps. provenance_of env g = Some eps \<and> distinct (map proof_key (candidate_proofs selected)) \<and>
        mset (candidate_proofs selected) =
          mset (source_observations (ce_unicode env) (set (map cd_candidate_id selected)) eps))"
    (is "?v \<longleftrightarrow> ?p")
proof
  assume v: ?v
  have k: "proof_key = (\<lambda>(i, ob). (i, observation_order ob))" by (auto simp: proof_key_def)
  from v show ?p
    by (auto simp: verifySelectedProvenance_def provenance_of_def Let_def k
        split: option.splits if_splits os_file.splits prod.splits sum.splits
        dest: check_episodes_Inr check_episodes_supported)
next
  assume ?p
  then obtain eps where p: "provenance_of env g = Some eps" and d: "distinct (map proof_key (candidate_proofs selected))"
    and m: "mset (candidate_proofs selected) =
      mset (source_observations (ce_unicode env) (set (map cd_candidate_id selected)) eps)" by blast
  have k: "proof_key = (\<lambda>(i, ob). (i, observation_order ob))" by (auto simp: proof_key_def)
  let ?c = "check_episodes (ce_unicode env) (set (map cd_candidate_id selected)) (candidate_proofs selected) eps
    (candidate_proofs selected)"
  have s: "list_all supported eps" using p by (auto simp: provenance_of_def split: option.splits os_file.splits bool.splits prod.splits if_splits)
  obtain q where q: "?c = Inr q"
    using check_episodes_conv [of "candidate_proofs selected" eps "candidate_proofs selected" "ce_unicode env"
      "set (map cd_candidate_id selected)"] d s m by (auto simp: distinct_map)
  with check_episodes_Inr [OF q] m have "?c = Inr []" by simp
  with p d show ?v
    by (auto simp: verifySelectedProvenance_def provenance_of_def Let_def k
        split: option.splits os_file.splits bool.splits prod.splits if_splits)
qed

lemma candidate_proofs_filter:
  "candidate_proofs (filter (\<lambda>c. cd_candidate_id c \<in> I) cs) = filter (\<lambda>p. fst p \<in> I) (candidate_proofs cs)"
proof (induction cs)
  case (Cons c cs)
  have "filter (\<lambda>p. fst p \<in> I) (map (Pair i) obs) = (if i \<in> I then map (Pair i) obs else [])" for i and obs :: "observation list"
    by (induction obs) auto
  with Cons show ?case by (simp add: candidate_proofs_def)
qed (simp add: candidate_proofs_def)

lemma source_observations_filter:
  "source_observations u I eps = filter (\<lambda>p. fst p \<in> I) (source_observations u UNIV eps)"
  by (simp add: source_observations_def filter_map comp_def)

lemma filter_union_mset:
  fixes xs ys :: "('a \<times> 'b) list"
  assumes "mset (filter (\<lambda>p. fst p \<in> I) xs) = mset (filter (\<lambda>p. fst p \<in> I) ys)"
    and "mset (filter (\<lambda>p. fst p \<in> J) xs) = mset (filter (\<lambda>p. fst p \<in> J) ys)" and "K \<subseteq> I \<union> J"
  shows "mset (filter (\<lambda>p. fst p \<in> K) xs) = mset (filter (\<lambda>p. fst p \<in> K) ys)"
proof (rule multiset_eqI)
  fix x
  have c: "count (mset (filter (\<lambda>p. fst p \<in> L) zs)) x = (if fst x \<in> L then count (mset zs) x else 0)" for L and zs :: "('a \<times> 'b) list"
    by (induction zs) auto
  from assms(1,2) have "count (mset (filter (\<lambda>p. fst p \<in> I) xs)) x = count (mset (filter (\<lambda>p. fst p \<in> I) ys)) x"
    "count (mset (filter (\<lambda>p. fst p \<in> J) xs)) x = count (mset (filter (\<lambda>p. fst p \<in> J) ys)) x" by simp_all
  with assms(3) show "count (mset (filter (\<lambda>p. fst p \<in> K) xs)) x = count (mset (filter (\<lambda>p. fst p \<in> K) ys)) x"
    unfolding c by (auto split: if_splits)
qed

lemma distinct_filter_union:
  "distinct (filter P ks) \<Longrightarrow> distinct (filter Q ks) \<Longrightarrow> \<forall>k. R k \<longrightarrow> P k \<or> Q k \<Longrightarrow> distinct (filter R ks)"
  by (induction ks) (auto split: if_splits)

lemma distinct_keys_union:
  assumes "distinct (map proof_key (filter (\<lambda>p. fst p \<in> I) xs))" and "distinct (map proof_key (filter (\<lambda>p. fst p \<in> J) xs))"
    and "K \<subseteq> I \<union> J"
  shows "distinct (map proof_key (filter (\<lambda>p. fst p \<in> K) xs))"
proof -
  have "map proof_key (filter (\<lambda>p. fst p \<in> L) xs) = filter (\<lambda>k. fst k \<in> L) (map proof_key xs)" for L
    by (induction xs) (auto simp: proof_key_def)
  with assms distinct_filter_union [of "\<lambda>k. fst k \<in> I" "map proof_key xs" "\<lambda>k. fst k \<in> J" "\<lambda>k. fst k \<in> K"]
  show ?thesis by auto
qed

section \<open>Selecting more candidates\<close>

lemma Select_iff:
  "(\<exists>sel. Select env g ids = Inr sel) \<longleftrightarrow>
     list_all (\<lambda>i. validPrefixedHash i ''candidate-'') ids \<and>
     (\<exists>bytes cs. gn_file g = Readable bytes False \<and> ce_decode_candidates env bytes = (cs, False) \<and>
        check_candidates (ce_unicode env) 1 [] cs = None \<and> manifest_counts_ok (gn_manifest g) bytes cs \<and>
        validateCandidateLinks cs = None \<and> (\<forall>i \<in> set ids. candidate_by_id cs i \<noteq> None) \<and>
        verifySelectedProvenance env g (filter (\<lambda>c. cd_candidate_id c \<in> set ids) cs) = None)" (is "?l \<longleftrightarrow> ?r")
proof
  assume ?l
  then obtain sel where sel: "Select env g ids = Inr sel" by blast
  then have "list_all (\<lambda>i. validPrefixedHash i ''candidate-'') ids" by (simp add: Select_def split: if_splits)
  then show ?r by (rule_tac Select_Inr [OF sel]) blast
next
  assume ?r
  then obtain bytes cs where f: "gn_file g = Readable bytes False" "ce_decode_candidates env bytes = (cs, False)"
    "check_candidates (ce_unicode env) 1 [] cs = None" "manifest_counts_ok (gn_manifest g) bytes cs"
    "validateCandidateLinks cs = None" "verifySelectedProvenance env g (filter (\<lambda>c. cd_candidate_id c \<in> set ids) cs) = None"
    and i: "\<forall>i \<in> set ids. candidate_by_id cs i \<noteq> None" by blast
  have "\<not> list_ex (\<lambda>i. candidate_by_id cs i = None) ids" using i by (simp add: list_ex_iff)
  with f \<open>?r\<close> show ?l by (simp add: Select_def)
qed

lemma selected_ids:
  assumes "\<forall>i \<in> I. candidate_by_id cs i \<noteq> None"
  shows "cd_candidate_id ` {c \<in> set cs. cd_candidate_id c \<in> I} = I"
  using assms candidate_by_id_Some by (auto simp: image_iff) (metis not_Some_eq)

lemma Select_union:
  assumes "Select env g I = Inr sel" and "Select env g J = Inr sel'" and "set K \<subseteq> set I \<union> set J"
  shows "\<exists>sel. Select env g K = Inr sel"
proof -
  have I: "\<exists>sel. Select env g I = Inr sel" and J: "\<exists>sel. Select env g J = Inr sel" using assms(1,2) by blast+
  from I [unfolded Select_iff] obtain bytes cs where f: "gn_file g = Readable bytes False"
    "ce_decode_candidates env bytes = (cs, False)" "check_candidates (ce_unicode env) 1 [] cs = None"
    "manifest_counts_ok (gn_manifest g) bytes cs" "validateCandidateLinks cs = None"
    and i: "list_all (\<lambda>i. validPrefixedHash i ''candidate-'') I" "\<forall>i \<in> set I. candidate_by_id cs i \<noteq> None"
    "verifySelectedProvenance env g (filter (\<lambda>c. cd_candidate_id c \<in> set I) cs) = None" by blast
  from J [unfolded Select_iff] f
  have j: "list_all (\<lambda>i. validPrefixedHash i ''candidate-'') J" "\<forall>i \<in> set J. candidate_by_id cs i \<noteq> None"
    "verifySelectedProvenance env g (filter (\<lambda>c. cd_candidate_id c \<in> set J) cs) = None" by auto
  have k: "\<forall>i \<in> set K. candidate_by_id cs i \<noteq> None" using i(2) j(2) assms(3) by blast
  note n = selected_ids [OF i(2)] selected_ids [OF j(2)] selected_ids [OF k]
  obtain eps where e: "provenance_of env g = Some eps"
    and di: "distinct (map proof_key (filter (\<lambda>p. fst p \<in> set I) (candidate_proofs cs)))"
    and mi: "mset (filter (\<lambda>p. fst p \<in> set I) (candidate_proofs cs)) =
      mset (filter (\<lambda>p. fst p \<in> set I) (source_observations (ce_unicode env) UNIV eps))"
    using i(3) by (auto simp: provenance_iff candidate_proofs_filter n
        source_observations_filter [of _ "set I"] simp del: mset_filter)
  have dj: "distinct (map proof_key (filter (\<lambda>p. fst p \<in> set J) (candidate_proofs cs)))"
    and mj: "mset (filter (\<lambda>p. fst p \<in> set J) (candidate_proofs cs)) =
      mset (filter (\<lambda>p. fst p \<in> set J) (source_observations (ce_unicode env) UNIV eps))"
    using j(3) e by (auto simp: provenance_iff candidate_proofs_filter n
        source_observations_filter [of _ "set J"] simp del: mset_filter)
  have "verifySelectedProvenance env g (filter (\<lambda>c. cd_candidate_id c \<in> set K) cs) = None"
    using filter_union_mset [OF mi mj assms(3)] distinct_keys_union [OF di dj assms(3)] e
    by (simp add: provenance_iff candidate_proofs_filter n source_observations_filter [of _ "set K"] del: mset_filter)
  moreover have "list_all (\<lambda>i. validPrefixedHash i ''candidate-'') K" using i(1) j(1) assms(3) by (auto simp: list_all_iff)
  ultimately show ?thesis using Select_iff f k by blast
qed

section \<open>The interface of a verified generation\<close>

text \<open>
  What the review, promotion and rule approval ledgers rely on: \<open>select\<close> is \<open>Select\<close> of one opened generation,
  \<open>content\<close> the candidates of its file.
\<close>

locale candidate_source =
  fixes select :: "string list \<Rightarrow> 'err + selection"
    and content :: "candidate list"
  assumes selected: "select ids = Inr sel \<Longrightarrow> i \<in> set ids \<Longrightarrow> \<exists>c. sl_candidates sel i = Some c"
    and selected_content: "select ids = Inr sel \<Longrightarrow> sl_candidates sel i = Some c \<Longrightarrow>
      c \<in> set content \<and> cd_candidate_id c = i \<and> i \<in> set ids"
    and content_distinct: "select ids = Inr sel \<Longrightarrow> distinct (map cd_candidate_id content)"
    and groups_complete: "select ids = Inr sel \<Longrightarrow> sl_conflict_groups sel g = Some members \<Longrightarrow> g \<noteq> [] \<Longrightarrow>
      set members = cd_candidate_id ` {c \<in> set content. cd_conflict_group_id c = g}"
    and groups_same: "select ids = Inr sel \<Longrightarrow> select ids' = Inr sel' \<Longrightarrow>
      sl_conflict_groups sel = sl_conflict_groups sel'"
    and quarantined_iff: "select ids = Inr sel \<Longrightarrow> c \<in> set content \<Longrightarrow>
      vd_status (cd_validation c) = CandidateQuarantined \<longleftrightarrow> cd_conflict_group_id c \<noteq> []"
    and content_valid: "select ids = Inr sel \<Longrightarrow> c \<in> set content \<Longrightarrow>
      validPrefixedHash (cd_candidate_id c) ''candidate-'' \<and> validSHA256 (cd_content_sha256 c) \<and>
      strictly_sorted (cd_support_types c) \<and> cd_observations c \<noteq> [] \<and>
      list_all (\<lambda>ob. ob_evidence_event_ids ob \<noteq> []) (cd_observations c)"
    and select_more: "select ids = Inr sel \<Longrightarrow> select ids' = Inr sel' \<Longrightarrow> set ids'' \<subseteq> set ids \<union> set ids' \<Longrightarrow>
      \<exists>sel''. select ids'' = Inr sel''"
begin

lemma selected_by_id:
  assumes "select ids = Inr sel" and "c \<in> set content" and "cd_candidate_id c \<in> set ids"
  shows "sl_candidates sel (cd_candidate_id c) = Some c"
proof -
  obtain d where d: "sl_candidates sel (cd_candidate_id c) = Some d" using selected [OF assms(1,3)] by blast
  with selected_content [OF assms(1) d] content_distinct [OF assms(1)] assms(2) have "d = c"
    by (auto simp: distinct_map inj_on_def)
  with d show ?thesis by simp
qed

lemma select_many:
  assumes "\<forall>ids \<in> set idss. \<exists>sel. select ids = Inr sel" and "idss \<noteq> []" and "set ids \<subseteq> \<Union>(set ` set idss)"
  shows "\<exists>sel. select ids = Inr sel"
  using assms
proof (induction idss arbitrary: ids)
  case (Cons i idss)
  obtain sel where sel: "select i = Inr sel" using Cons.prems(1) by auto
  show ?case
  proof (cases "idss = []")
    case True
    with select_more [OF sel sel, of ids] Cons.prems(3) show ?thesis by simp
  next
    case False
    with Cons.prems(1) obtain sel' where "select (concat idss) = Inr sel'" using Cons.IH [of "concat idss"] by auto
    from select_more [OF sel this, of ids] Cons.prems(3) show ?thesis by auto
  qed
qed simp

text \<open>Selections of one generation agree on the candidates they share and on the conflict groups' members.\<close>

lemma selections_agree:
  assumes "select ids = Inr sel" and "select ids' = Inr sel'" and "i \<in> set ids" and "i \<in> set ids'"
  shows "sl_candidates sel i = sl_candidates sel' i"
  using selected [OF assms(1,3)] selected_content [OF assms(1)] selected_by_id [OF assms(2)] assms(4) by metis

end

definition generation_candidates :: "candidate_env \<Rightarrow> generation \<Rightarrow> candidate list" where
  "generation_candidates env g = fst (ce_decode_candidates env (file_bytes (gn_file g)))"

lemma expected_conflict_id_ne: "expected_conflict_id u c \<noteq> []"
  by (simp add: expected_conflict_id_def deterministicID_def)

lemma validateCandidate_identity:
  assumes "validateCandidate u c = None"
  shows "validPrefixedHash (cd_candidate_id c) ''candidate-''" "validSHA256 (cd_content_sha256 c)"
  using assms by (simp_all only: validateCandidate_def Let_def first_error_Cons fail_if_None) blast+

lemma validateCandidate_observed:
  assumes "validateCandidate u c = None"
  shows "cd_observations c \<noteq> []" "check_observations None (cd_observations c) = None"
    "cd_support_types c = observed_support (cd_observations c)"
  using assms by (simp_all only: validateCandidate_def Let_def first_error_Cons fail_if_None) blast+

lemma validateCandidate_status:
  assumes "validateCandidate u c = None"
  shows "cd_conflict_group_id c \<noteq> [] \<longleftrightarrow> cd_conflicting_candidate_ids c \<noteq> []"
    "cd_validation c = expected_validation c"
  using assms expected_conflict_id_ne [of u c] by (simp_all add: validateCandidate_def Let_def split: if_splits)

lemma expected_status_quarantined:
  "vd_status (expected_validation c) = CandidateQuarantined \<longleftrightarrow> cd_conflicting_candidate_ids c \<noteq> []"
  by (auto simp: expected_validation_def validationFor_def quarantine_def Let_def)

lemma check_observations_valid: "check_observations p obs = None \<Longrightarrow> list_all validObservation obs"
  by (induction p obs rule: check_observations.induct) (auto split: if_splits)

lemma observed_support_sorted: "strictly_sorted (observed_support obs)"
  by (simp add: observed_support_def)

text \<open>The interpretation on the code's \<open>Select\<close>.\<close>

lemma Select_content:
  assumes "Select env g ids = Inr sel"
  shows "\<forall>c \<in> set (generation_candidates env g). validateCandidate (ce_unicode env) c = None"
    "distinct (map cd_candidate_id (generation_candidates env g))"
    "\<forall>i \<in> set ids. candidate_by_id (generation_candidates env g) i \<noteq> None"
    "sel = \<lparr>sl_candidates = candidate_by_id (filter (\<lambda>c. cd_candidate_id c \<in> set ids) (generation_candidates env g)),
            sl_conflict_groups = conflict_members (generation_candidates env g)\<rparr>"
    "gn_file g = Readable (file_bytes (gn_file g)) False"
    "sha256_hex (file_bytes (gn_file g)) = cm_candidates_sha256 (gn_manifest g)"
  by (rule Select_Inr [OF assms], use check_candidates_conv in
      \<open>fastforce simp: generation_candidates_def file_bytes_def strictly_sorted_iff manifest_counts_ok_def\<close>)+

lemma candidate_by_id_filter:
  assumes "distinct (map cd_candidate_id cs)" and "i \<in> I"
  shows "candidate_by_id (filter (\<lambda>c. cd_candidate_id c \<in> I) cs) i = candidate_by_id cs i"
  using assms by (induction cs) (auto simp: candidate_by_id_def)

interpretation generation: candidate_source "Select env g" "generation_candidates env g"
  for env :: candidate_env and g :: generation
proof
  fix ids sel i assume s: "Select env g ids = Inr sel" and i: "i \<in> set ids"
  with Select_content(3) [OF s] Select_content(4) [OF s] candidate_by_id_filter [OF Select_content(2) [OF s] i]
  show "\<exists>c. sl_candidates sel i = Some c" by auto
next
  fix ids sel i c assume s: "Select env g ids = Inr sel" and c: "sl_candidates sel i = Some c"
  then show "c \<in> set (generation_candidates env g) \<and> cd_candidate_id c = i \<and> i \<in> set ids"
    using Select_content(4) [OF s] candidate_by_id_Some by fastforce
next
  fix ids sel assume "Select env g ids = Inr sel"
  then show "distinct (map cd_candidate_id (generation_candidates env g))" by (rule Select_content)
next
  fix ids sel h members
  assume s: "Select env g ids = Inr sel" and m: "sl_conflict_groups sel h = Some members" and h: "h \<noteq> []"
  from m Select_content(4) [OF s]
  show "set members = cd_candidate_id ` {c \<in> set (generation_candidates env g). cd_conflict_group_id c = h}"
    by (auto simp: conflict_members_def split: if_splits)
next
  fix ids sel ids' sel' assume a: "Select env g ids = Inr sel" and b: "Select env g ids' = Inr sel'"
  show "sl_conflict_groups sel = sl_conflict_groups sel'"
    by (subst Select_content(4) [OF a], subst Select_content(4) [OF b]) simp
next
  fix ids sel c assume s: "Select env g ids = Inr sel" and c: "c \<in> set (generation_candidates env g)"
  have v: "validateCandidate (ce_unicode env) c = None" using Select_content(1) [OF s] c by blast
  show "vd_status (cd_validation c) = CandidateQuarantined \<longleftrightarrow> cd_conflict_group_id c \<noteq> []"
    using validateCandidate_status [OF v] expected_status_quarantined by simp
  have "list_all validObservation (cd_observations c)"
    by (rule check_observations_valid [OF validateCandidate_observed(2) [OF v]])
  then have "list_all (\<lambda>ob. ob_evidence_event_ids ob \<noteq> []) (cd_observations c)"
    by (auto simp: list_all_iff validObservation_def)
  with validateCandidate_identity [OF v] validateCandidate_observed(1,3) [OF v] observed_support_sorted
  show "validPrefixedHash (cd_candidate_id c) ''candidate-'' \<and> validSHA256 (cd_content_sha256 c) \<and>
      strictly_sorted (cd_support_types c) \<and> cd_observations c \<noteq> [] \<and>
      list_all (\<lambda>ob. ob_evidence_event_ids ob \<noteq> []) (cd_observations c)" by simp
next
  fix ids sel ids' sel' ids''
  assume "Select env g ids = Inr sel" and "Select env g ids' = Inr sel'" and "set ids'' \<subseteq> set ids \<union> set ids'"
  then show "\<exists>sel''. Select env g ids'' = Inr sel''" by (rule Select_union)
qed

end
