(* ===== verification/Candidate_Claims.thy ===== *)
theory Candidate_Claims
  imports Candidate_Selection Ledger_Claims
begin

text \<open>
  The properties of candidate derivation: what aggregation writes is what the reader accepts, what a
  successful selection guarantees, and the quarantine of contradicting candidates.
\<close>

section \<open>Aggregation\<close>

text \<open>The byte strings that name the groups of linked candidates.\<close>

definition group_inputs :: "string \<Rightarrow> staged_observation list \<Rightarrow> string set" where
  "group_inputs p rs = (\<lambda>s. p @ CHR 0x00 # sg_agent s @ CHR 0x00 # sg_semantic_core s) ` set rs"

definition groups_collide :: "staged_observation list \<Rightarrow> bool" where
  "groups_collide rs \<longleftrightarrow>
     (\<exists>p \<in> {''candidate-semantic-key'', ''candidate-conflict''}. sha_collision_in (group_inputs p rs) (group_inputs p rs))"

lemma add_record_groups:
  assumes "add_record r as = Inr as'" and "P (sg_agent r) (sg_semantic_core r)"
    and "\<forall>a \<in> set as. P (sg_agent (ag_base a)) (sg_semantic_core (ag_base a))"
  shows "\<forall>a \<in> set as'. P (sg_agent (ag_base a)) (sg_semantic_core (ag_base a))"
  using assms
  by (induction r as arbitrary: as' rule: add_record.induct)
    (auto simp: absorb_record_def Let_def split: if_split_asm sum.splits)

lemma add_records_groups:
  assumes "add_records rs as = Inr as'" and "\<forall>r \<in> set rs. P (sg_agent r) (sg_semantic_core r)"
    and "\<forall>a \<in> set as. P (sg_agent (ag_base a)) (sg_semantic_core (ag_base a))"
  shows "\<forall>a \<in> set as'. P (sg_agent (ag_base a)) (sg_semantic_core (ag_base a))"
  using assms
proof (induction rs arbitrary: as)
  case (Cons r rs)
  from Cons.prems(1) obtain as1 where a: "add_record r as = Inr as1" "add_records rs as1 = Inr as'"
    by (auto split: sum.splits)
  have "\<forall>a \<in> set as1. P (sg_agent (ag_base a)) (sg_semantic_core (ag_base a))"
    by (rule add_record_groups [OF a(1)]) (use Cons.prems(2,3) in simp_all)
  then show ?case
    by (intro Cons.IH [OF a(2)]) (use Cons.prems(2) in simp_all)
qed simp

lemma groups_separate:
  assumes "add_records rs [] = Inr as" and "\<not> groups_collide rs"
    and "a \<in> set as" and "b \<in> set as"
  shows "sha256_hex (''candidate-semantic-key'' @ CHR 0x00 # groupKey a) =
      sha256_hex (''candidate-semantic-key'' @ CHR 0x00 # groupKey b) \<Longrightarrow> groupKey a = groupKey b"
    and "deterministicID ''candidate-conflict'' [groupKey a] = deterministicID ''candidate-conflict'' [groupKey b] \<Longrightarrow>
      groupKey a = groupKey b"
proof -
  have m: "\<forall>a \<in> set as. p @ CHR 0x00 # groupKey a \<in> group_inputs p rs" for p
    using add_records_groups [OF assms(1), of "\<lambda>a c. p @ CHR 0x00 # a @ CHR 0x00 # c \<in> group_inputs p rs"]
    by (auto simp: group_inputs_def groupKey_def)
  have *: "sha256_hex (p @ CHR 0x00 # groupKey a) = sha256_hex (p @ CHR 0x00 # groupKey b) \<Longrightarrow> groupKey a = groupKey b"
    if "p \<in> {''candidate-semantic-key'', ''candidate-conflict''}" for p
    using that assms(2-4) m [of p] unfolding groups_collide_def sha_collision_in_def sha_collision_def
    by (metis append_same_eq list.inject same_append_eq)
  show "sha256_hex (''candidate-semantic-key'' @ CHR 0x00 # groupKey a) =
      sha256_hex (''candidate-semantic-key'' @ CHR 0x00 # groupKey b) \<Longrightarrow> groupKey a = groupKey b"
    using *[of "''candidate-semantic-key''"] by simp
  show "deterministicID ''candidate-conflict'' [groupKey a] = deterministicID ''candidate-conflict'' [groupKey b] \<Longrightarrow>
      groupKey a = groupKey b"
    using *[of "''candidate-conflict''"] by (simp add: deterministicID_def deterministicHex_def)
qed

lemma linked_all_by_id:
  assumes "distinct (map ag_id as)" and "a \<in> set as"
  shows "candidate_by_id (linked_all as) (ag_id a) = Some (linked as a)"
proof -
  have "linked as a \<in> set (linked_all as)" using assms(2) by (simp add: linked_all_def)
  from candidate_by_id_mem [OF linked_all_ids(1) [OF assms(1)] this] show ?thesis by simp
qed

lemma peersE:
  assumes "i \<in> peers as a same"
  obtains b where "b \<in> set as" "groupKey b = groupKey a" "ag_id b \<noteq> ag_id a"
    "(sg_polarity (ag_base b) = sg_polarity (ag_base a)) = same" "i = ag_id b"
  using assms by (auto simp: peers_def)

lemma peers_sym:
  "b \<in> set as \<Longrightarrow> groupKey b = groupKey a \<Longrightarrow> ag_id b \<noteq> ag_id a \<Longrightarrow>
     (sg_polarity (ag_base b) = sg_polarity (ag_base a)) = same \<Longrightarrow> ag_id b \<in> peers as a same"
  by (auto simp: peers_def)

lemma linked_all_links:
  assumes ok: "\<forall>a \<in> set as. aggregate_ok u a" and d: "distinct (map ag_id as)"
    and sep: "\<And>a b. a \<in> set as \<Longrightarrow> b \<in> set as \<Longrightarrow>
      sha256_hex (''candidate-semantic-key'' @ CHR 0x00 # groupKey a) =
      sha256_hex (''candidate-semantic-key'' @ CHR 0x00 # groupKey b) \<Longrightarrow> groupKey a = groupKey b"
  shows "validateCandidateLinks (linked_all as) = None"
proof -
  have key: "sg_semantic_key_sha256 (ag_base a) = sha256_hex (''candidate-semantic-key'' @ CHR 0x00 # groupKey a)"
    if "a \<in> set as" for a using groupKey_hash(1) ok that by blast
  note L = linked_links [OF ok _ d]
  have c: "conflict_link_ok (linked_all as) (linked as a) i" if a: "a \<in> set as" and i: "i \<in> peers as a False" for a i
  proof -
    from i obtain b where b: "b \<in> set as" "groupKey b = groupKey a" "ag_id b \<noteq> ag_id a"
      "sg_polarity (ag_base b) \<noteq> sg_polarity (ag_base a)" "i = ag_id b" by (auto elim: peersE)
    have p: "ag_id a \<in> peers as b False" using a b by (auto intro: peers_sym)
    then have "peers as b False \<noteq> {}" "peers as a False \<noteq> {}" using i by auto
    with L(5) [OF a] L(5) [OF b(1)] b(2)
    have "cd_conflict_group_id (linked as b) = cd_conflict_group_id (linked as a)" by simp
    then show ?thesis
      using linked_all_by_id [OF d b(1)] b L(3,4) [OF b(1)] p key [OF a] key [OF b(1)]
      by (simp add: conflict_link_ok_def containsSortedString_sorted)
  qed
  have r: "related_link_ok (linked_all as) (linked as a) i" if a: "a \<in> set as" and i: "i \<in> peers as a True" for a i
  proof -
    from i obtain b where b: "b \<in> set as" "groupKey b = groupKey a" "ag_id b \<noteq> ag_id a"
      "sg_polarity (ag_base b) = sg_polarity (ag_base a)" "i = ag_id b" by (auto elim: peersE)
    have "ag_id a \<in> peers as b True" using a b by (auto intro: peers_sym)
    then show ?thesis
      using linked_all_by_id [OF d b(1)] b L(1,2) [OF b(1)] key [OF a] key [OF b(1)]
      by (simp add: related_link_ok_def containsSortedString_sorted)
  qed
  have p: "pair_linked (linked as a) (linked as b)"
    if a: "a \<in> set as" and b: "b \<in> set as" and ne: "ag_id a \<noteq> ag_id b"
      and k: "sg_semantic_key_sha256 (ag_base a) = sg_semantic_key_sha256 (ag_base b)" for a b
  proof -
    have g: "groupKey a = groupKey b" using sep [OF a b] k key [OF a] key [OF b] by simp
    show ?thesis
    proof (cases "sg_polarity (ag_base a) = sg_polarity (ag_base b)")
      case True
      then have "ag_id b \<in> peers as a True" using g ne b by (auto intro: peers_sym)
      with True L(1,2) [OF a] show ?thesis by (simp add: pair_linked_def containsSortedString_sorted)
    next
      case False
      then have "ag_id b \<in> peers as a False" "ag_id a \<in> peers as b False" using g ne a b by (auto intro: peers_sym)
      with False L(3-5) [OF a] L(5) [OF b] g show ?thesis
        by (auto simp: pair_linked_def containsSortedString_sorted deterministicID_def)
    qed
  qed
  show ?thesis
    using c r p L(2,4) by (auto simp: validateCandidateLinks_def list_all_iff linked_all_def)
qed

lemma conflict_group_ids_linked:
  assumes ok: "\<forall>a \<in> set as. aggregate_ok u a" and d: "distinct (map ag_id as)"
    and sep: "\<And>a b. a \<in> set as \<Longrightarrow> b \<in> set as \<Longrightarrow>
      deterministicID ''candidate-conflict'' [groupKey a] = deterministicID ''candidate-conflict'' [groupKey b] \<Longrightarrow>
      groupKey a = groupKey b"
  shows "length (conflict_group_ids (linked_all as)) =
    length (filter (\<lambda>key. conflicted (group_members as key)) (remdups (map groupKey as)))"
proof -
  let ?id = "\<lambda>key. deterministicID ''candidate-conflict'' [key]"
  let ?C = "{a \<in> set as. conflicted (group_members as (groupKey a))}"
  have g: "cd_conflict_group_id (linked as a) = (if a \<in> ?C then ?id (groupKey a) else [])" if "a \<in> set as" for a
    using linked_links(5) [OF ok that d] conflicted_iff [OF ok that d] that by auto
  have ne: "?id k \<noteq> []" for k by (simp add: deterministicID_def)
  have "set (conflict_group_ids (linked_all as)) = ?id ` groupKey ` ?C"
    using g ne by (auto simp: conflict_group_ids_def linked_all_def image_iff split: if_splits)
  moreover have "set (filter (\<lambda>key. conflicted (group_members as key)) (remdups (map groupKey as))) = groupKey ` ?C"
    by auto
  moreover have "inj_on ?id (groupKey ` ?C)" using sep by (auto simp: inj_on_def)
  ultimately show ?thesis
    using distinct_card [of "conflict_group_ids (linked_all as)"]
      distinct_card [of "filter (\<lambda>key. conflicted (group_members as key)) (remdups (map groupKey as))"]
    by (simp add: conflict_group_ids_def card_image)
qed

lemma Nil_less: "s \<noteq> [] \<Longrightarrow> [] < s" for s :: string
  by (cases s) simp_all

lemma aggregate_checks:
  assumes "\<forall>s \<in> set records. staged_ok u s" and "unicode_ok u"
    and "aggregateCandidates records = Inr (cs, groups)"
    and "\<not> groups_collide records"
  shows "check_candidates u 1 [] cs = None \<and> validateCandidateLinks cs = None \<and>
    set (map cd_candidate_id cs) = sg_candidate_id ` set records \<and> groups = int (length (conflict_group_ids cs))"
proof -
  from assms(3) obtain as where as: "add_records records [] = Inr as"
    and cs: "cs = linked_all as"
    and n: "groups = int (length (filter (\<lambda>key. conflicted (group_members as key)) (remdups (map groupKey as))))"
    by (auto simp: aggregateCandidates_def linked_all_def linked_def [abs_def] split: sum.splits)
  from add_records_ok [OF as assms(1)] have ok: "\<forall>a \<in> set as. aggregate_ok u a"
    and d: "distinct (map ag_id as)" and ids: "set (map ag_id as) = sg_candidate_id ` set records" by auto
  note sep = groups_separate [OF as assms(4)]
  have "\<forall>c \<in> set cs. validateCandidate u c = None"
    using linked_valid [OF ok _ d assms(2)] by (auto simp: cs linked_all_def)
  moreover have "\<forall>c \<in> set cs. [] < cd_candidate_id c"
    using ag_id_ne ok Nil_less by (auto simp: cs linked_all_def)
  ultimately have "check_candidates u 1 [] cs = None"
    using linked_all_ids(2) [OF d] by (intro check_candidates_ok) (auto simp: cs)
  moreover have "validateCandidateLinks cs = None"
    unfolding cs by (rule linked_all_links [OF ok d]) (rule sep(1))
  moreover have "groups = int (length (conflict_group_ids cs))"
    unfolding n cs by (simp add: conflict_group_ids_linked [OF ok d sep(2)])
  ultimately show ?thesis using ids by (auto simp: cs linked_all_def image_image)
qed

lemma derived_staged_ok:
  assumes "list_all episode_ok eps" and "set records \<subseteq> set (concat (map (deriveEpisodeObservations u) eps))"
  shows "\<forall>s \<in> set records. staged_ok u s"
  using assms deriveEpisodeObservations_ok by (fastforce simp: list_all_iff)

text \<open>Property C31. What a build derives, the reader of the generation accepts: unless the SHA-256 names of two
  groups collide, aggregating observations that \<open>deriveEpisodeObservations\<close> stages for well-formed episodes,
  in any order, gives candidates that pass every check of \<open>validateCandidate\<close>, are strictly sorted by id,
  have exactly the staged ids, are linked as \<open>validateCandidateLinks\<close> demands, and form as many conflict
  groups as the manifest will say.\<close>

theorem aggregate_accepted:
  assumes "list_all episode_ok eps" and "set records \<subseteq> set (concat (map (deriveEpisodeObservations u) eps))"
    and "unicode_ok u" and "aggregateCandidates records = Inr (cs, groups)"
    and "\<not> groups_collide records"
  shows "check_candidates u 1 [] cs = None \<and> validateCandidateLinks cs = None \<and>
    set (map cd_candidate_id cs) = sg_candidate_id ` set records \<and> groups = int (length (conflict_group_ids cs))"
  by (rule aggregate_checks [OF derived_staged_ok [OF assms(1,2)] assms(3-5)])

definition sample_unicode :: unicode where
  "sample_unicode = \<lparr>uc_lower = id, uc_word = (\<lambda>r. case r of [c] \<Rightarrow> byte_in 97 122 c | _ \<Rightarrow> False)\<rparr>"

definition sample_statement :: statement where
  "sample_statement = \<lparr>sm_statement_id = ''statement-'' @ sha256_hex ''s'', sm_kind = ''constraint'',
     sm_text = ''use tabs'', sm_evidence_event_ids = [''e1''], sm_first_seen_at = 1, sm_last_seen_at = 2\<rparr>"

definition sample_episode :: episode where
  "sample_episode = \<lparr>ep_schema_version = ''episode/v1alpha1'', ep_episode_id = ''episode-'' @ sha256_hex ''p'',
     ep_agent = AgentCodex, ep_statements = [sample_statement], ep_compactions = [], ep_privacy = ''local_only''\<rparr>"

lemma sample_blank: "\<not> blank ''e1''" by code_simp

lemma sample_episode_ok: "episode_ok sample_episode"
  using validPrefixedHash_append [of "''episode-''"] validPrefixedHash_append [of "''statement-''"] sample_blank
  by (simp add: episode_ok_def sample_episode_def sample_statement_def statement_ok_def validAgent_def)

lemma sample_normalized: "normalizeText sample_unicode ''use tabs'' = ''use tabs''"
  and sample_remember: "\<not> IsExplicitRemember sample_unicode ''use tabs''"
  by code_simp+

lemma sample_staged: "\<exists>s. deriveEpisodeObservations sample_unicode sample_episode = [s] \<and> sg_text s = ''use tabs''"
  by (simp add: deriveEpisodeObservations_def sample_episode_def List.map_filter_def derive_statement_def Let_def
      statement_support_def sample_statement_def sample_normalized sample_remember correction_evidence_def)

lemma drop_split: "drop n s = p @ x \<Longrightarrow> s = (take n s @ p) @ x"
  by (metis append_take_drop_id append.assoc)

lemma trim_with_decompose: "\<exists>p. s = p @ trim_with es s \<and> set p \<subseteq> \<Union>(set ` set es)"
proof (induction es s rule: trim_with.induct)
  case (1 es s)
  have pre: "space_prefix es s \<noteq> 0 \<Longrightarrow> take (space_prefix es s) s \<in> set es"
    by (induction es) (auto simp: hasPrefix_def)
  show ?case
  proof (cases "space_prefix es s = 0 \<or> s = []")
    case True
    then show ?thesis by (simp add: trim_with.simps [of es s])
  next
    case False
    with 1 obtain p where p: "drop (space_prefix es s) s = p @ trim_with es (drop (space_prefix es s) s)"
      "set p \<subseteq> \<Union>(set ` set es)" by auto
    have e: "trim_with es s = trim_with es (drop (space_prefix es s) s)"
      using False by (simp add: trim_with.simps [of es s])
    have "take (space_prefix es s) s \<in> set es" using pre False by simp
    then have "set (take (space_prefix es s) s) \<subseteq> \<Union>(set ` set es)" by (rule UN_upper)
    then have "set (take (space_prefix es s) s @ p) \<subseteq> \<Union>(set ` set es)" using p(2) by (simp only: set_append Un_subset_iff)
    with drop_split [OF p(1)] show ?thesis unfolding e by (intro exI [of _ "take (space_prefix es s) s @ p"] conjI)
  qed
qed

lemma blank_bytes: "blank t \<Longrightarrow> c \<in> set t \<Longrightarrow> c \<in> set (concat space_encodings)"
proof -
  assume b: "blank t" and c: "c \<in> set t"
  obtain p where p: "t = p @ trimLeftSpace t" "set p \<subseteq> \<Union>(set ` set space_encodings)"
    using trim_with_decompose [of t space_encodings] unfolding trimLeftSpace_def by blast
  obtain q where q: "rev (trimLeftSpace t) = q @ trim_with (map rev space_encodings) (rev (trimLeftSpace t))"
    "set q \<subseteq> \<Union>(set ` set (map rev space_encodings))"
    using trim_with_decompose [of "rev (trimLeftSpace t)" "map rev space_encodings"] by blast
  have "trim_with (map rev space_encodings) (rev (trimLeftSpace t)) = []"
    using b by (simp add: trimSpace_def trimRightSpace_def)
  then have "set (trimLeftSpace t) \<subseteq> \<Union>(set ` set (map rev space_encodings))"
    using q by (metis append_Nil2 set_rev)
  moreover have "\<Union>(set ` set (map rev space_encodings)) = \<Union>(set ` set space_encodings)" by simp
  moreover have "set t = set p \<union> set (trimLeftSpace t)" using p(1) by (metis set_append)
  ultimately show ?thesis using p(2) c by auto
qed

lemma runes_bytes: "r \<in> set (runes s) \<Longrightarrow> r = runeError \<or> set r \<subseteq> set s"
proof (induction s rule: runes.induct)
  case (1 s)
  show ?case
  proof (cases "s = []")
    case True
    with 1(3) show ?thesis by (simp add: runes.simps)
  next
    case False
    then have "r = runeError \<or> r = take (utf8_len s) s \<or> (utf8_len s = 0 \<and> r \<in> set (runes (tl s))) \<or>
        (utf8_len s \<noteq> 0 \<and> r \<in> set (runes (drop (utf8_len s) s)))"
      using 1(3) by (subst (asm) runes.simps) (auto simp: Let_def split: if_splits)
    moreover have "set (take (utf8_len s) s) \<subseteq> set s" "set (drop (utf8_len s) s) \<subseteq> set s" "set (tl s) \<subseteq> set s"
      using False by (auto dest: list.set_sel(2) in_set_takeD in_set_dropD)
    ultimately show ?thesis using 1(1,2) False by blast
  qed
qed

lemma normalize_no_words: "\<forall>r \<in> set rs. \<not> uc_word u r \<Longrightarrow> normalize_runes u [] sp rs = []"
  by (induction rs arbitrary: sp) auto

lemma sample_unicode_ok: "unicode_ok sample_unicode"
  unfolding unicode_ok_def
proof (intro allI impI notI)
  fix t assume n: "normalizeText sample_unicode t \<noteq> []" and b: "blank t"
  have l: "list_all (\<lambda>c. \<not> byte_in 97 122 c) (concat space_encodings)" by code_simp
  have "\<not> uc_word sample_unicode r" if r: "r \<in> set (runes t)" for r
  proof
    assume w: "uc_word sample_unicode r"
    then obtain c where "r = [c]" "byte_in 97 122 c" by (auto simp: sample_unicode_def split: list.splits)
    with runes_bytes [OF r] blank_bytes [OF b, of c] l show False by (auto simp: list_all_iff)
  qed
  then have "normalize_runes sample_unicode [] False (runes t) = []" by (intro normalize_no_words) blast
  with n show False by (simp add: normalizeText_def sample_unicode_def)
qed

theorem aggregate_accepted_witness:
  "\<exists>s cs. deriveEpisodeObservations sample_unicode sample_episode = [s] \<and>
     aggregateCandidates [s] = Inr (cs, 0) \<and> check_candidates sample_unicode 1 [] cs = None \<and>
     validateCandidateLinks cs = None \<and> set (map cd_candidate_id cs) = {sg_candidate_id s}"
proof -
  obtain s where s: "deriveEpisodeObservations sample_unicode sample_episode = [s]" using sample_staged by blast
  have ok: "list_all episode_ok [sample_episode]" using sample_episode_ok by simp
  have d: "set [s] \<subseteq> set (concat (map (deriveEpisodeObservations sample_unicode) [sample_episode]))" using s by simp
  have n: "\<not> groups_collide [s]"
    by (simp add: groups_collide_def sha_collision_in_def group_inputs_def sha_collision_def)
  obtain cs where cs: "aggregateCandidates [s] = Inr (cs, 0)"
    by (auto simp: aggregateCandidates_def conflicted_def group_members_def)
  from aggregate_accepted [OF ok d sample_unicode_ok cs n] s cs show ?thesis by auto
qed

section \<open>Selection\<close>

text \<open>Property C30. What a selection guarantees: the candidates file has the digest of the manifest and decodes to
  strictly sorted candidates that pass every check; each wanted id is given the candidate of the file with
  that id; and the observations of the given candidates are, with multiplicity, exactly those that the
  episodes of the source generation, identified by its digest, give for them.\<close>

theorem Select_ok:
  assumes "Select env g ids = Inr sel"
  shows "\<exists>bytes cs. gn_file g = Readable bytes False \<and> ce_decode_candidates env bytes = (cs, False) \<and>
    sha256_hex bytes = cm_candidates_sha256 (gn_manifest g) \<and>
    (\<forall>c \<in> set cs. validateCandidate (ce_unicode env) c = None) \<and> strictly_sorted (map cd_candidate_id cs) \<and>
    (\<forall>i \<in> set ids. \<exists>c \<in> set cs. cd_candidate_id c = i \<and> sl_candidates sel i = Some c) \<and>
    (\<exists>src ebytes eps. ce_source env (cm_source_episode_generation (gn_manifest g)) = Some src \<and>
       es_file src = Readable ebytes False \<and> ce_decode_episodes env ebytes = (eps, False) \<and>
       sha256_hex ebytes = cm_source_episodes_sha256 (gn_manifest g) \<and>
       mset (candidate_proofs (filter (\<lambda>c. cd_candidate_id c \<in> set ids) cs)) =
         mset (source_observations (ce_unicode env) (set ids) eps))"
proof (rule Select_Inr [OF assms])
  fix bytes cs
  assume f: "gn_file g = Readable bytes False" "ce_decode_candidates env bytes = (cs, False)"
    and ch: "check_candidates (ce_unicode env) 1 [] cs = None" and m: "manifest_counts_ok (gn_manifest g) bytes cs"
    and p: "\<forall>i \<in> set ids. candidate_by_id cs i \<noteq> None"
    and prov: "verifySelectedProvenance env g (filter (\<lambda>c. cd_candidate_id c \<in> set ids) cs) = None"
    and sel: "sel = \<lparr>sl_candidates = candidate_by_id (filter (\<lambda>c. cd_candidate_id c \<in> set ids) cs),
            sl_conflict_groups = conflict_members cs\<rparr>"
  note c = check_candidates_conv [OF ch]
  have mem: "\<exists>c \<in> set cs. cd_candidate_id c = i \<and> sl_candidates sel i = Some c" if i: "i \<in> set ids" for i
  proof -
    from p i obtain c where "candidate_by_id cs i = Some c" by blast
    then have c': "c \<in> set cs" "cd_candidate_id c = i" using candidate_by_id_Some by blast+
    have "distinct (map cd_candidate_id (filter (\<lambda>c. cd_candidate_id c \<in> set ids) cs))"
      using c by (simp add: strictly_sorted_iff distinct_map_filter)
    from candidate_by_id_mem [OF this, of c] c' i sel show ?thesis by auto
  qed
  have ids: "set (map cd_candidate_id (filter (\<lambda>c. cd_candidate_id c \<in> set ids) cs)) = set ids"
    using mem by force
  from verifySelectedProvenance_None [OF prov, unfolded ids] f c m mem show ?thesis
    unfolding manifest_counts_ok_def by blast
qed

definition sample_stage :: staged_observation where
  "sample_stage = hd (deriveEpisodeObservations sample_unicode sample_episode)"

definition sample_aggregate :: candidate_aggregate where
  "sample_aggregate = \<lparr>ag_base = sample_stage, ag_observations = [sg_observation sample_stage]\<rparr>"

definition sample_candidate :: candidate where
  "sample_candidate = linked [sample_aggregate] sample_aggregate"

definition sample_generation :: generation where
  "sample_generation =
     \<lparr>gn_name = ''g'',
      gn_manifest = \<lparr>cm_schema_version = ManifestSchemaVersion, cm_derivation_version = CandidateDerivationVersion,
        cm_privacy = ''local_only'', cm_source_episode_generation = ''e'',
        cm_source_episode_manifest_sha256 = sha256_hex ''m'', cm_source_episodes_sha256 = sha256_hex ''e'',
        cm_source_episodes = 1, cm_observations = 1, cm_candidates = 1,
        cm_review_ready = with_status StatusReviewReady [sample_candidate],
        cm_untrusted = with_status StatusUntrusted [sample_candidate],
        cm_quarantined = with_status CandidateQuarantined [sample_candidate],
        cm_conflict_groups = int (length (conflict_group_ids [sample_candidate])),
        cm_candidates_file = ''candidates.jsonl'', cm_candidates_sha256 = sha256_hex ''c''\<rparr>,
      gn_file = Readable ''c'' False\<rparr>"

text \<open>The evidence record of the sample candidate.\<close>

definition note_event :: event where
  "note_event = sample_event\<lparr>ev_kind := KindUserMessage,
     ev_payload := Some (InlinePayload ''utf-8'' ''text/plain'' ''use tabs''),
     ev_completeness := \<lparr>cp_status = CompletenessComplete, cp_reason = [], cp_expected_bytes = None,
       cp_captured_bytes = None\<rparr>\<rparr>"

definition note_record :: ledger_record where
  "note_record = the (makeRecord note_event [])"

definition sample_env :: candidate_env where
  "sample_env = \<lparr>ce_unicode = sample_unicode,
     ce_directory = (\<lambda>p. if p = ''g'' then Some (''g'', Readable ''m'' False, Readable ''c'' False) else None),
     ce_decode_manifest = (\<lambda>_. Some (gn_manifest sample_generation)),
     ce_decode_candidates = (\<lambda>_. ([sample_candidate], False)),
     ce_source = (\<lambda>_. Some \<lparr>es_source_records = 1, es_source_last_record_hash = lr_hash note_record, es_manifest_sha256 = sha256_hex ''m'',
       es_episodes_sha256 = sha256_hex ''e'', es_episodes = 1, es_file = Readable ''e'' False\<rparr>),
     ce_decode_episodes = (\<lambda>_. ([sample_episode], False))\<rparr>"

lemma sample_stage_derived: "deriveEpisodeObservations sample_unicode sample_episode = [sample_stage]"
  using sample_staged by (auto simp: sample_stage_def)

lemma sample_stage_ok: "staged_ok sample_unicode sample_stage"
  using deriveEpisodeObservations_ok [OF sample_episode_ok, of sample_stage sample_unicode]
  by (simp add: sample_stage_derived)

lemma sample_selects:
  "\<exists>sel. Select sample_env sample_generation [cd_candidate_id sample_candidate] = Inr sel"
proof -
  have ag: "aggregateCandidates [sample_stage] = Inr ([sample_candidate], 0)"
    by (simp add: aggregateCandidates_def sample_candidate_def linked_def sample_aggregate_def
        conflicted_def group_members_def)
  have n: "\<not> groups_collide [sample_stage]"
    by (simp add: groups_collide_def sha_collision_in_def group_inputs_def sha_collision_def)
  have ok: "\<forall>s \<in> set [sample_stage]. staged_ok sample_unicode s" by (simp add: sample_stage_ok)
  note ch = aggregate_checks [OF ok sample_unicode_ok ag n]
  have v: "validObservation (sg_observation sample_stage)" using sample_stage_ok by (simp add: staged_ok_def)
  have obs: "cd_observations sample_candidate = [sg_observation sample_stage]"
    by (simp add: sample_candidate_def sample_aggregate_def mergeObservations_def clean_valid [OF v])
  have id: "cd_candidate_id sample_candidate = sg_candidate_id sample_stage"
    by (simp add: sample_candidate_def sample_aggregate_def)
  have "verifySelectedProvenance sample_env sample_generation [sample_candidate] = None"
    by (simp add: verifySelectedProvenance_def sample_env_def sample_generation_def candidate_proofs_def obs id
        sample_stage_derived sample_episode_def [THEN arg_cong, of ep_schema_version]
        sample_episode_def [THEN arg_cong, of ep_privacy] equalObservation_def)
  moreover have "validPrefixedHash (cd_candidate_id sample_candidate) ''candidate-''"
    using ag_id_valid [of sample_unicode sample_aggregate] sample_stage_ok v
    by (simp add: id sample_aggregate_def aggregate_ok_def)
  moreover have "manifest_counts_ok (gn_manifest sample_generation) ''c'' [sample_candidate]"
    by (simp add: manifest_counts_ok_def sample_generation_def)
  moreover have "ce_unicode sample_env = sample_unicode" "gn_file sample_generation = Readable ''c'' False"
    "\<And>b. ce_decode_candidates sample_env b = ([sample_candidate], False)"
    by (simp_all add: sample_env_def sample_generation_def)
  ultimately show ?thesis
    using ch by (simp add: Select_def candidate_by_id_def Let_def del: check_candidates.simps One_nat_def)
qed

theorem Select_ok_witness:
  "\<exists>sel. Select sample_env sample_generation [cd_candidate_id sample_candidate] = Inr sel \<and>
     validateCandidate sample_unicode sample_candidate = None \<and>
     sl_candidates sel (cd_candidate_id sample_candidate) = Some sample_candidate"
proof -
  obtain sel where sel: "Select sample_env sample_generation [cd_candidate_id sample_candidate] = Inr sel"
    using sample_selects by blast
  from Select_ok [OF sel] sel show ?thesis by (auto simp: sample_generation_def sample_env_def)
qed



end
