(* ===== verification/Review_Types.thy ===== *)
theory Review_Types
  imports Candidate_Generation
begin

text \<open>
  The candidate review ledger's data (\<open>internal/review/types.go\<close>), its JSON encoding, and the checks that
  \<open>ledger.go\<close> and \<open>apply.go\<close> make on a request, a transition and an event. Slices are lists (a nil and an
  empty slice are the same value), a pointer to a scope is an option.
\<close>

section \<open>Constants\<close>

abbreviation ReviewRequestSchemaVersion :: string where
  "ReviewRequestSchemaVersion \<equiv> ''candidate-review-request/v1alpha1''"
abbreviation ReviewEventSchemaVersion :: string where
  "ReviewEventSchemaVersion \<equiv> ''candidate-review-event/v1alpha1''"
abbreviation ReviewRecordSchemaVersion :: string where
  "ReviewRecordSchemaVersion \<equiv> ''candidate-review-record/v1alpha1''"

abbreviation ReviewerKindCallerAttestation :: string where "ReviewerKindCallerAttestation \<equiv> ''caller_attestation''"
abbreviation ReviewerKindSyntheticTest :: string where "ReviewerKindSyntheticTest \<equiv> ''synthetic_test''"
abbreviation ReviewerKindLegacyHuman :: string where "ReviewerKindLegacyHuman \<equiv> ''human''"

type_synonym review_status = string

abbreviation StatusPending :: review_status where "StatusPending \<equiv> ''pending''"
abbreviation StatusValidated :: review_status where "StatusValidated \<equiv> ''validated''"
abbreviation StatusRejected :: review_status where "StatusRejected \<equiv> ''rejected''"
abbreviation StatusQuarantined :: review_status where "StatusQuarantined \<equiv> ''quarantined''"

abbreviation ActionValidate :: string where "ActionValidate \<equiv> ''validate''"
abbreviation ActionReject :: string where "ActionReject \<equiv> ''reject''"
abbreviation ActionQuarantine :: string where "ActionQuarantine \<equiv> ''quarantine''"
abbreviation ActionReopen :: string where "ActionReopen \<equiv> ''reopen''"

abbreviation BasisExplicitRemember :: string where "BasisExplicitRemember \<equiv> ''explicit_remember''"
abbreviation BasisUserCorrection :: string where "BasisUserCorrection \<equiv> ''user_correction''"
abbreviation BasisStableRepetition :: string where "BasisStableRepetition \<equiv> ''stable_repetition''"
abbreviation BasisOutcomeEvidence :: string where "BasisOutcomeEvidence \<equiv> ''outcome_evidence''"
abbreviation BasisExplicitUserConfirmation :: string where
  "BasisExplicitUserConfirmation \<equiv> ''explicit_user_confirmation''"

abbreviation ScopeGlobal :: string where "ScopeGlobal \<equiv> ''global''"
abbreviation ScopeAgent :: string where "ScopeAgent \<equiv> ''agent''"
abbreviation ScopeRepository :: string where "ScopeRepository \<equiv> ''repository''"
abbreviation ScopeProject :: string where "ScopeProject \<equiv> ''project''"
abbreviation ScopeTask :: string where "ScopeTask \<equiv> ''task''"

section \<open>Records\<close>

record reviewer =
  rv_kind :: string
  rv_id :: string

record review_scope =
  sp_kind :: string
  sp_value :: string

record transition_request =
  tq_candidate_id :: string
  tq_content_sha256 :: string
  tq_expected :: review_status
  tq_action :: string
  tq_scope :: "review_scope option"
  tq_basis :: "string list"
  tq_evidence :: "string list"
  tq_reason :: string

record review_request =
  rq_schema_version :: string
  rq_reviewer :: reviewer
  rq_conflict_group :: string
  rq_transitions :: "transition_request list"

record transition =
  tr_candidate_id :: string
  tr_content_sha256 :: string
  tr_expected :: review_status
  tr_action :: string
  tr_resulting :: review_status
  tr_scope :: "review_scope option"
  tr_basis :: "string list"
  tr_evidence :: "string list"
  tr_reason :: string

record review_event =
  re_schema_version :: string
  re_event_id :: string
  re_recorded_at :: gotime
  re_device_id :: string
  re_reviewer :: reviewer
  re_request_sha256 :: string
  re_generation :: string
  re_candidates_sha256 :: string
  re_conflict_group :: string
  re_transitions :: "transition list"
  re_privacy :: string

record review_record =
  rr_schema_version :: string
  rr_sequence :: int
  rr_event :: review_event
  rr_previous :: string
  rr_hash :: string

section \<open>JSON\<close>

definition reviewer_json :: "reviewer \<Rightarrow> json" where
  "reviewer_json r = JObj [(''kind'', JStr (rv_kind r)), (''id'', JStr (rv_id r))]"

definition scope_json :: "review_scope \<Rightarrow> json" where
  "scope_json s = JObj [(''kind'', JStr (sp_kind s)), (''value'', JStr (sp_value s))]"

definition transition_request_json :: "transition_request \<Rightarrow> json" where
  "transition_request_json t = JObj
     ([(''candidate_id'', JStr (tq_candidate_id t)), (''candidate_content_sha256'', JStr (tq_content_sha256 t)),
       (''expected_status'', JStr (tq_expected t)), (''action'', JStr (tq_action t))] @
      omit_opt ''scope'' (map_option scope_json (tq_scope t)) @
      omit_list ''basis'' (map JStr (tq_basis t)) @
      omit_list ''evidence_event_ids'' (map JStr (tq_evidence t)) @
      [(''reason'', JStr (tq_reason t))])"

definition request_json :: "review_request \<Rightarrow> json" where
  "request_json r = JObj
     ([(''schema_version'', JStr (rq_schema_version r)), (''reviewer'', reviewer_json (rq_reviewer r))] @
      omit_str ''conflict_group_id'' (rq_conflict_group r) @
      [(''transitions'', JArr (map transition_request_json (rq_transitions r)))])"

definition transition_json :: "transition \<Rightarrow> json" where
  "transition_json t = JObj
     ([(''candidate_id'', JStr (tr_candidate_id t)), (''candidate_content_sha256'', JStr (tr_content_sha256 t)),
       (''expected_status'', JStr (tr_expected t)), (''action'', JStr (tr_action t)),
       (''resulting_status'', JStr (tr_resulting t))] @
      omit_opt ''scope'' (map_option scope_json (tr_scope t)) @
      omit_list ''basis'' (map JStr (tr_basis t)) @
      omit_list ''evidence_event_ids'' (map JStr (tr_evidence t)) @
      [(''reason'', JStr (tr_reason t))])"

definition review_event_json :: "review_event \<Rightarrow> json" where
  "review_event_json e = JObj
     ([(''schema_version'', JStr (re_schema_version e)), (''event_id'', JStr (re_event_id e)),
       (''recorded_at'', JTime (re_recorded_at e)), (''device_id'', JStr (re_device_id e)),
       (''reviewer'', reviewer_json (re_reviewer e)), (''request_sha256'', JStr (re_request_sha256 e)),
       (''source_candidate_generation'', JStr (re_generation e)),
       (''source_candidates_sha256'', JStr (re_candidates_sha256 e))] @
      omit_str ''conflict_group_id'' (re_conflict_group e) @
      [(''transitions'', JArr (map transition_json (re_transitions e))), (''privacy'', JStr (re_privacy e))])"

definition review_record_json :: "review_record \<Rightarrow> json" where
  "review_record_json r = JObj
     [(''schema_version'', JStr (rr_schema_version r)), (''sequence'', JInt (rr_sequence r)),
      (''event'', review_event_json (rr_event r)), (''previous_record_sha256'', JStr (rr_previous r)),
      (''record_sha256'', JStr (rr_hash r))]"

section \<open>Checks\<close>

definition ValidReviewerKind :: "string \<Rightarrow> bool" where
  "ValidReviewerKind k \<longleftrightarrow>
     k \<in> set [ReviewerKindCallerAttestation, ReviewerKindSyntheticTest, ReviewerKindLegacyHuman]"

definition validStatus :: "review_status \<Rightarrow> bool" where
  "validStatus s \<longleftrightarrow> s \<in> set [StatusPending, StatusValidated, StatusRejected, StatusQuarantined]"

definition validScope :: "review_scope \<Rightarrow> bool" where
  "validScope s \<longleftrightarrow>
     \<not> blank (sp_value s) \<and> length (sp_value s) \<le> 4096 \<and> \<not> containsAny (sp_value s) [CHR 0x0D, CHR 0x0A] \<and>
     (if sp_kind s = ScopeGlobal then sp_value s = ''*''
      else if sp_kind s = ScopeAgent then
        sp_value s \<in> set [AgentCodex, AgentClaudeCode, AgentOpenCode, AgentDeepSeekHarness, AgentUnknown]
      else sp_kind s \<in> set [ScopeRepository, ScopeProject, ScopeTask])"

definition validBasis :: "string \<Rightarrow> bool" where
  "validBasis b \<longleftrightarrow> b \<in> set [BasisExplicitRemember, BasisUserCorrection, BasisStableRepetition,
     BasisOutcomeEvidence, BasisExplicitUserConfirmation]"

definition sortedUniqueBasis :: "string list \<Rightarrow> bool" where
  "sortedUniqueBasis vs \<longleftrightarrow> list_all validBasis vs \<and> strictly_sorted vs"

definition sortedUniqueIds :: "string list \<Rightarrow> bool" where
  "sortedUniqueIds vs \<longleftrightarrow> list_all (\<lambda>v. \<not> blank v) vs \<and> strictly_sorted vs"

definition candidateKey :: "string \<Rightarrow> string \<Rightarrow> string \<Rightarrow> string" where
  "candidateKey candidates_sha256 candidate_id content_sha256 =
     candidates_sha256 @ CHR 0x00 # candidate_id @ CHR 0x00 # content_sha256"

datatype review_error =
    RecordEnvelope
  | EventEnvelope
  | EventConflictGroup
  | TransitionIdentity
  | ValidateInvalid
  | RejectInvalid
  | QuarantineInvalid
  | ReopenInvalid
  | ActionInvalid
  | BasisOrEvidenceInvalid
  | TransitionsNotSorted
  | RepeatedTransition
  | ConflictTransitionInvalid
  | NotIndependent
  | IncompleteResolution
  | RecordEncode
  | RecordHashMismatch
  | UnexpectedStatus
  | InvalidStart

definition bare :: "'a option \<Rightarrow> string list \<Rightarrow> string list \<Rightarrow> bool" where
  "bare scope basis evidence \<longleftrightarrow> scope = None \<and> basis = [] \<and> evidence = []"

definition check_action :: "transition \<Rightarrow> review_error option" where
  "check_action t =
     (let from = tr_expected t; to = tr_resulting t in
      if tr_action t = ActionValidate then
        fail_if (to \<noteq> StatusValidated \<or> from \<noteq> StatusPending \<and> from \<noteq> StatusQuarantined \<or>
                 (case tr_scope t of None \<Rightarrow> True | Some s \<Rightarrow> \<not> validScope s) \<or> tr_basis t = []) ValidateInvalid
      else if tr_action t = ActionReject then
        fail_if (to \<noteq> StatusRejected \<or> from = StatusRejected \<or>
                 \<not> bare (tr_scope t) (tr_basis t) (tr_evidence t)) RejectInvalid
      else if tr_action t = ActionQuarantine then
        fail_if (to \<noteq> StatusQuarantined \<or> from \<noteq> StatusPending \<and> from \<noteq> StatusValidated \<or>
                 \<not> bare (tr_scope t) (tr_basis t) (tr_evidence t)) QuarantineInvalid
      else if tr_action t = ActionReopen then
        fail_if (from \<noteq> StatusRejected \<and> from \<noteq> StatusQuarantined \<or>
                 to \<noteq> StatusPending \<and> to \<noteq> StatusQuarantined \<or> from = to \<or>
                 \<not> bare (tr_scope t) (tr_basis t) (tr_evidence t)) ReopenInvalid
      else Some ActionInvalid)"

definition validateTransitionSyntax :: "transition \<Rightarrow> review_error option" where
  "validateTransitionSyntax t = first_error
     [fail_if (\<not> validPrefixedHash (tr_candidate_id t) ''candidate-'' \<or> \<not> validSHA256 (tr_content_sha256 t) \<or>
               \<not> validStatus (tr_expected t) \<or> \<not> validStatus (tr_resulting t) \<or> blank (tr_reason t) \<or>
               16 * 1024 < length (tr_reason t)) TransitionIdentity,
      check_action t,
      fail_if (\<not> sortedUniqueBasis (tr_basis t) \<or> \<not> sortedUniqueIds (tr_evidence t)) BasisOrEvidenceInvalid]"

definition event_key :: "review_event \<Rightarrow> transition \<Rightarrow> string" where
  "event_key e t = candidateKey (re_candidates_sha256 e) (tr_candidate_id t) (tr_content_sha256 t)"

fun check_transitions :: "review_event \<Rightarrow> string \<Rightarrow> string list \<Rightarrow> transition list \<Rightarrow> review_error option" where
  "check_transitions e previousID seen [] = None"
| "check_transitions e previousID seen (t # ts) =
     (case validateTransitionSyntax t of
        Some x \<Rightarrow> Some x
      | None \<Rightarrow>
          if previousID \<noteq> [] \<and> tr_candidate_id t \<le> previousID then Some TransitionsNotSorted
          else if event_key e t \<in> set seen then Some RepeatedTransition
          else if re_conflict_group e \<noteq> [] \<and> (tr_expected t \<noteq> StatusQuarantined \<or>
                    tr_action t \<noteq> ActionValidate \<and> tr_action t \<noteq> ActionReject) then Some ConflictTransitionInvalid
          else check_transitions e (tr_candidate_id t) (event_key e t # seen) ts)"

definition validations :: "transition list \<Rightarrow> nat" where
  "validations ts = length (filter (\<lambda>t. tr_action t = ActionValidate) ts)"

definition validateEvent_review :: "review_event \<Rightarrow> review_error option" where
  "validateEvent_review e = first_error
     [fail_if (re_schema_version e \<noteq> ReviewEventSchemaVersion \<or> \<not> hasPrefix (re_event_id e) ''review-'' \<or>
               isZeroTime (re_recorded_at e) \<or> blank (re_device_id e) \<or>
               \<not> ValidReviewerKind (rv_kind (re_reviewer e)) \<or> blank (rv_id (re_reviewer e)) \<or>
               rv_id (re_reviewer e) \<noteq> trimSpace (rv_id (re_reviewer e)) \<or> 256 < length (rv_id (re_reviewer e)) \<or>
               \<not> validSHA256 (re_request_sha256 e) \<or> blank (re_generation e) \<or>
               filepathBase (re_generation e) \<noteq> re_generation e \<or> \<not> validSHA256 (re_candidates_sha256 e) \<or>
               re_privacy e \<noteq> ''local_only'' \<or> re_transitions e = []) EventEnvelope,
      fail_if (re_conflict_group e \<noteq> [] \<and> \<not> validPrefixedHash (re_conflict_group e) ''candidate-conflict-'')
        EventConflictGroup,
      check_transitions e [] [] (re_transitions e),
      (if re_conflict_group e = [] then
         fail_if (length (re_transitions e) \<noteq> 1 \<or>
                  tr_action (hd (re_transitions e)) = ActionValidate \<and>
                  tr_expected (hd (re_transitions e)) = StatusQuarantined) NotIndependent
       else fail_if (length (re_transitions e) < 2 \<or> 1 < validations (re_transitions e)) IncompleteResolution)]"

datatype request_error = RequestEnvelope | RequestConflictGroup | RequestTransition | RequestNotSorted
  | RequestScopeAndBasis | RequestNotBare | RequestAction | RequestNotSingle

fun check_requests :: "string \<Rightarrow> transition_request list \<Rightarrow> request_error option" where
  "check_requests previousID [] = None"
| "check_requests previousID (t # ts) =
     (case first_error
        [fail_if (\<not> validPrefixedHash (tq_candidate_id t) ''candidate-'' \<or> \<not> validSHA256 (tq_content_sha256 t) \<or>
                  \<not> validStatus (tq_expected t) \<or> blank (tq_reason t) \<or> 16 * 1024 < length (tq_reason t) \<or>
                  \<not> sortedUniqueBasis (tq_basis t) \<or> \<not> sortedUniqueIds (tq_evidence t)) RequestTransition,
         fail_if (previousID \<noteq> [] \<and> tq_candidate_id t \<le> previousID) RequestNotSorted,
         (if tq_action t = ActionValidate then
            fail_if ((case tq_scope t of None \<Rightarrow> True | Some s \<Rightarrow> \<not> validScope s) \<or> tq_basis t = []) RequestScopeAndBasis
          else if tq_action t \<in> set [ActionReject, ActionQuarantine, ActionReopen] then
            fail_if (\<not> bare (tq_scope t) (tq_basis t) (tq_evidence t)) RequestNotBare
          else Some RequestAction)] of
        Some x \<Rightarrow> Some x
      | None \<Rightarrow> check_requests (tq_candidate_id t) ts)"

definition validateRequestEnvelope :: "review_request \<Rightarrow> request_error option" where
  "validateRequestEnvelope r = first_error
     [fail_if (rq_schema_version r \<noteq> ReviewRequestSchemaVersion \<or> \<not> ValidReviewerKind (rv_kind (rq_reviewer r)) \<or>
               blank (rv_id (rq_reviewer r)) \<or> rv_id (rq_reviewer r) \<noteq> trimSpace (rv_id (rq_reviewer r)) \<or>
               256 < length (rv_id (rq_reviewer r)) \<or> rq_transitions r = []) RequestEnvelope,
      fail_if (rq_conflict_group r \<noteq> [] \<and> \<not> validPrefixedHash (rq_conflict_group r) ''candidate-conflict-'')
        RequestConflictGroup,
      check_requests [] (rq_transitions r),
      fail_if (rq_conflict_group r = [] \<and> length (rq_transitions r) \<noteq> 1) RequestNotSingle]"

end
