(* ===== verification/Review.thy ===== *)
theory Review
  imports Review_Types Sequenced_Log
begin

text \<open>
  The candidate review ledger (\<open>internal/review/ledger.go\<close>, \<open>apply.go\<close>, \<open>summary.go\<close>): its hash chain, the
  replay of its file with and without the semantic checks, and the operations \<open>Apply\<close>, \<open>GetStatus\<close>,
  \<open>ResolveCurrentValidation\<close>, \<open>VerifyValidationRecord\<close> and \<open>Summarize\<close>. The store is the evidence store with
  the review file and the review lock. Arguments: \<open>env\<close> (candidate generations), \<open>dec\<close> and \<open>rdec\<close>
  (\<open>json.Unmarshal\<close> of an evidence and of a review record), the faults of system calls, the clock and random
  bytes. Go visits maps in random order, which only decides the error that is reported first; the model
  visits them in the order of the lists that filled them.
\<close>

section \<open>State\<close>

record review_store = evidence_store +
  rst_file :: os_file
  rst_lock :: bool

record review_state =
  rs_statuses :: "string \<Rightarrow> review_status option"
  rs_events :: "string \<Rightarrow> nat"
  rs_last_by_key :: "string \<Rightarrow> string"
  rs_history :: "review_record list"
  rs_last_hash :: string
  rs_next :: int
  rs_records :: int

definition initial_review_state :: review_state where
  "initial_review_state = \<lparr>rs_statuses = (\<lambda>_. None), rs_events = (\<lambda>_. 0), rs_last_by_key = (\<lambda>_. []),
     rs_history = [], rs_last_hash = [], rs_next = 1, rs_records = 0\<rparr>"

section \<open>Records\<close>

definition makeRecord_review :: "review_event \<Rightarrow> int \<Rightarrow> string \<Rightarrow> review_record option" where
  "makeRecord_review e n previous =
     map_option (\<lambda>x. \<lparr>rr_schema_version = ReviewRecordSchemaVersion, rr_sequence = n, rr_event = e,
                     rr_previous = previous, rr_hash = sha256_hex x\<rparr>)
       (event_envelope ReviewRecordSchemaVersion n (review_event_json e) previous)"

definition validateRecord_review :: "review_record \<Rightarrow> int \<Rightarrow> string \<Rightarrow> review_error option" where
  "validateRecord_review r expected previous = first_error
     [fail_if (rr_schema_version r \<noteq> ReviewRecordSchemaVersion \<or> rr_sequence r \<noteq> expected \<or>
               rr_previous r \<noteq> previous \<or> \<not> validSHA256 (rr_hash r)) RecordEnvelope,
      validateEvent_review (rr_event r),
      (case makeRecord_review (rr_event r) (rr_sequence r) previous of
         None \<Rightarrow> Some RecordEncode
       | Some m \<Rightarrow> fail_if (rr_hash m \<noteq> rr_hash r) RecordHashMismatch)]"

definition check_expected :: "review_state \<Rightarrow> review_event \<Rightarrow> transition \<Rightarrow> review_error option" where
  "check_expected st e t =
     (case rs_statuses st (event_key e t) of
        Some current \<Rightarrow> fail_if (tr_expected t \<noteq> current) UnexpectedStatus
      | None \<Rightarrow> fail_if (tr_expected t \<noteq> StatusPending \<and> tr_expected t \<noteq> StatusQuarantined) InvalidStart)"

definition apply_transition :: "review_record \<Rightarrow> transition \<Rightarrow> review_state \<Rightarrow> review_state" where
  "apply_transition r t st =
     (let key = event_key (rr_event r) t in
      st\<lparr>rs_statuses := (rs_statuses st)(key \<mapsto> tr_resulting t),
         rs_events := (rs_events st)(key := rs_events st key + 1),
         rs_last_by_key := (rs_last_by_key st)(key := rr_hash r)\<rparr>)"

definition replay_step_review :: "review_record \<Rightarrow> review_state \<Rightarrow> review_error + review_state" where
  "replay_step_review r st =
     (case first_error (validateRecord_review r (rs_next st) (rs_last_hash st) #
             map (check_expected st (rr_event r)) (re_transitions (rr_event r))) of
        Some e \<Rightarrow> Inl e
      | None \<Rightarrow>
          (let st' = fold (apply_transition r) (re_transitions (rr_event r)) st in
           Inr (st'\<lparr>rs_records := rs_records st' + 1, rs_history := rs_history st' @ [r],
                    rs_last_hash := rr_hash r, rs_next := rs_next st' + 1\<rparr>)))"

definition replay_review :: "(string \<Rightarrow> review_record option) \<Rightarrow> os_file \<Rightarrow> review_state \<times> review_error log_error option" where
  "replay_review rdec f = replay_log rdec replay_step_review f initial_review_state"

section \<open>Transitions\<close>

definition initialStatus :: "candidate \<Rightarrow> review_status" where
  "initialStatus c = (if vd_status (cd_validation c) = CandidateQuarantined then StatusQuarantined else StatusPending)"

datatype transition_error =
    ValidateNotPending
  | RejectUnchanged
  | QuarantineNotAllowed
  | ReopenNotAllowed
  | ReopenUnchanged
  | ReviewActionInvalid

definition resultingStatus ::
  "string \<Rightarrow> review_status \<Rightarrow> review_status \<Rightarrow> bool \<Rightarrow> transition_error + review_status" where
  "resultingStatus action current base conflict =
     (if action = ActionValidate then
        (if current \<noteq> StatusPending \<and> \<not> (conflict \<and> current = StatusQuarantined) then Inl ValidateNotPending
         else Inr StatusValidated)
      else if action = ActionReject then
        (if current = StatusRejected then Inl RejectUnchanged else Inr StatusRejected)
      else if action = ActionQuarantine then
        (if current \<noteq> StatusPending \<and> current \<noteq> StatusValidated then Inl QuarantineNotAllowed
         else Inr StatusQuarantined)
      else if action = ActionReopen then
        (if current \<noteq> StatusRejected \<and> current \<noteq> StatusQuarantined then Inl ReopenNotAllowed
         else if current = base then Inl ReopenUnchanged else Inr base)
      else Inl ReviewActionInvalid)"

definition hasCandidateSupport :: "string list \<Rightarrow> string \<Rightarrow> bool" where
  "hasCandidateSupport values w = containsSortedString values w"

definition hasBasis :: "string list \<Rightarrow> string \<Rightarrow> bool" where
  "hasBasis values w = containsSortedString values w"

datatype basis_error = BasisNotInEvidence string | BasisNeedsEvidence string | BasisNotStrong

definition check_basis :: "candidate \<Rightarrow> transition_request \<Rightarrow> string \<Rightarrow> basis_error option" where
  "check_basis c t b =
     (if b \<in> set [BasisExplicitRemember, BasisUserCorrection, BasisStableRepetition] then
        fail_if (\<not> hasCandidateSupport (cd_support_types c) b) (BasisNotInEvidence b)
      else if b \<in> set [BasisOutcomeEvidence, BasisExplicitUserConfirmation] then
        fail_if (tq_evidence t = []) (BasisNeedsEvidence b)
      else None)"

definition validateBasis :: "candidate \<Rightarrow> transition_request \<Rightarrow> basis_error option" where
  "validateBasis c t = first_error
     (map (check_basis c t) (tq_basis t) @ [fail_if (\<not> list_ex validBasis (tq_basis t)) BasisNotStrong])"

datatype prepare_error =
    GroupNotPresent
  | GroupIncomplete
  | ContentMismatch
  | StatusMismatch
  | PrepareTransition transition_error
  | FullGroupOnly
  | PrepareBasis basis_error
  | ResolutionInvalid
  | TooManyValidations
  | CandidateAbsent

text \<open>
  One requested transition; \<open>selection.Candidates[id]\<close> is present for every request of a selection made
  for it (\<open>CandidateAbsent\<close> stands for the zero candidate, whose content hash never matches).
\<close>

definition prepare_transition ::
  "review_request \<Rightarrow> string \<Rightarrow> selection \<Rightarrow> (string \<Rightarrow> review_status option) \<Rightarrow> transition_request
    \<Rightarrow> prepare_error + transition" where
  "prepare_transition request sha sel statuses t =
     (case sl_candidates sel (tq_candidate_id t) of
        None \<Rightarrow> Inl CandidateAbsent
      | Some c \<Rightarrow>
          if tq_content_sha256 t \<noteq> cd_content_sha256 c then Inl ContentMismatch
          else
            (let current = (case statuses (candidateKey sha (cd_candidate_id c) (cd_content_sha256 c)) of
                              Some reviewed \<Rightarrow> reviewed | None \<Rightarrow> initialStatus c);
                 group = rq_conflict_group request
             in if tq_expected t \<noteq> current then Inl StatusMismatch
                else case resultingStatus (tq_action t) current (initialStatus c) (group \<noteq> []) of
                  Inl e \<Rightarrow> Inl (PrepareTransition e)
                | Inr resulting \<Rightarrow>
                    (case first_error
                       [(if tq_action t = ActionValidate then first_error
                           [fail_if (cd_conflict_group_id c \<noteq> [] \<and> group \<noteq> cd_conflict_group_id c) FullGroupOnly,
                            map_option PrepareBasis (validateBasis c t)]
                         else None),
                        fail_if (group \<noteq> [] \<and> (cd_conflict_group_id c \<noteq> group \<or> current \<noteq> StatusQuarantined \<or>
                                  tq_action t \<noteq> ActionValidate \<and> tq_action t \<noteq> ActionReject)) ResolutionInvalid] of
                       Some e \<Rightarrow> Inl e
                     | None \<Rightarrow> Inr
                         \<lparr>tr_candidate_id = cd_candidate_id c, tr_content_sha256 = cd_content_sha256 c,
                          tr_expected = tq_expected t, tr_action = tq_action t, tr_resulting = resulting,
                          tr_scope = tq_scope t, tr_basis = tq_basis t, tr_evidence = tq_evidence t,
                          tr_reason = tq_reason t\<rparr>)))"

fun prepare_all ::
  "review_request \<Rightarrow> string \<Rightarrow> selection \<Rightarrow> (string \<Rightarrow> review_status option) \<Rightarrow> transition_request list
    \<Rightarrow> prepare_error + transition list" where
  "prepare_all request sha sel statuses [] = Inr []"
| "prepare_all request sha sel statuses (t # ts) =
     (case prepare_transition request sha sel statuses t of
        Inl e \<Rightarrow> Inl e
      | Inr p \<Rightarrow>
          (case prepare_all request sha sel statuses ts of Inl e \<Rightarrow> Inl e | Inr ps \<Rightarrow> Inr (p # ps)))"

definition prepareTransitions ::
  "review_request \<Rightarrow> string \<Rightarrow> selection \<Rightarrow> (string \<Rightarrow> review_status option) \<Rightarrow> prepare_error + transition list" where
  "prepareTransitions request sha sel statuses =
     (let group = rq_conflict_group request in
      case (if group = [] then None
            else (case sl_conflict_groups sel group of
                    None \<Rightarrow> Some GroupNotPresent
                  | Some members \<Rightarrow>
                      fail_if (members \<noteq> map tq_candidate_id (rq_transitions request)) GroupIncomplete)) of
        Some e \<Rightarrow> Inl e
      | None \<Rightarrow>
          (case prepare_all request sha sel statuses (rq_transitions request) of
             Inl e \<Rightarrow> Inl e
           | Inr ts \<Rightarrow> if group \<noteq> [] \<and> 1 < validations ts then Inl TooManyValidations else Inr ts))"

section \<open>Evidence\<close>

datatype payload_error = EvidenceIncomplete | EvidenceBlob blob_issue | EvidenceRead | EvidenceMismatch

definition verifyEvidencePayload :: "'a evidence_store_scheme \<Rightarrow> event \<Rightarrow> payload_error option" where
  "verifyEvidencePayload s e =
     (if cp_status (ev_completeness e) \<noteq> CompletenessComplete then Some EvidenceIncomplete
      else case ev_payload e of
        None \<Rightarrow> Some EvidenceIncomplete
      | Some p \<Rightarrow>
          (case pl_blob p of
             None \<Rightarrow> None
           | Some b \<Rightarrow>
               (case OpenBlob s b of
                  Inl i \<Rightarrow> Some (EvidenceBlob i)
                | Inr (Readable c failed) \<Rightarrow>
                    if failed then Some EvidenceRead
                    else fail_if (int (length c) \<noteq> pl_size p \<or> sha256_hex c \<noteq> pl_sha256 p) EvidenceMismatch
                | Inr _ \<Rightarrow> Some EvidenceRead)))"

datatype review_evidence_error =
    NoReferences
  | EvidenceLedger "string visit_error log_error"
  | EvidenceNotFound string
  | EvidenceNotUser string
  | EvidencePayload string payload_error
  | NoResultEvent string
  | NoConfirmation string

text \<open>The state of the visitor's closure is the map of the events found so far.\<close>

definition keep_candidate_event ::
  "string list \<Rightarrow> ledger_record \<Rightarrow> (string \<Rightarrow> event option) \<Rightarrow> string + (string \<Rightarrow> event option)" where
  "keep_candidate_event wanted r found =
     (let i = ev_event_id (lr_event r) in
      if i \<notin> set wanted then Inr found
      else if found i \<noteq> None \<and> found i \<noteq> Some (lr_event r) then Inl i
      else Inr (found(i \<mapsto> lr_event r)))"

definition keep_event ::
  "string list \<Rightarrow> ledger_record \<Rightarrow> (string \<Rightarrow> event option) \<Rightarrow> string + (string \<Rightarrow> event option)" where
  "keep_event wanted r found =
     (let i = ev_event_id (lr_event r) in
      if i \<in> set wanted then Inr (found(i \<mapsto> lr_event r)) else Inr found)"

definition candidate_event_ids :: "candidate \<Rightarrow> string list" where
  "candidate_event_ids c = concat (map (\<lambda>ob. ob_evidence_event_ids ob @ ob_correction_event_ids ob) (cd_observations c))"

definition check_candidate_event ::
  "'a evidence_store_scheme \<Rightarrow> (string \<Rightarrow> event option) \<Rightarrow> string \<Rightarrow> review_evidence_error option" where
  "check_candidate_event s found i =
     (case found i of
        None \<Rightarrow> Some (EvidenceNotFound i)
      | Some e \<Rightarrow>
          if ev_kind e \<noteq> KindUserMessage then Some (EvidenceNotUser i)
          else map_option (EvidencePayload i) (verifyEvidencePayload s e))"

definition verifyCandidateEvidence ::
  "(string \<Rightarrow> ledger_record option) \<Rightarrow> 'a evidence_store_scheme \<Rightarrow> candidate list \<Rightarrow> review_evidence_error option" where
  "verifyCandidateEvidence dec s selected =
     (let wanted = concat (map candidate_event_ids selected) in
      if wanted = [] then Some NoReferences
      else case visitRecords dec (keep_candidate_event wanted) (st_events s) (\<lambda>_. None) of
        (found, Inl e) \<Rightarrow> Some (EvidenceLedger e)
      | (found, Inr _) \<Rightarrow> first_error (map (check_candidate_event s found) wanted))"

definition check_referenced_event ::
  "'a evidence_store_scheme \<Rightarrow> (string \<Rightarrow> event option) \<Rightarrow> string \<Rightarrow> review_evidence_error option" where
  "check_referenced_event s found i =
     (case found i of
        None \<Rightarrow> Some (EvidenceNotFound i)
      | Some e \<Rightarrow> map_option (EvidencePayload i) (verifyEvidencePayload s e))"

definition found_kind :: "(string \<Rightarrow> event option) \<Rightarrow> string \<Rightarrow> string" where
  "found_kind found i = (case found i of None \<Rightarrow> [] | Some e \<Rightarrow> ev_kind e)"

definition check_basis_events :: "(string \<Rightarrow> event option) \<Rightarrow> transition \<Rightarrow> review_evidence_error option" where
  "check_basis_events found t = first_error
     [fail_if (hasBasis (tr_basis t) BasisOutcomeEvidence \<and>
               \<not> list_ex (\<lambda>i. found_kind found i \<in> set [KindToolResult, KindFileChange]) (tr_evidence t))
        (NoResultEvent (tr_candidate_id t)),
      fail_if (hasBasis (tr_basis t) BasisExplicitUserConfirmation \<and>
               \<not> list_ex (\<lambda>i. found_kind found i = KindUserMessage) (tr_evidence t))
        (NoConfirmation (tr_candidate_id t))]"

definition verifyReferencedEvidence ::
  "(string \<Rightarrow> ledger_record option) \<Rightarrow> 'a evidence_store_scheme \<Rightarrow> transition list \<Rightarrow> review_evidence_error option" where
  "verifyReferencedEvidence dec s ts =
     (let wanted = concat (map tr_evidence ts) in
      if wanted = [] then None
      else case visitRecords dec (keep_event wanted) (st_events s) (\<lambda>_. None) of
        (found, Inl e) \<Rightarrow> Some (EvidenceLedger e)
      | (found, Inr _) \<Rightarrow>
          first_error (map (check_referenced_event s found) wanted @ map (check_basis_events found) ts))"

section \<open>The semantic replay\<close>

definition hashRequest :: "generation \<Rightarrow> review_request \<Rightarrow> string option" where
  "hashRequest g request = map_option sha256_hex (marshal (JObj
     [(''source_candidate_generation'', JStr (gn_name g)),
      (''source_candidates_sha256'', JStr (cm_candidates_sha256 (gn_manifest g))),
      (''request'', request_json request)]))"

definition request_of :: "transition \<Rightarrow> transition_request" where
  "request_of t = \<lparr>tq_candidate_id = tr_candidate_id t, tq_content_sha256 = tr_content_sha256 t,
     tq_expected = tr_expected t, tq_action = tr_action t, tq_scope = tr_scope t, tq_basis = tr_basis t,
     tq_evidence = tr_evidence t, tq_reason = tr_reason t\<rparr>"

definition event_request :: "review_event \<Rightarrow> review_request" where
  "event_request e = \<lparr>rq_schema_version = ReviewRequestSchemaVersion, rq_reviewer = re_reviewer e,
     rq_conflict_group = re_conflict_group e, rq_transitions = map request_of (re_transitions e)\<rparr>"

definition selected_candidates :: "selection \<Rightarrow> string list \<Rightarrow> candidate list" where
  "selected_candidates sel ids = List.map_filter (sl_candidates sel) ids"

datatype review_failure =
    ReplayFailed "review_error log_error"
  | ConflictingHashes string
  | SourceGeneration string generation_error
  | SourceHashChanged string
  | SourceEvidence string review_evidence_error
  | RecordRequest int request_error
  | RecordReplay int prepare_error
  | NotReproducible int
  | RecordEvidence int review_evidence_error
  | RequestEncode
  | RequestHashMismatch int

fun check_sources :: "review_record list \<Rightarrow> (string \<Rightarrow> string option) \<Rightarrow> review_failure option" where
  "check_sources [] wanted = None"
| "check_sources (r # rs) wanted =
     (let name = re_generation (rr_event r); sha = re_candidates_sha256 (rr_event r) in
      case wanted name of
        None \<Rightarrow> check_sources rs (wanted(name \<mapsto> sha))
      | Some sha' \<Rightarrow> if sha' \<noteq> sha then Some (ConflictingHashes name) else check_sources rs wanted)"

definition records_of :: "string \<Rightarrow> review_record list \<Rightarrow> review_record list" where
  "records_of name rs = filter (\<lambda>r. re_generation (rr_event r) = name) rs"

definition record_ids :: "review_record \<Rightarrow> string list" where
  "record_ids r = map tr_candidate_id (re_transitions (rr_event r))"

definition source_ids :: "string \<Rightarrow> review_record list \<Rightarrow> string list" where
  "source_ids name rs = sort (remdups (concat (map record_ids (records_of name rs))))"

definition verify_source ::
  "candidate_env \<Rightarrow> (string \<Rightarrow> ledger_record option) \<Rightarrow> 'a evidence_store_scheme \<Rightarrow> review_record list
    \<Rightarrow> string \<Rightarrow> review_failure + generation \<times> selection" where
  "verify_source env dec s rs name =
     (case OpenGeneration env name of
        Inl e \<Rightarrow> Inl (SourceGeneration name e)
      | Inr g \<Rightarrow>
          if map (re_candidates_sha256 \<circ> rr_event) (take 1 (records_of name rs)) \<noteq> [cm_candidates_sha256 (gn_manifest g)]
          then Inl (SourceHashChanged name)
          else (case Select env g (source_ids name rs) of
                  Inl e \<Rightarrow> Inl (SourceGeneration name e)
                | Inr sel \<Rightarrow>
                    (case verifyCandidateEvidence dec s (selected_candidates sel (source_ids name rs)) of
                       Some e \<Rightarrow> Inl (SourceEvidence name e)
                     | None \<Rightarrow> Inr (g, sel))))"

fun verify_sources ::
  "(string \<Rightarrow> review_failure + generation \<times> selection) \<Rightarrow> string list
    \<Rightarrow> (string \<Rightarrow> (generation \<times> selection) option) \<Rightarrow> review_failure + (string \<Rightarrow> (generation \<times> selection) option)" where
  "verify_sources verify [] verified = Inr verified"
| "verify_sources verify (name # names) verified =
     (case verify name of
        Inl e \<Rightarrow> Inl e
      | Inr v \<Rightarrow> verify_sources verify names (verified(name \<mapsto> v)))"

definition source_names :: "review_record list \<Rightarrow> string list" where
  "source_names rs = remdups (map (re_generation \<circ> rr_event) rs)"

definition set_statuses :: "string \<Rightarrow> transition list \<Rightarrow> (string \<Rightarrow> review_status option) \<Rightarrow> string \<Rightarrow> review_status option" where
  "set_statuses sha ts statuses = fold (\<lambda>t m.
     m(candidateKey sha (tr_candidate_id t) (tr_content_sha256 t) \<mapsto> tr_resulting t)) ts statuses"

definition semantic_step ::
  "(string \<Rightarrow> ledger_record option) \<Rightarrow> 'a evidence_store_scheme \<Rightarrow> (string \<Rightarrow> (generation \<times> selection) option)
    \<Rightarrow> review_record \<Rightarrow> (string \<Rightarrow> review_status option) \<Rightarrow> review_failure + (string \<Rightarrow> review_status option)" where
  "semantic_step dec s verified r statuses =
     (let e = rr_event r; n = rr_sequence r; request = event_request e in
      case verified (re_generation e) of
        None \<Rightarrow> Inl (SourceHashChanged (re_generation e))
      | Some (g, sel) \<Rightarrow>
          (let sha = cm_candidates_sha256 (gn_manifest g) in
           case validateRequestEnvelope request of
             Some x \<Rightarrow> Inl (RecordRequest n x)
           | None \<Rightarrow>
               (case prepareTransitions request sha sel statuses of
                  Inl x \<Rightarrow> Inl (RecordReplay n x)
                | Inr prepared \<Rightarrow>
                    (case first_error
                       [fail_if (prepared \<noteq> re_transitions e) (NotReproducible n),
                        map_option (RecordEvidence n) (verifyReferencedEvidence dec s prepared),
                        (case hashRequest g request of
                           None \<Rightarrow> Some RequestEncode
                         | Some d \<Rightarrow> fail_if (d \<noteq> re_request_sha256 e) (RequestHashMismatch n))] of
                       Some x \<Rightarrow> Inl x
                     | None \<Rightarrow> Inr (set_statuses sha prepared statuses)))))"

fun semantic_steps ::
  "('r \<Rightarrow> 's \<Rightarrow> 'e + 's) \<Rightarrow> 'r list \<Rightarrow> 's \<Rightarrow> 'e + 's" where
  "semantic_steps step [] st = Inr st"
| "semantic_steps step (r # rs) st = (case step r st of Inl e \<Rightarrow> Inl e | Inr st' \<Rightarrow> semantic_steps step rs st')"

definition verifyReviewSemantics ::
  "candidate_env \<Rightarrow> (string \<Rightarrow> ledger_record option) \<Rightarrow> 'a evidence_store_scheme \<Rightarrow> review_record list
    \<Rightarrow> review_failure option" where
  "verifyReviewSemantics env dec s rs =
     (if rs = [] then None
      else case check_sources rs (\<lambda>_. None) of
        Some e \<Rightarrow> Some e
      | None \<Rightarrow>
          (case verify_sources (verify_source env dec s rs) (source_names rs) (\<lambda>_. None) of
             Inl e \<Rightarrow> Some e
           | Inr verified \<Rightarrow>
               (case semantic_steps (semantic_step dec s verified) rs (\<lambda>_. None) of
                  Inl e \<Rightarrow> Some e | Inr _ \<Rightarrow> None)))"

definition replayVerified_review ::
  "candidate_env \<Rightarrow> (string \<Rightarrow> ledger_record option) \<Rightarrow> (string \<Rightarrow> review_record option) \<Rightarrow> 'a review_store_scheme
    \<Rightarrow> review_state \<times> review_failure option" where
  "replayVerified_review env dec rdec s =
     (case replay_review rdec (rst_file s) of
        (st, Some e) \<Rightarrow> (st, Some (ReplayFailed e))
      | (st, None) \<Rightarrow> (st, verifyReviewSemantics env dec s (rs_history st)))"

record review_report =
  rp_records :: int
  rp_last :: string
  rp_issues :: "review_failure list"

definition Verify_review ::
  "candidate_env \<Rightarrow> (string \<Rightarrow> ledger_record option) \<Rightarrow> (string \<Rightarrow> review_record option) \<Rightarrow> 'a review_store_scheme
    \<Rightarrow> review_report" where
  "Verify_review env dec rdec s =
     (case replayVerified_review env dec rdec s of
        (st, e) \<Rightarrow> \<lparr>rp_records = rs_records st, rp_last = rs_last_hash st,
                    rp_issues = (case e of None \<Rightarrow> [] | Some x \<Rightarrow> [x])\<rparr>)"

section \<open>Operations\<close>

definition acquireReviewLock :: "lock_fault option \<Rightarrow> 'a review_store_scheme \<Rightarrow> 'a review_store_scheme \<times> lock_error option" where
  "acquireReviewLock fault s =
     (case acquire_lock fault (rst_lock s) of (held, e) \<Rightarrow> (s\<lparr>rst_lock := held\<rparr>, e))"

definition releaseReviewLock :: "bool \<Rightarrow> 'a review_store_scheme \<Rightarrow> 'a review_store_scheme" where
  "releaseReviewLock ok s = (if ok then s\<lparr>rst_lock := False\<rparr> else s)"

definition appendRecord_review ::
  "append_fault option \<Rightarrow> review_record \<Rightarrow> 'a review_store_scheme \<Rightarrow> 'a review_store_scheme \<times> append_fault option" where
  "appendRecord_review fault r s =
     (case append_bytes fault (encode_line (review_record_json r)) (rst_file s) of
        (f, e) \<Rightarrow> (s\<lparr>rst_file := f\<rparr>, e))"

record review_faults =
  rf_lock :: "lock_fault option"
  rf_random :: bool
  rf_append :: "append_fault option"
  rf_release_ok :: bool
  rf_release_again_ok :: bool

definition no_review_faults :: review_faults where
  "no_review_faults = \<lparr>rf_lock = None, rf_random = False, rf_append = None, rf_release_ok = True,
     rf_release_again_ok = True\<rparr>"

datatype apply_error =
    ApplyRequest request_error
  | ApplyGeneration generation_error
  | ApplyCandidateEvidence review_evidence_error
  | ApplyLock lock_error
  | ApplyReplay review_failure
  | ApplyPrepare prepare_error
  | ApplyReferenced review_evidence_error
  | ApplyEncode
  | ApplyRandom
  | ApplyEvent review_error
  | ApplyAppend append_fault
  | ApplyRelease

record apply_result =
  ar_event_id :: string
  ar_sequence :: int
  ar_hash :: string
  ar_transitions :: "transition list"

text \<open>
  What \<open>Apply\<close> does between taking the lock and writing: it builds the record to append. \<open>now\<close> is the clock,
  \<open>random\<close> what the random source gave for the event id.
\<close>

definition review_record_for ::
  "candidate_env \<Rightarrow> (string \<Rightarrow> ledger_record option) \<Rightarrow> (string \<Rightarrow> review_record option) \<Rightarrow> bool \<Rightarrow> gotime \<Rightarrow> string
    \<Rightarrow> generation \<Rightarrow> selection \<Rightarrow> review_request \<Rightarrow> 'a review_store_scheme \<Rightarrow> apply_error + review_record" where
  "review_record_for env dec rdec random_fails now random g sel request s =
     (case replayVerified_review env dec rdec s of
        (st, Some e) \<Rightarrow> Inl (ApplyReplay e)
      | (st, None) \<Rightarrow>
          (let sha = cm_candidates_sha256 (gn_manifest g) in
           case prepareTransitions request sha sel (rs_statuses st) of
             Inl e \<Rightarrow> Inl (ApplyPrepare e)
           | Inr ts \<Rightarrow>
               (case verifyReferencedEvidence dec s ts of
                  Some e \<Rightarrow> Inl (ApplyReferenced e)
                | None \<Rightarrow>
                    (case hashRequest g request of
                       None \<Rightarrow> Inl ApplyEncode
                     | Some digest \<Rightarrow>
                         if random_fails then Inl ApplyRandom
                         else
                           (let e = \<lparr>re_schema_version = ReviewEventSchemaVersion,
                                     re_event_id = ''review-'' @ NewEventID now random, re_recorded_at = now,
                                     re_device_id = st_device_id s, re_reviewer = rq_reviewer request,
                                     re_request_sha256 = digest, re_generation = gn_name g,
                                     re_candidates_sha256 = sha, re_conflict_group = rq_conflict_group request,
                                     re_transitions = ts, re_privacy = ''local_only''\<rparr> in
                            case validateEvent_review e of
                              Some x \<Rightarrow> Inl (ApplyEvent x)
                            | None \<Rightarrow>
                                (case makeRecord_review e (rs_next st) (rs_last_hash st) of
                                   None \<Rightarrow> Inl ApplyEncode
                                 | Some r \<Rightarrow> Inr r))))))"

definition Apply ::
  "candidate_env \<Rightarrow> (string \<Rightarrow> ledger_record option) \<Rightarrow> (string \<Rightarrow> review_record option) \<Rightarrow> review_faults
    \<Rightarrow> gotime \<Rightarrow> string \<Rightarrow> string \<Rightarrow> review_request \<Rightarrow> 'a review_store_scheme
    \<Rightarrow> 'a review_store_scheme \<times> (apply_error + apply_result)" where
  "Apply env dec rdec faults now random path request s =
     (case validateRequestEnvelope request of
        Some e \<Rightarrow> (s, Inl (ApplyRequest e))
      | None \<Rightarrow>
     (case OpenGeneration env path of
        Inl e \<Rightarrow> (s, Inl (ApplyGeneration e))
      | Inr g \<Rightarrow>
     (let ids = map tq_candidate_id (rq_transitions request) in
      case Select env g ids of
        Inl e \<Rightarrow> (s, Inl (ApplyGeneration e))
      | Inr sel \<Rightarrow>
     (case verifyCandidateEvidence dec s (selected_candidates sel ids) of
        Some e \<Rightarrow> (s, Inl (ApplyCandidateEvidence e))
      | None \<Rightarrow>
     (case acquireReviewLock (rf_lock faults) s of
        (s1, Some e) \<Rightarrow> (s1, Inl (ApplyLock e))
      | (s1, None) \<Rightarrow>
     (case review_record_for env dec rdec (rf_random faults) now random g sel request s1 of
        Inl e \<Rightarrow> (releaseReviewLock (rf_release_ok faults) s1, Inl e)
      | Inr r \<Rightarrow>
     (case appendRecord_review (rf_append faults) r s1 of
        (s2, Some e) \<Rightarrow> (releaseReviewLock (rf_release_ok faults) s2, Inl (ApplyAppend e))
      | (s2, None) \<Rightarrow>
          if rf_release_ok faults then
            (releaseReviewLock True s2, Inr \<lparr>ar_event_id = re_event_id (rr_event r), ar_sequence = rr_sequence r,
               ar_hash = rr_hash r, ar_transitions = re_transitions (rr_event r)\<rparr>)
          else (releaseReviewLock (rf_release_again_ok faults) s2, Inl ApplyRelease))))))))"

datatype lookup_error =
    LookupGeneration generation_error
  | LookupEvidence review_evidence_error
  | LookupReplay review_failure
  | LookupCurrentEvidence evidence_error
  | ProofIdentity
  | ProofContent
  | ProofNotCurrent
  | ProofNotValidated
  | ProofNotFound

text \<open>The part that the lookups share: a verified candidate of a generation and the verified review state.\<close>

definition select_verified ::
  "candidate_env \<Rightarrow> (string \<Rightarrow> ledger_record option) \<Rightarrow> 'a evidence_store_scheme \<Rightarrow> string \<Rightarrow> string
    \<Rightarrow> lookup_error + generation \<times> candidate" where
  "select_verified env dec s path cid =
     (case OpenGeneration env path of
        Inl e \<Rightarrow> Inl (LookupGeneration e)
      | Inr g \<Rightarrow>
          (case Select env g [cid] of
             Inl e \<Rightarrow> Inl (LookupGeneration e)
           | Inr sel \<Rightarrow>
               (case verifyCandidateEvidence dec s (selected_candidates sel [cid]) of
                  Some e \<Rightarrow> Inl (LookupEvidence e)
                | None \<Rightarrow> Inr (g, the (sl_candidates sel cid)))))"

definition review_key :: "generation \<Rightarrow> candidate \<Rightarrow> string" where
  "review_key g c = candidateKey (cm_candidates_sha256 (gn_manifest g)) (cd_candidate_id c) (cd_content_sha256 c)"

definition current_status :: "review_state \<Rightarrow> generation \<Rightarrow> candidate \<Rightarrow> review_status" where
  "current_status st g c =
     (case rs_statuses st (review_key g c) of Some reviewed \<Rightarrow> reviewed | None \<Rightarrow> initialStatus c)"

record status_result =
  gs_candidate_id :: string
  gs_content_sha256 :: string
  gs_derivation_state :: string
  gs_status :: review_status
  gs_review_events :: nat
  gs_last_record :: string

definition GetStatus ::
  "candidate_env \<Rightarrow> (string \<Rightarrow> ledger_record option) \<Rightarrow> (string \<Rightarrow> review_record option) \<Rightarrow> 'a review_store_scheme
    \<Rightarrow> string \<Rightarrow> string \<Rightarrow> lookup_error + status_result" where
  "GetStatus env dec rdec s path cid =
     (case select_verified env dec s path cid of
        Inl e \<Rightarrow> Inl e
      | Inr (g, c) \<Rightarrow>
          (case replayVerified_review env dec rdec s of
             (st, Some e) \<Rightarrow> Inl (LookupReplay e)
           | (st, None) \<Rightarrow> Inr
               \<lparr>gs_candidate_id = cd_candidate_id c, gs_content_sha256 = cd_content_sha256 c,
                gs_derivation_state = vd_status (cd_validation c), gs_status = current_status st g c,
                gs_review_events = rs_events st (review_key g c),
                gs_last_record = rs_last_by_key st (review_key g c)\<rparr>))"

record validation_proof =
  vp_generation :: string
  vp_candidates_sha256 :: string
  vp_candidate_id :: string
  vp_content_sha256 :: string
  vp_event_id :: string
  vp_record_sha256 :: string
  vp_sequence :: int
  vp_reviewed_at :: gotime
  vp_reviewer :: reviewer
  vp_scope :: review_scope
  vp_basis :: "string list"
  vp_evidence :: "string list"

definition proof_transition :: "candidate \<Rightarrow> review_record \<Rightarrow> transition option" where
  "proof_transition c r = List.find (\<lambda>t. tr_candidate_id t = cd_candidate_id c \<and>
     tr_content_sha256 t = cd_content_sha256 c) (re_transitions (rr_event r))"

fun find_proof ::
  "generation \<Rightarrow> candidate \<Rightarrow> string \<Rightarrow> review_record list \<Rightarrow> lookup_error + candidate \<times> validation_proof" where
  "find_proof g c sha [] = Inl ProofNotFound"
| "find_proof g c sha (r # rs) =
     (let e = rr_event r in
      if rr_hash r \<noteq> sha \<or> re_generation e \<noteq> gn_name g \<or> re_candidates_sha256 e \<noteq> cm_candidates_sha256 (gn_manifest g)
      then find_proof g c sha rs
      else case proof_transition c r of
        None \<Rightarrow> find_proof g c sha rs
      | Some t \<Rightarrow>
          (case tr_scope t of
             None \<Rightarrow> Inl ProofNotValidated
           | Some scope \<Rightarrow>
               if tr_action t \<noteq> ActionValidate \<or> tr_resulting t \<noteq> StatusValidated then Inl ProofNotValidated
               else Inr (c,
                 \<lparr>vp_generation = gn_name g, vp_candidates_sha256 = cm_candidates_sha256 (gn_manifest g),
                  vp_candidate_id = cd_candidate_id c, vp_content_sha256 = cd_content_sha256 c,
                  vp_event_id = re_event_id e, vp_record_sha256 = rr_hash r, vp_sequence = rr_sequence r,
                  vp_reviewed_at = re_recorded_at e, vp_reviewer = re_reviewer e, vp_scope = scope,
                  vp_basis = tr_basis t, vp_evidence = tr_evidence t\<rparr>)))"

definition resolveValidation ::
  "candidate_env \<Rightarrow> (string \<Rightarrow> ledger_record option) \<Rightarrow> (string \<Rightarrow> review_record option) \<Rightarrow> 'a review_store_scheme
    \<Rightarrow> string \<Rightarrow> string \<Rightarrow> string \<Rightarrow> string \<Rightarrow> bool \<Rightarrow> lookup_error + candidate \<times> validation_proof" where
  "resolveValidation env dec rdec s path cid content_sha record_sha require_current =
     (if \<not> validPrefixedHash cid ''candidate-'' \<or> \<not> validSHA256 content_sha \<or> \<not> validSHA256 record_sha
      then Inl ProofIdentity
      else case select_verified env dec s path cid of
        Inl e \<Rightarrow> Inl e
      | Inr (g, c) \<Rightarrow>
          if cd_content_sha256 c \<noteq> content_sha then Inl ProofContent
          else (case replayVerified_review env dec rdec s of
             (st, Some e) \<Rightarrow> Inl (LookupReplay e)
           | (st, None) \<Rightarrow>
               if require_current \<and> (rs_statuses st (review_key g c) \<noteq> Some StatusValidated \<or>
                    rs_last_by_key st (review_key g c) \<noteq> record_sha) then Inl ProofNotCurrent
               else find_proof g c record_sha (rs_history st)))"

definition ResolveCurrentValidation ::
  "candidate_env \<Rightarrow> (string \<Rightarrow> ledger_record option) \<Rightarrow> (string \<Rightarrow> review_record option) \<Rightarrow> 'a review_store_scheme
    \<Rightarrow> string \<Rightarrow> string \<Rightarrow> string \<Rightarrow> string \<Rightarrow> lookup_error + candidate \<times> validation_proof" where
  "ResolveCurrentValidation env dec rdec s path cid content_sha record_sha =
     resolveValidation env dec rdec s path cid content_sha record_sha True"

definition VerifyValidationRecord ::
  "candidate_env \<Rightarrow> (string \<Rightarrow> ledger_record option) \<Rightarrow> (string \<Rightarrow> review_record option) \<Rightarrow> 'a review_store_scheme
    \<Rightarrow> string \<Rightarrow> string \<Rightarrow> string \<Rightarrow> string \<Rightarrow> lookup_error + candidate \<times> validation_proof" where
  "VerifyValidationRecord env dec rdec s path cid content_sha record_sha =
     resolveValidation env dec rdec s path cid content_sha record_sha False"

record review_summary =
  su_generation :: string
  su_total :: int
  su_pending :: int
  su_validated :: int
  su_rejected :: int
  su_quarantined :: int

definition count_status :: "review_state \<Rightarrow> generation \<Rightarrow> review_status \<Rightarrow> candidate list \<Rightarrow> int" where
  "count_status st g status cs = int (length (filter (\<lambda>c. current_status st g c = status) cs))"

definition Summarize ::
  "candidate_env \<Rightarrow> (string \<Rightarrow> ledger_record option) \<Rightarrow> (string \<Rightarrow> review_record option) \<Rightarrow> generation_audit list option
    \<Rightarrow> 'a review_store_scheme \<Rightarrow> string \<Rightarrow> lookup_error + review_summary" where
  "Summarize env dec rdec audits s path =
     (case OpenGeneration env path of
        Inl e \<Rightarrow> Inl (LookupGeneration e)
      | Inr g \<Rightarrow>
     (case RequireCurrentEvidence env (Verify dec s) audits g of
        Some e \<Rightarrow> Inl (LookupCurrentEvidence e)
      | None \<Rightarrow>
     (case All env g of
        Inl e \<Rightarrow> Inl (LookupGeneration e)
      | Inr cs \<Rightarrow>
     (case verifyCandidateEvidence dec s cs of
        Some e \<Rightarrow> Inl (LookupEvidence e)
      | None \<Rightarrow>
     (case replayVerified_review env dec rdec s of
        (st, Some e) \<Rightarrow> Inl (LookupReplay e)
      | (st, None) \<Rightarrow> Inr
          \<lparr>su_generation = gn_name g, su_total = int (length cs),
           su_pending = count_status st g StatusPending cs, su_validated = count_status st g StatusValidated cs,
           su_rejected = count_status st g StatusRejected cs,
           su_quarantined = count_status st g StatusQuarantined cs\<rparr>)))))"

end
