(* ===== verification/Review_Props.thy ===== *)
theory Review_Props
  imports Review Candidate_Selection
begin

text \<open>
  Lemmas on the review ledger: its records form a hash chain (the interpretation of \<open>sequenced_log\<close>), the
  replay and the semantic replay agree on every status, and what one semantic step does to the candidates of
  a generation (proved in \<open>candidate_source\<close>): members of a conflict group are only validated alone.
\<close>

section \<open>Checks on transitions\<close>

lemma first_error_map_None: "first_error (map f xs) = None \<longleftrightarrow> (\<forall>x \<in> set xs. f x = None)"
  by simp

lemma check_transitions_None:
  assumes "check_transitions e p seen ts = None"
  shows "(\<forall>t \<in> set ts. validateTransitionSyntax t = None) \<and> strictly_sorted (map tr_candidate_id ts) \<and>
    (p \<noteq> [] \<longrightarrow> (\<forall>t \<in> set ts. p < tr_candidate_id t)) \<and>
    (re_conflict_group e \<noteq> [] \<longrightarrow> (\<forall>t \<in> set ts. tr_expected t = StatusQuarantined \<and>
       (tr_action t = ActionValidate \<or> tr_action t = ActionReject)))"
  using assms
proof (induction ts arbitrary: p seen)
  case Nil
  then show ?case by (simp add: strictly_sorted_def)
next
  case (Cons t ts)
  have v: "validateTransitionSyntax t = None" using Cons.prems by (auto split: option.splits)
  then have "tr_candidate_id t \<noteq> []" by (auto simp: validateTransitionSyntax_def)
  moreover have "check_transitions e (tr_candidate_id t) (event_key e t # seen) ts = None"
    using Cons.prems v by (auto split: if_splits)
  ultimately show ?case using Cons.IH [of "tr_candidate_id t" "event_key e t # seen"] Cons.prems v
    by (auto simp: strictly_sorted_def split: if_splits)
qed

lemma validateEvent_review_transitions:
  assumes "validateEvent_review e = None"
  shows "\<forall>t \<in> set (re_transitions e). validateTransitionSyntax t = None"
    "distinct (map tr_candidate_id (re_transitions e))" "validSHA256 (re_candidates_sha256 e)"
    "re_transitions e \<noteq> []"
proof -
  have "check_transitions e [] [] (re_transitions e) = None" using assms by (simp add: validateEvent_review_def)
  from check_transitions_None [OF this]
  show "\<forall>t \<in> set (re_transitions e). validateTransitionSyntax t = None"
    "distinct (map tr_candidate_id (re_transitions e))" by (auto simp: strictly_sorted_iff)
  show "validSHA256 (re_candidates_sha256 e)" "re_transitions e \<noteq> []"
    using assms by (simp_all add: validateEvent_review_def)
qed

lemma check_requests_None:
  assumes "check_requests p ts = None"
  shows "(\<forall>t \<in> set ts. validPrefixedHash (tq_candidate_id t) ''candidate-'' \<and> validSHA256 (tq_content_sha256 t) \<and>
      sortedUniqueBasis (tq_basis t) \<and> sortedUniqueIds (tq_evidence t)) \<and>
    strictly_sorted (map tq_candidate_id ts) \<and> (p \<noteq> [] \<longrightarrow> (\<forall>t \<in> set ts. p < tq_candidate_id t))"
  using assms
proof (induction ts arbitrary: p)
  case Nil
  then show ?case by (simp add: strictly_sorted_def)
next
  case (Cons t ts)
  then have v: "validPrefixedHash (tq_candidate_id t) ''candidate-''" "validSHA256 (tq_content_sha256 t)"
    "sortedUniqueBasis (tq_basis t)" "sortedUniqueIds (tq_evidence t)" "p \<noteq> [] \<longrightarrow> p < tq_candidate_id t"
    and r: "check_requests (tq_candidate_id t) ts = None"
    by (auto split: option.splits)
  have "tq_candidate_id t \<noteq> []" using v(1) by auto
  with Cons.IH [OF r] v show ?case by (auto simp: strictly_sorted_def)
qed

section \<open>Keys\<close>

lemma hash_no_zero: "validSHA256 h \<Longrightarrow> CHR 0x00 \<notin> set h"
  using lower_hex_not_special by (auto simp: validSHA256_iff)

lemma prefixed_no_zero: "validPrefixedHash i ''candidate-'' \<Longrightarrow> CHR 0x00 \<notin> set i"
proof -
  assume v: "validPrefixedHash i ''candidate-''"
  then obtain h where "i = ''candidate-'' @ h" by (auto simp: validPrefixedHash_def elim: hasPrefixE)
  with v hash_no_zero [of h] show ?thesis by (simp only: validPrefixedHash_append) simp
qed

lemma zero_split:
  assumes "p @ CHR 0x00 # x = p' @ CHR 0x00 # x'" and "CHR 0x00 \<notin> set p" and "CHR 0x00 \<notin> set p'"
  shows "p = p' \<and> x = x'"
proof -
  have "takeWhile (\<lambda>c. c \<noteq> CHR 0x00) (q @ CHR 0x00 # y) = q" if "CHR 0x00 \<notin> set q" for q y :: string
    using that by (auto simp: takeWhile_tail takeWhile_append)
  with assms have "p = p'" by metis
  with assms(1) show ?thesis by simp
qed

lemma candidateKey_inj:
  assumes "candidateKey s i c = candidateKey s' i' c'" and "validSHA256 s" and "validSHA256 s'"
    and "validPrefixedHash i ''candidate-''" and "validPrefixedHash i' ''candidate-''"
  shows "s = s' \<and> i = i' \<and> c = c'"
  using assms zero_split hash_no_zero prefixed_no_zero unfolding candidateKey_def by metis

section \<open>The replay\<close>

lemma set_statuses_simps [simp]:
  "set_statuses sha [] m = m"
  "set_statuses sha (t # ts) m =
     set_statuses sha ts (m(candidateKey sha (tr_candidate_id t) (tr_content_sha256 t) \<mapsto> tr_resulting t))"
  by (simp_all add: set_statuses_def)

lemma fold_apply_statuses:
  "rs_statuses (fold (apply_transition r) ts st) = set_statuses (re_candidates_sha256 (rr_event r)) ts (rs_statuses st)"
  by (induction ts arbitrary: st) (simp_all add: apply_transition_def event_key_def Let_def)

lemma fold_apply_frame:
  "rs_history (fold (apply_transition r) ts st) = rs_history st"
  "rs_next (fold (apply_transition r) ts st) = rs_next st"
  "rs_records (fold (apply_transition r) ts st) = rs_records st"
  by (induction ts arbitrary: st) (simp_all add: apply_transition_def Let_def)

lemma fold_last_by_key:
  "rs_last_by_key (fold (apply_transition r) ts st) k =
     (if k \<in> event_key (rr_event r) ` set ts then rr_hash r else rs_last_by_key st k)"
  by (induction ts arbitrary: st) (auto simp: apply_transition_def Let_def)

lemma replay_step_review_Inr:
  assumes "replay_step_review r st = Inr st'"
  shows "validateRecord_review r (rs_next st) (rs_last_hash st) = None"
    "\<forall>t \<in> set (re_transitions (rr_event r)). check_expected st (rr_event r) t = None"
    "rs_statuses st' = set_statuses (re_candidates_sha256 (rr_event r)) (re_transitions (rr_event r)) (rs_statuses st)"
    "rs_history st' = rs_history st @ [r]" "rs_last_hash st' = rr_hash r" "rs_next st' = rs_next st + 1"
    "rs_records st' = rs_records st + 1"
    "rs_last_by_key st' = (\<lambda>k. if k \<in> event_key (rr_event r) ` set (re_transitions (rr_event r)) then rr_hash r
       else rs_last_by_key st k)"
proof -
  let ?f = "fold (apply_transition r) (re_transitions (rr_event r)) st"
  have e: "first_error (validateRecord_review r (rs_next st) (rs_last_hash st) #
      map (check_expected st (rr_event r)) (re_transitions (rr_event r))) = None"
    and s: "st' = ?f\<lparr>rs_records := rs_records ?f + 1, rs_history := rs_history ?f @ [r],
      rs_last_hash := rr_hash r, rs_next := rs_next ?f + 1\<rparr>"
    using assms by (auto simp: replay_step_review_def Let_def split: option.splits)
  show "validateRecord_review r (rs_next st) (rs_last_hash st) = None"
    "\<forall>t \<in> set (re_transitions (rr_event r)). check_expected st (rr_event r) t = None" using e by simp_all
  have f: "rs_statuses ?f = set_statuses (re_candidates_sha256 (rr_event r)) (re_transitions (rr_event r)) (rs_statuses st)"
    "rs_history ?f = rs_history st" "rs_next ?f = rs_next st" "rs_records ?f = rs_records st"
    by (simp_all add: fold_apply_statuses fold_apply_frame)
  show "rs_statuses st' = set_statuses (re_candidates_sha256 (rr_event r)) (re_transitions (rr_event r)) (rs_statuses st)"
    "rs_history st' = rs_history st @ [r]" "rs_last_hash st' = rr_hash r" "rs_next st' = rs_next st + 1"
    "rs_records st' = rs_records st + 1" using s f by simp_all
  show "rs_last_by_key st' = (\<lambda>k. if k \<in> event_key (rr_event r) ` set (re_transitions (rr_event r)) then rr_hash r
       else rs_last_by_key st k)"
    using s by (simp add: fold_last_by_key fun_eq_iff)
qed

lemma validateRecord_review_None:
  assumes "validateRecord_review r n p = None"
  shows "validateEvent_review (rr_event r) = None" "rr_sequence r = n" "rr_previous r = p"
    "\<exists>x. event_envelope ReviewRecordSchemaVersion n (review_event_json (rr_event r)) p = Some x \<and> rr_hash r = sha256_hex x"
  using assms by (auto simp: validateRecord_review_def makeRecord_review_def split: option.splits)

lemma initial_review_simps [simp]:
  "rs_next initial_review_state = 1" "rs_last_hash initial_review_state = []" "rs_history initial_review_state = []"
  "rs_statuses initial_review_state = (\<lambda>_. None)" "rs_last_by_key initial_review_state = (\<lambda>_. [])"
  "rs_records initial_review_state = 0"
  by (simp_all add: initial_review_state_def)

interpretation review: sequenced_log ReviewRecordSchemaVersion review_event_json rr_event rr_hash
  replay_step_review initial_review_state rs_next rs_last_hash rs_history
proof
  fix r st st' assume s: "replay_step_review r st = Inr st'"
  show "\<exists>x. event_envelope ReviewRecordSchemaVersion (rs_next st) (review_event_json (rr_event r)) (rs_last_hash st) = Some x \<and>
      rr_hash r = sha256_hex x"
    by (rule validateRecord_review_None(4) [OF replay_step_review_Inr(1) [OF s]])
  show "rs_next st' = rs_next st + 1 \<and> rs_last_hash st' = rr_hash r \<and> rs_history st' = rs_history st @ [r]"
    using replay_step_review_Inr [OF s] by simp
qed simp_all

section \<open>Statuses along the history\<close>

definition record_statuses :: "review_record \<Rightarrow> (string \<Rightarrow> review_status option) \<Rightarrow> string \<Rightarrow> review_status option" where
  "record_statuses r = set_statuses (re_candidates_sha256 (rr_event r)) (re_transitions (rr_event r))"

definition history_statuses :: "review_record list \<Rightarrow> string \<Rightarrow> review_status option" where
  "history_statuses rs = fold record_statuses rs (\<lambda>_. None)"

lemma history_statuses_snoc [simp]: "history_statuses (rs @ [r]) = record_statuses r (history_statuses rs)"
  by (simp add: history_statuses_def)

lemma history_statuses_Nil [simp]: "history_statuses [] = (\<lambda>_. None)"
  by (simp add: history_statuses_def)

definition review_state_ok :: "review_state \<Rightarrow> bool" where
  "review_state_ok st \<longleftrightarrow> rs_statuses st = history_statuses (rs_history st) \<and>
     (\<forall>r \<in> set (rs_history st). validateEvent_review (rr_event r) = None)"

lemma replay_review_ok: "replay_review rdec f = (st, e) \<Longrightarrow> review_state_ok st"
  unfolding replay_review_def
proof (erule replay_log_invariant [where I = review_state_ok])
  show "review_state_ok initial_review_state" by (simp add: review_state_ok_def)
next
  fix r st st' assume s: "replay_step_review r st = Inr st'" and ok: "review_state_ok st"
  show "review_state_ok st'"
    using ok replay_step_review_Inr [OF s] validateRecord_review_None(1) [OF replay_step_review_Inr(1) [OF s]]
    by (auto simp: review_state_ok_def record_statuses_def)
qed

lemma set_statuses_out:
  "(\<forall>t \<in> set ts. candidateKey sha (tr_candidate_id t) (tr_content_sha256 t) \<noteq> k) \<Longrightarrow> set_statuses sha ts m k = m k"
  by (induction ts arbitrary: m) auto

lemma set_statuses_in:
  assumes "distinct (map (\<lambda>t. candidateKey sha (tr_candidate_id t) (tr_content_sha256 t)) ts)" and "t \<in> set ts"
  shows "set_statuses sha ts m (candidateKey sha (tr_candidate_id t) (tr_content_sha256 t)) = Some (tr_resulting t)"
  using assms
proof (induction ts arbitrary: m)
  case (Cons u ts)
  show ?case
  proof (cases "t \<in> set ts")
    case True
    with Cons show ?thesis by simp
  next
    case False
    with Cons.prems have tu: "t = u" by simp
    have "\<forall>v \<in> set ts. candidateKey sha (tr_candidate_id v) (tr_content_sha256 v) \<noteq>
        candidateKey sha (tr_candidate_id u) (tr_content_sha256 u)"
      using Cons.prems(1) by (simp add: image_iff) metis
    then show ?thesis by (simp add: tu set_statuses_out)
  qed
qed simp

lemma set_statuses_cases:
  "set_statuses sha ts m k = m k \<or>
     (\<exists>t \<in> set ts. k = candidateKey sha (tr_candidate_id t) (tr_content_sha256 t) \<and> set_statuses sha ts m k = Some (tr_resulting t))"
proof (induction ts arbitrary: m)
  case (Cons t ts)
  define m' where "m' = m(candidateKey sha (tr_candidate_id t) (tr_content_sha256 t) \<mapsto> tr_resulting t)"
  have "m' k = m k \<or> k = candidateKey sha (tr_candidate_id t) (tr_content_sha256 t) \<and> m' k = Some (tr_resulting t)"
    by (simp add: m'_def)
  with Cons [of m'] show ?case by (auto simp flip: m'_def)
qed simp

lemma history_statuses_valid:
  assumes "\<forall>r \<in> set rs. validateEvent_review (rr_event r) = None" and "history_statuses rs k = Some s"
  shows "validStatus s"
  using assms
proof (induction rs rule: rev_induct)
  case (snoc r rs)
  have v: "\<forall>t \<in> set (re_transitions (rr_event r)). validateTransitionSyntax t = None"
    using snoc.prems(1) validateEvent_review_transitions(1) [of "rr_event r"] by simp
  from set_statuses_cases [of "re_candidates_sha256 (rr_event r)" "re_transitions (rr_event r)" "history_statuses rs" k]
  show ?case
  proof
    assume "set_statuses (re_candidates_sha256 (rr_event r)) (re_transitions (rr_event r)) (history_statuses rs) k = history_statuses rs k"
    with snoc show ?thesis by (simp add: record_statuses_def)
  next
    assume "\<exists>t \<in> set (re_transitions (rr_event r)). k = candidateKey (re_candidates_sha256 (rr_event r)) (tr_candidate_id t) (tr_content_sha256 t) \<and>
      set_statuses (re_candidates_sha256 (rr_event r)) (re_transitions (rr_event r)) (history_statuses rs) k = Some (tr_resulting t)"
    with snoc.prems(2) v show ?thesis by (auto simp: record_statuses_def validateTransitionSyntax_def)
  qed
qed simp

end
