(* ===== verification/Review_Groups.thy ===== *)
theory Review_Groups
  imports Review_Props
begin

text \<open>
  What a prepared transition has checked, and the invariant of conflict groups: once a member of a conflict
  group is validated no other member is, and members never become pending. Proved for any
  \<open>candidate_source\<close>, so that the review ledger gets it through the interpretation on \<open>Select\<close>.
\<close>

definition key_of :: "string \<Rightarrow> candidate \<Rightarrow> string" where
  "key_of sha c = candidateKey sha (cd_candidate_id c) (cd_content_sha256 c)"

definition status_of :: "(string \<Rightarrow> review_status option) \<Rightarrow> string \<Rightarrow> candidate \<Rightarrow> review_status" where
  "status_of statuses sha c = (case statuses (key_of sha c) of Some s \<Rightarrow> s | None \<Rightarrow> initialStatus c)"

text \<open>What one prepared transition says about its candidate.\<close>

definition prepared_ok ::
  "review_request \<Rightarrow> string \<Rightarrow> (string \<Rightarrow> review_status option) \<Rightarrow> candidate \<Rightarrow> transition \<Rightarrow> bool" where
  "prepared_ok request sha statuses c p \<longleftrightarrow>
     (let group = rq_conflict_group request in
      tr_candidate_id p = cd_candidate_id c \<and> tr_content_sha256 p = cd_content_sha256 c \<and>
      tr_expected p = status_of statuses sha c \<and>
      resultingStatus (tr_action p) (tr_expected p) (initialStatus c) (group \<noteq> []) = Inr (tr_resulting p) \<and>
      (tr_action p = ActionValidate \<longrightarrow> (cd_conflict_group_id c = [] \<or> group = cd_conflict_group_id c) \<and>
         validateBasis c (request_of p) = None) \<and>
      (group \<noteq> [] \<longrightarrow> cd_conflict_group_id c = group \<and> tr_expected p = StatusQuarantined \<and>
         (tr_action p = ActionValidate \<or> tr_action p = ActionReject)))"

lemma prepared_okD:
  assumes "prepared_ok request sha statuses c p"
  shows "tr_candidate_id p = cd_candidate_id c" "tr_content_sha256 p = cd_content_sha256 c"
    "tr_expected p = status_of statuses sha c"
    "resultingStatus (tr_action p) (tr_expected p) (initialStatus c) (rq_conflict_group request \<noteq> []) = Inr (tr_resulting p)"
    "tr_action p = ActionValidate \<Longrightarrow> cd_conflict_group_id c = [] \<or> rq_conflict_group request = cd_conflict_group_id c"
    "tr_action p = ActionValidate \<Longrightarrow> validateBasis c (request_of p) = None"
    "rq_conflict_group request \<noteq> [] \<Longrightarrow> cd_conflict_group_id c = rq_conflict_group request \<and> tr_expected p = StatusQuarantined \<and>
       (tr_action p = ActionValidate \<or> tr_action p = ActionReject)"
  using assms unfolding prepared_ok_def Let_def by blast+

lemma validateBasis_cong:
  "tq_basis t = tq_basis t' \<Longrightarrow> tq_evidence t = tq_evidence t' \<Longrightarrow> validateBasis c t = validateBasis c t'"
proof -
  assume "tq_basis t = tq_basis t'" and "tq_evidence t = tq_evidence t'"
  moreover from this have "check_basis c t = check_basis c t'" by (intro ext) (simp add: check_basis_def)
  ultimately show ?thesis by (simp add: validateBasis_def)
qed

lemma prepare_transition_Inr:
  assumes "prepare_transition request sha sel statuses t = Inr p"
  shows "\<exists>c. sl_candidates sel (tq_candidate_id t) = Some c \<and> tq_content_sha256 t = cd_content_sha256 c \<and>
    prepared_ok request sha statuses c p \<and> (cd_candidate_id c = tq_candidate_id t \<longrightarrow> request_of p = t)"
proof -
  obtain c where c: "sl_candidates sel (tq_candidate_id t) = Some c"
    using assms by (auto simp: prepare_transition_def split: option.splits)
  let ?current = "status_of statuses sha c" and ?group = "rq_conflict_group request"
  have cur: "(case statuses (candidateKey sha (cd_candidate_id c) (cd_content_sha256 c)) of
      Some reviewed \<Rightarrow> reviewed | None \<Rightarrow> initialStatus c) = ?current"
    by (simp add: status_of_def key_of_def)
  obtain res where p: "tq_content_sha256 t = cd_content_sha256 c" "tq_expected t = ?current"
    "resultingStatus (tq_action t) ?current (initialStatus c) (?group \<noteq> []) = Inr res"
    "tq_action t = ActionValidate \<longrightarrow> (cd_conflict_group_id c = [] \<or> ?group = cd_conflict_group_id c) \<and> validateBasis c t = None"
    "?group \<noteq> [] \<longrightarrow> cd_conflict_group_id c = ?group \<and> ?current = StatusQuarantined \<and>
       (tq_action t = ActionValidate \<or> tq_action t = ActionReject)"
    and eq: "p = \<lparr>tr_candidate_id = cd_candidate_id c, tr_content_sha256 = cd_content_sha256 c,
      tr_expected = tq_expected t, tr_action = tq_action t, tr_resulting = res, tr_scope = tq_scope t,
      tr_basis = tq_basis t, tr_evidence = tq_evidence t, tr_reason = tq_reason t\<rparr>"
    using assms unfolding prepare_transition_def Let_def c option.case cur
    by (auto split: if_splits sum.splits option.splits)
  have vb: "validateBasis c (request_of p) = validateBasis c t"
    by (rule validateBasis_cong) (simp_all add: eq request_of_def)
  have f: "tr_candidate_id p = cd_candidate_id c" "tr_content_sha256 p = cd_content_sha256 c"
    "tr_expected p = ?current" "tr_action p = tq_action t" "tr_resulting p = res"
    using p(2) by (simp_all add: eq)
  have "prepared_ok request sha statuses c p" unfolding prepared_ok_def Let_def f vb using p by blast
  moreover have "cd_candidate_id c = tq_candidate_id t \<longrightarrow> request_of p = t"
    using p(1) by (simp add: eq request_of_def)
  ultimately show ?thesis using c p(1) by blast
qed

lemma prepare_all_Inr:
  "prepare_all request sha sel statuses ts = Inr ps \<Longrightarrow>
     list_all2 (\<lambda>t p. prepare_transition request sha sel statuses t = Inr p) ts ps"
  by (induction ts arbitrary: ps) (auto split: sum.splits)

lemma prepare_all_conv:
  "list_all2 (\<lambda>t p. prepare_transition request sha sel statuses t = Inr p) ts ps \<Longrightarrow>
     prepare_all request sha sel statuses ts = Inr ps"
  by (induction rule: list_all2_induct) auto

lemma prepareTransitions_Inr:
  assumes "prepareTransitions request sha sel statuses = Inr ps"
  shows "prepare_all request sha sel statuses (rq_transitions request) = Inr ps"
    "rq_conflict_group request \<noteq> [] \<Longrightarrow>
      sl_conflict_groups sel (rq_conflict_group request) = Some (map tq_candidate_id (rq_transitions request)) \<and>
      validations ps \<le> 1"
  using assms by (auto simp: prepareTransitions_def Let_def split: if_splits option.splits sum.splits)

lemma resulting_validated:
  "resultingStatus a current base conflict = Inr StatusValidated \<Longrightarrow> base \<noteq> StatusValidated \<Longrightarrow> a = ActionValidate"
  by (auto simp: resultingStatus_def split: if_splits)

lemma resulting_pending:
  "resultingStatus a current base conflict = Inr StatusPending \<Longrightarrow> base = StatusPending"
  by (auto simp: resultingStatus_def split: if_splits)

lemma initialStatus_cases: "initialStatus c = StatusPending \<or> initialStatus c = StatusQuarantined"
  by (simp add: initialStatus_def)

lemma two_validations:
  assumes "p \<in> set ts" and "q \<in> set ts" and "p \<noteq> q" and "tr_action p = ActionValidate" and "tr_action q = ActionValidate"
  shows "1 < validations ts"
proof -
  have "{p, q} \<subseteq> set (filter (\<lambda>t. tr_action t = ActionValidate) ts)" using assms by simp
  then have "card {p, q} \<le> card (set (filter (\<lambda>t. tr_action t = ActionValidate) ts))" by (simp only: card_mono finite_set)
  also have "\<dots> \<le> validations ts" unfolding validations_def by (rule card_length)
  finally show ?thesis using assms(3) by simp
qed

text \<open>Members of a conflict group never become pending, and at most one of them is validated.\<close>

definition groups_ok :: "candidate list \<Rightarrow> string \<Rightarrow> (string \<Rightarrow> review_status option) \<Rightarrow> bool" where
  "groups_ok cs sha statuses \<longleftrightarrow>
     (\<forall>c \<in> set cs. cd_conflict_group_id c \<noteq> [] \<longrightarrow> status_of statuses sha c \<noteq> StatusPending \<and>
        (status_of statuses sha c = StatusValidated \<longrightarrow>
           (\<forall>d \<in> set cs. d \<noteq> c \<and> cd_conflict_group_id d = cd_conflict_group_id c \<longrightarrow>
              status_of statuses sha d \<noteq> StatusValidated)))"

context candidate_source
begin

lemma prepared:
  assumes s: "select ids = Inr sel" and p: "prepareTransitions request sha sel statuses = Inr ps"
  shows "map tr_candidate_id ps = map tq_candidate_id (rq_transitions request)"
    "map request_of ps = rq_transitions request"
    "\<forall>p \<in> set ps. \<exists>c \<in> set content. prepared_ok request sha statuses c p"
proof -
  have l: "list_all2 (\<lambda>t p. prepare_transition request sha sel statuses t = Inr p) (rq_transitions request) ps"
    by (rule prepare_all_Inr [OF prepareTransitions_Inr(1) [OF p]])
  have one: "request_of p = t \<and> tr_candidate_id p = tq_candidate_id t \<and> (\<exists>c \<in> set content. prepared_ok request sha statuses c p)"
    if pt: "prepare_transition request sha sel statuses t = Inr p" for t p
  proof -
    obtain c where c: "sl_candidates sel (tq_candidate_id t) = Some c" "prepared_ok request sha statuses c p"
      "cd_candidate_id c = tq_candidate_id t \<longrightarrow> request_of p = t" using prepare_transition_Inr [OF pt] by blast
    with selected_content [OF s c(1)] prepared_okD(1) [OF c(2)] show ?thesis by auto
  qed
  from l one show "map tr_candidate_id ps = map tq_candidate_id (rq_transitions request)"
    "map request_of ps = rq_transitions request"
    by (simp_all add: list_all2_conv_all_nth list_eq_iff_nth_eq)
  show "\<forall>p \<in> set ps. \<exists>c \<in> set content. prepared_ok request sha statuses c p"
  proof
    fix p assume "p \<in> set ps"
    then obtain t where "prepare_transition request sha sel statuses t = Inr p"
      using l by (auto simp: in_set_conv_nth list_all2_conv_all_nth)
    with one show "\<exists>c \<in> set content. prepared_ok request sha statuses c p" by blast
  qed
qed

lemma same_candidate:
  "select ids = Inr sel \<Longrightarrow> c \<in> set content \<Longrightarrow> d \<in> set content \<Longrightarrow> cd_candidate_id c = cd_candidate_id d \<Longrightarrow> c = d"
  using content_distinct by (auto simp: distinct_map inj_on_def)

text \<open>The statuses after a step.\<close>

lemma status_after:
  assumes s: "select ids = Inr sel" and p: "prepareTransitions request sha sel statuses = Inr ps"
    and d: "distinct (map tr_candidate_id ps)" and h: "validSHA256 sha" and c: "c \<in> set content"
  shows "p \<in> set ps \<Longrightarrow> tr_candidate_id p = cd_candidate_id c \<Longrightarrow>
      status_of (set_statuses sha ps statuses) sha c = tr_resulting p \<and> prepared_ok request sha statuses c p"
    and "cd_candidate_id c \<notin> set (map tr_candidate_id ps) \<Longrightarrow>
      status_of (set_statuses sha ps statuses) sha c = status_of statuses sha c"
proof -
  note pr = prepared(3) [OF s p]
  have ids: "validPrefixedHash (cd_candidate_id d) ''candidate-''" if "d \<in> set content" for d
    using content_valid [OF s that] by blast
  have k: "distinct (map (\<lambda>t. candidateKey sha (tr_candidate_id t) (tr_content_sha256 t)) ps)"
  proof -
    have "inj_on (\<lambda>t. candidateKey sha (tr_candidate_id t) (tr_content_sha256 t)) (set ps)"
    proof (rule inj_onI)
      fix t u assume t: "t \<in> set ps" and u: "u \<in> set ps"
        and e: "candidateKey sha (tr_candidate_id t) (tr_content_sha256 t) = candidateKey sha (tr_candidate_id u) (tr_content_sha256 u)"
      have "validPrefixedHash (tr_candidate_id t) ''candidate-''" "validPrefixedHash (tr_candidate_id u) ''candidate-''"
        using pr t u ids prepared_okD(1) by metis+
      with candidateKey_inj [OF e h h] have "tr_candidate_id t = tr_candidate_id u" by blast
      with d t u show "t = u" by (simp add: distinct_map inj_on_def)
    qed
    with d show ?thesis by (simp add: distinct_map)
  qed
  show "status_of (set_statuses sha ps statuses) sha c = tr_resulting p \<and> prepared_ok request sha statuses c p"
    if pp: "p \<in> set ps" "tr_candidate_id p = cd_candidate_id c"
  proof -
    obtain e where e: "e \<in> set content" "prepared_ok request sha statuses e p" using pr pp(1) by blast
    then have "e = c" using same_candidate [OF s e(1) c] pp(2) prepared_okD(1) [OF e(2)] by simp
    with e have "prepared_ok request sha statuses c p" by simp
    moreover from this have "key_of sha c = candidateKey sha (tr_candidate_id p) (tr_content_sha256 p)"
      using prepared_okD(1,2) by (simp add: key_of_def)
    ultimately show ?thesis using set_statuses_in [OF k pp(1)] by (simp add: status_of_def)
  qed
  show "status_of (set_statuses sha ps statuses) sha c = status_of statuses sha c"
    if n: "cd_candidate_id c \<notin> set (map tr_candidate_id ps)"
  proof -
    have "\<forall>t \<in> set ps. candidateKey sha (tr_candidate_id t) (tr_content_sha256 t) \<noteq> key_of sha c"
    proof
      fix t assume t: "t \<in> set ps"
      have "validPrefixedHash (tr_candidate_id t) ''candidate-''"
        using pr t ids prepared_okD(1) by metis
      with candidateKey_inj [OF _ h h this ids [OF c]] n t show
        "candidateKey sha (tr_candidate_id t) (tr_content_sha256 t) \<noteq> key_of sha c"
        by (metis (mono_tags, lifting) image_eqI key_of_def list.set_map)
    qed
    then show ?thesis by (simp add: status_of_def set_statuses_out)
  qed
qed

lemma validated_alone:
  assumes s: "select ids = Inr sel" and p: "prepareTransitions request sha sel statuses = Inr ps"
    and d: "distinct (map tr_candidate_id ps)" and h: "validSHA256 sha" and old: "groups_ok content sha statuses"
    and c: "c \<in> set content" "cd_conflict_group_id c \<noteq> []"
    and e: "e \<in> set content" "e \<noteq> c" "cd_conflict_group_id e = cd_conflict_group_id c"
    and vc: "status_of (set_statuses sha ps statuses) sha c = StatusValidated"
    and ve: "status_of (set_statuses sha ps statuses) sha e = StatusValidated"
  shows False
proof -
  let ?group = "rq_conflict_group request"
  note after = status_after [OF s p d h]
  have act: "tr_action q = ActionValidate \<and> ?group = cd_conflict_group_id c"
    if "q \<in> set ps" "tr_candidate_id q = cd_candidate_id x" "x \<in> {c, e}" for q x
  proof -
    have x: "x \<in> set content" "cd_conflict_group_id x = cd_conflict_group_id c" using that(3) c e by auto
    have r: "tr_resulting q = StatusValidated" and ok: "prepared_ok request sha statuses x q"
      using after(1) [OF x(1) that(1,2)] that(3) vc ve by auto
    have "initialStatus x \<noteq> StatusValidated" using initialStatus_cases [of x] by auto
    from resulting_validated [OF prepared_okD(4) [OF ok, unfolded r] this] have "tr_action q = ActionValidate" .
    with prepared_okD(5) [OF ok] x(2) c(2) show ?thesis by auto
  qed
  show False
  proof (cases "cd_candidate_id c \<in> set (map tr_candidate_id ps) \<or> cd_candidate_id e \<in> set (map tr_candidate_id ps)")
    case False
    with after(2) [OF c(1)] after(2) [OF e(1)] vc ve old c e show False by (auto simp: groups_ok_def)
  next
    case True
    then obtain x where "x \<in> {c, e}" "cd_candidate_id x \<in> set (map tr_candidate_id ps)" by blast
    moreover from this obtain q where "q \<in> set ps" "tr_candidate_id q = cd_candidate_id x" by auto
    ultimately have g: "?group = cd_conflict_group_id c" using act by blast
    with c(2) have m: "sl_conflict_groups sel ?group = Some (map tq_candidate_id (rq_transitions request))"
      and one: "validations ps \<le> 1" using prepareTransitions_Inr(2) [OF p] by auto
    have "?group \<noteq> []" using g c(2) by simp
    from groups_complete [OF s m this] g c e prepared(1) [OF s p]
    have "cd_candidate_id c \<in> set (map tr_candidate_id ps)" "cd_candidate_id e \<in> set (map tr_candidate_id ps)" by auto
    then obtain q r where q: "q \<in> set ps" "tr_candidate_id q = cd_candidate_id c"
      and r: "r \<in> set ps" "tr_candidate_id r = cd_candidate_id e" by auto
    have "q \<noteq> r" using q r same_candidate [OF s c(1) e(1)] e(2) by auto
    with two_validations [OF q(1) r(1)] act [OF q] act [OF r] one show False by simp
  qed
qed

lemma groups_ok_step:
  assumes s: "select ids = Inr sel" and p: "prepareTransitions request sha sel statuses = Inr ps"
    and d: "distinct (map tr_candidate_id ps)" and h: "validSHA256 sha" and old: "groups_ok content sha statuses"
  shows "groups_ok content sha (set_statuses sha ps statuses)"
  unfolding groups_ok_def
proof (intro ballI impI conjI)
  fix c assume c: "c \<in> set content" and g: "cd_conflict_group_id c \<noteq> []"
  have b: "initialStatus c = StatusQuarantined" using quarantined_iff [OF s c] g by (simp add: initialStatus_def)
  show "status_of (set_statuses sha ps statuses) sha c \<noteq> StatusPending"
  proof (cases "cd_candidate_id c \<in> set (map tr_candidate_id ps)")
    case True
    then obtain q where q: "q \<in> set ps" "tr_candidate_id q = cd_candidate_id c" by auto
    have a: "status_of (set_statuses sha ps statuses) sha c = tr_resulting q" "prepared_ok request sha statuses c q"
      using status_after(1) [OF s p d h c q] by blast+
    have "tr_resulting q \<noteq> StatusPending"
      using prepared_okD(4) [OF a(2)] resulting_pending [of "tr_action q" "tr_expected q" "initialStatus c"] b by auto
    with a(1) show ?thesis by simp
  next
    case False
    from status_after(2) [OF s p d h c this] old c g show ?thesis by (simp add: groups_ok_def)
  qed
next
  fix c e
  assume "c \<in> set content" "cd_conflict_group_id c \<noteq> []" "e \<in> set content"
    "e \<noteq> c \<and> cd_conflict_group_id e = cd_conflict_group_id c"
    "status_of (set_statuses sha ps statuses) sha c = StatusValidated"
  then show "status_of (set_statuses sha ps statuses) sha e \<noteq> StatusValidated"
    using validated_alone [OF s p d h old] by blast
qed

lemma groups_ok_initial: "select ids = Inr sel \<Longrightarrow> groups_ok content sha (\<lambda>_. None)"
  using quarantined_iff by (auto simp: groups_ok_def status_of_def initialStatus_def)

end

end
