(* ===== verification/Review_Semantics.thy ===== *)
theory Review_Semantics
  imports Review_Groups Ledger_Props
begin

text \<open>
  The evidence checks as conditions on the records of the evidence ledger, and the semantic replay as a
  condition on every record of the history (\<open>record_ok\<close>): a history passes \<open>verifyReviewSemantics\<close> exactly when
  each of its records could have been written after the records before it.
\<close>

section \<open>Evidence\<close>

abbreviation record_event_id :: "ledger_record \<Rightarrow> string" where
  "record_event_id r \<equiv> ev_event_id (lr_event r)"

lemma keep_candidate_visit:
  "visit_all (keep_candidate_event w) rs f = Some f' \<longleftrightarrow>
     (\<forall>r \<in> set rs. record_event_id r \<in> set w \<longrightarrow> f' (record_event_id r) = Some (lr_event r)) \<and>
     (\<forall>i. f' i = f i \<or> f i = None \<and> (\<exists>r \<in> set rs. record_event_id r = i \<and> i \<in> set w))"
proof (induction rs arbitrary: f)
  case Nil
  then show ?case by (auto simp: fun_eq_iff)
next
  case (Cons r rs)
  consider "record_event_id r \<notin> set w"
    | "record_event_id r \<in> set w" "f (record_event_id r) \<noteq> None" "f (record_event_id r) \<noteq> Some (lr_event r)"
    | "record_event_id r \<in> set w" "f (record_event_id r) = None \<or> f (record_event_id r) = Some (lr_event r)" by argo
  then show ?case
  proof cases
    case 1
    then have "visit_all (keep_candidate_event w) (r # rs) f = visit_all (keep_candidate_event w) rs f"
      by (simp add: keep_candidate_event_def Let_def)
    with Cons [of f] 1 show ?thesis by auto
  next
    case 2
    then have "visit_all (keep_candidate_event w) (r # rs) f = None"
      by (auto simp: keep_candidate_event_def Let_def)
    moreover have "\<not> (f' (record_event_id r) = Some (lr_event r) \<and> (f' (record_event_id r) = f (record_event_id r) \<or>
        f (record_event_id r) = None))" using 2 by auto
    ultimately show ?thesis using 2(1) by (metis list.set_intros(1) option.distinct(1))
  next
    case 3
    let ?i = "record_event_id r" and ?f = "f(record_event_id r \<mapsto> lr_event r)"
    have v: "visit_all (keep_candidate_event w) (r # rs) f = visit_all (keep_candidate_event w) rs ?f"
      using 3 by (auto simp: keep_candidate_event_def Let_def)
    show ?thesis unfolding v Cons [of ?f]
    proof (intro iffI conjI; elim conjE)
      assume a: "\<forall>r \<in> set rs. record_event_id r \<in> set w \<longrightarrow> f' (record_event_id r) = Some (lr_event r)"
        and b: "\<forall>i. f' i = ?f i \<or> ?f i = None \<and> (\<exists>r \<in> set rs. record_event_id r = i \<and> i \<in> set w)"
      have "f' ?i = Some (lr_event r)" using b [rule_format, of ?i] by auto
      with a show "\<forall>r \<in> set (r # rs). record_event_id r \<in> set w \<longrightarrow> f' (record_event_id r) = Some (lr_event r)" by auto
      show "\<forall>i. f' i = f i \<or> f i = None \<and> (\<exists>r \<in> set (r # rs). record_event_id r = i \<and> i \<in> set w)"
      proof
        fix i
        show "f' i = f i \<or> f i = None \<and> (\<exists>r \<in> set (r # rs). record_event_id r = i \<and> i \<in> set w)"
          using b [rule_format, of i] 3 by (cases "i = ?i") auto
      qed
    next
      assume a: "\<forall>r \<in> set (r # rs). record_event_id r \<in> set w \<longrightarrow> f' (record_event_id r) = Some (lr_event r)"
        and b: "\<forall>i. f' i = f i \<or> f i = None \<and> (\<exists>r \<in> set (r # rs). record_event_id r = i \<and> i \<in> set w)"
      show "\<forall>r \<in> set rs. record_event_id r \<in> set w \<longrightarrow> f' (record_event_id r) = Some (lr_event r)" using a by simp
      show "\<forall>i. f' i = ?f i \<or> ?f i = None \<and> (\<exists>r \<in> set rs. record_event_id r = i \<and> i \<in> set w)"
      proof
        fix i
        show "f' i = ?f i \<or> ?f i = None \<and> (\<exists>r \<in> set rs. record_event_id r = i \<and> i \<in> set w)"
          using b [rule_format, of i] a 3(1) by (cases "i = ?i") auto
      qed
    qed
  qed
qed

text \<open>The events of the ledger with this id are one complete user message.\<close>

definition candidate_event_ok :: "'a evidence_store_scheme \<Rightarrow> ledger_record list \<Rightarrow> string \<Rightarrow> bool" where
  "candidate_event_ok s rs i \<longleftrightarrow>
     (\<exists>e. (\<exists>r \<in> set rs. lr_event r = e \<and> ev_event_id e = i) \<and>
          (\<forall>r \<in> set rs. record_event_id r = i \<longrightarrow> lr_event r = e) \<and>
          ev_kind e = KindUserMessage \<and> verifyEvidencePayload s e = None)"

lemma check_candidate_event_None:
  "check_candidate_event s found i = None \<longleftrightarrow>
     (\<exists>e. found i = Some e \<and> ev_kind e = KindUserMessage \<and> verifyEvidencePayload s e = None)"
  by (auto simp: check_candidate_event_def split: option.splits)

lemma verifyCandidateEvidence_None:
  fixes s :: "'a evidence_store_scheme"
  defines "rs \<equiv> \<lambda>dec. decoded_records dec (st_events s)"
  shows "verifyCandidateEvidence dec s cs = None \<longleftrightarrow>
     concat (map candidate_event_ids cs) \<noteq> [] \<and> (\<exists>h. lastRecordHash dec (st_events s) = Inr h) \<and>
     (\<forall>i \<in> set (concat (map candidate_event_ids cs)). candidate_event_ok s (rs dec) i)"
    (is "?l \<longleftrightarrow> ?r")
proof -
  define w where "w = concat (map candidate_event_ids cs)"
  have l: "?l \<longleftrightarrow> w \<noteq> [] \<and> (\<exists>h found. visitRecords dec (keep_candidate_event w) (st_events s) (\<lambda>_. None) = (found, Inr h) \<and>
      (\<forall>i \<in> set w. check_candidate_event s found i = None))"
    by (auto simp: verifyCandidateEvidence_def Let_def simp flip: w_def split: prod.splits sum.splits)
  have "(\<exists>found. visit_all (keep_candidate_event w) (rs dec) (\<lambda>_. None) = Some found \<and>
      (\<forall>i \<in> set w. check_candidate_event s found i = None)) \<longleftrightarrow> (\<forall>i \<in> set w. candidate_event_ok s (rs dec) i)"
    (is "?a \<longleftrightarrow> ?b")
  proof
    assume ?a
    then obtain found where f: "\<forall>r \<in> set (rs dec). record_event_id r \<in> set w \<longrightarrow> found (record_event_id r) = Some (lr_event r)"
      "\<forall>i. found i = None \<or> (\<exists>r \<in> set (rs dec). record_event_id r = i \<and> i \<in> set w)"
      and c: "\<forall>i \<in> set w. check_candidate_event s found i = None"
      by (auto simp: keep_candidate_visit)
    show ?b
    proof
      fix i assume i: "i \<in> set w"
      then obtain e where e: "found i = Some e" "ev_kind e = KindUserMessage" "verifyEvidencePayload s e = None"
        using c by (auto simp: check_candidate_event_None)
      with f(2) i obtain r where r: "r \<in> set (rs dec)" "record_event_id r = i" by (metis option.distinct(1))
      with f(1) i e(1) have "lr_event r = e" by force
      moreover have "\<forall>r \<in> set (rs dec). record_event_id r = i \<longrightarrow> lr_event r = e" using f(1) i e(1) by auto
      ultimately show "candidate_event_ok s (rs dec) i" unfolding candidate_event_ok_def using r e by blast
    qed
  next
    assume b: ?b
    define found where "found = (\<lambda>i. if i \<in> set w then map_option lr_event (List.find (\<lambda>r. record_event_id r = i) (rs dec)) else None)"
    have fnd: "found i = Some e" if i: "i \<in> set w" and e: "\<exists>r \<in> set (rs dec). lr_event r = e \<and> ev_event_id e = i"
      "\<forall>r \<in> set (rs dec). record_event_id r = i \<longrightarrow> lr_event r = e" for i e
    proof -
      obtain r where "List.find (\<lambda>r. record_event_id r = i) (rs dec) = Some r"
        using e(1) by (cases "List.find (\<lambda>r. record_event_id r = i) (rs dec)") (auto simp: find_None_iff)
      with e(2) i show ?thesis by (auto simp: found_def find_Some_iff)
    qed
    have "visit_all (keep_candidate_event w) (rs dec) (\<lambda>_. None) = Some found"
      unfolding keep_candidate_visit
    proof (intro conjI ballI allI impI)
      fix r assume r: "r \<in> set (rs dec)" and i: "record_event_id r \<in> set w"
      from b i obtain e where e: "\<exists>r' \<in> set (rs dec). lr_event r' = e \<and> ev_event_id e = record_event_id r"
        "\<forall>r' \<in> set (rs dec). record_event_id r' = record_event_id r \<longrightarrow> lr_event r' = e"
        unfolding candidate_event_ok_def by blast
      from fnd [OF i e] e(2) r show "found (record_event_id r) = Some (lr_event r)" by simp
    next
      fix i
      show "found i = None \<or> None = None \<and> (\<exists>r \<in> set (rs dec). record_event_id r = i \<and> i \<in> set w)"
      proof (cases "found i")
        case (Some e)
        then obtain r where "i \<in> set w" "List.find (\<lambda>r. record_event_id r = i) (rs dec) = Some r"
          by (auto simp: found_def split: if_splits)
        then show ?thesis by (auto simp: find_Some_iff)
      qed simp
    qed
    moreover have "\<forall>i \<in> set w. check_candidate_event s found i = None"
    proof
      fix i assume i: "i \<in> set w"
      from b i obtain e where e: "\<exists>r \<in> set (rs dec). lr_event r = e \<and> ev_event_id e = i"
        "\<forall>r \<in> set (rs dec). record_event_id r = i \<longrightarrow> lr_event r = e"
        "ev_kind e = KindUserMessage" "verifyEvidencePayload s e = None"
        unfolding candidate_event_ok_def by blast
      from fnd [OF i e(1,2)] e(3,4) show "check_candidate_event s found i = None"
        by (simp add: check_candidate_event_None)
    qed
    ultimately show ?a by blast
  qed
  then show ?thesis unfolding l visitRecords_Inr rs_def w_def [symmetric] by blast
qed

lemma keep_event_visit:
  "\<exists>f'. visit_all (keep_event w) rs f = Some f' \<and>
     (\<forall>i. f' i = f i \<or> (\<exists>r \<in> set rs. f' i = Some (lr_event r) \<and> record_event_id r = i))"
proof (induction rs arbitrary: f)
  case (Cons r rs)
  show ?case
  proof (cases "record_event_id r \<in> set w")
    case True
    obtain f' where f': "visit_all (keep_event w) rs (f(record_event_id r \<mapsto> lr_event r)) = Some f'"
      "\<forall>i. f' i = (f(record_event_id r \<mapsto> lr_event r)) i \<or> (\<exists>r \<in> set rs. f' i = Some (lr_event r) \<and> record_event_id r = i)"
      using Cons by blast
    have "\<forall>i. f' i = f i \<or> (\<exists>q \<in> set (r # rs). f' i = Some (lr_event q) \<and> record_event_id q = i)"
    proof
      fix i show "f' i = f i \<or> (\<exists>q \<in> set (r # rs). f' i = Some (lr_event q) \<and> record_event_id q = i)"
        using f'(2) [rule_format, of i] by (cases "i = record_event_id r") auto
    qed
    moreover have "visit_all (keep_event w) (r # rs) f = Some f'" using f'(1) True by (simp add: keep_event_def [of w r])
    ultimately show ?thesis by blast
  next
    case False
    then have "visit_all (keep_event w) (r # rs) f = visit_all (keep_event w) rs f" by (simp add: keep_event_def [of w r])
    with Cons [of f] show ?thesis by auto
  qed
qed simp

text \<open>What a set of transitions that passes the reference check rests on.\<close>

lemma verifyReferencedEvidence_None:
  assumes v: "verifyReferencedEvidence dec s ts = None" and t: "t \<in> set ts"
  shows "\<forall>i \<in> set (tr_evidence t). \<exists>r \<in> set (decoded_records dec (st_events s)).
      record_event_id r = i \<and> verifyEvidencePayload s (lr_event r) = None"
    "hasBasis (tr_basis t) BasisOutcomeEvidence \<Longrightarrow> tr_evidence t \<noteq> [] \<Longrightarrow>
      \<exists>r \<in> set (decoded_records dec (st_events s)). record_event_id r \<in> set (tr_evidence t) \<and>
        (ev_kind (lr_event r) = KindToolResult \<or> ev_kind (lr_event r) = KindFileChange) \<and> verifyEvidencePayload s (lr_event r) = None"
    "hasBasis (tr_basis t) BasisExplicitUserConfirmation \<Longrightarrow> tr_evidence t \<noteq> [] \<Longrightarrow>
      \<exists>r \<in> set (decoded_records dec (st_events s)). record_event_id r \<in> set (tr_evidence t) \<and>
        ev_kind (lr_event r) = KindUserMessage \<and> verifyEvidencePayload s (lr_event r) = None"
proof -
  define w where "w = concat (map tr_evidence ts)"
  let ?rs = "decoded_records dec (st_events s)"
  have sub: "set (tr_evidence t) \<subseteq> set w" using t by (auto simp: w_def)
  have ne: "w \<noteq> [] \<Longrightarrow> \<exists>found. visit_all (keep_event w) ?rs (\<lambda>_. None) = Some found \<and>
      (\<forall>i \<in> set w. check_referenced_event s found i = None) \<and> (\<forall>t \<in> set ts. check_basis_events found t = None)"
    using v visitRecords_Inr [of dec "keep_event w" "st_events s" "\<lambda>_. None"]
    by (auto simp: verifyReferencedEvidence_def Let_def simp flip: w_def split: prod.splits sum.splits)
  have core: "\<exists>found. (\<forall>i \<in> set w. \<exists>r \<in> set ?rs. found i = Some (lr_event r) \<and> record_event_id r = i \<and>
      verifyEvidencePayload s (lr_event r) = None) \<and> check_basis_events found t = None" if e: "tr_evidence t \<noteq> []"
  proof -
    have "w \<noteq> []" using e sub by auto
    then obtain found where f: "visit_all (keep_event w) ?rs (\<lambda>_. None) = Some found"
      "\<forall>i \<in> set w. check_referenced_event s found i = None" "check_basis_events found t = None" using ne t by blast
    have "\<forall>i. found i = None \<or> (\<exists>r \<in> set ?rs. found i = Some (lr_event r) \<and> record_event_id r = i)"
      using keep_event_visit [of w ?rs "\<lambda>_. None"] f(1) by auto
    moreover have "\<forall>i \<in> set w. \<exists>e. found i = Some e \<and> verifyEvidencePayload s e = None"
      using f(2) by (auto simp: check_referenced_event_def split: option.splits)
    ultimately have "\<forall>i \<in> set w. \<exists>r \<in> set ?rs. found i = Some (lr_event r) \<and> record_event_id r = i \<and>
        verifyEvidencePayload s (lr_event r) = None" by (metis option.distinct(1) option.inject)
    with f(3) show ?thesis by blast
  qed
  show "\<forall>i \<in> set (tr_evidence t). \<exists>r \<in> set ?rs. record_event_id r = i \<and> verifyEvidencePayload s (lr_event r) = None"
    using core sub by (cases "tr_evidence t = []") auto
  show "\<exists>r \<in> set ?rs. record_event_id r \<in> set (tr_evidence t) \<and>
      (ev_kind (lr_event r) = KindToolResult \<or> ev_kind (lr_event r) = KindFileChange) \<and> verifyEvidencePayload s (lr_event r) = None"
    if h: "hasBasis (tr_basis t) BasisOutcomeEvidence" and e: "tr_evidence t \<noteq> []"
  proof -
    from core [OF e] obtain found where f: "\<forall>i \<in> set w. \<exists>r \<in> set ?rs. found i = Some (lr_event r) \<and> record_event_id r = i \<and>
      verifyEvidencePayload s (lr_event r) = None" "check_basis_events found t = None" by blast
    then obtain i where i: "i \<in> set (tr_evidence t)" "found_kind found i = KindToolResult \<or> found_kind found i = KindFileChange"
      using h by (auto simp: check_basis_events_def list_ex_iff)
    with f(1) sub obtain r where "r \<in> set ?rs" "found i = Some (lr_event r)" "record_event_id r = i"
      "verifyEvidencePayload s (lr_event r) = None" by blast
    with i show ?thesis by (intro bexI [of _ r]) (auto simp: found_kind_def)
  qed
  show "\<exists>r \<in> set ?rs. record_event_id r \<in> set (tr_evidence t) \<and> ev_kind (lr_event r) = KindUserMessage \<and>
      verifyEvidencePayload s (lr_event r) = None"
    if h: "hasBasis (tr_basis t) BasisExplicitUserConfirmation" and e: "tr_evidence t \<noteq> []"
  proof -
    from core [OF e] obtain found where f: "\<forall>i \<in> set w. \<exists>r \<in> set ?rs. found i = Some (lr_event r) \<and> record_event_id r = i \<and>
      verifyEvidencePayload s (lr_event r) = None" "check_basis_events found t = None" by blast
    then obtain i where i: "i \<in> set (tr_evidence t)" "found_kind found i = KindUserMessage"
      using h by (auto simp: check_basis_events_def list_ex_iff)
    with f(1) sub obtain r where "r \<in> set ?rs" "found i = Some (lr_event r)" "record_event_id r = i"
      "verifyEvidencePayload s (lr_event r) = None" by blast
    with i show ?thesis by (intro bexI [of _ r]) (auto simp: found_kind_def)
  qed
qed

section \<open>The semantic replay, record by record\<close>

text \<open>The record \<open>r\<close> could have been written after the records \<open>pre\<close>.\<close>

definition record_ok ::
  "candidate_env \<Rightarrow> (string \<Rightarrow> ledger_record option) \<Rightarrow> 'a evidence_store_scheme \<Rightarrow> review_record list
    \<Rightarrow> review_record \<Rightarrow> generation \<Rightarrow> selection \<Rightarrow> string list \<Rightarrow> bool" where
  "record_ok env dec s pre r g sel ids \<longleftrightarrow>
     (let e = rr_event r; request = event_request e; sha = cm_candidates_sha256 (gn_manifest g) in
      OpenGeneration env (re_generation e) = Inr g \<and> re_candidates_sha256 e = sha \<and>
      Select env g ids = Inr sel \<and> set (record_ids r) \<subseteq> set ids \<and>
      verifyCandidateEvidence dec s (selected_candidates sel ids) = None \<and>
      validateRequestEnvelope request = None \<and>
      prepareTransitions request sha sel (history_statuses pre) = Inr (re_transitions e) \<and>
      verifyReferencedEvidence dec s (re_transitions e) = None \<and>
      hashRequest g request = Some (re_request_sha256 e))"

definition history_ok ::
  "candidate_env \<Rightarrow> (string \<Rightarrow> ledger_record option) \<Rightarrow> 'a evidence_store_scheme \<Rightarrow> review_record list \<Rightarrow> bool" where
  "history_ok env dec s rs \<longleftrightarrow> (\<forall>pre r post. rs = pre @ r # post \<longrightarrow> (\<exists>g sel ids. record_ok env dec s pre r g sel ids))"

lemma record_okD:
  assumes "record_ok env dec s pre r g sel ids"
  shows "OpenGeneration env (re_generation (rr_event r)) = Inr g"
    "re_candidates_sha256 (rr_event r) = cm_candidates_sha256 (gn_manifest g)"
    "Select env g ids = Inr sel" "set (record_ids r) \<subseteq> set ids"
    "verifyCandidateEvidence dec s (selected_candidates sel ids) = None"
    "validateRequestEnvelope (event_request (rr_event r)) = None"
    "prepareTransitions (event_request (rr_event r)) (cm_candidates_sha256 (gn_manifest g)) sel (history_statuses pre) =
      Inr (re_transitions (rr_event r))"
    "verifyReferencedEvidence dec s (re_transitions (rr_event r)) = None"
    "hashRequest g (event_request (rr_event r)) = Some (re_request_sha256 (rr_event r))"
  using assms unfolding record_ok_def Let_def by blast+

subsection \<open>Steps\<close>

lemma semantic_steps_iff:
  assumes "\<forall>r \<in> set rs. \<forall>st st'. step r st = Inr st' \<longrightarrow> st' = upd r st"
  shows "(\<exists>st'. semantic_steps step rs st = Inr st') \<longleftrightarrow>
    (\<forall>pre r post. rs = pre @ r # post \<longrightarrow> step r (fold upd pre st) = Inr (upd r (fold upd pre st)))"
  using assms
proof (induction rs arbitrary: st)
  case (Cons r rs)
  show ?case
  proof (cases "\<exists>st1. step r st = Inr st1")
    case True
    then have r: "step r st = Inr (upd r st)" using Cons.prems by auto
    have "(\<forall>pre q post. r # rs = pre @ q # post \<longrightarrow> step q (fold upd pre st) = Inr (upd q (fold upd pre st))) \<longleftrightarrow>
        (\<forall>pre q post. rs = pre @ q # post \<longrightarrow> step q (fold upd pre (upd r st)) = Inr (upd q (fold upd pre (upd r st))))"
      (is "?l \<longleftrightarrow> ?r")
    proof
      assume ?l
      then show ?r by (metis append_Cons comp_apply fold_Cons)
    next
      assume ?r
      then show ?l using r by (auto simp: Cons_eq_append_conv)
    qed
    moreover have "semantic_steps step (r # rs) st = semantic_steps step rs (upd r st)" using r by simp
    moreover have "\<forall>q \<in> set rs. \<forall>st st'. step q st = Inr st' \<longrightarrow> st' = upd q st" using Cons.prems by simp
    ultimately show ?thesis using Cons.IH [of "upd r st"] by presburger
  next
    case False
    then have "\<not> (\<exists>st'. semantic_steps step (r # rs) st = Inr st')" by (auto split: sum.splits)
    moreover have "\<not> (\<forall>pre q post. r # rs = pre @ q # post \<longrightarrow> step q (fold upd pre st) = Inr (upd q (fold upd pre st)))"
      using False by (metis append_Nil fold_Nil id_apply)
    ultimately show ?thesis by blast
  qed
qed simp

lemma semantic_step_Inr:
  "semantic_step dec s verified r statuses = Inr st' \<longleftrightarrow>
     (\<exists>g sel. verified (re_generation (rr_event r)) = Some (g, sel) \<and>
        validateRequestEnvelope (event_request (rr_event r)) = None \<and>
        prepareTransitions (event_request (rr_event r)) (cm_candidates_sha256 (gn_manifest g)) sel statuses =
          Inr (re_transitions (rr_event r)) \<and>
        verifyReferencedEvidence dec s (re_transitions (rr_event r)) = None \<and>
        hashRequest g (event_request (rr_event r)) = Some (re_request_sha256 (rr_event r)) \<and>
        st' = set_statuses (cm_candidates_sha256 (gn_manifest g)) (re_transitions (rr_event r)) statuses)"
proof
  assume a: "semantic_step dec s verified r statuses = Inr st'"
  then obtain g sel prepared where v: "verified (re_generation (rr_event r)) = Some (g, sel)"
    "validateRequestEnvelope (event_request (rr_event r)) = None"
    "prepareTransitions (event_request (rr_event r)) (cm_candidates_sha256 (gn_manifest g)) sel statuses = Inr prepared"
    by (auto simp: semantic_step_def Let_def split: option.splits sum.splits)
  with a have b: "first_error
     [fail_if (prepared \<noteq> re_transitions (rr_event r)) (NotReproducible (rr_sequence r)),
      map_option (RecordEvidence (rr_sequence r)) (verifyReferencedEvidence dec s prepared),
      (case hashRequest g (event_request (rr_event r)) of None \<Rightarrow> Some RequestEncode
       | Some d \<Rightarrow> fail_if (d \<noteq> re_request_sha256 (rr_event r)) (RequestHashMismatch (rr_sequence r)))] = None"
    and st: "st' = set_statuses (cm_candidates_sha256 (gn_manifest g)) prepared statuses"
    by (auto simp: semantic_step_def Let_def split: option.splits)
  from b have "prepared = re_transitions (rr_event r)" "verifyReferencedEvidence dec s prepared = None"
    "hashRequest g (event_request (rr_event r)) = Some (re_request_sha256 (rr_event r))"
    by (auto split: option.splits)
  with v st show "\<exists>g sel. verified (re_generation (rr_event r)) = Some (g, sel) \<and>
        validateRequestEnvelope (event_request (rr_event r)) = None \<and>
        prepareTransitions (event_request (rr_event r)) (cm_candidates_sha256 (gn_manifest g)) sel statuses =
          Inr (re_transitions (rr_event r)) \<and>
        verifyReferencedEvidence dec s (re_transitions (rr_event r)) = None \<and>
        hashRequest g (event_request (rr_event r)) = Some (re_request_sha256 (rr_event r)) \<and>
        st' = set_statuses (cm_candidates_sha256 (gn_manifest g)) (re_transitions (rr_event r)) statuses" by blast
qed (auto simp: semantic_step_def Let_def)

subsection \<open>Sources\<close>

lemma check_sources_None:
  "check_sources rs wanted = None \<longleftrightarrow>
     (\<exists>f. (\<forall>n sha. wanted n = Some sha \<longrightarrow> f n = sha) \<and>
          (\<forall>r \<in> set rs. f (re_generation (rr_event r)) = re_candidates_sha256 (rr_event r)))"
proof (induction rs arbitrary: wanted)
  case Nil
  show ?case by (auto intro: exI [of _ "\<lambda>n. the (wanted n)"])
next
  case (Cons r rs)
  let ?n = "re_generation (rr_event r)" and ?sha = "re_candidates_sha256 (rr_event r)"
  show ?case
  proof (cases "wanted ?n")
    case None
    define w' where "w' = wanted(?n \<mapsto> ?sha)"
    have "(\<forall>n sha. w' n = Some sha \<longrightarrow> f n = sha) \<longleftrightarrow>
        (\<forall>n sha. wanted n = Some sha \<longrightarrow> f n = sha) \<and> f ?n = ?sha" for f :: "string \<Rightarrow> string"
      using None by (auto simp: w'_def)
    moreover have "check_sources (r # rs) wanted = check_sources rs w'" using None by (simp add: w'_def Let_def)
    ultimately show ?thesis using Cons [of w'] by (simp add: conj_ac)
  next
    case (Some sha')
    have f: "f ?n = sha'" if "\<forall>n sha. wanted n = Some sha \<longrightarrow> f n = sha" for f :: "string \<Rightarrow> string"
      using that Some by blast
    show ?thesis
    proof (cases "sha' = ?sha")
      case True
      then have k: "check_sources (r # rs) wanted = check_sources rs wanted" using Some by (simp add: Let_def)
      have c: "(\<forall>q \<in> set (r # rs). f (re_generation (rr_event q)) = re_candidates_sha256 (rr_event q)) \<longleftrightarrow>
          (\<forall>q \<in> set rs. f (re_generation (rr_event q)) = re_candidates_sha256 (rr_event q))"
        if "\<forall>n sha. wanted n = Some sha \<longrightarrow> f n = sha" for f
        using f [OF that] True by simp
      show ?thesis unfolding k Cons [of wanted] by (intro iff_exI conj_cong refl) (rule c [symmetric])
    next
      case False
      then have "check_sources (r # rs) wanted \<noteq> None" using Some by (simp add: Let_def)
      moreover have "f ?n \<noteq> ?sha" if "\<forall>n sha. wanted n = Some sha \<longrightarrow> f n = sha" for f
        using f [OF that] False by simp
      ultimately show ?thesis by (metis list.set_intros(1))
    qed
  qed
qed

lemma verify_sources_iff:
  "verify_sources v names w = Inr m \<longleftrightarrow>
     (\<forall>n \<in> set names. \<exists>x. v n = Inr x) \<and> m = (\<lambda>n. if n \<in> set names then Some (projr (v n)) else w n)"
proof (induction names arbitrary: w)
  case (Cons n names)
  show ?case
  proof (cases "v n")
    case (Inr x)
    define w' where "w' = w(n \<mapsto> x)"
    have "(\<lambda>k. if k \<in> set (n # names) then Some (projr (v k)) else w k) =
        (\<lambda>k. if k \<in> set names then Some (projr (v k)) else w' k)" using Inr by (auto simp: fun_eq_iff w'_def)
    moreover have "verify_sources v (n # names) w = verify_sources v names w'" using Inr by (simp add: w'_def)
    ultimately show ?thesis using Cons [of w'] Inr by simp
  qed auto
qed auto

lemma verify_source_Inr:
  assumes "r \<in> set rs" and "\<forall>q \<in> set rs. re_generation (rr_event q) = re_generation (rr_event r) \<longrightarrow>
      re_candidates_sha256 (rr_event q) = re_candidates_sha256 (rr_event r)"
  shows "verify_source env dec s rs (re_generation (rr_event r)) = Inr (g, sel) \<longleftrightarrow>
    OpenGeneration env (re_generation (rr_event r)) = Inr g \<and>
    re_candidates_sha256 (rr_event r) = cm_candidates_sha256 (gn_manifest g) \<and>
    Select env g (source_ids (re_generation (rr_event r)) rs) = Inr sel \<and>
    verifyCandidateEvidence dec s (selected_candidates sel (source_ids (re_generation (rr_event r)) rs)) = None"
proof -
  have "r \<in> set (records_of (re_generation (rr_event r)) rs)" using assms(1) by (simp add: records_of_def)
  then obtain q qs where q: "records_of (re_generation (rr_event r)) rs = q # qs"
    by (cases "records_of (re_generation (rr_event r)) rs") auto
  then have "q \<in> set (records_of (re_generation (rr_event r)) rs)" by simp
  then have "re_candidates_sha256 (rr_event q) = re_candidates_sha256 (rr_event r)"
    using assms(2) by (simp add: records_of_def)
  with q show ?thesis by (auto simp: verify_source_def split: sum.splits option.splits)
qed

lemma source_ids_set: "set (source_ids name rs) = \<Union>(set ` record_ids ` set (records_of name rs))"
  by (simp add: source_ids_def)

context candidate_source
begin

lemma prepare_agree:
  assumes s: "select ids = Inr sel" and s': "select ids' = Inr sel'"
    and sub: "set (map tq_candidate_id (rq_transitions request)) \<subseteq> set ids \<inter> set ids'"
  shows "prepareTransitions request sha sel statuses = prepareTransitions request sha sel' statuses"
proof -
  have "prepare_transition request sha sel statuses t = prepare_transition request sha sel' statuses t"
    if t: "t \<in> set (rq_transitions request)" for t
  proof -
    have "tq_candidate_id t \<in> set ids \<inter> set ids'" using sub t by auto
    then have "sl_candidates sel (tq_candidate_id t) = sl_candidates sel' (tq_candidate_id t)"
      using selections_agree [OF s s', of "tq_candidate_id t"] by blast
    then show ?thesis unfolding prepare_transition_def by presburger
  qed
  then have "prepare_all request sha sel statuses ts = prepare_all request sha sel' statuses ts"
    if "set ts \<subseteq> set (rq_transitions request)" for ts
    using that by (induction ts) (auto split: sum.splits)
  from this [OF subset_refl] show ?thesis unfolding prepareTransitions_def groups_same [OF s s'] by presburger
qed

lemma selected_set:
  assumes s: "select ids = Inr sel"
  shows "set (selected_candidates sel ids) = {c \<in> set content. cd_candidate_id c \<in> set ids}"
  using selected_content [OF s] selected_by_id [OF s]
  by (auto simp: selected_candidates_def List.map_filter_def image_iff) (metis option.sel)+

lemma evidence_mono:
  assumes "select ids = Inr sel" and "ids \<noteq> []"
    and "\<forall>i \<in> set ids. \<exists>ids' sel'. i \<in> set ids' \<and> select ids' = Inr sel' \<and>
      verifyCandidateEvidence dec s (selected_candidates sel' ids') = None"
  shows "verifyCandidateEvidence dec s (selected_candidates sel ids) = None"
proof -
  have ev: "(\<exists>h. lastRecordHash dec (st_events s) = Inr h) \<and> candidate_event_ids c \<noteq> [] \<and>
      (\<forall>i \<in> set (candidate_event_ids c). candidate_event_ok s (decoded_records dec (st_events s)) i)"
    if c: "c \<in> set (selected_candidates sel ids)" for c
  proof -
    have cc: "c \<in> set content" "cd_candidate_id c \<in> set ids" using c selected_set [OF assms(1)] by auto
    then obtain ids' sel' where i: "cd_candidate_id c \<in> set ids'" "select ids' = Inr sel'"
      "verifyCandidateEvidence dec s (selected_candidates sel' ids') = None" using assms(3) by blast
    then have "c \<in> set (selected_candidates sel' ids')" using cc selected_set [OF i(2)] by simp
    with i(3) have "(\<exists>h. lastRecordHash dec (st_events s) = Inr h)"
      "\<forall>i \<in> set (candidate_event_ids c). candidate_event_ok s (decoded_records dec (st_events s)) i"
      by (auto simp: verifyCandidateEvidence_None)
    moreover have "candidate_event_ids c \<noteq> []"
      using content_valid [OF assms(1) cc(1)] by (cases "cd_observations c") (auto simp: candidate_event_ids_def)
    ultimately show ?thesis by blast
  qed
  obtain c where "sl_candidates sel (hd ids) = Some c" using selected [OF assms(1)] assms(2) by force
  from selected_content [OF assms(1) this] have c: "c \<in> set (selected_candidates sel ids)"
    unfolding selected_set [OF assms(1)] by simp
  have "concat (map candidate_event_ids (selected_candidates sel ids)) \<noteq> []" using c ev [OF c] by auto
  moreover have "\<forall>i \<in> set (concat (map candidate_event_ids (selected_candidates sel ids))).
      candidate_event_ok s (decoded_records dec (st_events s)) i" using ev by auto
  ultimately show ?thesis unfolding verifyCandidateEvidence_None using ev [OF c] by blast
qed

end

subsection \<open>The whole history\<close>

lemma event_request_ids: "map tq_candidate_id (rq_transitions (event_request e)) = map tr_candidate_id (re_transitions e)"
  by (simp add: event_request_def request_of_def)

lemma semantics_history_ok:
  assumes "verifyReviewSemantics env dec s rs = None"
  shows "history_ok env dec s rs"
  unfolding history_ok_def
proof (intro allI impI)
  fix pre r post assume rs: "rs = pre @ r # post"
  then have "rs \<noteq> []" by simp
  with assms obtain verified fin where c: "check_sources rs (\<lambda>_. None) = None"
    and v: "verify_sources (verify_source env dec s rs) (source_names rs) (\<lambda>_. None) = Inr verified"
    and f: "semantic_steps (semantic_step dec s verified) rs (\<lambda>_. None) = Inr fin"
    by (auto simp: verifyReviewSemantics_def split: option.splits sum.splits)
  obtain F where F: "\<forall>q \<in> set rs. F (re_generation (rr_event q)) = re_candidates_sha256 (rr_event q)"
    using c by (auto simp: check_sources_None)
  have src: "\<exists>g sel. verified (re_generation (rr_event q)) = Some (g, sel) \<and>
      verify_source env dec s rs (re_generation (rr_event q)) = Inr (g, sel)" if "q \<in> set rs" for q
  proof -
    have n: "re_generation (rr_event q) \<in> set (source_names rs)" using that by (auto simp: source_names_def)
    with v obtain x where "verify_source env dec s rs (re_generation (rr_event q)) = Inr x"
      and "verified (re_generation (rr_event q)) = Some x" unfolding verify_sources_iff by force
    then show ?thesis by (cases x) blast
  qed
  have same: "\<forall>q' \<in> set rs. re_generation (rr_event q') = re_generation (rr_event q) \<longrightarrow>
      re_candidates_sha256 (rr_event q') = re_candidates_sha256 (rr_event q)" if "q \<in> set rs" for q
    using F that by metis
  have sha: "re_candidates_sha256 (rr_event q) = cm_candidates_sha256 (gn_manifest g)"
    if q: "q \<in> set rs" "verified (re_generation (rr_event q)) = Some (g, sel)" for q g sel
  proof -
    have "verify_source env dec s rs (re_generation (rr_event q)) = Inr (g, sel)" using src [OF q(1)] q(2) by auto
    then show ?thesis unfolding verify_source_Inr [OF q(1) same [OF q(1)]] by blast
  qed
  have upd: "\<forall>q \<in> set rs. \<forall>st st'. semantic_step dec s verified q st = Inr st' \<longrightarrow> st' = record_statuses q st"
    using sha by (auto simp: semantic_step_Inr record_statuses_def)
  have r: "r \<in> set rs" using rs by simp
  obtain g sel where g: "verified (re_generation (rr_event r)) = Some (g, sel)"
    "verify_source env dec s rs (re_generation (rr_event r)) = Inr (g, sel)" using src [OF r] by blast
  have "semantic_step dec s verified r (fold record_statuses pre (\<lambda>_. None)) = Inr (record_statuses r (fold record_statuses pre (\<lambda>_. None)))"
    using f rs semantic_steps_iff [OF upd, of "\<lambda>_. None"] by blast
  with g(1) have st: "validateRequestEnvelope (event_request (rr_event r)) = None"
    "prepareTransitions (event_request (rr_event r)) (cm_candidates_sha256 (gn_manifest g)) sel (history_statuses pre) =
      Inr (re_transitions (rr_event r))"
    "verifyReferencedEvidence dec s (re_transitions (rr_event r)) = None"
    "hashRequest g (event_request (rr_event r)) = Some (re_request_sha256 (rr_event r))"
    by (auto simp: semantic_step_Inr history_statuses_def)
  have "set (record_ids r) \<subseteq> set (source_ids (re_generation (rr_event r)) rs)"
    using r by (auto simp: source_ids_set records_of_def)
  with g(2) st show "\<exists>g sel ids. record_ok env dec s pre r g sel ids"
    unfolding record_ok_def Let_def verify_source_Inr [OF r same [OF r]] by blast
qed

text \<open>Conversely, records that could each be written after their predecessors pass the semantic replay.\<close>

lemma history_ok_semantics:
  assumes h: "history_ok env dec s rs" and ne: "\<forall>r \<in> set rs. record_ids r \<noteq> []"
  shows "verifyReviewSemantics env dec s rs = None"
proof (cases "rs = []")
  case False
  have ok: "\<exists>pre g sel ids. record_ok env dec s pre r g sel ids" if "r \<in> set rs" for r
    using h that unfolding history_ok_def by (meson split_list)
  have sha: "re_candidates_sha256 (rr_event r) = cm_candidates_sha256 (gn_manifest (projr (OpenGeneration env (re_generation (rr_event r)))))"
    if "r \<in> set rs" for r
    using ok [OF that] record_okD(1,2) by fastforce
  then have c: "check_sources rs (\<lambda>_. None) = None"
    unfolding check_sources_None
    by (intro exI [of _ "\<lambda>n. cm_candidates_sha256 (gn_manifest (projr (OpenGeneration env n)))"]) simp
  have same: "\<forall>q \<in> set rs. re_generation (rr_event q) = re_generation (rr_event r) \<longrightarrow>
      re_candidates_sha256 (rr_event q) = re_candidates_sha256 (rr_event r)" if "r \<in> set rs" for r
    using sha that by simp
  have src: "\<exists>sel. verify_source env dec s rs (re_generation (rr_event r)) = Inr (g, sel)"
    if r: "r \<in> set rs" and g: "OpenGeneration env (re_generation (rr_event r)) = Inr g" for r g
  proof -
    let ?n = "re_generation (rr_event r)"
    have each: "\<exists>ids' sel'. i \<in> set ids' \<and> Select env g ids' = Inr sel' \<and>
        verifyCandidateEvidence dec s (selected_candidates sel' ids') = None" if i: "i \<in> set (source_ids ?n rs)" for i
    proof -
      obtain q where q: "q \<in> set rs" "re_generation (rr_event q) = ?n" "i \<in> set (record_ids q)"
        using i by (auto simp: source_ids_set records_of_def)
      obtain pre g' sel' ids' where o: "record_ok env dec s pre q g' sel' ids'" using ok [OF q(1)] by blast
      have "g' = g" using record_okD(1) [OF o] q(2) g by simp
      with record_okD(3-5) [OF o] q(3) show ?thesis by blast
    qed
    obtain i where i: "i \<in> set (record_ids r)" using ne r by (metis list.set_sel(1))
    then have i': "i \<in> set (source_ids ?n rs)" using r by (auto simp: source_ids_set records_of_def)
    then have nonempty: "source_ids ?n rs \<noteq> []" by auto
    from each have "\<forall>i \<in> set (source_ids ?n rs). \<exists>ids'. i \<in> set ids' \<and> (\<exists>sel'. Select env g ids' = Inr sel')" by blast
    then obtain F where F: "\<forall>i \<in> set (source_ids ?n rs). i \<in> set (F i) \<and> (\<exists>sel'. Select env g (F i) = Inr sel')"
      unfolding bchoice_iff by blast
    obtain sel where sel: "Select env g (source_ids ?n rs) = Inr sel"
      using generation.select_many [of "map F (source_ids ?n rs)" env g "source_ids ?n rs"] F nonempty by auto
    have "verifyCandidateEvidence dec s (selected_candidates sel (source_ids ?n rs)) = None"
      using generation.evidence_mono [OF sel nonempty] each by blast
    moreover have "re_candidates_sha256 (rr_event r) = cm_candidates_sha256 (gn_manifest g)" using sha [OF r] g by simp
    ultimately show ?thesis using verify_source_Inr [OF r same [OF r]] sel g by blast
  qed
  have opened: "\<exists>g. OpenGeneration env (re_generation (rr_event r)) = Inr g" if "r \<in> set rs" for r
    using ok [OF that] record_okD(1) by blast
  have "\<forall>n \<in> set (source_names rs). \<exists>x. verify_source env dec s rs n = Inr x"
    unfolding source_names_def using src opened by fastforce
  then obtain verified where v: "verify_sources (verify_source env dec s rs) (source_names rs) (\<lambda>_. None) = Inr verified"
    and vd: "verified = (\<lambda>n. if n \<in> set (source_names rs) then Some (projr (verify_source env dec s rs n)) else None)"
    unfolding verify_sources_iff by blast
  have ver: "\<exists>sel. verified (re_generation (rr_event r)) = Some (g, sel) \<and>
      verify_source env dec s rs (re_generation (rr_event r)) = Inr (g, sel)"
    if r: "r \<in> set rs" and g: "OpenGeneration env (re_generation (rr_event r)) = Inr g" for r g
    using src [OF r g] r by (auto simp: vd source_names_def)
  have upd: "\<forall>q \<in> set rs. \<forall>st st'. semantic_step dec s verified q st = Inr st' \<longrightarrow> st' = record_statuses q st"
  proof (intro ballI allI impI)
    fix q st st' assume q: "q \<in> set rs" and st: "semantic_step dec s verified q st = Inr st'"
    obtain g where g: "OpenGeneration env (re_generation (rr_event q)) = Inr g" using opened [OF q] by blast
    with ver [OF q g] sha [OF q] st show "st' = record_statuses q st"
      by (auto simp: semantic_step_Inr record_statuses_def)
  qed
  have "semantic_step dec s verified r (fold record_statuses pre (\<lambda>_. None)) =
      Inr (record_statuses r (fold record_statuses pre (\<lambda>_. None)))" if rs: "rs = pre @ r # post" for pre r post
  proof -
    have r: "r \<in> set rs" using rs by simp
    obtain g sel ids where o: "record_ok env dec s pre r g sel ids" using h rs unfolding history_ok_def by blast
    obtain sel' where v: "verified (re_generation (rr_event r)) = Some (g, sel')"
      "verify_source env dec s rs (re_generation (rr_event r)) = Inr (g, sel')" using ver [OF r record_okD(1) [OF o]] by blast
    from v(2) have sel': "Select env g (source_ids (re_generation (rr_event r)) rs) = Inr sel'"
      unfolding verify_source_Inr [OF r same [OF r]] by blast
    have "set (map tq_candidate_id (rq_transitions (event_request (rr_event r)))) \<subseteq>
        set ids \<inter> set (source_ids (re_generation (rr_event r)) rs)"
      using record_okD(4) [OF o] r by (auto simp: event_request_ids record_ids_def source_ids_set records_of_def)
    from generation.prepare_agree [OF record_okD(3) [OF o] sel' this]
    have "prepareTransitions (event_request (rr_event r)) (cm_candidates_sha256 (gn_manifest g)) sel'
        (fold record_statuses pre (\<lambda>_. None)) = Inr (re_transitions (rr_event r))"
      using record_okD(7) [OF o] by (simp add: history_statuses_def)
    moreover have "record_statuses r st = set_statuses (cm_candidates_sha256 (gn_manifest g)) (re_transitions (rr_event r)) st" for st
      using record_okD(2) [OF o] by (simp add: record_statuses_def)
    ultimately show ?thesis using v(1) record_okD(6,8,9) [OF o]
      unfolding semantic_step_Inr by blast
  qed
  then have "\<exists>fin. semantic_steps (semantic_step dec s verified) rs (\<lambda>_. None) = Inr fin"
    using semantic_steps_iff [OF upd, of "\<lambda>_. None"] by blast
  with c v show ?thesis using False by (auto simp: verifyReviewSemantics_def)
qed (simp add: verifyReviewSemantics_def)

lemma history_ok_append:
  "history_ok env dec s (rs @ [r]) \<longleftrightarrow>
     history_ok env dec s rs \<and> (\<exists>g sel ids. record_ok env dec s rs r g sel ids)"
proof
  assume a: "history_ok env dec s (rs @ [r])"
  have "\<exists>g sel ids. record_ok env dec s pre q g sel ids" if "rs = pre @ q # post" for pre q post
    using a that unfolding history_ok_def by (metis append.assoc append_Cons)
  moreover have "\<exists>g sel ids. record_ok env dec s rs r g sel ids" using a unfolding history_ok_def by blast
  ultimately show "history_ok env dec s rs \<and> (\<exists>g sel ids. record_ok env dec s rs r g sel ids)"
    unfolding history_ok_def by blast
next
  assume a: "history_ok env dec s rs \<and> (\<exists>g sel ids. record_ok env dec s rs r g sel ids)"
  show "history_ok env dec s (rs @ [r])"
    unfolding history_ok_def
  proof (intro allI impI)
    fix pre q post assume e: "rs @ [r] = pre @ q # post"
    show "\<exists>g sel ids. record_ok env dec s pre q g sel ids"
    proof (cases post rule: rev_cases)
      case Nil
      with e a show ?thesis by simp
    next
      case (snoc post' p)
      with e have "rs = pre @ q # post'" by simp
      with a show ?thesis unfolding history_ok_def by blast
    qed
  qed
qed

end
