(* ===== verification/Review_Apply.thy ===== *)
theory Review_Apply
  imports Review_Semantics
begin

text \<open>
  What \<open>Apply\<close> adds to the review ledger: the record it builds passes the replay step and the semantic
  replay, so that the ledger it leaves is one that the next operation accepts. The evidence checks read the
  evidence ledger and its blobs only, so that writing the review file or taking its lock changes none of them.
\<close>

section \<open>What the checks read\<close>

lemma evidence_cong:
  fixes s :: "'a evidence_store_scheme" and s' :: "'b evidence_store_scheme"
  assumes "st_events s' = st_events s" and "st_blobs s' = st_blobs s"
  shows "verifyEvidencePayload s' = verifyEvidencePayload s"
    "verifyCandidateEvidence dec s' = verifyCandidateEvidence dec s"
    "verifyReferencedEvidence dec s' = verifyReferencedEvidence dec s"
    "verifyReviewSemantics env dec s' = verifyReviewSemantics env dec s"
proof -
  have o: "OpenBlob s' = OpenBlob s" using assms by (simp add: OpenBlob_def fun_eq_iff)
  show p: "verifyEvidencePayload s' = verifyEvidencePayload s"
    unfolding verifyEvidencePayload_def o ..
  have c: "check_candidate_event s' = check_candidate_event s" "check_referenced_event s' = check_referenced_event s"
    by (simp_all only: check_candidate_event_def [abs_def] check_referenced_event_def [abs_def] p)
  show v: "verifyCandidateEvidence dec s' = verifyCandidateEvidence dec s"
    "verifyReferencedEvidence dec s' = verifyReferencedEvidence dec s"
    by (simp_all only: verifyCandidateEvidence_def [abs_def] verifyReferencedEvidence_def [abs_def] c assms)
  have "verify_source env dec s' = verify_source env dec s"
    by (simp only: verify_source_def [abs_def] v)
  moreover have "semantic_step dec s' = semantic_step dec s"
    by (simp only: semantic_step_def [abs_def] v)
  ultimately show "verifyReviewSemantics env dec s' = verifyReviewSemantics env dec s"
    by (simp only: verifyReviewSemantics_def [abs_def])
qed

lemma review_frame [simp]:
  fixes s :: "'a review_store_scheme"
  shows "verifyCandidateEvidence dec (s\<lparr>rst_lock := b\<rparr>) = verifyCandidateEvidence dec s"
    "verifyReferencedEvidence dec (s\<lparr>rst_lock := b\<rparr>) = verifyReferencedEvidence dec s"
    "verifyReviewSemantics env dec (s\<lparr>rst_lock := b\<rparr>) = verifyReviewSemantics env dec s"
    "verifyReviewSemantics env dec (s\<lparr>rst_file := f\<rparr>) = verifyReviewSemantics env dec s"
    "replayVerified_review env dec rdec (s\<lparr>rst_lock := b\<rparr>) = replayVerified_review env dec rdec s"
proof -
  show v: "verifyReviewSemantics env dec (s\<lparr>rst_lock := b\<rparr>) = verifyReviewSemantics env dec s"
    by (rule evidence_cong) simp_all
  show "verifyCandidateEvidence dec (s\<lparr>rst_lock := b\<rparr>) = verifyCandidateEvidence dec s"
    "verifyReferencedEvidence dec (s\<lparr>rst_lock := b\<rparr>) = verifyReferencedEvidence dec s"
    "verifyReviewSemantics env dec (s\<lparr>rst_file := f\<rparr>) = verifyReviewSemantics env dec s"
    by (rule evidence_cong; simp)+
  show "replayVerified_review env dec rdec (s\<lparr>rst_lock := b\<rparr>) = replayVerified_review env dec rdec s"
    by (simp add: replayVerified_review_def v split: prod.splits option.splits)
qed

section \<open>The record of an operation\<close>

lemma review_record_for_Inr:
  assumes "review_record_for env dec rdec failed now random g sel request s = Inr r"
  shows "\<exists>st. replayVerified_review env dec rdec s = (st, None) \<and>
    prepareTransitions request (cm_candidates_sha256 (gn_manifest g)) sel (rs_statuses st) = Inr (re_transitions (rr_event r)) \<and>
    verifyReferencedEvidence dec s (re_transitions (rr_event r)) = None \<and>
    hashRequest g request = Some (re_request_sha256 (rr_event r)) \<and>
    re_generation (rr_event r) = gn_name g \<and> re_candidates_sha256 (rr_event r) = cm_candidates_sha256 (gn_manifest g) \<and>
    re_reviewer (rr_event r) = rq_reviewer request \<and> re_conflict_group (rr_event r) = rq_conflict_group request \<and>
    validateEvent_review (rr_event r) = None \<and>
    makeRecord_review (rr_event r) (rs_next st) (rs_last_hash st) = Some r"
proof -
  have ev: "rr_event m = e" if "makeRecord_review e n p = Some m" for e n p m
    using that by (auto simp: makeRecord_review_def)
  show ?thesis using assms unfolding review_record_for_def Let_def
    by (auto 0 3 simp: ev split: prod.splits option.splits sum.splits if_splits)
qed

lemma makeRecord_review_fields:
  assumes "makeRecord_review e n p = Some r"
  shows "rr_schema_version r = ReviewRecordSchemaVersion" "rr_sequence r = n" "rr_previous r = p"
    "validSHA256 (rr_hash r)" "rr_event r = e"
  using assms by (auto simp: makeRecord_review_def)

text \<open>A record built on the state of a replay is accepted by the replay step.\<close>

lemma made_record_steps:
  assumes mk: "makeRecord_review (rr_event r) (rs_next st) (rs_last_hash st) = Some r"
    and v: "validateEvent_review (rr_event r) = None"
    and ex: "\<forall>t \<in> set (re_transitions (rr_event r)). check_expected st (rr_event r) t = None"
  shows "\<exists>st'. replay_step_review r st = Inr st'"
proof -
  have "validateRecord_review r (rs_next st) (rs_last_hash st) = None"
    using makeRecord_review_fields [OF mk] mk v by (simp add: validateRecord_review_def)
  then have "first_error (validateRecord_review r (rs_next st) (rs_last_hash st) #
      map (check_expected st (rr_event r)) (re_transitions (rr_event r))) = None" using ex by simp
  then show ?thesis by (auto simp: replay_step_review_def Let_def simp del: first_error_Cons)
qed

lemma prepared_expected:
  assumes "prepared_ok request sha (rs_statuses st) c t" and "re_candidates_sha256 e = sha"
  shows "check_expected st e t = None"
  using prepared_okD(1-3) [OF assms(1)] assms(2) initialStatus_cases [of c]
  by (auto simp: check_expected_def event_key_def status_of_def key_of_def split: option.splits)

lemma event_request_prepared:
  assumes "map request_of (re_transitions e) = rq_transitions request" and "re_reviewer e = rq_reviewer request"
    and "re_conflict_group e = rq_conflict_group request" and "validateRequestEnvelope request = None"
  shows "event_request e = request"
  using assms by (simp add: event_request_def validateRequestEnvelope_def)

lemma new_record_ok:
  assumes rec: "review_record_for env dec rdec failed now random g sel request s = Inr r"
    and st: "replayVerified_review env dec rdec s = (st, None)"
    and req: "validateRequestEnvelope request = None"
    and sel: "Select env g (map tq_candidate_id (rq_transitions request)) = Inr sel"
    and ev: "verifyCandidateEvidence dec s (selected_candidates sel (map tq_candidate_id (rq_transitions request))) = None"
  shows "OpenGeneration env (gn_name g) = Inr g \<Longrightarrow>
      record_ok env dec s (rs_history st) r g sel (map tq_candidate_id (rq_transitions request))"
    and "\<exists>st'. replay_step_review r st = Inr st'"
proof -
  have r: "prepareTransitions request (cm_candidates_sha256 (gn_manifest g)) sel (rs_statuses st) = Inr (re_transitions (rr_event r))"
    "verifyReferencedEvidence dec s (re_transitions (rr_event r)) = None"
    "hashRequest g request = Some (re_request_sha256 (rr_event r))"
    "re_generation (rr_event r) = gn_name g" "re_candidates_sha256 (rr_event r) = cm_candidates_sha256 (gn_manifest g)"
    "re_reviewer (rr_event r) = rq_reviewer request" "re_conflict_group (rr_event r) = rq_conflict_group request"
    "validateEvent_review (rr_event r) = None" "makeRecord_review (rr_event r) (rs_next st) (rs_last_hash st) = Some r"
    using review_record_for_Inr [OF rec] st by auto
  have ok: "rs_statuses st = history_statuses (rs_history st)"
  proof -
    obtain e where "replay_review rdec (rst_file s) = (st, e)"
      using st by (auto simp: replayVerified_review_def split: prod.splits option.splits)
    from replay_review_ok [OF this] show ?thesis by (simp add: review_state_ok_def)
  qed
  have eq: "event_request (rr_event r) = request"
    by (rule event_request_prepared [OF generation.prepared(2) [OF sel r(1)] r(6,7) req])
  have ids: "record_ids r = map tq_candidate_id (rq_transitions request)"
    using generation.prepared(1) [OF sel r(1)] by (simp add: record_ids_def)
  show "record_ok env dec s (rs_history st) r g sel (map tq_candidate_id (rq_transitions request))"
    if "OpenGeneration env (gn_name g) = Inr g"
    unfolding record_ok_def Let_def eq ids using r ok req sel ev that by simp
  have "\<forall>t \<in> set (re_transitions (rr_event r)). check_expected st (rr_event r) t = None"
    using generation.prepared(3) [OF sel r(1)] prepared_expected r(5) by blast
  with made_record_steps [OF r(9,8)] show "\<exists>st'. replay_step_review r st = Inr st'" .
qed

lemma replayVerified_review_iff:
  "replayVerified_review env dec rdec s = (st, None) \<longleftrightarrow>
     replay_review rdec (rst_file s) = (st, None) \<and> verifyReviewSemantics env dec s (rs_history st) = None"
  by (auto simp: replayVerified_review_def split: prod.splits option.splits)

lemma review_history_ids:
  assumes "replay_review rdec f = (st, e)"
  shows "\<forall>r \<in> set (rs_history st). record_ids r \<noteq> []"
  using replay_review_ok [OF assms] validateEvent_review_transitions(4) by (auto simp: review_state_ok_def record_ids_def)

text \<open>The ledger with the new line is one that the verified replay accepts.\<close>

lemma new_record_accepted:
  fixes s s' :: "'a review_store_scheme"
  assumes rec: "review_record_for env dec rdec failed now random g sel request s = Inr r"
    and req: "validateRequestEnvelope request = None"
    and sel: "Select env g (map tq_candidate_id (rq_transitions request)) = Inr sel"
    and ev: "verifyCandidateEvidence dec s (selected_candidates sel (map tq_candidate_id (rq_transitions request))) = None"
    and reopen: "OpenGeneration env (gn_name g) = Inr g"
    and line: "marshal (review_record_json r) = Some line" and dec: "rdec (line_payload line) = Some r"
    and f: "rst_file s' = Readable (file_bytes (rst_file s) @ line @ [newline]) False"
    and same: "st_events s' = st_events s" "st_blobs s' = st_blobs s"
  shows "\<exists>st st'. replayVerified_review env dec rdec s = (st, None) \<and> replay_step_review r st = Inr st' \<and>
    replayVerified_review env dec rdec s' = (st', None)"
proof -
  obtain st where st: "replayVerified_review env dec rdec s = (st, None)" using review_record_for_Inr [OF rec] by blast
  note ok = new_record_ok [OF rec st req sel ev]
  obtain st' where st': "replay_step_review r st = Inr st'" using ok(2) by blast
  have old: "replay_review rdec (rst_file s) = (st, None)" "verifyReviewSemantics env dec s (rs_history st) = None"
    using st by (simp_all add: replayVerified_review_iff)
  have new: "replay_review rdec (rst_file s') = (st', None)"
    using replay_log_append [OF readable_log [OF old(1) [unfolded replay_review_def]] newline_marshal [OF line] dec st'] f
    by (simp add: replay_review_def)
  have h: "rs_history st' = rs_history st @ [r]" by (rule replay_step_review_Inr(4) [OF st'])
  have "history_ok env dec s (rs_history st')"
    unfolding h history_ok_append using semantics_history_ok [OF old(2)] ok(1) [OF reopen] by blast
  from history_ok_semantics [OF this review_history_ids [OF new]]
  have "verifyReviewSemantics env dec s' (rs_history st') = None" by (simp add: evidence_cong [OF same])
  with st st' new show ?thesis by (auto simp: replayVerified_review_iff)
qed

text \<open>What a successful \<open>Apply\<close> has done.\<close>

lemma Apply_Inr:
  assumes "Apply env dec rdec faults now random path request s = (s', Inr res)"
  shows "\<exists>g sel r line. validateRequestEnvelope request = None \<and> OpenGeneration env path = Inr g \<and>
    Select env g (map tq_candidate_id (rq_transitions request)) = Inr sel \<and>
    verifyCandidateEvidence dec s (selected_candidates sel (map tq_candidate_id (rq_transitions request))) = None \<and>
    review_record_for env dec rdec (rf_random faults) now random g sel request (s\<lparr>rst_lock := True\<rparr>) = Inr r \<and>
    marshal (review_record_json r) = Some line \<and> rst_lock s = False \<and>
    s' = s\<lparr>rst_file := Readable (file_bytes (rst_file s) @ line @ [newline]) False, rst_lock := False\<rparr> \<and>
    res = \<lparr>ar_event_id = re_event_id (rr_event r), ar_sequence = rr_sequence r, ar_hash = rr_hash r,
           ar_transitions = re_transitions (rr_event r)\<rparr>"
proof -
  let ?ids = "map tq_candidate_id (rq_transitions request)"
  obtain g where a: "validateRequestEnvelope request = None" "OpenGeneration env path = Inr g"
    using assms by (auto simp: Apply_def split: option.splits sum.splits)
  obtain sel where b: "Select env g ?ids = Inr sel" "verifyCandidateEvidence dec s (selected_candidates sel ?ids) = None"
    using assms a by (auto simp: Apply_def Let_def split: option.splits sum.splits)
  have lk: "\<not> rst_lock s \<and> acquireReviewLock (rf_lock faults) s = (s\<lparr>rst_lock := True\<rparr>, None)"
    using assms a b by (auto simp: Apply_def Let_def acquireReviewLock_def acquire_lock_def
        split: prod.splits option.splits if_splits lock_fault.splits)
  obtain r where r: "review_record_for env dec rdec (rf_random faults) now random g sel request (s\<lparr>rst_lock := True\<rparr>) = Inr r"
    using assms a b lk by (auto simp: Apply_def Let_def split: sum.splits)
  obtain s2 where s2: "appendRecord_review (rf_append faults) r (s\<lparr>rst_lock := True\<rparr>) = (s2, None)"
    and fin: "s' = releaseReviewLock True s2"
    "res = \<lparr>ar_event_id = re_event_id (rr_event r), ar_sequence = rr_sequence r, ar_hash = rr_hash r,
           ar_transitions = re_transitions (rr_event r)\<rparr>"
    using assms a b lk r by (auto simp: Apply_def Let_def split: prod.splits option.splits if_splits)
  obtain f where ap: "append_bytes (rf_append faults) (encode_line (review_record_json r)) (rst_file s) = (f, None)"
    and s2': "s2 = s\<lparr>rst_lock := True, rst_file := f\<rparr>"
    using s2 by (auto simp: appendRecord_review_def split: prod.splits)
  obtain line where line: "marshal (review_record_json r) = Some line"
    using ap by (cases "marshal (review_record_json r)") (auto simp: encode_line_def append_bytes_def Let_def split: if_splits)
  have "f = Readable (file_bytes (rst_file s) @ line @ [newline]) False"
    using append_bytes_ok(1) [of "rf_append faults" "line @ [newline]" "rst_file s" f] ap by (simp add: encode_line_def line)
  then have "s' = s\<lparr>rst_file := Readable (file_bytes (rst_file s) @ line @ [newline]) False, rst_lock := False\<rparr>"
    using fin(1) s2' by (simp add: releaseReviewLock_def)
  with a b lk r line fin(2) show ?thesis by blast
qed

text \<open>What an append leaves when it fails.\<close>

lemma append_review_fault:
  assumes st: "replay_review rdec (rst_file s) = (st, None)" and step: "replay_step_review r st = Inr st'"
    and dec: "\<forall>line. marshal (review_record_json r) = Some line \<longrightarrow> rdec (line_payload line) = Some r"
    and ap: "appendRecord_review fault r s = (s2, e)"
  shows "old_new_or_refused st st' (replay_review rdec (rst_file s2))"
proof -
  obtain f where f: "append_bytes fault (encode_line (review_record_json r)) (rst_file s) = (f, e)" "rst_file s2 = f"
    using ap by (auto simp: appendRecord_review_def split: prod.splits)
  show ?thesis
  proof (cases "marshal (review_record_json r)")
    case None
    then have "f = rst_file s \<or> f = Readable (file_bytes (rst_file s)) False"
      using f(1) by (auto simp: encode_line_def append_bytes_def Let_def split: if_splits)
    then show ?thesis using st readable_log [of rdec replay_step_review "rst_file s"] f(2)
      by (auto simp: old_new_or_refused_def replay_review_def)
  next
    case (Some line)
    then have b: "append_bytes fault (Some (line @ [newline])) (rst_file s) = (f, e)" using f(1) by (simp add: encode_line_def)
    have d: "rdec (line_payload line) = Some r" using dec Some by blast
    show ?thesis using append_line_fault [OF st [unfolded replay_review_def] newline_marshal [OF Some] d step b] f(2)
      by (simp add: replay_review_def)
  qed
qed

end
