(* ===== verification/Review_History.thy ===== *)
theory Review_History
  imports Review_Semantics
begin

text \<open>
  The review history of one generation: the records about it take its candidates along the edges of the
  review state machine (\<open>review_edge\<close>) and keep the invariant of conflict groups; records about other
  generations leave them alone.
\<close>

section \<open>The state machine\<close>

inductive review_edge :: "review_status \<Rightarrow> bool \<Rightarrow> review_status \<Rightarrow> review_status \<Rightarrow> bool"
  for base :: review_status and in_group :: bool where
  validate: "s = StatusPending \<or> in_group \<and> s = StatusQuarantined \<Longrightarrow> review_edge base in_group s StatusValidated"
| reject: "s \<noteq> StatusRejected \<Longrightarrow> review_edge base in_group s StatusRejected"
| quarantine: "s = StatusPending \<or> s = StatusValidated \<Longrightarrow> review_edge base in_group s StatusQuarantined"
| reopen: "s = StatusRejected \<or> s = StatusQuarantined \<Longrightarrow> s \<noteq> base \<Longrightarrow> review_edge base in_group s base"

inductive_simps review_edge_iff: "review_edge base in_group s s'"

lemma resultingStatus_edge: "resultingStatus a s base c = Inr s' \<Longrightarrow> review_edge base c s s'"
  by (auto simp: resultingStatus_def review_edge_iff split: if_splits)

lemma review_edge_mono: "review_edge base c s s' \<Longrightarrow> c \<longrightarrow> d \<Longrightarrow> review_edge base d s s'"
  by (auto simp: review_edge_iff)

lemma prepared_edge:
  assumes "prepared_ok request sha statuses c p"
  shows "review_edge (initialStatus c) (cd_conflict_group_id c \<noteq> []) (status_of statuses sha c) (tr_resulting p)"
proof -
  have "review_edge (initialStatus c) (rq_conflict_group request \<noteq> []) (status_of statuses sha c) (tr_resulting p)"
    using resultingStatus_edge [OF prepared_okD(4) [OF assms]] prepared_okD(3) [OF assms] by simp
  moreover have "rq_conflict_group request \<noteq> [] \<longrightarrow> cd_conflict_group_id c \<noteq> []" using prepared_okD(7) [OF assms] by auto
  ultimately show ?thesis by (rule review_edge_mono)
qed

section \<open>The records about a generation\<close>

text \<open>Two candidate files opened for this history have the same digest and different bytes.\<close>

definition generations_collide :: "candidate_env \<Rightarrow> review_record list \<Rightarrow> generation \<Rightarrow> bool" where
  "generations_collide env rs g \<longleftrightarrow>
     (\<exists>r \<in> set rs. \<exists>g'. OpenGeneration env (re_generation (rr_event r)) = Inr g' \<and>
        sha_collision (file_bytes (gn_file g)) (file_bytes (gn_file g')))"

lemma same_content:
  assumes "Select env g ids = Inr sel" and "Select env g' ids' = Inr sel'"
    and "cm_candidates_sha256 (gn_manifest g') = cm_candidates_sha256 (gn_manifest g)"
    and "\<not> sha_collision (file_bytes (gn_file g)) (file_bytes (gn_file g'))"
  shows "generation_candidates env g' = generation_candidates env g"
  using Select_content(6) [OF assms(1)] Select_content(6) [OF assms(2)] assms(3,4)
  by (simp add: sha_collision_def generation_candidates_def)

text \<open>The number of records of a history that move a candidate.\<close>

definition moved_by :: "string \<Rightarrow> candidate \<Rightarrow> review_record \<Rightarrow> bool" where
  "moved_by sha c r \<longleftrightarrow> key_of sha c \<in> event_key (rr_event r) ` set (re_transitions (rr_event r))"

definition moves :: "string \<Rightarrow> candidate \<Rightarrow> review_record list \<Rightarrow> nat" where
  "moves sha c rs = length (filter (moved_by sha c) rs)"

lemma status_frame:
  assumes v: "validateEvent_review (rr_event r) = None" and ne: "re_candidates_sha256 (rr_event r) \<noteq> sha"
    and h: "validSHA256 sha" and i: "validPrefixedHash (cd_candidate_id c) ''candidate-''"
  shows "status_of (record_statuses r m) sha c = status_of m sha c" "\<not> moved_by sha c r"
proof -
  have k: "candidateKey (re_candidates_sha256 (rr_event r)) (tr_candidate_id t) (tr_content_sha256 t) \<noteq> key_of sha c"
    if t: "t \<in> set (re_transitions (rr_event r))" for t
  proof -
    have "validPrefixedHash (tr_candidate_id t) ''candidate-''"
      using validateEvent_review_transitions(1) [OF v] t by (auto simp: validateTransitionSyntax_def)
    with candidateKey_inj [OF _ validateEvent_review_transitions(3) [OF v] h this i] ne show ?thesis
      unfolding key_of_def by blast
  qed
  then show "status_of (record_statuses r m) sha c = status_of m sha c"
    by (simp add: status_of_def record_statuses_def set_statuses_out)
  show "\<not> moved_by sha c r" unfolding moved_by_def event_key_def using k by (metis (no_types, lifting) imageE)
qed

lemma record_step:
  assumes o: "record_ok env dec s pre r g' sel' ids'" and v: "validateEvent_review (rr_event r) = None"
    and same: "generation_candidates env g' = generation_candidates env g"
    and sha: "cm_candidates_sha256 (gn_manifest g') = sha" and h: "validSHA256 sha"
    and c: "c \<in> set (generation_candidates env g)"
  shows "moved_by sha c r \<Longrightarrow> review_edge (initialStatus c) (cd_conflict_group_id c \<noteq> [])
      (status_of (history_statuses pre) sha c) (status_of (record_statuses r (history_statuses pre)) sha c)"
    and "\<not> moved_by sha c r \<Longrightarrow>
      status_of (record_statuses r (history_statuses pre)) sha c = status_of (history_statuses pre) sha c"
    and "groups_ok (generation_candidates env g) sha (history_statuses pre) \<Longrightarrow>
      groups_ok (generation_candidates env g) sha (record_statuses r (history_statuses pre))"
proof -
  have c': "c \<in> set (generation_candidates env g')" using c same by simp
  have shar: "re_candidates_sha256 (rr_event r) = sha" using record_okD(2) [OF o] sha by simp
  have p: "prepareTransitions (event_request (rr_event r)) sha sel' (history_statuses pre) = Inr (re_transitions (rr_event r))"
    using record_okD(7) [OF o] sha by simp
  note sel = record_okD(3) [OF o]
  have d: "distinct (map tr_candidate_id (re_transitions (rr_event r)))" by (rule validateEvent_review_transitions [OF v])
  have rec: "record_statuses r m = set_statuses sha (re_transitions (rr_event r)) m" for m
    by (simp add: record_statuses_def shar)
  note after = generation.status_after [OF sel p d h c']
  have m: "moved_by sha c r \<longleftrightarrow> cd_candidate_id c \<in> set (map tr_candidate_id (re_transitions (rr_event r)))"
  proof
    assume "moved_by sha c r"
    then obtain t where t: "t \<in> set (re_transitions (rr_event r))" "event_key (rr_event r) t = key_of sha c"
      by (auto simp: moved_by_def)
    have "validPrefixedHash (tr_candidate_id t) ''candidate-''"
      using validateEvent_review_transitions(1) [OF v] t(1) by (auto simp: validateTransitionSyntax_def)
    with candidateKey_inj [of _ _ _ _ "cd_candidate_id c"] t(2) shar h generation.content_valid [OF sel c']
    have "tr_candidate_id t = cd_candidate_id c" unfolding event_key_def key_of_def by metis
    with t(1) show "cd_candidate_id c \<in> set (map tr_candidate_id (re_transitions (rr_event r)))" by force
  next
    assume "cd_candidate_id c \<in> set (map tr_candidate_id (re_transitions (rr_event r)))"
    then obtain t where t: "t \<in> set (re_transitions (rr_event r))" "tr_candidate_id t = cd_candidate_id c" by auto
    from after(1) [OF t] have "prepared_ok (event_request (rr_event r)) sha (history_statuses pre) c t" by blast
    from prepared_okD(1,2) [OF this] have "event_key (rr_event r) t = key_of sha c"
      by (simp add: event_key_def key_of_def shar)
    with t(1) show "moved_by sha c r" unfolding moved_by_def by (metis image_eqI)
  qed
  show "review_edge (initialStatus c) (cd_conflict_group_id c \<noteq> [])
      (status_of (history_statuses pre) sha c) (status_of (record_statuses r (history_statuses pre)) sha c)"
    if mv: "moved_by sha c r"
  proof -
    obtain t where "t \<in> set (re_transitions (rr_event r))" "tr_candidate_id t = cd_candidate_id c"
      using mv unfolding m by auto
    from after(1) [OF this] prepared_edge show ?thesis unfolding rec by metis
  qed
  show "status_of (record_statuses r (history_statuses pre)) sha c = status_of (history_statuses pre) sha c"
    if "\<not> moved_by sha c r" unfolding rec by (rule after(2)) (use that m in simp)
  show "groups_ok (generation_candidates env g) sha (record_statuses r (history_statuses pre))"
    if "groups_ok (generation_candidates env g) sha (history_statuses pre)"
    using generation.groups_ok_step [OF sel p d h] that unfolding same rec by blast
qed

text \<open>The whole history of a generation.\<close>

lemma history_moves:
  assumes h: "history_ok env dec s rs" and v: "\<forall>r \<in> set rs. validateEvent_review (rr_event r) = None"
    and sel: "Select env g ids = Inr sel" and sha: "validSHA256 (cm_candidates_sha256 (gn_manifest g))"
    and n: "\<not> generations_collide env rs g"
  shows "groups_ok (generation_candidates env g) (cm_candidates_sha256 (gn_manifest g)) (history_statuses rs)"
    and "c \<in> set (generation_candidates env g) \<Longrightarrow>
      (review_edge (initialStatus c) (cd_conflict_group_id c \<noteq> []) ^^ moves (cm_candidates_sha256 (gn_manifest g)) c rs)
        (initialStatus c) (status_of (history_statuses rs) (cm_candidates_sha256 (gn_manifest g)) c)"
proof -
  let ?sha = "cm_candidates_sha256 (gn_manifest g)" and ?cs = "generation_candidates env g"
  have "groups_ok ?cs ?sha (history_statuses rs) \<and> (\<forall>c \<in> set ?cs.
      (review_edge (initialStatus c) (cd_conflict_group_id c \<noteq> []) ^^ moves ?sha c rs)
        (initialStatus c) (status_of (history_statuses rs) ?sha c))"
    using h v n
  proof (induction rs rule: rev_induct)
    case Nil
    show ?case using generation.groups_ok_initial [OF sel] by (simp add: moves_def status_of_def)
  next
    case (snoc r rs)
    have IH: "groups_ok ?cs ?sha (history_statuses rs)"
      "\<forall>c \<in> set ?cs. (review_edge (initialStatus c) (cd_conflict_group_id c \<noteq> []) ^^ moves ?sha c rs)
        (initialStatus c) (status_of (history_statuses rs) ?sha c)"
      using snoc by (auto simp: history_ok_append generations_collide_def)
    obtain g' sel' ids' where o: "record_ok env dec s rs r g' sel' ids'" using snoc.prems(1) by (auto simp: history_ok_append)
    have ev: "validateEvent_review (rr_event r) = None" using snoc.prems(2) by simp
    have ids: "\<forall>c \<in> set ?cs. validPrefixedHash (cd_candidate_id c) ''candidate-''"
      using generation.content_valid [OF sel] by blast
    show ?case
    proof (cases "re_candidates_sha256 (rr_event r) = ?sha")
      case True
      then have s': "cm_candidates_sha256 (gn_manifest g') = ?sha" using record_okD(2) [OF o] by simp
      have "\<not> sha_collision (file_bytes (gn_file g)) (file_bytes (gn_file g'))"
        using snoc.prems(3) record_okD(1) [OF o] by (auto simp: generations_collide_def)
      from same_content [OF sel record_okD(3) [OF o] s' this] have same: "generation_candidates env g' = ?cs" .
      note st = record_step [OF o ev same s' sha]
      have "(review_edge (initialStatus c) (cd_conflict_group_id c \<noteq> []) ^^ moves ?sha c (rs @ [r]))
          (initialStatus c) (status_of (history_statuses (rs @ [r])) ?sha c)" if c: "c \<in> set ?cs" for c
        using st(1,2) [OF c] IH(2) c by (cases "moved_by ?sha c r") (auto simp: moves_def)
      moreover have "groups_ok ?cs ?sha (history_statuses (rs @ [r]))"
      proof (cases "?cs = []")
        case False
        then have "hd ?cs \<in> set ?cs" by simp
        from st(3) [OF this IH(1)] show ?thesis by simp
      qed (simp add: groups_ok_def)
      ultimately show ?thesis by blast
    next
      case False
      note fr = status_frame [OF ev False sha]
      have "groups_ok ?cs ?sha (history_statuses (rs @ [r]))"
        using IH(1) fr(1) ids by (simp add: groups_ok_def)
      moreover have "moves ?sha c (rs @ [r]) = moves ?sha c rs" if "c \<in> set ?cs" for c
        using fr(2) ids that by (simp add: moves_def)
      ultimately show ?thesis using IH(2) fr(1) ids by simp
    qed
  qed
  then show "groups_ok ?cs ?sha (history_statuses rs)"
    "c \<in> set ?cs \<Longrightarrow> (review_edge (initialStatus c) (cd_conflict_group_id c \<noteq> []) ^^ moves ?sha c rs)
        (initialStatus c) (status_of (history_statuses rs) ?sha c)" by blast+
qed

section \<open>The counters of the replay\<close>

lemma fold_apply_events:
  assumes "distinct (map (event_key (rr_event r)) ts)"
  shows "rs_events (fold (apply_transition r) ts st) k =
    rs_events st k + (if k \<in> event_key (rr_event r) ` set ts then 1 else 0)"
  using assms
proof (induction ts arbitrary: st)
  case (Cons t ts)
  then show ?case by (auto simp: apply_transition_def Let_def)
qed simp

lemma check_transitions_distinct:
  "check_transitions e p seen ts = None \<Longrightarrow> distinct (map (event_key e) ts) \<and> set seen \<inter> event_key e ` set ts = {}"
proof (induction ts arbitrary: p seen)
  case (Cons t ts)
  then have "check_transitions e (tr_candidate_id t) (event_key e t # seen) ts = None" "event_key e t \<notin> set seen"
    by (auto split: option.splits if_splits)
  with Cons.IH [OF this(1)] show ?case by auto
qed simp

definition events_counted :: "review_state \<Rightarrow> bool" where
  "events_counted st \<longleftrightarrow> (\<forall>sha c. rs_events st (key_of sha c) = moves sha c (rs_history st))"

lemma replay_events_counted: "replay_review rdec f = (st, e) \<Longrightarrow> events_counted st"
  unfolding replay_review_def
proof (erule replay_log_invariant [where I = events_counted])
  show "events_counted initial_review_state" by (simp add: events_counted_def moves_def initial_review_state_def)
next
  fix r st st' assume s: "replay_step_review r st = Inr st'" and ok: "events_counted st"
  have v: "validateEvent_review (rr_event r) = None"
    by (rule validateRecord_review_None(1) [OF replay_step_review_Inr(1) [OF s]])
  then have d: "distinct (map (event_key (rr_event r)) (re_transitions (rr_event r)))"
    using check_transitions_distinct [of "rr_event r" "[]" "[]"] by (simp add: validateEvent_review_def)
  have "rs_events st' = rs_events (fold (apply_transition r) (re_transitions (rr_event r)) st)"
    using s by (auto simp: replay_step_review_def Let_def split: option.splits)
  then have "rs_events st' (key_of sha c) = rs_events st (key_of sha c) + (if moved_by sha c r then 1 else 0)" for sha c
    using fold_apply_events [OF d] by (simp add: moved_by_def)
  with ok replay_step_review_Inr(4) [OF s] show "events_counted st'" by (simp add: events_counted_def moves_def)
qed

end
