(* ===== verification/Review_Sample.thy ===== *)
theory Review_Sample
  imports Review_Apply Candidate_Claims Ledger_Claims
begin

text \<open>
  A sample for the witnesses: an evidence ledger with one user message, the candidate generation derived
  from it, a validation request for its candidate and the review record that \<open>Apply\<close> writes for it.
\<close>

section \<open>The evidence\<close>

definition note_dec :: "string \<Rightarrow> ledger_record option" where
  "note_dec l = Some note_record"

definition note_line :: string where
  "note_line = the (marshal (ledger_record_json note_record))"

definition note_store :: review_store where
  "note_store = \<lparr>st_root = [''evidence''], st_device_id = ''device-1'', st_manifest = NotExist,
     st_events = Readable (note_line @ [newline]) False, st_writer_lock = False, st_blobs = \<lambda>_. NotExist,
     rst_file = NotExist, rst_lock = False\<rparr>"

lemma note_event_simps [simp]:
  "ev_event_id note_event = ''e1''" "ev_kind note_event = KindUserMessage"
  by (simp_all add: note_event_def sample_event_def)

lemma note_event_valid: "validateEvent note_event = None"
  by (simp add: validateEvent_def note_event_def sample_event_def validEventKindForVersion_def baseKinds_def
      v1Alpha2Kinds_def validateReasoning_def Let_def)

lemma note_event_json: "marshal (event_json note_event) \<noteq> None"
  unfolding event_json_None note_event_def sample_event_def event.simps by code_simp

lemma note_make: "makeRecord note_event [] = Some note_record"
  and note_record_event [simp]: "lr_event note_record = note_event"
  using note_event_json by (auto simp: note_record_def makeRecord_def record_input_def)

lemma note_line: "marshal (ledger_record_json note_record) = Some note_line"
  using note_event_json ledger_record_json_None [of note_record] by (simp add: note_line_def)

lemma note_log:
  "lastRecordHash note_dec (st_events note_store) = Inr (lr_hash note_record)"
  "decoded_records note_dec (st_events note_store) = [note_record]"
proof -
  have e: "lastRecordHash note_dec (Readable [] False) = Inr []" by (simp add: lastRecordHash_Readable)
  have s: "survives note_dec note_record" by (simp add: survives_def note_dec_def)
  from append_one_record [OF e note_make note_line note_event_valid s]
  show "lastRecordHash note_dec (st_events note_store) = Inr (lr_hash note_record)"
    "decoded_records note_dec (st_events note_store) = [note_record]"
    by (simp_all add: note_store_def decoded_records_def file_bytes_def List.map_filter_simps)
qed

lemma note_payload: "verifyEvidencePayload note_store note_event = None"
  by (simp add: verifyEvidencePayload_def note_event_def InlinePayload_def)

section \<open>The generation\<close>

abbreviation sample_id :: string where
  "sample_id \<equiv> cd_candidate_id sample_candidate"

definition sample_selection :: selection where
  "sample_selection = projr (Select sample_env sample_generation [sample_id])"

lemma sample_selection: "Select sample_env sample_generation [sample_id] = Inr sample_selection"
  using sample_selects by (auto simp: sample_selection_def)

lemma sample_contents: "generation_candidates sample_env sample_generation = [sample_candidate]"
  by (simp add: generation_candidates_def sample_env_def sample_generation_def)

lemma sample_candidate_valid: "validateCandidate sample_unicode sample_candidate = None"
  using Select_content(1) [OF sample_selection] sample_contents by (simp add: sample_env_def)

lemma sample_links [simp]: "cd_conflicting_candidate_ids sample_candidate = []" "cd_conflict_group_id sample_candidate = []"
proof -
  show "cd_conflicting_candidate_ids sample_candidate = []"
    by (simp add: sample_candidate_def linked_def conflicted_def group_members_def sample_aggregate_def
        link_candidate_def settle_candidate_def Let_def)
  then show "cd_conflict_group_id sample_candidate = []"
    using validateCandidate_status(1) [OF sample_candidate_valid] by blast
qed

lemma sample_pending: "initialStatus sample_candidate = StatusPending"
  using validateCandidate_status(2) [OF sample_candidate_valid] expected_status_quarantined [of sample_candidate]
  by (simp add: initialStatus_def)

lemma sample_events: "candidate_event_ids sample_candidate = [''e1'']"
proof -
  have v: "validObservation (sg_observation sample_stage)" using sample_stage_ok by (simp add: staged_ok_def)
  have "cd_observations sample_candidate = [sg_observation sample_stage]"
    by (simp add: sample_candidate_def sample_aggregate_def mergeObservations_def clean_valid [OF v])
  moreover have "ob_evidence_event_ids (sg_observation sample_stage) = [''e1'']"
    "ob_correction_event_ids (sg_observation sample_stage) = []"
    by (simp_all add: sample_stage_def deriveEpisodeObservations_def sample_episode_def List.map_filter_def derive_statement_def
        Let_def statement_support_def sample_statement_def sample_normalized sample_remember correction_evidence_def
        appendUnique_def)
  ultimately show ?thesis by (simp add: candidate_event_ids_def)
qed

lemma sample_generation_opens: "OpenGeneration sample_env ''g'' = Inr sample_generation"
proof -
  have v: "\<not> blank ''g''" "\<not> blank ''e''" "filepathBase ''g'' = ''g''" by code_simp+
  have st: "vd_status (cd_validation sample_candidate) = StatusReviewReady \<or>
      vd_status (cd_validation sample_candidate) = StatusUntrusted"
    using validateCandidate_status(2) [OF sample_candidate_valid]
    by (auto simp: expected_validation_def validationFor_def Let_def)
  have "validateManifest_candidates (gn_manifest sample_generation) = None"
    using st by (auto simp: validateManifest_candidates_def sample_generation_def with_status_def v)
  then have "OpenGeneration sample_env ''g'' =
      Inr \<lparr>gn_name = ''g'', gn_manifest = gn_manifest sample_generation, gn_file = Readable ''c'' False\<rparr>"
    by (simp add: OpenGeneration_def v sample_env_def)
  then show ?thesis by (simp add: sample_generation_def)
qed

lemma sample_selected:
  "sl_candidates sample_selection sample_id = Some sample_candidate"
  "selected_candidates sample_selection [sample_id] = [sample_candidate]"
proof -
  obtain c where c: "sl_candidates sample_selection sample_id = Some c"
    using generation.selected [OF sample_selection] by auto
  then show s: "sl_candidates sample_selection sample_id = Some sample_candidate"
    using generation.selected_content [OF sample_selection c] by (simp add: sample_contents)
  then show "selected_candidates sample_selection [sample_id] = [sample_candidate]"
    by (simp add: selected_candidates_def List.map_filter_simps)
qed

lemma sample_supported: "verifyCandidateEvidence note_dec note_store [sample_candidate] = None"
proof -
  have h: "\<exists>h. lastRecordHash note_dec (st_events note_store) = Inr h" using note_log by blast
  have "candidate_event_ok note_store [note_record] ''e1''"
    using note_payload unfolding candidate_event_ok_def by (intro exI [of _ note_event]) simp
  then show ?thesis unfolding verifyCandidateEvidence_None using h by (simp add: sample_events note_log)
qed

section \<open>The review\<close>

definition sample_transition :: transition_request where
  "sample_transition =
     \<lparr>tq_candidate_id = sample_id, tq_content_sha256 = cd_content_sha256 sample_candidate, tq_expected = StatusPending,
      tq_action = ActionValidate, tq_scope = Some \<lparr>sp_kind = ScopeGlobal, sp_value = ''*''\<rparr>,
      tq_basis = [BasisExplicitUserConfirmation], tq_evidence = [''e1''], tq_reason = ''ok''\<rparr>"

definition sample_request :: review_request where
  "sample_request =
     \<lparr>rq_schema_version = ReviewRequestSchemaVersion,
      rq_reviewer = \<lparr>rv_kind = ReviewerKindCallerAttestation, rv_id = ''rev''\<rparr>, rq_conflict_group = [],
      rq_transitions = [sample_transition]\<rparr>"

lemma sample_ids: "map tq_candidate_id (rq_transitions sample_request) = [sample_id]"
  by (simp add: sample_request_def sample_transition_def)

lemma sample_hashes: "validPrefixedHash sample_id ''candidate-''" "validSHA256 (cd_content_sha256 sample_candidate)"
  using generation.content_valid [OF sample_selection, of sample_candidate] by (simp_all add: sample_contents)

lemma sample_words: "\<not> blank ''*''" "\<not> blank ''ok''" "\<not> blank ''e1''" "\<not> blank ''g''" "\<not> blank ''rev''" "trimSpace ''rev'' = ''rev''"
  "\<not> blank ''device-1''" "filepathBase ''g'' = ''g''"
  by code_simp+

lemma sample_request_valid: "validateRequestEnvelope sample_request = None"
proof -
  have "tq_candidate_id sample_transition = sample_id" by (simp add: sample_transition_def)
  then show ?thesis
    using sample_hashes
    by (simp add: validateRequestEnvelope_def sample_request_def sample_transition_def ValidReviewerKind_def sample_words
        validStatus_def sortedUniqueBasis_def sortedUniqueIds_def validBasis_def validScope_def containsAny_def strictly_sorted_def)
qed

definition sample_moved :: transition where
  "sample_moved =
     \<lparr>tr_candidate_id = sample_id, tr_content_sha256 = cd_content_sha256 sample_candidate, tr_expected = StatusPending,
      tr_action = ActionValidate, tr_resulting = StatusValidated, tr_scope = Some \<lparr>sp_kind = ScopeGlobal, sp_value = ''*''\<rparr>,
      tr_basis = [BasisExplicitUserConfirmation], tr_evidence = [''e1''], tr_reason = ''ok''\<rparr>"

lemma sample_prepared: "prepareTransitions sample_request sha sample_selection (\<lambda>_. None) = Inr [sample_moved]"
proof -
  have "prepare_transition sample_request sha sample_selection (\<lambda>_. None) sample_transition = Inr sample_moved"
    by (simp add: prepare_transition_def sample_transition_def sample_request_def sample_selected sample_pending
        resultingStatus_def validateBasis_def check_basis_def validBasis_def sample_moved_def)
  then show ?thesis by (simp add: prepareTransitions_def sample_request_def)
qed

lemma sample_referenced: "verifyReferencedEvidence note_dec note_store [sample_moved] = None"
proof -
  have r: "visitRecords note_dec (keep_event [''e1'']) (st_events note_store) (\<lambda>_. None) =
      ([''e1'' \<mapsto> note_event], Inr (lr_hash note_record))"
    unfolding visitRecords_Inr by (simp add: note_log keep_event_def)
  show ?thesis
    by (simp add: verifyReferencedEvidence_def sample_moved_def r check_referenced_event_def note_payload
        check_basis_events_def hasBasis_def containsSortedString_sorted strictly_sorted_def found_kind_def)
qed

section \<open>The record\<close>

lemma scope_json_None [simp]: "(marshal (scope_json s) = None) = False"
  by (simp add: scope_json_def marshal_None del: marshal.simps(7))

lemma reviewer_json_None [simp]: "(marshal (reviewer_json s) = None) = False"
  by (simp add: reviewer_json_def marshal_None del: marshal.simps(7))

lemma transition_json_None [simp]: "(marshal (transition_json t) = None) = False"
  by (cases "tr_scope t") (simp_all add: transition_json_def marshal_JObj_None bex_Un del: marshal.simps(7))

lemma transition_request_json_None [simp]: "(marshal (transition_request_json t) = None) = False"
  by (cases "tq_scope t") (simp_all add: transition_request_json_def marshal_JObj_None bex_Un del: marshal.simps(7))

lemma request_json_None [simp]: "(marshal (request_json t) = None) = False"
  by (simp add: request_json_def marshal_None bex_Un del: marshal.simps(6,7))

lemma review_event_json_None: "marshal (review_event_json e) = None \<longleftrightarrow> json_time (re_recorded_at e) = None"
  by (simp add: review_event_json_def marshal_None bex_Un del: marshal.simps(6,7))

lemma review_record_json_None: "marshal (review_record_json r) = None \<longleftrightarrow> marshal (review_event_json (rr_event r)) = None"
  by (simp add: review_record_json_def marshal_JObj_None del: marshal.simps(7))

definition sample_review_event :: review_event where
  "sample_review_event =
     \<lparr>re_schema_version = ReviewEventSchemaVersion, re_event_id = ''review-'' @ NewEventID 1 ''r'', re_recorded_at = 1,
      re_device_id = ''device-1'', re_reviewer = rq_reviewer sample_request,
      re_request_sha256 = the (hashRequest sample_generation sample_request), re_generation = ''g'',
      re_candidates_sha256 = sha256_hex ''c'', re_conflict_group = [], re_transitions = [sample_moved],
      re_privacy = ''local_only''\<rparr>"

definition sample_review :: review_record where
  "sample_review = the (makeRecord_review sample_review_event 1 [])"

definition sample_review_line :: string where
  "sample_review_line = the (marshal (review_record_json sample_review))"

definition sample_rdec :: "string \<Rightarrow> review_record option" where
  "sample_rdec l = Some sample_review"

definition reviewed_store :: review_store where
  "reviewed_store = note_store\<lparr>rst_file := Readable (sample_review_line @ [newline]) False\<rparr>"

lemma sample_hashed: "\<exists>d. hashRequest sample_generation sample_request = Some (sha256_hex d)"
proof -
  have "marshal (JObj [(''source_candidate_generation'', JStr (gn_name sample_generation)),
      (''source_candidates_sha256'', JStr (cm_candidates_sha256 (gn_manifest sample_generation))),
      (''request'', request_json sample_request)]) \<noteq> None"
    by (simp add: marshal_JObj_None del: marshal.simps(7))
  then show ?thesis unfolding hashRequest_def by auto
qed

lemma sample_time: "json_time 1 \<noteq> None" by code_simp

lemma sample_review_made: "makeRecord_review sample_review_event 1 [] = Some sample_review"
proof -
  have "marshal (review_event_json sample_review_event) \<noteq> None"
    using sample_time by (simp add: review_event_json_None sample_review_event_def)
  then show ?thesis by (auto simp: sample_review_def makeRecord_review_def event_envelope_def envelope_def)
qed

lemma sample_review_event [simp]: "rr_event sample_review = sample_review_event"
  using makeRecord_review_fields [OF sample_review_made] by simp

lemma sample_review_line: "marshal (review_record_json sample_review) = Some sample_review_line"
proof -
  have "marshal (review_record_json sample_review) \<noteq> None"
    using sample_time by (simp add: review_record_json_None review_event_json_None sample_review_event_def)
  then show ?thesis by (simp add: sample_review_line_def)
qed

lemma sample_review_valid: "validateEvent_review sample_review_event = None"
proof -
  obtain d where d: "hashRequest sample_generation sample_request = Some (sha256_hex d)" using sample_hashed by blast
  have t: "validateTransitionSyntax sample_moved = None"
    using sample_hashes
    by (simp add: validateTransitionSyntax_def sample_moved_def sample_words check_action_def Let_def validStatus_def
        validScope_def containsAny_def sortedUniqueBasis_def sortedUniqueIds_def validBasis_def strictly_sorted_def)
  have z: "\<not> isZeroTime 1" by code_simp
  have m: "tr_action sample_moved = ActionValidate" "tr_expected sample_moved = StatusPending" by (simp_all add: sample_moved_def)
  have p: "hasPrefix (re_event_id sample_review_event) ''review-''"
    by (simp add: sample_review_event_def hasPrefix_def)
  have h: "validSHA256 (re_request_sha256 sample_review_event)" by (simp add: sample_review_event_def d)
  have f: "re_schema_version sample_review_event = ReviewEventSchemaVersion" "re_recorded_at sample_review_event = 1"
    "re_device_id sample_review_event = ''device-1''" "re_generation sample_review_event = ''g''"
    "rv_kind (re_reviewer sample_review_event) = ReviewerKindCallerAttestation"
    "rv_id (re_reviewer sample_review_event) = ''rev''"
    "re_candidates_sha256 sample_review_event = sha256_hex ''c''" "re_conflict_group sample_review_event = []"
    "re_transitions sample_review_event = [sample_moved]" "re_privacy sample_review_event = ''local_only''"
    by (simp_all add: sample_review_event_def sample_request_def)
  show ?thesis
    by (simp add: validateEvent_review_def f p h sample_words ValidReviewerKind_def z t m)
qed

lemma sample_record_for:
  "review_record_for sample_env note_dec rdec False 1 ''r'' sample_generation sample_selection sample_request
     (note_store\<lparr>rst_lock := True\<rparr>) = Inr sample_review"
proof -
  obtain d where d: "hashRequest sample_generation sample_request = Some (sha256_hex d)" using sample_hashed by blast
  have r: "replayVerified_review sample_env note_dec rdec note_store = (initial_review_state, None)"
    by (simp add: replayVerified_review_def replay_review_def note_store_def replay_log_def verifyReviewSemantics_def)
  have e: "\<lparr>re_schema_version = ReviewEventSchemaVersion, re_event_id = ''review-'' @ NewEventID 1 ''r'', re_recorded_at = 1,
      re_device_id = ''device-1'', re_reviewer = rq_reviewer sample_request, re_request_sha256 = sha256_hex d,
      re_generation = ''g'', re_candidates_sha256 = sha256_hex ''c'', re_conflict_group = rq_conflict_group sample_request,
      re_transitions = [sample_moved], re_privacy = ''local_only''\<rparr> = sample_review_event"
    by (simp add: sample_review_event_def d) (simp add: sample_request_def)
  have g: "gn_name sample_generation = ''g''" "cm_candidates_sha256 (gn_manifest sample_generation) = sha256_hex ''c''"
    "st_device_id (note_store\<lparr>rst_lock := True\<rparr>) = ''device-1''"
    by (simp_all add: sample_generation_def note_store_def)
  show ?thesis unfolding review_record_for_def Let_def
    by (simp only: review_frame r prod.case option.case g initial_review_simps sample_prepared sum.case
        sample_referenced d if_False e sample_review_valid sample_review_made)
qed

lemma sample_apply:
  "Apply sample_env note_dec rdec no_review_faults 1 ''r'' ''g'' sample_request note_store =
     (reviewed_store, Inr \<lparr>ar_event_id = re_event_id sample_review_event, ar_sequence = 1, ar_hash = rr_hash sample_review,
        ar_transitions = [sample_moved]\<rparr>)"
proof -
  have lk: "acquireReviewLock (rf_lock no_review_faults) note_store = (note_store\<lparr>rst_lock := True\<rparr>, None)"
    by (simp add: acquireReviewLock_def no_review_faults_def note_store_def acquire_lock_def)
  have ap: "appendRecord_review (rf_append no_review_faults) sample_review (note_store\<lparr>rst_lock := True\<rparr>) =
      (reviewed_store\<lparr>rst_lock := True\<rparr>, None)"
    by (simp add: appendRecord_review_def no_review_faults_def encode_line_def sample_review_line append_bytes_def
        note_store_def reviewed_store_def file_bytes_def Let_def)
  have f: "rf_random no_review_faults = False" "rf_release_ok no_review_faults = True" by (simp_all add: no_review_faults_def)
  have u: "reviewed_store\<lparr>rst_lock := False\<rparr> = reviewed_store" by (simp add: reviewed_store_def note_store_def)
  have q: "rr_sequence sample_review = 1" using makeRecord_review_fields [OF sample_review_made] by simp
  have tr: "re_transitions sample_review_event = [sample_moved]" by (simp add: sample_review_event_def)
  show ?thesis unfolding Apply_def Let_def sample_request_valid sample_generation_opens option.case sum.case sample_ids sample_selection
      sample_selected sample_supported lk prod.case f sample_record_for ap
    by (simp add: releaseReviewLock_def u q tr)
qed

end
