(* ===== verification/Review_Lookup.thy ===== *)
theory Review_Lookup
  imports Review_History Review_Apply
begin

text \<open>
  What the lookups of the review ledger return: facts of a verified history, and what a resolved validation
  rests on (\<open>grounded\<close>), for the current lookup and for the one of a past record.
\<close>

section \<open>A verified history\<close>

lemma verified_history:
  assumes "replayVerified_review env dec rdec s = (st, None)"
  shows "history_ok env dec s (rs_history st)" "\<forall>r \<in> set (rs_history st). validateEvent_review (rr_event r) = None"
    "rs_statuses st = history_statuses (rs_history st)" "events_counted st"
proof -
  have r: "replay_review rdec (rst_file s) = (st, None)" "verifyReviewSemantics env dec s (rs_history st) = None"
    using assms by (simp_all add: replayVerified_review_iff)
  from semantics_history_ok [OF r(2)] replay_review_ok [OF r(1)] replay_events_counted [OF r(1)]
  show "history_ok env dec s (rs_history st)" "\<forall>r \<in> set (rs_history st). validateEvent_review (rr_event r) = None"
    "rs_statuses st = history_statuses (rs_history st)" "events_counted st"
    by (simp_all add: review_state_ok_def)
qed

lemma current_status_of: "current_status st g c = status_of (rs_statuses st) (cm_candidates_sha256 (gn_manifest g)) c"
  by (simp add: current_status_def status_of_def review_key_def key_of_def)

section \<open>Resolved validations\<close>

lemma find_proof_Inr:
  assumes "find_proof g c sha rs = Inr (c', p)"
  shows "c' = c \<and> (\<exists>r \<in> set rs. \<exists>t \<in> set (re_transitions (rr_event r)). \<exists>scope.
    rr_hash r = sha \<and> re_generation (rr_event r) = gn_name g \<and>
    re_candidates_sha256 (rr_event r) = cm_candidates_sha256 (gn_manifest g) \<and>
    tr_candidate_id t = cd_candidate_id c \<and> tr_content_sha256 t = cd_content_sha256 c \<and>
    tr_action t = ActionValidate \<and> tr_resulting t = StatusValidated \<and> tr_scope t = Some scope \<and>
    p = \<lparr>vp_generation = gn_name g, vp_candidates_sha256 = cm_candidates_sha256 (gn_manifest g),
         vp_candidate_id = cd_candidate_id c, vp_content_sha256 = cd_content_sha256 c,
         vp_event_id = re_event_id (rr_event r), vp_record_sha256 = rr_hash r, vp_sequence = rr_sequence r,
         vp_reviewed_at = re_recorded_at (rr_event r), vp_reviewer = re_reviewer (rr_event r), vp_scope = scope,
         vp_basis = tr_basis t, vp_evidence = tr_evidence t\<rparr>)"
  using assms
proof (induction rs)
  case (Cons r rs)
  show ?case
  proof (cases "rr_hash r \<noteq> sha \<or> re_generation (rr_event r) \<noteq> gn_name g \<or>
      re_candidates_sha256 (rr_event r) \<noteq> cm_candidates_sha256 (gn_manifest g) \<or> proof_transition c r = None")
    case True
    then have "find_proof g c sha rs = Inr (c', p)" using Cons.prems by (auto simp: Let_def split: if_splits)
    from Cons.IH [OF this] show ?thesis by auto
  next
    case False
    then obtain t where t: "proof_transition c r = Some t" by auto
    from t have m: "t \<in> set (re_transitions (rr_event r))" "tr_candidate_id t = cd_candidate_id c"
      "tr_content_sha256 t = cd_content_sha256 c"
      by (auto simp: proof_transition_def find_Some_iff)
    from Cons.prems False t obtain scope where s: "tr_scope t = Some scope" "tr_action t = ActionValidate"
      "tr_resulting t = StatusValidated" "c' = c" by (auto simp: Let_def split: option.splits if_splits)
    show ?thesis
      using Cons.prems False t m s by (intro conjI bexI [of _ r] bexI [of _ t] exI [of _ scope]) (auto simp: Let_def)
  qed
qed simp

lemma select_verified_Inr:
  assumes "select_verified env dec s path cid = Inr (g, c)"
  shows "OpenGeneration env path = Inr g \<and> c \<in> set (generation_candidates env g) \<and> cd_candidate_id c = cid \<and>
    (\<exists>sel. Select env g [cid] = Inr sel) \<and>
    (\<forall>i \<in> set (candidate_event_ids c). candidate_event_ok s (decoded_records dec (st_events s)) i)"
proof -
  obtain sel where a: "OpenGeneration env path = Inr g" "Select env g [cid] = Inr sel"
    "verifyCandidateEvidence dec s (selected_candidates sel [cid]) = None" "c = the (sl_candidates sel cid)"
    using assms by (auto simp: select_verified_def split: sum.splits option.splits)
  obtain c' where c': "sl_candidates sel cid = Some c'" using generation.selected [OF a(2)] by auto
  with a(4) have c: "sl_candidates sel cid = Some c" by simp
  have "selected_candidates sel [cid] = [c]" by (simp add: selected_candidates_def List.map_filter_simps c)
  with a generation.selected_content [OF a(2) c] show ?thesis by (auto simp: verifyCandidateEvidence_None)
qed

text \<open>A validation request for this candidate is supported: by the candidate's own observations for each basis that
  claims them, and by complete events of the ledger for each basis that claims an outcome or a confirmation.\<close>

definition grounded ::
  "(string \<Rightarrow> ledger_record option) \<Rightarrow> 'a evidence_store_scheme \<Rightarrow> candidate \<Rightarrow> string list \<Rightarrow> string list \<Rightarrow> bool" where
  "grounded dec s c basis evidence \<longleftrightarrow>
     (let complete = (\<lambda>kinds. \<exists>r \<in> set (decoded_records dec (st_events s)). record_event_id r \<in> set evidence \<and>
            ev_kind (lr_event r) \<in> kinds \<and> verifyEvidencePayload s (lr_event r) = None) in
      list_ex validBasis basis \<and>
      (\<forall>b \<in> set basis.
        (b \<in> {BasisExplicitRemember, BasisUserCorrection, BasisStableRepetition} \<longrightarrow> b \<in> set (cd_support_types c)) \<and>
        (b = BasisOutcomeEvidence \<longrightarrow> complete {KindToolResult, KindFileChange}) \<and>
        (b = BasisExplicitUserConfirmation \<longrightarrow> complete {KindUserMessage})))"

lemma validateBasis_None:
  assumes "validateBasis c t = None"
  shows "\<forall>b \<in> set (tq_basis t). check_basis c t b = None" "list_ex validBasis (tq_basis t)"
  using assms by (simp_all add: validateBasis_def)

text \<open>What a resolved validation rests on, whether or not it has to be current.\<close>

lemma resolved_core:
  assumes res: "resolveValidation env dec rdec s path cid content_sha record_sha current = Inr (c, p)"
    and named: "\<forall>g. OpenGeneration env path = Inr g \<longrightarrow> OpenGeneration env (gn_name g) = Inr g"
  shows "\<exists>g st r. select_verified env dec s path cid = Inr (g, c) \<and> OpenGeneration env path = Inr g \<and>
    replayVerified_review env dec rdec s = (st, None) \<and>
    c \<in> set (generation_candidates env g) \<and> cd_candidate_id c = cid \<and> cd_content_sha256 c = content_sha \<and>
    r \<in> set (rs_history st) \<and> rr_hash r = record_sha \<and>
    vp_record_sha256 p = record_sha \<and> vp_event_id p = re_event_id (rr_event r) \<and> vp_reviewer p = re_reviewer (rr_event r) \<and>
    vp_generation p = gn_name g \<and> vp_candidate_id p = cid \<and> vp_content_sha256 p = content_sha \<and>
    (\<forall>i \<in> set (candidate_event_ids c). candidate_event_ok s (decoded_records dec (st_events s)) i) \<and>
    grounded dec s c (vp_basis p) (vp_evidence p)"
proof -
  obtain g st c0 where a0: "select_verified env dec s path cid = Inr (g, c0)" "replayVerified_review env dec rdec s = (st, None)"
    "cd_content_sha256 c0 = content_sha"
    "find_proof g c0 record_sha (rs_history st) = Inr (c, p)"
    using res
    by (auto simp: resolveValidation_def split: if_splits sum.splits prod.splits option.splits)
  have "c0 = c" using find_proof_Inr [OF a0(4)] by blast
  note a = a0 [unfolded this]
  note sv = select_verified_Inr [OF a(1)]
  from find_proof_Inr [OF a(4)] obtain r t scope where r: "r \<in> set (rs_history st)" "t \<in> set (re_transitions (rr_event r))"
    "rr_hash r = record_sha" "re_generation (rr_event r) = gn_name g"
    "re_candidates_sha256 (rr_event r) = cm_candidates_sha256 (gn_manifest g)"
    "tr_candidate_id t = cd_candidate_id c" "tr_content_sha256 t = cd_content_sha256 c" "tr_action t = ActionValidate"
    and p: "p = \<lparr>vp_generation = gn_name g, vp_candidates_sha256 = cm_candidates_sha256 (gn_manifest g),
         vp_candidate_id = cd_candidate_id c, vp_content_sha256 = cd_content_sha256 c,
         vp_event_id = re_event_id (rr_event r), vp_record_sha256 = rr_hash r, vp_sequence = rr_sequence r,
         vp_reviewed_at = re_recorded_at (rr_event r), vp_reviewer = re_reviewer (rr_event r), vp_scope = scope,
         vp_basis = tr_basis t, vp_evidence = tr_evidence t\<rparr>" by blast
  obtain pre g' sel' ids' where o: "record_ok env dec s pre r g' sel' ids'"
    using verified_history(1) [OF a(2)] r(1) unfolding history_ok_def by (meson split_list)
  have g: "g' = g" using record_okD(1) [OF o] r(4) named sv by auto
  obtain c' where c': "c' \<in> set (generation_candidates env g)"
    "prepared_ok (event_request (rr_event r)) (cm_candidates_sha256 (gn_manifest g)) (history_statuses pre) c' t"
    using generation.prepared(3) [OF record_okD(3,7) [OF o]] r(2) unfolding g by blast
  have "c' = c"
    using generation.same_candidate [OF record_okD(3) [OF o], unfolded g, OF c'(1)] sv prepared_okD(1) [OF c'(2)] r(6) by simp
  with prepared_okD(6) [OF c'(2) r(8)] have vb: "validateBasis c (request_of t) = None" by simp
  note vb' = validateBasis_None [OF vb, unfolded request_of_def transition_request.simps]
  have ref: "verifyReferencedEvidence dec s (re_transitions (rr_event r)) = None" by (rule record_okD(8) [OF o])
  have srt: "strictly_sorted (tr_basis t)" "strictly_sorted (cd_support_types c)"
  proof -
    have "validateTransitionSyntax t = None"
      using verified_history(2) [OF a(2)] r(1,2) validateEvent_review_transitions(1) by blast
    then show "strictly_sorted (tr_basis t)" by (simp add: validateTransitionSyntax_def sortedUniqueBasis_def)
    show "strictly_sorted (cd_support_types c)" using generation.content_valid sv by blast
  qed
  have "grounded dec s c (tr_basis t) (tr_evidence t)"
    unfolding grounded_def Let_def
  proof (intro conjI ballI impI)
    show "list_ex validBasis (tr_basis t)" using vb'(2) by simp
    fix b assume b: "b \<in> set (tr_basis t)"
    have cb: "check_basis c (request_of t) b = None" using vb'(1) b by (simp add: request_of_def)
    show "b \<in> set (cd_support_types c)" if "b \<in> {BasisExplicitRemember, BasisUserCorrection, BasisStableRepetition}"
      using cb that srt(2) by (auto simp: check_basis_def hasCandidateSupport_def containsSortedString_sorted)
    have ne: "tr_evidence t \<noteq> []" if "b = BasisOutcomeEvidence \<or> b = BasisExplicitUserConfirmation"
      using cb that by (auto simp: check_basis_def request_of_def)
    have hb: "hasBasis (tr_basis t) b" using b srt(1) by (simp add: hasBasis_def containsSortedString_sorted)
    show "\<exists>r \<in> set (decoded_records dec (st_events s)). record_event_id r \<in> set (tr_evidence t) \<and>
        ev_kind (lr_event r) \<in> {KindToolResult, KindFileChange} \<and> verifyEvidencePayload s (lr_event r) = None"
      if "b = BasisOutcomeEvidence"
      using verifyReferencedEvidence_None(2) [OF ref r(2)] hb ne that by auto
    show "\<exists>r \<in> set (decoded_records dec (st_events s)). record_event_id r \<in> set (tr_evidence t) \<and>
        ev_kind (lr_event r) \<in> {KindUserMessage} \<and> verifyEvidencePayload s (lr_event r) = None"
      if "b = BasisExplicitUserConfirmation"
      using verifyReferencedEvidence_None(3) [OF ref r(2)] hb ne that by auto
  qed
  with a sv r(1,3) p show ?thesis
    by (intro exI [of _ g] exI [of _ st] exI [of _ r]) simp
qed

lemma resolved_identity:
  assumes "resolveValidation env dec rdec s path cid content_sha record_sha current = Inr (c, p)"
  shows "\<exists>g. OpenGeneration env path = Inr g \<and> cd_candidate_id c = cid \<and> cd_content_sha256 c = content_sha \<and>
    vp_generation p = gn_name g \<and> vp_candidate_id p = cid \<and> vp_content_sha256 p = content_sha \<and> vp_record_sha256 p = record_sha"
proof -
  obtain g st c0 where a: "select_verified env dec s path cid = Inr (g, c0)" "replayVerified_review env dec rdec s = (st, None)"
    "cd_content_sha256 c0 = content_sha" "find_proof g c0 record_sha (rs_history st) = Inr (c, p)"
    using assms by (auto simp: resolveValidation_def split: if_splits sum.splits prod.splits option.splits)
  from find_proof_Inr [OF a(4)] select_verified_Inr [OF a(1)] a(3) show ?thesis by auto
qed

text \<open>A current validation is one that the lookup of a past record finds too; the lookups read the evidence and the
  review file only.\<close>

lemma current_is_recorded:
  "ResolveCurrentValidation env dec rdec s path cid content_sha record_sha = Inr x \<Longrightarrow>
     VerifyValidationRecord env dec rdec s path cid content_sha record_sha = Inr x"
  by (auto simp: ResolveCurrentValidation_def VerifyValidationRecord_def resolveValidation_def
      split: if_splits sum.splits prod.splits option.splits)

lemma validation_cong:
  fixes s :: "'a review_store_scheme" and s' :: "'b review_store_scheme"
  assumes "st_events s' = st_events s" and "st_blobs s' = st_blobs s" and "rst_file s' = rst_file s"
  shows "resolveValidation env dec rdec s' = resolveValidation env dec rdec s"
proof -
  have "replayVerified_review env dec rdec s' = replayVerified_review env dec rdec s"
    unfolding replayVerified_review_def assms(3) evidence_cong(4) [OF assms(1,2)] ..
  moreover have "select_verified env dec s' = select_verified env dec s"
    unfolding select_verified_def [abs_def] evidence_cong(2) [OF assms(1,2)] ..
  ultimately show ?thesis unfolding resolveValidation_def [abs_def] by presburger
qed

end
