(* ===== verification/Review_Claims.thy ===== *)
theory Review_Claims
  imports Review_Sample Review_Lookup
begin

text \<open>
  The properties of the candidate review ledger, over \<open>Apply\<close>, the verified replay, the lookups and the
  summary, each with a witness on the sample store.
\<close>

section \<open>Writing\<close>

text \<open>Property C5. A successful \<open>Apply\<close> appends exactly one line, leaves the evidence alone, releases the lock and
  reports the record it wrote; when the generation opens under its own name and the line decodes to the record
  it encodes, the old ledger passed the verified replay and the new one passes it too, with the state stepped by
  that record. A ledger only written by \<open>Apply\<close> therefore never blocks the next review.\<close>

theorem Apply_ok:
  assumes "Apply env dec rdec faults now random path request s = (s', Inr res)"
  shows "\<exists>g sel r line. OpenGeneration env path = Inr g \<and>
    Select env g (map tq_candidate_id (rq_transitions request)) = Inr sel \<and>
    review_record_for env dec rdec (rf_random faults) now random g sel request (s\<lparr>rst_lock := True\<rparr>) = Inr r \<and>
    marshal (review_record_json r) = Some line \<and> \<not> rst_lock s' \<and>
    s' = s\<lparr>rst_file := Readable (file_bytes (rst_file s) @ line @ [newline]) False\<rparr> \<and>
    res = \<lparr>ar_event_id = re_event_id (rr_event r), ar_sequence = rr_sequence r, ar_hash = rr_hash r,
           ar_transitions = re_transitions (rr_event r)\<rparr> \<and>
    (OpenGeneration env (gn_name g) = Inr g \<and> rdec (line_payload line) = Some r \<longrightarrow>
      (\<exists>st st'. replayVerified_review env dec rdec s = (st, None) \<and> replay_step_review r st = Inr st' \<and>
         replayVerified_review env dec rdec s' = (st', None)))"
proof -
  let ?ids = "map tq_candidate_id (rq_transitions request)"
  obtain g sel r line where a: "validateRequestEnvelope request = None" "OpenGeneration env path = Inr g"
    "Select env g ?ids = Inr sel" "verifyCandidateEvidence dec s (selected_candidates sel ?ids) = None"
    "review_record_for env dec rdec (rf_random faults) now random g sel request (s\<lparr>rst_lock := True\<rparr>) = Inr r"
    "marshal (review_record_json r) = Some line" "rst_lock s = False"
    "s' = s\<lparr>rst_file := Readable (file_bytes (rst_file s) @ line @ [newline]) False, rst_lock := False\<rparr>"
    "res = \<lparr>ar_event_id = re_event_id (rr_event r), ar_sequence = rr_sequence r, ar_hash = rr_hash r,
           ar_transitions = re_transitions (rr_event r)\<rparr>"
    using Apply_Inr [OF assms] by blast
  have s': "s' = s\<lparr>rst_file := Readable (file_bytes (rst_file s) @ line @ [newline]) False\<rparr>" "\<not> rst_lock s'"
    using a(7,8) by (cases s; simp)+
  have "\<exists>st st'. replayVerified_review env dec rdec s = (st, None) \<and> replay_step_review r st = Inr st' \<and>
      replayVerified_review env dec rdec s' = (st', None)"
    if "OpenGeneration env (gn_name g) = Inr g \<and> rdec (line_payload line) = Some r"
    using new_record_accepted [OF a(5,1,3) _ _ a(6), of s'] that a(4,8) by simp
  with a(2,3,5,6,9) s' show ?thesis by blast
qed

theorem Apply_ok_witness:
  "\<exists>st'. replayVerified_review sample_env note_dec sample_rdec reviewed_store = (st', None)"
proof -
  obtain g sel r line where a: "OpenGeneration sample_env ''g'' = Inr g"
    "Select sample_env g (map tq_candidate_id (rq_transitions sample_request)) = Inr sel"
    "review_record_for sample_env note_dec sample_rdec (rf_random no_review_faults) 1 ''r'' g sel sample_request
      (note_store\<lparr>rst_lock := True\<rparr>) = Inr r"
    and b: "OpenGeneration sample_env (gn_name g) = Inr g \<and> sample_rdec (line_payload line) = Some r \<longrightarrow>
      (\<exists>st st'. replayVerified_review sample_env note_dec sample_rdec note_store = (st, None) \<and> replay_step_review r st = Inr st' \<and>
         replayVerified_review sample_env note_dec sample_rdec reviewed_store = (st', None))"
    using Apply_ok [OF sample_apply, of sample_rdec] by blast
  have g: "g = sample_generation" using a(1) sample_generation_opens by simp
  have "sel = sample_selection" using a(2) sample_selection by (simp add: g sample_ids)
  with a(3) g have "r = sample_review" using sample_record_for by (simp add: no_review_faults_def)
  with b g show ?thesis by (simp add: sample_rdec_def sample_generation_def [THEN arg_cong, of gn_name] sample_generation_opens) blast
qed

text \<open>The lines of a record decode to the record.\<close>

definition review_decodes :: "(string \<Rightarrow> review_record option) \<Rightarrow> review_record \<Rightarrow> bool" where
  "review_decodes rdec r \<longleftrightarrow> (\<forall>line. marshal (review_record_json r) = Some line \<longrightarrow> rdec (line_payload line) = Some r)"

lemma acquireReviewLock_held: "rst_lock s \<Longrightarrow> fst (acquireReviewLock fault s) = s"
proof -
  assume l: "rst_lock s"
  have "fst (acquire_lock fault True)" by (simp add: acquire_lock_def)
  then have "fst (acquireReviewLock fault s) = s\<lparr>rst_lock := True\<rparr>" using l
    by (cases "acquire_lock fault True") (simp add: acquireReviewLock_def)
  also have "\<dots> = s" using l by simp
  finally show ?thesis .
qed

lemma Apply_Inl:
  assumes "Apply env dec rdec faults now random path request s = (s', Inl e)"
  shows "(\<exists>b. s' = s\<lparr>rst_lock := b\<rparr>) \<and> (rst_lock s \<longrightarrow> s' = s) \<or>
    (\<not> rst_lock s \<and> (e = ApplyRelease \<or> (\<exists>f. e = ApplyAppend f)) \<and>
     (\<exists>g sel r s2 f b. OpenGeneration env path = Inr g \<and> validateRequestEnvelope request = None \<and>
       Select env g (map tq_candidate_id (rq_transitions request)) = Inr sel \<and>
       verifyCandidateEvidence dec s (selected_candidates sel (map tq_candidate_id (rq_transitions request))) = None \<and>
       review_record_for env dec rdec (rf_random faults) now random g sel request (s\<lparr>rst_lock := True\<rparr>) = Inr r \<and>
       appendRecord_review (rf_append faults) r (s\<lparr>rst_lock := True\<rparr>) = (s2, f) \<and> s' = s2\<lparr>rst_lock := b\<rparr>))"
proof -
  let ?ids = "map tq_candidate_id (rq_transitions request)"
  have same: "\<exists>b. s = s\<lparr>rst_lock := b\<rparr>" by (rule exI [of _ "rst_lock s"]) simp
  show ?thesis
  proof (cases "validateRequestEnvelope request = None \<and> (\<exists>g sel. OpenGeneration env path = Inr g \<and>
      Select env g ?ids = Inr sel \<and> verifyCandidateEvidence dec s (selected_candidates sel ?ids) = None)")
    case False
    then have "s' = s" using assms by (auto simp: Apply_def Let_def split: option.splits sum.splits)
    with same show ?thesis by blast
  next
    case True
    then obtain g sel where a: "validateRequestEnvelope request = None" "OpenGeneration env path = Inr g"
      "Select env g ?ids = Inr sel" "verifyCandidateEvidence dec s (selected_candidates sel ?ids) = None" by blast
    obtain s1 le where lk: "acquireReviewLock (rf_lock faults) s = (s1, le)" by fastforce
    show ?thesis
    proof (cases le)
      case (Some x)
      then have "s' = s1" using assms a lk by (simp add: Apply_def Let_def)
      moreover have "\<exists>b. s1 = s\<lparr>rst_lock := b\<rparr>" using lk by (auto simp: acquireReviewLock_def split: prod.splits)
      moreover have "rst_lock s \<longrightarrow> s1 = s" using acquireReviewLock_held [of s "rf_lock faults"] lk by simp
      ultimately show ?thesis by blast
    next
      case None
      then have l: "\<not> rst_lock s" "s1 = s\<lparr>rst_lock := True\<rparr>"
        using lk by (auto simp: acquireReviewLock_def acquire_lock_def split: prod.splits if_splits option.splits lock_fault.splits)
      show ?thesis
      proof (cases "review_record_for env dec rdec (rf_random faults) now random g sel request s1")
        case (Inl x)
        then have "s' = releaseReviewLock (rf_release_ok faults) s1" using assms a lk None by (simp add: Apply_def Let_def)
        then have "\<exists>b. s' = s\<lparr>rst_lock := b\<rparr>" using l(2) by (auto simp: releaseReviewLock_def)
        with l(1) show ?thesis by blast
      next
        case (Inr r)
        obtain s2 f where ap: "appendRecord_review (rf_append faults) r s1 = (s2, f)" by fastforce
        have "(e = ApplyRelease \<or> (\<exists>f. e = ApplyAppend f)) \<and> (\<exists>b. s' = s2\<lparr>rst_lock := b\<rparr>)"
        proof -
          have "\<exists>b. s2 = s2\<lparr>rst_lock := b\<rparr>" by (rule exI [of _ "rst_lock s2"]) simp
          then have "\<exists>b. releaseReviewLock q s2 = s2\<lparr>rst_lock := b\<rparr>" for q by (auto simp: releaseReviewLock_def)
          then show ?thesis using assms a lk None Inr ap
            by (auto simp: Apply_def Let_def split: option.splits if_splits)
        qed
        with a l Inr ap show ?thesis by blast
      qed
    qed
  qed
qed

text \<open>Property C12. Whatever interrupts an \<open>Apply\<close>, the evidence is untouched and the review file replays: to the
  state it had, or to the state of the complete new record, or it is refused for an unfinished last line. A
  fault never leaves a half-written record that a replay would accept, and a held lock changes nothing at all.\<close>

theorem Apply_failed:
  assumes "Apply env dec rdec faults now random path request s = (s', Inl e)"
    and "replay_review rdec (rst_file s) = (st, None)"
  shows "st_events s' = st_events s \<and> st_blobs s' = st_blobs s \<and> (rst_lock s \<longrightarrow> s' = s) \<and>
    (rst_file s' = rst_file s \<or> (e = ApplyRelease \<or> (\<exists>f. e = ApplyAppend f)) \<and>
       (\<exists>g sel r st'. OpenGeneration env path = Inr g \<and>
          Select env g (map tq_candidate_id (rq_transitions request)) = Inr sel \<and>
          review_record_for env dec rdec (rf_random faults) now random g sel request (s\<lparr>rst_lock := True\<rparr>) = Inr r \<and>
          replay_step_review r st = Inr st' \<and>
          (review_decodes rdec r \<longrightarrow> old_new_or_refused st st' (replay_review rdec (rst_file s')))))"
proof (cases "(\<exists>b. s' = s\<lparr>rst_lock := b\<rparr>) \<and> (rst_lock s \<longrightarrow> s' = s)")
  case True
  then show ?thesis by auto
next
  case False
  with Apply_Inl [OF assms(1)] obtain g sel r s2 f b
    where n: "\<not> rst_lock s" and g: "OpenGeneration env path = Inr g" and req: "validateRequestEnvelope request = None"
    and sel: "Select env g (map tq_candidate_id (rq_transitions request)) = Inr sel"
    and ev: "verifyCandidateEvidence dec s (selected_candidates sel (map tq_candidate_id (rq_transitions request))) = None"
    and rec: "review_record_for env dec rdec (rf_random faults) now random g sel request (s\<lparr>rst_lock := True\<rparr>) = Inr r"
    and ap: "appendRecord_review (rf_append faults) r (s\<lparr>rst_lock := True\<rparr>) = (s2, f)" and s': "s' = s2\<lparr>rst_lock := b\<rparr>"
    and e: "e = ApplyRelease \<or> (\<exists>f. e = ApplyAppend f)"
    by blast
  obtain st0 where st0: "replayVerified_review env dec rdec (s\<lparr>rst_lock := True\<rparr>) = (st0, None)"
    using review_record_for_Inr [OF rec] by blast
  have "st0 = st" using st0 assms(2) by (simp add: replayVerified_review_iff)
  with new_record_ok(2) [OF rec st0 req sel] ev obtain st' where st': "replay_step_review r st = Inr st'" by auto
  have "review_decodes rdec r \<longrightarrow> old_new_or_refused st st' (replay_review rdec (rst_file s'))"
    using append_review_fault [OF _ st' _ ap] assms(2) s' by (simp add: review_decodes_def)
  moreover have "st_events s' = st_events s" "st_blobs s' = st_blobs s"
    using ap s' by (auto simp: appendRecord_review_def split: prod.splits)
  ultimately show ?thesis using n e g sel rec st' by blast
qed

definition sample_torn :: review_store where
  "sample_torn = fst (Apply sample_env note_dec sample_rdec (no_review_faults\<lparr>rf_append := Some (FWrite 3)\<rparr>) 1 ''r'' ''g''
     sample_request note_store)"

lemma sample_torn_apply:
  "\<exists>e. Apply sample_env note_dec sample_rdec (no_review_faults\<lparr>rf_append := Some (FWrite 3)\<rparr>) 1 ''r'' ''g''
     sample_request note_store = (sample_torn, Inl e)"
proof -
  let ?f = "no_review_faults\<lparr>rf_append := Some (FWrite 3)\<rparr>"
  have lk: "acquireReviewLock (rf_lock ?f) note_store = (note_store\<lparr>rst_lock := True\<rparr>, None)"
    by (simp add: acquireReviewLock_def no_review_faults_def note_store_def acquire_lock_def)
  obtain s2 where ap: "appendRecord_review (rf_append ?f) sample_review (note_store\<lparr>rst_lock := True\<rparr>) = (s2, Some (FWrite 3))"
    by (simp add: appendRecord_review_def encode_line_def sample_review_line append_bytes_def note_store_def Let_def)
  have f: "rf_random ?f = False" by (simp add: no_review_faults_def)
  have "\<exists>s' e. Apply sample_env note_dec sample_rdec ?f 1 ''r'' ''g'' sample_request note_store = (s', Inl e)"
    unfolding Apply_def Let_def sample_request_valid sample_generation_opens option.case sum.case sample_ids sample_selection
      sample_selected sample_supported lk prod.case f sample_record_for ap by simp
  then show ?thesis by (auto simp: sample_torn_def)
qed

lemma note_replay: "replay_review rdec (rst_file note_store) = (initial_review_state, None)"
  by (simp add: replay_review_def note_store_def replay_log_def)

theorem Apply_failed_witness:
  "st_events sample_torn = st_events note_store \<and> st_blobs sample_torn = st_blobs note_store"
  using Apply_failed [OF _ note_replay] sample_torn_apply by blast

section \<open>Reading\<close>


lemma reviewed_verified:
  "\<exists>st. replayVerified_review sample_env note_dec sample_rdec reviewed_store = (st, None) \<and> rs_history st = [sample_review] \<and>
     rs_statuses st (review_key sample_generation sample_candidate) = Some StatusValidated \<and>
     rs_last_by_key st (review_key sample_generation sample_candidate) = rr_hash sample_review"
proof -
  have ev: "verifyCandidateEvidence note_dec (note_store\<lparr>rst_lock := True\<rparr>)
      (selected_candidates sample_selection (map tq_candidate_id (rq_transitions sample_request))) = None"
    by (simp only: review_frame sample_ids sample_selected sample_supported)
  have sel: "Select sample_env sample_generation (map tq_candidate_id (rq_transitions sample_request)) = Inr sample_selection"
    by (simp only: sample_ids sample_selection)
  have g: "OpenGeneration sample_env (gn_name sample_generation) = Inr sample_generation"
    using sample_generation_opens by (simp add: sample_generation_def [THEN arg_cong, of gn_name])
  have d: "sample_rdec (line_payload sample_review_line) = Some sample_review" by (simp add: sample_rdec_def)
  have f: "rst_file reviewed_store = Readable (file_bytes (rst_file (note_store\<lparr>rst_lock := True\<rparr>)) @ sample_review_line @ [newline]) False"
    "st_events reviewed_store = st_events (note_store\<lparr>rst_lock := True\<rparr>)"
    "st_blobs reviewed_store = st_blobs (note_store\<lparr>rst_lock := True\<rparr>)"
    by (simp_all add: reviewed_store_def note_store_def file_bytes_def)
  obtain st st' where st: "replayVerified_review sample_env note_dec sample_rdec (note_store\<lparr>rst_lock := True\<rparr>) = (st, None)"
    "replay_step_review sample_review st = Inr st'" "replayVerified_review sample_env note_dec sample_rdec reviewed_store = (st', None)"
    using new_record_accepted [where s = "note_store\<lparr>rst_lock := True\<rparr>" and s' = reviewed_store and rdec = sample_rdec,
      OF sample_record_for sample_request_valid sel ev g sample_review_line d f] by blast
  have "st = initial_review_state" using st(1) note_replay [of sample_rdec] by (simp add: replayVerified_review_iff)
  moreover have "re_transitions sample_review_event = [sample_moved]" "re_candidates_sha256 sample_review_event = sha256_hex ''c''"
    by (simp_all add: sample_review_event_def)
  moreover have "review_key sample_generation sample_candidate =
      candidateKey (sha256_hex ''c'') (tr_candidate_id sample_moved) (tr_content_sha256 sample_moved)"
    by (simp add: review_key_def sample_moved_def sample_generation_def)
  moreover have "tr_resulting sample_moved = StatusValidated" by (simp add: sample_moved_def)
  ultimately show ?thesis using st(3) replay_step_review_Inr(3,4,8) [OF st(2)] by (simp add: event_key_def)
qed

lemma sample_no_collision: "rs_history st = [sample_review] \<Longrightarrow> \<not> generations_collide sample_env (rs_history st) sample_generation"
  using sample_generation_opens by (simp add: generations_collide_def sample_review_event_def sha_collision_def)


text \<open>Property C11. The replayed ledger implements the review state machine: the status reported for a candidate is
  reached from its derived status by exactly as many edges of the machine as \<open>GetStatus\<close> reports review events.\<close>

theorem status_machine:
  assumes "replayVerified_review env dec rdec s = (st, None)" and "OpenGeneration env path = Inr g"
    and "Select env g ids = Inr sel" and "\<not> generations_collide env (rs_history st) g"
    and "c \<in> set (generation_candidates env g)"
  shows "(review_edge (initialStatus c) (cd_conflict_group_id c \<noteq> []) ^^ rs_events st (review_key g c))
    (initialStatus c) (current_status st g c)"
proof -
  have sha: "validSHA256 (cm_candidates_sha256 (gn_manifest g))" using Select_content(6) [OF assms(3)] by (metis validSHA256_sha256_hex)
  note h = verified_history [OF assms(1)]
  have "rs_events st (review_key g c) = moves (cm_candidates_sha256 (gn_manifest g)) c (rs_history st)"
    using h(4) by (simp add: events_counted_def review_key_def key_of_def)
  with history_moves(2) [OF h(1,2) assms(3) sha assms(4,5)] h(3) show ?thesis by (simp add: current_status_of)
qed

theorem status_machine_witness:
  "\<exists>st. replayVerified_review sample_env note_dec sample_rdec reviewed_store = (st, None) \<and>
     (review_edge StatusPending False ^^ rs_events st (review_key sample_generation sample_candidate))
       StatusPending (current_status st sample_generation sample_candidate)"
proof -
  obtain st where st: "replayVerified_review sample_env note_dec sample_rdec reviewed_store = (st, None)"
    "rs_history st = [sample_review]" using reviewed_verified by blast
  from status_machine [OF st(1) sample_generation_opens sample_selection sample_no_collision [OF st(2)], of sample_candidate] st(1)
  show ?thesis by (auto simp: sample_contents sample_pending)
qed

section \<open>Looking up a validation\<close>

text \<open>Property C9. What \<open>ResolveCurrentValidation\<close> hands to promotion is backed by the ledger: a hash-chained record of
  the verified history with the requested digest validated exactly this candidate content, the candidate is still
  validated, its observations are complete user messages, and the basis of the validation is supported by the
  candidate's own observations or by complete events of the evidence ledger.\<close>

theorem resolved_validation_grounded:
  assumes "ResolveCurrentValidation env dec rdec s path cid content_sha record_sha = Inr (c, p)"
    and "\<forall>g. OpenGeneration env path = Inr g \<longrightarrow> OpenGeneration env (gn_name g) = Inr g"
  shows "\<exists>g st r. OpenGeneration env path = Inr g \<and> replayVerified_review env dec rdec s = (st, None) \<and>
    c \<in> set (generation_candidates env g) \<and> cd_candidate_id c = cid \<and> cd_content_sha256 c = content_sha \<and>
    current_status st g c = StatusValidated \<and> r \<in> set (rs_history st) \<and> rr_hash r = record_sha \<and>
    vp_record_sha256 p = record_sha \<and> vp_event_id p = re_event_id (rr_event r) \<and> vp_reviewer p = re_reviewer (rr_event r) \<and>
    vp_generation p = gn_name g \<and> vp_candidate_id p = cid \<and> vp_content_sha256 p = content_sha \<and>
    (\<forall>i \<in> set (candidate_event_ids c). candidate_event_ok s (decoded_records dec (st_events s)) i) \<and>
    grounded dec s c (vp_basis p) (vp_evidence p)"
proof -
  obtain g st c0 where a: "select_verified env dec s path cid = Inr (g, c0)" "replayVerified_review env dec rdec s = (st, None)"
    "rs_statuses st (review_key g c0) = Some StatusValidated"
    using assms(1)
    by (auto simp: ResolveCurrentValidation_def resolveValidation_def split: if_splits sum.splits prod.splits option.splits)
  from resolved_core [OF assms(1) [unfolded ResolveCurrentValidation_def] assms(2)] a
  obtain r where "OpenGeneration env path = Inr g" "c0 = c" "c \<in> set (generation_candidates env g) \<and> cd_candidate_id c = cid \<and> cd_content_sha256 c = content_sha"
    "r \<in> set (rs_history st) \<and> rr_hash r = record_sha \<and> vp_record_sha256 p = record_sha \<and> vp_event_id p = re_event_id (rr_event r) \<and>
     vp_reviewer p = re_reviewer (rr_event r) \<and> vp_generation p = gn_name g \<and> vp_candidate_id p = cid \<and> vp_content_sha256 p = content_sha"
    "\<forall>i \<in> set (candidate_event_ids c). candidate_event_ok s (decoded_records dec (st_events s)) i"
    "grounded dec s c (vp_basis p) (vp_evidence p)" by auto
  with a show ?thesis by (intro exI [of _ g] exI [of _ st] exI [of _ r]) (simp add: current_status_def)
qed

lemma sample_resolves:
  "\<exists>p. ResolveCurrentValidation sample_env note_dec sample_rdec reviewed_store ''g'' sample_id
       (cd_content_sha256 sample_candidate) (rr_hash sample_review) = Inr (sample_candidate, p)"
proof -
  obtain st where st: "replayVerified_review sample_env note_dec sample_rdec reviewed_store = (st, None)" "rs_history st = [sample_review]"
    "rs_statuses st (review_key sample_generation sample_candidate) = Some StatusValidated"
    "rs_last_by_key st (review_key sample_generation sample_candidate) = rr_hash sample_review" using reviewed_verified by blast
  have ev: "verifyCandidateEvidence note_dec reviewed_store [sample_candidate] = None"
    unfolding evidence_cong(2) [of reviewed_store note_store, simplified reviewed_store_def review_store.simps, simplified]
    using sample_supported evidence_cong(2) [of reviewed_store note_store note_dec] by (simp add: reviewed_store_def)
  have sv: "select_verified sample_env note_dec reviewed_store ''g'' sample_id = Inr (sample_generation, sample_candidate)"
    by (simp add: select_verified_def sample_generation_opens sample_selection sample_selected ev)
  have h: "validSHA256 (rr_hash sample_review)" using makeRecord_review_fields [OF sample_review_made] by simp
  have ev': "re_transitions sample_review_event = [sample_moved]" "re_generation sample_review_event = gn_name sample_generation"
    "re_candidates_sha256 sample_review_event = cm_candidates_sha256 (gn_manifest sample_generation)"
    by (simp_all add: sample_review_event_def sample_generation_def)
  have mv: "tr_candidate_id sample_moved = sample_id" "tr_content_sha256 sample_moved = cd_content_sha256 sample_candidate"
    "tr_action sample_moved = ActionValidate" "tr_resulting sample_moved = StatusValidated" "\<exists>sc. tr_scope sample_moved = Some sc"
    by (simp_all add: sample_moved_def)
  have "\<exists>p. find_proof sample_generation sample_candidate (rr_hash sample_review) [sample_review] = Inr (sample_candidate, p)"
    using mv(5) by (auto simp: Let_def ev' proof_transition_def mv(1-4))
  then show ?thesis
    by (simp add: ResolveCurrentValidation_def resolveValidation_def sample_hashes h sv st del: find_proof.simps)
qed

theorem resolved_validation_grounded_witness:
  "\<exists>p. ResolveCurrentValidation sample_env note_dec sample_rdec reviewed_store ''g'' sample_id
       (cd_content_sha256 sample_candidate) (rr_hash sample_review) = Inr (sample_candidate, p) \<and>
     grounded note_dec reviewed_store sample_candidate (vp_basis p) (vp_evidence p)"
proof -
  obtain p where p: "ResolveCurrentValidation sample_env note_dec sample_rdec reviewed_store ''g'' sample_id
       (cd_content_sha256 sample_candidate) (rr_hash sample_review) = Inr (sample_candidate, p)" using sample_resolves by blast
  have "\<forall>g. OpenGeneration sample_env ''g'' = Inr g \<longrightarrow> OpenGeneration sample_env (gn_name g) = Inr g"
    using sample_generation_opens by (auto simp: sample_generation_def [THEN arg_cong, of gn_name])
  from resolved_validation_grounded [OF p this] p show ?thesis by blast
qed

text \<open>The summary of a generation counts every candidate exactly once: pending, validated, rejected and
  quarantined candidates add up to the total, and the number of validated candidates is the number that
  \<open>GetStatus\<close> would report as validated.\<close>

theorem Summarize_total:
  "case Summarize env dec rdec audits s path of
     Inl e \<Rightarrow> True
   | Inr m \<Rightarrow> su_pending m + su_validated m + su_rejected m + su_quarantined m = su_total m \<and>
       (\<exists>g cs st. OpenGeneration env path = Inr g \<and> All env g = Inr cs \<and> su_total m = int (length cs) \<and>
          replayVerified_review env dec rdec s = (st, None) \<and>
          su_validated m = int (length (filter (\<lambda>c. current_status st g c = StatusValidated) cs)))"
proof (cases "Summarize env dec rdec audits s path")
  case (Inr m)
  then obtain g st cs where a: "replayVerified_review env dec rdec s = (st, None)" "OpenGeneration env path = Inr g" "All env g = Inr cs"
    and m: "m = \<lparr>su_generation = gn_name g, su_total = int (length cs),
           su_pending = count_status st g StatusPending cs, su_validated = count_status st g StatusValidated cs,
           su_rejected = count_status st g StatusRejected cs,
           su_quarantined = count_status st g StatusQuarantined cs\<rparr>"
    by (auto simp: Summarize_def split: sum.splits option.splits prod.splits)
  note h = verified_history [OF a(1)]
  have known: "current_status st g d \<in> {StatusPending, StatusValidated, StatusRejected, StatusQuarantined}" for d
    using history_statuses_valid [OF h(2)] initialStatus_cases [of d] h(3)
    by (auto simp: current_status_def validStatus_def split: option.splits)
  have "count_status st g StatusPending cs + count_status st g StatusValidated cs + count_status st g StatusRejected cs +
      count_status st g StatusQuarantined cs = int (length cs)" for cs
  proof (induction cs)
    case (Cons c cs)
    with known [of c] show ?case by (auto simp: count_status_def)
  qed (simp add: count_status_def)
  with a show ?thesis by (auto simp: Inr m count_status_def)
qed simp



end
