(* ===== verification/Promotion_Types.thy ===== *)
theory Promotion_Types
  imports Review Secret_Scan
begin

text \<open>
  The records of the memory promotion ledger and the checks on them (\<open>internal/promotion/types.go\<close>, and the
  validation functions of \<open>ledger.go\<close> and \<open>apply.go\<close>). A slice whose nil value encodes differently from an
  empty one is an \<open>option\<close> (\<open>sa_finding_ids\<close>, \<open>sa_redactions\<close>); for the others the two cannot be told apart
  (\<open>omitempty\<close>) or are both rejected.
\<close>

section \<open>Constants\<close>

abbreviation PromotionRequestSchemaVersion :: string where
  "PromotionRequestSchemaVersion \<equiv> ''memory-promotion-request/v1alpha1''"
abbreviation RevisionSchemaVersion :: string where "RevisionSchemaVersion \<equiv> ''promoted-memory-revision/v1alpha1''"
abbreviation PromotionEventSchemaVersion :: string where "PromotionEventSchemaVersion \<equiv> ''memory-promotion-event/v1alpha1''"
abbreviation PromotionRecordSchemaVersion :: string where
  "PromotionRecordSchemaVersion \<equiv> ''memory-promotion-record/v1alpha1''"

abbreviation ApproverKindCallerAttestation :: string where "ApproverKindCallerAttestation \<equiv> ''caller_attestation''"
abbreviation ApproverKindSyntheticTest :: string where "ApproverKindSyntheticTest \<equiv> ''synthetic_test''"
abbreviation ApproverKindLegacyHuman :: string where "ApproverKindLegacyHuman \<equiv> ''human''"

abbreviation ActionPromote :: string where "ActionPromote \<equiv> ''promote''"
abbreviation ActionSupersede :: string where "ActionSupersede \<equiv> ''supersede''"
abbreviation ActionRevoke :: string where "ActionRevoke \<equiv> ''revoke''"

abbreviation StatusActive :: string where "StatusActive \<equiv> ''active''"
abbreviation StatusRevoked :: string where "StatusRevoked \<equiv> ''revoked''"

section \<open>Records\<close>

record approver =
  pa_kind :: string
  pa_id :: string

record candidate_reference =
  cr_generation :: string
  cr_candidate_id :: string
  cr_content_sha256 :: string
  cr_review_record :: string

record promotion_request =
  pq_schema_version :: string
  pq_approver :: approver
  pq_action :: string
  pq_memory_id :: string
  pq_expected_revision :: string
  pq_candidate :: "candidate_reference option"
  pq_redactions :: "redaction list"
  pq_expected_text :: string
  pq_reason :: string

record memory_source =
  so_generation :: string
  so_candidates_sha256 :: string
  so_candidate_id :: string
  so_content_sha256 :: string
  so_semantic_key :: string
  so_review_event :: string
  so_review_record :: string
  so_review_scope :: review_scope
  so_review_basis :: "string list"

record scan_attestation =
  sa_scanner_version :: string
  sa_source_text :: string
  sa_finding_ids :: "string list option"
  sa_redactions :: "redaction list option"
  sa_redacted_text :: string

record revision =
  rn_schema_version :: string
  rn_memory_id :: string
  rn_revision_id :: string
  rn_parent :: string
  rn_action :: string
  rn_status :: string
  rn_kind :: string
  rn_text :: string
  rn_text_sha256 :: string
  rn_scope :: review_scope
  rn_source :: "memory_source option"
  rn_scan :: "scan_attestation option"
  rn_rule_change :: bool
  rn_authorization :: string
  rn_recorded_at :: gotime
  rn_device_id :: string
  rn_approver_id :: string
  rn_reason :: string
  rn_privacy :: string

record promotion_event =
  pe_schema_version :: string
  pe_event_id :: string
  pe_recorded_at :: gotime
  pe_device_id :: string
  pe_approver :: approver
  pe_request_sha256 :: string
  pe_revision :: revision
  pe_privacy :: string

record promotion_record =
  pr_schema_version :: string
  pr_sequence :: int
  pr_event :: promotion_event
  pr_previous :: string
  pr_hash :: string

section \<open>JSON\<close>

definition approver_json :: "approver \<Rightarrow> json" where
  "approver_json a = JObj [(''kind'', JStr (pa_kind a)), (''id'', JStr (pa_id a))]"

definition candidate_reference_json :: "candidate_reference \<Rightarrow> json" where
  "candidate_reference_json c = JObj
     [(''generation'', JStr (cr_generation c)), (''candidate_id'', JStr (cr_candidate_id c)),
      (''candidate_content_sha256'', JStr (cr_content_sha256 c)),
      (''expected_review_record_sha256'', JStr (cr_review_record c))]"

definition redaction_json :: "redaction \<Rightarrow> json" where
  "redaction_json r = JObj
     [(''start_byte'', JInt (rd_start r)), (''end_byte'', JInt (rd_end r)),
      (''source_sha256'', JStr (rd_source_sha256 r)), (''replacement'', JStr (rd_replacement r))]"

definition promotion_request_json :: "promotion_request \<Rightarrow> json" where
  "promotion_request_json r = JObj
     ([(''schema_version'', JStr (pq_schema_version r)), (''approver'', approver_json (pq_approver r)),
       (''action'', JStr (pq_action r))] @
      omit_str ''memory_id'' (pq_memory_id r) @
      omit_str ''expected_revision_id'' (pq_expected_revision r) @
      omit_opt ''candidate'' (map_option candidate_reference_json (pq_candidate r)) @
      omit_list ''redactions'' (map redaction_json (pq_redactions r)) @
      omit_str ''expected_text_sha256'' (pq_expected_text r) @
      [(''reason'', JStr (pq_reason r))])"

definition memory_source_json :: "memory_source \<Rightarrow> json" where
  "memory_source_json s = JObj
     [(''candidate_generation'', JStr (so_generation s)), (''candidates_sha256'', JStr (so_candidates_sha256 s)),
      (''candidate_id'', JStr (so_candidate_id s)), (''candidate_content_sha256'', JStr (so_content_sha256 s)),
      (''semantic_key_sha256'', JStr (so_semantic_key s)), (''review_event_id'', JStr (so_review_event s)),
      (''review_record_sha256'', JStr (so_review_record s)), (''review_scope'', scope_json (so_review_scope s)),
      (''review_basis'', JArr (map JStr (so_review_basis s)))]"

definition slice_json :: "('a \<Rightarrow> json) \<Rightarrow> 'a list option \<Rightarrow> json" where
  "slice_json f v = (case v of None \<Rightarrow> JNull | Some xs \<Rightarrow> JArr (map f xs))"

definition scan_attestation_json :: "scan_attestation \<Rightarrow> json" where
  "scan_attestation_json s = JObj
     [(''scanner_version'', JStr (sa_scanner_version s)), (''source_text_sha256'', JStr (sa_source_text s)),
      (''finding_ids'', slice_json JStr (sa_finding_ids s)),
      (''redactions'', slice_json redaction_json (sa_redactions s)),
      (''redacted_text_sha256'', JStr (sa_redacted_text s))]"

definition revision_json :: "revision \<Rightarrow> json" where
  "revision_json r = JObj
     ([(''schema_version'', JStr (rn_schema_version r)), (''memory_id'', JStr (rn_memory_id r)),
       (''revision_id'', JStr (rn_revision_id r))] @
      omit_str ''parent_revision_id'' (rn_parent r) @
      [(''action'', JStr (rn_action r)), (''status'', JStr (rn_status r)), (''kind'', JStr (rn_kind r))] @
      omit_str ''text'' (rn_text r) @
      omit_str ''text_sha256'' (rn_text_sha256 r) @
      [(''scope'', scope_json (rn_scope r))] @
      omit_opt ''source'' (map_option memory_source_json (rn_source r)) @
      omit_opt ''scan'' (map_option scan_attestation_json (rn_scan r)) @
      [(''requires_explicit_rule_change_approval'', JBool (rn_rule_change r)),
       (''rule_change_authorization'', JStr (rn_authorization r)), (''recorded_at'', JTime (rn_recorded_at r)),
       (''origin_device_id'', JStr (rn_device_id r)), (''approver_id'', JStr (rn_approver_id r)),
       (''reason'', JStr (rn_reason r)), (''privacy'', JStr (rn_privacy r))])"

definition promotion_event_json :: "promotion_event \<Rightarrow> json" where
  "promotion_event_json e = JObj
     [(''schema_version'', JStr (pe_schema_version e)), (''event_id'', JStr (pe_event_id e)),
      (''recorded_at'', JTime (pe_recorded_at e)), (''device_id'', JStr (pe_device_id e)),
      (''approver'', approver_json (pe_approver e)), (''request_sha256'', JStr (pe_request_sha256 e)),
      (''revision'', revision_json (pe_revision e)), (''privacy'', JStr (pe_privacy e))]"

definition promotion_record_json :: "promotion_record \<Rightarrow> json" where
  "promotion_record_json r = JObj
     [(''schema_version'', JStr (pr_schema_version r)), (''sequence'', JInt (pr_sequence r)),
      (''event'', promotion_event_json (pr_event r)), (''previous_record_sha256'', JStr (pr_previous r)),
      (''record_sha256'', JStr (pr_hash r))]"

section \<open>Checks\<close>

definition ValidApproverKind :: "string \<Rightarrow> bool" where
  "ValidApproverKind k \<longleftrightarrow>
     k \<in> set [ApproverKindCallerAttestation, ApproverKindSyntheticTest, ApproverKindLegacyHuman]"

definition validKind :: "string \<Rightarrow> bool" where
  "validKind k \<longleftrightarrow> k \<in> set [KindConstraint, KindCorrection, KindDirective]"

definition validScope_promotion :: "review_scope \<Rightarrow> bool" where
  "validScope_promotion s \<longleftrightarrow>
     \<not> blank (sp_value s) \<and> sp_value s = trimSpace (sp_value s) \<and> length (sp_value s) \<le> 4096 \<and>
     \<not> containsAny (sp_value s) [CHR 0x0D, CHR 0x0A] \<and>
     (if sp_kind s = ScopeGlobal then sp_value s = ''*''
      else if sp_kind s = ScopeAgent then
        sp_value s \<in> set [AgentCodex, AgentClaudeCode, AgentOpenCode, AgentDeepSeekHarness, AgentUnknown]
      else sp_kind s \<in> set [ScopeRepository, ScopeProject, ScopeTask])"

definition validReviewBasis :: "string \<Rightarrow> bool" where
  "validReviewBasis b \<longleftrightarrow> b \<in> set [BasisExplicitRemember, BasisUserCorrection, BasisStableRepetition,
     BasisOutcomeEvidence, BasisExplicitUserConfirmation]"

definition textDigest :: "string \<Rightarrow> string" where
  "textDigest v = sha256_hex v"

definition expectedMemoryID :: "string \<Rightarrow> review_scope \<Rightarrow> string" where
  "expectedMemoryID redacted_text_sha256 scope =
     ''memory-'' @ sha256_hex (case marshal (JObj
       [(''version'', JStr ''memory-identity/v1alpha1''), (''redacted_text_sha256'', JStr redacted_text_sha256),
        (''scope'', scope_json scope)]) of None \<Rightarrow> [] | Some d \<Rightarrow> d)"

definition findingIDs :: "scan_report \<Rightarrow> string list" where
  "findingIDs report = sort (map fd_finding_id (sr_findings report))"

definition revisionID :: "revision \<Rightarrow> string option" where
  "revisionID r = map_option (\<lambda>d. ''memory-revision-'' @ sha256_hex d) (marshal (revision_json (r\<lparr>rn_revision_id := []\<rparr>)))"

datatype promotion_error =
    PromotionEnvelope
  | PromotionEventEnvelope
  | PromotionAttribution
  | RevisionEnvelope
  | RevisionMetadata
  | ActiveIncomplete
  | TextNotClean
  | SourceInvalid
  | SourceBasisInvalid
  | AttestationInvalid
  | FindingIdsInvalid
  | RevokedContent
  | PromotionActionInvalid
  | PromotionEncode
  | PromotionHashMismatch
  | RepeatedRevision
  | InitialPromotionInvalid
  | StaleParent
  | RevocationInvalid
  | ActionUnsupported

definition clean :: "scan_engine \<Rightarrow> string \<Rightarrow> bool" where
  "clean en text \<longleftrightarrow> sr_findings (Scan en text) = []"

definition validateSource :: "memory_source \<Rightarrow> review_scope \<Rightarrow> promotion_error option" where
  "validateSource s scope = first_error
     [fail_if (blank (so_generation s) \<or> filepathBase (so_generation s) \<noteq> so_generation s \<or>
               \<not> validSHA256 (so_candidates_sha256 s) \<or> \<not> validPrefixedHash (so_candidate_id s) ''candidate-'' \<or>
               \<not> validSHA256 (so_content_sha256 s) \<or> \<not> validSHA256 (so_semantic_key s) \<or>
               \<not> hasPrefix (so_review_event s) ''review-'' \<or> \<not> validSHA256 (so_review_record s) \<or>
               so_review_scope s \<noteq> scope \<or> so_review_basis s = []) SourceInvalid,
      fail_if (\<not> list_all validReviewBasis (so_review_basis s) \<or> \<not> strictly_sorted (so_review_basis s)) SourceBasisInvalid]"

definition slice_list :: "'a list option \<Rightarrow> 'a list" where
  "slice_list v = (case v of None \<Rightarrow> [] | Some xs \<Rightarrow> xs)"

definition validateScanAttestation :: "scan_attestation \<Rightarrow> string \<Rightarrow> promotion_error option" where
  "validateScanAttestation s text_sha256 = first_error
     [fail_if (sa_scanner_version s \<noteq> ScannerVersion \<or> \<not> validSHA256 (sa_source_text s) \<or>
               sa_redacted_text s \<noteq> text_sha256 \<or> \<not> validSHA256 (sa_redacted_text s)) AttestationInvalid,
      fail_if (\<not> list_all (\<lambda>i. validPrefixedHash i ''finding-'') (slice_list (sa_finding_ids s)) \<or>
               \<not> strictly_sorted (slice_list (sa_finding_ids s))) FindingIdsInvalid]"

definition check_active :: "scan_engine \<Rightarrow> revision \<Rightarrow> promotion_error option" where
  "check_active en r =
     (case (rn_source r, rn_scan r) of
        (Some source, Some scan) \<Rightarrow> first_error
          [fail_if (rn_status r \<noteq> StatusActive \<or> blank (rn_text r) \<or> \<not> validSHA256 (rn_text_sha256 r)) ActiveIncomplete,
           fail_if (textDigest (rn_text r) \<noteq> rn_text_sha256 r \<or> \<not> clean en (rn_text r)) TextNotClean,
           validateSource source (rn_scope r),
           validateScanAttestation scan (rn_text_sha256 r)]
      | _ \<Rightarrow> Some ActiveIncomplete)"

definition validateRevisionSyntax :: "scan_engine \<Rightarrow> revision \<Rightarrow> promotion_error option" where
  "validateRevisionSyntax en r = first_error
     [fail_if (rn_schema_version r \<noteq> RevisionSchemaVersion \<or> \<not> validPrefixedHash (rn_memory_id r) ''memory-'' \<or>
               \<not> validPrefixedHash (rn_revision_id r) ''memory-revision-'' \<or>
               rn_parent r \<noteq> [] \<and> \<not> validPrefixedHash (rn_parent r) ''memory-revision-'' \<or>
               isZeroTime (rn_recorded_at r) \<or> blank (rn_device_id r) \<or> blank (rn_approver_id r) \<or>
               rn_approver_id r \<noteq> trimSpace (rn_approver_id r) \<or> blank (rn_reason r) \<or>
               16 * 1024 < length (rn_reason r) \<or> rn_authorization r \<noteq> ''not_granted'' \<or>
               rn_privacy r \<noteq> ''local_only'' \<or> \<not> validKind (rn_kind r) \<or>
               \<not> validScope_promotion (rn_scope r)) RevisionEnvelope,
      fail_if (\<not> clean en (rn_reason r) \<or> \<not> clean en (rn_approver_id r) \<or> \<not> clean en (sp_value (rn_scope r))) RevisionMetadata,
      (if rn_action r \<in> set [ActionPromote, ActionSupersede] then check_active en r
       else if rn_action r = ActionRevoke then
         fail_if (rn_status r \<noteq> StatusRevoked \<or> rn_text r \<noteq> [] \<or> rn_text_sha256 r \<noteq> [] \<or>
                  rn_source r \<noteq> None \<or> rn_scan r \<noteq> None) RevokedContent
       else Some PromotionActionInvalid)]"

definition validateEvent_promotion :: "scan_engine \<Rightarrow> promotion_event \<Rightarrow> promotion_error option" where
  "validateEvent_promotion en e = first_error
     [fail_if (pe_schema_version e \<noteq> PromotionEventSchemaVersion \<or> \<not> hasPrefix (pe_event_id e) ''promotion-'' \<or>
               isZeroTime (pe_recorded_at e) \<or> blank (pe_device_id e) \<or> \<not> ValidApproverKind (pa_kind (pe_approver e)) \<or>
               blank (pa_id (pe_approver e)) \<or> pa_id (pe_approver e) \<noteq> trimSpace (pa_id (pe_approver e)) \<or>
               256 < length (pa_id (pe_approver e)) \<or> \<not> validSHA256 (pe_request_sha256 e) \<or>
               pe_privacy e \<noteq> ''local_only'') PromotionEventEnvelope,
      fail_if (rn_recorded_at (pe_revision e) \<noteq> pe_recorded_at e \<or> rn_device_id (pe_revision e) \<noteq> pe_device_id e \<or>
               rn_approver_id (pe_revision e) \<noteq> pa_id (pe_approver e)) PromotionAttribution,
      validateRevisionSyntax en (pe_revision e)]"

datatype promotion_request_error = PromotionRequestEnvelope | PromotionRequestMetadata | InitialFields
  | SupersedeFields | RevokeFields | PromotionRequestAction | CandidateReferenceInvalid

definition validateRequest_promotion :: "scan_engine \<Rightarrow> promotion_request \<Rightarrow> promotion_request_error option" where
  "validateRequest_promotion en r = first_error
     [fail_if (pq_schema_version r \<noteq> PromotionRequestSchemaVersion \<or> \<not> ValidApproverKind (pa_kind (pq_approver r)) \<or>
               blank (pa_id (pq_approver r)) \<or> pa_id (pq_approver r) \<noteq> trimSpace (pa_id (pq_approver r)) \<or>
               256 < length (pa_id (pq_approver r)) \<or> blank (pq_reason r) \<or> pq_reason r \<noteq> trimSpace (pq_reason r) \<or>
               16 * 1024 < length (pq_reason r)) PromotionRequestEnvelope,
      fail_if (\<not> clean en (pa_id (pq_approver r)) \<or> \<not> clean en (pq_reason r)) PromotionRequestMetadata,
      (if pq_action r = ActionPromote then
         fail_if (pq_memory_id r \<noteq> [] \<or> pq_expected_revision r \<noteq> [] \<or> pq_candidate r = None \<or>
                  \<not> validSHA256 (pq_expected_text r)) InitialFields
       else if pq_action r = ActionSupersede then
         fail_if (\<not> validPrefixedHash (pq_memory_id r) ''memory-'' \<or>
                  \<not> validPrefixedHash (pq_expected_revision r) ''memory-revision-'' \<or> pq_candidate r = None \<or>
                  \<not> validSHA256 (pq_expected_text r)) SupersedeFields
       else if pq_action r = ActionRevoke then
         fail_if (\<not> validPrefixedHash (pq_memory_id r) ''memory-'' \<or>
                  \<not> validPrefixedHash (pq_expected_revision r) ''memory-revision-'' \<or> pq_candidate r \<noteq> None \<or>
                  pq_redactions r \<noteq> [] \<or> pq_expected_text r \<noteq> []) RevokeFields
       else Some PromotionRequestAction),
      (case pq_candidate r of
         None \<Rightarrow> None
       | Some c \<Rightarrow> fail_if (blank (cr_generation c) \<or> filepathBase (cr_generation c) \<noteq> cr_generation c \<or>
                    \<not> validPrefixedHash (cr_candidate_id c) ''candidate-'' \<or> \<not> validSHA256 (cr_content_sha256 c) \<or>
                    \<not> validSHA256 (cr_review_record c)) CandidateReferenceInvalid)]"

definition hashRequest_promotion :: "promotion_request \<Rightarrow> string option" where
  "hashRequest_promotion r = map_option sha256_hex (marshal (promotion_request_json r))"

end
