(* ===== verification/Promotion.thy ===== *)
theory Promotion
  imports Promotion_Types Sequenced_Log "HOL-Library.AList"
begin

text \<open>
  The memory promotion ledger (\<open>internal/promotion/ledger.go\<close> and \<open>apply.go\<close>): the replay with its
  lifecycle checks, the semantic replay against the review ledger and the scanner, and the operations
  \<open>Apply\<close>, \<open>GetStatus\<close>, \<open>GetRevision\<close>, \<open>ListHistories\<close>, \<open>RevisionWasCurrentAt\<close> and \<open>ScanCandidate\<close>.
  A map that Go ranges over is an association list here. The arguments that stand for code outside the
  repository's own files are one record (\<open>promotion_env\<close>).
\<close>

section \<open>State\<close>

record promotion_store = review_store +
  pst_file :: os_file
  pst_lock :: bool

record promotion_env =
  pv_candidates :: candidate_env
  pv_decode_evidence :: "string \<Rightarrow> ledger_record option"
  pv_decode_review :: "string \<Rightarrow> review_record option"
  pv_decode_promotion :: "string \<Rightarrow> promotion_record option"
  pv_audits :: "generation_audit list option"
  pv_engine :: scan_engine
  pv_filesystem :: filesystem

record promotion_state =
  ps_current :: "(string \<times> revision) list"
  ps_counts :: "string \<Rightarrow> nat"
  ps_revisions :: "string list"
  ps_history :: "promotion_record list"
  ps_last_hash :: string
  ps_next :: int
  ps_records :: int

definition initial_promotion_state :: promotion_state where
  "initial_promotion_state = \<lparr>ps_current = [], ps_counts = (\<lambda>_. 0), ps_revisions = [], ps_history = [],
     ps_last_hash = [], ps_next = 1, ps_records = 0\<rparr>"

section \<open>Records\<close>

definition makeRecord_promotion :: "promotion_event \<Rightarrow> int \<Rightarrow> string \<Rightarrow> promotion_record option" where
  "makeRecord_promotion e n previous =
     map_option (\<lambda>x. \<lparr>pr_schema_version = PromotionRecordSchemaVersion, pr_sequence = n, pr_event = e,
                     pr_previous = previous, pr_hash = sha256_hex x\<rparr>)
       (event_envelope PromotionRecordSchemaVersion n (promotion_event_json e) previous)"

definition validateRecord_promotion ::
  "scan_engine \<Rightarrow> promotion_record \<Rightarrow> int \<Rightarrow> string \<Rightarrow> promotion_error option" where
  "validateRecord_promotion en r expected previous = first_error
     [fail_if (pr_schema_version r \<noteq> PromotionRecordSchemaVersion \<or> pr_sequence r \<noteq> expected \<or>
               pr_previous r \<noteq> previous \<or> \<not> validSHA256 (pr_hash r)) PromotionEnvelope,
      validateEvent_promotion en (pr_event r),
      (case makeRecord_promotion (pr_event r) (pr_sequence r) previous of
         None \<Rightarrow> Some PromotionEncode
       | Some m \<Rightarrow> fail_if (pr_hash m \<noteq> pr_hash r) PromotionHashMismatch)]"

text \<open>What the replay asks of a revision in the state before it.\<close>

definition check_lifecycle :: "promotion_state \<Rightarrow> revision \<Rightarrow> promotion_error option" where
  "check_lifecycle st r =
     (if rn_revision_id r \<in> set (ps_revisions st) then Some RepeatedRevision
      else
        let current = map_of (ps_current st) (rn_memory_id r) in
        if rn_action r = ActionPromote then
          fail_if (current \<noteq> None \<or> rn_parent r \<noteq> [] \<or> rn_status r \<noteq> StatusActive) InitialPromotionInvalid
        else if rn_action r = ActionSupersede then
          (case current of
             None \<Rightarrow> Some StaleParent
           | Some c \<Rightarrow> fail_if (rn_status c \<noteq> StatusActive \<or> rn_parent r \<noteq> rn_revision_id c \<or>
                        rn_status r \<noteq> StatusActive) StaleParent)
        else if rn_action r = ActionRevoke then
          (case current of
             None \<Rightarrow> Some RevocationInvalid
           | Some c \<Rightarrow> fail_if (rn_status c \<noteq> StatusActive \<or> rn_parent r \<noteq> rn_revision_id c \<or>
                        rn_status r \<noteq> StatusRevoked \<or> rn_kind r \<noteq> rn_kind c \<or> rn_scope r \<noteq> rn_scope c \<or>
                        rn_rule_change r \<noteq> rn_rule_change c) RevocationInvalid)
        else Some ActionUnsupported)"

definition replay_step_promotion ::
  "scan_engine \<Rightarrow> promotion_record \<Rightarrow> promotion_state \<Rightarrow> promotion_error + promotion_state" where
  "replay_step_promotion en r st =
     (let v = pe_revision (pr_event r) in
      case first_error [validateRecord_promotion en r (ps_next st) (ps_last_hash st), check_lifecycle st v] of
        Some e \<Rightarrow> Inl e
      | None \<Rightarrow> Inr
          (st\<lparr>ps_current := AList.update (rn_memory_id v) v (ps_current st),
              ps_counts := (ps_counts st)(rn_memory_id v := ps_counts st (rn_memory_id v) + 1),
              ps_revisions := rn_revision_id v # ps_revisions st,
              ps_history := ps_history st @ [r], ps_records := ps_records st + 1,
              ps_last_hash := pr_hash r, ps_next := ps_next st + 1\<rparr>))"

definition replay_promotion ::
  "promotion_env \<Rightarrow> os_file \<Rightarrow> promotion_state \<times> promotion_error log_error option" where
  "replay_promotion pv f =
     replay_log (pv_decode_promotion pv) (replay_step_promotion (pv_engine pv)) f initial_promotion_state"

section \<open>The semantic replay\<close>

datatype reconstruct_error = SourceMissing | ReconstructAction | ReconstructRequest promotion_request_error

definition requestFromRevision :: "scan_engine \<Rightarrow> promotion_event \<Rightarrow> reconstruct_error + promotion_request" where
  "requestFromRevision en e =
     (let v = pe_revision e;
          base = \<lparr>pq_schema_version = PromotionRequestSchemaVersion, pq_approver = pe_approver e,
                  pq_action = rn_action v, pq_memory_id = [], pq_expected_revision = [], pq_candidate = None,
                  pq_redactions = [], pq_expected_text = [], pq_reason = rn_reason v\<rparr>;
          request =
            (if rn_action v \<in> set [ActionPromote, ActionSupersede] then
               (case (rn_source v, rn_scan v) of
                  (Some source, Some scan) \<Rightarrow>
                    (let active = base\<lparr>
                       pq_candidate := Some \<lparr>cr_generation = so_generation source, cr_candidate_id = so_candidate_id source,
                         cr_content_sha256 = so_content_sha256 source, cr_review_record = so_review_record source\<rparr>,
                       pq_redactions := slice_list (sa_redactions scan),
                       pq_expected_text := rn_text_sha256 v\<rparr>
                     in Inr (if rn_action v = ActionSupersede
                             then active\<lparr>pq_memory_id := rn_memory_id v, pq_expected_revision := rn_parent v\<rparr>
                             else active))
                | _ \<Rightarrow> Inl SourceMissing)
             else if rn_action v = ActionRevoke then
               Inr (base\<lparr>pq_memory_id := rn_memory_id v, pq_expected_revision := rn_parent v\<rparr>)
             else Inl ReconstructAction)
      in case request of
        Inl x \<Rightarrow> Inl x
      | Inr q \<Rightarrow> (case validateRequest_promotion en q of Some x \<Rightarrow> Inl (ReconstructRequest x) | None \<Rightarrow> Inr q))"

datatype promotion_failure =
    PromotionReplay "promotion_error log_error"
  | RequestUnreconstructed int reconstruct_error
  | PromotionRequestEncode
  | PromotionRequestHash int
  | ValidationProof int lookup_error
  | SourceDiffers int
  | PredatesValidation int
  | RedactionFailed int redaction_error
  | ScanNotReproducible int
  | MemoryIdDiffers int
  | DuplicateMemory int
  | SemanticIdentityChanged int
  | RevisionEncode
  | RevisionIdDiffers int

definition compareVerifiedSource :: "int \<Rightarrow> revision \<Rightarrow> candidate \<times> validation_proof \<Rightarrow> promotion_failure option" where
  "compareVerifiedSource n v verified =
     (case verified of (c, proof) \<Rightarrow>
        (case rn_source v of
           None \<Rightarrow> Some (SourceDiffers n)
         | Some s \<Rightarrow> first_error
             [fail_if (so_generation s \<noteq> vp_generation proof \<or> so_candidates_sha256 s \<noteq> vp_candidates_sha256 proof \<or>
                       so_candidate_id s \<noteq> vp_candidate_id proof \<or> so_content_sha256 s \<noteq> vp_content_sha256 proof \<or>
                       so_semantic_key s \<noteq> cd_semantic_key_sha256 c \<or> so_review_event s \<noteq> vp_event_id proof \<or>
                       so_review_record s \<noteq> vp_record_sha256 proof \<or> so_review_scope s \<noteq> vp_scope proof \<or>
                       so_review_basis s \<noteq> vp_basis proof \<or> rn_kind v \<noteq> cd_kind c \<or> rn_scope v \<noteq> vp_scope proof \<or>
                       rn_rule_change v \<noteq> cd_requires_approval c) (SourceDiffers n),
              fail_if (rn_recorded_at v < vp_reviewed_at proof) (PredatesValidation n)]))"

text \<open>A memory of the same scope and meaning.\<close>

definition same_memory :: "review_scope \<Rightarrow> string \<Rightarrow> revision \<Rightarrow> bool" where
  "same_memory scope key existing \<longleftrightarrow>
     (case rn_source existing of None \<Rightarrow> False | Some s \<Rightarrow> rn_scope existing = scope \<and> so_semantic_key s = key)"

definition verify_active ::
  "promotion_env \<Rightarrow> 'a promotion_store_scheme \<Rightarrow> (string \<times> revision) list \<Rightarrow> int \<Rightarrow> revision
    \<Rightarrow> memory_source \<Rightarrow> scan_attestation \<Rightarrow> promotion_failure option" where
  "verify_active pv s current n v source scan =
     (case VerifyValidationRecord (pv_candidates pv) (pv_decode_evidence pv) (pv_decode_review pv) s (so_generation source)
             (so_candidate_id source) (so_content_sha256 source) (so_review_record source) of
        Inl e \<Rightarrow> Some (ValidationProof n e)
      | Inr verified \<Rightarrow>
     (case compareVerifiedSource n v verified of
        Some e \<Rightarrow> Some e
      | None \<Rightarrow>
     (let text = cd_text (fst verified); report = Scan (pv_engine pv) text in
      case ApplyRedactions (pv_engine pv) text report (slice_list (sa_redactions scan)) of
        Inl e \<Rightarrow> Some (RedactionFailed n e)
      | Inr redacted \<Rightarrow> first_error
          [fail_if (redacted \<noteq> rn_text v \<or> sr_content_sha256 report \<noteq> sa_source_text scan \<or>
                    Some (findingIDs report) \<noteq> sa_finding_ids scan) (ScanNotReproducible n),
           fail_if (rn_action v = ActionPromote \<and> expectedMemoryID (rn_text_sha256 v) (rn_scope v) \<noteq> rn_memory_id v)
             (MemoryIdDiffers n),
           fail_if (rn_action v = ActionPromote \<and>
                    list_ex (same_memory (rn_scope v) (so_semantic_key source)) (map snd current)) (DuplicateMemory n),
           fail_if (rn_action v = ActionSupersede \<and>
                    (case map_of current (rn_memory_id v) of
                       None \<Rightarrow> True
                     | Some c \<Rightarrow> (case rn_source c of None \<Rightarrow> True | Some o' \<Rightarrow> so_semantic_key o' \<noteq> so_semantic_key source)))
             (SemanticIdentityChanged n)])))"

definition verify_promotion_record ::
  "promotion_env \<Rightarrow> 'a promotion_store_scheme \<Rightarrow> promotion_record \<Rightarrow> (string \<times> revision) list
    \<Rightarrow> promotion_failure + (string \<times> revision) list" where
  "verify_promotion_record pv s r current =
     (let v = pe_revision (pr_event r); n = pr_sequence r in
      case requestFromRevision (pv_engine pv) (pr_event r) of
        Inl x \<Rightarrow> Inl (RequestUnreconstructed n x)
      | Inr request \<Rightarrow>
          (case first_error
             [(case hashRequest_promotion request of
                 None \<Rightarrow> Some PromotionRequestEncode
               | Some d \<Rightarrow> fail_if (d \<noteq> pe_request_sha256 (pr_event r)) (PromotionRequestHash n)),
              (if rn_action v \<in> set [ActionPromote, ActionSupersede] then
                 (case (rn_source v, rn_scan v) of
                    (Some source, Some scan) \<Rightarrow> verify_active pv s current n v source scan
                  | _ \<Rightarrow> Some (SourceDiffers n))
               else None),
              (case revisionID v of
                 None \<Rightarrow> Some RevisionEncode
               | Some i \<Rightarrow> fail_if (i \<noteq> rn_revision_id v) (RevisionIdDiffers n))] of
             Some x \<Rightarrow> Inl x
           | None \<Rightarrow> Inr (AList.update (rn_memory_id v) v current)))"

definition verifyPromotionSemantics ::
  "promotion_env \<Rightarrow> 'a promotion_store_scheme \<Rightarrow> promotion_record list \<Rightarrow> promotion_failure option" where
  "verifyPromotionSemantics pv s records =
     (case semantic_steps (verify_promotion_record pv s) records [] of Inl e \<Rightarrow> Some e | Inr _ \<Rightarrow> None)"

definition replayVerified_promotion ::
  "promotion_env \<Rightarrow> 'a promotion_store_scheme \<Rightarrow> promotion_state \<times> promotion_failure option" where
  "replayVerified_promotion pv s =
     (case replay_promotion pv (pst_file s) of
        (st, Some e) \<Rightarrow> (st, Some (PromotionReplay e))
      | (st, None) \<Rightarrow> (st, verifyPromotionSemantics pv s (ps_history st)))"

text \<open>The current validation that a memory is bound to.\<close>

definition resolve_source ::
  "promotion_env \<Rightarrow> 'a promotion_store_scheme \<Rightarrow> memory_source \<Rightarrow> lookup_error + candidate \<times> validation_proof" where
  "resolve_source pv s source =
     ResolveCurrentValidation (pv_candidates pv) (pv_decode_evidence pv) (pv_decode_review pv) s (so_generation source)
       (so_candidate_id source) (so_content_sha256 source) (so_review_record source)"

datatype promotion_issue = NotVerified promotion_failure | NotCurrent string lookup_error

record promotion_report =
  po_records :: int
  po_memories :: int
  po_last :: string
  po_issues :: "promotion_issue list"

definition stale_validation ::
  "promotion_env \<Rightarrow> 'a promotion_store_scheme \<Rightarrow> string \<times> revision \<Rightarrow> promotion_issue option" where
  "stale_validation pv s = (\<lambda>(i, v).
     case rn_source v of
       None \<Rightarrow> None
     | Some source \<Rightarrow>
         if rn_status v \<noteq> StatusActive then None
         else (case resolve_source pv s source of Inl e \<Rightarrow> Some (NotCurrent i e) | Inr _ \<Rightarrow> None))"

definition Verify_promotion :: "promotion_env \<Rightarrow> 'a promotion_store_scheme \<Rightarrow> promotion_report" where
  "Verify_promotion pv s =
     (case replayVerified_promotion pv s of (st, e) \<Rightarrow>
        \<lparr>po_records = ps_records st, po_memories = int (length (ps_current st)), po_last = ps_last_hash st,
         po_issues = (case e of Some x \<Rightarrow> [NotVerified x]
                      | None \<Rightarrow> List.map_filter (stale_validation pv s) (ps_current st))\<rparr>)"

section \<open>Applying a request\<close>

definition acquirePromotionLock ::
  "lock_fault option \<Rightarrow> 'a promotion_store_scheme \<Rightarrow> 'a promotion_store_scheme \<times> lock_error option" where
  "acquirePromotionLock fault s =
     (case acquire_lock fault (pst_lock s) of (held, e) \<Rightarrow> (s\<lparr>pst_lock := held\<rparr>, e))"

definition releasePromotionLock :: "bool \<Rightarrow> 'a promotion_store_scheme \<Rightarrow> 'a promotion_store_scheme" where
  "releasePromotionLock ok s = (if ok then s\<lparr>pst_lock := False\<rparr> else s)"

definition appendRecord_promotion ::
  "append_fault option \<Rightarrow> promotion_record \<Rightarrow> 'a promotion_store_scheme
    \<Rightarrow> 'a promotion_store_scheme \<times> append_fault option" where
  "appendRecord_promotion fault r s =
     (case append_bytes fault (encode_line (promotion_record_json r)) (pst_file s) of
        (f, e) \<Rightarrow> (s\<lparr>pst_file := f\<rparr>, e))"

datatype revision_error =
    NotActive
  | StaleRevision
  | RevisionGeneration generation_error
  | RevisionEvidence evidence_error
  | NotValidated lookup_error
  | RevisionRedaction redaction_error
  | TextMismatch
  | ParentIdentity
  | MemoryExists
  | SemanticMatchExists
  | NoSemanticMatch
  | RevisionActionInvalid
  | RevisionNotEncoded

definition with_revision_id :: "revision \<Rightarrow> revision_error + revision" where
  "with_revision_id v =
     (case revisionID v of None \<Rightarrow> Inl RevisionNotEncoded | Some i \<Rightarrow> Inr (v\<lparr>rn_revision_id := i\<rparr>))"

definition base_revision :: "string \<Rightarrow> promotion_request \<Rightarrow> gotime \<Rightarrow> revision" where
  "base_revision device request now =
     \<lparr>rn_schema_version = RevisionSchemaVersion, rn_memory_id = [], rn_revision_id = [], rn_parent = [],
      rn_action = pq_action request, rn_status = [], rn_kind = [], rn_text = [], rn_text_sha256 = [],
      rn_scope = \<lparr>sp_kind = [], sp_value = []\<rparr>, rn_source = None, rn_scan = None, rn_rule_change = False,
      rn_authorization = ''not_granted'', rn_recorded_at = now, rn_device_id = device,
      rn_approver_id = pa_id (pq_approver request), rn_reason = pq_reason request, rn_privacy = ''local_only''\<rparr>"

definition prepare_revocation ::
  "promotion_request \<Rightarrow> (string \<times> revision) list \<Rightarrow> revision \<Rightarrow> revision_error + revision" where
  "prepare_revocation request current base =
     (case map_of current (pq_memory_id request) of
        None \<Rightarrow> Inl NotActive
      | Some c \<Rightarrow>
          if rn_status c \<noteq> StatusActive then Inl NotActive
          else if rn_revision_id c \<noteq> pq_expected_revision request then Inl StaleRevision
          else with_revision_id (base\<lparr>rn_memory_id := rn_memory_id c, rn_parent := rn_revision_id c,
                 rn_status := StatusRevoked, rn_kind := rn_kind c, rn_scope := rn_scope c,
                 rn_rule_change := rn_rule_change c\<rparr>))"

text \<open>The identity that an active revision gets: its memory id and its parent.\<close>

definition memory_identity ::
  "promotion_request \<Rightarrow> (string \<times> revision) list \<Rightarrow> review_scope \<Rightarrow> string \<Rightarrow> string \<Rightarrow> revision_error + string \<times> string" where
  "memory_identity request current scope key redacted_sha =
     (if pq_action request = ActionPromote then
        (let i = expectedMemoryID redacted_sha scope in
         if pq_memory_id request \<noteq> [] \<or> pq_expected_revision request \<noteq> [] then Inl ParentIdentity
         else if map_of current i \<noteq> None then Inl MemoryExists
         else if list_ex (same_memory scope key) (map snd current) then Inl SemanticMatchExists
         else Inr (i, []))
      else if pq_action request = ActionSupersede then
        (case map_of current (pq_memory_id request) of
           None \<Rightarrow> Inl NoSemanticMatch
         | Some c \<Rightarrow>
             if rn_status c \<noteq> StatusActive \<or> \<not> same_memory scope key c then Inl NoSemanticMatch
             else if pq_expected_revision request \<noteq> rn_revision_id c then Inl StaleRevision
             else Inr (pq_memory_id request, rn_revision_id c))
      else Inl RevisionActionInvalid)"

definition prepare_active ::
  "promotion_env \<Rightarrow> 'a promotion_store_scheme \<Rightarrow> promotion_request \<Rightarrow> candidate_reference
    \<Rightarrow> (string \<times> revision) list \<Rightarrow> revision \<Rightarrow> revision_error + revision" where
  "prepare_active pv s request ref current base =
     (case OpenGeneration (pv_candidates pv) (cr_generation ref) of
        Inl e \<Rightarrow> Inl (RevisionGeneration e)
      | Inr g \<Rightarrow>
     (case RequireCurrentEvidence (pv_candidates pv) (Verify (pv_decode_evidence pv) s) (pv_audits pv) g of
        Some e \<Rightarrow> Inl (RevisionEvidence e)
      | None \<Rightarrow>
     (case ResolveCurrentValidation (pv_candidates pv) (pv_decode_evidence pv) (pv_decode_review pv) s (cr_generation ref)
             (cr_candidate_id ref) (cr_content_sha256 ref) (cr_review_record ref) of
        Inl e \<Rightarrow> Inl (NotValidated e)
      | Inr (c, proof) \<Rightarrow>
     (let report = Scan (pv_engine pv) (cd_text c) in
      case ApplyRedactions (pv_engine pv) (cd_text c) report (pq_redactions request) of
        Inl e \<Rightarrow> Inl (RevisionRedaction e)
      | Inr redacted \<Rightarrow>
          if pq_expected_text request \<noteq> textDigest redacted then Inl TextMismatch
          else (case memory_identity request current (vp_scope proof) (cd_semantic_key_sha256 c) (textDigest redacted) of
             Inl e \<Rightarrow> Inl e
           | Inr (memory, parent) \<Rightarrow> with_revision_id
               (base\<lparr>rn_memory_id := memory, rn_parent := parent, rn_status := StatusActive, rn_kind := cd_kind c,
                     rn_text := redacted, rn_text_sha256 := textDigest redacted, rn_scope := vp_scope proof,
                     rn_source := Some
                       \<lparr>so_generation = vp_generation proof, so_candidates_sha256 = vp_candidates_sha256 proof,
                        so_candidate_id = vp_candidate_id proof, so_content_sha256 = vp_content_sha256 proof,
                        so_semantic_key = cd_semantic_key_sha256 c, so_review_event = vp_event_id proof,
                        so_review_record = vp_record_sha256 proof, so_review_scope = vp_scope proof,
                        so_review_basis = vp_basis proof\<rparr>,
                     rn_scan := Some
                       \<lparr>sa_scanner_version = ScannerVersion, sa_source_text = sr_content_sha256 report,
                        sa_finding_ids = Some (findingIDs report),
                        sa_redactions = (if pq_redactions request = [] then None else Some (pq_redactions request)),
                        sa_redacted_text = textDigest redacted\<rparr>,
                     rn_rule_change := cd_requires_approval c\<rparr>))))))"

text \<open>\<open>validateRequest\<close> guarantees the candidate of a request that does not revoke.\<close>

definition prepareRevision ::
  "promotion_env \<Rightarrow> 'a promotion_store_scheme \<Rightarrow> promotion_request \<Rightarrow> promotion_state \<Rightarrow> gotime
    \<Rightarrow> revision_error + revision" where
  "prepareRevision pv s request st now =
     (let base = base_revision (st_device_id s) request now in
      if pq_action request = ActionRevoke then prepare_revocation request (ps_current st) base
      else case pq_candidate request of
        None \<Rightarrow> Inl RevisionActionInvalid
      | Some ref \<Rightarrow> prepare_active pv s request ref (ps_current st) base)"

record promotion_faults =
  pf_lock :: "lock_fault option"
  pf_guard :: open_faults
  pf_random :: bool
  pf_append :: "append_fault option"
  pf_close_ok :: bool
  pf_guard_release_ok :: bool
  pf_release_ok :: bool
  pf_release_again_ok :: bool

definition no_promotion_faults :: promotion_faults where
  "no_promotion_faults = \<lparr>pf_lock = None, pf_guard = no_open_faults, pf_random = False, pf_append = None,
     pf_close_ok = True, pf_guard_release_ok = True, pf_release_ok = True, pf_release_again_ok = True\<rparr>"

datatype promote_error =
    PromoteRequest promotion_request_error
  | PromoteLock lock_error
  | PromoteGuard "unit visit_open_error"
  | PromoteReplay promotion_failure
  | PromoteRandom
  | PromoteRevision revision_error
  | PromoteEncode
  | PromoteEvent promotion_error
  | PromoteAppend append_fault
  | PromoteGuardClose close_error
  | PromoteRelease

record promote_result =
  pm_event_id :: string
  pm_sequence :: int
  pm_hash :: string
  pm_revision :: revision

text \<open>The record that \<open>Apply\<close> builds under its two locks.\<close>

definition promotion_record_for ::
  "promotion_env \<Rightarrow> bool \<Rightarrow> gotime \<Rightarrow> string \<Rightarrow> promotion_request \<Rightarrow> 'a promotion_store_scheme
    \<Rightarrow> promote_error + promotion_record" where
  "promotion_record_for pv random_fails now random request s =
     (case replayVerified_promotion pv s of
        (st, Some e) \<Rightarrow> Inl (PromoteReplay e)
      | (st, None) \<Rightarrow>
          if random_fails then Inl PromoteRandom
          else (case prepareRevision pv s request st now of
             Inl e \<Rightarrow> Inl (PromoteRevision e)
           | Inr v \<Rightarrow>
               (case hashRequest_promotion request of
                  None \<Rightarrow> Inl PromoteEncode
                | Some d \<Rightarrow>
                    (let e = \<lparr>pe_schema_version = PromotionEventSchemaVersion,
                              pe_event_id = ''promotion-'' @ NewEventID now random, pe_recorded_at = now,
                              pe_device_id = st_device_id s, pe_approver = pq_approver request,
                              pe_request_sha256 = d, pe_revision = v, pe_privacy = ''local_only''\<rparr> in
                     case validateEvent_promotion (pv_engine pv) e of
                       Some x \<Rightarrow> Inl (PromoteEvent x)
                     | None \<Rightarrow>
                         (case makeRecord_promotion e (ps_next st) (ps_last_hash st) of
                            None \<Rightarrow> Inl PromoteEncode
                          | Some r \<Rightarrow> Inr r)))))"

definition nil_visitor :: "ledger_record \<Rightarrow> unit \<Rightarrow> unit + unit" where
  "nil_visitor r v = Inr v"

text \<open>The deferred clean-up of a request that failed under both locks.\<close>

definition abandon_promotion ::
  "promotion_faults \<Rightarrow> appender \<Rightarrow> 'a promotion_store_scheme \<Rightarrow> 'a promotion_store_scheme" where
  "abandon_promotion faults a s =
     releasePromotionLock (pf_release_ok faults)
       (fst (CloseAppender (pf_close_ok faults) (pf_guard_release_ok faults) a s))"

definition Apply_promotion ::
  "promotion_env \<Rightarrow> promotion_faults \<Rightarrow> gotime \<Rightarrow> string \<Rightarrow> promotion_request \<Rightarrow> 'a promotion_store_scheme
    \<Rightarrow> 'a promotion_store_scheme \<times> (promote_error + promote_result)" where
  "Apply_promotion pv faults now random request s =
     (case validateRequest_promotion (pv_engine pv) request of
        Some e \<Rightarrow> (s, Inl (PromoteRequest e))
      | None \<Rightarrow>
     (case acquirePromotionLock (pf_lock faults) s of
        (s1, Some e) \<Rightarrow> (s1, Inl (PromoteLock e))
      | (s1, None) \<Rightarrow>
     (case NewAppenderAfterVisit (pv_decode_evidence pv) (pv_filesystem pv) (pf_guard faults) nil_visitor () s1 of
        (s2, _, Inl e) \<Rightarrow> (releasePromotionLock (pf_release_ok faults) s2, Inl (PromoteGuard e))
      | (s2, _, Inr a) \<Rightarrow>
     (case promotion_record_for pv (pf_random faults) now random request s2 of
        Inl e \<Rightarrow> (abandon_promotion faults a s2, Inl e)
      | Inr r \<Rightarrow>
     (case appendRecord_promotion (pf_append faults) r s2 of
        (s3, Some e) \<Rightarrow> (abandon_promotion faults a s3, Inl (PromoteAppend e))
      | (s3, None) \<Rightarrow>
     (case CloseAppender (pf_close_ok faults) (pf_guard_release_ok faults) a s3 of
        (s4, _, Some e) \<Rightarrow> (releasePromotionLock (pf_release_ok faults) s4, Inl (PromoteGuardClose e))
      | (s4, _, None) \<Rightarrow>
          if pf_release_ok faults then
            (releasePromotionLock True s4, Inr \<lparr>pm_event_id = pe_event_id (pr_event r), pm_sequence = pr_sequence r,
               pm_hash = pr_hash r, pm_revision = pe_revision (pr_event r)\<rparr>)
          else (releasePromotionLock (pf_release_again_ok faults) s4, Inl PromoteRelease)))))))"

section \<open>Lookups\<close>

datatype memory_lookup_error =
    MemoryIdInvalid
  | MemoryReplay promotion_failure
  | MemoryNotFound
  | RevisionNotFound
  | ObservationTimeRequired

record memory_status =
  ms_memory_id :: string
  ms_revision_id :: string
  ms_status :: string
  ms_revisions :: nat
  ms_review_current :: bool
  ms_export_eligible :: bool
  ms_revision :: revision

definition source_current :: "promotion_env \<Rightarrow> 'a promotion_store_scheme \<Rightarrow> revision \<Rightarrow> bool" where
  "source_current pv s v \<longleftrightarrow> rn_status v = StatusActive \<and>
     (case rn_source v of
        None \<Rightarrow> False
      | Some source \<Rightarrow> (case resolve_source pv s source of Inl _ \<Rightarrow> False | Inr _ \<Rightarrow> True))"

definition GetStatus_promotion ::
  "promotion_env \<Rightarrow> 'a promotion_store_scheme \<Rightarrow> string \<Rightarrow> memory_lookup_error + memory_status" where
  "GetStatus_promotion pv s memory =
     (if \<not> validPrefixedHash memory ''memory-'' then Inl MemoryIdInvalid
      else case replayVerified_promotion pv s of
        (st, Some e) \<Rightarrow> Inl (MemoryReplay e)
      | (st, None) \<Rightarrow>
          (case map_of (ps_current st) memory of
             None \<Rightarrow> Inl MemoryNotFound
           | Some v \<Rightarrow> Inr
               \<lparr>ms_memory_id = memory, ms_revision_id = rn_revision_id v, ms_status = rn_status v,
                ms_revisions = ps_counts st memory, ms_review_current = source_current pv s v,
                ms_export_eligible = (rn_status v = StatusActive \<and> source_current pv s v), ms_revision = v\<rparr>))"

definition GetRevision ::
  "promotion_env \<Rightarrow> 'a promotion_store_scheme \<Rightarrow> string \<Rightarrow> string \<Rightarrow> memory_lookup_error + revision" where
  "GetRevision pv s memory i =
     (if \<not> validPrefixedHash memory ''memory-'' \<or> \<not> validPrefixedHash i ''memory-revision-'' then Inl MemoryIdInvalid
      else case replayVerified_promotion pv s of
        (st, Some e) \<Rightarrow> Inl (MemoryReplay e)
      | (st, None) \<Rightarrow>
          (case List.find (\<lambda>v. rn_memory_id v = memory \<and> rn_revision_id v = i)
                  (map (pe_revision \<circ> pr_event) (ps_history st)) of
             None \<Rightarrow> Inl RevisionNotFound
           | Some v \<Rightarrow> Inr v))"

definition memory_revisions :: "string \<Rightarrow> promotion_record list \<Rightarrow> revision list" where
  "memory_revisions memory rs = filter (\<lambda>v. rn_memory_id v = memory) (map (pe_revision \<circ> pr_event) rs)"

definition ListHistories ::
  "promotion_env \<Rightarrow> 'a promotion_store_scheme \<Rightarrow> memory_lookup_error + (string \<times> revision list) list" where
  "ListHistories pv s =
     (case replayVerified_promotion pv s of
        (st, Some e) \<Rightarrow> Inl (MemoryReplay e)
      | (st, None) \<Rightarrow> Inr
          (map (\<lambda>m. (m, memory_revisions m (ps_history st)))
             (sort (remdups (map (rn_memory_id \<circ> pe_revision \<circ> pr_event) (ps_history st))))))"

text \<open>
  The scan of the history for one memory: the target revision and the time of the memory's next revision.
\<close>

fun target_window :: "string \<Rightarrow> revision list \<Rightarrow> (revision \<times> gotime option) option" where
  "target_window i [] = None"
| "target_window i (v # vs) =
     (if rn_revision_id v = i then Some (v, map_option rn_recorded_at (case vs of [] \<Rightarrow> None | w # _ \<Rightarrow> Some w))
      else target_window i vs)"

definition RevisionWasCurrentAt ::
  "promotion_env \<Rightarrow> 'a promotion_store_scheme \<Rightarrow> string \<Rightarrow> string \<Rightarrow> gotime \<Rightarrow> memory_lookup_error + bool" where
  "RevisionWasCurrentAt pv s memory i moment =
     (if isZeroTime moment then Inl ObservationTimeRequired
      else if \<not> validPrefixedHash memory ''memory-'' \<or> \<not> validPrefixedHash i ''memory-revision-'' then Inl MemoryIdInvalid
      else case replayVerified_promotion pv s of
        (st, Some e) \<Rightarrow> Inl (MemoryReplay e)
      | (st, None) \<Rightarrow>
          (case target_window i (memory_revisions memory (ps_history st)) of
             None \<Rightarrow> Inl RevisionNotFound
           | Some (v, ended) \<Rightarrow> Inr
               (if rn_status v \<noteq> StatusActive \<or> moment < rn_recorded_at v then False
                else case ended of None \<Rightarrow> True | Some t \<Rightarrow> moment < t)))"

record candidate_scan =
  cn_generation :: string
  cn_candidate_id :: string
  cn_content_sha256 :: string
  cn_rule_change :: bool
  cn_report :: scan_report

definition ScanCandidate :: "promotion_env \<Rightarrow> string \<Rightarrow> string \<Rightarrow> generation_error + candidate_scan" where
  "ScanCandidate pv path cid =
     (case OpenGeneration (pv_candidates pv) path of
        Inl e \<Rightarrow> Inl e
      | Inr g \<Rightarrow>
          (case Select (pv_candidates pv) g [cid] of
             Inl e \<Rightarrow> Inl e
           | Inr sel \<Rightarrow>
               (let c = the (sl_candidates sel cid) in Inr
                 \<lparr>cn_generation = gn_name g, cn_candidate_id = cd_candidate_id c,
                  cn_content_sha256 = cd_content_sha256 c, cn_rule_change = cd_requires_approval c,
                  cn_report = Scan (pv_engine pv) (cd_text c)\<rparr>)))"

end
