(* ===== verification/Promotion_Props.thy ===== *)
theory Promotion_Props
  imports Promotion Review_Lookup
begin

text \<open>
  Lemmas on the memory promotion ledger: its hash chain, the lifecycle of a memory along the history, the
  semantic replay record by record, and what the checks read.
\<close>

section \<open>Records\<close>

lemma validateRecord_promotion_None:
  assumes "validateRecord_promotion en r n p = None"
  shows "validateEvent_promotion en (pr_event r) = None" "pr_sequence r = n" "pr_previous r = p"
    "\<exists>x. event_envelope PromotionRecordSchemaVersion n (promotion_event_json (pr_event r)) p = Some x \<and> pr_hash r = sha256_hex x"
  using assms by (auto simp: validateRecord_promotion_def makeRecord_promotion_def split: option.splits)

lemma makeRecord_promotion_fields:
  assumes "makeRecord_promotion e n p = Some r"
  shows "pr_schema_version r = PromotionRecordSchemaVersion" "pr_sequence r = n" "pr_previous r = p"
    "validSHA256 (pr_hash r)" "pr_event r = e"
  using assms by (auto simp: makeRecord_promotion_def)

abbreviation record_revision :: "promotion_record \<Rightarrow> revision" where
  "record_revision r \<equiv> pe_revision (pr_event r)"

lemma replay_step_promotion_Inr:
  "replay_step_promotion en r st = Inr st' \<longleftrightarrow>
     validateRecord_promotion en r (ps_next st) (ps_last_hash st) = None \<and> check_lifecycle st (record_revision r) = None \<and>
     st' = st\<lparr>ps_current := AList.update (rn_memory_id (record_revision r)) (record_revision r) (ps_current st),
              ps_counts := (ps_counts st)(rn_memory_id (record_revision r) :=
                ps_counts st (rn_memory_id (record_revision r)) + 1),
              ps_revisions := rn_revision_id (record_revision r) # ps_revisions st,
              ps_history := ps_history st @ [r], ps_records := ps_records st + 1,
              ps_last_hash := pr_hash r, ps_next := ps_next st + 1\<rparr>"
proof -
  have "first_error [validateRecord_promotion en r (ps_next st) (ps_last_hash st), check_lifecycle st (record_revision r)] = None
      \<longleftrightarrow> validateRecord_promotion en r (ps_next st) (ps_last_hash st) = None \<and> check_lifecycle st (record_revision r) = None"
    by simp
  then show ?thesis
    by (cases "first_error [validateRecord_promotion en r (ps_next st) (ps_last_hash st), check_lifecycle st (record_revision r)]")
      (auto simp: replay_step_promotion_def Let_def)
qed

lemma initial_promotion_simps [simp]:
  "ps_next initial_promotion_state = 1" "ps_last_hash initial_promotion_state = []" "ps_history initial_promotion_state = []"
  "ps_current initial_promotion_state = []" "ps_revisions initial_promotion_state = []"
  "ps_counts initial_promotion_state = (\<lambda>_. 0)" "ps_records initial_promotion_state = 0"
  by (simp_all add: initial_promotion_state_def)

interpretation promotion: sequenced_log PromotionRecordSchemaVersion promotion_event_json pr_event pr_hash
  "replay_step_promotion en" initial_promotion_state ps_next ps_last_hash ps_history
  for en :: scan_engine
proof
  fix r st st' assume s: "replay_step_promotion en r st = Inr st'"
  then have "validateRecord_promotion en r (ps_next st) (ps_last_hash st) = None" by (simp add: replay_step_promotion_Inr)
  from validateRecord_promotion_None(4) [OF this]
  show "\<exists>x. event_envelope PromotionRecordSchemaVersion (ps_next st) (promotion_event_json (pr_event r)) (ps_last_hash st) = Some x \<and>
      pr_hash r = sha256_hex x" .
  show "ps_next st' = ps_next st + 1 \<and> ps_last_hash st' = pr_hash r \<and> ps_history st' = ps_history st @ [r]"
    using s by (simp add: replay_step_promotion_Inr)
qed simp_all

section \<open>The lifecycle of a memory\<close>

text \<open>The current revisions after a history.\<close>

definition set_current :: "promotion_record \<Rightarrow> (string \<times> revision) list \<Rightarrow> (string \<times> revision) list" where
  "set_current r = AList.update (rn_memory_id (record_revision r)) (record_revision r)"

definition current_of :: "promotion_record list \<Rightarrow> (string \<times> revision) list" where
  "current_of rs = fold set_current rs []"

lemma current_of_simps [simp]: "current_of [] = []" "current_of (rs @ [r]) = set_current r (current_of rs)"
  by (simp_all add: current_of_def)

lemma memory_revisions_simps [simp]:
  "memory_revisions m [] = []"
  "memory_revisions m (rs @ [r]) =
     (if rn_memory_id (record_revision r) = m then memory_revisions m rs @ [record_revision r] else memory_revisions m rs)"
  by (simp_all add: memory_revisions_def)

lemma current_of_last:
  "map_of (current_of rs) m = (if memory_revisions m rs = [] then None else Some (last (memory_revisions m rs)))"
  by (induction rs rule: rev_induct) (auto simp: set_current_def update_conv')

lemma current_of_distinct: "distinct (map fst (current_of rs))"
  by (induction rs rule: rev_induct) (auto simp: set_current_def distinct_update)

text \<open>
  The revisions of one memory: a promotion without a parent, supersessions whose parent is the revision before,
  and possibly a revocation at the end.
\<close>

fun lifecycle :: "revision list \<Rightarrow> bool" where
  "lifecycle [] \<longleftrightarrow> True"
| "lifecycle [v] \<longleftrightarrow> rn_action v = ActionPromote \<and> rn_parent v = [] \<and> rn_status v = StatusActive"
| "lifecycle vs \<longleftrightarrow>
     (let v = last vs; u = last (butlast vs) in
      lifecycle (butlast vs) \<and> rn_status u = StatusActive \<and> rn_parent v = rn_revision_id u \<and>
      (rn_action v = ActionSupersede \<and> rn_status v = StatusActive \<or>
       rn_action v = ActionRevoke \<and> rn_status v = StatusRevoked \<and> rn_scope v = rn_scope u))"

lemma lifecycle_snoc:
  "vs \<noteq> [] \<Longrightarrow> lifecycle (vs @ [v]) \<longleftrightarrow>
     lifecycle vs \<and> rn_status (last vs) = StatusActive \<and> rn_parent v = rn_revision_id (last vs) \<and>
     (rn_action v = ActionSupersede \<and> rn_status v = StatusActive \<or>
      rn_action v = ActionRevoke \<and> rn_status v = StatusRevoked \<and> rn_scope v = rn_scope (last vs))"
proof -
  assume "vs \<noteq> []"
  then obtain a b ys where e: "vs @ [v] = a # b # ys" by (cases vs; cases "tl vs") auto
  show ?thesis using lifecycle.simps(3) [of a b ys, folded e] by (simp add: Let_def del: lifecycle.simps)
qed

definition promotion_state_ok :: "scan_engine \<Rightarrow> promotion_state \<Rightarrow> bool" where
  "promotion_state_ok en st \<longleftrightarrow>
     ps_current st = current_of (ps_history st) \<and>
     ps_revisions st = rev (map (rn_revision_id \<circ> record_revision) (ps_history st)) \<and>
     distinct (map (rn_revision_id \<circ> record_revision) (ps_history st)) \<and>
     (\<forall>m. ps_counts st m = length (memory_revisions m (ps_history st)) \<and> lifecycle (memory_revisions m (ps_history st))) \<and>
     (\<forall>r \<in> set (ps_history st). validateEvent_promotion en (pr_event r) = None)"

lemma promotion_state_step:
  assumes s: "replay_step_promotion en r st = Inr st'" and ok: "promotion_state_ok en st"
  shows "promotion_state_ok en st'"
proof -
  let ?v = "record_revision r"
  note i = s [unfolded replay_step_promotion_Inr]
  have v: "validateEvent_promotion en (pr_event r) = None" using i validateRecord_promotion_None(1) by blast
  have c: "check_lifecycle st ?v = None" using i by blast
  have h: "ps_history st' = ps_history st @ [r]" "ps_current st' = set_current r (ps_current st)"
    "ps_revisions st' = rn_revision_id ?v # ps_revisions st"
    "ps_counts st' = (ps_counts st)(rn_memory_id ?v := ps_counts st (rn_memory_id ?v) + 1)"
    by (subst conjunct2 [OF conjunct2 [OF i]], simp add: set_current_def)+
  have cur: "map_of (ps_current st) m = (if memory_revisions m (ps_history st) = [] then None
      else Some (last (memory_revisions m (ps_history st))))" for m
    using ok current_of_last by (simp add: promotion_state_ok_def)
  have fresh: "rn_revision_id ?v \<notin> set (ps_revisions st)" using c by (auto simp: check_lifecycle_def split: if_splits)
  have l: "lifecycle (memory_revisions m (ps_history st'))" for m
  proof (cases "rn_memory_id ?v = m")
    case False
    then show ?thesis using ok by (simp add: h promotion_state_ok_def)
  next
    case True
    show ?thesis
    proof (cases "memory_revisions m (ps_history st) = []")
      case nil: True
      then show ?thesis using c fresh True cur [of m] by (auto simp: h check_lifecycle_def Let_def split: if_splits)
    next
      case ne: False
      have l: "lifecycle (memory_revisions m (ps_history st))" using ok by (simp add: promotion_state_ok_def)
      show ?thesis
        using c fresh True cur [of m] ne l by (auto simp: h lifecycle_snoc check_lifecycle_def Let_def split: if_splits)
    qed
  qed
  show ?thesis using ok h v l fresh by (simp add: promotion_state_ok_def)
qed

lemma replay_promotion_ok: "replay_promotion pv f = (st, e) \<Longrightarrow> promotion_state_ok (pv_engine pv) st"
  unfolding replay_promotion_def
  by (erule replay_log_invariant [where I = "promotion_state_ok (pv_engine pv)"])
    (simp add: promotion_state_ok_def, rule promotion_state_step)

section \<open>The semantic replay, record by record\<close>

lemma semantic_steps_append:
  "semantic_steps step (rs @ [r]) st = (case semantic_steps step rs st of Inl e \<Rightarrow> Inl e | Inr st' \<Rightarrow> step r st')"
  by (induction rs arbitrary: st) (auto split: sum.splits)

lemma verify_promotion_record_Inr:
  "verify_promotion_record pv s r current = Inr current' \<longleftrightarrow>
     (\<exists>request. requestFromRevision (pv_engine pv) (pr_event r) = Inr request \<and>
        hashRequest_promotion request = Some (pe_request_sha256 (pr_event r)) \<and>
        (rn_action (record_revision r) = ActionPromote \<or> rn_action (record_revision r) = ActionSupersede \<longrightarrow>
          (\<exists>source scan. rn_source (record_revision r) = Some source \<and> rn_scan (record_revision r) = Some scan \<and>
             verify_active pv s current (pr_sequence r) (record_revision r) source scan = None)) \<and>
        revisionID (record_revision r) = Some (rn_revision_id (record_revision r)) \<and> current' = set_current r current)"
  (is "?l \<longleftrightarrow> ?r")
proof
  assume l: ?l
  then obtain request where q: "requestFromRevision (pv_engine pv) (pr_event r) = Inr request"
    by (auto simp: verify_promotion_record_def Let_def split: sum.splits)
  let ?checks = "[(case hashRequest_promotion request of
                 None \<Rightarrow> Some PromotionRequestEncode
               | Some d \<Rightarrow> fail_if (d \<noteq> pe_request_sha256 (pr_event r)) (PromotionRequestHash (pr_sequence r))),
              (if rn_action (record_revision r) \<in> set [ActionPromote, ActionSupersede] then
                 (case (rn_source (record_revision r), rn_scan (record_revision r)) of
                    (Some source, Some scan) \<Rightarrow> verify_active pv s current (pr_sequence r) (record_revision r) source scan
                  | _ \<Rightarrow> Some (SourceDiffers (pr_sequence r)))
               else None),
              (case revisionID (record_revision r) of
                 None \<Rightarrow> Some RevisionEncode
               | Some i \<Rightarrow> fail_if (i \<noteq> rn_revision_id (record_revision r)) (RevisionIdDiffers (pr_sequence r)))]"
  from l q have "first_error ?checks = None \<and> current' = set_current r current"
    unfolding verify_promotion_record_def Let_def q sum.case set_current_def
    by (cases "first_error ?checks") simp_all
  then show ?r using q by (auto split: option.splits if_splits)
next
  assume ?r
  then show ?l by (auto simp: verify_promotion_record_def Let_def set_current_def)
qed

lemma verify_promotion_record_upd: "verify_promotion_record pv s r current = Inr current' \<Longrightarrow> current' = set_current r current"
  unfolding verify_promotion_record_Inr by blast

text \<open>Every record of a verified history was acceptable after the records before it.\<close>

lemma verifyPromotionSemantics_iff:
  "verifyPromotionSemantics pv s rs = None \<longleftrightarrow>
     (\<forall>pre r post. rs = pre @ r # post \<longrightarrow>
        verify_promotion_record pv s r (current_of pre) = Inr (current_of (pre @ [r])))"
proof -
  have "\<forall>r \<in> set rs. \<forall>st st'. verify_promotion_record pv s r st = Inr st' \<longrightarrow> st' = set_current r st"
    using verify_promotion_record_upd by blast
  from semantic_steps_iff [OF this, of "[]"] show ?thesis
    unfolding verifyPromotionSemantics_def current_of_def by (auto split: sum.splits)
qed

lemma verifyPromotionSemantics_append:
  "verifyPromotionSemantics pv s rs = None \<Longrightarrow>
     verifyPromotionSemantics pv s (rs @ [r]) = None \<longleftrightarrow> (\<exists>c. verify_promotion_record pv s r (current_of rs) = Inr c)"
proof -
  assume v: "verifyPromotionSemantics pv s rs = None"
  have "semantic_steps (verify_promotion_record pv s) rs [] = Inr (current_of rs)"
  proof -
    obtain c where c: "semantic_steps (verify_promotion_record pv s) rs [] = Inr c"
      using v by (auto simp: verifyPromotionSemantics_def split: sum.splits)
    have "semantic_steps (verify_promotion_record pv s) qs c0 = Inr c \<Longrightarrow> c = fold set_current qs c0" for qs c0
      by (induction qs arbitrary: c0) (auto dest: verify_promotion_record_upd split: sum.splits)
    with c show ?thesis by (simp add: current_of_def)
  qed
  then show ?thesis by (auto simp: verifyPromotionSemantics_def semantic_steps_append split: sum.splits)
qed

lemma replayVerified_promotion_iff:
  "replayVerified_promotion pv s = (st, None) \<longleftrightarrow>
     replay_promotion pv (pst_file s) = (st, None) \<and> verifyPromotionSemantics pv s (ps_history st) = None"
  by (auto simp: replayVerified_promotion_def split: prod.splits option.splits)

lemma verify_active_None:
  "verify_active pv s current n v source scan = None \<longleftrightarrow>
     (\<exists>c p redacted.
        VerifyValidationRecord (pv_candidates pv) (pv_decode_evidence pv) (pv_decode_review pv) s (so_generation source)
          (so_candidate_id source) (so_content_sha256 source) (so_review_record source) = Inr (c, p) \<and>
        compareVerifiedSource n v (c, p) = None \<and>
        ApplyRedactions (pv_engine pv) (cd_text c) (Scan (pv_engine pv) (cd_text c)) (slice_list (sa_redactions scan)) = Inr redacted \<and>
        redacted = rn_text v \<and> sr_content_sha256 (Scan (pv_engine pv) (cd_text c)) = sa_source_text scan \<and>
        sa_finding_ids scan = Some (findingIDs (Scan (pv_engine pv) (cd_text c))) \<and>
        (rn_action v = ActionPromote \<longrightarrow> expectedMemoryID (rn_text_sha256 v) (rn_scope v) = rn_memory_id v \<and>
           \<not> list_ex (same_memory (rn_scope v) (so_semantic_key source)) (map snd current)) \<and>
        (rn_action v = ActionSupersede \<longrightarrow>
           (\<exists>o' so. map_of current (rn_memory_id v) = Some o' \<and> rn_source o' = Some so \<and>
              so_semantic_key so = so_semantic_key source)))"
  (is "?l \<longleftrightarrow> ?r")
proof
  assume l: ?l
  then obtain c p where a: "VerifyValidationRecord (pv_candidates pv) (pv_decode_evidence pv) (pv_decode_review pv) s (so_generation source)
      (so_candidate_id source) (so_content_sha256 source) (so_review_record source) = Inr (c, p)"
    "compareVerifiedSource n v (c, p) = None"
    by (auto simp: verify_active_def split: sum.splits option.splits)
  then obtain redacted where b: "ApplyRedactions (pv_engine pv) (cd_text c) (Scan (pv_engine pv) (cd_text c))
      (slice_list (sa_redactions scan)) = Inr redacted"
    using l by (auto simp: verify_active_def Let_def split: sum.splits)
  from l a b show ?r by (auto simp: verify_active_def Let_def split: option.splits)
next
  assume ?r
  then show ?l by (auto simp: verify_active_def Let_def)
qed

section \<open>What the checks read\<close>

lemma promotion_cong:
  fixes s :: "'a promotion_store_scheme" and s' :: "'b promotion_store_scheme"
  assumes "st_events s' = st_events s" and "st_blobs s' = st_blobs s" and "rst_file s' = rst_file s"
  shows "verify_active pv s' = verify_active pv s" "verify_promotion_record pv s' = verify_promotion_record pv s"
    "verifyPromotionSemantics pv s' = verifyPromotionSemantics pv s" "resolve_source pv s' = resolve_source pv s"
proof -
  have v: "VerifyValidationRecord env dec rdec s' = VerifyValidationRecord env dec rdec s"
    "ResolveCurrentValidation env dec rdec s' = ResolveCurrentValidation env dec rdec s" for env dec rdec
    unfolding VerifyValidationRecord_def [abs_def] ResolveCurrentValidation_def [abs_def] validation_cong [OF assms] by (rule refl)+
  show a: "verify_active pv s' = verify_active pv s" unfolding verify_active_def [abs_def] v ..
  show b: "verify_promotion_record pv s' = verify_promotion_record pv s"
    unfolding verify_promotion_record_def [abs_def] a ..
  show "verifyPromotionSemantics pv s' = verifyPromotionSemantics pv s"
    unfolding verifyPromotionSemantics_def [abs_def] b ..
  show "resolve_source pv s' = resolve_source pv s" unfolding resolve_source_def [abs_def] v ..
qed

end
