(* ===== verification/Promotion_Apply.thy ===== *)
theory Promotion_Apply
  imports Promotion_Props
begin

text \<open>
  What \<open>Apply\<close> adds to the promotion ledger: the revision it prepares, the request that the replay
  reconstructs from it, and when the verified replay accepts the new record.
\<close>

section \<open>Prepared revisions\<close>

lemma with_revision_id_Inr:
  assumes "with_revision_id u = Inr v"
  shows "revisionID v = Some (rn_revision_id v)" "v = u\<lparr>rn_revision_id := rn_revision_id v\<rparr>"
  using assms by (auto simp: with_revision_id_def revisionID_def split: option.splits)

lemma prepare_revocation_Inr:
  assumes "prepare_revocation request current base = Inr v"
  shows "\<exists>c. map_of current (pq_memory_id request) = Some c \<and> rn_status c = StatusActive \<and>
    rn_revision_id c = pq_expected_revision request \<and> revisionID v = Some (rn_revision_id v) \<and>
    v = base\<lparr>rn_memory_id := rn_memory_id c, rn_parent := rn_revision_id c, rn_status := StatusRevoked,
        rn_kind := rn_kind c, rn_scope := rn_scope c, rn_rule_change := rn_rule_change c,
        rn_revision_id := rn_revision_id v\<rparr>"
proof -
  obtain c where c: "map_of current (pq_memory_id request) = Some c" "rn_status c = StatusActive"
    "rn_revision_id c = pq_expected_revision request"
    "with_revision_id (base\<lparr>rn_memory_id := rn_memory_id c, rn_parent := rn_revision_id c, rn_status := StatusRevoked,
        rn_kind := rn_kind c, rn_scope := rn_scope c, rn_rule_change := rn_rule_change c\<rparr>) = Inr v"
    using assms by (auto simp: prepare_revocation_def split: option.splits if_splits)
  from with_revision_id_Inr [OF c(4)] c(1-3) show ?thesis by blast
qed

text \<open>The fields of an active revision.\<close>

definition active_source :: "candidate \<Rightarrow> validation_proof \<Rightarrow> memory_source" where
  "active_source c p =
     \<lparr>so_generation = vp_generation p, so_candidates_sha256 = vp_candidates_sha256 p, so_candidate_id = vp_candidate_id p,
      so_content_sha256 = vp_content_sha256 p, so_semantic_key = cd_semantic_key_sha256 c, so_review_event = vp_event_id p,
      so_review_record = vp_record_sha256 p, so_review_scope = vp_scope p, so_review_basis = vp_basis p\<rparr>"

definition active_attestation :: "scan_engine \<Rightarrow> promotion_request \<Rightarrow> candidate \<Rightarrow> string \<Rightarrow> scan_attestation" where
  "active_attestation en request c redacted =
     \<lparr>sa_scanner_version = ScannerVersion, sa_source_text = sr_content_sha256 (Scan en (cd_text c)),
      sa_finding_ids = Some (findingIDs (Scan en (cd_text c))),
      sa_redactions = (if pq_redactions request = [] then None else Some (pq_redactions request)),
      sa_redacted_text = textDigest redacted\<rparr>"

definition active_revision ::
  "promotion_env \<Rightarrow> promotion_request \<Rightarrow> candidate \<Rightarrow> validation_proof \<Rightarrow> string \<Rightarrow> string \<Rightarrow> string \<Rightarrow> revision
    \<Rightarrow> revision" where
  "active_revision pv request c p redacted memory parent base =
     base\<lparr>rn_memory_id := memory, rn_parent := parent, rn_status := StatusActive, rn_kind := cd_kind c,
          rn_text := redacted, rn_text_sha256 := textDigest redacted, rn_scope := vp_scope p,
          rn_source := Some (active_source c p),
          rn_scan := Some (active_attestation (pv_engine pv) request c redacted),
          rn_rule_change := cd_requires_approval c\<rparr>"

lemma active_revision_fields [simp]:
  "rn_memory_id (active_revision pv request c p redacted memory parent base) = memory"
  "rn_parent (active_revision pv request c p redacted memory parent base) = parent"
  "rn_status (active_revision pv request c p redacted memory parent base) = StatusActive"
  "rn_kind (active_revision pv request c p redacted memory parent base) = cd_kind c"
  "rn_text (active_revision pv request c p redacted memory parent base) = redacted"
  "rn_text_sha256 (active_revision pv request c p redacted memory parent base) = textDigest redacted"
  "rn_scope (active_revision pv request c p redacted memory parent base) = vp_scope p"
  "rn_source (active_revision pv request c p redacted memory parent base) = Some (active_source c p)"
  "rn_scan (active_revision pv request c p redacted memory parent base) =
     Some (active_attestation (pv_engine pv) request c redacted)"
  "rn_rule_change (active_revision pv request c p redacted memory parent base) = cd_requires_approval c"
  "rn_action (active_revision pv request c p redacted memory parent base) = rn_action base"
  "rn_recorded_at (active_revision pv request c p redacted memory parent base) = rn_recorded_at base"
  "rn_reason (active_revision pv request c p redacted memory parent base) = rn_reason base"
  by (simp_all add: active_revision_def)

lemma base_revision_fields [simp]:
  "rn_action (base_revision device request now) = pq_action request"
  "rn_recorded_at (base_revision device request now) = now"
  "rn_reason (base_revision device request now) = pq_reason request"
  by (simp_all add: base_revision_def)

lemma prepare_active_Inr:
  assumes "prepare_active pv s request ref current base = Inr v"
  shows "\<exists>c p redacted memory parent. let report = Scan (pv_engine pv) (cd_text c) in
    ResolveCurrentValidation (pv_candidates pv) (pv_decode_evidence pv) (pv_decode_review pv) s (cr_generation ref)
      (cr_candidate_id ref) (cr_content_sha256 ref) (cr_review_record ref) = Inr (c, p) \<and>
    ApplyRedactions (pv_engine pv) (cd_text c) report (pq_redactions request) = Inr redacted \<and>
    pq_expected_text request = textDigest redacted \<and>
    memory_identity request current (vp_scope p) (cd_semantic_key_sha256 c) (textDigest redacted) = Inr (memory, parent) \<and>
    revisionID v = Some (rn_revision_id v) \<and>
    v = (active_revision pv request c p redacted memory parent base)\<lparr>rn_revision_id := rn_revision_id v\<rparr>"
proof -
  obtain g where g: "OpenGeneration (pv_candidates pv) (cr_generation ref) = Inr g"
    using assms by (auto simp: prepare_active_def split: sum.splits)
  have e: "RequireCurrentEvidence (pv_candidates pv) (Verify (pv_decode_evidence pv) s) (pv_audits pv) g = None"
    using assms g by (auto simp: prepare_active_def split: option.splits)
  obtain c p where c: "ResolveCurrentValidation (pv_candidates pv) (pv_decode_evidence pv) (pv_decode_review pv) s
      (cr_generation ref) (cr_candidate_id ref) (cr_content_sha256 ref) (cr_review_record ref) = Inr (c, p)"
    using assms g e by (auto simp: prepare_active_def split: sum.splits)
  obtain redacted where r: "ApplyRedactions (pv_engine pv) (cd_text c) (Scan (pv_engine pv) (cd_text c)) (pq_redactions request) = Inr redacted"
    using assms g e c by (auto simp: prepare_active_def Let_def split: sum.splits)
  have t: "pq_expected_text request = textDigest redacted"
    using assms g e c r by (auto simp: prepare_active_def Let_def split: if_splits)
  obtain memory parent where m: "memory_identity request current (vp_scope p) (cd_semantic_key_sha256 c) (textDigest redacted) = Inr (memory, parent)"
    using assms g e c r t by (auto simp: prepare_active_def Let_def split: sum.splits)
  from assms have "with_revision_id (active_revision pv request c p redacted memory parent base) = Inr v"
    unfolding prepare_active_def active_revision_def active_source_def active_attestation_def Let_def g sum.case e option.case
      c prod.case r m using t by (simp del: revision.update_convs)
  from with_revision_id_Inr [OF this] c r t m show ?thesis unfolding Let_def by blast
qed

text \<open>The generation of a request opens under the name it was asked for.\<close>

definition opens_own_name :: "candidate_env \<Rightarrow> string \<Rightarrow> bool" where
  "opens_own_name env p \<longleftrightarrow> (\<forall>g. OpenGeneration env p = Inr g \<longrightarrow> gn_name g = p)"

definition request_named :: "promotion_env \<Rightarrow> promotion_request \<Rightarrow> bool" where
  "request_named pv request \<longleftrightarrow>
     (case pq_candidate request of None \<Rightarrow> True | Some ref \<Rightarrow> opens_own_name (pv_candidates pv) (cr_generation ref))"

text \<open>The clock did not run backwards between the validation and the promotion.\<close>

definition in_order :: "promotion_env \<Rightarrow> 'a promotion_store_scheme \<Rightarrow> revision \<Rightarrow> bool" where
  "in_order pv s v \<longleftrightarrow>
     (case rn_source v of
        None \<Rightarrow> True
      | Some source \<Rightarrow>
          (case resolve_source pv s source of
             Inl _ \<Rightarrow> True
           | Inr (c, p) \<Rightarrow> vp_reviewed_at p \<le> rn_recorded_at v))"

lemma memory_identity_Inr:
  assumes "memory_identity request current scope key sha = Inr (memory, parent)"
  shows "pq_action request = ActionPromote \<and> memory = expectedMemoryID sha scope \<and> parent = [] \<and> pq_memory_id request = [] \<and>
      pq_expected_revision request = [] \<and> map_of current memory = None \<and> \<not> list_ex (same_memory scope key) (map snd current) \<or>
    pq_action request = ActionSupersede \<and> memory = pq_memory_id request \<and> parent = pq_expected_revision request \<and>
      (\<exists>c. map_of current memory = Some c \<and> rn_status c = StatusActive \<and> same_memory scope key c \<and> rn_revision_id c = parent)"
  using assms by (auto simp: memory_identity_def Let_def split: if_splits option.splits)

section \<open>The reconstructed request\<close>

lemma revocation_round_trip:
  assumes v: "prepare_revocation request (ps_current st) (base_revision device request now) = Inr v"
    and req: "validateRequest_promotion en request = None" and act: "pq_action request = ActionRevoke"
    and ids: "\<forall>m c. map_of (ps_current st) m = Some c \<longrightarrow> rn_memory_id c = m"
    and e: "pe_revision e = v" "pe_approver e = pq_approver request"
  shows "requestFromRevision en e = Inr request"
proof -
  obtain c where c: "map_of (ps_current st) (pq_memory_id request) = Some c" "rn_revision_id c = pq_expected_revision request"
    and V: "v = (base_revision device request now)\<lparr>rn_memory_id := rn_memory_id c, rn_parent := rn_revision_id c,
        rn_status := StatusRevoked, rn_kind := rn_kind c, rn_scope := rn_scope c, rn_rule_change := rn_rule_change c,
        rn_revision_id := rn_revision_id v\<rparr>"
    using prepare_revocation_Inr [OF v] by blast
  have f: "rn_action v = ActionRevoke" "rn_memory_id v = pq_memory_id request" "rn_parent v = pq_expected_revision request"
    "rn_reason v = pq_reason request"
    by (subst V, use act c ids in \<open>simp add: base_revision_def\<close>)+
  have q: "pq_schema_version request = PromotionRequestSchemaVersion" "pq_candidate request = None"
    "pq_redactions request = []" "pq_expected_text request = []"
    using req act by (simp_all add: validateRequest_promotion_def)
  have "\<lparr>pq_schema_version = PromotionRequestSchemaVersion, pq_approver = pq_approver request, pq_action = ActionRevoke,
      pq_memory_id = pq_memory_id request, pq_expected_revision = pq_expected_revision request, pq_candidate = None,
      pq_redactions = [], pq_expected_text = [], pq_reason = pq_reason request\<rparr> = request"
    using q act by (cases request) simp
  then show ?thesis using req by (simp add: requestFromRevision_def e f Let_def)
qed

lemma active_round_trip:
  assumes v: "prepare_active pv s request ref current (base_revision device request now) = Inr v"
    and req: "validateRequest_promotion (pv_engine pv) request = None"
    and act: "pq_action request = ActionPromote \<or> pq_action request = ActionSupersede"
    and ref: "pq_candidate request = Some ref" and named: "opens_own_name (pv_candidates pv) (cr_generation ref)"
    and e: "pe_revision e = v" "pe_approver e = pq_approver request"
  shows "requestFromRevision (pv_engine pv) e = Inr request"
proof -
  obtain c p redacted memory parent where res: "ResolveCurrentValidation (pv_candidates pv) (pv_decode_evidence pv) (pv_decode_review pv) s
      (cr_generation ref) (cr_candidate_id ref) (cr_content_sha256 ref) (cr_review_record ref) = Inr (c, p)"
    and t: "pq_expected_text request = textDigest redacted"
    and m: "memory_identity request current (vp_scope p) (cd_semantic_key_sha256 c) (textDigest redacted) = Inr (memory, parent)"
    and V: "v = (active_revision pv request c p redacted memory parent (base_revision device request now))\<lparr>rn_revision_id := rn_revision_id v\<rparr>"
    using prepare_active_Inr [OF v] unfolding Let_def by blast
  obtain g where g: "OpenGeneration (pv_candidates pv) (cr_generation ref) = Inr g" "vp_generation p = gn_name g"
    "vp_candidate_id p = cr_candidate_id ref" "vp_content_sha256 p = cr_content_sha256 ref" "vp_record_sha256 p = cr_review_record ref"
    using resolved_identity [OF res [unfolded ResolveCurrentValidation_def]] by blast
  have gen: "vp_generation p = cr_generation ref" using g(1,2) named by (simp add: opens_own_name_def)
  have f: "rn_action v = pq_action request" "rn_memory_id v = memory" "rn_parent v = parent" "rn_reason v = pq_reason request"
    "rn_text_sha256 v = textDigest redacted"
    by (subst V, simp)+
  have so: "\<exists>so. rn_source v = Some so \<and> so_generation so = cr_generation ref \<and> so_candidate_id so = cr_candidate_id ref \<and>
      so_content_sha256 so = cr_content_sha256 ref \<and> so_review_record so = cr_review_record ref"
    by (subst V) (simp add: g(3-5) gen active_source_def)
  have sa: "\<exists>sa. rn_scan v = Some sa \<and> slice_list (sa_redactions sa) = pq_redactions request"
    by (subst V) (simp add: slice_list_def active_attestation_def)
  obtain so sa where s: "rn_source v = Some so" "rn_scan v = Some sa" "slice_list (sa_redactions sa) = pq_redactions request"
    "\<lparr>cr_generation = so_generation so, cr_candidate_id = so_candidate_id so, cr_content_sha256 = so_content_sha256 so,
      cr_review_record = so_review_record so\<rparr> = ref"
    using so sa by auto
  have q: "pq_schema_version request = PromotionRequestSchemaVersion" using req by (simp add: validateRequest_promotion_def)
  have "\<lparr>pq_schema_version = PromotionRequestSchemaVersion, pq_approver = pq_approver request, pq_action = pq_action request,
      pq_memory_id = pq_memory_id request, pq_expected_revision = pq_expected_revision request, pq_candidate = Some ref,
      pq_redactions = pq_redactions request, pq_expected_text = textDigest redacted, pq_reason = pq_reason request\<rparr> = request"
    using q ref t by (cases request) simp
  with memory_identity_Inr [OF m] act req show ?thesis
    by (auto simp: requestFromRevision_def e f s Let_def)
qed

section \<open>The new record\<close>

lemma current_ids:
  assumes "promotion_state_ok en st" and "map_of (ps_current st) m = Some c"
  shows "rn_memory_id c = m"
proof -
  have "map_of (current_of (ps_history st)) m = Some c" using assms by (simp add: promotion_state_ok_def)
  then have "memory_revisions m (ps_history st) \<noteq> []" "c = last (memory_revisions m (ps_history st))"
    unfolding current_of_last by (auto split: if_splits)
  then have "c \<in> set (memory_revisions m (ps_history st))" by simp
  then show ?thesis by (auto simp: memory_revisions_def)
qed

lemma promotion_record_for_Inr:
  assumes "promotion_record_for pv failed now random request s = Inr r"
  shows "\<exists>st. replayVerified_promotion pv s = (st, None) \<and> prepareRevision pv s request st now = Inr (record_revision r) \<and>
    hashRequest_promotion request = Some (pe_request_sha256 (pr_event r)) \<and> pe_approver (pr_event r) = pq_approver request \<and>
    pe_recorded_at (pr_event r) = now \<and>
    validateEvent_promotion (pv_engine pv) (pr_event r) = None \<and>
    makeRecord_promotion (pr_event r) (ps_next st) (ps_last_hash st) = Some r"
proof -
  obtain st where st: "replayVerified_promotion pv s = (st, None)"
    using assms by (auto simp: promotion_record_for_def split: prod.splits option.splits)
  obtain v where v: "prepareRevision pv s request st now = Inr v"
    using assms st by (auto simp: promotion_record_for_def split: if_splits sum.splits)
  obtain d where d: "hashRequest_promotion request = Some d"
    using assms st v by (auto simp: promotion_record_for_def split: if_splits option.splits)
  define e where "e = \<lparr>pe_schema_version = PromotionEventSchemaVersion,
     pe_event_id = ''promotion-'' @ NewEventID now random, pe_recorded_at = now,
     pe_device_id = st_device_id s, pe_approver = pq_approver request,
     pe_request_sha256 = d, pe_revision = v, pe_privacy = ''local_only''\<rparr>"
  have m: "validateEvent_promotion (pv_engine pv) e = None" "makeRecord_promotion e (ps_next st) (ps_last_hash st) = Some r"
    using assms st v d unfolding promotion_record_for_def Let_def e_def by (auto split: if_splits option.splits)
  from makeRecord_promotion_fields(5) [OF m(2)] m st v d show ?thesis by (simp add: e_def)
qed

text \<open>The revision of a new record is named by its content, and only a repeated name can stop the replay step.\<close>

lemma prepared_lifecycle:
  assumes ok: "promotion_state_ok en st" and v: "prepareRevision pv s request st now = Inr v"
  shows "check_lifecycle st v = None \<longleftrightarrow> rn_revision_id v \<notin> set (ps_revisions st)"
proof (cases "pq_action request = ActionRevoke")
  case True
  then have "prepare_revocation request (ps_current st) (base_revision (st_device_id s) request now) = Inr v"
    using v by (simp add: prepareRevision_def)
  from prepare_revocation_Inr [OF this] obtain c where c: "map_of (ps_current st) (pq_memory_id request) = Some c"
    "rn_status c = StatusActive" and V: "v = (base_revision (st_device_id s) request now)\<lparr>rn_memory_id := rn_memory_id c,
      rn_parent := rn_revision_id c, rn_status := StatusRevoked, rn_kind := rn_kind c, rn_scope := rn_scope c,
      rn_rule_change := rn_rule_change c, rn_revision_id := rn_revision_id v\<rparr>" by blast
  have i: "rn_memory_id c = pq_memory_id request" by (rule current_ids [OF ok c(1)])
  have f: "rn_action v = ActionRevoke" "rn_memory_id v = pq_memory_id request" "rn_parent v = rn_revision_id c"
    "rn_status v = StatusRevoked" "rn_kind v = rn_kind c" "rn_scope v = rn_scope c" "rn_rule_change v = rn_rule_change c"
    by (subst V, simp add: True i base_revision_def)+
  show ?thesis using c by (simp add: check_lifecycle_def f Let_def)
next
  case False
  then obtain ref where "prepare_active pv s request ref (ps_current st) (base_revision (st_device_id s) request now) = Inr v"
    using v by (auto simp: prepareRevision_def Let_def split: option.splits)
  from prepare_active_Inr [OF this] obtain p c redacted memory parent where
    m: "memory_identity request (ps_current st) (vp_scope p) (cd_semantic_key_sha256 c) (textDigest redacted) = Inr (memory, parent)"
    and V: "v = (active_revision pv request c p redacted memory parent (base_revision (st_device_id s) request now))
      \<lparr>rn_revision_id := rn_revision_id v\<rparr>" unfolding Let_def by metis
  have f: "rn_action v = pq_action request" "rn_memory_id v = memory" "rn_parent v = parent" "rn_status v = StatusActive"
    by (subst V, simp)+
  from memory_identity_Inr [OF m] show ?thesis by (auto simp: check_lifecycle_def f Let_def)
qed

lemma active_verifies:
  assumes v: "prepare_active pv s request ref current (base_revision device request now) = Inr v"
    and named: "opens_own_name (pv_candidates pv) (cr_generation ref)"
  shows "\<exists>source scan. rn_source v = Some source \<and> rn_scan v = Some scan \<and>
    (verify_active pv s current n v source scan = None \<longleftrightarrow> in_order pv s v)"
proof -
  obtain c p redacted memory parent where res: "ResolveCurrentValidation (pv_candidates pv) (pv_decode_evidence pv) (pv_decode_review pv) s
      (cr_generation ref) (cr_candidate_id ref) (cr_content_sha256 ref) (cr_review_record ref) = Inr (c, p)"
    and red: "ApplyRedactions (pv_engine pv) (cd_text c) (Scan (pv_engine pv) (cd_text c)) (pq_redactions request) = Inr redacted"
    and m: "memory_identity request current (vp_scope p) (cd_semantic_key_sha256 c) (textDigest redacted) = Inr (memory, parent)"
    and V: "v = (active_revision pv request c p redacted memory parent (base_revision device request now))\<lparr>rn_revision_id := rn_revision_id v\<rparr>"
    using prepare_active_Inr [OF v] unfolding Let_def by blast
  obtain g where g: "OpenGeneration (pv_candidates pv) (cr_generation ref) = Inr g" "vp_generation p = gn_name g"
    "vp_candidate_id p = cr_candidate_id ref" "vp_content_sha256 p = cr_content_sha256 ref" "vp_record_sha256 p = cr_review_record ref"
    using resolved_identity [OF res [unfolded ResolveCurrentValidation_def]] by blast
  have gen: "vp_generation p = cr_generation ref" using g(1,2) named by (simp add: opens_own_name_def)
  define so where "so = active_source c p"
  define sa where "sa = active_attestation (pv_engine pv) request c redacted"
  note so = so_def [unfolded active_source_def]
  have f: "rn_source v = Some so" "rn_scan v = Some sa" "rn_action v = pq_action request" "rn_memory_id v = memory"
    "rn_kind v = cd_kind c" "rn_text v = redacted" "rn_text_sha256 v = textDigest redacted" "rn_scope v = vp_scope p"
    "rn_rule_change v = cd_requires_approval c" "rn_recorded_at v = now"
    by (subst V, simp add: so_def sa_def)+
  have rs: "resolve_source pv s so = Inr (c, p)" using res by (simp add: resolve_source_def so gen g(3-5))
  have vr: "VerifyValidationRecord (pv_candidates pv) (pv_decode_evidence pv) (pv_decode_review pv) s (so_generation so)
      (so_candidate_id so) (so_content_sha256 so) (so_review_record so) = Inr (c, p)"
    using current_is_recorded [OF res] by (simp add: so gen g(3-5))
  have io: "in_order pv s v \<longleftrightarrow> vp_reviewed_at p \<le> now" by (simp add: in_order_def f rs)
  have cmp: "compareVerifiedSource n v (c, p) = None \<longleftrightarrow> in_order pv s v"
    unfolding io by (auto simp: compareVerifiedSource_def f so)
  have sa: "slice_list (sa_redactions sa) = pq_redactions request" "sa_source_text sa = sr_content_sha256 (Scan (pv_engine pv) (cd_text c))"
    "sa_finding_ids sa = Some (findingIDs (Scan (pv_engine pv) (cd_text c)))"
    by (simp_all add: sa_def active_attestation_def slice_list_def)
  have key: "so_semantic_key so = cd_semantic_key_sha256 c" by (simp add: so)
  have mem: "(rn_action v = ActionPromote \<longrightarrow> expectedMemoryID (rn_text_sha256 v) (rn_scope v) = rn_memory_id v \<and>
         \<not> list_ex (same_memory (rn_scope v) (so_semantic_key so)) (map snd current)) \<and>
      (rn_action v = ActionSupersede \<longrightarrow> (\<exists>o' so'. map_of current (rn_memory_id v) = Some o' \<and> rn_source o' = Some so' \<and>
         so_semantic_key so' = so_semantic_key so))"
    using memory_identity_Inr [OF m] unfolding f key by (auto simp: same_memory_def split: option.splits)
  have "verify_active pv s current n v so sa = None \<longleftrightarrow> in_order pv s v"
    unfolding verify_active_None vr cmp [symmetric] sa using mem red
    by (auto simp: f)
  with f(1,2) show ?thesis by simp
qed

lemma prepared_verifies:
  assumes rec: "promotion_record_for pv failed now random request s = Inr r"
    and st: "replayVerified_promotion pv s = (st, None)"
    and req: "validateRequest_promotion (pv_engine pv) request = None" and named: "request_named pv request"
  shows "(\<exists>c. verify_promotion_record pv s r (ps_current st) = Inr c) \<longleftrightarrow> in_order pv s (record_revision r)"
    "requestFromRevision (pv_engine pv) (pr_event r) = Inr request"
proof -
  let ?v = "record_revision r" and ?base = "base_revision (st_device_id s) request now"
  have r: "prepareRevision pv s request st now = Inr ?v"
    "hashRequest_promotion request = Some (pe_request_sha256 (pr_event r))" "pe_approver (pr_event r) = pq_approver request"
    using promotion_record_for_Inr [OF rec] st by auto
  have ok: "promotion_state_ok (pv_engine pv) st"
    using replay_promotion_ok replayVerified_promotion_iff [THEN iffD1, OF st] by blast
  have act: "pq_action request = ActionPromote \<or> pq_action request = ActionSupersede \<or> pq_action request = ActionRevoke"
    using req by (auto simp: validateRequest_promotion_def split: if_splits)
  have "requestFromRevision (pv_engine pv) (pr_event r) = Inr request \<and> revisionID ?v = Some (rn_revision_id ?v) \<and>
    (if rn_action ?v = ActionPromote \<or> rn_action ?v = ActionSupersede
     then \<exists>source scan. rn_source ?v = Some source \<and> rn_scan ?v = Some scan \<and>
       (verify_active pv s (ps_current st) (pr_sequence r) ?v source scan = None \<longleftrightarrow> in_order pv s ?v)
     else in_order pv s ?v)"
  proof (cases "pq_action request = ActionRevoke")
    case True
    then have v: "prepare_revocation request (ps_current st) ?base = Inr ?v" using r(1) by (simp add: prepareRevision_def)
    obtain c :: revision where c: "revisionID ?v = Some (rn_revision_id ?v)"
      and V: "?v = ?base\<lparr>rn_memory_id := rn_memory_id c, rn_parent := rn_revision_id c, rn_status := StatusRevoked,
        rn_kind := rn_kind c, rn_scope := rn_scope c, rn_rule_change := rn_rule_change c, rn_revision_id := rn_revision_id ?v\<rparr>"
      using prepare_revocation_Inr [OF v] by (elim exE conjE) (rule that)
    have f: "rn_action ?v = ActionRevoke" "rn_source ?v = None" by (subst V, simp add: True base_revision_def)+
    have "in_order pv s ?v" by (simp add: in_order_def f)
    with c f revocation_round_trip [OF v req True _ refl r(3)] current_ids [OF ok] show ?thesis by simp
  next
    case False
    then obtain ref where ref: "pq_candidate request = Some ref" and v: "prepare_active pv s request ref (ps_current st) ?base = Inr ?v"
      using r(1) by (auto simp: prepareRevision_def Let_def split: option.splits)
    have nm: "opens_own_name (pv_candidates pv) (cr_generation ref)" using named by (simp add: request_named_def ref)
    have "revisionID ?v = Some (rn_revision_id ?v)" "rn_action ?v = pq_action request"
    proof -
      obtain c p redacted memory parent where i: "revisionID ?v = Some (rn_revision_id ?v)"
        and V: "?v = (active_revision pv request c p redacted memory parent ?base)\<lparr>rn_revision_id := rn_revision_id ?v\<rparr>"
        using prepare_active_Inr [OF v] unfolding Let_def by (elim exE conjE) (rule that)
      show "revisionID ?v = Some (rn_revision_id ?v)" by (rule i)
      show "rn_action ?v = pq_action request" by (subst V) simp
    qed
    with active_verifies [OF v nm] active_round_trip [OF v req _ ref nm refl r(3)] False act show ?thesis by auto
  qed
  then show "(\<exists>c. verify_promotion_record pv s r (ps_current st) = Inr c) \<longleftrightarrow> in_order pv s ?v"
    "requestFromRevision (pv_engine pv) (pr_event r) = Inr request"
    unfolding verify_promotion_record_Inr using r(2) by (auto split: if_splits)
qed

lemma promotion_step_new:
  assumes rec: "promotion_record_for pv failed now random request s = Inr r"
    and st: "replayVerified_promotion pv s = (st, None)"
    and fresh: "rn_revision_id (record_revision r) \<notin> set (ps_revisions st)"
  shows "\<exists>st'. replay_step_promotion (pv_engine pv) r st = Inr st'"
proof -
  have r: "prepareRevision pv s request st now = Inr (record_revision r)"
    "validateEvent_promotion (pv_engine pv) (pr_event r) = None"
    "makeRecord_promotion (pr_event r) (ps_next st) (ps_last_hash st) = Some r"
    using promotion_record_for_Inr [OF rec] st by auto
  have ok: "promotion_state_ok (pv_engine pv) st"
    using replay_promotion_ok replayVerified_promotion_iff [THEN iffD1, OF st] by blast
  have "validateRecord_promotion (pv_engine pv) r (ps_next st) (ps_last_hash st) = None"
    using makeRecord_promotion_fields [OF r(3)] r(2,3) by (simp add: validateRecord_promotion_def)
  then show ?thesis using prepared_lifecycle [OF ok r(1)] fresh unfolding replay_step_promotion_Inr by blast
qed

section \<open>A successful \<open>Apply\<close>\<close>

text \<open>Opening the evidence file for appending creates it.\<close>

definition created :: "os_file \<Rightarrow> os_file" where
  "created f = (if f = NotExist then Readable [] False else f)"

lemma NewAppenderAfterVisit_Inr:
  assumes "NewAppenderAfterVisit dec fs faults visitor v s = (s2, v', Inr a)"
  shows "\<not> st_writer_lock s" "s2 = s\<lparr>st_writer_lock := True, st_events := created (st_events s)\<rparr>" "\<not> ap_closed a"
  using assms
  by (auto simp: NewAppenderAfterVisit_def acquireWriterLock_def openAppenderAt_def created_def
      split: option.splits prod.splits sum.splits if_splits dest: acquire_lock_ok)

text \<open>The store under the two locks of a request.\<close>

definition under_locks :: "'a promotion_store_scheme \<Rightarrow> 'a promotion_store_scheme" where
  "under_locks s = s\<lparr>pst_lock := True, st_writer_lock := True, st_events := created (st_events s)\<rparr>"

lemma under_locks_fields [simp]:
  "st_blobs (under_locks s) = st_blobs s" "rst_file (under_locks s) = rst_file s" "pst_file (under_locks s) = pst_file s"
  "st_events (under_locks s) = created (st_events s)"
  by (simp_all add: under_locks_def)

lemma Apply_promotion_Inr:
  fixes s s' :: "'a promotion_store_scheme"
  assumes "Apply_promotion pv faults now random request s = (s', Inr res)"
  shows "\<exists>r line. validateRequest_promotion (pv_engine pv) request = None \<and>
    promotion_record_for pv (pf_random faults) now random request (under_locks s) = Inr r \<and>
    marshal (promotion_record_json r) = Some line \<and> \<not> pst_lock s \<and> \<not> st_writer_lock s \<and>
    s' = s\<lparr>st_events := created (st_events s), pst_file := Readable (file_bytes (pst_file s) @ line @ [newline]) False\<rparr> \<and>
    res = \<lparr>pm_event_id = pe_event_id (pr_event r), pm_sequence = pr_sequence r, pm_hash = pr_hash r,
           pm_revision = record_revision r\<rparr>"
proof -
  have a: "validateRequest_promotion (pv_engine pv) request = None"
    using assms by (auto simp: Apply_promotion_def split: option.splits)
  have lk: "\<not> pst_lock s \<and> acquirePromotionLock (pf_lock faults) s = (s\<lparr>pst_lock := True\<rparr>, None)"
    using assms a by (auto simp: Apply_promotion_def acquirePromotionLock_def acquire_lock_def
        split: prod.splits option.splits if_splits lock_fault.splits)
  let ?open = "NewAppenderAfterVisit (pv_decode_evidence pv) (pv_filesystem pv) (pf_guard faults) nil_visitor () (s\<lparr>pst_lock := True\<rparr>)"
  obtain s2 ap where op: "?open = (s2, (), Inr ap)"
    using assms a lk by (cases ?open) (auto simp: Apply_promotion_def split: sum.splits)
  have s2: "s2 = under_locks s" "\<not> st_writer_lock s" "\<not> ap_closed ap"
    using NewAppenderAfterVisit_Inr [OF op] by (simp_all add: under_locks_def)
  obtain r where r: "promotion_record_for pv (pf_random faults) now random request s2 = Inr r"
    using assms a lk op by (auto simp: Apply_promotion_def split: sum.splits)
  obtain s3 where s3: "appendRecord_promotion (pf_append faults) r s2 = (s3, None)"
    using assms a lk op r by (auto simp: Apply_promotion_def split: prod.splits option.splits)
  obtain s4 ap' where s4: "CloseAppender (pf_close_ok faults) (pf_guard_release_ok faults) ap s3 = (s4, ap', None)"
    using assms a lk op r s3 by (auto simp: Apply_promotion_def split: prod.splits option.splits)
  have fin: "s' = releasePromotionLock True s4" "res = \<lparr>pm_event_id = pe_event_id (pr_event r), pm_sequence = pr_sequence r,
      pm_hash = pr_hash r, pm_revision = record_revision r\<rparr>"
    using assms a lk op r s3 s4 by (auto simp: Apply_promotion_def split: if_splits)
  have s4': "s4 = s3\<lparr>st_writer_lock := False\<rparr>"
    using s4 s2(3) by (auto simp: CloseAppender_def releaseWriterLock_def split: if_splits)
  obtain f where ap: "append_bytes (pf_append faults) (encode_line (promotion_record_json r)) (pst_file s) = (f, None)"
    and s3': "s3 = s2\<lparr>pst_file := f\<rparr>"
    using s3 s2(1) by (auto simp: appendRecord_promotion_def split: prod.splits)
  obtain line where line: "marshal (promotion_record_json r) = Some line"
    using ap by (cases "marshal (promotion_record_json r)") (auto simp: encode_line_def append_bytes_def Let_def split: if_splits)
  have f: "f = Readable (file_bytes (pst_file s) @ line @ [newline]) False"
    using append_bytes_ok(1) [of "pf_append faults" "line @ [newline]" "pst_file s" f] ap by (simp add: encode_line_def line)
  have "s' = s\<lparr>st_events := created (st_events s), pst_file := Readable (file_bytes (pst_file s) @ line @ [newline]) False\<rparr>"
    unfolding fin(1) s4' s3' s2(1) f releasePromotionLock_def under_locks_def using lk s2(2) by (cases s) simp
  with a lk r line fin(2) s2 show ?thesis by blast
qed

text \<open>The ledger with the new line.\<close>

lemma new_promotion_accepted:
  fixes s s' :: "'a promotion_store_scheme"
  assumes rec: "promotion_record_for pv failed now random request s = Inr r"
    and req: "validateRequest_promotion (pv_engine pv) request = None" and named: "request_named pv request"
    and st: "replayVerified_promotion pv s = (st, None)"
    and fresh: "rn_revision_id (record_revision r) \<notin> set (ps_revisions st)"
    and line: "marshal (promotion_record_json r) = Some line" and dec: "pv_decode_promotion pv (line_payload line) = Some r"
    and f: "pst_file s' = Readable (file_bytes (pst_file s) @ line @ [newline]) False"
    and same: "st_events s' = st_events s" "st_blobs s' = st_blobs s" "rst_file s' = rst_file s"
  shows "\<exists>st'. replay_promotion pv (pst_file s') = (st', None) \<and> ps_history st' = ps_history st @ [r] \<and>
    (replayVerified_promotion pv s' = (st', None) \<longleftrightarrow> in_order pv s (record_revision r))"
proof -
  obtain st' where st': "replay_step_promotion (pv_engine pv) r st = Inr st'"
    using promotion_step_new [OF rec st fresh] by blast
  note old = replayVerified_promotion_iff [THEN iffD1, OF st]
  have ok: "promotion_state_ok (pv_engine pv) st" using replay_promotion_ok old by blast
  have new: "replay_promotion pv (pst_file s') = (st', None)"
    using replay_log_append [OF readable_log [OF conjunct1 [OF old, unfolded replay_promotion_def]] newline_marshal [OF line] dec st'] f
    by (simp add: replay_promotion_def)
  have h: "ps_history st' = ps_history st @ [r]" using st' by (simp add: replay_step_promotion_Inr)
  have "verifyPromotionSemantics pv s' (ps_history st') = None \<longleftrightarrow> in_order pv s (record_revision r)"
    unfolding h promotion_cong(3) [OF same] verifyPromotionSemantics_append [OF conjunct2 [OF old]]
    using prepared_verifies(1) [OF rec st req named] ok by (simp add: promotion_state_ok_def)
  with new h show ?thesis by (simp add: replayVerified_promotion_iff)
qed

end
