(* ===== verification/Promotion_Sample.thy ===== *)
theory Promotion_Sample
  imports Promotion_Apply Review_Claims
begin

text \<open>
  A sample for the witnesses of the memory promotion ledger: the reviewed candidate of the review sample, a
  request that promotes it, and the record that \<open>Apply\<close> writes.
\<close>

section \<open>The store\<close>

definition quiet_engine :: scan_engine where
  "quiet_engine = \<lparr>en_matches = (\<lambda>_ _. []), en_tokens = (\<lambda>_. []), en_entropy = (\<lambda>_. 0)\<rparr>"

lemma quiet_scan [simp]: "sr_findings (Scan quiet_engine t) = []" "sr_content_sha256 (Scan en t) = sha256_hex t"
proof -
  have "detector_hits quiet_engine t @ entropy_hits quiet_engine t = []"
    by (simp add: detector_hits_def entropy_hits_def quiet_engine_def)
  then show "sr_findings (Scan quiet_engine t) = []" by (simp add: Scan_def)
  show "sr_content_sha256 (Scan en t) = sha256_hex t" by (simp add: Scan_def split: prod.splits)
qed

lemma quiet_clean [simp]: "clean quiet_engine t"
  by (simp add: clean_def)

lemma quiet_redacts: "utf8_valid t \<Longrightarrow> ApplyRedactions quiet_engine t (Scan quiet_engine t) [] = Inr t"
  by (simp add: ApplyRedactions_def)

definition ready_store :: promotion_store where
  "ready_store = review_store.extend reviewed_store (promotion_store.fields NotExist False)"

lemma ready_store_fields [simp]:
  "st_events ready_store = st_events note_store" "st_blobs ready_store = st_blobs note_store"
  "rst_file ready_store = rst_file reviewed_store" "pst_file ready_store = NotExist" "\<not> pst_lock ready_store"
  "\<not> st_writer_lock ready_store" "st_root ready_store = [''evidence'']" "st_device_id ready_store = ''device-1''"
  by (simp_all add: ready_store_def reviewed_store_def note_store_def review_store.defs promotion_store.defs)

lemma sample_text: "cd_text sample_candidate = ''use tabs''" "cd_kind sample_candidate = KindConstraint"
proof -
  have a: "validObservation (sg_observation sample_stage)" using sample_stage_ok by (simp add: staged_ok_def)
  have "sg_text sample_stage = ''use tabs'' \<and> sg_kind sample_stage = KindConstraint"
    by (simp add: sample_stage_def deriveEpisodeObservations_def sample_episode_def List.map_filter_def derive_statement_def
        Let_def statement_support_def sample_statement_def sample_normalized sample_remember correction_evidence_def
        appendUnique_def)
  then show "cd_text sample_candidate = ''use tabs''" "cd_kind sample_candidate = KindConstraint"
    by (simp_all add: sample_candidate_def linked_def sample_aggregate_def link_candidate_def settle_candidate_def finalizeCandidate_def Let_def)
qed

definition sample_proof :: validation_proof where
  "sample_proof = snd (projr (ResolveCurrentValidation sample_env note_dec sample_rdec reviewed_store ''g'' sample_id
     (cd_content_sha256 sample_candidate) (rr_hash sample_review)))"

lemma sample_proof:
  "ResolveCurrentValidation sample_env note_dec sample_rdec reviewed_store ''g'' sample_id
     (cd_content_sha256 sample_candidate) (rr_hash sample_review) = Inr (sample_candidate, sample_proof)"
  using sample_resolves by (auto simp: sample_proof_def)

lemma sample_proof_fields:
  "vp_generation sample_proof = ''g''" "vp_candidates_sha256 sample_proof = sha256_hex ''c''"
  "vp_candidate_id sample_proof = sample_id" "vp_content_sha256 sample_proof = cd_content_sha256 sample_candidate"
  "vp_event_id sample_proof = re_event_id sample_review_event" "vp_record_sha256 sample_proof = rr_hash sample_review"
  "vp_reviewed_at sample_proof = 1" "vp_scope sample_proof = \<lparr>sp_kind = ScopeGlobal, sp_value = ''*''\<rparr>"
  "vp_basis sample_proof = [BasisExplicitUserConfirmation]" "vp_evidence sample_proof = [''e1'']"
proof -
  obtain st where st: "replayVerified_review sample_env note_dec sample_rdec reviewed_store = (st, None)" "rs_history st = [sample_review]"
    using reviewed_verified by blast
  have "\<exists>g c0. find_proof g c0 (rr_hash sample_review) [sample_review] = Inr (sample_candidate, sample_proof) \<and>
      select_verified sample_env note_dec reviewed_store ''g'' sample_id = Inr (g, c0)"
    using sample_proof st
    by (auto simp: ResolveCurrentValidation_def resolveValidation_def simp del: find_proof.simps split: if_splits sum.splits)
  then obtain g c0 where f: "find_proof g c0 (rr_hash sample_review) [sample_review] = Inr (sample_candidate, sample_proof)"
    "OpenGeneration sample_env ''g'' = Inr g" using select_verified_Inr by blast
  have "g = sample_generation" using f(2) sample_generation_opens by simp
  then have g: "gn_name g = ''g''" "cm_candidates_sha256 (gn_manifest g) = sha256_hex ''c''"
    by (simp_all add: sample_generation_def)
  have e: "re_transitions sample_review_event = [sample_moved]" "re_recorded_at sample_review_event = 1"
    by (simp_all add: sample_review_event_def)
  from find_proof_Inr [OF f(1)] obtain scope where sc: "tr_scope sample_moved = Some scope"
    and P: "sample_proof = \<lparr>vp_generation = gn_name g, vp_candidates_sha256 = cm_candidates_sha256 (gn_manifest g),
         vp_candidate_id = cd_candidate_id sample_candidate, vp_content_sha256 = cd_content_sha256 sample_candidate,
         vp_event_id = re_event_id sample_review_event, vp_record_sha256 = rr_hash sample_review, vp_sequence = rr_sequence sample_review,
         vp_reviewed_at = 1, vp_reviewer = re_reviewer sample_review_event, vp_scope = scope,
         vp_basis = tr_basis sample_moved, vp_evidence = tr_evidence sample_moved\<rparr>"
    by (auto simp: e)
  have "scope = \<lparr>sp_kind = ScopeGlobal, sp_value = ''*''\<rparr>" using sc by (simp add: sample_moved_def)
  then show "vp_generation sample_proof = ''g''" "vp_candidates_sha256 sample_proof = sha256_hex ''c''"
    "vp_candidate_id sample_proof = sample_id" "vp_content_sha256 sample_proof = cd_content_sha256 sample_candidate"
    "vp_event_id sample_proof = re_event_id sample_review_event" "vp_record_sha256 sample_proof = rr_hash sample_review"
    "vp_reviewed_at sample_proof = 1" "vp_scope sample_proof = \<lparr>sp_kind = ScopeGlobal, sp_value = ''*''\<rparr>"
    "vp_basis sample_proof = [BasisExplicitUserConfirmation]" "vp_evidence sample_proof = [''e1'']"
    by (simp_all add: P g) (simp_all add: sample_moved_def)
qed

section \<open>The promotion\<close>

definition sample_reference :: candidate_reference where
  "sample_reference = \<lparr>cr_generation = ''g'', cr_candidate_id = sample_id,
     cr_content_sha256 = cd_content_sha256 sample_candidate, cr_review_record = rr_hash sample_review\<rparr>"

definition sample_promote :: promotion_request where
  "sample_promote = \<lparr>pq_schema_version = PromotionRequestSchemaVersion,
     pq_approver = \<lparr>pa_kind = ApproverKindCallerAttestation, pa_id = ''rev''\<rparr>, pq_action = ActionPromote,
     pq_memory_id = [], pq_expected_revision = [], pq_candidate = Some sample_reference, pq_redactions = [],
     pq_expected_text = textDigest ''use tabs'', pq_reason = ''ok''\<rparr>"

definition sample_draft :: promotion_env where
  "sample_draft = \<lparr>pv_candidates = sample_env, pv_decode_evidence = note_dec, pv_decode_review = sample_rdec,
     pv_decode_promotion = (\<lambda>_. None), pv_audits = None, pv_engine = quiet_engine, pv_filesystem = sample_fs\<rparr>"

definition sample_memory_id :: string where
  "sample_memory_id = expectedMemoryID (textDigest ''use tabs'') (vp_scope sample_proof)"

definition sample_unnamed :: "gotime \<Rightarrow> revision" where
  "sample_unnamed now = active_revision sample_draft sample_promote sample_candidate sample_proof ''use tabs'' sample_memory_id []
     (base_revision ''device-1'' sample_promote now)"

definition sample_revision :: "gotime \<Rightarrow> revision" where
  "sample_revision now = (sample_unnamed now)\<lparr>rn_revision_id := the (revisionID (sample_unnamed now))\<rparr>"

definition sample_promotion_event :: "gotime \<Rightarrow> promotion_event" where
  "sample_promotion_event now = \<lparr>pe_schema_version = PromotionEventSchemaVersion,
     pe_event_id = ''promotion-'' @ NewEventID now ''r'', pe_recorded_at = now, pe_device_id = ''device-1'',
     pe_approver = pq_approver sample_promote, pe_request_sha256 = the (hashRequest_promotion sample_promote),
     pe_revision = sample_revision now, pe_privacy = ''local_only''\<rparr>"

definition sample_promotion :: "gotime \<Rightarrow> promotion_record" where
  "sample_promotion now = the (makeRecord_promotion (sample_promotion_event now) 1 [])"

definition sample_promotion_line :: "gotime \<Rightarrow> string" where
  "sample_promotion_line now = the (marshal (promotion_record_json (sample_promotion now)))"

text \<open>The sample environment decodes every line of the promotion ledger to the one record written at \<open>now\<close>.\<close>

definition sample_pv :: "gotime \<Rightarrow> promotion_env" where
  "sample_pv now = sample_draft\<lparr>pv_decode_promotion := \<lambda>_. Some (sample_promotion now)\<rparr>"

lemma sample_pv_fields [simp]:
  "pv_candidates (sample_pv now) = sample_env" "pv_decode_evidence (sample_pv now) = note_dec"
  "pv_decode_review (sample_pv now) = sample_rdec" "pv_engine (sample_pv now) = quiet_engine"
  "pv_decode_promotion (sample_pv now) l = Some (sample_promotion now)" "pv_filesystem (sample_pv now) = sample_fs"
  "pv_audits (sample_pv now) = None" "pv_engine sample_draft = quiet_engine"
  by (simp_all add: sample_pv_def sample_draft_def)

definition promoted_store :: "gotime \<Rightarrow> promotion_store" where
  "promoted_store now = ready_store\<lparr>pst_file := Readable (sample_promotion_line now @ [newline]) False\<rparr>"

lemma sample_ok_words: "trimSpace ''ok'' = ''ok''" "trimSpace ''*'' = ''*''" by code_simp+

lemma sample_promote_valid: "validateRequest_promotion quiet_engine sample_promote = None"
  using sample_hashes makeRecord_review_fields(4) [OF sample_review_made]
  by (simp add: validateRequest_promotion_def sample_promote_def ValidApproverKind_def sample_words sample_ok_words sample_reference_def textDigest_def)

lemma slice_json_None: "marshal (slice_json f v) = None \<longleftrightarrow> (\<exists>x \<in> set (slice_list v). marshal (f x) = None)"
  by (cases v) (simp_all add: slice_json_def slice_list_def marshal_None del: marshal.simps(6,7))

lemma promotion_json_None [simp]:
  "(marshal (approver_json a) = None) = False" "(marshal (candidate_reference_json c) = None) = False"
  "(marshal (redaction_json r) = None) = False" "(marshal (memory_source_json m) = None) = False"
  "(marshal (scan_attestation_json sa) = None) = False"
  by (simp_all add: approver_json_def candidate_reference_json_def redaction_json_def memory_source_json_def
      scan_attestation_json_def marshal_None slice_json_None bex_Un del: marshal.simps(6,7))

lemma promotion_request_json_None [simp]: "(marshal (promotion_request_json q) = None) = False"
  by (cases "pq_candidate q")
    (auto simp: promotion_request_json_def marshal_None bex_Un omit_list_def simp del: marshal.simps(6,7))

lemma revision_json_None: "marshal (revision_json v) = None \<longleftrightarrow> json_time (rn_recorded_at v) = None"
  by (cases "rn_source v"; cases "rn_scan v") (simp_all add: revision_json_def marshal_JObj_None bex_Un del: marshal.simps(7))

lemma promotion_event_json_None:
  "marshal (promotion_event_json e) = None \<longleftrightarrow> json_time (pe_recorded_at e) = None \<or> json_time (rn_recorded_at (pe_revision e)) = None"
  by (simp add: promotion_event_json_def marshal_JObj_None revision_json_None del: marshal.simps(7))

lemma promotion_record_json_None: "marshal (promotion_record_json r) = None \<longleftrightarrow> marshal (promotion_event_json (pr_event r)) = None"
  by (simp add: promotion_record_json_def marshal_JObj_None del: marshal.simps(7))

lemma sample_hash_promote: "\<exists>d. hashRequest_promotion sample_promote = Some (sha256_hex d)"
proof -
  obtain j where "marshal (promotion_request_json sample_promote) = Some j"
    using promotion_request_json_None [of sample_promote] by blast
  then show ?thesis by (auto simp: hashRequest_promotion_def)
qed

lemma sample_named:
  assumes t: "json_time now \<noteq> None"
  shows "\<exists>d. revisionID (sample_unnamed now) = Some (''memory-revision-'' @ sha256_hex d)"
    "with_revision_id (sample_unnamed now) = Inr (sample_revision now)"
proof -
  have "marshal (revision_json ((sample_unnamed now)\<lparr>rn_revision_id := []\<rparr>)) \<noteq> None"
    using t by (simp add: revision_json_None sample_unnamed_def)
  then show "\<exists>d. revisionID (sample_unnamed now) = Some (''memory-revision-'' @ sha256_hex d)" by (auto simp: revisionID_def)
  then show "with_revision_id (sample_unnamed now) = Inr (sample_revision now)"
    by (auto simp: with_revision_id_def sample_revision_def)
qed

lemma ready_verify:
  fixes s :: "'a review_store_scheme"
  assumes "st_events s = st_events note_store"
  shows "RequireCurrentEvidence sample_env (Verify note_dec s) audits sample_generation = None"
proof -
  have "blob_of note_record = None" by (simp add: blob_of_def) (simp add: note_event_def InlinePayload_def)
  then have c: "vr_issues (Verify note_dec s) = []"
    using note_log assms by (simp add: Verify_clean_iff blobs_ok_def)
  have "vr_last (Verify note_dec s) = lr_hash note_record" "vr_records (Verify note_dec s) = 1"
    using Verify_clean_log [OF c] note_log assms by simp_all
  with c show ?thesis
    by (simp add: RequireCurrentEvidence_def SourceEvidencePrefix_def sample_env_def sample_generation_def)
qed

lemma ready_resolves:
  fixes s :: "'a review_store_scheme"
  assumes "st_events s = st_events note_store" and "st_blobs s = st_blobs note_store" and "rst_file s = rst_file reviewed_store"
  shows "ResolveCurrentValidation sample_env note_dec sample_rdec s ''g'' sample_id
     (cd_content_sha256 sample_candidate) (rr_hash sample_review) = Inr (sample_candidate, sample_proof)"
  using sample_proof validation_cong [of s reviewed_store] assms
  by (simp add: ResolveCurrentValidation_def reviewed_store_def)

lemma ready_replays: "replayVerified_promotion pv ready_store = (initial_promotion_state, None)"
  by (simp add: replayVerified_promotion_def replay_promotion_def replay_log_def verifyPromotionSemantics_def)

lemma sample_utf8: "utf8_valid ''use tabs''" by code_simp

lemma ready_prepared:
  fixes s :: "'a promotion_store_scheme"
  assumes t: "json_time now \<noteq> None" and s: "st_events s = st_events note_store" "st_blobs s = st_blobs note_store"
    "rst_file s = rst_file reviewed_store" "st_device_id s = ''device-1''"
  shows "prepareRevision (sample_pv now) s sample_promote initial_promotion_state now = Inr (sample_revision now)"
proof -
  have id: "memory_identity sample_promote [] (vp_scope sample_proof) (cd_semantic_key_sha256 sample_candidate) (textDigest ''use tabs'') =
      Inr (sample_memory_id, [])"
    by (simp add: memory_identity_def sample_promote_def sample_memory_id_def)
  have f: "cr_generation sample_reference = ''g''" "cr_candidate_id sample_reference = sample_id"
    "cr_content_sha256 sample_reference = cd_content_sha256 sample_candidate" "cr_review_record sample_reference = rr_hash sample_review"
    "pq_candidate sample_promote = Some sample_reference" "pq_action sample_promote = ActionPromote"
    "pq_redactions sample_promote = []" "pq_expected_text sample_promote = textDigest ''use tabs''"
    by (simp_all add: sample_promote_def sample_reference_def)
  have u: "(base_revision ''device-1'' sample_promote now)\<lparr>rn_memory_id := sample_memory_id, rn_parent := [], rn_status := StatusActive,
      rn_kind := cd_kind sample_candidate, rn_text := ''use tabs'', rn_text_sha256 := textDigest ''use tabs'',
      rn_scope := vp_scope sample_proof,
      rn_source := Some \<lparr>so_generation = vp_generation sample_proof, so_candidates_sha256 = vp_candidates_sha256 sample_proof,
        so_candidate_id = vp_candidate_id sample_proof, so_content_sha256 = vp_content_sha256 sample_proof,
        so_semantic_key = cd_semantic_key_sha256 sample_candidate, so_review_event = vp_event_id sample_proof,
        so_review_record = vp_record_sha256 sample_proof, so_review_scope = vp_scope sample_proof,
        so_review_basis = vp_basis sample_proof\<rparr>,
      rn_scan := Some \<lparr>sa_scanner_version = ScannerVersion,
        sa_source_text = sr_content_sha256 (Scan quiet_engine ''use tabs''),
        sa_finding_ids = Some (findingIDs (Scan quiet_engine ''use tabs'')), sa_redactions = None,
        sa_redacted_text = textDigest ''use tabs''\<rparr>,
      rn_rule_change := cd_requires_approval sample_candidate\<rparr> = sample_unnamed now"
    by (simp add: sample_unnamed_def active_revision_def active_source_def active_attestation_def f sample_text(1) sample_draft_def)
  have "prepare_active (sample_pv now) s sample_promote sample_reference [] (base_revision ''device-1'' sample_promote now) =
      with_revision_id (sample_unnamed now)"
    unfolding prepare_active_def sample_pv_fields f sample_generation_opens sum.case ready_verify [OF s(1)] option.case Let_def
      ready_resolves [OF s(1-3)] prod.case sample_text(1) quiet_redacts [OF sample_utf8] id
    using u by simp
  then show ?thesis using sample_named(2) [OF t] by (simp add: prepareRevision_def f s(4))
qed

lemma sample_event_facts:
  assumes t: "json_time now \<noteq> None"
  shows "\<exists>d. pe_request_sha256 (sample_promotion_event now) = sha256_hex d \<and> hashRequest_promotion sample_promote = Some (sha256_hex d)"
    "makeRecord_promotion (sample_promotion_event now) 1 [] = Some (sample_promotion now)"
    "pr_event (sample_promotion now) = sample_promotion_event now"
    "marshal (promotion_record_json (sample_promotion now)) = Some (sample_promotion_line now)"
    "pr_sequence (sample_promotion now) = 1"
proof -
  show "\<exists>d. pe_request_sha256 (sample_promotion_event now) = sha256_hex d \<and> hashRequest_promotion sample_promote = Some (sha256_hex d)"
    using sample_hash_promote by (auto simp: sample_promotion_event_def)
  have j: "marshal (promotion_event_json (sample_promotion_event now)) \<noteq> None"
    using t by (simp add: promotion_event_json_None sample_promotion_event_def sample_revision_def sample_unnamed_def)
  then show m: "makeRecord_promotion (sample_promotion_event now) 1 [] = Some (sample_promotion now)"
    by (auto simp: sample_promotion_def makeRecord_promotion_def event_envelope_def envelope_def)
  show e: "pr_event (sample_promotion now) = sample_promotion_event now" "pr_sequence (sample_promotion now) = 1"
    using makeRecord_promotion_fields [OF m] by simp_all
  have "marshal (promotion_record_json (sample_promotion now)) \<noteq> None" using j by (simp add: promotion_record_json_None e)
  then show "marshal (promotion_record_json (sample_promotion now)) = Some (sample_promotion_line now)"
    by (simp add: sample_promotion_line_def)
qed

lemma sample_promotion_valid:
  assumes t: "json_time now \<noteq> None" and z: "\<not> isZeroTime now"
  shows "validateEvent_promotion quiet_engine (sample_promotion_event now) = None"
proof -
  obtain rid where d: "revisionID (sample_unnamed now) = Some rid" "validPrefixedHash rid ''memory-revision-''"
    using sample_named(1) [OF t] validPrefixedHash_append validSHA256_sha256_hex by metis
  obtain q where q: "pe_request_sha256 (sample_promotion_event now) = sha256_hex q" using sample_event_facts(1) [OF t] by blast
  have key: "validSHA256 (cd_semantic_key_sha256 sample_candidate)"
    using sample_candidate_valid by (simp only: validateCandidate_def Let_def first_error_Cons fail_if_None) blast
  have src: "validateSource (active_source sample_candidate sample_proof) (vp_scope sample_proof) = None"
    using sample_hashes key makeRecord_review_fields(4) [OF sample_review_made]
    by (simp add: validateSource_def active_source_def sample_proof_fields sample_words hasPrefix_def sample_review_event_def
        validReviewBasis_def strictly_sorted_def)
  have att: "validateScanAttestation (active_attestation quiet_engine sample_promote sample_candidate ''use tabs'') (textDigest ''use tabs'') = None"
    by (simp add: validateScanAttestation_def active_attestation_def textDigest_def sample_promote_def slice_list_def findingIDs_def
        strictly_sorted_def)
  have act: "check_active quiet_engine (sample_revision now) = None"
    by (simp add: check_active_def sample_revision_def sample_unnamed_def textDigest_def [symmetric] src att)
      (simp add: textDigest_def; code_simp)
  have f: "rn_schema_version (sample_revision now) = RevisionSchemaVersion" "rn_memory_id (sample_revision now) = sample_memory_id"
    "rn_revision_id (sample_revision now) = rid" "rn_parent (sample_revision now) = []"
    "rn_recorded_at (sample_revision now) = now" "rn_device_id (sample_revision now) = ''device-1''"
    "rn_approver_id (sample_revision now) = ''rev''" "rn_reason (sample_revision now) = ''ok''"
    "rn_authorization (sample_revision now) = ''not_granted''" "rn_privacy (sample_revision now) = ''local_only''"
    "rn_kind (sample_revision now) = KindConstraint" "rn_scope (sample_revision now) = vp_scope sample_proof"
    "rn_action (sample_revision now) = ActionPromote"
    using d(1) by (simp_all add: sample_revision_def sample_unnamed_def active_revision_def base_revision_def sample_promote_def sample_text)
  have ids: "validPrefixedHash sample_memory_id ''memory-''"
    unfolding sample_memory_id_def expectedMemoryID_def by (simp only: validPrefixedHash_append validSHA256_sha256_hex)
  have sc: "validScope_promotion (vp_scope sample_proof)"
    by (simp add: validScope_promotion_def sample_proof_fields sample_words sample_ok_words containsAny_def)
  have v: "validateRevisionSyntax quiet_engine (sample_revision now) = None"
    unfolding validateRevisionSyntax_def f
    by (simp add: ids d(2) sc act z sample_words validKind_def)
  have e: "pe_schema_version (sample_promotion_event now) = PromotionEventSchemaVersion"
    "pe_event_id (sample_promotion_event now) = ''promotion-'' @ NewEventID now ''r''" "pe_recorded_at (sample_promotion_event now) = now"
    "pe_device_id (sample_promotion_event now) = ''device-1''" "pa_kind (pe_approver (sample_promotion_event now)) = ApproverKindCallerAttestation"
    "pa_id (pe_approver (sample_promotion_event now)) = ''rev''" "pe_revision (sample_promotion_event now) = sample_revision now"
    "pe_privacy (sample_promotion_event now) = ''local_only''"
    by (simp_all add: sample_promotion_event_def sample_promote_def)
  show ?thesis
    unfolding validateEvent_promotion_def e q f
    by (simp add: v z sample_words hasPrefix_def ValidApproverKind_def)
qed

lemma no_locks: "under_locks ready_store = ready_store\<lparr>pst_lock := True, st_writer_lock := True\<rparr>"
  by (simp add: under_locks_def created_def note_store_def ready_store_def promotion_store.defs review_store.defs reviewed_store_def)

lemma sample_promotion_for:
  assumes t: "json_time now \<noteq> None" and z: "\<not> isZeroTime now"
  shows "promotion_record_for (sample_pv now) False now ''r'' sample_promote (under_locks ready_store) = Inr (sample_promotion now)"
proof -
  have r: "replayVerified_promotion (sample_pv now) (under_locks ready_store) = (initial_promotion_state, None)"
    by (simp add: replayVerified_promotion_def replay_promotion_def replay_log_def verifyPromotionSemantics_def)
  have p: "prepareRevision (sample_pv now) (under_locks ready_store) sample_promote initial_promotion_state now = Inr (sample_revision now)"
    by (rule ready_prepared [OF t]) (simp_all add: no_locks)
  obtain q where q: "pe_request_sha256 (sample_promotion_event now) = sha256_hex q" "hashRequest_promotion sample_promote = Some (sha256_hex q)"
    using sample_event_facts(1) [OF t] by blast
  have e: "\<lparr>pe_schema_version = PromotionEventSchemaVersion, pe_event_id = ''promotion-'' @ NewEventID now ''r'', pe_recorded_at = now,
      pe_device_id = st_device_id (under_locks ready_store), pe_approver = pq_approver sample_promote, pe_request_sha256 = sha256_hex q,
      pe_revision = sample_revision now, pe_privacy = ''local_only''\<rparr> = sample_promotion_event now"
    by (simp add: sample_promotion_event_def q no_locks)
  show ?thesis
    unfolding promotion_record_for_def r prod.case option.case p sum.case q Let_def e
    using sample_promotion_valid [OF t z] sample_event_facts(2) [OF t] by simp
qed


section \<open>The run\<close>

lemma sample_promotion_apply:
  assumes t: "json_time now \<noteq> None" and z: "\<not> isZeroTime now"
  shows "\<exists>res. Apply_promotion (sample_pv now) no_promotion_faults now ''r'' sample_promote ready_store = (promoted_store now, Inr res)"
proof -
  let ?nf = no_promotion_faults
  have f: "pf_lock ?nf = None" "pf_guard ?nf = no_open_faults" "pf_random ?nf = False" "pf_append ?nf = None"
    "pf_close_ok ?nf = True" "pf_guard_release_ok ?nf = True" "pf_release_ok ?nf = True"
    by (simp_all add: no_promotion_faults_def)
  have lk: "acquirePromotionLock None ready_store = (ready_store\<lparr>pst_lock := True\<rparr>, None)"
    by (simp add: acquirePromotionLock_def acquire_lock_def)
  have f_events: "st_events note_store \<noteq> NotExist" "st_events note_store \<noteq> OpenFails" by (simp_all add: note_store_def)
  have vis: "visitRecords note_dec nil_visitor (st_events note_store) () = ((), Inr (lr_hash note_record))"
    unfolding visitRecords_Inr by (simp add: note_log nil_visitor_def)
  have op: "NewAppenderAfterVisit note_dec sample_fs no_open_faults nil_visitor () (ready_store\<lparr>pst_lock := True\<rparr>) =
      (under_locks ready_store, (), Inr \<lparr>ap_previous = lr_hash note_record, ap_failed = False, ap_closed = False\<rparr>)"
    using vis sample_guard f_events
    by (simp add: NewAppenderAfterVisit_def acquireWriterLock_def acquire_lock_def no_open_faults_def openAppenderAt_def no_locks)
  have ap: "appendRecord_promotion None (sample_promotion now) (under_locks ready_store) =
      ((under_locks ready_store)\<lparr>pst_file := Readable (sample_promotion_line now @ [newline]) False\<rparr>, None)"
    by (simp add: appendRecord_promotion_def encode_line_def sample_event_facts(4) [OF t] append_bytes_def file_bytes_def Let_def)
  have cl: "CloseAppender True True \<lparr>ap_previous = lr_hash note_record, ap_failed = False, ap_closed = False\<rparr> s =
      (s\<lparr>st_writer_lock := False\<rparr>, \<lparr>ap_previous = lr_hash note_record, ap_failed = False, ap_closed = True\<rparr>, None)"
    for s :: promotion_store
    by (simp add: CloseAppender_def releaseWriterLock_def)
  have fin: "releasePromotionLock True (((under_locks ready_store)\<lparr>pst_file := Readable (sample_promotion_line now @ [newline]) False\<rparr>)
      \<lparr>st_writer_lock := False\<rparr>) = promoted_store now"
    by (simp add: releasePromotionLock_def promoted_store_def no_locks)
      (simp add: ready_store_def promotion_store.defs review_store.defs reviewed_store_def note_store_def)?
  show ?thesis
    unfolding Apply_promotion_def sample_pv_fields sample_promote_valid option.case f lk prod.case op sum.case
      sample_promotion_for [OF t z] ap cl if_True fin
    by blast
qed

end
