(* ===== verification/Promotion_Claims.thy ===== *)
theory Promotion_Claims
  imports Promotion_Sample
begin

text \<open>
  The properties of the memory promotion ledger, over \<open>Apply\<close>, the replays and the lookups, each with a witness
  on the sample store.
\<close>

section \<open>The sample\<close>

lemma sample_times: "json_time 2 \<noteq> None" by code_simp

lemma sample_in_order:
  fixes s :: "'a promotion_store_scheme"
  assumes "st_events s = st_events note_store" and "st_blobs s = st_blobs note_store" and "rst_file s = rst_file reviewed_store"
  shows "in_order (sample_pv now) s (sample_revision now) \<longleftrightarrow> 1 \<le> now"
proof -
  have "rn_source (sample_revision now) = Some (active_source sample_candidate sample_proof)" "rn_recorded_at (sample_revision now) = now"
    by (simp_all add: sample_revision_def sample_unnamed_def)
  moreover have "resolve_source (sample_pv now) s (active_source sample_candidate sample_proof) = Inr (sample_candidate, sample_proof)"
    using ready_resolves [OF assms] by (simp add: resolve_source_def active_source_def sample_proof_fields)
  ultimately show ?thesis by (simp add: in_order_def sample_proof_fields)
qed

lemma under_ready [simp]: "st_events (under_locks ready_store) = st_events note_store"
  by (simp add: created_def) (simp add: note_store_def)

lemma sample_request_named: "request_named (sample_pv now) sample_promote"
  using sample_generation_opens
  by (auto simp: request_named_def sample_promote_def sample_reference_def opens_own_name_def
      sample_generation_def [THEN arg_cong, of gn_name])

section \<open>Writing\<close>

text \<open>Property C16. A successful \<open>Apply\<close> of the promotion ledger appends exactly one line, touches nothing else but
  creating the evidence file, and releases both locks; when the line decodes to the record it encodes, the
  generation opens under the requested name and the revision id is new, the ledger replays to the old history and
  the new record, and the verified replay accepts it exactly when the record is not dated before the validation
  that it rests on. (\<open>Apply\<close> does not compare the clock with that date: a clock set back makes it write a record
  that every later verified replay refuses.)\<close>

theorem Apply_promotion_ok:
  assumes "Apply_promotion pv faults now random request s = (s', Inr res)"
  shows "\<exists>r line st. promotion_record_for pv (pf_random faults) now random request (under_locks s) = Inr r \<and>
    marshal (promotion_record_json r) = Some line \<and> replayVerified_promotion pv (under_locks s) = (st, None) \<and>
    \<not> pst_lock s' \<and> \<not> st_writer_lock s' \<and>
    s' = s\<lparr>st_events := created (st_events s), pst_file := Readable (file_bytes (pst_file s) @ line @ [newline]) False\<rparr> \<and>
    res = \<lparr>pm_event_id = pe_event_id (pr_event r), pm_sequence = pr_sequence r, pm_hash = pr_hash r,
           pm_revision = record_revision r\<rparr> \<and>
    (pv_decode_promotion pv (line_payload line) = Some r \<and> request_named pv request \<and>
       rn_revision_id (record_revision r) \<notin> set (ps_revisions st) \<longrightarrow>
       (\<exists>st'. replay_promotion pv (pst_file s') = (st', None) \<and> ps_history st' = ps_history st @ [r] \<and>
          (replayVerified_promotion pv s' = (st', None) \<longleftrightarrow> in_order pv (under_locks s) (record_revision r))))"
proof -
  obtain r line where a: "validateRequest_promotion (pv_engine pv) request = None"
    "promotion_record_for pv (pf_random faults) now random request (under_locks s) = Inr r"
    "marshal (promotion_record_json r) = Some line" "\<not> pst_lock s" "\<not> st_writer_lock s"
    "s' = s\<lparr>st_events := created (st_events s), pst_file := Readable (file_bytes (pst_file s) @ line @ [newline]) False\<rparr>"
    "res = \<lparr>pm_event_id = pe_event_id (pr_event r), pm_sequence = pr_sequence r, pm_hash = pr_hash r, pm_revision = record_revision r\<rparr>"
    using Apply_promotion_Inr [OF assms] by blast
  obtain st where st: "replayVerified_promotion pv (under_locks s) = (st, None)" using promotion_record_for_Inr [OF a(2)] by blast
  have s': "\<not> pst_lock s'" "\<not> st_writer_lock s'" "st_events s' = st_events (under_locks s)" "st_blobs s' = st_blobs (under_locks s)"
    "rst_file s' = rst_file (under_locks s)"
    "pst_file s' = Readable (file_bytes (pst_file (under_locks s)) @ line @ [newline]) False"
    using a(4,5) by (simp_all add: a(6))
  have "\<exists>st'. replay_promotion pv (pst_file s') = (st', None) \<and> ps_history st' = ps_history st @ [r] \<and>
      (replayVerified_promotion pv s' = (st', None) \<longleftrightarrow> in_order pv (under_locks s) (record_revision r))"
    if "pv_decode_promotion pv (line_payload line) = Some r \<and> request_named pv request \<and>
       rn_revision_id (record_revision r) \<notin> set (ps_revisions st)"
    using new_promotion_accepted [OF a(2,1) _ st _ a(3) _ s'(6,3-5)] that by blast
  with a(2,3,6,7) st s'(1,2) show ?thesis by blast
qed

lemma sample_promoted_history:
  assumes t: "json_time now \<noteq> None" and z: "\<not> isZeroTime now" and o: "1 \<le> now"
  shows "\<exists>st. replayVerified_promotion (sample_pv now) (promoted_store now) = (st, None) \<and> ps_history st = [sample_promotion now]"
proof -
  have f: "pst_file (promoted_store now) = Readable (file_bytes (pst_file (under_locks ready_store)) @ sample_promotion_line now @ [newline]) False"
    "st_events (promoted_store now) = st_events (under_locks ready_store)" "st_blobs (promoted_store now) = st_blobs (under_locks ready_store)"
    "rst_file (promoted_store now) = rst_file (under_locks ready_store)"
    unfolding under_ready by (simp_all add: promoted_store_def file_bytes_def)
  have r: "replayVerified_promotion (sample_pv now) (under_locks ready_store) = (initial_promotion_state, None)"
    by (simp add: replayVerified_promotion_def replay_promotion_def replay_log_def verifyPromotionSemantics_def)
  have d: "pv_decode_promotion (sample_pv now) (line_payload (sample_promotion_line now)) = Some (sample_promotion now)" by simp
  have v: "validateRequest_promotion (pv_engine (sample_pv now)) sample_promote = None" using sample_promote_valid by simp
  have "in_order (sample_pv now) (under_locks ready_store) (record_revision (sample_promotion now))"
    using sample_in_order [of "under_locks ready_store" now] o sample_event_facts(3) [OF t]
    by (simp add: sample_promotion_event_def del: under_locks_fields(4))
  with new_promotion_accepted [OF sample_promotion_for [OF t z] v sample_request_named r _ sample_event_facts(4) [OF t] d f]
  show ?thesis by auto
qed

theorem Apply_promotion_ok_witness:
  "\<exists>st'. replayVerified_promotion (sample_pv 2) (promoted_store 2) = (st', None) \<and> ps_history st' = [sample_promotion 2]"
proof -
  obtain res where ap: "Apply_promotion (sample_pv 2) no_promotion_faults 2 ''r'' sample_promote ready_store = (promoted_store 2, Inr res)"
    using sample_promotion_apply [OF sample_times] by auto
  obtain r line st where a: "promotion_record_for (sample_pv 2) (pf_random no_promotion_faults) 2 ''r'' sample_promote (under_locks ready_store) = Inr r"
    "replayVerified_promotion (sample_pv 2) (under_locks ready_store) = (st, None)"
    and b: "pv_decode_promotion (sample_pv 2) (line_payload line) = Some r \<and> request_named (sample_pv 2) sample_promote \<and>
       rn_revision_id (record_revision r) \<notin> set (ps_revisions st) \<longrightarrow>
       (\<exists>st'. replay_promotion (sample_pv 2) (pst_file (promoted_store 2)) = (st', None) \<and> ps_history st' = ps_history st @ [r] \<and>
          (replayVerified_promotion (sample_pv 2) (promoted_store 2) = (st', None) \<longleftrightarrow>
            in_order (sample_pv 2) (under_locks ready_store) (record_revision r)))"
    using Apply_promotion_ok [OF ap] by blast
  have r: "r = sample_promotion 2" using a(1) sample_promotion_for [OF sample_times] by (simp add: no_promotion_faults_def)
  have st: "st = initial_promotion_state"
    using a(2) by (simp add: replayVerified_promotion_def replay_promotion_def replay_log_def verifyPromotionSemantics_def)
  have "in_order (sample_pv 2) (under_locks ready_store) (record_revision (sample_promotion 2))"
    using sample_in_order [of "under_locks ready_store" 2] sample_event_facts(3) [OF sample_times]
    by (simp add: sample_promotion_event_def del: under_locks_fields(4))
  with b show ?thesis by (auto simp: r st sample_request_named)
qed

text \<open>Property C21. The request of a promotion is recoverable from the record that \<open>Apply\<close> writes for it:
  \<open>requestFromRevision\<close> returns it unchanged, and its digest is the one in the record.\<close>

theorem request_round_trip:
  assumes "promotion_record_for pv failed now random request s = Inr r"
    and "validateRequest_promotion (pv_engine pv) request = None" and "request_named pv request"
  shows "requestFromRevision (pv_engine pv) (pr_event r) = Inr request \<and>
    hashRequest_promotion request = Some (pe_request_sha256 (pr_event r))"
proof -
  obtain st where st: "replayVerified_promotion pv s = (st, None)" using promotion_record_for_Inr [OF assms(1)] by blast
  from prepared_verifies(2) [OF assms(1) st assms(2,3)] promotion_record_for_Inr [OF assms(1)] show ?thesis by blast
qed

theorem request_round_trip_witness:
  "requestFromRevision quiet_engine (sample_promotion_event 2) = Inr sample_promote"
proof -
  have v: "validateRequest_promotion (pv_engine (sample_pv 2)) sample_promote = None" using sample_promote_valid by simp
  from request_round_trip [OF sample_promotion_for [OF sample_times] v sample_request_named] show ?thesis
    using sample_event_facts(3) [OF sample_times] by simp
qed

section \<open>The lifecycle of a memory\<close>

lemma lifecycle_nth:
  assumes "lifecycle vs" and "i < length vs"
  shows "(i = 0 \<longrightarrow> rn_action (vs ! i) = ActionPromote \<and> rn_parent (vs ! i) = []) \<and>
    (0 < i \<longrightarrow> rn_status (vs ! (i - 1)) = StatusActive \<and> rn_parent (vs ! i) = rn_revision_id (vs ! (i - 1)) \<and>
       (rn_action (vs ! i) = ActionSupersede \<or> rn_action (vs ! i) = ActionRevoke \<and> rn_scope (vs ! i) = rn_scope (vs ! (i - 1)))) \<and>
    (if rn_action (vs ! i) = ActionRevoke then rn_status (vs ! i) = StatusRevoked else rn_status (vs ! i) = StatusActive)"
  using assms
proof (induction vs arbitrary: i rule: rev_induct)
  case (snoc v vs)
  show ?case
  proof (cases "vs = []")
    case True
    with snoc.prems show ?thesis by simp
  next
    case False
    note l = snoc.prems(1) [unfolded lifecycle_snoc [OF False]]
    show ?thesis
    proof (cases "i < length vs")
      case True
      with snoc.IH [OF conjunct1 [OF l] True] show ?thesis by (auto simp: nth_append split: if_splits)
    next
      case new: False
      with snoc.prems(2) have "i = length vs" by simp
      with l False show ?thesis by (auto simp: nth_append last_conv_nth)
    qed
  qed
qed simp

text \<open>Property C18. The life of a promoted memory, in every ledger that replays: it begins with a promotion that has
  no parent; every later revision names the revision before it as its parent and follows an active one, so that a
  revoked memory never comes back; a revocation keeps the scope; the revisions of a memory are counted, the current
  one is the last, and no revision id occurs twice in the ledger.\<close>

theorem memory_lifecycle:
  assumes "replay_promotion pv f = (st, e)"
  shows "let vs = memory_revisions m (ps_history st) in
    ps_counts st m = length vs \<and> map_of (ps_current st) m = (if vs = [] then None else Some (last vs)) \<and>
    distinct (map (rn_revision_id \<circ> record_revision) (ps_history st)) \<and>
    (\<forall>i < length vs.
       (i = 0 \<longrightarrow> rn_action (vs ! i) = ActionPromote \<and> rn_parent (vs ! i) = []) \<and>
       (0 < i \<longrightarrow> rn_status (vs ! (i - 1)) = StatusActive \<and> rn_parent (vs ! i) = rn_revision_id (vs ! (i - 1)) \<and>
         (rn_action (vs ! i) = ActionSupersede \<or> rn_action (vs ! i) = ActionRevoke \<and> rn_scope (vs ! i) = rn_scope (vs ! (i - 1)))) \<and>
       (if rn_action (vs ! i) = ActionRevoke then rn_status (vs ! i) = StatusRevoked else rn_status (vs ! i) = StatusActive))"
proof -
  note ok = replay_promotion_ok [OF assms, unfolded promotion_state_ok_def]
  have l: "lifecycle (memory_revisions m (ps_history st))" using ok by blast
  show ?thesis unfolding Let_def
    using ok current_of_last [of "ps_history st" m] lifecycle_nth [OF l] by presburger
qed

theorem memory_lifecycle_witness:
  "\<exists>st. replay_promotion (sample_pv 2) (pst_file (promoted_store 2)) = (st, None) \<and>
     ps_counts st sample_memory_id = 1 \<and> map_of (ps_current st) sample_memory_id = Some (sample_revision 2)"
proof -
  obtain st where st: "replayVerified_promotion (sample_pv 2) (promoted_store 2) = (st, None)" "ps_history st = [sample_promotion 2]"
    using sample_promoted_history [OF sample_times] by auto
  have "record_revision (sample_promotion 2) = sample_revision 2" "rn_memory_id (sample_revision 2) = sample_memory_id"
    using sample_event_facts(3) [OF sample_times] by (simp_all add: sample_promotion_event_def sample_revision_def sample_unnamed_def)
  then have v: "memory_revisions sample_memory_id (ps_history st) = [sample_revision 2]"
    using memory_revisions_simps(2) [of sample_memory_id "[]" "sample_promotion 2"] st(2) by simp
  have "replay_promotion (sample_pv 2) (pst_file (promoted_store 2)) = (st, None)"
    using st(1) by (simp add: replayVerified_promotion_iff)
  with memory_lifecycle [OF this, of sample_memory_id, unfolded v] show ?thesis by (auto simp: Let_def)
qed

text \<open>A revision of the verified history, with what the verified replay checked when it came to it.\<close>

lemma verified_revision:
  assumes st: "replayVerified_promotion pv s = (st, None)" and r: "r \<in> set (ps_history st)"
    and act: "rn_status (record_revision r) = StatusActive"
  shows "\<exists>pre source scan. rn_source (record_revision r) = Some source \<and> rn_scan (record_revision r) = Some scan \<and>
    verify_active pv s (current_of pre) (pr_sequence r) (record_revision r) source scan = None \<and>
    check_active (pv_engine pv) (record_revision r) = None \<and>
    validateEvent_promotion (pv_engine pv) (pr_event r) = None"
proof -
  note old = replayVerified_promotion_iff [THEN iffD1, OF st]
  have ev: "validateEvent_promotion (pv_engine pv) (pr_event r) = None"
    using replay_promotion_ok old r by (simp add: promotion_state_ok_def) blast
  then have rev: "validateRevisionSyntax (pv_engine pv) (record_revision r) = None" by (simp add: validateEvent_promotion_def)
  then have a: "rn_action (record_revision r) = ActionPromote \<or> rn_action (record_revision r) = ActionSupersede"
    "check_active (pv_engine pv) (record_revision r) = None"
    using act by (auto simp: validateRevisionSyntax_def split: if_splits)
  obtain pre post where h: "ps_history st = pre @ r # post" using r by (meson split_list)
  then have "verify_promotion_record pv s r (current_of pre) = Inr (current_of (pre @ [r]))"
    using old by (simp add: verifyPromotionSemantics_iff)
  with a ev show ?thesis unfolding verify_promotion_record_Inr by blast
qed

text \<open>Property C17. A memory that is active in a ledger that passes the verified replay says nothing that was not
  reviewed: its text is the candidate's text with the recorded redactions, in which the scanner finds nothing, its
  kind, scope and rule-change flag are those of a candidate whose validation record exists, is not later than the
  revision and rests on the evidence (\<open>grounded\<close>); the metadata is clean too, and no rule change is ever
  authorized by a promotion.\<close>

theorem active_memory_grounded:
  assumes "replayVerified_promotion pv s = (st, None)" and "map_of (ps_current st) m = Some v" and "rn_status v = StatusActive"
    and "\<forall>p g. OpenGeneration (pv_candidates pv) p = Inr g \<longrightarrow> OpenGeneration (pv_candidates pv) (gn_name g) = Inr g"
  shows "\<exists>source scan c p. rn_source v = Some source \<and> rn_scan v = Some scan \<and>
    VerifyValidationRecord (pv_candidates pv) (pv_decode_evidence pv) (pv_decode_review pv) s (so_generation source)
      (so_candidate_id source) (so_content_sha256 source) (so_review_record source) = Inr (c, p) \<and>
    ApplyRedactions (pv_engine pv) (cd_text c) (Scan (pv_engine pv) (cd_text c)) (slice_list (sa_redactions scan)) = Inr (rn_text v) \<and>
    clean (pv_engine pv) (rn_text v) \<and> clean (pv_engine pv) (rn_reason v) \<and> clean (pv_engine pv) (rn_approver_id v) \<and>
    clean (pv_engine pv) (sp_value (rn_scope v)) \<and> rn_text_sha256 v = sha256_hex (rn_text v) \<and>
    rn_kind v = cd_kind c \<and> rn_scope v = vp_scope p \<and> rn_rule_change v = cd_requires_approval c \<and>
    rn_authorization v = ''not_granted'' \<and> vp_reviewed_at p \<le> rn_recorded_at v \<and>
    grounded (pv_decode_evidence pv) s c (vp_basis p) (vp_evidence p)"
proof -
  have ok: "promotion_state_ok (pv_engine pv) st"
    using replay_promotion_ok replayVerified_promotion_iff [THEN iffD1, OF assms(1)] by blast
  have "map_of (current_of (ps_history st)) m = Some v" using ok assms(2) by (simp add: promotion_state_ok_def)
  then have "v \<in> set (memory_revisions m (ps_history st))"
    unfolding current_of_last by (auto split: if_splits)
  then obtain r where r: "r \<in> set (ps_history st)" "record_revision r = v" by (auto simp: memory_revisions_def)
  from verified_revision [OF assms(1) r(1)] assms(3) r(2) obtain cur source scan
    where s: "rn_source v = Some source" "rn_scan v = Some scan" "verify_active pv s cur (pr_sequence r) v source scan = None"
      "check_active (pv_engine pv) v = None" "validateEvent_promotion (pv_engine pv) (pr_event r) = None" by auto
  from s(3) [unfolded verify_active_None] obtain c p where c: "VerifyValidationRecord (pv_candidates pv) (pv_decode_evidence pv)
      (pv_decode_review pv) s (so_generation source) (so_candidate_id source) (so_content_sha256 source) (so_review_record source) = Inr (c, p)"
    "compareVerifiedSource (pr_sequence r) v (c, p) = None"
    "ApplyRedactions (pv_engine pv) (cd_text c) (Scan (pv_engine pv) (cd_text c)) (slice_list (sa_redactions scan)) = Inr (rn_text v)"
    by blast
  have g: "grounded (pv_decode_evidence pv) s c (vp_basis p) (vp_evidence p)"
    using resolved_core [OF c(1) [unfolded VerifyValidationRecord_def]] assms(4) by blast
  have cmp: "rn_kind v = cd_kind c" "rn_scope v = vp_scope p" "rn_rule_change v = cd_requires_approval c"
    "vp_reviewed_at p \<le> rn_recorded_at v"
    using c(2) s(1) by (auto simp: compareVerifiedSource_def)
  have tx: "rn_text_sha256 v = sha256_hex (rn_text v)" "clean (pv_engine pv) (rn_text v)"
    using s(1,2,4) by (auto simp: check_active_def textDigest_def)
  have rev: "validateRevisionSyntax (pv_engine pv) v = None" using s(5) r(2) by (simp add: validateEvent_promotion_def)
  have meta: "clean (pv_engine pv) (rn_reason v)" "clean (pv_engine pv) (rn_approver_id v)" "clean (pv_engine pv) (sp_value (rn_scope v))"
    "rn_authorization v = ''not_granted''"
    using rev by (simp_all add: validateRevisionSyntax_def)
  show ?thesis using s(1,2) c(1,3) tx meta cmp g by blast
qed

lemma sample_generations_named:
  "\<forall>p g. OpenGeneration sample_env p = Inr g \<longrightarrow> OpenGeneration sample_env (gn_name g) = Inr g"
proof (intro allI impI)
  fix p g assume "OpenGeneration sample_env p = Inr g"
  then have "p = ''g''"
    by (auto simp: OpenGeneration_def sample_env_def split: if_splits option.splits)
  then have "g = sample_generation" using \<open>OpenGeneration sample_env p = Inr g\<close> sample_generation_opens by simp
  then show "OpenGeneration sample_env (gn_name g) = Inr g"
    using sample_generation_opens by (simp add: sample_generation_def [THEN arg_cong, of gn_name])
qed

theorem active_memory_grounded_witness:
  "\<exists>st v. replayVerified_promotion (sample_pv 2) (promoted_store 2) = (st, None) \<and> map_of (ps_current st) sample_memory_id = Some v \<and>
     rn_text v = ''use tabs'' \<and> clean quiet_engine (rn_text v) \<and> rn_authorization v = ''not_granted''"
proof -
  obtain st where st: "replayVerified_promotion (sample_pv 2) (promoted_store 2) = (st, None)" "ps_history st = [sample_promotion 2]"
    using sample_promoted_history [OF sample_times] by auto
  have ok: "promotion_state_ok quiet_engine st"
    using replay_promotion_ok replayVerified_promotion_iff [THEN iffD1, OF st(1)] by (metis sample_pv_fields(4))
  have v: "record_revision (sample_promotion 2) = sample_revision 2" "rn_memory_id (sample_revision 2) = sample_memory_id"
    "rn_status (sample_revision 2) = StatusActive" "rn_text (sample_revision 2) = ''use tabs''"
    using sample_event_facts(3) [OF sample_times] by (simp_all add: sample_promotion_event_def sample_revision_def sample_unnamed_def)
  then have c: "map_of (ps_current st) sample_memory_id = Some (sample_revision 2)"
    using ok current_of_simps(2) [of "[]" "sample_promotion 2"] by (simp add: promotion_state_ok_def st(2) set_current_def)
  from active_memory_grounded [OF st(1) c v(3)] sample_generations_named
  have "clean quiet_engine (rn_text (sample_revision 2))" "rn_authorization (sample_revision 2) = ''not_granted''" by auto
  with st(1) c v(4) show ?thesis by blast
qed

section \<open>One memory for a meaning\<close>

text \<open>No two current memories have the same scope and the same meaning.\<close>

definition one_per_meaning :: "(string \<times> revision) list \<Rightarrow> bool" where
  "one_per_meaning current \<longleftrightarrow>
     (\<forall>m m' v v' key. map_of current m = Some v \<and> map_of current m' = Some v' \<and>
        same_memory (rn_scope v) key v \<and> same_memory (rn_scope v) key v' \<longrightarrow> m = m')"

definition keeps_scope :: "(string \<times> revision) list \<Rightarrow> revision \<Rightarrow> bool" where
  "keeps_scope current v \<longleftrightarrow> rn_action v \<noteq> ActionSupersede \<or>
     (case map_of current (rn_memory_id v) of None \<Rightarrow> True | Some c \<Rightarrow> rn_scope c = rn_scope v)"

definition supersessions_keep_scope :: "promotion_record list \<Rightarrow> bool" where
  "supersessions_keep_scope rs \<longleftrightarrow> (\<forall>i < length rs. keeps_scope (current_of (take i rs)) (record_revision (rs ! i)))"

lemma supersessions_keep_scope_snoc:
  "supersessions_keep_scope (rs @ [r]) \<longleftrightarrow> supersessions_keep_scope rs \<and> keeps_scope (current_of rs) (record_revision r)"
  by (auto simp: supersessions_keep_scope_def nth_append less_Suc_eq)

lemma set_current_map: "map_of (set_current r c) = (map_of c)(rn_memory_id (record_revision r) \<mapsto> record_revision r)"
  by (simp add: set_current_def update_conv')

lemma one_per_meaning_step:
  assumes one: "one_per_meaning current" and ver: "verify_promotion_record pv s r current = Inr c'"
    and ev: "validateEvent_promotion (pv_engine pv) (pr_event r) = None" and k: "keeps_scope current (record_revision r)"
  shows "one_per_meaning (set_current r current)"
proof -
  let ?v = "record_revision r"
  have new: False if m: "map_of current m' = Some v'" "m' \<noteq> rn_memory_id ?v"
    and same: "same_memory (rn_scope ?v) key ?v" "same_memory (rn_scope ?v) key v'" for m' v' key
  proof -
    obtain so where so: "rn_source ?v = Some so" "so_semantic_key so = key"
      using same(1) by (auto simp: same_memory_def split: option.splits)
    have "validateRevisionSyntax (pv_engine pv) ?v = None" using ev by (simp add: validateEvent_promotion_def)
    then have "rn_action ?v = ActionPromote \<or> rn_action ?v = ActionSupersede"
      using so(1) by (auto simp: validateRevisionSyntax_def split: if_splits)
    with ver [unfolded verify_promotion_record_Inr] so(1) obtain scan
      where a: "verify_active pv s current (pr_sequence r) ?v so scan = None" and act: "rn_action ?v = ActionPromote \<or> rn_action ?v = ActionSupersede"
      by auto
    from a [unfolded verify_active_None]
    have p: "rn_action ?v = ActionPromote \<longrightarrow> \<not> list_ex (same_memory (rn_scope ?v) (so_semantic_key so)) (map snd current)"
      and q: "rn_action ?v = ActionSupersede \<longrightarrow> (\<exists>o' so'. map_of current (rn_memory_id ?v) = Some o' \<and> rn_source o' = Some so' \<and>
        so_semantic_key so' = so_semantic_key so)" by blast+
    show False
    proof (cases "rn_action ?v = ActionPromote")
      case True
      have "v' \<in> set (map snd current)" using map_of_SomeD [OF m(1)] by force
      with p True so(2) same(2) show False by (auto simp: list_ex_iff)
    next
      case False
      then have sup: "rn_action ?v = ActionSupersede" using act by blast
      with q obtain o' so' where o: "map_of current (rn_memory_id ?v) = Some o'" "rn_source o' = Some so'" "so_semantic_key so' = key"
        using so(2) by auto
      have "rn_scope o' = rn_scope ?v" using k sup o(1) by (simp add: keeps_scope_def)
      with o have "same_memory (rn_scope o') key o' \<and> same_memory (rn_scope o') key v'" using same(2) by (simp add: same_memory_def)
      with one o(1) m show False unfolding one_per_meaning_def by blast
    qed
  qed
  show ?thesis
    unfolding one_per_meaning_def set_current_map
  proof (intro allI impI)
    fix m m' v v' key
    assume a: "((map_of current)(rn_memory_id ?v \<mapsto> ?v)) m = Some v \<and> ((map_of current)(rn_memory_id ?v \<mapsto> ?v)) m' = Some v' \<and>
      same_memory (rn_scope v) key v \<and> same_memory (rn_scope v) key v'"
    then have sc: "rn_scope v' = rn_scope v" by (auto simp: same_memory_def split: option.splits)
    consider (both) "m = rn_memory_id ?v" "m' = rn_memory_id ?v" | (left) "m = rn_memory_id ?v" "m' \<noteq> rn_memory_id ?v"
      | (right) "m \<noteq> rn_memory_id ?v" "m' = rn_memory_id ?v" | (none) "m \<noteq> rn_memory_id ?v" "m' \<noteq> rn_memory_id ?v" by blast
    then show "m = m'"
    proof cases
      case left
      then have "v = ?v" "map_of current m' = Some v'" using a by simp_all
      with new [of m' v' key] left a show ?thesis by blast
    next
      case right
      then have "v' = ?v" "map_of current m = Some v" using a by simp_all
      with new [of m v key] right a sc show ?thesis by metis
    next
      case none
      then have "map_of current m = Some v" "map_of current m' = Some v'" using a by simp_all
      with one a show ?thesis unfolding one_per_meaning_def by blast
    qed simp
  qed
qed

lemma prepared_action:
  "prepare_revocation request current (base_revision device request now) = Inr v \<Longrightarrow> rn_action v = pq_action request"
  "prepare_active pv s request ref current (base_revision device request now) = Inr v \<Longrightarrow> rn_action v = ActionSupersede \<longrightarrow>
     (\<exists>c. map_of current (rn_memory_id v) = Some c \<and> rn_scope c = rn_scope v)"
proof -
  assume "prepare_revocation request current (base_revision device request now) = Inr v"
  from prepare_revocation_Inr [OF this] obtain c :: revision where V: "v = (base_revision device request now)
      \<lparr>rn_memory_id := rn_memory_id c, rn_parent := rn_revision_id c, rn_status := StatusRevoked, rn_kind := rn_kind c,
       rn_scope := rn_scope c, rn_rule_change := rn_rule_change c, rn_revision_id := rn_revision_id v\<rparr>" by blast
  show "rn_action v = pq_action request" by (subst V) simp
next
  assume "prepare_active pv s request ref current (base_revision device request now) = Inr v"
  from prepare_active_Inr [OF this] obtain c p redacted memory parent where
    m: "memory_identity request current (vp_scope p) (cd_semantic_key_sha256 c) (textDigest redacted) = Inr (memory, parent)"
    and V: "v = (active_revision pv request c p redacted memory parent (base_revision device request now))
      \<lparr>rn_revision_id := rn_revision_id v\<rparr>" unfolding Let_def by metis
  have f: "rn_action v = pq_action request" "rn_memory_id v = memory" "rn_scope v = vp_scope p" by (subst V, simp)+
  from memory_identity_Inr [OF m] show "rn_action v = ActionSupersede \<longrightarrow>
     (\<exists>c. map_of current (rn_memory_id v) = Some c \<and> rn_scope c = rn_scope v)"
    unfolding f by (auto simp: same_memory_def split: option.splits)
qed

text \<open>Property C19. In a ledger that passes the verified replay and in which every supersession keeps the scope of the
  memory it supersedes, no two current memories have the same scope and semantic key; and every record that
  \<open>Apply\<close> builds on such a ledger keeps the scope. (The verified replay itself does not compare the scope of a
  supersession, so that the hypothesis is not implied by it.)\<close>

theorem unique_memory:
  assumes "replayVerified_promotion pv s = (st, None)" and "supersessions_keep_scope (ps_history st)"
  shows "one_per_meaning (ps_current st) \<and>
    (\<forall>failed now random request r. promotion_record_for pv failed now random request s = Inr r \<longrightarrow>
       supersessions_keep_scope (ps_history st @ [r]))"
proof
  note old = replayVerified_promotion_iff [THEN iffD1, OF assms(1)]
  have ok: "promotion_state_ok (pv_engine pv) st" using replay_promotion_ok old by blast
  have cur: "ps_current st = current_of (ps_history st)" using ok by (simp add: promotion_state_ok_def)
  have ev: "\<forall>r \<in> set (ps_history st). validateEvent_promotion (pv_engine pv) (pr_event r) = None"
    using ok by (simp add: promotion_state_ok_def)
  have ver: "verify_promotion_record pv s r (current_of pre) = Inr (current_of (pre @ [r]))"
    if "ps_history st = pre @ r # post" for pre r post using old that by (simp add: verifyPromotionSemantics_iff)
  have "\<exists>post. ps_history st = rs @ post \<Longrightarrow> supersessions_keep_scope rs \<Longrightarrow> one_per_meaning (current_of rs)" for rs
  proof (induction rs rule: rev_induct)
    case Nil
    show ?case by (simp add: one_per_meaning_def)
  next
    case (snoc r rs)
    obtain post where h: "ps_history st = rs @ r # post" using snoc.prems(1) by auto
    have "one_per_meaning (current_of rs)" using snoc.IH h snoc.prems(2) by (auto simp: supersessions_keep_scope_snoc)
    from one_per_meaning_step [OF this ver [OF h]] ev h snoc.prems(2) show ?case by (simp add: supersessions_keep_scope_snoc)
  qed
  with assms(2) show "one_per_meaning (ps_current st)" by (simp add: cur)
  show "\<forall>failed now random request r. promotion_record_for pv failed now random request s = Inr r \<longrightarrow>
      supersessions_keep_scope (ps_history st @ [r])"
  proof (intro allI impI)
    fix failed now random request r assume "promotion_record_for pv failed now random request s = Inr r"
    with promotion_record_for_Inr assms(1) have p: "prepareRevision pv s request st now = Inr (record_revision r)" by fastforce
    have "keeps_scope (ps_current st) (record_revision r)"
    proof (cases "pq_action request = ActionRevoke")
      case True
      with p have "prepare_revocation request (ps_current st) (base_revision (st_device_id s) request now) = Inr (record_revision r)"
        by (simp add: prepareRevision_def)
      from prepared_action(1) [OF this] True show ?thesis by (simp add: keeps_scope_def)
    next
      case False
      then obtain ref where "prepare_active pv s request ref (ps_current st) (base_revision (st_device_id s) request now) = Inr (record_revision r)"
        using p by (auto simp: prepareRevision_def Let_def split: option.splits)
      from prepared_action(2) [OF this] show ?thesis by (auto simp: keeps_scope_def)
    qed
    with assms(2) cur show "supersessions_keep_scope (ps_history st @ [r])" by (simp add: supersessions_keep_scope_snoc)
  qed
qed

theorem unique_memory_witness:
  "\<exists>st. replayVerified_promotion (sample_pv 2) (promoted_store 2) = (st, None) \<and> one_per_meaning (ps_current st)"
proof -
  obtain st where st: "replayVerified_promotion (sample_pv 2) (promoted_store 2) = (st, None)" "ps_history st = [sample_promotion 2]"
    using sample_promoted_history [OF sample_times] by auto
  have "rn_action (record_revision (sample_promotion 2)) = ActionPromote"
    using sample_event_facts(3) [OF sample_times]
    by (simp add: sample_promotion_event_def sample_revision_def sample_unnamed_def sample_promote_def)
  then have "supersessions_keep_scope (ps_history st)" by (simp add: st(2) supersessions_keep_scope_def keeps_scope_def)
  from unique_memory [OF st(1) this] st(1) show ?thesis by blast
qed

section \<open>Reading a past moment\<close>

text \<open>The revision of a memory that was recorded last at a moment.\<close>

definition as_of :: "gotime \<Rightarrow> revision list \<Rightarrow> revision option" where
  "as_of t vs = (case filter (\<lambda>v. rn_recorded_at v \<le> t) vs of [] \<Rightarrow> None | u # us \<Rightarrow> Some (last (u # us)))"

lemma as_of_Cons:
  "as_of t (v # vs) = (case as_of t vs of Some u \<Rightarrow> Some u | None \<Rightarrow> if rn_recorded_at v \<le> t then Some v else None)"
  by (auto simp: as_of_def split: list.splits)

lemma as_of_mem: "as_of t vs = Some u \<Longrightarrow> u \<in> set vs \<and> rn_recorded_at u \<le> t"
  by (induction vs) (auto simp: as_of_Cons as_of_def [of t "[]"] split: option.splits if_splits)

lemma as_of_None: "as_of t vs = None \<longleftrightarrow> (\<forall>v \<in> set vs. t < rn_recorded_at v)"
  by (induction vs) (auto simp: as_of_Cons as_of_def [of t "[]"] split: option.splits if_splits)

lemma target_window_as_of:
  assumes "sorted (map rn_recorded_at vs)" and "distinct (map rn_revision_id vs)" and "target_window i vs = Some (v, ended)"
  shows "rn_revision_id v = i \<and> ((rn_recorded_at v \<le> t \<and> (\<forall>e. ended = Some e \<longrightarrow> t < e)) \<longleftrightarrow> as_of t vs = Some v) \<and>
    (\<forall>u. as_of t vs = Some u \<and> rn_revision_id u = i \<longrightarrow> u = v)"
  using assms
proof (induction vs)
  case (Cons w vs)
  show ?case
  proof (cases "rn_revision_id w = i")
    case True
    then have v: "v = w" "ended = (case vs of [] \<Rightarrow> None | x # _ \<Rightarrow> Some (rn_recorded_at x))"
      using Cons.prems(3) by (auto split: list.splits)
    have new: "rn_revision_id u \<noteq> i" if "u \<in> set vs" for u using that True Cons.prems(2) by (metis distinct.simps(2) imageI image_set list.simps(9))
    have late: "as_of t vs = None" if "\<forall>e. ended = Some e \<longrightarrow> t < e"
      using that Cons.prems(1) v(2) by (cases vs) (auto simp: as_of_None)
    have early: "t < e" if "as_of t vs = None" "ended = Some e" for e
      using that v(2) by (cases vs) (auto simp: as_of_None)
    show ?thesis
    proof (cases "as_of t vs")
      case None
      with True early show ?thesis by (simp add: v(1) as_of_Cons)
    next
      case (Some u)
      then have "u \<in> set vs" "rn_revision_id u \<noteq> i" using as_of_mem [OF Some] new by blast+
      moreover have "\<not> (\<forall>e. ended = Some e \<longrightarrow> t < e)" using late Some by fastforce
      ultimately show ?thesis using True Some by (auto simp: v(1) as_of_Cons)
    qed
  next
    case False
    then have t: "target_window i vs = Some (v, ended)" using Cons.prems(3) by simp
    note ih = Cons.IH [OF _ _ t]
    have s: "sorted (map rn_recorded_at vs)" "distinct (map rn_revision_id vs)" using Cons.prems(1,2) by simp_all
    from ih [OF s] False show ?thesis by (auto simp: as_of_Cons split: option.splits)
  qed
qed simp

lemma target_window_known: "(\<exists>x. target_window i vs = Some x) \<longleftrightarrow> i \<in> rn_revision_id ` set vs"
  by (induction vs) auto

text \<open>Property C20. When the revisions of a memory were recorded in the order of their times, \<open>RevisionWasCurrentAt\<close>
  answers what the reference definition \<open>as_of\<close> does: the revision was current at a moment exactly when it is the
  last one recorded at or before that moment and is active. At most one revision of a memory is therefore current
  at any moment, and none once it is revoked.\<close>

theorem RevisionWasCurrentAt_as_of:
  assumes "replayVerified_promotion pv s = (st, None)" and "\<not> isZeroTime t"
    and "validPrefixedHash m ''memory-''" and "validPrefixedHash i ''memory-revision-''"
    and "sorted (map rn_recorded_at (memory_revisions m (ps_history st)))"
  shows "RevisionWasCurrentAt pv s m i t =
    (if i \<in> rn_revision_id ` set (memory_revisions m (ps_history st))
     then Inr (case as_of t (memory_revisions m (ps_history st)) of
                 None \<Rightarrow> False
               | Some v \<Rightarrow> rn_revision_id v = i \<and> rn_status v = StatusActive)
     else Inl RevisionNotFound)"
proof -
  let ?vs = "memory_revisions m (ps_history st)"
  have ok: "promotion_state_ok (pv_engine pv) st"
    using replay_promotion_ok replayVerified_promotion_iff [THEN iffD1, OF assms(1)] by blast
  have "distinct (map rn_revision_id (map (pe_revision \<circ> pr_event) (ps_history st)))"
    using ok by (simp add: promotion_state_ok_def comp_def)
  then have d: "distinct (map rn_revision_id ?vs)" unfolding memory_revisions_def by (rule distinct_map_filter)
  show ?thesis
  proof (cases "target_window i ?vs")
    case None
    then have "i \<notin> rn_revision_id ` set ?vs" using target_window_known [of i ?vs] by auto
    with None assms(1-4) show ?thesis by (simp add: RevisionWasCurrentAt_def)
  next
    case (Some x)
    obtain v ended where x: "x = (v, ended)" by (cases x)
    have i: "i \<in> rn_revision_id ` set ?vs" using target_window_known [of i ?vs] Some by blast
    note w = target_window_as_of [OF assms(5) d Some [unfolded x], of t]
    have "RevisionWasCurrentAt pv s m i t = Inr (rn_status v = StatusActive \<and> rn_recorded_at v \<le> t \<and> (\<forall>e. ended = Some e \<longrightarrow> t < e))"
      using assms(1-4) Some x by (auto simp: RevisionWasCurrentAt_def split: option.splits)
    also have "\<dots> = Inr (rn_status v = StatusActive \<and> as_of t ?vs = Some v)" using w by auto
    also have "\<dots> = Inr (case as_of t ?vs of None \<Rightarrow> False | Some v \<Rightarrow> rn_revision_id v = i \<and> rn_status v = StatusActive)"
      using w by (auto split: option.splits)
    finally show ?thesis using i by simp
  qed
qed

theorem RevisionWasCurrentAt_as_of_witness:
  "RevisionWasCurrentAt (sample_pv 2) (promoted_store 2) sample_memory_id (rn_revision_id (sample_revision 2)) 3 = Inr True \<and>
   RevisionWasCurrentAt (sample_pv 2) (promoted_store 2) sample_memory_id (rn_revision_id (sample_revision 2)) 1 = Inr False"
proof -
  obtain st where st: "replayVerified_promotion (sample_pv 2) (promoted_store 2) = (st, None)" "ps_history st = [sample_promotion 2]"
    using sample_promoted_history [OF sample_times] by auto
  have f: "record_revision (sample_promotion 2) = sample_revision 2" "rn_memory_id (sample_revision 2) = sample_memory_id"
    "rn_recorded_at (sample_revision 2) = 2" "rn_status (sample_revision 2) = StatusActive"
    using sample_event_facts(3) [OF sample_times] by (simp_all add: sample_promotion_event_def sample_revision_def sample_unnamed_def)
  have v: "memory_revisions sample_memory_id (ps_history st) = [sample_revision 2]"
    using memory_revisions_simps(2) [of sample_memory_id "[]" "sample_promotion 2"] f(1,2) st(2) by simp
  have "promotion_state_ok quiet_engine st"
    using replay_promotion_ok replayVerified_promotion_iff [THEN iffD1, OF st(1)] by (metis sample_pv_fields(4))
  then have "validateRevisionSyntax quiet_engine (sample_revision 2) = None"
    by (simp add: promotion_state_ok_def st(2) validateEvent_promotion_def f(1))
  then have h: "validPrefixedHash sample_memory_id ''memory-''" "validPrefixedHash (rn_revision_id (sample_revision 2)) ''memory-revision-''"
    using f(2) by (simp_all add: validateRevisionSyntax_def)
  from RevisionWasCurrentAt_as_of [OF st(1) _ h, of 3] RevisionWasCurrentAt_as_of [OF st(1) _ h, of 1]
  show ?thesis by (simp add: v f as_of_def)
qed

end
