(* ===== verification/Rule_Approval.thy ===== *)
theory Rule_Approval
  imports Promotion
begin

text \<open>
  The ledger of approvals to change rules (\<open>internal/ruleapproval/types.go\<close>, \<open>ledger.go\<close>, \<open>apply.go\<close>): an
  approval is given or withdrawn for one revision of a promoted memory, one surface and one target, and is
  effective only while that revision is the current, export-eligible one.
\<close>

section \<open>Data\<close>

abbreviation ApprovalRequestSchemaVersion :: string where
  "ApprovalRequestSchemaVersion \<equiv> ''rule-change-approval-request/v1alpha1''"
abbreviation ApprovalEventSchemaVersion :: string where
  "ApprovalEventSchemaVersion \<equiv> ''rule-change-approval-event/v1alpha1''"
abbreviation ApprovalRecordSchemaVersion :: string where
  "ApprovalRecordSchemaVersion \<equiv> ''rule-change-approval-record/v1alpha1''"

abbreviation StatusNotAuthorized :: string where "StatusNotAuthorized \<equiv> ''not_authorized''"
abbreviation StatusAuthorized :: string where "StatusAuthorized \<equiv> ''authorized''"
abbreviation ActionAuthorize :: string where "ActionAuthorize \<equiv> ''authorize''"
abbreviation ActionWithdraw :: string where "ActionWithdraw \<equiv> ''revoke''"

record rule_approver =
  qa_kind :: string
  qa_id :: string

record approval_request =
  aq_schema_version :: string
  aq_approver :: rule_approver
  aq_memory_id :: string
  aq_revision_id :: string
  aq_surface :: string
  aq_target :: string
  aq_expected :: string
  aq_action :: string
  aq_reason :: string

record approval_event =
  ae_schema_version :: string
  ae_event_id :: string
  ae_recorded_at :: gotime
  ae_device_id :: string
  ae_approver :: rule_approver
  ae_request_sha256 :: string
  ae_memory_id :: string
  ae_revision_id :: string
  ae_surface :: string
  ae_target :: string
  ae_expected :: string
  ae_action :: string
  ae_resulting :: string
  ae_reason :: string
  ae_privacy :: string

record approval_record =
  ax_schema_version :: string
  ax_sequence :: int
  ax_event :: approval_event
  ax_previous :: string
  ax_hash :: string

definition rule_approver_json :: "rule_approver \<Rightarrow> json" where
  "rule_approver_json a = JObj [(''kind'', JStr (qa_kind a)), (''id'', JStr (qa_id a))]"

definition approval_request_json :: "approval_request \<Rightarrow> json" where
  "approval_request_json r = JObj
     [(''schema_version'', JStr (aq_schema_version r)), (''approver'', rule_approver_json (aq_approver r)),
      (''memory_id'', JStr (aq_memory_id r)), (''revision_id'', JStr (aq_revision_id r)),
      (''surface'', JStr (aq_surface r)), (''target'', JStr (aq_target r)), (''expected_status'', JStr (aq_expected r)),
      (''action'', JStr (aq_action r)), (''reason'', JStr (aq_reason r))]"

definition approval_event_json :: "approval_event \<Rightarrow> json" where
  "approval_event_json e = JObj
     [(''schema_version'', JStr (ae_schema_version e)), (''event_id'', JStr (ae_event_id e)),
      (''recorded_at'', JTime (ae_recorded_at e)), (''device_id'', JStr (ae_device_id e)),
      (''approver'', rule_approver_json (ae_approver e)), (''request_sha256'', JStr (ae_request_sha256 e)),
      (''memory_id'', JStr (ae_memory_id e)), (''revision_id'', JStr (ae_revision_id e)),
      (''surface'', JStr (ae_surface e)), (''target'', JStr (ae_target e)), (''expected_status'', JStr (ae_expected e)),
      (''action'', JStr (ae_action e)), (''resulting_status'', JStr (ae_resulting e)), (''reason'', JStr (ae_reason e)),
      (''privacy'', JStr (ae_privacy e))]"

definition approval_record_json :: "approval_record \<Rightarrow> json" where
  "approval_record_json r = JObj
     [(''schema_version'', JStr (ax_schema_version r)), (''sequence'', JInt (ax_sequence r)),
      (''event'', approval_event_json (ax_event r)), (''previous_record_sha256'', JStr (ax_previous r)),
      (''record_sha256'', JStr (ax_hash r))]"

section \<open>Keys\<close>

definition approvalKey :: "string \<Rightarrow> string \<Rightarrow> string \<Rightarrow> string \<Rightarrow> string" where
  "approvalKey memory revision surface target =
     memory @ CHR 0x00 # revision @ CHR 0x00 # surface @ CHR 0x00 # target"

text \<open>\<open>strings.Split\<close> at a one-byte separator.\<close>

fun split_at :: "char \<Rightarrow> string \<Rightarrow> string list" where
  "split_at sep [] = [[]]"
| "split_at sep (c # s) =
     (if c = sep then [] # split_at sep s
      else (case split_at sep s of [] \<Rightarrow> [[c]] | p # ps \<Rightarrow> (c # p) # ps))"

definition splitKey :: "string \<Rightarrow> (string \<times> string \<times> string \<times> string) option" where
  "splitKey key = (case split_at (CHR 0x00) key of [a, b, c, d] \<Rightarrow> Some (a, b, c, d) | _ \<Rightarrow> None)"

section \<open>Checks\<close>

definition validSurface :: "string \<Rightarrow> bool" where
  "validSurface s \<longleftrightarrow> s \<in> set [''agents_md'', ''skill'', ''hook'', ''plugin'', ''global_rule'']"

definition validTarget :: "string \<Rightarrow> bool" where
  "validTarget t \<longleftrightarrow> \<not> blank t \<and> t = trimSpace t \<and> length t \<le> 4096 \<and>
     \<not> containsAny t [CHR 0x00, CHR 0x0D, CHR 0x0A]"

datatype approval_error =
    ApprovalEnvelope
  | ApprovalEventEnvelope
  | ApprovalMetadata
  | AuthorizeTransition
  | WithdrawTransition
  | ApprovalActionInvalid
  | ApprovalEncode
  | ApprovalHashMismatch
  | StaleExpectedStatus

definition validateEvent_approval :: "scan_engine \<Rightarrow> approval_event \<Rightarrow> approval_error option" where
  "validateEvent_approval en e = first_error
     [fail_if (ae_schema_version e \<noteq> ApprovalEventSchemaVersion \<or> \<not> hasPrefix (ae_event_id e) ''rule-approval-'' \<or>
               isZeroTime (ae_recorded_at e) \<or> blank (ae_device_id e) \<or> qa_kind (ae_approver e) \<noteq> ''human'' \<or>
               blank (qa_id (ae_approver e)) \<or> qa_id (ae_approver e) \<noteq> trimSpace (qa_id (ae_approver e)) \<or>
               256 < length (qa_id (ae_approver e)) \<or> \<not> validSHA256 (ae_request_sha256 e) \<or>
               \<not> validPrefixedHash (ae_memory_id e) ''memory-'' \<or>
               \<not> validPrefixedHash (ae_revision_id e) ''memory-revision-'' \<or> \<not> validSurface (ae_surface e) \<or>
               \<not> validTarget (ae_target e) \<or> blank (ae_reason e) \<or> 16 * 1024 < length (ae_reason e) \<or>
               ae_privacy e \<noteq> ''local_only'') ApprovalEventEnvelope,
      fail_if (\<not> clean en (ae_reason e) \<or> \<not> clean en (qa_id (ae_approver e)) \<or> \<not> clean en (ae_target e)) ApprovalMetadata,
      (if ae_action e = ActionAuthorize then
         fail_if (ae_expected e \<noteq> StatusNotAuthorized \<or> ae_resulting e \<noteq> StatusAuthorized) AuthorizeTransition
       else if ae_action e = ActionWithdraw then
         fail_if (ae_expected e \<noteq> StatusAuthorized \<or> ae_resulting e \<noteq> StatusNotAuthorized) WithdrawTransition
       else Some ApprovalActionInvalid)]"

definition makeRecord_approval :: "approval_event \<Rightarrow> int \<Rightarrow> string \<Rightarrow> approval_record option" where
  "makeRecord_approval e n previous =
     map_option (\<lambda>x. \<lparr>ax_schema_version = ApprovalRecordSchemaVersion, ax_sequence = n, ax_event = e,
                     ax_previous = previous, ax_hash = sha256_hex x\<rparr>)
       (event_envelope ApprovalRecordSchemaVersion n (approval_event_json e) previous)"

definition validateRecord_approval ::
  "scan_engine \<Rightarrow> approval_record \<Rightarrow> int \<Rightarrow> string \<Rightarrow> approval_error option" where
  "validateRecord_approval en r expected previous = first_error
     [fail_if (ax_schema_version r \<noteq> ApprovalRecordSchemaVersion \<or> ax_sequence r \<noteq> expected \<or>
               ax_previous r \<noteq> previous \<or> \<not> validSHA256 (ax_hash r)) ApprovalEnvelope,
      validateEvent_approval en (ax_event r),
      (case makeRecord_approval (ax_event r) expected previous of
         None \<Rightarrow> Some ApprovalEncode
       | Some m \<Rightarrow> fail_if (ax_hash m \<noteq> ax_hash r) ApprovalHashMismatch)]"

datatype approval_request_error = ApprovalRequestEnvelope | ApprovalRequestMetadata | AuthorizeExpectation
  | WithdrawExpectation | ApprovalRequestAction

definition validateRequest_approval :: "scan_engine \<Rightarrow> approval_request \<Rightarrow> approval_request_error option" where
  "validateRequest_approval en r = first_error
     [fail_if (aq_schema_version r \<noteq> ApprovalRequestSchemaVersion \<or> qa_kind (aq_approver r) \<noteq> ''human'' \<or>
               blank (qa_id (aq_approver r)) \<or> qa_id (aq_approver r) \<noteq> trimSpace (qa_id (aq_approver r)) \<or>
               256 < length (qa_id (aq_approver r)) \<or> \<not> validPrefixedHash (aq_memory_id r) ''memory-'' \<or>
               \<not> validPrefixedHash (aq_revision_id r) ''memory-revision-'' \<or> \<not> validSurface (aq_surface r) \<or>
               \<not> validTarget (aq_target r) \<or> blank (aq_reason r) \<or> aq_reason r \<noteq> trimSpace (aq_reason r) \<or>
               16 * 1024 < length (aq_reason r)) ApprovalRequestEnvelope,
      fail_if (\<not> clean en (qa_id (aq_approver r)) \<or> \<not> clean en (aq_reason r) \<or> \<not> clean en (aq_target r))
        ApprovalRequestMetadata,
      (if aq_action r = ActionAuthorize then fail_if (aq_expected r \<noteq> StatusNotAuthorized) AuthorizeExpectation
       else if aq_action r = ActionWithdraw then fail_if (aq_expected r \<noteq> StatusAuthorized) WithdrawExpectation
       else Some ApprovalRequestAction)]"

definition hashRequest_approval :: "approval_request \<Rightarrow> string option" where
  "hashRequest_approval r = map_option sha256_hex (marshal (approval_request_json r))"

section \<open>State and replay\<close>

record approval_store = promotion_store +
  ast_file :: os_file
  ast_lock :: bool

record approval_state =
  as_statuses :: "(string \<times> string) list"
  as_counts :: "string \<Rightarrow> nat"
  as_history :: "approval_record list"
  as_last_hash :: string
  as_next :: int
  as_records :: int

definition initial_approval_state :: approval_state where
  "initial_approval_state = \<lparr>as_statuses = [], as_counts = (\<lambda>_. 0), as_history = [], as_last_hash = [],
     as_next = 1, as_records = 0\<rparr>"

definition event_approval_key :: "approval_event \<Rightarrow> string" where
  "event_approval_key e = approvalKey (ae_memory_id e) (ae_revision_id e) (ae_surface e) (ae_target e)"

definition approval_status :: "approval_state \<Rightarrow> string \<Rightarrow> string" where
  "approval_status st key = (case map_of (as_statuses st) key of None \<Rightarrow> StatusNotAuthorized | Some v \<Rightarrow> v)"

definition replay_step_approval :: "scan_engine \<Rightarrow> approval_record \<Rightarrow> approval_state \<Rightarrow> approval_error + approval_state" where
  "replay_step_approval en r st =
     (let e = ax_event r; key = event_approval_key e in
      case first_error
        [validateRecord_approval en r (as_next st) (as_last_hash st),
         fail_if (approval_status st key \<noteq> ae_expected e) StaleExpectedStatus] of
        Some x \<Rightarrow> Inl x
      | None \<Rightarrow> Inr
          (st\<lparr>as_statuses := AList.update key (ae_resulting e) (as_statuses st),
              as_counts := (as_counts st)(key := as_counts st key + 1), as_history := as_history st @ [r],
              as_last_hash := ax_hash r, as_next := as_next st + 1, as_records := as_records st + 1\<rparr>))"

definition replay_approval ::
  "scan_engine \<Rightarrow> (string \<Rightarrow> approval_record option) \<Rightarrow> os_file \<Rightarrow> approval_state \<times> approval_error log_error option" where
  "replay_approval en adec f = replay_log adec (replay_step_approval en) f initial_approval_state"

datatype approval_failure =
    ApprovalReplay "approval_error log_error"
  | ReferencesInvalidRevision int memory_lookup_error
  | InactiveRevision int
  | NotCurrentRevision int
  | ApprovalRequestInvalid int approval_request_error
  | ApprovalRequestEncode
  | ApprovalRequestHash int

definition approval_request_of :: "approval_event \<Rightarrow> approval_request" where
  "approval_request_of e = \<lparr>aq_schema_version = ApprovalRequestSchemaVersion, aq_approver = ae_approver e,
     aq_memory_id = ae_memory_id e, aq_revision_id = ae_revision_id e, aq_surface = ae_surface e,
     aq_target = ae_target e, aq_expected = ae_expected e, aq_action = ae_action e, aq_reason = ae_reason e\<rparr>"

definition check_approval :: "promotion_env \<Rightarrow> 'a promotion_store_scheme \<Rightarrow> approval_record \<Rightarrow> approval_failure option" where
  "check_approval pv s r =
     (let e = ax_event r; n = ax_sequence r in
      case GetRevision pv s (ae_memory_id e) (ae_revision_id e) of
        Inl x \<Rightarrow> Some (ReferencesInvalidRevision n x)
      | Inr v \<Rightarrow> first_error
          [fail_if (rn_status v \<noteq> StatusActive \<or> ae_recorded_at e < rn_recorded_at v) (InactiveRevision n),
           fail_if (ae_action e = ActionAuthorize \<and>
                    RevisionWasCurrentAt pv s (ae_memory_id e) (ae_revision_id e) (ae_recorded_at e) \<noteq> Inr True)
             (NotCurrentRevision n),
           map_option (ApprovalRequestInvalid n) (validateRequest_approval (pv_engine pv) (approval_request_of e)),
           (case hashRequest_approval (approval_request_of e) of
              None \<Rightarrow> Some ApprovalRequestEncode
            | Some d \<Rightarrow> fail_if (d \<noteq> ae_request_sha256 e) (ApprovalRequestHash n))])"

definition replayVerified_approval ::
  "promotion_env \<Rightarrow> (string \<Rightarrow> approval_record option) \<Rightarrow> 'a approval_store_scheme
    \<Rightarrow> approval_state \<times> approval_failure option" where
  "replayVerified_approval pv adec s =
     (case replay_approval (pv_engine pv) adec (ast_file s) of
        (st, Some e) \<Rightarrow> (st, Some (ApprovalReplay e))
      | (st, None) \<Rightarrow> (st, first_error (map (check_approval pv s) (as_history st))))"

text \<open>The memory's current revision is the given one and may be exported.\<close>

definition eligible :: "promotion_env \<Rightarrow> 'a promotion_store_scheme \<Rightarrow> string \<Rightarrow> string \<Rightarrow> bool" where
  "eligible pv s memory i \<longleftrightarrow>
     (case GetStatus_promotion pv s memory of
        Inl _ \<Rightarrow> False
      | Inr m \<Rightarrow> ms_revision_id m = i \<and> ms_export_eligible m)"

datatype approval_issue = ApprovalNotVerified approval_failure | KeyInvalid | NoLongerEffective string

definition stale_approval ::
  "promotion_env \<Rightarrow> 'a promotion_store_scheme \<Rightarrow> string \<times> string \<Rightarrow> approval_issue option" where
  "stale_approval pv s = (\<lambda>(key, status).
     if status \<noteq> StatusAuthorized then None
     else case splitKey key of
       None \<Rightarrow> Some KeyInvalid
     | Some (memory, i, _, _) \<Rightarrow> fail_if (\<not> eligible pv s memory i) (NoLongerEffective key))"

record approval_report =
  ao_records :: int
  ao_approvals :: int
  ao_last :: string
  ao_issues :: "approval_issue list"

definition Verify_approval ::
  "promotion_env \<Rightarrow> (string \<Rightarrow> approval_record option) \<Rightarrow> 'a approval_store_scheme \<Rightarrow> approval_report" where
  "Verify_approval pv adec s =
     (case replayVerified_approval pv adec s of (st, e) \<Rightarrow>
        \<lparr>ao_records = as_records st, ao_approvals = int (length (as_statuses st)), ao_last = as_last_hash st,
         ao_issues = (case e of Some x \<Rightarrow> [ApprovalNotVerified x]
                      | None \<Rightarrow> List.map_filter (stale_approval pv s) (as_statuses st))\<rparr>)"

section \<open>Applying a request\<close>

definition acquireApprovalLock ::
  "lock_fault option \<Rightarrow> 'a approval_store_scheme \<Rightarrow> 'a approval_store_scheme \<times> lock_error option" where
  "acquireApprovalLock fault s =
     (case acquire_lock fault (ast_lock s) of (held, e) \<Rightarrow> (s\<lparr>ast_lock := held\<rparr>, e))"

definition releaseApprovalLock :: "bool \<Rightarrow> 'a approval_store_scheme \<Rightarrow> 'a approval_store_scheme" where
  "releaseApprovalLock ok s = (if ok then s\<lparr>ast_lock := False\<rparr> else s)"

definition appendRecord_approval ::
  "append_fault option \<Rightarrow> approval_record \<Rightarrow> 'a approval_store_scheme
    \<Rightarrow> 'a approval_store_scheme \<times> append_fault option" where
  "appendRecord_approval fault r s =
     (case append_bytes fault (encode_line (approval_record_json r)) (ast_file s) of
        (f, e) \<Rightarrow> (s\<lparr>ast_file := f\<rparr>, e))"

datatype approve_error =
    ApproveRequest approval_request_error
  | ApproveLock lock_error
  | ApproveReplay approval_failure
  | ApproveStale
  | ApproveMemory memory_lookup_error
  | ApproveNotEligible
  | ApproveNotCurrent
  | ApproveEncode
  | ApproveRandom
  | ApproveEvent approval_error
  | ApproveAppend append_fault
  | ApproveRelease

definition check_decision ::
  "promotion_env \<Rightarrow> 'a promotion_store_scheme \<Rightarrow> gotime \<Rightarrow> approval_request \<Rightarrow> approve_error option" where
  "check_decision pv s now request =
     (if aq_action request = ActionAuthorize then
        (case GetStatus_promotion pv s (aq_memory_id request) of
           Inl e \<Rightarrow> Some (ApproveMemory e)
         | Inr m \<Rightarrow> first_error
             [fail_if (ms_revision_id m \<noteq> aq_revision_id request \<or> \<not> ms_export_eligible m) ApproveNotEligible,
              fail_if (RevisionWasCurrentAt pv s (aq_memory_id request) (aq_revision_id request) now \<noteq> Inr True)
                ApproveNotCurrent])
      else (case GetRevision pv s (aq_memory_id request) (aq_revision_id request) of
              Inl e \<Rightarrow> Some (ApproveMemory e) | Inr _ \<Rightarrow> None))"

definition approval_record_for ::
  "promotion_env \<Rightarrow> (string \<Rightarrow> approval_record option) \<Rightarrow> bool \<Rightarrow> gotime \<Rightarrow> string \<Rightarrow> approval_request
    \<Rightarrow> 'a approval_store_scheme \<Rightarrow> approve_error + approval_record" where
  "approval_record_for pv adec random_fails now random request s =
     (case replayVerified_approval pv adec s of
        (st, Some e) \<Rightarrow> Inl (ApproveReplay e)
      | (st, None) \<Rightarrow>
          (let key = approvalKey (aq_memory_id request) (aq_revision_id request) (aq_surface request) (aq_target request) in
           case first_error
             [fail_if (approval_status st key \<noteq> aq_expected request) ApproveStale,
              check_decision pv s now request] of
             Some e \<Rightarrow> Inl e
           | None \<Rightarrow>
               (case hashRequest_approval request of
                  None \<Rightarrow> Inl ApproveEncode
                | Some d \<Rightarrow>
                    if random_fails then Inl ApproveRandom
                    else
                      (let e = \<lparr>ae_schema_version = ApprovalEventSchemaVersion,
                                ae_event_id = ''rule-approval-'' @ NewEventID now random, ae_recorded_at = now,
                                ae_device_id = st_device_id s, ae_approver = aq_approver request, ae_request_sha256 = d,
                                ae_memory_id = aq_memory_id request, ae_revision_id = aq_revision_id request,
                                ae_surface = aq_surface request, ae_target = aq_target request,
                                ae_expected = aq_expected request, ae_action = aq_action request,
                                ae_resulting = (if aq_action request = ActionWithdraw then StatusNotAuthorized
                                                else StatusAuthorized),
                                ae_reason = aq_reason request, ae_privacy = ''local_only''\<rparr> in
                       case validateEvent_approval (pv_engine pv) e of
                         Some x \<Rightarrow> Inl (ApproveEvent x)
                       | None \<Rightarrow>
                           (case makeRecord_approval e (as_next st) (as_last_hash st) of
                              None \<Rightarrow> Inl ApproveEncode
                            | Some r \<Rightarrow> Inr r)))))"

record approve_result =
  ar_approval_event :: string
  ar_approval_sequence :: int
  ar_approval_hash :: string
  ar_approval_status :: string

definition Apply_approval ::
  "promotion_env \<Rightarrow> (string \<Rightarrow> approval_record option) \<Rightarrow> review_faults \<Rightarrow> gotime \<Rightarrow> string \<Rightarrow> approval_request
    \<Rightarrow> 'a approval_store_scheme \<Rightarrow> 'a approval_store_scheme \<times> (approve_error + approve_result)" where
  "Apply_approval pv adec faults now random request s =
     (case validateRequest_approval (pv_engine pv) request of
        Some e \<Rightarrow> (s, Inl (ApproveRequest e))
      | None \<Rightarrow>
     (case acquireApprovalLock (rf_lock faults) s of
        (s1, Some e) \<Rightarrow> (s1, Inl (ApproveLock e))
      | (s1, None) \<Rightarrow>
     (case approval_record_for pv adec (rf_random faults) now random request s1 of
        Inl e \<Rightarrow> (releaseApprovalLock (rf_release_ok faults) s1, Inl e)
      | Inr r \<Rightarrow>
     (case appendRecord_approval (rf_append faults) r s1 of
        (s2, Some e) \<Rightarrow> (releaseApprovalLock (rf_release_ok faults) s2, Inl (ApproveAppend e))
      | (s2, None) \<Rightarrow>
          if rf_release_ok faults then
            (releaseApprovalLock True s2, Inr \<lparr>ar_approval_event = ae_event_id (ax_event r),
               ar_approval_sequence = ax_sequence r, ar_approval_hash = ax_hash r,
               ar_approval_status = ae_resulting (ax_event r)\<rparr>)
          else (releaseApprovalLock (rf_release_again_ok faults) s2, Inl ApproveRelease)))))"

section \<open>Lookup\<close>

record approval_result =
  al_status :: string
  al_effective :: bool
  al_events :: nat

datatype approval_lookup_error = ApprovalIdentity | ApprovalLookup approval_failure

definition GetStatus_approval ::
  "promotion_env \<Rightarrow> (string \<Rightarrow> approval_record option) \<Rightarrow> 'a approval_store_scheme \<Rightarrow> string \<Rightarrow> string \<Rightarrow> string \<Rightarrow> string
    \<Rightarrow> approval_lookup_error + approval_result" where
  "GetStatus_approval pv adec s memory i surface target =
     (if \<not> validPrefixedHash memory ''memory-'' \<or> \<not> validPrefixedHash i ''memory-revision-'' \<or>
         \<not> validSurface surface \<or> \<not> validTarget target then Inl ApprovalIdentity
      else case replayVerified_approval pv adec s of
        (st, Some e) \<Rightarrow> Inl (ApprovalLookup e)
      | (st, None) \<Rightarrow>
          (let key = approvalKey memory i surface target; status = approval_status st key in
           Inr \<lparr>al_status = status,
                al_effective = (status = StatusAuthorized \<and> eligible pv s memory i),
                al_events = as_counts st key\<rparr>))"

end
