(* ===== verification/Approval_Props.thy ===== *)
theory Approval_Props
  imports Rule_Approval Promotion_Apply
begin

text \<open>
  Lemmas on the rule approval ledger: its hash chain, the alternation of approvals and withdrawals per key, what
  the lookups of the promotion ledger read, and when the verified replay accepts a new record.
\<close>

section \<open>Keys\<close>

lemma split_at_append: "CHR 0x00 \<notin> set p \<Longrightarrow> split_at (CHR 0x00) (p @ CHR 0x00 # s) = p # split_at (CHR 0x00) s"
  by (induction p) auto

lemma split_at_none: "CHR 0x00 \<notin> set p \<Longrightarrow> split_at (CHR 0x00) p = [p]"
  by (induction p) auto

lemma splitKey_append:
  assumes "CHR 0x00 \<notin> set a" and "CHR 0x00 \<notin> set b" and "CHR 0x00 \<notin> set c" and "CHR 0x00 \<notin> set d"
  shows "splitKey (approvalKey a b c d) = Some (a, b, c, d)"
  using assms by (simp add: splitKey_def approvalKey_def split_at_append split_at_none)

lemma hex_no_nul: "validSHA256 h \<Longrightarrow> CHR 0x00 \<notin> set h"
  by (auto simp: validSHA256_def hexDecodes_def list_all_iff lower_hex_def)

lemma prefixed_no_nul:
  assumes "validPrefixedHash v p" and "CHR 0x00 \<notin> set p"
  shows "CHR 0x00 \<notin> set v"
proof -
  have "v = p @ drop (length p) v" using assms(1) by (metis append_take_drop_id hasPrefix_def validPrefixedHash_def)
  moreover have "CHR 0x00 \<notin> set (drop (length p) v)"
    using hex_no_nul assms(1) by (auto simp: validPrefixedHash_def trimPrefix_def)
  ultimately show ?thesis using assms(2) by (metis Un_iff set_append)
qed

lemma target_no_nul: "validTarget t \<Longrightarrow> CHR 0x00 \<notin> set t"
  by (auto simp: validTarget_def containsAny_def list_ex_iff)

lemma surface_no_nul: "validSurface s \<Longrightarrow> CHR 0x00 \<notin> set s"
  by (auto simp: validSurface_def)

lemma split_valid_key:
  assumes "validPrefixedHash memory ''memory-''" and "validPrefixedHash revision ''memory-revision-''"
    and "validSurface surface" and "validTarget target"
  shows "splitKey (approvalKey memory revision surface target) = Some (memory, revision, surface, target)"
proof -
  have n: "CHR 0x00 \<notin> set ''memory-''" "CHR 0x00 \<notin> set ''memory-revision-''" by simp_all
  show ?thesis
    by (rule splitKey_append [OF prefixed_no_nul [OF assms(1) n(1)] prefixed_no_nul [OF assms(2) n(2)]
        surface_no_nul [OF assms(3)] target_no_nul [OF assms(4)]])
qed

lemma event_identity:
  assumes "validateEvent_approval en e = None"
  shows "validPrefixedHash (ae_memory_id e) ''memory-''" "validPrefixedHash (ae_revision_id e) ''memory-revision-''"
    "validSurface (ae_surface e)" "validTarget (ae_target e)" "qa_kind (ae_approver e) = ''human''"
  using assms by (simp_all only: validateEvent_approval_def first_error_Cons fail_if_None) blast+

lemma split_event_key:
  "validateEvent_approval en e = None \<Longrightarrow>
     splitKey (event_approval_key e) = Some (ae_memory_id e, ae_revision_id e, ae_surface e, ae_target e)"
  unfolding event_approval_key_def by (rule split_valid_key) (rule event_identity; assumption)+

section \<open>Records\<close>

lemma validateRecord_approval_None:
  assumes "validateRecord_approval en r n p = None"
  shows "validateEvent_approval en (ax_event r) = None" "ax_sequence r = n" "ax_previous r = p"
    "\<exists>x. event_envelope ApprovalRecordSchemaVersion n (approval_event_json (ax_event r)) p = Some x \<and> ax_hash r = sha256_hex x"
  using assms by (auto simp: validateRecord_approval_def makeRecord_approval_def split: option.splits)

lemma makeRecord_approval_fields:
  assumes "makeRecord_approval e n p = Some r"
  shows "ax_schema_version r = ApprovalRecordSchemaVersion" "ax_sequence r = n" "ax_previous r = p"
    "validSHA256 (ax_hash r)" "ax_event r = e"
  using assms by (auto simp: makeRecord_approval_def)

abbreviation record_key :: "approval_record \<Rightarrow> string" where
  "record_key r \<equiv> event_approval_key (ax_event r)"

lemma replay_step_approval_Inr:
  "replay_step_approval en r st = Inr st' \<longleftrightarrow>
     validateRecord_approval en r (as_next st) (as_last_hash st) = None \<and>
     approval_status st (record_key r) = ae_expected (ax_event r) \<and>
     st' = st\<lparr>as_statuses := AList.update (record_key r) (ae_resulting (ax_event r)) (as_statuses st),
              as_counts := (as_counts st)(record_key r := as_counts st (record_key r) + 1),
              as_history := as_history st @ [r],
              as_last_hash := ax_hash r, as_next := as_next st + 1, as_records := as_records st + 1\<rparr>"
proof -
  let ?checks = "[validateRecord_approval en r (as_next st) (as_last_hash st),
    fail_if (approval_status st (record_key r) \<noteq> ae_expected (ax_event r)) StaleExpectedStatus]"
  have "first_error ?checks = None \<longleftrightarrow> validateRecord_approval en r (as_next st) (as_last_hash st) = None \<and>
      approval_status st (record_key r) = ae_expected (ax_event r)" by simp
  then show ?thesis by (cases "first_error ?checks") (auto simp: replay_step_approval_def Let_def)
qed

lemma initial_approval_simps [simp]:
  "as_next initial_approval_state = 1" "as_last_hash initial_approval_state = []" "as_history initial_approval_state = []"
  "as_statuses initial_approval_state = []" "as_counts initial_approval_state = (\<lambda>_. 0)" "as_records initial_approval_state = 0"
  by (simp_all add: initial_approval_state_def)

interpretation approval: sequenced_log ApprovalRecordSchemaVersion approval_event_json ax_event ax_hash
  "replay_step_approval en" initial_approval_state as_next as_last_hash as_history
  for en :: scan_engine
proof
  fix r st st' assume s: "replay_step_approval en r st = Inr st'"
  then have "validateRecord_approval en r (as_next st) (as_last_hash st) = None" by (simp add: replay_step_approval_Inr)
  from validateRecord_approval_None(4) [OF this]
  show "\<exists>x. event_envelope ApprovalRecordSchemaVersion (as_next st) (approval_event_json (ax_event r)) (as_last_hash st) = Some x \<and>
      ax_hash r = sha256_hex x" .
  show "as_next st' = as_next st + 1 \<and> as_last_hash st' = ax_hash r \<and> as_history st' = as_history st @ [r]"
    using s by (simp add: replay_step_approval_Inr)
qed simp_all

section \<open>The decisions on one key\<close>

definition key_records :: "string \<Rightarrow> approval_record list \<Rightarrow> approval_record list" where
  "key_records key rs = filter (\<lambda>r. record_key r = key) rs"

lemma key_records_simps [simp]:
  "key_records key [] = []"
  "key_records key (rs @ [r]) = (if record_key r = key then key_records key rs @ [r] else key_records key rs)"
  by (simp_all add: key_records_def)

text \<open>Approvals and withdrawals alternate, and an approval comes first.\<close>

definition decision_at :: "nat \<Rightarrow> approval_record \<Rightarrow> bool" where
  "decision_at i r \<longleftrightarrow>
     ae_action (ax_event r) = (if even i then ActionAuthorize else ActionWithdraw) \<and>
     ae_resulting (ax_event r) = (if even i then StatusAuthorized else StatusNotAuthorized)"

definition alternating :: "approval_record list \<Rightarrow> bool" where
  "alternating rs \<longleftrightarrow> (\<forall>i < length rs. decision_at i (rs ! i))"

definition approval_state_ok :: "scan_engine \<Rightarrow> approval_state \<Rightarrow> bool" where
  "approval_state_ok en st \<longleftrightarrow>
     (\<forall>key. as_counts st key = length (key_records key (as_history st)) \<and> alternating (key_records key (as_history st)) \<and>
        approval_status st key = (if odd (length (key_records key (as_history st))) then StatusAuthorized else StatusNotAuthorized)) \<and>
     distinct (map fst (as_statuses st)) \<and>
     (\<forall>r \<in> set (as_history st). validateEvent_approval en (ax_event r) = None)"

lemma alternating_snoc: "alternating (rs @ [r]) \<longleftrightarrow> alternating rs \<and> decision_at (length rs) r"
  unfolding alternating_def by (auto simp: nth_append less_Suc_eq)

lemma approval_transition:
  assumes "validateEvent_approval en e = None"
  shows "ae_action e = ActionAuthorize \<and> ae_expected e = StatusNotAuthorized \<and> ae_resulting e = StatusAuthorized \<or>
    ae_action e = ActionWithdraw \<and> ae_expected e = StatusAuthorized \<and> ae_resulting e = StatusNotAuthorized"
proof -
  have "(if ae_action e = ActionAuthorize then
         fail_if (ae_expected e \<noteq> StatusNotAuthorized \<or> ae_resulting e \<noteq> StatusAuthorized) AuthorizeTransition
       else if ae_action e = ActionWithdraw then
         fail_if (ae_expected e \<noteq> StatusAuthorized \<or> ae_resulting e \<noteq> StatusNotAuthorized) WithdrawTransition
       else Some ApprovalActionInvalid) = None"
    using assms unfolding validateEvent_approval_def first_error_Cons by (elim conjE) (simp only: first_error_Cons)
  then show ?thesis by (auto split: if_splits)
qed

lemma approval_state_step:
  assumes s: "replay_step_approval en r st = Inr st'" and ok: "approval_state_ok en st"
  shows "approval_state_ok en st'"
proof -
  note i = s [unfolded replay_step_approval_Inr]
  have v: "validateEvent_approval en (ax_event r) = None" using i validateRecord_approval_None(1) by blast
  have h: "as_history st' = as_history st @ [r]" "as_counts st' = (as_counts st)(record_key r := as_counts st (record_key r) + 1)"
    "as_statuses st' = AList.update (record_key r) (ae_resulting (ax_event r)) (as_statuses st)"
    by (subst conjunct2 [OF conjunct2 [OF i]], simp)+
  let ?n = "length (key_records (record_key r) (as_history st))"
  have e: "approval_status st (record_key r) = (if odd ?n then StatusAuthorized else StatusNotAuthorized)"
    using ok by (simp add: approval_state_ok_def)
  then have t: "ae_action (ax_event r) = (if even ?n then ActionAuthorize else ActionWithdraw)"
    "ae_resulting (ax_event r) = (if even ?n then StatusAuthorized else StatusNotAuthorized)"
    using approval_transition [OF v] i by (auto split: if_splits)
  then have dec: "decision_at ?n r" by (simp add: decision_at_def)
  have a: "approval_status st' key = (if key = record_key r then ae_resulting (ax_event r) else approval_status st key)" for key
    by (simp add: approval_status_def h update_conv')
  have d: "distinct (map fst (as_statuses st'))" using ok by (simp add: h approval_state_ok_def distinct_update)
  have k: "as_counts st' key = length (key_records key (as_history st')) \<and> alternating (key_records key (as_history st')) \<and>
      approval_status st' key = (if odd (length (key_records key (as_history st'))) then StatusAuthorized else StatusNotAuthorized)" for key
  proof (cases "key = record_key r")
    case True
    show ?thesis using ok t dec unfolding a by (simp add: True h alternating_snoc approval_state_ok_def)
  next
    case False
    show ?thesis using ok False unfolding a by (simp add: h approval_state_ok_def)
  qed
  have "\<forall>r \<in> set (as_history st'). validateEvent_approval en (ax_event r) = None" using ok v by (simp add: h approval_state_ok_def)
  with k d show ?thesis by (simp add: approval_state_ok_def)
qed

lemma replay_approval_ok: "replay_approval en adec f = (st, e) \<Longrightarrow> approval_state_ok en st"
  unfolding replay_approval_def
  by (erule replay_log_invariant [where I = "approval_state_ok en"])
    (simp add: approval_state_ok_def alternating_def approval_status_def, rule approval_state_step)

section \<open>What the checks read\<close>

lemma approval_cong:
  fixes s :: "'a promotion_store_scheme" and s' :: "'b promotion_store_scheme"
  assumes "st_events s' = st_events s" and "st_blobs s' = st_blobs s" and "rst_file s' = rst_file s" and "pst_file s' = pst_file s"
  shows "replayVerified_promotion pv s' = replayVerified_promotion pv s"
    "GetRevision pv s' = GetRevision pv s" "RevisionWasCurrentAt pv s' = RevisionWasCurrentAt pv s"
    "GetStatus_promotion pv s' = GetStatus_promotion pv s" "check_approval pv s' = check_approval pv s"
    "eligible pv s' = eligible pv s" "check_decision pv s' = check_decision pv s"
proof -
  show r: "replayVerified_promotion pv s' = replayVerified_promotion pv s"
    unfolding replayVerified_promotion_def promotion_cong(3) [OF assms(1-3)] assms(4) ..
  show g: "GetRevision pv s' = GetRevision pv s" unfolding GetRevision_def [abs_def] r ..
  show w: "RevisionWasCurrentAt pv s' = RevisionWasCurrentAt pv s" unfolding RevisionWasCurrentAt_def [abs_def] r ..
  have "source_current pv s' = source_current pv s" unfolding source_current_def [abs_def] promotion_cong(4) [OF assms(1-3)] ..
  then show m: "GetStatus_promotion pv s' = GetStatus_promotion pv s" unfolding GetStatus_promotion_def [abs_def] r by presburger
  show "check_approval pv s' = check_approval pv s" unfolding check_approval_def [abs_def] g w ..
  show "eligible pv s' = eligible pv s" unfolding eligible_def [abs_def] m ..
  show "check_decision pv s' = check_decision pv s" unfolding check_decision_def [abs_def] m g w ..
qed

lemma replayVerified_approval_iff:
  "replayVerified_approval pv adec s = (st, None) \<longleftrightarrow>
     replay_approval (pv_engine pv) adec (ast_file s) = (st, None) \<and> (\<forall>r \<in> set (as_history st). check_approval pv s r = None)"
proof -
  have "first_error (map f rs) = None \<longleftrightarrow> (\<forall>r \<in> set rs. f r = None)" for f :: "approval_record \<Rightarrow> approval_failure option" and rs
    by (induction rs) auto
  then show ?thesis by (auto simp: replayVerified_approval_def split: prod.splits option.splits)
qed

section \<open>The new record\<close>

lemma check_approval_None:
  "check_approval pv s r = None \<longleftrightarrow>
     (\<exists>v. GetRevision pv s (ae_memory_id (ax_event r)) (ae_revision_id (ax_event r)) = Inr v \<and> rn_status v = StatusActive \<and>
        rn_recorded_at v \<le> ae_recorded_at (ax_event r) \<and>
        (ae_action (ax_event r) = ActionAuthorize \<longrightarrow>
           RevisionWasCurrentAt pv s (ae_memory_id (ax_event r)) (ae_revision_id (ax_event r)) (ae_recorded_at (ax_event r)) = Inr True) \<and>
        validateRequest_approval (pv_engine pv) (approval_request_of (ax_event r)) = None \<and>
        hashRequest_approval (approval_request_of (ax_event r)) = Some (ae_request_sha256 (ax_event r)))"
  by (cases "GetRevision pv s (ae_memory_id (ax_event r)) (ae_revision_id (ax_event r))")
    (auto simp: check_approval_def Let_def split: option.splits)

lemma approval_record_for_Inr:
  assumes "approval_record_for pv adec failed now random request s = Inr r"
  shows "\<exists>st. replayVerified_approval pv adec s = (st, None) \<and>
    approval_status st (record_key r) = ae_expected (ax_event r) \<and> check_decision pv s now request = None \<and>
    hashRequest_approval request = Some (ae_request_sha256 (ax_event r)) \<and>
    ae_recorded_at (ax_event r) = now \<and> ae_approver (ax_event r) = aq_approver request \<and>
    ae_memory_id (ax_event r) = aq_memory_id request \<and> ae_revision_id (ax_event r) = aq_revision_id request \<and>
    ae_surface (ax_event r) = aq_surface request \<and> ae_target (ax_event r) = aq_target request \<and>
    ae_expected (ax_event r) = aq_expected request \<and> ae_action (ax_event r) = aq_action request \<and>
    ae_reason (ax_event r) = aq_reason request \<and>
    validateEvent_approval (pv_engine pv) (ax_event r) = None \<and>
    makeRecord_approval (ax_event r) (as_next st) (as_last_hash st) = Some r"
proof -
  obtain st where st: "replayVerified_approval pv adec s = (st, None)"
    using assms by (auto simp: approval_record_for_def split: prod.splits option.splits)
  let ?key = "approvalKey (aq_memory_id request) (aq_revision_id request) (aq_surface request) (aq_target request)"
  have c: "first_error [fail_if (approval_status st ?key \<noteq> aq_expected request) ApproveStale, check_decision pv s now request] = None"
    using assms st by (simp add: approval_record_for_def Let_def split: option.splits)
  obtain d where d: "hashRequest_approval request = Some d"
    using assms st c by (simp add: approval_record_for_def Let_def split: option.splits)
  have f: "\<not> failed" using assms st c d by (simp add: approval_record_for_def Let_def split: if_splits)
  define e where "e = \<lparr>ae_schema_version = ApprovalEventSchemaVersion,
     ae_event_id = ''rule-approval-'' @ NewEventID now random, ae_recorded_at = now,
     ae_device_id = st_device_id s, ae_approver = aq_approver request, ae_request_sha256 = d,
     ae_memory_id = aq_memory_id request, ae_revision_id = aq_revision_id request,
     ae_surface = aq_surface request, ae_target = aq_target request,
     ae_expected = aq_expected request, ae_action = aq_action request,
     ae_resulting = (if aq_action request = ActionWithdraw then StatusNotAuthorized else StatusAuthorized),
     ae_reason = aq_reason request, ae_privacy = ''local_only''\<rparr>"
  have m: "validateEvent_approval (pv_engine pv) e = None" "makeRecord_approval e (as_next st) (as_last_hash st) = Some r"
    using assms f unfolding approval_record_for_def Let_def st prod.case option.case c d e_def [symmetric] if_False
    by (auto split: option.splits)
  from c have "approval_status st ?key = aq_expected request" "check_decision pv s now request = None" by simp_all
  with makeRecord_approval_fields(5) [OF m(2)] m st d show ?thesis by (simp add: e_def event_approval_key_def)
qed

text \<open>The clock did not run backwards between the revision and the decision on it.\<close>

definition decided_in_order :: "promotion_env \<Rightarrow> 'a promotion_store_scheme \<Rightarrow> approval_event \<Rightarrow> bool" where
  "decided_in_order pv s e \<longleftrightarrow>
     (case GetRevision pv s (ae_memory_id e) (ae_revision_id e) of
        Inl _ \<Rightarrow> True
      | Inr v \<Rightarrow> rn_recorded_at v \<le> ae_recorded_at e)"

lemma find_memory_revision:
  "List.find (\<lambda>v. rn_memory_id v = m \<and> rn_revision_id v = i) (map (pe_revision \<circ> pr_event) rs) =
     map_option fst (target_window i (memory_revisions m rs))"
  by (induction rs) (auto simp: memory_revisions_def)

text \<open>A revision that was current at a moment is one that \<open>GetRevision\<close> returns, active and recorded by then.\<close>

lemma current_revision_found:
  assumes "RevisionWasCurrentAt pv s m i t = Inr True"
  shows "\<exists>v. GetRevision pv s m i = Inr v \<and> rn_status v = StatusActive \<and> rn_recorded_at v \<le> t"
proof -
  obtain st where a: "validPrefixedHash m ''memory-''" "validPrefixedHash i ''memory-revision-''"
    "replayVerified_promotion pv s = (st, None)"
    using assms by (auto simp: RevisionWasCurrentAt_def split: if_splits prod.splits option.splits)
  then obtain v ended where v: "target_window i (memory_revisions m (ps_history st)) = Some (v, ended)"
    using assms by (auto simp: RevisionWasCurrentAt_def split: if_splits option.splits)
  then have "rn_status v = StatusActive" "rn_recorded_at v \<le> t"
    using assms a by (auto simp: RevisionWasCurrentAt_def split: if_splits)
  with a v show ?thesis by (simp add: GetRevision_def find_memory_revision)
qed

text \<open>The key of an event determines what the event is about.\<close>

lemma same_key:
  assumes "event_approval_key e = event_approval_key e'" and "validateEvent_approval en e = None"
    and "validateEvent_approval en e' = None"
  shows "ae_memory_id e = ae_memory_id e' \<and> ae_revision_id e = ae_revision_id e' \<and> ae_surface e = ae_surface e' \<and>
    ae_target e = ae_target e'"
  using split_event_key [OF assms(2)] split_event_key [OF assms(3)] assms(1) by simp

lemma new_approval_checked:
  assumes rec: "approval_record_for pv adec failed now random request s = Inr r"
    and req: "validateRequest_approval (pv_engine pv) request = None"
  shows "check_approval pv s r = None \<longleftrightarrow> decided_in_order pv s (ax_event r)"
    and "ae_action (ax_event r) = ActionAuthorize \<Longrightarrow> decided_in_order pv s (ax_event r)"
proof -
  let ?e = "ax_event r"
  obtain st where st: "replayVerified_approval pv adec s = (st, None)" "approval_status st (record_key r) = ae_expected ?e"
    "check_decision pv s now request = None" "hashRequest_approval request = Some (ae_request_sha256 ?e)"
    and f: "ae_recorded_at ?e = now" "ae_approver ?e = aq_approver request" "ae_memory_id ?e = aq_memory_id request"
      "ae_revision_id ?e = aq_revision_id request" "ae_surface ?e = aq_surface request" "ae_target ?e = aq_target request"
      "ae_expected ?e = aq_expected request" "ae_action ?e = aq_action request" "ae_reason ?e = aq_reason request"
    and ev: "validateEvent_approval (pv_engine pv) ?e = None"
    using approval_record_for_Inr [OF rec] by blast
  have "aq_schema_version request = ApprovalRequestSchemaVersion" using req by (simp add: validateRequest_approval_def)
  then have q: "approval_request_of ?e = request" using f by (cases request) (simp add: approval_request_of_def)
  have cur: "ae_action ?e = ActionAuthorize \<Longrightarrow> RevisionWasCurrentAt pv s (ae_memory_id ?e) (ae_revision_id ?e) (ae_recorded_at ?e) = Inr True"
    using st(3) f by (auto simp: check_decision_def split: sum.splits)
  show auth: "decided_in_order pv s ?e" if "ae_action ?e = ActionAuthorize"
    using current_revision_found [OF cur [OF that]] by (auto simp: decided_in_order_def)
  have known: "\<exists>v. GetRevision pv s (ae_memory_id ?e) (ae_revision_id ?e) = Inr v \<and> rn_status v = StatusActive"
  proof (cases "ae_action ?e = ActionAuthorize")
    case True
    from current_revision_found [OF cur [OF True]] show ?thesis by blast
  next
    case False
    then have x: "ae_expected ?e = StatusAuthorized" using approval_transition [OF ev] by blast
    note old = st(1) [unfolded replayVerified_approval_iff]
    have ok: "approval_state_ok (pv_engine pv) st" using replay_approval_ok old by blast
    then have "approval_status st (record_key r) = (if odd (length (key_records (record_key r) (as_history st)))
        then StatusAuthorized else StatusNotAuthorized)" unfolding approval_state_ok_def by blast
    then have "odd (length (key_records (record_key r) (as_history st)))" using st(2) x by (simp split: if_splits)
    then have "key_records (record_key r) (as_history st) \<noteq> []" by auto
    then obtain r0 where r0: "r0 \<in> set (as_history st)" "record_key r0 = record_key r"
      unfolding key_records_def filter_empty_conv by blast
    have ev0: "validateEvent_approval (pv_engine pv) (ax_event r0) = None" using ok r0(1) by (simp add: approval_state_ok_def)
    have "ae_memory_id (ax_event r0) = ae_memory_id ?e \<and> ae_revision_id (ax_event r0) = ae_revision_id ?e"
      using same_key [OF r0(2) ev0 ev] by blast
    with old r0(1) show ?thesis unfolding check_approval_None by fastforce
  qed
  show "check_approval pv s r = None \<longleftrightarrow> decided_in_order pv s ?e"
    unfolding check_approval_None q using known cur req st(4) by (auto simp: decided_in_order_def)
qed

end
