(* ===== verification/Approval_Claims.thy ===== *)
theory Approval_Claims
  imports Approval_Props Promotion_Claims
begin

text \<open>
  The properties of the rule approval ledger and of its composition with the memory promotion ledger, with a
  sample approval for the witnesses.
\<close>

section \<open>A sample approval\<close>

definition sample_decision :: approval_request where
  "sample_decision = \<lparr>aq_schema_version = ApprovalRequestSchemaVersion, aq_approver = \<lparr>qa_kind = ''human'', qa_id = ''rev''\<rparr>,
     aq_memory_id = sample_memory_id, aq_revision_id = rn_revision_id (sample_revision 2), aq_surface = ''skill'',
     aq_target = ''ok'', aq_expected = StatusNotAuthorized, aq_action = ActionAuthorize, aq_reason = ''ok''\<rparr>"

definition undecided_store :: approval_store where
  "undecided_store = promotion_store.extend (promoted_store 2) (approval_store.fields NotExist False)"

lemma undecided_fields [simp]:
  "st_events undecided_store = st_events note_store" "st_blobs undecided_store = st_blobs note_store"
  "rst_file undecided_store = rst_file reviewed_store" "pst_file undecided_store = pst_file (promoted_store 2)"
  "ast_file undecided_store = NotExist" "\<not> ast_lock undecided_store" "st_device_id undecided_store = ''device-1''"
  by (simp_all add: undecided_store_def promotion_store.defs approval_store.defs promoted_store_def ready_store_def
      review_store.defs reviewed_store_def note_store_def)

lemma promoted_fields:
  "st_events (promoted_store now) = st_events note_store" "st_blobs (promoted_store now) = st_blobs note_store"
  "rst_file (promoted_store now) = rst_file reviewed_store"
  by (simp_all add: promoted_store_def)

lemma sample_current:
  "\<exists>st. replayVerified_promotion (sample_pv 2) (promoted_store 2) = (st, None) \<and>
     memory_revisions sample_memory_id (ps_history st) = [sample_revision 2] \<and>
     map_of (ps_current st) sample_memory_id = Some (sample_revision 2)"
  "validPrefixedHash sample_memory_id ''memory-''" "validPrefixedHash (rn_revision_id (sample_revision 2)) ''memory-revision-''"
  "rn_status (sample_revision 2) = StatusActive" "rn_recorded_at (sample_revision 2) = 2"
  "source_current (sample_pv 2) (promoted_store 2) (sample_revision 2)"
proof -
  obtain st where st: "replayVerified_promotion (sample_pv 2) (promoted_store 2) = (st, None)" "ps_history st = [sample_promotion 2]"
    using sample_promoted_history [OF sample_times] by auto
  have f: "record_revision (sample_promotion 2) = sample_revision 2" "rn_memory_id (sample_revision 2) = sample_memory_id"
    using sample_event_facts(3) [OF sample_times] by (simp_all add: sample_promotion_event_def sample_revision_def sample_unnamed_def)
  show g: "rn_status (sample_revision 2) = StatusActive" "rn_recorded_at (sample_revision 2) = 2"
    by (simp_all add: sample_revision_def sample_unnamed_def)
  have v: "memory_revisions sample_memory_id (ps_history st) = [sample_revision 2]"
    using memory_revisions_simps(2) [of sample_memory_id "[]" "sample_promotion 2"] f st(2) by simp
  have ok: "promotion_state_ok quiet_engine st"
    using replay_promotion_ok replayVerified_promotion_iff [THEN iffD1, OF st(1)] by (metis sample_pv_fields(4))
  then have "map_of (ps_current st) sample_memory_id = Some (sample_revision 2)"
    using current_of_last [of "ps_history st" sample_memory_id] v by (simp add: promotion_state_ok_def)
  with st(1) v show "\<exists>st. replayVerified_promotion (sample_pv 2) (promoted_store 2) = (st, None) \<and>
     memory_revisions sample_memory_id (ps_history st) = [sample_revision 2] \<and>
     map_of (ps_current st) sample_memory_id = Some (sample_revision 2)" by blast
  have "validateRevisionSyntax quiet_engine (sample_revision 2) = None"
    using ok by (simp add: promotion_state_ok_def st(2) validateEvent_promotion_def f(1))
  then show "validPrefixedHash sample_memory_id ''memory-''" "validPrefixedHash (rn_revision_id (sample_revision 2)) ''memory-revision-''"
    using f(2) by (simp_all add: validateRevisionSyntax_def)
  have "rn_source (sample_revision 2) = Some (active_source sample_candidate sample_proof)"
    by (simp add: sample_revision_def sample_unnamed_def)
  then show "source_current (sample_pv 2) (promoted_store 2) (sample_revision 2)"
    using ready_resolves [OF promoted_fields] g(1)
    by (simp add: source_current_def resolve_source_def active_source_def sample_proof_fields)
qed

lemma undecided_cong:
  "GetRevision pv undecided_store = GetRevision pv (promoted_store 2)"
  "RevisionWasCurrentAt pv undecided_store = RevisionWasCurrentAt pv (promoted_store 2)"
  "GetStatus_promotion pv undecided_store = GetStatus_promotion pv (promoted_store 2)"
  "check_decision pv undecided_store = check_decision pv (promoted_store 2)"
  by (rule approval_cong; simp add: promoted_fields)+

lemma sample_lookups:
  "\<exists>m. GetStatus_promotion (sample_pv 2) (promoted_store 2) sample_memory_id = Inr m \<and> ms_export_eligible m \<and>
     ms_revision_id m = rn_revision_id (sample_revision 2)"
  "RevisionWasCurrentAt (sample_pv 2) (promoted_store 2) sample_memory_id (rn_revision_id (sample_revision 2)) 3 = Inr True"
proof -
  obtain st where st: "replayVerified_promotion (sample_pv 2) (promoted_store 2) = (st, None)"
    "memory_revisions sample_memory_id (ps_history st) = [sample_revision 2]"
    "map_of (ps_current st) sample_memory_id = Some (sample_revision 2)" using sample_current(1) by blast
  show "\<exists>m. GetStatus_promotion (sample_pv 2) (promoted_store 2) sample_memory_id = Inr m \<and> ms_export_eligible m \<and>
     ms_revision_id m = rn_revision_id (sample_revision 2)"
    using st(1,3) sample_current(2-6) by (simp add: GetStatus_promotion_def)
  show "RevisionWasCurrentAt (sample_pv 2) (promoted_store 2) sample_memory_id (rn_revision_id (sample_revision 2)) 3 = Inr True"
    using st(1,2) sample_current(2-5) by (simp add: RevisionWasCurrentAt_def)
qed

lemma sample_decision_valid: "validateRequest_approval quiet_engine sample_decision = None"
  using sample_current(2,3)
  by (simp add: validateRequest_approval_def sample_decision_def sample_words sample_ok_words validSurface_def validTarget_def
      containsAny_def)

definition sample_decision_event :: approval_event where
  "sample_decision_event = \<lparr>ae_schema_version = ApprovalEventSchemaVersion,
     ae_event_id = ''rule-approval-'' @ NewEventID 3 ''r'', ae_recorded_at = 3, ae_device_id = ''device-1'',
     ae_approver = aq_approver sample_decision, ae_request_sha256 = the (hashRequest_approval sample_decision),
     ae_memory_id = sample_memory_id, ae_revision_id = rn_revision_id (sample_revision 2), ae_surface = ''skill'',
     ae_target = ''ok'', ae_expected = StatusNotAuthorized, ae_action = ActionAuthorize,
     ae_resulting = StatusAuthorized, ae_reason = ''ok'', ae_privacy = ''local_only''\<rparr>"

definition sample_approval :: approval_record where
  "sample_approval = the (makeRecord_approval sample_decision_event 1 [])"

definition sample_approval_line :: string where
  "sample_approval_line = the (marshal (approval_record_json sample_approval))"

definition sample_adec :: "string \<Rightarrow> approval_record option" where
  "sample_adec l = Some sample_approval"

definition decided_store :: approval_store where
  "decided_store = undecided_store\<lparr>ast_file := Readable (sample_approval_line @ [newline]) False\<rparr>"

lemma approval_json_None [simp]:
  "(marshal (rule_approver_json a) = None) = False" "(marshal (approval_request_json q) = None) = False"
  by (simp_all add: rule_approver_json_def approval_request_json_def marshal_JObj_None del: marshal.simps(7))

lemma approval_event_json_None: "marshal (approval_event_json e) = None \<longleftrightarrow> json_time (ae_recorded_at e) = None"
  by (simp add: approval_event_json_def marshal_JObj_None del: marshal.simps(7))

lemma approval_record_json_None: "marshal (approval_record_json r) = None \<longleftrightarrow> marshal (approval_event_json (ax_event r)) = None"
  by (simp add: approval_record_json_def marshal_JObj_None del: marshal.simps(7))

lemma sample_hash_decision: "\<exists>d. hashRequest_approval sample_decision = Some (sha256_hex d)"
proof -
  obtain j where "marshal (approval_request_json sample_decision) = Some j"
    using approval_json_None(2) [of sample_decision] by blast
  then show ?thesis by (auto simp: hashRequest_approval_def)
qed

lemma sample_approval_made:
  "makeRecord_approval sample_decision_event 1 [] = Some sample_approval" "ax_event sample_approval = sample_decision_event"
  "marshal (approval_record_json sample_approval) = Some sample_approval_line" "ax_sequence sample_approval = 1"
proof -
  have t: "json_time 3 \<noteq> None" by code_simp
  then have j: "marshal (approval_event_json sample_decision_event) \<noteq> None"
    by (simp add: approval_event_json_None sample_decision_event_def)
  then show m: "makeRecord_approval sample_decision_event 1 [] = Some sample_approval"
    by (auto simp: sample_approval_def makeRecord_approval_def event_envelope_def envelope_def)
  show e: "ax_event sample_approval = sample_decision_event" "ax_sequence sample_approval = 1"
    using makeRecord_approval_fields [OF m] by simp_all
  have "marshal (approval_record_json sample_approval) \<noteq> None" using j by (simp add: approval_record_json_None e)
  then show "marshal (approval_record_json sample_approval) = Some sample_approval_line" by (simp add: sample_approval_line_def)
qed

lemma sample_decision_event_valid: "validateEvent_approval quiet_engine sample_decision_event = None"
proof -
  obtain d where d: "hashRequest_approval sample_decision = Some (sha256_hex d)" using sample_hash_decision by blast
  have i: "hasPrefix (ae_event_id sample_decision_event) ''rule-approval-''" by (simp add: sample_decision_event_def hasPrefix_def)
  have f: "ae_schema_version sample_decision_event = ApprovalEventSchemaVersion" "ae_recorded_at sample_decision_event = 3"
    "ae_device_id sample_decision_event = ''device-1''" "ae_approver sample_decision_event = \<lparr>qa_kind = ''human'', qa_id = ''rev''\<rparr>"
    "ae_request_sha256 sample_decision_event = sha256_hex d" "ae_memory_id sample_decision_event = sample_memory_id"
    "ae_revision_id sample_decision_event = rn_revision_id (sample_revision 2)" "ae_surface sample_decision_event = ''skill''"
    "ae_target sample_decision_event = ''ok''" "ae_expected sample_decision_event = StatusNotAuthorized"
    "ae_action sample_decision_event = ActionAuthorize" "ae_resulting sample_decision_event = StatusAuthorized"
    "ae_reason sample_decision_event = ''ok''" "ae_privacy sample_decision_event = ''local_only''"
    using d by (simp_all add: sample_decision_event_def sample_decision_def [THEN arg_cong, of aq_approver])
  show ?thesis
    unfolding validateEvent_approval_def f using i sample_current(2,3)
    by (simp add: sample_words sample_ok_words validSurface_def validTarget_def containsAny_def)
qed

lemma sample_approval_for:
  "approval_record_for (sample_pv 2) adec False 3 ''r'' sample_decision (undecided_store\<lparr>ast_lock := True\<rparr>) = Inr sample_approval"
proof -
  let ?s = "undecided_store\<lparr>ast_lock := True\<rparr>"
  obtain d where d: "hashRequest_approval sample_decision = Some (sha256_hex d)" using sample_hash_decision by blast
  have r: "replayVerified_approval (sample_pv 2) adec ?s = (initial_approval_state, None)"
    by (simp add: replayVerified_approval_def replay_approval_def replay_log_def)
  have dec: "check_decision (sample_pv 2) ?s 3 sample_decision = None"
  proof -
    have "check_decision (sample_pv 2) ?s = check_decision (sample_pv 2) (promoted_store 2)"
      by (rule approval_cong(7)) (simp_all add: promoted_fields)
    then show ?thesis using sample_lookups by (auto simp: check_decision_def sample_decision_def)
  qed
  have e: "\<lparr>ae_schema_version = ApprovalEventSchemaVersion, ae_event_id = ''rule-approval-'' @ NewEventID 3 ''r'',
     ae_recorded_at = 3, ae_device_id = st_device_id ?s, ae_approver = aq_approver sample_decision, ae_request_sha256 = sha256_hex d,
     ae_memory_id = aq_memory_id sample_decision, ae_revision_id = aq_revision_id sample_decision,
     ae_surface = aq_surface sample_decision, ae_target = aq_target sample_decision,
     ae_expected = aq_expected sample_decision, ae_action = aq_action sample_decision,
     ae_resulting = (if aq_action sample_decision = ActionWithdraw then StatusNotAuthorized else StatusAuthorized),
     ae_reason = aq_reason sample_decision, ae_privacy = ''local_only''\<rparr> = sample_decision_event"
    by (simp add: sample_decision_event_def d) (simp add: sample_decision_def)
  have x: "aq_expected sample_decision = StatusNotAuthorized" by (simp add: sample_decision_def)
  have "first_error [fail_if (approval_status initial_approval_state key \<noteq> aq_expected sample_decision) ApproveStale,
      check_decision (sample_pv 2) ?s 3 sample_decision] = None" for key
    by (simp add: dec x approval_status_def)
  then show ?thesis
    unfolding approval_record_for_def Let_def r prod.case option.case d if_False e
    using sample_decision_event_valid sample_approval_made(1) by simp
qed

section \<open>Writing\<close>

lemma Apply_approval_Inr:
  fixes s s' :: "'a approval_store_scheme"
  assumes "Apply_approval pv adec faults now random request s = (s', Inr res)"
  shows "\<exists>r line. validateRequest_approval (pv_engine pv) request = None \<and> \<not> ast_lock s \<and>
    approval_record_for pv adec (rf_random faults) now random request (s\<lparr>ast_lock := True\<rparr>) = Inr r \<and>
    marshal (approval_record_json r) = Some line \<and>
    s' = s\<lparr>ast_file := Readable (file_bytes (ast_file s) @ line @ [newline]) False\<rparr> \<and>
    res = \<lparr>ar_approval_event = ae_event_id (ax_event r), ar_approval_sequence = ax_sequence r, ar_approval_hash = ax_hash r,
           ar_approval_status = ae_resulting (ax_event r)\<rparr>"
proof -
  have a: "validateRequest_approval (pv_engine pv) request = None"
    using assms by (auto simp: Apply_approval_def split: option.splits)
  have lk: "\<not> ast_lock s \<and> acquireApprovalLock (rf_lock faults) s = (s\<lparr>ast_lock := True\<rparr>, None)"
    using assms a by (auto simp: Apply_approval_def acquireApprovalLock_def acquire_lock_def
        split: prod.splits option.splits if_splits lock_fault.splits)
  obtain r where r: "approval_record_for pv adec (rf_random faults) now random request (s\<lparr>ast_lock := True\<rparr>) = Inr r"
    using assms a lk by (auto simp: Apply_approval_def split: sum.splits)
  obtain s2 where s2: "appendRecord_approval (rf_append faults) r (s\<lparr>ast_lock := True\<rparr>) = (s2, None)"
    using assms a lk r by (auto simp: Apply_approval_def split: prod.splits option.splits)
  have fin: "s' = releaseApprovalLock True s2"
    "res = \<lparr>ar_approval_event = ae_event_id (ax_event r), ar_approval_sequence = ax_sequence r, ar_approval_hash = ax_hash r,
            ar_approval_status = ae_resulting (ax_event r)\<rparr>"
    using assms a lk r s2 by (auto simp: Apply_approval_def split: if_splits)
  obtain f where ap: "append_bytes (rf_append faults) (encode_line (approval_record_json r)) (ast_file s) = (f, None)"
    and s2': "s2 = s\<lparr>ast_lock := True, ast_file := f\<rparr>"
    using s2 by (auto simp: appendRecord_approval_def split: prod.splits)
  obtain line where line: "marshal (approval_record_json r) = Some line"
    using ap by (cases "marshal (approval_record_json r)") (auto simp: encode_line_def append_bytes_def Let_def split: if_splits)
  have f: "f = Readable (file_bytes (ast_file s) @ line @ [newline]) False"
    using append_bytes_ok(1) [of "rf_append faults" "line @ [newline]" "ast_file s" f] ap by (simp add: encode_line_def line)
  have "s' = s\<lparr>ast_file := Readable (file_bytes (ast_file s) @ line @ [newline]) False\<rparr>"
    unfolding fin(1) s2' f releaseApprovalLock_def using lk by (cases s) simp
  with a lk r line fin(2) show ?thesis by blast
qed

lemma replayVerified_approval_cong:
  fixes s :: "'a approval_store_scheme" and s' :: "'b approval_store_scheme"
  assumes "st_events s' = st_events s" and "st_blobs s' = st_blobs s" and "rst_file s' = rst_file s" and "pst_file s' = pst_file s"
    and "ast_file s' = ast_file s"
  shows "replayVerified_approval pv adec s' = replayVerified_approval pv adec s"
  unfolding replayVerified_approval_def approval_cong(5) [OF assms(1-4)] assms(5) ..

text \<open>Property C24. A successful \<open>Apply\<close> of the rule approval ledger appends exactly one line, touches nothing else
  and releases its lock; when the line decodes to the record it encodes, the ledger replays to the old history and
  the new record, and the verified replay accepts it exactly when the decision is not dated before the revision it
  is about, which an authorization never is. (A withdrawal does not compare its clock with that date: a clock set
  back makes it write a record that every later verified replay refuses.)\<close>

theorem Apply_approval_ok:
  assumes "Apply_approval pv adec faults now random request s = (s', Inr res)"
  shows "\<exists>r line st. approval_record_for pv adec (rf_random faults) now random request (s\<lparr>ast_lock := True\<rparr>) = Inr r \<and>
    marshal (approval_record_json r) = Some line \<and> replayVerified_approval pv adec s = (st, None) \<and> \<not> ast_lock s' \<and>
    s' = s\<lparr>ast_file := Readable (file_bytes (ast_file s) @ line @ [newline]) False\<rparr> \<and>
    res = \<lparr>ar_approval_event = ae_event_id (ax_event r), ar_approval_sequence = ax_sequence r, ar_approval_hash = ax_hash r,
           ar_approval_status = ae_resulting (ax_event r)\<rparr> \<and>
    (aq_action request = ActionAuthorize \<longrightarrow> decided_in_order pv s (ax_event r)) \<and>
    (adec (line_payload line) = Some r \<longrightarrow>
       (\<exists>st'. replay_approval (pv_engine pv) adec (ast_file s') = (st', None) \<and> as_history st' = as_history st @ [r] \<and>
          (replayVerified_approval pv adec s' = (st', None) \<longleftrightarrow> decided_in_order pv s (ax_event r))))"
proof -
  obtain r line where a: "validateRequest_approval (pv_engine pv) request = None" "\<not> ast_lock s"
    "approval_record_for pv adec (rf_random faults) now random request (s\<lparr>ast_lock := True\<rparr>) = Inr r"
    "marshal (approval_record_json r) = Some line"
    "s' = s\<lparr>ast_file := Readable (file_bytes (ast_file s) @ line @ [newline]) False\<rparr>"
    "res = \<lparr>ar_approval_event = ae_event_id (ax_event r), ar_approval_sequence = ax_sequence r, ar_approval_hash = ax_hash r,
           ar_approval_status = ae_resulting (ax_event r)\<rparr>"
    using Apply_approval_Inr [OF assms] by blast
  let ?l = "s\<lparr>ast_lock := True\<rparr>"
  have c: "check_approval pv ?l = check_approval pv s" "GetRevision pv ?l = GetRevision pv s"
    "check_approval pv s' = check_approval pv s" by (rule approval_cong; simp add: a(5))+
  have io: "decided_in_order pv ?l = decided_in_order pv s" unfolding decided_in_order_def [abs_def] c ..
  obtain st where st: "replayVerified_approval pv adec ?l = (st, None)" "approval_status st (record_key r) = ae_expected (ax_event r)"
    "ae_action (ax_event r) = aq_action request" "validateEvent_approval (pv_engine pv) (ax_event r) = None"
    "makeRecord_approval (ax_event r) (as_next st) (as_last_hash st) = Some r"
    using approval_record_for_Inr [OF a(3)] by blast
  have st': "replayVerified_approval pv adec s = (st, None)"
    using st(1) replayVerified_approval_cong [of ?l s] by simp
  note old = st' [unfolded replayVerified_approval_iff]
  have n: "check_approval pv s r = None \<longleftrightarrow> decided_in_order pv s (ax_event r)"
    "aq_action request = ActionAuthorize \<longrightarrow> decided_in_order pv s (ax_event r)"
    using new_approval_checked [OF a(3,1)] st(3) unfolding c io by simp_all
  have new: "\<exists>st'. replay_approval (pv_engine pv) adec (ast_file s') = (st', None) \<and> as_history st' = as_history st @ [r] \<and>
      (replayVerified_approval pv adec s' = (st', None) \<longleftrightarrow> decided_in_order pv s (ax_event r))"
    if dec: "adec (line_payload line) = Some r"
  proof -
    have "validateRecord_approval (pv_engine pv) r (as_next st) (as_last_hash st) = None"
      using makeRecord_approval_fields [OF st(5)] st(4,5) by (simp add: validateRecord_approval_def)
    then obtain st1 where st1: "replay_step_approval (pv_engine pv) r st = Inr st1"
      unfolding replay_step_approval_Inr using st(2) by blast
    have h: "as_history st1 = as_history st @ [r]" using st1 by (simp add: replay_step_approval_Inr)
    have "replay_approval (pv_engine pv) adec (ast_file s') = (st1, None)"
      using replay_log_append [OF readable_log [OF conjunct1 [OF old, unfolded replay_approval_def]] newline_marshal [OF a(4)] dec st1]
      by (simp add: replay_approval_def a(5))
    with h old n(1) show ?thesis by (auto simp: replayVerified_approval_iff c)
  qed
  have "\<not> ast_lock s'" using a(2,5) by simp
  with a(3-6) st' n(2) new show ?thesis by blast
qed

lemma sample_approve:
  "Apply_approval (sample_pv 2) sample_adec no_review_faults 3 ''r'' sample_decision undecided_store =
     (decided_store, Inr \<lparr>ar_approval_event = ae_event_id sample_decision_event, ar_approval_sequence = 1,
        ar_approval_hash = ax_hash sample_approval, ar_approval_status = StatusAuthorized\<rparr>)"
proof -
  have f: "rf_lock no_review_faults = None" "rf_random no_review_faults = False" "rf_release_ok no_review_faults = True"
    "rf_append no_review_faults = None" by (simp_all add: no_review_faults_def)
  have lk: "acquireApprovalLock None undecided_store = (undecided_store\<lparr>ast_lock := True\<rparr>, None)"
    by (simp add: acquireApprovalLock_def acquire_lock_def)
  have ap: "appendRecord_approval None sample_approval (undecided_store\<lparr>ast_lock := True\<rparr>) =
      (decided_store\<lparr>ast_lock := True\<rparr>, None)"
    by (simp add: appendRecord_approval_def encode_line_def sample_approval_made append_bytes_def decided_store_def file_bytes_def Let_def)
  have rel: "releaseApprovalLock True (decided_store\<lparr>ast_lock := True\<rparr>) = decided_store"
    by (simp add: releaseApprovalLock_def decided_store_def undecided_store_def approval_store.defs promotion_store.defs)
  have v: "validateRequest_approval (pv_engine (sample_pv 2)) sample_decision = None" using sample_decision_valid by simp
  have st: "ae_resulting sample_decision_event = StatusAuthorized" by (simp add: sample_decision_event_def)
  show ?thesis
    unfolding Apply_approval_def v option.case f lk prod.case sample_approval_for sum.case ap if_True rel
      sample_approval_made st ..
qed

theorem Apply_approval_ok_witness:
  "\<exists>st'. replayVerified_approval (sample_pv 2) sample_adec decided_store = (st', None) \<and> as_history st' = [sample_approval]"
proof -
  obtain r line st where a: "approval_record_for (sample_pv 2) sample_adec (rf_random no_review_faults) 3 ''r'' sample_decision
      (undecided_store\<lparr>ast_lock := True\<rparr>) = Inr r" "replayVerified_approval (sample_pv 2) sample_adec undecided_store = (st, None)"
    "aq_action sample_decision = ActionAuthorize \<longrightarrow> decided_in_order (sample_pv 2) undecided_store (ax_event r)"
    and b: "sample_adec (line_payload line) = Some r \<longrightarrow>
       (\<exists>st'. replay_approval (pv_engine (sample_pv 2)) sample_adec (ast_file decided_store) = (st', None) \<and> as_history st' = as_history st @ [r] \<and>
          (replayVerified_approval (sample_pv 2) sample_adec decided_store = (st', None) \<longleftrightarrow>
            decided_in_order (sample_pv 2) undecided_store (ax_event r)))"
    using Apply_approval_ok [OF sample_approve] by blast
  have r: "r = sample_approval" using a(1) sample_approval_for by (simp add: no_review_faults_def)
  have "st = initial_approval_state" using a(2) by (simp add: replayVerified_approval_def replay_approval_def replay_log_def)
  with a(3) b show ?thesis by (auto simp: r sample_adec_def sample_decision_def)
qed

section \<open>Reading\<close>

text \<open>Property C35. The key of an approval names exactly one memory, revision, surface and target: \<open>splitKey\<close> recovers
  them from the key of every valid identity, so that two different approvals never share their status.\<close>

theorem splitKey_approvalKey:
  assumes "validPrefixedHash memory ''memory-''" and "validPrefixedHash revision ''memory-revision-''"
    and "validSurface surface" and "validTarget target"
  shows "splitKey (approvalKey memory revision surface target) = Some (memory, revision, surface, target)"
  by (rule split_valid_key [OF assms])

theorem splitKey_approvalKey_witness:
  "splitKey (approvalKey sample_memory_id (rn_revision_id (sample_revision 2)) ''skill'' ''ok'') =
     Some (sample_memory_id, rn_revision_id (sample_revision 2), ''skill'', ''ok'')"
  by (rule splitKey_approvalKey [OF sample_current(2,3)])
    (simp_all add: validSurface_def validTarget_def containsAny_def sample_words sample_ok_words)

text \<open>Property C25. In every rule approval ledger that replays, the decisions on one key alternate between an
  authorization and its withdrawal, beginning with an authorization; they are counted, and the key is authorized
  exactly when their number is odd.\<close>

theorem decisions_alternate:
  assumes "replay_approval en adec f = (st, e)"
  shows "let rs = key_records key (as_history st) in
    as_counts st key = length rs \<and> (approval_status st key = StatusAuthorized \<longleftrightarrow> odd (length rs)) \<and>
    (\<forall>i < length rs.
       ae_action (ax_event (rs ! i)) = (if even i then ActionAuthorize else ActionWithdraw) \<and>
       ae_resulting (ax_event (rs ! i)) = (if even i then StatusAuthorized else StatusNotAuthorized))"
proof -
  note ok = replay_approval_ok [OF assms, unfolded approval_state_ok_def]
  have a: "as_counts st key = length (key_records key (as_history st))" "alternating (key_records key (as_history st))"
    "approval_status st key = (if odd (length (key_records key (as_history st))) then StatusAuthorized else StatusNotAuthorized)"
    using ok by blast+
  show ?thesis using a(1,2) unfolding Let_def a(3) by (simp add: alternating_def decision_at_def)
qed

lemma sample_decided:
  "\<exists>st. replayVerified_approval (sample_pv 2) sample_adec decided_store = (st, None) \<and> as_history st = [sample_approval]"
proof -
  let ?s = "undecided_store\<lparr>ast_lock := True\<rparr>"
  have r: "replayVerified_approval (sample_pv 2) sample_adec ?s = (initial_approval_state, None)"
    by (simp add: replayVerified_approval_def replay_approval_def replay_log_def)
  obtain st where st: "replayVerified_approval (sample_pv 2) sample_adec ?s = (st, None)"
    "approval_status st (record_key sample_approval) = ae_expected (ax_event sample_approval)"
    "makeRecord_approval (ax_event sample_approval) (as_next st) (as_last_hash st) = Some sample_approval"
    using approval_record_for_Inr [OF sample_approval_for] by blast
  have "validateRecord_approval quiet_engine sample_approval 1 [] = None"
    using makeRecord_approval_fields [OF sample_approval_made(1)] sample_decision_event_valid sample_approval_made(1)
    by (simp add: validateRecord_approval_def)
  then obtain st1 where st1: "replay_step_approval quiet_engine sample_approval initial_approval_state = Inr st1"
    using st(1,2) r unfolding replay_step_approval_Inr by auto
  have h: "as_history st1 = [sample_approval]" using st1 by (simp add: replay_step_approval_Inr)
  have d: "sample_adec (line_payload sample_approval_line) = Some sample_approval" by (simp add: sample_adec_def)
  have e: "replay_log sample_adec (replay_step_approval quiet_engine) (Readable [] False) initial_approval_state = (initial_approval_state, None)"
    by (simp add: replay_log_def)
  have new: "replay_approval quiet_engine sample_adec (ast_file decided_store) = (st1, None)"
    using replay_log_append [OF e newline_marshal [OF sample_approval_made(3)] d st1] by (simp add: replay_approval_def decided_store_def)
  have v: "validateRequest_approval (pv_engine (sample_pv 2)) sample_decision = None" using sample_decision_valid by simp
  have "ae_action (ax_event sample_approval) = ActionAuthorize" by (simp add: sample_approval_made sample_decision_event_def)
  then have "check_approval (sample_pv 2) ?s sample_approval = None"
    using new_approval_checked [OF sample_approval_for v] by blast
  moreover have "check_approval (sample_pv 2) decided_store = check_approval (sample_pv 2) ?s"
    by (rule approval_cong) (simp_all add: decided_store_def)
  ultimately show ?thesis using new h by (auto simp: replayVerified_approval_iff)
qed

theorem decisions_alternate_witness:
  "\<exists>st. replay_approval quiet_engine sample_adec (ast_file decided_store) = (st, None) \<and>
     approval_status st (record_key sample_approval) = StatusAuthorized"
proof -
  obtain st where st: "replayVerified_approval (sample_pv 2) sample_adec decided_store = (st, None)" "as_history st = [sample_approval]"
    using sample_decided by blast
  then have r: "replay_approval quiet_engine sample_adec (ast_file decided_store) = (st, None)"
    by (simp add: replayVerified_approval_iff)
  have "key_records (record_key sample_approval) (as_history st) = [sample_approval]"
    by (simp add: st(2) key_records_def)
  with decisions_alternate [OF r, of "record_key sample_approval"] r show ?thesis by (simp add: Let_def)
qed

text \<open>Property C22. An approval that \<open>GetStatus\<close> reports as effective rests on a human decision about exactly this
  revision, surface and target, taken while the revision was current, and not withdrawn since; and the revision is
  still the current one of an active memory whose validation is current. So an approval never outlives the revision
  that it was given for.\<close>

theorem effective_approval:
  assumes "GetStatus_approval pv adec s memory revision surface target = Inr res" and "al_effective res"
  shows "\<exists>st r m. replayVerified_approval pv adec s = (st, None) \<and> r \<in> set (as_history st) \<and>
    r = last (key_records (approvalKey memory revision surface target) (as_history st)) \<and>
    ae_action (ax_event r) = ActionAuthorize \<and> qa_kind (ae_approver (ax_event r)) = ''human'' \<and>
    ae_memory_id (ax_event r) = memory \<and> ae_revision_id (ax_event r) = revision \<and>
    ae_surface (ax_event r) = surface \<and> ae_target (ax_event r) = target \<and>
    RevisionWasCurrentAt pv s memory revision (ae_recorded_at (ax_event r)) = Inr True \<and>
    GetStatus_promotion pv s memory = Inr m \<and> ms_revision_id m = revision \<and> ms_status m = StatusActive \<and>
    ms_review_current m"
proof -
  let ?key = "approvalKey memory revision surface target"
  obtain st where st: "replayVerified_approval pv adec s = (st, None)"
    and id: "validPrefixedHash memory ''memory-''" "validPrefixedHash revision ''memory-revision-''"
      "validSurface surface" "validTarget target"
    and r: "res = \<lparr>al_status = approval_status st ?key,
       al_effective = (approval_status st ?key = StatusAuthorized \<and> eligible pv s memory revision), al_events = as_counts st ?key\<rparr>"
    using assms(1) by (auto simp: GetStatus_approval_def Let_def split: if_splits prod.splits option.splits)
  have eff: "approval_status st ?key = StatusAuthorized" "eligible pv s memory revision" using assms(2) r by simp_all
  note old = st [unfolded replayVerified_approval_iff]
  note ok = replay_approval_ok [OF conjunct1 [OF old], unfolded approval_state_ok_def]
  let ?rs = "key_records ?key (as_history st)"
  have "approval_status st ?key = (if odd (length ?rs) then StatusAuthorized else StatusNotAuthorized)" using ok by blast
  then have o: "odd (length ?rs)" using eff(1) by (simp split: if_splits)
  then have ne: "?rs \<noteq> []" by auto
  have "alternating ?rs" using ok by blast
  then have "decision_at (length ?rs - 1) (last ?rs)" using ne by (simp add: alternating_def last_conv_nth)
  then have act: "ae_action (ax_event (last ?rs)) = ActionAuthorize" using o ne by (simp add: decision_at_def)
  have "last ?rs \<in> set ?rs" using ne by simp
  then have l: "last ?rs \<in> set (as_history st)" "record_key (last ?rs) = ?key" by (auto simp: key_records_def)
  have ev: "validateEvent_approval (pv_engine pv) (ax_event (last ?rs)) = None" using ok l(1) by blast
  from event_identity(5) [OF this] have kind: "qa_kind (ae_approver (ax_event (last ?rs))) = ''human''" .
  have same: "ae_memory_id (ax_event (last ?rs)) = memory" "ae_revision_id (ax_event (last ?rs)) = revision"
    "ae_surface (ax_event (last ?rs)) = surface" "ae_target (ax_event (last ?rs)) = target"
    using split_event_key [OF ev] split_valid_key [OF id] l(2) by simp_all
  have cur: "RevisionWasCurrentAt pv s memory revision (ae_recorded_at (ax_event (last ?rs))) = Inr True"
    using old l(1) act same by (auto simp: check_approval_None)
  obtain m where m: "GetStatus_promotion pv s memory = Inr m" "ms_revision_id m = revision" "ms_export_eligible m"
    using eff(2) by (auto simp: eligible_def split: sum.splits)
  then have "ms_status m = StatusActive" "ms_review_current m"
    by (auto simp: GetStatus_promotion_def split: if_splits prod.splits option.splits)
  with st l(1) act kind same cur m show ?thesis by blast
qed

theorem effective_approval_witness:
  "\<exists>res. GetStatus_approval (sample_pv 2) sample_adec decided_store sample_memory_id (rn_revision_id (sample_revision 2)) ''skill'' ''ok'' = Inr res \<and>
     al_effective res \<and> RevisionWasCurrentAt (sample_pv 2) decided_store sample_memory_id (rn_revision_id (sample_revision 2)) 3 = Inr True"
proof -
  let ?i = "rn_revision_id (sample_revision 2)" and ?key = "approvalKey sample_memory_id (rn_revision_id (sample_revision 2)) ''skill'' ''ok''"
  obtain st where st: "replayVerified_approval (sample_pv 2) sample_adec decided_store = (st, None)" "as_history st = [sample_approval]"
    using sample_decided by blast
  have k: "record_key sample_approval = ?key"
    by (simp add: sample_approval_made(2) event_approval_key_def) (simp add: sample_decision_event_def)
  have "approval_state_ok quiet_engine st"
    using st(1) replay_approval_ok by (simp add: replayVerified_approval_iff) blast
  then have a: "approval_status st ?key = StatusAuthorized"
    by (simp add: approval_state_ok_def st(2) key_records_def k)
  have "eligible (sample_pv 2) decided_store = eligible (sample_pv 2) (promoted_store 2)"
    by (rule approval_cong) (simp_all add: decided_store_def promoted_fields)
  then have e: "eligible (sample_pv 2) decided_store sample_memory_id ?i" using sample_lookups(1) by (auto simp: eligible_def)
  have v: "validSurface ''skill''" "validTarget ''ok''"
    by (simp_all add: validSurface_def validTarget_def containsAny_def sample_words sample_ok_words)
  obtain res where r: "GetStatus_approval (sample_pv 2) sample_adec decided_store sample_memory_id ?i ''skill'' ''ok'' = Inr res" "al_effective res"
    using st(1) a e v sample_current(2,3) by (simp add: GetStatus_approval_def Let_def)
  from effective_approval [OF r] obtain r0 where "r0 \<in> set (as_history st)"
    "RevisionWasCurrentAt (sample_pv 2) decided_store sample_memory_id ?i (ae_recorded_at (ax_event r0)) = Inr True"
    using st(1) by auto
  then show ?thesis using r by (auto simp: st(2) sample_approval_made(2) sample_decision_event_def)
qed

section \<open>Approvals and later promotions\<close>






end
