(* ===== verification/Portable_Types.thy ===== *)
theory Portable_Types
  imports Promotion_Types
begin

text \<open>
  The portable memory format (\<open>internal/portable/types.go\<close>, the checks of \<open>format.go\<close>, the semantic
  identity of \<open>semantic.go\<close>, and the envelope of a loadout, \<open>loadout.go\<close>). A revision is content addressed:
  its id is the digest of its own fields without the id and the text, and the id of a memory is the
  digest of the text and the scope it was first promoted with.
\<close>

section \<open>Constants\<close>

abbreviation RepositorySchemaVersion :: string where "RepositorySchemaVersion \<equiv> ''portable-memory-repository/v1alpha1''"
abbreviation PortableRevisionSchemaVersion :: string where "PortableRevisionSchemaVersion \<equiv> ''portable-memory-revision/v1alpha1''"
abbreviation LoadoutSchemaVersion :: string where "LoadoutSchemaVersion \<equiv> ''portable-memory-loadout/v1alpha1''"
abbreviation PortablePrivacy :: string where "PortablePrivacy \<equiv> ''private_git''"

definition MaxTextBytes :: nat where
  "MaxTextBytes = 64 * 1024"

section \<open>Revisions\<close>

record portable_revision =
  pv_schema_version :: string
  pv_memory_id :: string
  pv_revision_id :: string
  pv_parent :: string
  pv_action :: string
  pv_status :: string
  pv_kind :: string
  pv_scope_kind :: string
  pv_scope_value :: string
  pv_basis :: "string list"
  pv_text :: string
  pv_text_sha256 :: string
  pv_rule_change :: bool
  pv_authorization :: string
  pv_privacy :: string

definition portable_revision_json :: "portable_revision \<Rightarrow> json" where
  "portable_revision_json r = JObj
     ([(''schema_version'', JStr (pv_schema_version r)), (''memory_id'', JStr (pv_memory_id r)),
       (''revision_id'', JStr (pv_revision_id r))] @
      omit_str ''parent_revision_id'' (pv_parent r) @
      [(''action'', JStr (pv_action r)), (''status'', JStr (pv_status r)), (''kind'', JStr (pv_kind r)),
       (''scope_kind'', JStr (pv_scope_kind r)), (''scope_value'', JStr (pv_scope_value r))] @
      omit_list ''evidence_basis'' (map JStr (pv_basis r)) @
      omit_str ''text'' (pv_text r) @
      omit_str ''text_sha256'' (pv_text_sha256 r) @
      [(''requires_explicit_rule_change_approval'', JBool (pv_rule_change r)),
       (''rule_change_authorization'', JStr (pv_authorization r)), (''privacy'', JStr (pv_privacy r))])"

datatype portable_error =
    PortableEnvelope
  | ScopeSensitive
  | InitialState
  | MemoryIdNotDerived
  | SupersessionState
  | RevocationState
  | PortableAction
  | ActiveContent
  | ActiveSensitive
  | IdentityEncode
  | RevisionIdMismatch

definition validScope_portable :: "string \<Rightarrow> string \<Rightarrow> bool" where
  "validScope_portable kind value \<longleftrightarrow>
     \<not> (blank value \<or> value \<noteq> trimSpace value \<or> 4096 < length value \<or>
        containsAny value [CHR 0x00, CHR 0x0D, CHR 0x0A]) \<and>
     (if kind = ScopeGlobal then value = ''*''
      else if kind = ScopeAgent then
        value \<in> set [AgentCodex, AgentClaudeCode, AgentOpenCode, AgentDeepSeekHarness, AgentUnknown]
      else kind \<in> set [ScopeRepository, ScopeProject, ScopeTask])"

definition validBasis_portable :: "string list \<Rightarrow> bool" where
  "validBasis_portable values \<longleftrightarrow>
     values \<noteq> [] \<and> list_all validReviewBasis values \<and> strictly_sorted values"

definition deriveRevisionID :: "portable_revision \<Rightarrow> string option" where
  "deriveRevisionID r =
     map_option (\<lambda>d. ''portable-revision-'' @ sha256_hex d)
       (marshal (portable_revision_json (r\<lparr>pv_revision_id := [], pv_text := []\<rparr>)))"

definition expectedMemoryID_portable :: "string \<Rightarrow> string \<Rightarrow> string \<Rightarrow> string" where
  "expectedMemoryID_portable textSHA256 kind value =
     ''memory-'' @ sha256_hex (case marshal (JObj
       [(''version'', JStr ''memory-identity/v1alpha1''), (''redacted_text_sha256'', JStr textSHA256),
        (''scope'', scope_json \<lparr>sp_kind = kind, sp_value = value\<rparr>)]) of None \<Rightarrow> [] | Some d \<Rightarrow> d)"

definition check_portable_action :: "portable_revision \<Rightarrow> portable_error option" where
  "check_portable_action r =
     (if pv_action r = ActionPromote then first_error
        [fail_if (pv_parent r \<noteq> [] \<or> pv_status r \<noteq> StatusActive) InitialState,
         fail_if (expectedMemoryID_portable (pv_text_sha256 r) (pv_scope_kind r) (pv_scope_value r)
                  \<noteq> pv_memory_id r) MemoryIdNotDerived]
      else if pv_action r = ActionSupersede then
        fail_if (pv_parent r = [] \<or> pv_status r \<noteq> StatusActive) SupersessionState
      else if pv_action r = ActionRevoke then
        fail_if (pv_parent r = [] \<or> pv_status r \<noteq> StatusRevoked \<or> pv_text r \<noteq> [] \<or>
                 pv_text_sha256 r \<noteq> [] \<or> pv_basis r \<noteq> []) RevocationState
      else Some PortableAction)"

definition check_portable_content :: "scan_engine \<Rightarrow> portable_revision \<Rightarrow> portable_error option" where
  "check_portable_content en r =
     (if pv_status r = StatusActive then first_error
        [fail_if (blank (pv_text r) \<or> MaxTextBytes < length (pv_text r) \<or> \<not> utf8_valid (pv_text r) \<or>
                  textDigest (pv_text r) \<noteq> pv_text_sha256 r \<or> \<not> validBasis_portable (pv_basis r)) ActiveContent,
         fail_if (\<not> clean en (pv_text r)) ActiveSensitive]
      else None)"

definition validateRevision :: "scan_engine \<Rightarrow> portable_revision \<Rightarrow> portable_error option" where
  "validateRevision en r = first_error
     [fail_if (pv_schema_version r \<noteq> PortableRevisionSchemaVersion \<or>
               \<not> validPrefixedHash (pv_memory_id r) ''memory-'' \<or>
               \<not> validPrefixedHash (pv_revision_id r) ''portable-revision-'' \<or>
               pv_parent r \<noteq> [] \<and> \<not> validPrefixedHash (pv_parent r) ''portable-revision-'' \<or>
               \<not> validKind (pv_kind r) \<or> \<not> validScope_portable (pv_scope_kind r) (pv_scope_value r) \<or>
               pv_authorization r \<noteq> ''not_granted'' \<or> pv_privacy r \<noteq> PortablePrivacy) PortableEnvelope,
      fail_if (\<not> clean en (pv_scope_value r)) ScopeSensitive,
      check_portable_action r,
      check_portable_content en r,
      (case deriveRevisionID r of
         None \<Rightarrow> Some IdentityEncode
       | Some i \<Rightarrow> fail_if (i \<noteq> pv_revision_id r) RevisionIdMismatch)]"

definition finalizeRevision :: "scan_engine \<Rightarrow> portable_revision \<Rightarrow> portable_error + portable_revision" where
  "finalizeRevision en r =
     (let r1 = r\<lparr>pv_schema_version := PortableRevisionSchemaVersion, pv_authorization := ''not_granted'',
                 pv_privacy := PortablePrivacy\<rparr>;
          r2 = (if pv_status r1 = StatusActive then r1\<lparr>pv_text_sha256 := textDigest (pv_text r1)\<rparr> else r1)
      in case deriveRevisionID r2 of
           None \<Rightarrow> Inl IdentityEncode
         | Some i \<Rightarrow>
             (let r3 = r2\<lparr>pv_revision_id := i\<rparr>
              in case validateRevision en r3 of Some e \<Rightarrow> Inl e | None \<Rightarrow> Inr r3))"

section \<open>Semantic identity\<close>

text \<open>
  \<open>semantic.go\<close> repeats the functions of the candidate detectors with the same phrase lists and the same
  loops, so it is defined from theirs (theory \<open>Candidate_Text\<close>).
\<close>

definition normalizeSemanticText :: "unicode \<Rightarrow> string \<Rightarrow> string" where
  "normalizeSemanticText u t = trimSpace (normalize_runes u [] False (runes (uc_lower u t)))"

definition detectSemanticPolarity :: "string \<Rightarrow> string" where
  "detectSemanticPolarity normalized =
     (if list_ex (contains ('' '' @ normalized @ '' '')) prohibitive_words then PolarityProhibitive
      else if list_ex (contains (replaceAll '' '' [] normalized)) prohibitive_phrases then PolarityProhibitive
      else PolarityAffirmative)"

definition semanticCore_portable :: "string \<Rightarrow> string" where
  "semanticCore_portable normalized =
     (let value = fold (\<lambda>p v. replaceAll p [] v) core_phrases normalized;
          kept = filter (\<lambda>w. w \<notin> set ignored_words) (Candidate_Text.fields value);
          core = join_with '' '' kept
      in if core = [] then normalized else core)"

definition semanticIdentity :: "unicode \<Rightarrow> portable_revision \<Rightarrow> string \<times> string" where
  "semanticIdentity u r =
     (let normalized = normalizeSemanticText u (pv_text r)
      in (sha256_hex (concat (map (\<lambda>v. CHR 0x00 # v)
            [''portable-semantic-key/v1alpha1'', pv_scope_kind r, pv_scope_value r, semanticCore_portable normalized])),
          detectSemanticPolarity normalized))"

section \<open>Loadouts\<close>

record loadout_memory =
  lm_memory_id :: string
  lm_revision_id :: string

record loadout =
  lo_schema_version :: string
  lo_loadout_id :: string
  lo_name :: string
  lo_description :: string
  lo_agents :: "agent list"
  lo_scope_kind :: string
  lo_scope_value :: string
  lo_memories :: "loadout_memory list"
  lo_token_budget :: int
  lo_byte_budget :: int
  lo_privacy :: string

definition loadout_memory_json :: "loadout_memory \<Rightarrow> json" where
  "loadout_memory_json m = JObj
     [(''memory_id'', JStr (lm_memory_id m)), (''revision_id'', JStr (lm_revision_id m))]"

definition loadout_json :: "loadout \<Rightarrow> json" where
  "loadout_json l = JObj
     ([(''schema_version'', JStr (lo_schema_version l)), (''loadout_id'', JStr (lo_loadout_id l)),
       (''name'', JStr (lo_name l))] @
      omit_str ''description'' (lo_description l) @
      [(''agents'', JArr (map JStr (lo_agents l))), (''scope_kind'', JStr (lo_scope_kind l)),
       (''scope_value'', JStr (lo_scope_value l)), (''memories'', JArr (map loadout_memory_json (lo_memories l))),
       (''token_budget'', JInt (lo_token_budget l)), (''byte_budget'', JInt (lo_byte_budget l)),
       (''privacy'', JStr (lo_privacy l))])"

abbreviation DefaultLoadoutTokenBudget :: int where "DefaultLoadoutTokenBudget \<equiv> 1200"
abbreviation MaximumLoadoutTokenBudget :: int where "MaximumLoadoutTokenBudget \<equiv> 8192"
abbreviation DefaultLoadoutByteBudget :: int where "DefaultLoadoutByteBudget \<equiv> 6144"
abbreviation MaximumLoadoutByteBudget :: int where "MaximumLoadoutByteBudget \<equiv> 128 * 1024"
abbreviation MaximumLoadoutMemories :: nat where "MaximumLoadoutMemories \<equiv> 64"

text \<open>The supported agents among the values, sorted, each once.\<close>

definition canonicalAgents :: "agent list \<Rightarrow> agent list" where
  "canonicalAgents values =
     remdups_adj (filter (\<lambda>v. v \<in> set [AgentCodex, AgentClaudeCode, AgentOpenCode, AgentDeepSeekHarness]) (sort values))"

definition deriveLoadoutID :: "loadout \<Rightarrow> string option" where
  "deriveLoadoutID l = map_option (\<lambda>d. ''loadout-'' @ sha256_hex d) (marshal (loadout_json (l\<lparr>lo_loadout_id := []\<rparr>)))"

datatype loadout_error =
    LoadoutEnvelope
  | LoadoutLimits
  | LoadoutSensitive
  | LoadoutAgents
  | LoadoutReference
  | LoadoutDuplicate
  | LoadoutIdMismatch
  | LoadoutUnavailableRevision
  | LoadoutStale
  | LoadoutEncode
  | LoadoutDecode
  | LoadoutTrailing
  | LoadoutNotCanonical
  | LoadoutAgentsNotUnique
  | LoadoutMemoryTwice string
  | LoadoutNotActiveHead string

fun check_loadout_memories :: "string list \<Rightarrow> loadout_memory list \<Rightarrow> loadout_error option" where
  "check_loadout_memories seen [] = None"
| "check_loadout_memories seen (m # ms) =
     (if \<not> validPrefixedHash (lm_memory_id m) ''memory-'' \<or>
         \<not> validPrefixedHash (lm_revision_id m) ''portable-revision-'' then Some LoadoutReference
      else if lm_memory_id m \<in> set seen then Some LoadoutDuplicate
      else check_loadout_memories (lm_memory_id m # seen) ms)"

definition validateLoadoutEnvelope :: "scan_engine \<Rightarrow> loadout \<Rightarrow> loadout_error option" where
  "validateLoadoutEnvelope en l = first_error
     [fail_if (lo_schema_version l \<noteq> LoadoutSchemaVersion \<or> \<not> validPrefixedHash (lo_loadout_id l) ''loadout-'' \<or>
               lo_privacy l \<noteq> PortablePrivacy \<or> lo_name l = [] \<or> lo_name l \<noteq> trimSpace (lo_name l) \<or>
               128 < length (lo_name l) \<or> containsAny (lo_name l) [CHR 0x00, CHR 0x0D, CHR 0x0A] \<or>
               1024 < length (lo_description l) \<or> \<not> utf8_valid (lo_description l) \<or>
               containsAny (lo_description l) [CHR 0x00, CHR 0x0D] \<or>
               \<not> validScope_portable (lo_scope_kind l) (lo_scope_value l)) LoadoutEnvelope,
      fail_if (lo_token_budget l < 1 \<or> MaximumLoadoutTokenBudget < lo_token_budget l \<or> lo_byte_budget l < 1 \<or>
               MaximumLoadoutByteBudget < lo_byte_budget l \<or> lo_memories l = [] \<or>
               MaximumLoadoutMemories < length (lo_memories l) \<or> lo_agents l = [] \<or>
               3 < length (lo_agents l)) LoadoutLimits,
      fail_if (\<not> clean en (lo_name l @ [newline] @ lo_description l @ [newline] @ lo_scope_value l)) LoadoutSensitive,
      fail_if (lo_agents l \<noteq> canonicalAgents (lo_agents l)) LoadoutAgents,
      check_loadout_memories [] (lo_memories l),
      fail_if (deriveLoadoutID l \<noteq> Some (lo_loadout_id l)) LoadoutIdMismatch]"

definition validateLoadoutHistory :: "loadout \<Rightarrow> (string \<rightharpoonup> portable_revision) \<Rightarrow> loadout_error option" where
  "validateLoadoutHistory l revisions =
     fail_if (\<not> list_all (\<lambda>m. case revisions (lm_revision_id m) of
                None \<Rightarrow> False | Some r \<Rightarrow> pv_memory_id r = lm_memory_id m) (lo_memories l)) LoadoutUnavailableRevision"

definition validateLoadoutCurrent :: "loadout \<Rightarrow> (string \<rightharpoonup> portable_revision) \<Rightarrow> loadout_error option" where
  "validateLoadoutCurrent l heads =
     fail_if (\<not> list_all (\<lambda>m. case heads (lm_memory_id m) of
                None \<Rightarrow> False
              | Some h \<Rightarrow> pv_status h = StatusActive \<and> pv_revision_id h = lm_revision_id m) (lo_memories l)) LoadoutStale"

end
