(* ===== verification/Portable_Format.thy ===== *)
theory Portable_Format
  imports Portable_Types
begin

text \<open>
  The Markdown file of a portable revision (\<open>internal/portable/format.go\<close>): a front matter of
  \<open>key: <JSON>\<close> lines between two boundaries, then the text. \<open>RenderRevision\<close> writes it and
  \<open>ParseRevision\<close> reads it, refusing everything that is not what \<open>RenderRevision\<close> writes.
  \<open>json.Unmarshal\<close> into a string and into a list of strings are arguments.
\<close>

section \<open>Rendering\<close>

definition frontMatterBoundary :: string where
  "frontMatterBoundary = ''---'' @ [newline]"

definition stringField :: "string \<Rightarrow> string \<Rightarrow> string \<times> string" where
  "stringField key value = (key, json_string value)"

definition writeField :: "string \<times> string \<Rightarrow> string" where
  "writeField f = fst f @ '': '' @ snd f @ [newline]"

definition formatBool :: "bool \<Rightarrow> string" where
  "formatBool b = (if b then ''true'' else ''false'')"

definition marshal_basis :: "string list \<Rightarrow> string" where
  "marshal_basis basis = CHR ''['' # join_comma (map json_string basis) @ '']''"

definition front_matter :: "portable_revision \<Rightarrow> (string \<times> string) list" where
  "front_matter r =
     [stringField ''schema_version'' (pv_schema_version r),
      stringField ''memory_id'' (pv_memory_id r),
      stringField ''revision_id'' (pv_revision_id r)] @
     (if pv_parent r \<noteq> [] then [stringField ''parent_revision_id'' (pv_parent r)] else []) @
     [stringField ''action'' (pv_action r),
      stringField ''status'' (pv_status r),
      stringField ''kind'' (pv_kind r),
      stringField ''scope_kind'' (pv_scope_kind r),
      stringField ''scope_value'' (pv_scope_value r)] @
     (if pv_status r = StatusActive
      then [(''evidence_basis'', marshal_basis (pv_basis r)), stringField ''text_sha256'' (pv_text_sha256 r)] else []) @
     [(''requires_explicit_rule_change_approval'', formatBool (pv_rule_change r)),
      stringField ''rule_change_authorization'' (pv_authorization r),
      stringField ''privacy'' (pv_privacy r)]"

definition RenderRevision :: "scan_engine \<Rightarrow> portable_revision \<Rightarrow> portable_error + string" where
  "RenderRevision en r =
     (case validateRevision en r of
        Some e \<Rightarrow> Inl e
      | None \<Rightarrow> Inr (frontMatterBoundary @ concat (map writeField (front_matter r)) @ frontMatterBoundary @ pv_text r))"

section \<open>Parsing\<close>

datatype parse_error =
    FrontMatterMissing
  | FrontMatterOpen
  | NotCanonicalText
  | FieldInvalid
  | FieldRepeated string
  | FieldMissing string
  | FieldDecode string
  | ApprovalRequirement
  | FieldsUnsupported
  | RevisionInvalid portable_error
  | NotCanonicalEncoding

text \<open>\<open>bytes.Index\<close>.\<close>

fun index_of :: "string \<Rightarrow> string \<Rightarrow> nat option" where
  "index_of [] p = (if p = [] then Some 0 else None)"
| "index_of (c # s) p = (if hasPrefix (c # s) p then Some 0 else map_option Suc (index_of s p))"

text \<open>\<open>strings.Split\<close> at line feeds and \<open>strings.SplitN\<close> of a line at its first \<open>": "\<close>.\<close>

definition split_newline :: "string \<Rightarrow> string list" where
  "split_newline s = fst (split_lines s) @ [snd (split_lines s)]"

definition split_field :: "string \<Rightarrow> (string \<times> string) option" where
  "split_field line =
     (case index_of line '': '' of
        None \<Rightarrow> None
      | Some i \<Rightarrow> if i = 0 then None else Some (take i line, drop (i + 2) line))"

fun read_fields :: "string list \<Rightarrow> (string \<times> string) list \<Rightarrow> parse_error + (string \<times> string) list" where
  "read_fields [] values = Inr values"
| "read_fields (l # ls) values =
     (case split_field l of
        None \<Rightarrow> Inl FieldInvalid
      | Some (k, raw) \<Rightarrow>
          if map_of values k \<noteq> None then Inl (FieldRepeated k)
          else read_fields ls (values @ [(k, raw)]))"

type_synonym field_values = "(string \<times> string) list"

definition remove_value :: "string \<Rightarrow> field_values \<Rightarrow> field_values" where
  "remove_value key values = filter (\<lambda>f. fst f \<noteq> key) values"

definition takeString :: "(string \<Rightarrow> string option) \<Rightarrow> field_values \<Rightarrow> string \<Rightarrow> bool \<Rightarrow> parse_error + (string \<times> field_values)" where
  "takeString unq values key required =
     (case map_of values key of
        None \<Rightarrow> if required then Inl (FieldMissing key) else Inr ([], values)
      | Some raw \<Rightarrow>
          (case unq raw of
             None \<Rightarrow> Inl (FieldDecode key)
           | Some v \<Rightarrow> Inr (v, remove_value key values)))"

definition takeBasis :: "(string \<Rightarrow> string list option) \<Rightarrow> field_values \<Rightarrow> parse_error + (string list \<times> field_values)" where
  "takeBasis unl values =
     (case map_of values ''evidence_basis'' of
        None \<Rightarrow> Inr ([], values)
      | Some raw \<Rightarrow>
          (case unl raw of
             None \<Rightarrow> Inl (FieldDecode ''evidence_basis'')
           | Some b \<Rightarrow> Inr (b, remove_value ''evidence_basis'' values)))"

text \<open>\<open>strconv.ParseBool\<close> accepts more spellings, but the result must be spelled as \<open>FormatBool\<close> does.\<close>

definition takeApproval :: "field_values \<Rightarrow> parse_error + (bool \<times> field_values)" where
  "takeApproval values =
     (let key = ''requires_explicit_rule_change_approval'' in
      case map_of values key of
        None \<Rightarrow> Inl (FieldMissing key)
      | Some raw \<Rightarrow>
          if raw = formatBool True then Inr (True, remove_value key values)
          else if raw = formatBool False then Inr (False, remove_value key values)
          else Inl ApprovalRequirement)"

definition bindR :: "'e + 'a \<Rightarrow> ('a \<Rightarrow> 'e + 'b) \<Rightarrow> 'e + 'b" where
  "bindR m f = (case m of Inl e \<Rightarrow> Inl e | Inr x \<Rightarrow> f x)"

text \<open>
  The fields in the order of the source. Go ranges over a map for \<open>action\<close>, \<open>status\<close>, \<open>kind\<close> and
  \<open>scope_kind\<close>: the order of these four only decides which of several errors is reported.
\<close>

definition take_fields ::
  "(string \<Rightarrow> string option) \<Rightarrow> (string \<Rightarrow> string list option) \<Rightarrow> field_values \<Rightarrow> string
    \<Rightarrow> parse_error + portable_revision" where
  "take_fields unq unl values body =
     bindR (takeString unq values ''schema_version'' True) (\<lambda>(schema, vs).
     bindR (takeString unq vs ''memory_id'' True) (\<lambda>(memory, vs).
     bindR (takeString unq vs ''revision_id'' True) (\<lambda>(rid, vs).
     bindR (takeString unq vs ''parent_revision_id'' False) (\<lambda>(parent, vs).
     bindR (takeString unq vs ''action'' True) (\<lambda>(action, vs).
     bindR (takeString unq vs ''status'' True) (\<lambda>(status, vs).
     bindR (takeString unq vs ''kind'' True) (\<lambda>(kind, vs).
     bindR (takeString unq vs ''scope_kind'' True) (\<lambda>(scope_kind, vs).
     bindR (takeString unq vs ''scope_value'' True) (\<lambda>(scope_value, vs).
     bindR (takeBasis unl vs) (\<lambda>(basis, vs).
     bindR (takeString unq vs ''text_sha256'' False) (\<lambda>(text_sha256, vs).
     bindR (takeApproval vs) (\<lambda>(approval, vs).
     bindR (takeString unq vs ''rule_change_authorization'' True) (\<lambda>(authorization, vs).
     bindR (takeString unq vs ''privacy'' True) (\<lambda>(privacy, vs).
       if vs \<noteq> [] then Inl FieldsUnsupported
       else Inr \<lparr>pv_schema_version = schema, pv_memory_id = memory, pv_revision_id = rid, pv_parent = parent,
                 pv_action = action, pv_status = status, pv_kind = kind, pv_scope_kind = scope_kind,
                 pv_scope_value = scope_value, pv_basis = basis, pv_text = body, pv_text_sha256 = text_sha256,
                 pv_rule_change = approval, pv_authorization = authorization, pv_privacy = privacy\<rparr>))))))))))))))"

definition ParseRevision ::
  "scan_engine \<Rightarrow> (string \<Rightarrow> string option) \<Rightarrow> (string \<Rightarrow> string list option) \<Rightarrow> string
    \<Rightarrow> parse_error + portable_revision" where
  "ParseRevision en unq unl data =
     (if \<not> hasPrefix data frontMatterBoundary then Inl FrontMatterMissing
      else
        (let rem = drop (length frontMatterBoundary) data; separator = newline # frontMatterBoundary in
         case index_of rem separator of
           None \<Rightarrow> Inl FrontMatterOpen
         | Some n \<Rightarrow>
             (let header = take n rem; body = drop (n + length separator) rem in
              if \<not> utf8_valid body \<or> CHR 0x0D \<in> set header then Inl NotCanonicalText
              else bindR (read_fields (split_newline header) []) (\<lambda>values.
                   bindR (take_fields unq unl values body) (\<lambda>r.
                   case validateRevision en r of
                     Some e \<Rightarrow> Inl (RevisionInvalid e)
                   | None \<Rightarrow>
                       (case RenderRevision en r of
                          Inl e \<Rightarrow> Inl (RevisionInvalid e)
                        | Inr canonical \<Rightarrow> if canonical = data then Inr r else Inl NotCanonicalEncoding))))))"

section \<open>Reading back what was written\<close>

lemma index_of_skip: "newline \<notin> set l \<Longrightarrow> index_of (l @ s) (newline # p) = map_option (\<lambda>n. length l + n) (index_of s (newline # p))"
  by (induction l; cases "index_of s (newline # p)") (auto simp: hasPrefix_def)

lemma index_of_line:
  "c \<noteq> d \<Longrightarrow> index_of (newline # c # s) (newline # d # p) = map_option Suc (index_of (c # s) (newline # d # p))"
  by (simp add: hasPrefix_def)

lemma index_of_append: "index_of (p @ s) p = Some 0"
proof (cases "p @ s")
  case (Cons c t)
  then show ?thesis using hasPrefix_append [of p s] by simp
qed simp

definition plain_field :: "string \<times> string \<Rightarrow> bool" where
  "plain_field f \<longleftrightarrow> fst f \<noteq> [] \<and> hd (fst f) \<noteq> CHR ''-'' \<and> CHR '':'' \<notin> set (fst f) \<and>
     newline \<notin> set (fst f) \<and> newline \<notin> set (snd f)"

definition line_of :: "string \<times> string \<Rightarrow> string" where
  "line_of f = fst f @ '': '' @ snd f"

lemma newline_line_of: "plain_field f \<Longrightarrow> newline \<notin> set (line_of f)"
  by (auto simp: plain_field_def line_of_def newline_def)

text \<open>The front matter ends at the first separator, which is where it was written.\<close>

lemma index_of_fields:
  assumes "fs \<noteq> []" and "list_all plain_field fs"
  shows "index_of (concat (map writeField fs) @ frontMatterBoundary @ body) (newline # frontMatterBoundary)
    = Some (length (concat (map writeField fs)) - 1)"
  using assms
proof (induction fs rule: list_nonempty_induct)
  case (single f)
  have "writeField f = line_of f @ [newline]" by (simp add: writeField_def line_of_def)
  moreover have "index_of (newline # frontMatterBoundary @ body) (newline # frontMatterBoundary) = Some 0"
    using index_of_append [of "newline # frontMatterBoundary" body] by simp
  ultimately show ?case
    using single newline_line_of [of f] index_of_skip [of "line_of f" "newline # frontMatterBoundary @ body" frontMatterBoundary]
    by simp
next
  case (cons f fs)
  have f: "writeField f = line_of f @ [newline]" by (simp add: writeField_def line_of_def)
  obtain g gs where fs: "fs = g # gs" using cons by (cases fs) auto
  obtain c cs where g: "fst g = c # cs" "c \<noteq> CHR ''-''"
    using cons fs by (cases "fst g") (auto simp: plain_field_def)
  then obtain t where t: "concat (map writeField fs) @ frontMatterBoundary @ body = c # t"
    using fs by (auto simp: writeField_def)
  have b: "frontMatterBoundary = CHR ''-'' # tl frontMatterBoundary" by (simp add: frontMatterBoundary_def)
  have "index_of (newline # c # t) (newline # frontMatterBoundary) = map_option Suc (index_of (c # t) (newline # frontMatterBoundary))"
    using index_of_line [OF g(2)] b by metis
  moreover have "index_of (c # t) (newline # frontMatterBoundary) = Some (length (concat (map writeField fs)) - 1)"
    using cons t by simp
  moreover have "concat (map writeField (f # fs)) @ frontMatterBoundary @ body = line_of f @ newline # c # t"
    using t f by simp
  moreover have "0 < length (concat (map writeField fs))" using fs by (simp add: writeField_def)
  ultimately show ?case
    using cons newline_line_of [of f] index_of_skip [of "line_of f" "newline # c # t" frontMatterBoundary] f
    by simp
qed

lemma split_lines_none: "newline \<notin> set l \<Longrightarrow> split_lines l = ([], l)"
  by (induction l) auto

lemma split_lines_fields:
  assumes "fs \<noteq> []" and "list_all plain_field fs"
  shows "split_newline (butlast (concat (map writeField fs))) = map line_of fs"
  using assms
proof (induction fs rule: list_nonempty_induct)
  case (single f)
  have "writeField f = line_of f @ [newline]" by (simp add: writeField_def line_of_def)
  then show ?case
    using single newline_line_of [of f] split_lines_none [of "line_of f"]
    by (simp add: split_newline_def)
next
  case (cons f fs)
  have f: "writeField f = line_of f @ [newline]" by (simp add: writeField_def line_of_def)
  have "butlast (concat (map writeField (f # fs))) = (line_of f @ [newline]) @ butlast (concat (map writeField fs))"
    using cons f by (cases fs) (auto simp: butlast_append writeField_def)
  moreover have "split_lines (line_of f @ [newline]) = ([line_of f], [])"
    using cons newline_line_of [of f] split_lines_line [of "line_of f"] by simp
  ultimately show ?case
    using cons split_lines_append [of "line_of f @ [newline]" "butlast (concat (map writeField fs))"]
    by (simp add: split_newline_def)
qed

text \<open>The lines are read back as the fields.\<close>

lemma index_of_colon: "CHR '':'' \<notin> set k \<Longrightarrow> index_of (k @ '': '' @ raw) '': '' = Some (length k)"
proof (induction k)
  case Nil
  then show ?case using index_of_append [of "'': ''" raw] by simp
qed (auto simp: hasPrefix_def)

lemma split_field_line: "plain_field f \<Longrightarrow> split_field (line_of f) = Some f"
  using index_of_colon [of "fst f" "snd f"]
  by (cases f) (simp add: split_field_def line_of_def plain_field_def)

lemma read_fields_lines:
  assumes "list_all plain_field fs" and "distinct (map fst (values @ fs))"
  shows "read_fields (map line_of fs) values = Inr (values @ fs)"
  using assms
proof (induction fs arbitrary: "values")
  case (Cons f fs)
  then have m: "map_of values (fst f) = None" by (force simp: map_of_eq_None_iff)
  have ih: "read_fields (map line_of fs) (values @ [f]) = Inr ((values @ [f]) @ fs)"
    by (rule Cons.IH) (use Cons.prems in auto)
  have "split_field (line_of f) = Some (fst f, snd f)" using Cons.prems by (simp add: split_field_line)
  with m ih show ?case
    by (cases f) (simp only: list.map read_fields.simps option.case prod.case simp_thms if_False fst_conv snd_conv
      append_assoc append_Cons append_Nil)
qed simp

lemma remove_value_fresh: "key \<notin> fst ` set vs \<Longrightarrow> remove_value key vs = vs"
  by (induction vs) (auto simp: remove_value_def)

lemma takeString_first:
  assumes "unq (json_string v) = Some v" and "key \<notin> fst ` set vs"
  shows "takeString unq (stringField key v # vs) key required = Inr (v, vs)"
  using assms remove_value_fresh [of key vs]
  by (simp add: takeString_def stringField_def remove_value_def)

lemma takeString_absent: "key \<notin> fst ` set vs \<Longrightarrow> takeString unq vs key False = Inr ([], vs)"
  by (simp add: takeString_def map_of_eq_None_iff [THEN iffD2])

lemma takeBasis_first:
  assumes "unl (marshal_basis b) = Some b" and "''evidence_basis'' \<notin> fst ` set vs"
  shows "takeBasis unl ((''evidence_basis'', marshal_basis b) # vs) = Inr (b, vs)"
  using assms remove_value_fresh [of "''evidence_basis''" vs]
  by (simp add: takeBasis_def remove_value_def)

lemma takeBasis_absent: "''evidence_basis'' \<notin> fst ` set vs \<Longrightarrow> takeBasis unl vs = Inr ([], vs)"
  by (simp add: takeBasis_def map_of_eq_None_iff [THEN iffD2])

lemma takeApproval_first:
  assumes "''requires_explicit_rule_change_approval'' \<notin> fst ` set vs"
  shows "takeApproval ((''requires_explicit_rule_change_approval'', formatBool b) # vs) = Inr (b, vs)"
  using assms remove_value_fresh [of "''requires_explicit_rule_change_approval''" vs]
  by (cases b) (simp_all add: takeApproval_def remove_value_def formatBool_def)

text \<open>What the decoders of \<open>encoding/json\<close> have to do for the values that a revision writes.\<close>

definition header_strings :: "portable_revision \<Rightarrow> string list" where
  "header_strings r =
     [pv_schema_version r, pv_memory_id r, pv_revision_id r, pv_parent r, pv_action r, pv_status r, pv_kind r,
      pv_scope_kind r, pv_scope_value r, pv_text_sha256 r, pv_authorization r, pv_privacy r]"

definition decodes_header ::
  "(string \<Rightarrow> string option) \<Rightarrow> (string \<Rightarrow> string list option) \<Rightarrow> portable_revision \<Rightarrow> bool" where
  "decodes_header unq unl r \<longleftrightarrow>
     list_all (\<lambda>v. unq (json_string v) = Some v) (header_strings r) \<and>
     unl (marshal_basis (pv_basis r)) = Some (pv_basis r)"

lemma decodes_headerD:
  "decodes_header unq unl r \<Longrightarrow> v \<in> set (header_strings r) \<Longrightarrow> unq (json_string v) = Some v"
  "decodes_header unq unl r \<Longrightarrow> unl (marshal_basis (pv_basis r)) = Some (pv_basis r)"
  by (auto simp: decodes_header_def list_all_iff)

lemma bindR_Inr [simp]: "bindR (Inr x) f = f x"
  by (simp add: bindR_def)

lemma bindR_Inl [simp]: "bindR (Inl e) f = Inl e"
  by (simp add: bindR_def)

lemmas take_first = takeString_first takeBasis_first takeApproval_first takeString_absent takeBasis_absent

lemma fst_stringField [simp]: "fst (stringField k v) = k"
  by (simp add: stringField_def)

definition revoked_bare :: "portable_revision \<Rightarrow> bool" where
  "revoked_bare r \<longleftrightarrow> (pv_status r \<noteq> StatusActive \<longrightarrow> pv_basis r = [] \<and> pv_text_sha256 r = [])"

lemma take_fields_front_matter:
  assumes "decodes_header unq unl r" and "revoked_bare r"
  shows "take_fields unq unl (front_matter r) (pv_text r) = Inr r"
proof -
  note d = decodes_headerD(1) [OF assms(1)] decodes_headerD(2) [OF assms(1)]
  have u: "unq (json_string (pv_schema_version r)) = Some (pv_schema_version r)"
    "unq (json_string (pv_memory_id r)) = Some (pv_memory_id r)"
    "unq (json_string (pv_revision_id r)) = Some (pv_revision_id r)"
    "unq (json_string (pv_parent r)) = Some (pv_parent r)"
    "unq (json_string (pv_action r)) = Some (pv_action r)"
    "unq (json_string (pv_status r)) = Some (pv_status r)"
    "unq (json_string (pv_kind r)) = Some (pv_kind r)"
    "unq (json_string (pv_scope_kind r)) = Some (pv_scope_kind r)"
    "unq (json_string (pv_scope_value r)) = Some (pv_scope_value r)"
    "unq (json_string (pv_text_sha256 r)) = Some (pv_text_sha256 r)"
    "unq (json_string (pv_authorization r)) = Some (pv_authorization r)"
    "unq (json_string (pv_privacy r)) = Some (pv_privacy r)"
    by (rule d(1), simp add: header_strings_def)+
  show ?thesis
    using assms(2) u d(2)
    by (cases "pv_parent r = []"; cases "pv_status r = StatusActive")
      (simp_all add: take_fields_def front_matter_def take_first revoked_bare_def fst_stringField)
qed

lemma newline_marshal_basis [simp]: "newline \<notin> set (marshal_basis b)"
  using set_join_comma [of newline "map json_string b"] by (auto simp: marshal_basis_def)

lemma plain_front_matter: "list_all plain_field (front_matter r)"
  using newline_json_string newline_marshal_basis
  by (simp add: front_matter_def plain_field_def stringField_def formatBool_def newline_def)

lemma distinct_front_matter: "distinct (map fst (front_matter r))"
  by (cases "pv_parent r = []"; cases "pv_status r = StatusActive") (simp_all add: front_matter_def)

text \<open>The encoder escapes every control character, so the front matter holds no carriage return.\<close>

definition printable :: "char \<Rightarrow> bool" where
  "printable c \<longleftrightarrow> 0x20 \<le> (of_char c :: int)"

lemma printable_esc4: "c \<in> set (esc4 n) \<Longrightarrow> printable c"
  using lower_hex_hex_byte by (fastforce simp: esc4_def printable_def lower_hex_def)

lemma printable_json_char: "c \<in> set (json_char d) \<Longrightarrow> printable c"
proof -
  assume c: "c \<in> set (json_char d)"
  show "printable c"
  proof (cases "0x20 \<le> (of_char d :: int)")
    case True
    then show ?thesis using c printable_esc4
      by (auto simp: json_char_def Let_def printable_def split: if_splits)
  next
    case False
    then show ?thesis using c printable_esc4
      by (auto simp: json_char_def Let_def printable_def split: if_splits)
  qed
qed

lemma printable_json_chars: "c \<in> set (json_chars s) \<Longrightarrow> printable c"
proof (induction s rule: json_chars.induct)
  case (1 s)
  have h: "high_byte c \<Longrightarrow> printable c" by (simp add: high_byte_def printable_def)
  consider "s = []" | "s \<noteq> []" "utf8_len s = 0" | "s \<noteq> []" "utf8_len s = 1" | "s \<noteq> []" "1 < utf8_len s"
    by linarith
  then show ?case
  proof cases
    case 1
    then show ?thesis using "1.prems" by (simp add: json_chars.simps)
  next
    case 2
    then show ?thesis using "1.IH"(1) "1.prems" printable_esc4 by (subst (asm) json_chars.simps) (auto simp: Let_def)
  next
    case 3
    then show ?thesis using "1.IH"(2) "1.prems" printable_json_char by (subst (asm) json_chars.simps) (auto simp: Let_def)
  next
    case 4
    then show ?thesis using "1.IH"(3-) "1.prems" printable_esc4 h utf8_multi_high [of s c]
      by (subst (asm) json_chars.simps) (auto simp: Let_def split: if_splits)
  qed
qed

lemma printable_json_string: "c \<in> set (json_string v) \<Longrightarrow> printable c"
  using printable_json_chars by (auto simp: json_string_def printable_def)

lemma carriage_return_encoded [simp]: "CHR 0x0D \<notin> set (json_string v)"
  using printable_json_string [of "CHR 0x0D" v] by (auto simp: printable_def)

lemma carriage_return_basis [simp]: "CHR 0x0D \<notin> set (marshal_basis b)"
  using set_join_comma [of "CHR 0x0D" "map json_string b"] by (auto simp: marshal_basis_def)

lemma carriage_return_front_matter: "CHR 0x0D \<notin> set (concat (map writeField (front_matter r)))"
  by (cases "pv_parent r = []"; cases "pv_status r = StatusActive")
    (simp_all add: front_matter_def writeField_def stringField_def formatBool_def newline_def)

lemma front_matter_nonempty: "front_matter r \<noteq> []"
  by (simp add: front_matter_def)

lemma valid_revoked_bare: "validateRevision en r = None \<Longrightarrow> revoked_bare r"
  by (auto simp: validateRevision_def check_portable_action_def revoked_bare_def split: if_splits)

lemma utf8_valid_Nil [simp]: "utf8_valid []"
  by (simp add: utf8_valid.simps)

lemma valid_text_utf8: "validateRevision en r = None \<Longrightarrow> utf8_valid (pv_text r)"
  by (auto simp: validateRevision_def check_portable_action_def check_portable_content_def split: if_splits)

lemma fields_snoc: "fs \<noteq> [] \<Longrightarrow> \<exists>b. concat (map writeField fs) = b @ [newline]"
  by (cases fs rule: rev_cases) (simp_all add: writeField_def)

lemma Parse_Render:
  assumes r: "RenderRevision en r = Inr data" and d: "decodes_header unq unl r"
  shows "ParseRevision en unq unl data = Inr r"
proof -
  obtain fs where fs: "fs = front_matter r" "fs \<noteq> []" "list_all plain_field fs" "distinct (map fst fs)"
    using front_matter_nonempty plain_front_matter distinct_front_matter by blast
  obtain b where b: "concat (map writeField fs) = b @ [newline]" using fields_snoc [OF fs(2)] by blast
  have v: "validateRevision en r = None"
    and data: "data = frontMatterBoundary @ b @ (newline # frontMatterBoundary) @ pv_text r"
    using r b fs(1) by (auto simp: RenderRevision_def split: option.splits)
  define rest where "rest = b @ (newline # frontMatterBoundary) @ pv_text r"
  have index: "index_of rest (newline # frontMatterBoundary) = Some (length b)"
    using index_of_fields [OF fs(2,3), of "pv_text r"] by (simp add: b rest_def)
  have take: "take (length b) rest = b" by (simp add: rest_def)
  have drop: "drop (length b + length (newline # frontMatterBoundary)) rest = pv_text r" by (simp add: rest_def)
  have cr: "CHR 0x0D \<notin> set b"
    using carriage_return_front_matter [of r] by (simp add: b fs(1) [symmetric])
  have fields: "read_fields (split_newline b) [] = Inr fs"
    using split_lines_fields [OF fs(2,3)] read_fields_lines [OF fs(3), of "[]"] fs(4) by (simp add: b)
  have pre: "hasPrefix data frontMatterBoundary" and rest: "drop (length frontMatterBoundary) data = rest"
    by (simp_all add: data rest_def)
  have taken: "take_fields unq unl fs (pv_text r) = Inr r"
    unfolding fs(1) by (rule take_fields_front_matter [OF d valid_revoked_bare [OF v]])
  show ?thesis
    by (simp only: ParseRevision_def Let_def pre rest index take drop cr fields valid_text_utf8 [OF v] taken v r bindR_Inr
        option.case sum.case if_True if_False simp_thms)
qed

lemma Parse_canonical:
  assumes "ParseRevision en unq unl data = Inr r"
  shows "RenderRevision en r = Inr data"
  using assms
  by (auto simp: ParseRevision_def bindR_def Let_def split: if_splits option.splits sum.splits)

end
