(* ===== verification/Portable_Repository.thy ===== *)
theory Portable_Repository
  imports Portable_Format "HOL-Library.Product_Lexorder"
begin

text \<open>
  The portable memory repository (\<open>internal/portable/repository.go\<close> and \<open>loadout.go\<close>): walking the
  directory, reading every revision and loadout, and the checks on the graph of parent links that find
  the current head of every memory. A directory is a tree, its entries in the order of their names, as
  \<open>filepath.WalkDir\<close> visits them.
\<close>

section \<open>Directories\<close>

text \<open>
  A regular file with its content (\<open>None\<close>: it cannot be read), anything that is neither a regular file
  nor a directory, and a directory (the flag: reading it fails after the entries given).
\<close>

datatype fs_node = FsFile "string option" | FsOther | FsDir bool "(string \<times> fs_node) list"

text \<open>What \<open>os.Stat\<close> and \<open>os.Lstat\<close> say of a repository root; \<open>WalkDir\<close> does not follow a root that is a symbolic link.\<close>

datatype fs_root = RootMissing | RootNotDir | RootDir fs_node | RootLink fs_node

fun node_entries :: "fs_node \<Rightarrow> (string \<times> fs_node) list" where
  "node_entries (FsDir _ es) = es"
| "node_entries _ = []"

fun lookup_node :: "string list \<Rightarrow> fs_node \<Rightarrow> fs_node option" where
  "lookup_node [] t = Some t"
| "lookup_node (n # ns) t = (case map_of (node_entries t) n of None \<Rightarrow> None | Some u \<Rightarrow> lookup_node ns u)"

fun insert_entry :: "string \<Rightarrow> 'a \<Rightarrow> (string \<times> 'a) list \<Rightarrow> (string \<times> 'a) list" where
  "insert_entry n t [] = [(n, t)]"
| "insert_entry n t ((m, u) # es) =
     (if n = m then (n, t) # es else if n < m then (n, t) # (m, u) # es else (m, u) # insert_entry n t es)"

text \<open>Writing a file at a path, with the directories on the way; \<open>None\<close> where a component is not a directory.\<close>

fun put_file :: "string list \<Rightarrow> string \<Rightarrow> fs_node \<Rightarrow> fs_node option" where
  "put_file [] d t = None"
| "put_file [n] d (FsDir f es) = Some (FsDir f (insert_entry n (FsFile (Some d)) es))"
| "put_file (n # m # ns) d (FsDir f es) =
     (case map_of es n of
        None \<Rightarrow> map_option (\<lambda>t. FsDir f (insert_entry n t es)) (put_file (m # ns) d (FsDir False []))
      | Some u \<Rightarrow> map_option (\<lambda>t. FsDir f (insert_entry n t es)) (put_file (m # ns) d u))"
| "put_file (n # ns) d t = None"

section \<open>Reports\<close>

record portable_issue =
  pi_code :: string
  pi_loadout_id :: string
  pi_memory_id :: string
  pi_revision_id :: string
  pi_memories :: "string list"
  pi_revisions :: "string list"
  pi_message :: string

record portable_report =
  pt_files :: int
  pt_revisions :: int
  pt_memories :: int
  pt_active :: int
  pt_revoked :: int
  pt_loadouts :: int
  pt_issues :: "portable_issue list"

definition empty_repository_report :: portable_report where
  "empty_repository_report = \<lparr>pt_files = 0, pt_revisions = 0, pt_memories = 0, pt_active = 0, pt_revoked = 0,
     pt_loadouts = 0, pt_issues = []\<rparr>"

text \<open>The state of a repository. Go ranges over these maps, so they are lists of bindings.\<close>

record repository_state =
  rs_revisions :: "(string \<times> portable_revision) list"
  rs_heads :: "(string \<times> portable_revision) list"
  rs_loadouts :: "(string \<times> loadout) list"

definition empty_repository :: repository_state where
  "empty_repository = \<lparr>rs_revisions = [], rs_heads = [], rs_loadouts = []\<rparr>"

definition sortedUnique_portable :: "string list \<Rightarrow> string list" where
  "sortedUnique_portable values = remdups_adj (filter (\<lambda>v. v \<noteq> []) (sort values))"

definition issue :: "string \<Rightarrow> string \<Rightarrow> string \<Rightarrow> string \<Rightarrow> string list \<Rightarrow> string list \<Rightarrow> string \<Rightarrow> portable_issue" where
  "issue code lid mid rid mids rids message =
     \<lparr>pi_code = code, pi_loadout_id = lid, pi_memory_id = mid, pi_revision_id = rid,
      pi_memories = sortedUnique_portable mids, pi_revisions = sortedUnique_portable rids, pi_message = message\<rparr>"

definition addIssue :: "portable_report \<Rightarrow> portable_issue \<Rightarrow> portable_report" where
  "addIssue report i = report\<lparr>pt_issues := pt_issues report @ [i]\<rparr>"

definition finalizeReport :: "portable_report \<Rightarrow> portable_report" where
  "finalizeReport report = report\<lparr>pt_issues :=
     sort_key (\<lambda>i. (pi_code i, pi_loadout_id i, pi_memory_id i, pi_revision_id i, pi_message i)) (pt_issues report)\<rparr>"

section \<open>Paths\<close>

definition trimSuffix :: "string \<Rightarrow> string \<Rightarrow> string" where
  "trimSuffix s p = (if drop (length s - length p) s = p then take (length s - length p) s else s)"

definition pathExt :: "string \<Rightarrow> string" where
  "pathExt name =
     (if CHR ''.'' \<in> set name then CHR ''.'' # rev (takeWhile (\<lambda>c. c \<noteq> CHR ''.'') (rev name)) else [])"

definition identityFromRevisionPath :: "string list \<Rightarrow> (string \<times> string) option" where
  "identityFromRevisionPath parts =
     (case parts of
        [a, b, c, d] \<Rightarrow>
          if a \<noteq> ''memories'' \<or> length b \<noteq> 2 \<or> \<not> validSHA256 c \<or> pathExt d \<noteq> ''.md'' then None
          else (let revisionHash = trimSuffix d ''.md'' in
                if \<not> validSHA256 revisionHash \<or> b \<noteq> take 2 c then None
                else Some (''memory-'' @ c, ''portable-revision-'' @ revisionHash))
      | _ \<Rightarrow> None)"

definition revisionRelativePath :: "portable_revision \<Rightarrow> string list" where
  "revisionRelativePath r =
     (let memoryHash = trimPrefix (pv_memory_id r) ''memory-'';
          revisionHash = trimPrefix (pv_revision_id r) ''portable-revision-''
      in [''memories'', take 2 memoryHash, memoryHash, revisionHash @ ''.md''])"

definition loadoutRelativePath :: "string \<Rightarrow> string list" where
  "loadoutRelativePath loadoutID = [''loadouts'', trimPrefix loadoutID ''loadout-'' @ ''.json'']"

definition validLoadoutPath :: "string list \<Rightarrow> bool" where
  "validLoadoutPath parts \<longleftrightarrow>
     (case parts of
        [a, b] \<Rightarrow> a = ''loadouts'' \<and> pathExt b = ''.json'' \<and> validSHA256 (trimSuffix b ''.json'')
      | _ \<Rightarrow> False)"

section \<open>The fixed files\<close>

definition repositoryManifestData :: string where
  "repositoryManifestData =
     ''schema_version: '' @ [CHR 0x22] @ RepositorySchemaVersion @ [CHR 0x22, newline] @
     ''layout: '' @ [CHR 0x22] @ ''immutable-markdown-revisions'' @ [CHR 0x22, newline]"

definition repositoryReadmeData :: string where
  "repositoryReadmeData =
     ''# Personal agent memory'' @ [newline, newline] @
     ''This private repository contains reviewed, redacted memory revisions only. '' @
     ''Raw task evidence, transcripts, tool output, local proof records, indexes, and credentials do not belong here.'' @
     [newline, newline] @
     ''Each file under `memories/` is an immutable revision. Current state is derived from parent links; '' @
     ''divergent children are reported as conflicts rather than resolved by last-write-wins.'' @ [newline]"

definition repositoryAttributesData :: string where
  "repositoryAttributesData =
     ''*.md text eol=lf'' @ [newline] @ ''*.yaml text eol=lf'' @ [newline] @
     ''.gitattributes text eol=lf'' @ [newline] @ ''.gitignore text eol=lf'' @ [newline]"

definition repositoryIgnoreData :: string where
  "repositoryIgnoreData = ''.agentmem/'' @ [newline] @ ''.DS_Store'' @ [newline] @ ''Thumbs.db'' @ [newline]"

text \<open>In the order of their names, which is the order \<open>InitRepository\<close> writes them in.\<close>

definition repository_files :: "(string \<times> string) list" where
  "repository_files =
     [(''.gitattributes'', repositoryAttributesData), (''.gitignore'', repositoryIgnoreData),
      (''README.md'', repositoryReadmeData), (''portable-memory-repository.yaml'', repositoryManifestData)]"

definition check_fixed_file :: "fs_node \<Rightarrow> portable_report \<Rightarrow> string \<times> string \<Rightarrow> portable_report" where
  "check_fixed_file t report f =
     (case lookup_node [fst f] t of
        Some (FsFile d) \<Rightarrow>
          (let r = (if d \<noteq> Some (snd f)
                    then addIssue report (issue ''repository_file_changed'' [] [] [] [] []
                           (''required repository file '' @ fst f @ '' is not canonical''))
                    else report)
           in r\<lparr>pt_files := pt_files r + 1\<rparr>)
      | _ \<Rightarrow> addIssue report (issue ''repository_file_missing'' [] [] [] [] []
               (''required repository file '' @ fst f @ '' is unavailable'')))"

section \<open>The walk\<close>

datatype visit = VDir | VFile "string option" | VOther | VError

text \<open>The directories for which the callback returns \<open>filepath.SkipDir\<close>.\<close>

definition skips_dir :: "string list \<Rightarrow> bool" where
  "skips_dir parts \<longleftrightarrow>
     (case parts of
        [n] \<Rightarrow> n = ''.git'' \<or> n = ''.agentmem'' \<or> \<not> (n = ''memories'' \<or> n = ''loadouts'')
      | _ \<Rightarrow> False)"

fun visits :: "string list \<Rightarrow> fs_node \<Rightarrow> (string list \<times> visit) list" where
  "visits parts (FsFile d) = [(parts, VFile d)]"
| "visits parts FsOther = [(parts, VOther)]"
| "visits parts (FsDir failed es) =
     (parts, VDir) #
     (if skips_dir parts then []
      else (if failed then [(parts, VError)] else []) @ concat (map (\<lambda>e. visits (parts @ [fst e]) (snd e)) es))"

text \<open>
  The decoder of a loadout (an argument) delivers the loadout and whether \<open>io.EOF\<close> follows it.
  \<open>renderLoadout\<close> is \<open>json.MarshalIndent\<close> with two spaces.
\<close>

fun indent :: "nat \<Rightarrow> string" where
  "indent n = newline # concat (replicate n ''  '')"

fun join_lines :: "string \<Rightarrow> string list \<Rightarrow> string" where
  "join_lines sep [] = []"
| "join_lines sep [s] = s"
| "join_lines sep (s # t # ts) = s @ CHR '','' # sep @ join_lines sep (t # ts)"

fun marshal_indent :: "nat \<Rightarrow> json \<Rightarrow> string option" where
  "marshal_indent n (JArr vs) =
     (if vs = [] then Some ''[]''
      else map_option (\<lambda>ss. CHR ''['' # indent (Suc n) @ join_lines (indent (Suc n)) ss @ indent n @ '']'')
             (all_some (map (marshal_indent (Suc n)) vs)))"
| "marshal_indent n (JObj fs) =
     (if fs = [] then Some ''{}''
      else map_option (\<lambda>ss. CHR ''{'' # indent (Suc n) @ join_lines (indent (Suc n)) ss @ indent n @ ''}'')
             (all_some (map (\<lambda>f. map_option (\<lambda>s. json_string (fst f) @ '': '' @ s) (marshal_indent (Suc n) (snd f))) fs)))"
| "marshal_indent n v = marshal v"

definition renderLoadout :: "loadout \<Rightarrow> string option" where
  "renderLoadout l = map_option (\<lambda>d. d @ [newline]) (marshal_indent 0 (loadout_json l))"

definition parseLoadout :: "scan_engine \<Rightarrow> (string \<Rightarrow> (loadout \<times> bool) option) \<Rightarrow> string \<Rightarrow> loadout_error + loadout" where
  "parseLoadout en dec data =
     (case dec data of
        None \<Rightarrow> Inl LoadoutDecode
      | Some (l, eof) \<Rightarrow>
          if \<not> eof then Inl LoadoutTrailing
          else (case validateLoadoutEnvelope en l of
                  Some e \<Rightarrow> Inl e
                | None \<Rightarrow>
                    (case renderLoadout l of
                       None \<Rightarrow> Inl LoadoutEncode
                     | Some canonical \<Rightarrow> if canonical \<noteq> data then Inl LoadoutNotCanonical else Inr l)))"

end
