(* ===== verification/Portable_Load.thy ===== *)
theory Portable_Load
  imports Portable_Repository
begin

text \<open>
  Loading and verifying a portable repository (\<open>loadRepository\<close>, \<open>validateRepositoryState\<close>,
  \<open>validateSemanticHeads\<close>, \<open>LoadActiveRevisions\<close>) and the use of loadouts (\<open>LoadCurrentLoadout\<close>,
  \<open>VerifyLoadoutUse\<close>).
\<close>

text \<open>What the loader is given: the scanner, the Unicode tables and the decoders of \<open>encoding/json\<close>.\<close>

record load_env =
  le_engine :: scan_engine
  le_unicode :: unicode
  le_string :: "string \<Rightarrow> string option"
  le_strings :: "string \<Rightarrow> string list option"
  le_loadout :: "string \<Rightarrow> (loadout \<times> bool) option"

type_synonym loading = "portable_report \<times> repository_state"

section \<open>Reading the files\<close>

definition plain_issue :: "string \<Rightarrow> string \<Rightarrow> portable_report \<Rightarrow> portable_report" where
  "plain_issue code message report = addIssue report (issue code [] [] [] [] [] message)"

definition revision_issue :: "string \<Rightarrow> string \<Rightarrow> string \<Rightarrow> string \<Rightarrow> portable_report \<Rightarrow> portable_report" where
  "revision_issue code mid rid message report = addIssue report (issue code [] mid rid [] [] message)"

definition loadout_issue :: "string \<Rightarrow> string \<Rightarrow> string \<Rightarrow> portable_report \<Rightarrow> portable_report" where
  "loadout_issue code lid message report = addIssue report (issue code lid [] [] [] [] message)"

definition count_file :: "portable_report \<Rightarrow> portable_report" where
  "count_file report = report\<lparr>pt_files := pt_files report + 1\<rparr>"

definition visit_loadout :: "load_env \<Rightarrow> string list \<Rightarrow> string option \<Rightarrow> loading \<Rightarrow> loading" where
  "visit_loadout env parts content s =
     (case s of (report, state) \<Rightarrow>
      (case content of
         None \<Rightarrow> (plain_issue ''repository_read_error'' ''portable loadout is unreadable'' report, state)
       | Some data \<Rightarrow>
           (let report = count_file report in
            case parseLoadout (le_engine env) (le_loadout env) data of
              Inl e \<Rightarrow> (plain_issue ''invalid_loadout'' ''portable loadout failed canonical validation'' report, state)
            | Inr l \<Rightarrow>
                if parts \<noteq> loadoutRelativePath (lo_loadout_id l) then
                  (loadout_issue ''loadout_path_mismatch'' (lo_loadout_id l)
                     ''portable loadout identity does not match its path'' report, state)
                else if map_of (rs_loadouts state) (lo_loadout_id l) \<noteq> None then
                  (loadout_issue ''duplicate_loadout'' (lo_loadout_id l)
                     ''portable loadout identity appears more than once'' report, state)
                else (report, state\<lparr>rs_loadouts := rs_loadouts state @ [(lo_loadout_id l, l)]\<rparr>))))"

definition visit_revision :: "load_env \<Rightarrow> string list \<Rightarrow> string option \<Rightarrow> loading \<Rightarrow> loading" where
  "visit_revision env parts content s =
     (case s of (report, state) \<Rightarrow>
      (case identityFromRevisionPath parts of
         None \<Rightarrow> (plain_issue ''unexpected_path'' ''portable repository contains an invalid memory revision path'' report, state)
       | Some (mid, rid) \<Rightarrow>
          (case content of
             None \<Rightarrow> (revision_issue ''repository_read_error'' mid rid ''portable memory revision is unreadable'' report, state)
           | Some data \<Rightarrow>
               (let report = count_file report in
                case ParseRevision (le_engine env) (le_string env) (le_strings env) data of
                  Inl e \<Rightarrow> (revision_issue ''invalid_revision'' mid rid
                             ''portable memory revision failed canonical validation'' report, state)
                | Inr r \<Rightarrow>
                    if pv_memory_id r \<noteq> mid \<or> pv_revision_id r \<noteq> rid then
                      (revision_issue ''revision_path_mismatch'' mid rid
                         ''portable revision identity does not match its path'' report, state)
                    else if map_of (rs_revisions state) (pv_revision_id r) \<noteq> None then
                      (revision_issue ''duplicate_revision'' mid rid
                         ''portable revision identity appears more than once'' report, state)
                    else (report\<lparr>pt_revisions := pt_revisions report + 1\<rparr>,
                          state\<lparr>rs_revisions := rs_revisions state @ [(pv_revision_id r, r)]\<rparr>)))))"

definition visit_path :: "load_env \<Rightarrow> string list \<times> visit \<Rightarrow> loading \<Rightarrow> loading" where
  "visit_path env pv s =
     (case pv of (parts, v) \<Rightarrow> case s of (report, state) \<Rightarrow>
        if v = VError then (plain_issue ''repository_read_error'' ''portable repository contains an unreadable path'' report, state)
        else if parts = [] then (report, state)
        else
          (case v of
             VDir \<Rightarrow>
               if length parts = 1 \<and> (hd parts = ''.git'' \<or> hd parts = ''.agentmem'') then (report, state)
               else if hd parts = ''memories'' \<or> hd parts = ''loadouts'' then (report, state)
               else if length parts = 1 then
                 (plain_issue ''unexpected_path'' ''portable repository contains an unsupported directory'' report, state)
               else (report, state)
           | VFile content \<Rightarrow>
               if length parts = 1 then
                 (if hd parts = ''.git'' then (report, state)
                  else if map_of repository_files (hd parts) = None then
                    (plain_issue ''unexpected_path'' ''portable repository contains an unsupported root file'' report, state)
                  else (report, state))
               else if validLoadoutPath parts then visit_loadout env parts content s
               else visit_revision env parts content s
           | _ \<Rightarrow> (plain_issue ''unexpected_path'' ''portable repository contains a non-regular file'' report, state)))"

section \<open>The graph of revisions\<close>

definition revisions_of :: "(string \<times> portable_revision) list \<Rightarrow> string \<Rightarrow> portable_revision list" where
  "revisions_of all mid = sort_key pv_revision_id (filter (\<lambda>r. pv_memory_id r = mid) (map snd all))"

definition children_of :: "(string \<times> portable_revision) list \<Rightarrow> string \<Rightarrow> string list" where
  "children_of all rid = map pv_revision_id (filter (\<lambda>r. pv_parent r \<noteq> [] \<and> pv_parent r = rid) (map snd all))"

definition cycle_ids :: "(string \<times> portable_revision) list \<Rightarrow> portable_revision \<Rightarrow> string set" where
  "cycle_ids all current = insert (pv_revision_id current) (pv_revision_id ` snd ` set all)"

text \<open>
  The loop of \<open>hasCycle\<close> for one revision. It ends because every turn adds the id of a revision of the
  repository to the ids seen.
\<close>

function cycle_from ::
  "(string \<times> portable_revision) list \<Rightarrow> string \<Rightarrow> string list \<Rightarrow> portable_revision \<Rightarrow> bool" where
  "cycle_from all mid seen current =
     (if pv_parent current = [] then False
      else if pv_revision_id current \<in> set seen then True
      else (case map_of all (pv_parent current) of
              None \<Rightarrow> False
            | Some p \<Rightarrow>
                if pv_memory_id p \<noteq> mid then False
                else cycle_from all mid (pv_revision_id current # seen) p))"
  by pat_completeness auto
termination
proof (relation "measure (\<lambda>(all, mid, seen, current). card (cycle_ids all current - set seen))")
  fix all :: "(string \<times> portable_revision) list" and mid :: string and seen and current p :: portable_revision
  assume "pv_revision_id current \<notin> set seen" and p: "map_of all (pv_parent current) = Some p"
  then have "pv_revision_id current \<in> cycle_ids all current - set seen" by (simp add: cycle_ids_def)
  moreover have "cycle_ids all p \<subseteq> cycle_ids all current"
    using map_of_SomeD [OF p] by (force simp: cycle_ids_def)
  ultimately have "cycle_ids all p - set (pv_revision_id current # seen) \<subset> cycle_ids all current - set seen"
    by auto
  moreover have "finite (cycle_ids all current - set seen)" by (simp add: cycle_ids_def)
  ultimately show "((all, mid, pv_revision_id current # seen, p), (all, mid, seen, current))
      \<in> measure (\<lambda>(all, mid, seen, current). card (cycle_ids all current - set seen))"
    by (simp add: psubset_card_mono)
qed simp

declare cycle_from.simps [simp del]

definition hasCycle :: "portable_revision list \<Rightarrow> (string \<times> portable_revision) list \<Rightarrow> bool" where
  "hasCycle revisions all = list_ex (\<lambda>r. cycle_from all (pv_memory_id r) [] r) revisions"

definition graph_issue :: "string \<Rightarrow> string \<Rightarrow> string \<Rightarrow> string list \<Rightarrow> string \<Rightarrow> portable_issue" where
  "graph_issue code mid rid related message = issue code [] mid rid [] related message"

definition check_parent :: "(string \<times> portable_revision) list \<Rightarrow> string \<Rightarrow> portable_revision \<Rightarrow> portable_issue list" where
  "check_parent all mid r =
     (if pv_parent r = [] then []
      else case map_of all (pv_parent r) of
        None \<Rightarrow> [graph_issue ''missing_parent'' mid (pv_revision_id r) [pv_parent r] ''portable revision parent is missing'']
      | Some p \<Rightarrow>
          if pv_memory_id p \<noteq> mid \<or> pv_status p \<noteq> StatusActive \<or> pv_scope_kind p \<noteq> pv_scope_kind r \<or>
             pv_scope_value p \<noteq> pv_scope_value r
          then [graph_issue ''invalid_parent'' mid (pv_revision_id r) [pv_parent r] ''portable revision parent is incompatible'']
          else [])"

definition check_fork :: "(string \<times> portable_revision) list \<Rightarrow> string \<Rightarrow> portable_revision \<Rightarrow> portable_issue list" where
  "check_fork all mid r =
     (if 1 < length (children_of all (pv_revision_id r))
      then [graph_issue ''revision_fork'' mid (pv_revision_id r) (sort (children_of all (pv_revision_id r)))
              ''portable memory has divergent children and requires explicit resolution'']
      else [])"

definition roots_of :: "(string \<times> portable_revision) list \<Rightarrow> string \<Rightarrow> string list" where
  "roots_of all mid = map pv_revision_id (filter (\<lambda>r. pv_parent r = []) (revisions_of all mid))"

definition heads_of :: "(string \<times> portable_revision) list \<Rightarrow> string \<Rightarrow> string list" where
  "heads_of all mid =
     map pv_revision_id (filter (\<lambda>r. children_of all (pv_revision_id r) = []) (revisions_of all mid))"

definition graph_issues :: "(string \<times> portable_revision) list \<Rightarrow> string \<Rightarrow> portable_issue list" where
  "graph_issues all mid =
     concat (map (\<lambda>r. check_parent all mid r @ check_fork all mid r) (revisions_of all mid)) @
     (if length (roots_of all mid) \<noteq> 1
      then [graph_issue ''root_conflict'' mid [] (roots_of all mid) ''portable memory does not have exactly one root revision'']
      else []) @
     (if hasCycle (revisions_of all mid) all
      then [graph_issue ''revision_cycle'' mid [] [] ''portable memory revision graph contains a cycle''] else []) @
     (if length (heads_of all mid) \<noteq> 1
      then [graph_issue ''head_conflict'' mid [] (sort (heads_of all mid)) ''portable memory does not have exactly one current head'']
      else [])"

definition add_repository_issues :: "portable_report \<Rightarrow> portable_issue list \<Rightarrow> portable_report" where
  "add_repository_issues report is = fold (\<lambda>i r. addIssue r i) is report"

text \<open>One turn of the loop over the memories; a revision id that is not in the map reads as the zero revision.\<close>

definition zero_revision :: portable_revision where
  "zero_revision = \<lparr>pv_schema_version = [], pv_memory_id = [], pv_revision_id = [], pv_parent = [], pv_action = [],
     pv_status = [], pv_kind = [], pv_scope_kind = [], pv_scope_value = [], pv_basis = [], pv_text = [],
     pv_text_sha256 = [], pv_rule_change = False, pv_authorization = [], pv_privacy = []\<rparr>"

definition check_memory :: "string \<Rightarrow> loading \<Rightarrow> loading" where
  "check_memory mid s =
     (case s of (report, state) \<Rightarrow>
      (let all = rs_revisions state; report = add_repository_issues report (graph_issues all mid) in
       case heads_of all mid of
         [h] \<Rightarrow>
           (let head = (case map_of all h of None \<Rightarrow> zero_revision | Some r \<Rightarrow> r) in
            (if pv_status head = StatusActive then report\<lparr>pt_active := pt_active report + 1\<rparr>
             else report\<lparr>pt_revoked := pt_revoked report + 1\<rparr>,
             state\<lparr>rs_heads := rs_heads state @ [(mid, head)]\<rparr>))
       | _ \<Rightarrow> (report, state)))"

section \<open>Semantic identity of the heads\<close>

definition semantic_group :: "unicode \<Rightarrow> (string \<times> portable_revision) list \<Rightarrow> string \<Rightarrow> (string \<times> portable_revision) list" where
  "semantic_group u heads key =
     sort_key fst (filter (\<lambda>h. pv_status (snd h) = StatusActive \<and> fst (semanticIdentity u (snd h)) = key) heads)"

definition semantic_keys :: "unicode \<Rightarrow> (string \<times> portable_revision) list \<Rightarrow> string list" where
  "semantic_keys u heads =
     sort (remdups (map (\<lambda>h. fst (semanticIdentity u (snd h))) (filter (\<lambda>h. pv_status (snd h) = StatusActive) heads)))"

definition semantic_issue :: "unicode \<Rightarrow> (string \<times> portable_revision) list \<Rightarrow> portable_issue" where
  "semantic_issue u g =
     (let polarities = map (\<lambda>h. snd (semanticIdentity u (snd h))) g;
          conflict = (PolarityAffirmative \<in> set polarities \<and> PolarityProhibitive \<in> set polarities)
      in issue (if conflict then ''semantic_conflict'' else ''duplicate_semantic_memory'') [] [] []
           (map fst g) (map (\<lambda>h. pv_revision_id (snd h)) g)
           (if conflict then ''active portable memories have opposing semantics and are quarantined''
            else ''active portable memories share the same semantic identity and require explicit deduplication''))"

definition validateSemanticHeads :: "unicode \<Rightarrow> (string \<times> portable_revision) list \<Rightarrow> portable_report \<Rightarrow> portable_report" where
  "validateSemanticHeads u heads report =
     fold (\<lambda>key r. let g = semantic_group u heads key in
                   if length g < 2 then r else addIssue r (semantic_issue u g))
       (semantic_keys u heads) report"

section \<open>The whole repository\<close>

definition memory_ids :: "(string \<times> portable_revision) list \<Rightarrow> string list" where
  "memory_ids all = sort (remdups (map (\<lambda>r. pv_memory_id (snd r)) all))"

definition validateRepositoryState :: "unicode \<Rightarrow> loading \<Rightarrow> loading" where
  "validateRepositoryState u s =
     (let ids = memory_ids (rs_revisions (snd s));
          (report, state) = fold check_memory ids ((fst s)\<lparr>pt_memories := int (length ids)\<rparr>, snd s)
      in (validateSemanticHeads u (rs_heads state) report, state))"

definition check_loadout :: "repository_state \<Rightarrow> string \<times> loadout \<Rightarrow> portable_report \<Rightarrow> portable_report" where
  "check_loadout state l report =
     (if validateLoadoutHistory (snd l) (map_of (rs_revisions state)) \<noteq> None
      then loadout_issue ''invalid_loadout_reference'' (fst l)
             ''portable loadout references an unavailable memory revision'' report
      else report\<lparr>pt_loadouts := pt_loadouts report + 1\<rparr>)"

definition validateLoadoutState :: "loading \<Rightarrow> portable_report" where
  "validateLoadoutState s = fold (check_loadout (snd s)) (sort_key fst (rs_loadouts (snd s))) (fst s)"

definition root_invalid :: "string \<Rightarrow> loading" where
  "root_invalid message =
     (finalizeReport (plain_issue ''repository_root_invalid'' message empty_repository_report), empty_repository)"

definition load_tree :: "load_env \<Rightarrow> fs_node \<Rightarrow> (string list \<times> visit) list \<Rightarrow> loading" where
  "load_tree env tree vs =
     (let report = fold (\<lambda>f r. check_fixed_file tree r f) repository_files empty_repository_report;
          walked = fold (visit_path env) vs (report, empty_repository);
          validated = validateRepositoryState (le_unicode env) walked
      in (finalizeReport (validateLoadoutState validated), snd validated))"

definition loadRepository :: "load_env \<Rightarrow> string \<Rightarrow> fs_root \<Rightarrow> loading" where
  "loadRepository env path dir =
     (if blank path then root_invalid ''portable repository root is required''
      else case dir of
        RootMissing \<Rightarrow> root_invalid ''portable repository root is unavailable''
      | RootNotDir \<Rightarrow> root_invalid ''portable repository root is unavailable''
      | RootDir t \<Rightarrow> load_tree env t (visits [] t)
      | RootLink t \<Rightarrow> load_tree env t [([], VOther)])"

definition VerifyRepository :: "load_env \<Rightarrow> string \<Rightarrow> fs_root \<Rightarrow> portable_report" where
  "VerifyRepository env path dir = fst (loadRepository env path dir)"

definition LoadActiveRevisions :: "load_env \<Rightarrow> string \<Rightarrow> fs_root \<Rightarrow> portable_revision list \<times> portable_report" where
  "LoadActiveRevisions env path dir =
     (case loadRepository env path dir of (report, state) \<Rightarrow>
        if pt_issues report \<noteq> [] then ([], report)
        else (let ids = sort (map fst (filter (\<lambda>h. pv_status (snd h) = StatusActive) (rs_heads state)))
              in (map (\<lambda>i. case map_of (rs_heads state) i of None \<Rightarrow> zero_revision | Some r \<Rightarrow> r) ids, report)))"

section \<open>Loadouts\<close>

definition ListLoadouts :: "load_env \<Rightarrow> string \<Rightarrow> fs_root \<Rightarrow> loadout list \<times> portable_report" where
  "ListLoadouts env path dir =
     (case loadRepository env path dir of (report, state) \<Rightarrow>
        if pt_issues report \<noteq> [] then ([], report)
        else (map snd (sort_key fst (rs_loadouts state)), report))"

datatype current_error = CurrentRepository | CurrentUnavailable | CurrentStale loadout_error

definition LoadCurrentLoadout :: "load_env \<Rightarrow> string \<Rightarrow> fs_root \<Rightarrow> string \<Rightarrow> portable_report \<times> (current_error + loadout)" where
  "LoadCurrentLoadout env path dir loadoutID =
     (case loadRepository env path dir of (report, state) \<Rightarrow>
        if pt_issues report \<noteq> [] then (report, Inl CurrentRepository)
        else (case map_of (rs_loadouts state) loadoutID of
                None \<Rightarrow> (report, Inl CurrentUnavailable)
              | Some l \<Rightarrow>
                  (case validateLoadoutCurrent l (map_of (rs_heads state)) of
                     Some e \<Rightarrow> (report, Inl (CurrentStale e))
                   | None \<Rightarrow> (report, Inr l))))"

definition ListLoadoutStatus :: "load_env \<Rightarrow> string \<Rightarrow> fs_root \<Rightarrow> (loadout \<times> current_error option) list \<times> portable_report" where
  "ListLoadoutStatus env path dir =
     (case ListLoadouts env path dir of (loadouts, report) \<Rightarrow>
        if pt_issues report \<noteq> [] then ([], report)
        else (map (\<lambda>l. (l, case snd (LoadCurrentLoadout env path dir (lo_loadout_id l)) of
                             Inl e \<Rightarrow> Some e | Inr _ \<Rightarrow> None)) loadouts, report))"

definition VerifyLoadoutUse :: "load_env \<Rightarrow> string \<Rightarrow> fs_root \<Rightarrow> string \<Rightarrow> portable_report \<times> current_error option" where
  "VerifyLoadoutUse env path dir loadoutID =
     (case LoadCurrentLoadout env path dir loadoutID of
        (report, Inl e) \<Rightarrow> (report, Some e) | (report, Inr _) \<Rightarrow> (report, None))"

end
