(* ===== verification/Portable_Props.thy ===== *)
theory Portable_Props
  imports Portable_Load
begin

text \<open>
  What a repository without issues is: the invariant of the walk, and the shape of the graph of
  revisions of a memory, one line from its root to its head.
\<close>

section \<open>The revisions read\<close>

definition revisions_ok :: "load_env \<Rightarrow> (string \<times> portable_revision) list \<Rightarrow> bool" where
  "revisions_ok env all \<longleftrightarrow> distinct (map fst all) \<and>
     list_all (\<lambda>b. fst b = pv_revision_id (snd b) \<and> validateRevision (le_engine env) (snd b) = None) all"

lemma visit_loadout_revisions [simp]:
  "rs_revisions (snd (visit_loadout env parts content s)) = rs_revisions (snd s)"
  "rs_heads (snd (visit_loadout env parts content s)) = rs_heads (snd s)"
  by (auto simp: visit_loadout_def Let_def split: prod.splits option.splits sum.splits)

lemma Parse_valid: "ParseRevision en unq unl data = Inr r \<Longrightarrow> validateRevision en r = None"
  using Parse_canonical [of en unq unl data r] by (auto simp: RenderRevision_def split: option.splits)

lemma visit_revision_ok:
  assumes "revisions_ok env (rs_revisions (snd s))"
  shows "revisions_ok env (rs_revisions (snd (visit_revision env parts content s)))"
proof -
  have "distinct (map fst (rs_revisions (snd s)) @ [i])" if "map_of (rs_revisions (snd s)) i = None" for i
    using that assms by (auto simp: map_of_eq_None_iff revisions_ok_def)
  then show ?thesis
    using assms Parse_valid
    by (auto simp: visit_revision_def revisions_ok_def Let_def split: prod.splits option.splits sum.splits)
qed

lemma visit_revision_heads [simp]: "rs_heads (snd (visit_revision env parts content s)) = rs_heads (snd s)"
  by (auto simp: visit_revision_def Let_def split: prod.splits option.splits sum.splits)

lemma visit_path_ok:
  assumes "revisions_ok env (rs_revisions (snd s))"
  shows "revisions_ok env (rs_revisions (snd (visit_path env pv s)))"
  using assms visit_revision_ok [OF assms]
  by (auto simp: visit_path_def split: prod.splits visit.splits)

lemma visit_path_heads [simp]: "rs_heads (snd (visit_path env pv s)) = rs_heads (snd s)"
  by (auto simp: visit_path_def split: prod.splits visit.splits)

lemma walk_ok:
  "revisions_ok env (rs_revisions (snd s)) \<Longrightarrow>
   revisions_ok env (rs_revisions (snd (fold (visit_path env) vs s))) \<and>
   rs_heads (snd (fold (visit_path env) vs s)) = rs_heads (snd s)"
  by (induction vs arbitrary: s) (auto simp: visit_path_ok)

section \<open>Issues are only ever added\<close>

lemma addIssue_issues [simp]: "pt_issues (addIssue report i) = pt_issues report @ [i]"
  by (simp add: addIssue_def)

lemma add_repository_issues_issues [simp]: "pt_issues (add_repository_issues report is) = pt_issues report @ is"
  by (induction "is" arbitrary: report) (auto simp: add_repository_issues_def)

lemma sort_key_eq_Nil [simp]: "sort_key f xs = [] \<longleftrightarrow> xs = []"
  by (metis length_0_conv length_sort)

lemma finalizeReport_Nil [simp]: "pt_issues (finalizeReport report) = [] \<longleftrightarrow> pt_issues report = []"
  by (simp add: finalizeReport_def)

lemma check_memory_revisions [simp]: "rs_revisions (snd (check_memory mid s)) = rs_revisions (snd s)"
  by (auto simp: check_memory_def Let_def split: prod.splits list.splits)

lemma check_memory_issues:
  "pt_issues (fst (check_memory mid s)) = pt_issues (fst s) @ graph_issues (rs_revisions (snd s)) mid"
  by (auto simp: check_memory_def Let_def split: prod.splits list.splits)

lemma check_memories_issues:
  "pt_issues (fst (fold check_memory ids s)) = pt_issues (fst s) @ concat (map (graph_issues (rs_revisions (snd s))) ids)"
  "rs_revisions (snd (fold check_memory ids s)) = rs_revisions (snd s)"
  by (induction ids arbitrary: s) (simp_all add: check_memory_issues)

definition head_of :: "(string \<times> portable_revision) list \<Rightarrow> string \<Rightarrow> portable_revision" where
  "head_of all mid = (case map_of all (hd (heads_of all mid)) of None \<Rightarrow> zero_revision | Some r \<Rightarrow> r)"

lemma check_memory_heads:
  assumes "graph_issues (rs_revisions (snd s)) mid = []"
  shows "rs_heads (snd (check_memory mid s)) = rs_heads (snd s) @ [(mid, head_of (rs_revisions (snd s)) mid)]"
proof -
  have "length (heads_of (rs_revisions (snd s)) mid) = 1"
    using assms by (auto simp: graph_issues_def split: if_splits)
  then obtain h where "heads_of (rs_revisions (snd s)) mid = [h]" by (auto simp: length_Suc_conv)
  then show ?thesis by (simp add: check_memory_def head_of_def Let_def case_prod_beta)
qed

lemma check_memories_heads:
  assumes "\<forall>mid \<in> set ids. graph_issues (rs_revisions (snd s)) mid = []"
  shows "rs_heads (snd (fold check_memory ids s)) =
    rs_heads (snd s) @ map (\<lambda>mid. (mid, head_of (rs_revisions (snd s)) mid)) ids"
  using assms by (induction ids arbitrary: s) (simp_all add: check_memory_heads)

lemma semantic_issues:
  "pt_issues (fold (\<lambda>key r. let g = semantic_group u heads key in
       if length g < 2 then r else addIssue r (semantic_issue u g)) ks report) = [] \<longleftrightarrow>
   pt_issues report = [] \<and> (\<forall>key \<in> set ks. length (semantic_group u heads key) < 2)"
  by (induction ks arbitrary: report) (auto simp: Let_def)

lemma validateSemanticHeads_Nil:
  "pt_issues (validateSemanticHeads u heads report) = [] \<longleftrightarrow>
   pt_issues report = [] \<and> (\<forall>key. length (semantic_group u heads key) < 2)"
proof -
  have "semantic_group u heads key = []" if "key \<notin> set (semantic_keys u heads)" for key
    using that by (auto simp: semantic_group_def semantic_keys_def filter_empty_conv)
  then have "(\<forall>key \<in> set (semantic_keys u heads). length (semantic_group u heads key) < 2) \<longleftrightarrow>
      (\<forall>key. length (semantic_group u heads key) < 2)" by fastforce
  then show ?thesis by (simp add: validateSemanticHeads_def semantic_issues)
qed

lemma check_loadout_issues:
  "pt_issues (fold (check_loadout state) ls report) = [] \<Longrightarrow>
   pt_issues report = [] \<and> (\<forall>l \<in> set ls. validateLoadoutHistory (snd l) (map_of (rs_revisions state)) = None)"
proof (induction ls arbitrary: report)
  case (Cons l ls)
  from Cons.IH [of "check_loadout state l report"] Cons.prems
  have "pt_issues (check_loadout state l report) = []"
    and "\<forall>l \<in> set ls. validateLoadoutHistory (snd l) (map_of (rs_revisions state)) = None" by simp_all
  then show ?case by (auto simp: check_loadout_def loadout_issue_def split: if_splits)
qed simp

text \<open>What a load without issues has established about its state.\<close>

definition state_of_revisions :: "repository_state \<Rightarrow> bool" where
  "state_of_revisions state \<longleftrightarrow>
     rs_heads state = map (\<lambda>mid. (mid, head_of (rs_revisions state) mid)) (memory_ids (rs_revisions state))"

definition verified_state :: "load_env \<Rightarrow> repository_state \<Rightarrow> bool" where
  "verified_state env state \<longleftrightarrow>
     revisions_ok env (rs_revisions state) \<and> state_of_revisions state \<and>
     (\<forall>mid. graph_issues (rs_revisions state) mid = [] \<or> mid \<notin> set (memory_ids (rs_revisions state))) \<and>
     (\<forall>key. length (semantic_group (le_unicode env) (rs_heads state) key) < 2) \<and>
     (\<forall>l \<in> set (rs_loadouts state). validateLoadoutHistory (snd l) (map_of (rs_revisions state)) = None)"

lemma validateRepositoryState_revisions [simp]:
  "rs_revisions (snd (validateRepositoryState u s)) = rs_revisions (snd s)"
  by (simp add: validateRepositoryState_def Let_def case_prod_beta check_memories_issues)

lemma check_memory_loadouts [simp]: "rs_loadouts (snd (check_memory mid s)) = rs_loadouts (snd s)"
  by (auto simp: check_memory_def Let_def split: prod.splits list.splits)

lemma check_memories_loadouts [simp]: "rs_loadouts (snd (fold check_memory ids s)) = rs_loadouts (snd s)"
  by (induction ids arbitrary: s) auto

lemma validateRepositoryState_Nil:
  assumes "pt_issues (fst (validateRepositoryState u s)) = []" and "rs_heads (snd s) = []"
  shows "pt_issues (fst s) = [] \<and> state_of_revisions (snd (validateRepositoryState u s)) \<and>
    (\<forall>mid \<in> set (memory_ids (rs_revisions (snd s))). graph_issues (rs_revisions (snd s)) mid = []) \<and>
    (\<forall>key. length (semantic_group u (rs_heads (snd (validateRepositoryState u s))) key) < 2)"
proof -
  let ?ids = "memory_ids (rs_revisions (snd s))"
  let ?s = "((fst s)\<lparr>pt_memories := int (length ?ids)\<rparr>, snd s)"
  have v: "validateRepositoryState u s =
      (validateSemanticHeads u (rs_heads (snd (fold check_memory ?ids ?s))) (fst (fold check_memory ?ids ?s)),
       snd (fold check_memory ?ids ?s))"
    by (simp add: validateRepositoryState_def Let_def case_prod_beta)
  have 1: "pt_issues (fst (fold check_memory ?ids ?s)) = []"
    and 2: "\<forall>key. length (semantic_group u (rs_heads (snd (fold check_memory ?ids ?s))) key) < 2"
    using assms(1) by (simp_all add: v validateSemanticHeads_Nil)
  have 3: "\<forall>mid \<in> set ?ids. graph_issues (rs_revisions (snd s)) mid = []" and 4: "pt_issues (fst s) = []"
    using 1 by (simp_all add: check_memories_issues)
  have "rs_heads (snd (fold check_memory ?ids ?s)) = map (\<lambda>mid. (mid, head_of (rs_revisions (snd s)) mid)) ?ids"
    using check_memories_heads [of ?ids ?s] 3 assms(2) by simp
  then show ?thesis using 2 3 4 by (simp add: v state_of_revisions_def check_memories_issues)
qed

lemma loadRepository_verified:
  assumes "loadRepository env path dir = (report, state)" and "pt_issues report = []"
  shows "verified_state env state"
proof -
  obtain t vs where l: "load_tree env t vs = (report, state)"
    using assms
    by (auto simp: loadRepository_def root_invalid_def plain_issue_def split: if_splits fs_root.splits)
  let ?w = "fold (visit_path env) vs (fold (\<lambda>f r. check_fixed_file t r f) repository_files empty_repository_report, empty_repository)"
  let ?v = "validateRepositoryState (le_unicode env) ?w"
  have st: "state = snd ?v" and "report = finalizeReport (validateLoadoutState ?v)"
    using l by (auto simp: load_tree_def Let_def)
  then have "pt_issues (fold (check_loadout (snd ?v)) (sort_key fst (rs_loadouts (snd ?v))) (fst ?v)) = []"
    using assms(2) by (simp add: validateLoadoutState_def)
  from check_loadout_issues [OF this] have v: "pt_issues (fst ?v) = []"
    and lo: "\<forall>l \<in> set (rs_loadouts (snd ?v)). validateLoadoutHistory (snd l) (map_of (rs_revisions (snd ?v))) = None"
    by simp_all
  have w: "revisions_ok env (rs_revisions (snd ?w))" "rs_heads (snd ?w) = []"
    using walk_ok [of env "(fold (\<lambda>f r. check_fixed_file t r f) repository_files empty_repository_report, empty_repository)" vs]
    by (simp_all add: empty_repository_def revisions_ok_def)
  show ?thesis
    using validateRepositoryState_Nil [OF v w(2)] w(1) lo
    by (auto simp: verified_state_def st)
qed

end
