(* ===== verification/Portable_Graph.thy ===== *)
theory Portable_Graph
  imports Portable_Props
begin

text \<open>
  The graph of a memory without issues is a line: one root, every revision the only child of the one
  before it, and the head at the end.
\<close>

fun parent_linked :: "portable_revision list \<Rightarrow> bool" where
  "parent_linked [] \<longleftrightarrow> True"
| "parent_linked [r] \<longleftrightarrow> True"
| "parent_linked (p # r # rs) \<longleftrightarrow> pv_parent r = pv_revision_id p \<and> parent_linked (r # rs)"

lemma parent_linked_snoc: "parent_linked (rs @ [p, r]) \<longleftrightarrow> parent_linked (rs @ [p]) \<and> pv_parent r = pv_revision_id p"
  by (induction rs rule: parent_linked.induct) auto

lemma parent_linked_nth: "parent_linked rs \<Longrightarrow> Suc i < length rs \<Longrightarrow> pv_parent (rs ! Suc i) = pv_revision_id (rs ! i)"
proof (induction rs arbitrary: i rule: parent_linked.induct)
  case (3 p r rs)
  then show ?case by (cases i) auto
qed auto

definition members :: "(string \<times> portable_revision) list \<Rightarrow> string \<Rightarrow> portable_revision set" where
  "members all mid = {r \<in> snd ` set all. pv_memory_id r = mid}"

lemma set_revisions_of [simp]: "set (revisions_of all mid) = members all mid"
  by (auto simp: revisions_of_def members_def)

lemma ids_determine:
  assumes "revisions_ok env all" and "a \<in> members all mid" and "b \<in> members all mid'" and "pv_revision_id a = pv_revision_id b"
  shows "a = b"
proof -
  have "(pv_revision_id a, a) \<in> set all" "(pv_revision_id b, b) \<in> set all"
    using assms by (auto simp: revisions_ok_def members_def list_all_iff)
  moreover have "distinct (map fst all)" using assms(1) by (simp add: revisions_ok_def)
  ultimately show ?thesis using assms(4) by (metis map_of_is_SomeI option.inject)
qed

lemma two_in_filter: "a \<in> set xs \<Longrightarrow> b \<in> set xs \<Longrightarrow> P a \<Longrightarrow> P b \<Longrightarrow> a \<noteq> b \<Longrightarrow> 1 < length (filter P xs)"
proof -
  assume "a \<in> set xs" "b \<in> set xs" "P a" "P b" "a \<noteq> b"
  then have "{a, b} \<subseteq> set (filter P xs)" and "card {a, b} = 2" by auto
  then have "2 \<le> card (set (filter P xs))" by (metis card_mono finite_set)
  then show ?thesis using card_length [of "filter P xs"] by linarith
qed

text \<open>The facts that an empty list of issues holds.\<close>

definition clean_graph :: "load_env \<Rightarrow> (string \<times> portable_revision) list \<Rightarrow> string \<Rightarrow> bool" where
  "clean_graph env all mid \<longleftrightarrow> revisions_ok env all \<and> graph_issues all mid = []"

lemma clean_parent:
  assumes "clean_graph env all mid" and "r \<in> members all mid" and "pv_parent r \<noteq> []"
  obtains p where "map_of all (pv_parent r) = Some p" and "p \<in> members all mid" and "pv_revision_id p = pv_parent r"
    and "pv_status p = StatusActive" and "pv_scope_kind p = pv_scope_kind r" and "pv_scope_value p = pv_scope_value r"
proof -
  have "check_parent all mid r = []"
    using assms by (auto simp: clean_graph_def graph_issues_def)
  then obtain p where p: "map_of all (pv_parent r) = Some p" "pv_memory_id p = mid" "pv_status p = StatusActive"
    "pv_scope_kind p = pv_scope_kind r" "pv_scope_value p = pv_scope_value r"
    using assms(3) by (auto simp: check_parent_def split: option.splits if_splits)
  moreover have "p \<in> members all mid" "pv_revision_id p = pv_parent r"
    using map_of_SomeD [OF p(1)] p(2) assms(1)
    by (force simp: members_def clean_graph_def revisions_ok_def list_all_iff)+
  ultimately show ?thesis using that by blast
qed

lemma clean_only_child:
  assumes c: "clean_graph env all mid" and p: "p \<in> members all mid" and a: "a \<in> members all mid" and b: "b \<in> members all mid"
    and "pv_parent a = pv_revision_id p" and "pv_parent b = pv_revision_id p" and "pv_revision_id p \<noteq> []"
  shows "a = b"
proof (rule ccontr)
  assume "a \<noteq> b"
  moreover have "check_fork all mid p = []" using c p by (auto simp: clean_graph_def graph_issues_def)
  then have "length (children_of all (pv_revision_id p)) \<le> 1" by (auto simp: check_fork_def split: if_splits)
  moreover have "a \<in> set (map snd all)" "b \<in> set (map snd all)" using a b by (auto simp: members_def)
  ultimately show False
    using assms two_in_filter [of a "map snd all" b "\<lambda>r. pv_parent r \<noteq> [] \<and> pv_parent r = pv_revision_id p"]
    by (simp add: children_of_def)
qed

lemma member_id: "revisions_ok env all \<Longrightarrow> r \<in> members all mid \<Longrightarrow> pv_revision_id r \<noteq> [] \<and> validateRevision (le_engine env) r = None"
proof -
  assume "revisions_ok env all" "r \<in> members all mid"
  then have v: "validateRevision (le_engine env) r = None" by (auto simp: revisions_ok_def members_def list_all_iff)
  then have "validPrefixedHash (pv_revision_id r) ''portable-revision-''" by (auto simp: validateRevision_def)
  then show ?thesis using v by auto
qed

lemma clean_chain:
  "clean_graph env all mid \<Longrightarrow> r \<in> members all mid \<Longrightarrow> \<not> cycle_from all mid seen r \<Longrightarrow>
   \<exists>rs. parent_linked (rs @ [r]) \<and> set (rs @ [r]) \<subseteq> members all mid \<and> pv_parent (hd (rs @ [r])) = []"
proof (induction "all" mid seen r rule: cycle_from.induct)
  case (1 "all" mid seen r)
  show ?case
  proof (cases "pv_parent r = []")
    case True
    then show ?thesis using 1(3) by (intro exI [of _ "[]"]) simp
  next
    case False
    obtain p where p: "map_of all (pv_parent r) = Some p" "p \<in> members all mid" "pv_revision_id p = pv_parent r"
      using clean_parent [OF 1(2,3) False] by metis
    have mid: "pv_memory_id p = mid" using p(2) by (simp add: members_def)
    have "cycle_from all mid seen r \<longleftrightarrow> pv_revision_id r \<in> set seen \<or> cycle_from all mid (pv_revision_id r # seen) p"
      by (subst cycle_from.simps) (simp add: False p(1) mid)
    then have seen: "pv_revision_id r \<notin> set seen" and nc: "\<not> cycle_from all mid (pv_revision_id r # seen) p"
      using 1(4) by blast+
    obtain rs where "parent_linked (rs @ [p])" "set (rs @ [p]) \<subseteq> members all mid" "pv_parent (hd (rs @ [p])) = []"
      using 1(1) [OF False seen p(1) _ 1(2) p(2) nc] mid by auto
    then show ?thesis using 1(3) p(3) parent_linked_snoc [of rs p r] by (intro exI [of _ "rs @ [p]"]) (cases rs, auto)
  qed
qed

text \<open>Two lines that start at the same revision agree as far as both go.\<close>

lemma chains_agree:
  assumes c: "clean_graph env all mid"
    and x: "parent_linked xs" "set xs \<subseteq> members all mid" and y: "parent_linked ys" "set ys \<subseteq> members all mid"
    and hd: "xs ! 0 = ys ! 0"
  shows "i < length xs \<Longrightarrow> i < length ys \<Longrightarrow> xs ! i = ys ! i"
proof (induction i)
  case (Suc i)
  let ?p = "xs ! i"
  have p: "?p \<in> members all mid" using Suc.prems x(2) by (auto dest: Suc_lessD)
  have a: "xs ! Suc i \<in> members all mid" "ys ! Suc i \<in> members all mid" using Suc.prems x(2) y(2) by auto
  have "pv_parent (xs ! Suc i) = pv_revision_id ?p" using parent_linked_nth [OF x(1)] Suc.prems by simp
  moreover have "pv_parent (ys ! Suc i) = pv_revision_id ?p" using parent_linked_nth [OF y(1)] Suc by simp
  moreover have "pv_revision_id ?p \<noteq> []" using member_id p c by (auto simp: clean_graph_def)
  ultimately show ?case using clean_only_child [OF c p a] by blast
qed (use hd in simp)

lemma chain_distinct:
  assumes "clean_graph env all mid" and x: "parent_linked xs" "set xs \<subseteq> members all mid" and root: "xs \<noteq> []" "pv_parent (hd xs) = []"
  shows "distinct xs"
proof -
  have step: "j < length xs \<Longrightarrow> i < j \<Longrightarrow> xs ! i \<noteq> xs ! j" for i j
  proof (induction i arbitrary: j)
    case 0
    then obtain k where k: "j = Suc k" by (cases j) auto
    have "xs ! k \<in> members all mid" using 0 k x(2) by auto
    then have "pv_parent (xs ! j) \<noteq> []"
      using parent_linked_nth [OF x(1), of k] 0 k member_id assms(1) by (auto simp: clean_graph_def)
    then show ?case using root by (metis hd_conv_nth)
  next
    case (Suc i)
    then obtain k where k: "j = Suc k" by (cases j) auto
    then have "xs ! i \<noteq> xs ! k" using Suc by simp
    moreover have "xs ! i \<in> members all mid" "xs ! k \<in> members all mid" using Suc.prems k x(2) by auto
    ultimately have "pv_revision_id (xs ! i) \<noteq> pv_revision_id (xs ! k)"
      using ids_determine assms(1) by (auto simp: clean_graph_def)
    then show ?case using parent_linked_nth [OF x(1), of i] parent_linked_nth [OF x(1), of k] Suc.prems k by auto
  qed
  then show ?thesis by (metis distinct_conv_nth linorder_neqE_nat)
qed

definition line_of_memory :: "(string \<times> portable_revision) list \<Rightarrow> string \<Rightarrow> portable_revision list \<Rightarrow> bool" where
  "line_of_memory all mid rs \<longleftrightarrow>
     rs \<noteq> [] \<and> distinct rs \<and> set rs = members all mid \<and> parent_linked rs \<and>
     pv_action (hd rs) = ActionPromote \<and> pv_parent (hd rs) = [] \<and>
     (\<forall>r \<in> set (butlast rs). pv_status r = StatusActive) \<and>
     (\<forall>r \<in> set rs. pv_scope_kind r = pv_scope_kind (hd rs) \<and> pv_scope_value r = pv_scope_value (hd rs)) \<and>
     head_of all mid = last rs"

lemma child_in_children:
  "r \<in> members all mid \<Longrightarrow> pv_parent r = i \<Longrightarrow> i \<noteq> [] \<Longrightarrow> children_of all i \<noteq> []"
  by (auto simp: children_of_def members_def filter_empty_conv)

lemma clean_memory:
  assumes "clean_graph env all mid"
  obtains h r where "heads_of all mid = [pv_revision_id h]" and "h \<in> members all mid"
    and "children_of all (pv_revision_id h) = []"
    and "roots_of all mid = [pv_revision_id r]" and "r \<in> members all mid" and "pv_parent r = []"
proof -
  have "length (heads_of all mid) = 1" "length (roots_of all mid) = 1"
    using assms by (auto simp: clean_graph_def graph_issues_def split: if_splits)
  then obtain h r where
    h: "filter (\<lambda>r. children_of all (pv_revision_id r) = []) (revisions_of all mid) = [h]" and
    r: "filter (\<lambda>r. pv_parent r = []) (revisions_of all mid) = [r]"
    by (auto simp: heads_of_def roots_of_def length_Suc_conv)
  have "h \<in> set (filter (\<lambda>r. children_of all (pv_revision_id r) = []) (revisions_of all mid))" using h by simp
  then have "h \<in> members all mid" "children_of all (pv_revision_id h) = []" by simp_all
  moreover have "r \<in> set (filter (\<lambda>r. pv_parent r = []) (revisions_of all mid))" using r by simp
  then have "r \<in> members all mid" "pv_parent r = []" by simp_all
  ultimately show ?thesis using that h r by (simp add: heads_of_def roots_of_def)
qed

lemma only_root:
  assumes c: "clean_graph env all mid" and a: "a \<in> members all mid" "pv_parent a = []" and b: "b \<in> members all mid" "pv_parent b = []"
  shows "a = b"
proof -
  obtain r :: portable_revision where "roots_of all mid = [pv_revision_id r]" by (rule clean_memory [OF c]) (rule that)
  moreover have "pv_revision_id a \<in> set (roots_of all mid)" "pv_revision_id b \<in> set (roots_of all mid)"
    using a b by (auto simp: roots_of_def)
  ultimately show ?thesis using ids_determine a(1) b(1) c by (metis clean_graph_def list.set(1) list.set(2) singletonD)
qed

lemma no_cycle: "clean_graph env all mid \<Longrightarrow> r \<in> members all mid \<Longrightarrow> \<not> cycle_from all mid [] r"
  by (auto simp: clean_graph_def graph_issues_def hasCycle_def list_ex_iff members_def split: if_splits)

lemma hd_nth: "xs \<noteq> [] \<Longrightarrow> xs ! 0 = hd xs"
  by (simp add: hd_conv_nth)

lemma linear_history:
  assumes c: "clean_graph env all mid"
  shows "\<exists>rs. line_of_memory all mid rs"
proof -
  obtain h where h: "heads_of all mid = [pv_revision_id h]" "h \<in> members all mid" "children_of all (pv_revision_id h) = []"
    by (rule clean_memory [OF c]) (rule that)
  have ok: "revisions_ok env all" using c by (simp add: clean_graph_def)
  obtain cs where cs: "parent_linked (cs @ [h])" "set (cs @ [h]) \<subseteq> members all mid" "pv_parent (hd (cs @ [h])) = []"
    using clean_chain [OF c h(2) no_cycle [OF c h(2)]] by blast
  let ?l = "cs @ [h]"
  have all: "r \<in> set ?l" if r: "r \<in> members all mid" for r
  proof -
    obtain ds where ds: "parent_linked (ds @ [r])" "set (ds @ [r]) \<subseteq> members all mid" "pv_parent (hd (ds @ [r])) = []"
      using clean_chain [OF c r no_cycle [OF c r]] by blast
    have "hd ?l \<in> members all mid" "hd (ds @ [r]) \<in> members all mid"
      using cs(2) ds(2) by (metis hd_in_set snoc_eq_iff_butlast subset_iff)+
    then have "?l ! 0 = (ds @ [r]) ! 0"
      using only_root [OF c] cs(3) ds(3) by (metis hd_nth snoc_eq_iff_butlast)
    note agree = chains_agree [OF c cs(1,2) ds(1,2) this]
    show ?thesis
    proof (cases "length ds < length ?l")
      case True
      then have "?l ! length ds = r" using agree [of "length ds"] by simp
      then show ?thesis using True nth_mem by metis
    next
      case False
      then have lt: "Suc (length cs) < length (ds @ [r])" by simp
      then have "(ds @ [r]) ! length cs = h" using agree [of "length cs"] by simp
      then have "pv_parent ((ds @ [r]) ! Suc (length cs)) = pv_revision_id h"
        using parent_linked_nth [OF ds(1) lt] by simp
      moreover have "(ds @ [r]) ! Suc (length cs) \<in> members all mid" using ds(2) lt nth_mem by blast
      ultimately show ?thesis using child_in_children h(2,3) member_id [OF ok h(2)] by metis
    qed
  qed
  then have set: "set ?l = members all mid" using cs(2) by blast
  have hdl: "hd ?l \<in> members all mid" using cs(2) by (metis hd_in_set snoc_eq_iff_butlast subset_iff)
  have action: "pv_action (hd ?l) = ActionPromote"
    using member_id [OF ok hdl] cs(3)
    by (auto simp: validateRevision_def check_portable_action_def split: if_splits)
  have parents: "pv_status (?l ! i) = StatusActive \<and> pv_scope_kind (?l ! i) = pv_scope_kind (?l ! Suc i) \<and>
      pv_scope_value (?l ! i) = pv_scope_value (?l ! Suc i)" if i: "Suc i < length ?l" for i
  proof -
    have m: "?l ! Suc i \<in> members all mid" "?l ! i \<in> members all mid" using i cs(2) by (metis Suc_lessD nth_mem subset_iff)+
    have par: "pv_parent (?l ! Suc i) = pv_revision_id (?l ! i)" by (rule parent_linked_nth [OF cs(1) i])
    then have "pv_parent (?l ! Suc i) \<noteq> []" using member_id [OF ok m(2)] by simp
    then obtain p where p: "p \<in> members all mid" "pv_revision_id p = pv_parent (?l ! Suc i)" "pv_status p = StatusActive"
      "pv_scope_kind p = pv_scope_kind (?l ! Suc i)" "pv_scope_value p = pv_scope_value (?l ! Suc i)"
      using clean_parent [OF c m(1)] by metis
    have "p = ?l ! i" using ids_determine [OF ok p(1) m(2)] p(2) par by simp
    then show ?thesis using p by simp
  qed
  have act: "\<forall>r \<in> set (butlast ?l). pv_status r = StatusActive"
  proof
    fix r assume "r \<in> set (butlast ?l)"
    then obtain i where "i < length cs" "r = cs ! i" by (auto simp: in_set_conv_nth)
    then show "pv_status r = StatusActive" using parents [of i] by (simp add: nth_append)
  qed
  have "pv_scope_kind (?l ! i) = pv_scope_kind (?l ! 0) \<and> pv_scope_value (?l ! i) = pv_scope_value (?l ! 0)"
    if "i < length ?l" for i
    using that by (induction i) (use parents in auto)
  then have scope: "\<forall>r \<in> set ?l. pv_scope_kind r = pv_scope_kind (hd ?l) \<and> pv_scope_value r = pv_scope_value (hd ?l)"
    by (metis hd_nth in_set_conv_nth snoc_eq_iff_butlast)
  have "map_of all (pv_revision_id h) = Some h"
    using h(2) ok by (force simp: members_def revisions_ok_def list_all_iff intro: map_of_is_SomeI)
  then have head: "head_of all mid = last ?l" by (simp add: head_of_def h(1))
  show ?thesis
    using chain_distinct [OF c cs(1,2)] cs(1,3) set action act scope head
    unfolding line_of_memory_def by (intro exI [of _ ?l]) simp
qed

end
