(* ===== verification/Portable_Export.thy ===== *)
theory Portable_Export
  imports Portable_Graph Promotion
begin

text \<open>
  Exporting promoted memories to a portable repository (\<open>internal/portable/export.go\<close>), and the other
  operations that write to one: \<open>InitRepository\<close>, \<open>writeFileAtomic\<close> (\<open>repository.go\<close>) and
  \<open>CreateLoadout\<close> (\<open>loadout.go\<close>).
\<close>

section \<open>Separate roots\<close>

text \<open>
  A path after \<open>filepath.EvalSymlinks\<close>: whether it is absolute, and its components. \<open>filepath.Rel\<close>
  fails when one path is absolute and the other is not.
\<close>

record resolved_path =
  rp_absolute :: bool
  rp_parts :: "string list"

definition path_contains :: "resolved_path \<Rightarrow> resolved_path \<Rightarrow> bool" where
  "path_contains parent child \<longleftrightarrow>
     rp_absolute parent = rp_absolute child \<and>
     take (length (rp_parts parent)) (rp_parts child) = rp_parts parent \<and>
     (case drop (length (rp_parts parent)) (rp_parts child) of [] \<Rightarrow> True | n # _ \<Rightarrow> n \<noteq> ''..'')"

definition pathsOverlap :: "resolved_path \<Rightarrow> resolved_path \<Rightarrow> bool" where
  "pathsOverlap left right \<longleftrightarrow> path_contains left right \<or> path_contains right left"

datatype roots_error = RootRequired | EvidenceUnresolved | RepositoryUnresolved | RootsOverlap

definition ensureSeparateRoots :: "(string \<Rightarrow> resolved_path option) \<Rightarrow> string \<Rightarrow> string \<Rightarrow> roots_error option" where
  "ensureSeparateRoots resolve evidenceRoot repositoryRoot =
     (if blank repositoryRoot then Some RootRequired
      else case resolve evidenceRoot of
        None \<Rightarrow> Some EvidenceUnresolved
      | Some evidence \<Rightarrow>
          (case resolve repositoryRoot of
             None \<Rightarrow> Some RepositoryUnresolved
           | Some repository \<Rightarrow> fail_if (pathsOverlap evidence repository) RootsOverlap))"

section \<open>Writing files\<close>

fun make_dirs :: "string list \<Rightarrow> fs_node \<Rightarrow> fs_node option" where
  "make_dirs [] (FsDir f es) = Some (FsDir f es)"
| "make_dirs (n # ns) (FsDir f es) =
     map_option (\<lambda>u. FsDir f (insert_entry n u es))
       (make_dirs ns (case map_of es n of None \<Rightarrow> FsDir False [] | Some u \<Rightarrow> u))"
| "make_dirs ns t = None"

text \<open>
  What fails of \<open>writeFileAtomic\<close>. After the temporary file exists, a failure removes it again; if that
  fails too the file stays, with the name and the content given.
\<close>

datatype write_fault =
    WMkdir
  | WTemp
  | WChmod "(string \<times> string) option"
  | WWrite "(string \<times> string) option"
  | WSync "(string \<times> string) option"
  | WClose "(string \<times> string) option"
  | WLstat "(string \<times> string) option"
  | WRename "(string \<times> string) option"

datatype write_error = WriteFault write_fault | WriteExists | WriteBlocked

fun left_over :: "write_fault \<Rightarrow> (string \<times> string) option" where
  "left_over WMkdir = None"
| "left_over WTemp = None"
| "left_over (WChmod l) = l"
| "left_over (WWrite l) = l"
| "left_over (WSync l) = l"
| "left_over (WClose l) = l"
| "left_over (WLstat l) = l"
| "left_over (WRename l) = l"

definition leave_temporary :: "(string \<times> string) option \<Rightarrow> string list \<Rightarrow> fs_node \<Rightarrow> fs_node" where
  "leave_temporary l dir t =
     (case l of
        None \<Rightarrow> t
      | Some (n, d) \<Rightarrow> (case put_file (dir @ [n]) d t of None \<Rightarrow> t | Some t' \<Rightarrow> t'))"

fun published :: "write_fault option \<Rightarrow> bool" where
  "published None = False"
| "published (Some (WRename _)) = True"
| "published _ = False"

definition writeFileAtomic :: "write_fault option \<Rightarrow> string list \<Rightarrow> string \<Rightarrow> fs_node \<Rightarrow> fs_node \<times> write_error option" where
  "writeFileAtomic fault path data t =
     (if fault = Some WMkdir then (t, Some (WriteFault WMkdir))
      else case make_dirs (butlast path) t of
        None \<Rightarrow> (t, Some WriteBlocked)
      | Some d \<Rightarrow>
          (case fault of
             None \<Rightarrow>
               if lookup_node path d \<noteq> None then (d, Some WriteExists)
               else (case put_file path data d of None \<Rightarrow> (d, Some WriteBlocked) | Some t' \<Rightarrow> (t', None))
           | Some f \<Rightarrow>
               if published fault \<and> lookup_node path d \<noteq> None
               then (leave_temporary (left_over f) (butlast path) d, Some WriteExists)
               else (leave_temporary (left_over f) (butlast path) d, Some (WriteFault f))))"

text \<open>The tree behind a root, and the root with another tree behind it.\<close>

fun root_tree :: "fs_root \<Rightarrow> fs_node option" where
  "root_tree (RootDir t) = Some t"
| "root_tree (RootLink t) = Some t"
| "root_tree _ = None"

fun with_tree :: "fs_root \<Rightarrow> fs_node \<Rightarrow> fs_root" where
  "with_tree (RootDir _) t = RootDir t"
| "with_tree (RootLink _) t = RootLink t"
| "with_tree r t = r"

datatype init_repository_error = InitRoot | InitDirectory | InitDifferent string | InitRead string | InitWrite write_error | InitVerify portable_issue

fun init_files ::
  "(nat \<Rightarrow> write_fault option) \<Rightarrow> nat \<Rightarrow> (string \<times> string) list \<Rightarrow> fs_node \<Rightarrow> fs_node \<times> init_repository_error option" where
  "init_files faults k [] t = (t, None)"
| "init_files faults k ((name, data) # fs) t =
     (case lookup_node [name] t of
        Some (FsFile (Some existing)) \<Rightarrow>
          if existing \<noteq> data then (t, Some (InitDifferent name)) else init_files faults (Suc k) fs t
      | Some _ \<Rightarrow> (t, Some (InitRead name))
      | None \<Rightarrow>
          (case writeFileAtomic (faults k) [name] data t of
             (t', Some e) \<Rightarrow> (t', Some (InitWrite e))
           | (t', None) \<Rightarrow> init_files faults (Suc k) fs t'))"

definition InitRepository ::
  "load_env \<Rightarrow> bool \<Rightarrow> (nat \<Rightarrow> write_fault option) \<Rightarrow> string \<Rightarrow> fs_root \<Rightarrow> fs_root \<times> init_repository_error option" where
  "InitRepository env mkdir_ok faults path dir =
     (if blank path then (dir, Some InitRoot)
      else
        (let made = (if dir = RootMissing \<and> mkdir_ok then RootDir (FsDir False []) else dir) in
         case root_tree made of
           None \<Rightarrow> (dir, Some InitDirectory)
         | Some t \<Rightarrow>
             (case init_files faults 0 repository_files t of
                (t', Some e) \<Rightarrow> (with_tree made t', Some e)
              | (t', None) \<Rightarrow>
                  (let dir' = with_tree made t' in
                   case pt_issues (VerifyRepository env path dir') of
                     [] \<Rightarrow> (dir', None)
                   | i # _ \<Rightarrow> (dir', Some (InitVerify i))))))"

section \<open>Projection of a promotion history\<close>

datatype project_error = ParentUnavailable | ActionUnsupported_portable | SourceProofMissing | ProjectInvalid portable_error | MemoryChanged

definition project_parent :: "(string \<times> string) list \<Rightarrow> revision \<Rightarrow> project_error + string" where
  "project_parent known v =
     (if rn_parent v = [] then Inr []
      else case map_of known (rn_parent v) of None \<Rightarrow> Inl ParentUnavailable | Some p \<Rightarrow> Inr p)"

definition project_action :: "revision \<Rightarrow> project_error + (string \<times> string)" where
  "project_action v =
     (if rn_action v = ActionPromote then Inr (ActionPromote, StatusActive)
      else if rn_action v = ActionSupersede then Inr (ActionSupersede, StatusActive)
      else if rn_action v = ActionRevoke then Inr (ActionRevoke, StatusRevoked)
      else Inl ActionUnsupported_portable)"

definition project_content :: "revision \<Rightarrow> portable_revision \<Rightarrow> project_error + portable_revision" where
  "project_content v r =
     (if pv_status r = StatusActive then
        (case rn_source v of
           None \<Rightarrow> Inl SourceProofMissing
         | Some s \<Rightarrow> Inr (r\<lparr>pv_text := rn_text v, pv_basis := so_review_basis s\<rparr>))
      else Inr r)"

definition project_draft :: "string \<Rightarrow> string \<Rightarrow> string \<Rightarrow> string \<Rightarrow> revision \<Rightarrow> portable_revision" where
  "project_draft mid parent action status v =
     \<lparr>pv_schema_version = [], pv_memory_id = mid, pv_revision_id = [], pv_parent = parent, pv_action = action,
      pv_status = status, pv_kind = rn_kind v, pv_scope_kind = sp_kind (rn_scope v),
      pv_scope_value = sp_value (rn_scope v), pv_basis = [], pv_text = [], pv_text_sha256 = [],
      pv_rule_change = rn_rule_change v, pv_authorization = [], pv_privacy = []\<rparr>"

definition project_revision ::
  "scan_engine \<Rightarrow> string \<Rightarrow> (string \<times> string) list \<Rightarrow> revision \<Rightarrow> project_error + portable_revision" where
  "project_revision en mid known v =
     bindR (project_parent known v) (\<lambda>parent.
     bindR (project_action v) (\<lambda>(action, status).
     bindR (project_content v (project_draft mid parent action status v)) (\<lambda>r.
       case finalizeRevision en r of
         Inl e \<Rightarrow> Inl (ProjectInvalid e)
       | Inr p \<Rightarrow> if pv_memory_id p \<noteq> rn_memory_id v then Inl MemoryChanged else Inr p)))"

fun project_from ::
  "scan_engine \<Rightarrow> string \<Rightarrow> (string \<times> string) list \<Rightarrow> revision list \<Rightarrow> project_error + portable_revision list" where
  "project_from en mid known [] = Inr []"
| "project_from en mid known (v # vs) =
     bindR (project_revision en mid known v) (\<lambda>p.
     bindR (project_from en mid ((rn_revision_id v, pv_revision_id p) # known) vs) (\<lambda>ps. Inr (p # ps)))"

definition projectHistory :: "scan_engine \<Rightarrow> string \<times> revision list \<Rightarrow> project_error + portable_revision list" where
  "projectHistory en h = project_from en (fst h) [] (snd h)"

datatype select_error = SelectInvalid string | SelectTwice string | SelectMissing "string list"

fun check_requested :: "string list \<Rightarrow> string list \<Rightarrow> select_error option" where
  "check_requested seen [] = None"
| "check_requested seen (m # ms) =
     (if \<not> validPrefixedHash m ''memory-'' then Some (SelectInvalid m)
      else if m \<in> set seen then Some (SelectTwice m)
      else check_requested (m # seen) ms)"

definition selectHistories ::
  "(string \<times> revision list) list \<Rightarrow> string list \<Rightarrow> select_error + (string \<times> revision list) list" where
  "selectHistories histories requested =
     (if requested = [] then Inr histories
      else case check_requested [] requested of
        Some e \<Rightarrow> Inl e
      | None \<Rightarrow>
          (let missing = filter (\<lambda>m. m \<notin> fst ` set histories) requested in
           if missing \<noteq> [] then Inl (SelectMissing (sort missing))
           else Inr (filter (\<lambda>h. fst h \<in> set requested) histories)))"

section \<open>Export\<close>

record export_result =
  xr_selected :: nat
  xr_projected :: nat
  xr_written :: nat
  xr_unchanged :: nat
  xr_files :: "string list list"

definition empty_export :: export_result where
  "empty_export = \<lparr>xr_selected = 0, xr_projected = 0, xr_written = 0, xr_unchanged = 0, xr_files = []\<rparr>"

datatype export_error =
    XRoots roots_error
  | XVerify portable_issue
  | XLock lock_error
  | XHistories memory_lookup_error
  | XSelect select_error
  | XEmpty string
  | XStatus memory_lookup_error
  | XNotEligible string
  | XProject project_error
  | XContent string
  | XConflict portable_issue
  | XRender portable_error
  | XWrite write_error
  | XFinal portable_issue
  | XRelease

record export_env =
  xe_load :: load_env
  xe_promotion :: promotion_env
  xe_resolve :: "string \<Rightarrow> resolved_path option"
  xe_evidence_root :: string

record export_faults =
  xf_lock :: "lock_fault option"
  xf_write :: "nat \<Rightarrow> write_fault option"
  xf_release_ok :: bool
  xf_release_again_ok :: bool

record repository =
  ry_root :: fs_root
  ry_locked :: bool

definition AcquireRepositoryLock :: "lock_fault option \<Rightarrow> repository \<Rightarrow> repository \<times> lock_error option" where
  "AcquireRepositoryLock fault r =
     (case acquire_lock fault (ry_locked r) of (held, e) \<Rightarrow> (r\<lparr>ry_locked := held\<rparr>, e))"

definition ReleaseRepositoryLock :: "bool \<Rightarrow> repository \<Rightarrow> repository" where
  "ReleaseRepositoryLock ok r = (if ok then r\<lparr>ry_locked := False\<rparr> else r)"

definition check_eligible ::
  "promotion_env \<Rightarrow> 'a promotion_store_scheme \<Rightarrow> string \<times> revision list \<Rightarrow> export_error option" where
  "check_eligible pv s h =
     (if snd h = [] then Some (XEmpty (fst h))
      else if rn_status (last (snd h)) = StatusActive then
        (case GetStatus_promotion pv s (fst h) of
           Inl e \<Rightarrow> Some (XStatus e)
         | Inr st \<Rightarrow> fail_if (ms_revision_id st \<noteq> rn_revision_id (last (snd h)) \<or> \<not> ms_export_eligible st) (XNotEligible (fst h)))
      else None)"

fun project_selected ::
  "promotion_env \<Rightarrow> 'a promotion_store_scheme \<Rightarrow> scan_engine \<Rightarrow> (string \<times> revision list) list
    \<Rightarrow> export_error + portable_revision list" where
  "project_selected pv s en [] = Inr []"
| "project_selected pv s en (h # hs) =
     (case check_eligible pv s h of
        Some e \<Rightarrow> Inl e
      | None \<Rightarrow>
          (case projectHistory en h of
             Inl e \<Rightarrow> Inl (XProject e)
           | Inr ps \<Rightarrow> bindR (project_selected pv s en hs) (\<lambda>qs. Inr (ps @ qs))))"

fun plan_revisions ::
  "(string \<times> portable_revision) list \<Rightarrow> portable_revision list
    \<Rightarrow> export_error + ((string \<times> portable_revision) list \<times> portable_revision list \<times> nat)" where
  "plan_revisions combined [] = Inr (combined, [], 0)"
| "plan_revisions combined (p # ps) =
     (case map_of combined (pv_revision_id p) of
        Some current \<Rightarrow>
          if current \<noteq> p then Inl (XContent (pv_revision_id p))
          else bindR (plan_revisions combined ps) (\<lambda>(c, planned, unchanged). Inr (c, planned, Suc unchanged))
      | None \<Rightarrow>
          bindR (plan_revisions (combined @ [(pv_revision_id p, p)]) ps) (\<lambda>(c, planned, unchanged).
            Inr (c, p # planned, unchanged)))"

fun write_planned ::
  "scan_engine \<Rightarrow> (nat \<Rightarrow> write_fault option) \<Rightarrow> nat \<Rightarrow> portable_revision list \<Rightarrow> fs_node \<times> export_result
    \<Rightarrow> (fs_node \<times> export_result) \<times> export_error option" where
  "write_planned en faults k [] s = (s, None)"
| "write_planned en faults k (p # ps) (t, result) =
     (case RenderRevision en p of
        Inl e \<Rightarrow> ((t, result), Some (XRender e))
      | Inr data \<Rightarrow>
          (case writeFileAtomic (faults k) (revisionRelativePath p) data t of
             (t', Some e) \<Rightarrow> ((t', result), Some (XWrite e))
           | (t', None) \<Rightarrow>
               write_planned en faults (Suc k) ps
                 (t', result\<lparr>xr_files := xr_files result @ [revisionRelativePath p],
                             xr_written := Suc (xr_written result)\<rparr>)))"

text \<open>The checks on the union of what the repository holds and what is about to be written.\<close>

definition combined_report :: "unicode \<Rightarrow> (string \<times> portable_revision) list \<Rightarrow> (string \<times> loadout) list \<Rightarrow> portable_report" where
  "combined_report u combined loadouts =
     finalizeReport (validateLoadoutState (validateRepositoryState u
       (empty_repository_report\<lparr>pt_revisions := int (length combined)\<rparr>,
        \<lparr>rs_revisions = combined, rs_heads = [], rs_loadouts = loadouts\<rparr>)))"

text \<open>What \<open>Export\<close> does while it holds the lock.\<close>

definition export_locked ::
  "export_env \<Rightarrow> 'a promotion_store_scheme \<Rightarrow> (nat \<Rightarrow> write_fault option) \<Rightarrow> string \<Rightarrow> string list \<Rightarrow> fs_root
    \<Rightarrow> fs_root \<times> export_result \<times> export_error option" where
  "export_locked xe s faults path requested dir =
     (let en = le_engine (xe_load xe);
          (report, existing) = loadRepository (xe_load xe) path dir in
      case pt_issues report of
        i # _ \<Rightarrow> (dir, empty_export, Some (XVerify i))
      | [] \<Rightarrow>
     (case ListHistories (xe_promotion xe) s of
        Inl e \<Rightarrow> (dir, empty_export, Some (XHistories e))
      | Inr histories \<Rightarrow>
     (case selectHistories histories requested of
        Inl e \<Rightarrow> (dir, empty_export, Some (XSelect e))
      | Inr selected \<Rightarrow>
     (let r1 = empty_export\<lparr>xr_selected := length selected\<rparr> in
      case project_selected (xe_promotion xe) s en selected of
        Inl e \<Rightarrow> (dir, r1, Some e)
      | Inr projected \<Rightarrow>
     (let r2 = r1\<lparr>xr_projected := length projected\<rparr> in
      case plan_revisions (rs_revisions existing) projected of
        Inl e \<Rightarrow> (dir, r2, Some e)
      | Inr (combined, planned, unchanged) \<Rightarrow>
     (let r3 = r2\<lparr>xr_unchanged := unchanged\<rparr> in
      case pt_issues (combined_report (le_unicode (xe_load xe)) combined (rs_loadouts existing)) of
        i # _ \<Rightarrow> (dir, r3, Some (XConflict i))
      | [] \<Rightarrow>
     (case root_tree dir of
        None \<Rightarrow> (dir, r3, None)
      | Some t \<Rightarrow>
          (case write_planned en faults 0 planned (t, r3) of
             ((t', r4), Some e) \<Rightarrow> (with_tree dir t', r4, Some e)
           | ((t', r4), None) \<Rightarrow>
               (let dir' = with_tree dir t' in
                case pt_issues (VerifyRepository (xe_load xe) path dir') of
                  i # _ \<Rightarrow> (dir', r4, Some (XFinal i))
                | [] \<Rightarrow> (dir', r4, None))))))))))"

definition Export ::
  "export_env \<Rightarrow> 'a promotion_store_scheme \<Rightarrow> export_faults \<Rightarrow> string \<Rightarrow> string list \<Rightarrow> repository
    \<Rightarrow> repository \<times> export_result \<times> export_error option" where
  "Export xe s faults path requested r =
     (case ensureSeparateRoots (xe_resolve xe) (xe_evidence_root xe) path of
        Some e \<Rightarrow> (r, empty_export, Some (XRoots e))
      | None \<Rightarrow>
     (case pt_issues (fst (loadRepository (xe_load xe) path (ry_root r))) of
        i # _ \<Rightarrow> (r, empty_export, Some (XVerify i))
      | [] \<Rightarrow>
     (case AcquireRepositoryLock (xf_lock faults) r of
        (r1, Some e) \<Rightarrow> (r1, empty_export, Some (XLock e))
      | (r1, None) \<Rightarrow>
     (case export_locked xe s (xf_write faults) path requested (ry_root r1) of
        (dir, result, Some e) \<Rightarrow>
          (ReleaseRepositoryLock (xf_release_ok faults) (r1\<lparr>ry_root := dir\<rparr>), result, Some e)
      | (dir, result, None) \<Rightarrow>
          (let r2 = ReleaseRepositoryLock (xf_release_ok faults) (r1\<lparr>ry_root := dir\<rparr>) in
           if xf_release_ok faults then (r2, result, None)
           else (ReleaseRepositoryLock (xf_release_again_ok faults) r2, result, Some XRelease))))))"

end
