(* ===== verification/Portable_Create.thy ===== *)
theory Portable_Create
  imports Portable_Export
begin

text \<open>
  Creating a loadout (\<open>CreateLoadout\<close> and \<open>buildLoadout\<close> of \<open>internal/portable/loadout.go\<close>) and the lookups
  that go from a portable revision back to the promotion ledger (\<open>ResolveLocalRevision\<close>,
  \<open>LoadLocalPopulation\<close> of \<open>export.go\<close>).
\<close>

record loadout_options =
  lc_name :: string
  lc_description :: string
  lc_agents :: "agent list"
  lc_scope :: review_scope
  lc_memory_ids :: "string list"
  lc_token_budget :: int
  lc_byte_budget :: int

text \<open>The exact current revisions of the memories asked for.\<close>

fun collect_memories ::
  "(string \<rightharpoonup> portable_revision) \<Rightarrow> string list \<Rightarrow> string list \<Rightarrow> loadout_error + loadout_memory list" where
  "collect_memories heads seen [] = Inr []"
| "collect_memories heads seen (m # ms) =
     (if m \<in> set seen then Inl (LoadoutMemoryTwice m)
      else case heads m of
        None \<Rightarrow> Inl (LoadoutNotActiveHead m)
      | Some r \<Rightarrow>
          if pv_status r \<noteq> StatusActive then Inl (LoadoutNotActiveHead m)
          else bindR (collect_memories heads (m # seen) ms) (\<lambda>refs.
                 Inr (\<lparr>lm_memory_id = pv_memory_id r, lm_revision_id = pv_revision_id r\<rparr> # refs)))"

definition buildLoadout ::
  "scan_engine \<Rightarrow> loadout_options \<Rightarrow> (string \<rightharpoonup> portable_revision) \<Rightarrow> loadout_error + loadout" where
  "buildLoadout en options heads =
     (let tokens = (if lc_token_budget options = 0 then DefaultLoadoutTokenBudget else lc_token_budget options);
          size = (if lc_byte_budget options = 0 then DefaultLoadoutByteBudget else lc_byte_budget options);
          agents = canonicalAgents (lc_agents options)
      in if length agents \<noteq> length (lc_agents options) then Inl LoadoutAgentsNotUnique
         else bindR (collect_memories heads [] (lc_memory_ids options)) (\<lambda>refs.
           let l = \<lparr>lo_schema_version = LoadoutSchemaVersion, lo_loadout_id = [], lo_name = trimSpace (lc_name options),
                    lo_description = trimSpace (lc_description options), lo_agents = agents,
                    lo_scope_kind = sp_kind (lc_scope options), lo_scope_value = sp_value (lc_scope options),
                    lo_memories = refs, lo_token_budget = tokens, lo_byte_budget = size, lo_privacy = PortablePrivacy\<rparr>
           in case deriveLoadoutID l of
                None \<Rightarrow> Inl LoadoutEncode
              | Some i \<Rightarrow>
                  (let l' = l\<lparr>lo_loadout_id := i\<rparr> in
                   case validateLoadoutEnvelope en l' of
                     Some e \<Rightarrow> Inl e
                   | None \<Rightarrow> (case validateLoadoutCurrent l' heads of Some e \<Rightarrow> Inl e | None \<Rightarrow> Inr l'))))"

datatype create_error =
    CreateRoot
  | CreateLock lock_error
  | CreateVerify portable_issue
  | CreateBuild loadout_error
  | CreateEncode
  | CreateDifferent
  | CreateRead
  | CreateWrite write_error
  | CreateFinal portable_issue
  | CreateRelease

record create_faults =
  cf_lock :: "lock_fault option"
  cf_write :: "write_fault option"
  cf_release_ok :: bool
  cf_release_again_ok :: bool

definition create_locked ::
  "load_env \<Rightarrow> write_fault option \<Rightarrow> string \<Rightarrow> loadout_options \<Rightarrow> fs_root
    \<Rightarrow> fs_root \<times> (create_error + (loadout \<times> bool))" where
  "create_locked env fault path options dir =
     (let (report, state) = loadRepository env path dir in
      case pt_issues report of
        i # _ \<Rightarrow> (dir, Inl (CreateVerify i))
      | [] \<Rightarrow>
     (case buildLoadout (le_engine env) options (map_of (rs_heads state)) of
        Inl e \<Rightarrow> (dir, Inl (CreateBuild e))
      | Inr l \<Rightarrow>
     (case renderLoadout l of
        None \<Rightarrow> (dir, Inl CreateEncode)
      | Some data \<Rightarrow>
     (case root_tree dir of
        None \<Rightarrow> (dir, Inl CreateRead)
      | Some t \<Rightarrow>
     (let relative = loadoutRelativePath (lo_loadout_id l) in
      case lookup_node relative t of
        Some (FsFile (Some existing)) \<Rightarrow>
          if existing \<noteq> data then (dir, Inl CreateDifferent) else (dir, Inr (l, False))
      | Some _ \<Rightarrow> (dir, Inl CreateRead)
      | None \<Rightarrow>
          (case writeFileAtomic fault relative data t of
             (t', Some e) \<Rightarrow> (with_tree dir t', Inl (CreateWrite e))
           | (t', None) \<Rightarrow>
               (case pt_issues (VerifyRepository env path (with_tree dir t')) of
                  i # _ \<Rightarrow> (with_tree dir t', Inl (CreateFinal i))
                | [] \<Rightarrow> (with_tree dir t', Inr (l, True)))))))))"

text \<open>The result says whether the loadout was written; the early return for one that exists leaves the release to the deferred call.\<close>

definition CreateLoadout ::
  "load_env \<Rightarrow> create_faults \<Rightarrow> string \<Rightarrow> loadout_options \<Rightarrow> repository
    \<Rightarrow> repository \<times> (create_error + (loadout \<times> bool))" where
  "CreateLoadout env faults path options r =
     (if blank path then (r, Inl CreateRoot)
      else case AcquireRepositoryLock (cf_lock faults) r of
        (r1, Some e) \<Rightarrow> (r1, Inl (CreateLock e))
      | (r1, None) \<Rightarrow>
          (case create_locked env (cf_write faults) path options (ry_root r1) of
             (dir, outcome) \<Rightarrow>
               (let r2 = ReleaseRepositoryLock (cf_release_ok faults) (r1\<lparr>ry_root := dir\<rparr>) in
                case outcome of
                  Inr (l, True) \<Rightarrow>
                    if cf_release_ok faults then (r2, outcome)
                    else (ReleaseRepositoryLock (cf_release_again_ok faults) r2, Inl CreateRelease)
                | _ \<Rightarrow> (r2, outcome))))"

section \<open>From a portable revision back to its source\<close>

datatype local_error =
    LocalHistories memory_lookup_error
  | LocalProject project_error
  | LocalNoSource
  | LocalAbsent
  | LocalUnknownMemory
  | LocalEmpty string
  | LocalDuplicate string
  | LocalStatus memory_lookup_error
  | LocalNotEligible string

fun find_projected :: "string \<Rightarrow> portable_revision list \<Rightarrow> revision list \<Rightarrow> local_error + (portable_revision \<times> string)" where
  "find_projected i [] vs = Inl LocalAbsent"
| "find_projected i (p # ps) vs =
     (if pv_revision_id p \<noteq> i then find_projected i ps (tl vs)
      else case vs of
        [] \<Rightarrow> Inl LocalNoSource
      | v # _ \<Rightarrow>
          (case rn_source v of
             None \<Rightarrow> Inl LocalNoSource
           | Some s \<Rightarrow> if so_semantic_key s = [] then Inl LocalNoSource else Inr (p, so_semantic_key s)))"

definition ResolveLocalRevision ::
  "export_env \<Rightarrow> 'a promotion_store_scheme \<Rightarrow> string \<Rightarrow> string \<Rightarrow> local_error + (portable_revision \<times> string)" where
  "ResolveLocalRevision xe s memory i =
     (case ListHistories (xe_promotion xe) s of
        Inl e \<Rightarrow> Inl (LocalHistories e)
      | Inr histories \<Rightarrow>
          (case List.find (\<lambda>h. fst h = memory) histories of
             None \<Rightarrow> Inl LocalUnknownMemory
           | Some h \<Rightarrow>
               (case projectHistory (le_engine (xe_load xe)) h of
                  Inl e \<Rightarrow> Inl (LocalProject e)
                | Inr ps \<Rightarrow> find_projected i ps (snd h))))"

definition ResolveSemanticKey :: "export_env \<Rightarrow> 'a promotion_store_scheme \<Rightarrow> string \<Rightarrow> string \<Rightarrow> local_error + string" where
  "ResolveSemanticKey xe s memory i = bindR (ResolveLocalRevision xe s memory i) (\<lambda>(p, key). Inr key)"

fun absorb_projected ::
  "(string \<times> portable_revision) list \<Rightarrow> portable_revision list \<Rightarrow> local_error + (string \<times> portable_revision) list" where
  "absorb_projected known [] = Inr known"
| "absorb_projected known (p # ps) =
     (if map_of known (pv_revision_id p) \<noteq> None then Inl (LocalDuplicate (pv_revision_id p))
      else absorb_projected (known @ [(pv_revision_id p, p)]) ps)"

definition current_if_active ::
  "promotion_env \<Rightarrow> 'a promotion_store_scheme \<Rightarrow> string \<times> revision list \<Rightarrow> portable_revision list
    \<Rightarrow> local_error + portable_revision list" where
  "current_if_active pv s h ps =
     (let v = last (snd h) in
      if rn_status v \<noteq> StatusActive then Inr []
      else case GetStatus_promotion pv s (fst h) of
        Inl e \<Rightarrow> Inl (LocalStatus e)
      | Inr st \<Rightarrow>
          if ms_revision_id st \<noteq> rn_revision_id v \<or> \<not> ms_export_eligible st then Inl (LocalNotEligible (fst h))
          else Inr [last ps])"

fun local_population ::
  "export_env \<Rightarrow> 'a promotion_store_scheme \<Rightarrow> (string \<times> revision list) list
    \<Rightarrow> (string \<times> portable_revision) list \<times> portable_revision list
    \<Rightarrow> local_error + ((string \<times> portable_revision) list \<times> portable_revision list)" where
  "local_population xe s [] (known, active) = Inr (known, active)"
| "local_population xe s (h # hs) (known, active) =
     (if snd h = [] then Inl (LocalEmpty (fst h))
      else case projectHistory (le_engine (xe_load xe)) h of
        Inl e \<Rightarrow> Inl (LocalProject e)
      | Inr ps \<Rightarrow>
          bindR (absorb_projected known ps) (\<lambda>known'.
          bindR (current_if_active (xe_promotion xe) s h ps) (\<lambda>cs.
            local_population xe s hs (known', active @ cs))))"

definition LoadLocalPopulation ::
  "export_env \<Rightarrow> 'a promotion_store_scheme \<Rightarrow> local_error + ((string \<times> portable_revision) list \<times> portable_revision list)" where
  "LoadLocalPopulation xe s =
     (case ListHistories (xe_promotion xe) s of
        Inl e \<Rightarrow> Inl (LocalHistories e)
      | Inr histories \<Rightarrow>
          bindR (local_population xe s histories ([], [])) (\<lambda>(known, active).
            Inr (known, sort_key pv_revision_id active)))"

end
