(* ===== verification/Portable_Write.thy ===== *)
theory Portable_Write
  imports Portable_Export
begin

text \<open>
  What writing files does to what the walk finds: a directory tree with its names in order, the file of a
  path, and the revisions that a walk without issues has read.
\<close>

section \<open>Trees\<close>

fun tree_ok :: "fs_node \<Rightarrow> bool" where
  "tree_ok (FsDir f es) \<longleftrightarrow> strictly_sorted (map fst es) \<and> list_all (\<lambda>e. tree_ok (snd e)) es"
| "tree_ok _ \<longleftrightarrow> True"

lemma strictly_sorted_Cons [simp]: "strictly_sorted (x # xs) \<longleftrightarrow> (\<forall>y \<in> set xs. x < y) \<and> strictly_sorted xs"
  by (simp add: strictly_sorted_def)

lemma strictly_sorted_Nil [simp]: "strictly_sorted []"
  by (simp add: strictly_sorted_def)

lemma strictly_sorted_distinct: "strictly_sorted xs \<Longrightarrow> distinct xs"
  by (induction xs) auto

lemma insert_entry_keys: "k \<in> fst ` set (insert_entry n t es) \<Longrightarrow> k = n \<or> k \<in> fst ` set es"
  by (induction n t es rule: insert_entry.induct) (auto split: if_splits)

lemma insert_entry_mem: "e \<in> set (insert_entry n t es) \<Longrightarrow> e = (n, t) \<or> e \<in> set es"
  by (induction n t es rule: insert_entry.induct) (auto split: if_splits)

lemma insert_entry_sorted: "strictly_sorted (map fst es) \<Longrightarrow> strictly_sorted (map fst (insert_entry n t es))"
proof (induction n t es rule: insert_entry.induct)
  case (2 n t m u es)
  consider "n = m" | "n < m" | "m < n" by (metis linorder_neqE)
  then show ?case
  proof cases
    case 2
    then show ?thesis using "2.prems" by (auto dest: less_trans)
  next
    case 3
    then have n: "\<not> n < m" "n \<noteq> m" by auto
    have s: "strictly_sorted (map fst (insert_entry n t es))" using "2.IH" [OF n(2,1)] "2.prems" by simp
    have "m < k" if "k \<in> fst ` set (insert_entry n t es)" for k
      using insert_entry_keys [OF that] "2.prems" 3 by auto
    with s n show ?thesis by simp
  qed (use 2 in simp)
qed simp

lemma map_of_insert_entry:
  "strictly_sorted (map fst es) \<Longrightarrow> map_of (insert_entry n t es) k = (if k = n then Some t else map_of es k)"
proof (induction n t es rule: insert_entry.induct)
  case (2 n t m u es)
  then show ?case by (cases "n = m"; cases "n < m") auto
qed simp

lemma tree_ok_entry: "tree_ok (FsDir f es) \<Longrightarrow> map_of es n = Some u \<Longrightarrow> tree_ok u"
  by (auto dest!: map_of_SomeD simp: list_all_iff)

lemma tree_ok_insert: "tree_ok (FsDir f es) \<Longrightarrow> tree_ok u \<Longrightarrow> tree_ok (FsDir f (insert_entry n u es))"
  using insert_entry_mem by (fastforce simp: insert_entry_sorted list_all_iff)

lemma put_file_ok: "put_file path d t = Some t' \<Longrightarrow> tree_ok t \<Longrightarrow> tree_ok t'"
proof (induction path d t arbitrary: t' rule: put_file.induct)
  case (2 n d f es)
  then show ?case using tree_ok_insert [of f es "FsFile (Some d)" n] by auto
next
  case (3 n m ns d f es)
  show ?case
  proof (cases "map_of es n")
    case None
    then obtain u where "put_file (m # ns) d (FsDir False []) = Some u" "t' = FsDir f (insert_entry n u es)"
      using 3(3) by auto
    then show ?thesis using 3(1) [OF None] 3(4) tree_ok_insert [of f es u n] by simp
  next
    case (Some v)
    then obtain u where "put_file (m # ns) d v = Some u" "t' = FsDir f (insert_entry n u es)"
      using 3(3) by auto
    then show ?thesis using 3(2) [OF Some] 3(4) Some tree_ok_entry tree_ok_insert [of f es u n] by blast
  qed
qed auto

lemma make_dirs_ok: "make_dirs path t = Some t' \<Longrightarrow> tree_ok t \<Longrightarrow> tree_ok t'"
proof (induction path t arbitrary: t' rule: make_dirs.induct)
  case (2 n ns f es)
  let ?v = "case map_of es n of None \<Rightarrow> FsDir False [] | Some u \<Rightarrow> u"
  have "tree_ok ?v" using 2(3) tree_ok_entry by (auto split: option.splits)
  moreover obtain u where "make_dirs ns ?v = Some u" "t' = FsDir f (insert_entry n u es)" using 2(2) by auto
  ultimately show ?case using 2(1,3) tree_ok_insert [of f es u n] by blast
qed auto

section \<open>Looking up what was written\<close>

lemma put_file_lookup: "put_file path d t = Some t' \<Longrightarrow> tree_ok t \<Longrightarrow> lookup_node path t' = Some (FsFile (Some d))"
proof (induction path d t arbitrary: t' rule: put_file.induct)
  case (3 n m ns d f es)
  show ?case
  proof (cases "map_of es n")
    case None
    then show ?thesis using 3 by (auto simp: map_of_insert_entry)
  next
    case (Some v)
    then obtain u where u: "put_file (m # ns) d v = Some u" "t' = FsDir f (insert_entry n u es)"
      using 3(3) by auto
    then show ?thesis using 3(2) [OF Some u(1)] tree_ok_entry [OF 3(4) Some] 3(4) by (auto simp: map_of_insert_entry)
  qed
qed (auto simp: map_of_insert_entry)

text \<open>Files elsewhere stay as they are.\<close>

lemma put_file_other:
  assumes "put_file path d t = Some t'" and "tree_ok t" and "lookup_node path t = None"
    and "lookup_node q t = Some (FsFile x)"
  shows "lookup_node q t' = Some (FsFile x)"
  using assms
proof (induction path d t arbitrary: t' q rule: put_file.induct)
  case (2 n d f es)
  then obtain k ks where q: "q = k # ks" by (cases q) auto
  have "map_of es n = None" using 2(3) by (auto split: option.splits)
  then have "k \<noteq> n" using 2(4) q by auto
  then show ?case using 2 q by (auto simp: map_of_insert_entry split: option.splits)
next
  case (3 n m ns d f es)
  then obtain k ks where q: "q = k # ks" by (cases q) auto
  show ?case
  proof (cases "k = n")
    case False
    then show ?thesis using 3 q by (auto simp: map_of_insert_entry split: option.splits)
  next
    case True
    then obtain v where v: "map_of es n = Some v" "lookup_node ks v = Some (FsFile x)"
      using 3(6) q by (auto split: option.splits)
    obtain u where u: "put_file (m # ns) d v = Some u" "t' = FsDir f (insert_entry n u es)"
      using 3(3) v(1) by auto
    have "lookup_node (m # ns) v = None" using 3(5) v(1) by simp
    then have "lookup_node ks u = Some (FsFile x)"
      using 3(2) [OF v(1) u(1) tree_ok_entry [OF 3(4) v(1)] _ v(2)] by simp
    then show ?thesis using 3(4) q True u(2) by (simp add: map_of_insert_entry)
  qed
qed auto

lemma make_dirs_other:
  assumes "make_dirs path t = Some t'" and "tree_ok t" and "lookup_node q t = Some (FsFile x)"
  shows "lookup_node q t' = Some (FsFile x)"
  using assms
proof (induction path t arbitrary: t' q rule: make_dirs.induct)
  case (2 n ns f es)
  then obtain k ks where q: "q = k # ks" by (cases q) auto
  show ?case
  proof (cases "k = n")
    case False
    then show ?thesis using 2 q by (auto simp: map_of_insert_entry split: option.splits)
  next
    case True
    then obtain v where v: "map_of es n = Some v" "lookup_node ks v = Some (FsFile x)"
      using 2(4) q by (auto split: option.splits)
    obtain u where u: "make_dirs ns v = Some u" "t' = FsDir f (insert_entry n u es)"
      using 2(2) v(1) by auto
    then have "lookup_node ks u = Some (FsFile x)"
      using 2(1) [of u ks] tree_ok_entry [OF 2(3) v(1)] v by simp
    then show ?thesis using 2(3) q True u(2) by (simp add: map_of_insert_entry)
  qed
qed auto

lemma writeFileAtomic_ok:
  assumes "writeFileAtomic fault path d t = (t', None)" and "tree_ok t"
  shows "tree_ok t' \<and> lookup_node path t' = Some (FsFile (Some d)) \<and>
    (\<forall>q x. lookup_node q t = Some (FsFile x) \<longrightarrow> lookup_node q t' = Some (FsFile x))"
proof -
  obtain u where u: "make_dirs (butlast path) t = Some u" "lookup_node path u = None" "put_file path d u = Some t'"
    using assms(1) by (auto simp: writeFileAtomic_def split: if_splits option.splits)
  note ok = make_dirs_ok [OF u(1) assms(2)]
  have "lookup_node q t' = Some (FsFile x)" if q: "lookup_node q t = Some (FsFile x)" for q x
  proof -
    have q': "lookup_node q u = Some (FsFile x)" by (rule make_dirs_other [OF u(1) assms(2) q])
    show ?thesis by (rule put_file_other [OF u(3) ok u(2) q'])
  qed
  then show ?thesis using put_file_ok [OF u(3) ok] put_file_lookup [OF u(3) ok] by blast
qed

section \<open>What the walk visits\<close>

lemma visits_lookup:
  assumes "lookup_node q t = Some (FsFile x)" and "\<forall>i < length q. \<not> skips_dir (p @ take i q)"
  shows "(p @ q, VFile x) \<in> set (visits p t)"
  using assms
proof (induction q arbitrary: p t)
  case (Cons n q)
  then obtain f es u where t: "t = FsDir f es" "map_of es n = Some u" "lookup_node q u = Some (FsFile x)"
    by (cases t) (auto split: option.splits)
  have "\<not> skips_dir p" using Cons.prems(2) by (metis append_Nil2 length_greater_0_conv list.discI take0)
  moreover have "((p @ [n]) @ q, VFile x) \<in> set (visits (p @ [n]) u)"
  proof (rule Cons.IH [OF t(3)])
    show "\<forall>i < length q. \<not> skips_dir ((p @ [n]) @ take i q)" using Cons.prems(2) by fastforce
  qed
  ultimately show ?case using map_of_SomeD [OF t(2)] by (force simp: t(1))
qed simp

lemma lookup_visits:
  assumes "(r, VFile x) \<in> set (visits p t)" and "tree_ok t"
  shows "\<exists>q. r = p @ q \<and> lookup_node q t = Some (FsFile x)"
  using assms
proof (induction p t rule: visits.induct)
  case (3 p f es)
  then obtain e where e: "e \<in> set es" "(r, VFile x) \<in> set (visits (p @ [fst e]) (snd e))" and sk: "\<not> skips_dir p"
    by (auto split: if_splits)
  have "tree_ok (snd e)" using 3(3) e(1) by (auto simp: list_all_iff)
  then obtain q where q: "r = (p @ [fst e]) @ q" "lookup_node q (snd e) = Some (FsFile x)"
    using 3(1) [OF sk e(1) e(2)] by auto
  have "map_of es (fst e) = Some (snd e)"
    using e(1) 3(3) strictly_sorted_distinct by (simp add: map_of_eq_Some_iff)
  then show ?case using q by (intro exI [of _ "fst e # q"]) simp
qed auto

section \<open>The revisions of a walk without issues\<close>

text \<open>Every revision that is read comes from a file with its rendering at the path of its identity.\<close>

definition revision_file :: "load_env \<Rightarrow> (string list \<times> visit) list \<Rightarrow> portable_revision \<Rightarrow> bool" where
  "revision_file env vs r \<longleftrightarrow>
     (\<exists>parts data. (parts, VFile (Some data)) \<in> set vs \<and>
        identityFromRevisionPath parts = Some (pv_memory_id r, pv_revision_id r) \<and> length parts \<noteq> 1 \<and> \<not> validLoadoutPath parts \<and>
        ParseRevision (le_engine env) (le_string env) (le_strings env) data = Inr r)"

lemma identity_shape: "identityFromRevisionPath parts = Some x \<Longrightarrow> length parts = 4 \<and> \<not> validLoadoutPath parts"
  by (auto simp: identityFromRevisionPath_def validLoadoutPath_def split: list.splits)

lemma visit_revision_adds:
  "rs_revisions (snd (visit_revision env parts content s)) = rs_revisions (snd s) \<or>
   (\<exists>data r. content = Some data \<and> identityFromRevisionPath parts = Some (pv_memory_id r, pv_revision_id r) \<and>
      ParseRevision (le_engine env) (le_string env) (le_strings env) data = Inr r \<and>
      rs_revisions (snd (visit_revision env parts content s)) = rs_revisions (snd s) @ [(pv_revision_id r, r)])"
  by (auto simp: visit_revision_def Let_def split: prod.splits option.splits sum.splits)

lemma visit_path_adds:
  "rs_revisions (snd (visit_path env (parts, x) s)) = rs_revisions (snd s) \<or>
   (\<exists>content. x = VFile content \<and> visit_path env (parts, x) s = visit_revision env parts content s)"
proof (cases x)
  case (VFile content)
  then show ?thesis by (cases s) (simp add: visit_path_def)
qed (cases s, simp add: visit_path_def)+

lemma visit_adds:
  assumes "(i, r) \<in> set (rs_revisions (snd (visit_path env (parts, x) s)))" and "(i, r) \<notin> set (rs_revisions (snd s))"
  shows "i = pv_revision_id r \<and> (\<exists>data. x = VFile (Some data) \<and>
    identityFromRevisionPath parts = Some (pv_memory_id r, pv_revision_id r) \<and>
    ParseRevision (le_engine env) (le_string env) (le_strings env) data = Inr r)"
proof -
  obtain content where x: "x = VFile content" and v: "visit_path env (parts, x) s = visit_revision env parts content s"
    using visit_path_adds [of env parts x s] assms by auto
  have "(i, r) \<in> set (rs_revisions (snd (visit_revision env parts content s)))" using assms(1) v by simp
  then show ?thesis using visit_revision_adds [of env parts content s] assms(2) x by auto
qed

lemma walk_revision_files:
  "(i, r) \<in> set (rs_revisions (snd (fold (visit_path env) vs s))) \<Longrightarrow>
   (i, r) \<in> set (rs_revisions (snd s)) \<or> i = pv_revision_id r \<and> revision_file env vs r"
proof (induction vs arbitrary: s)
  case (Cons v vs)
  obtain parts x where v: "v = (parts, x)" by force
  from Cons.IH [of "visit_path env v s"] Cons.prems
  consider "(i, r) \<in> set (rs_revisions (snd (visit_path env v s)))" "(i, r) \<notin> set (rs_revisions (snd s))"
    | "(i, r) \<in> set (rs_revisions (snd s))" | "i = pv_revision_id r" "revision_file env vs r" by auto
  then show ?case
  proof cases
    case 1
    from visit_adds [OF 1 [unfolded v]] show ?thesis
      using identity_shape [of parts] unfolding revision_file_def v by fastforce
  next
    case 3
    then show ?thesis by (auto simp: revision_file_def)
  qed simp
qed simp

text \<open>Issues stay, so a walk without issues had none at any step.\<close>

lemma visit_revision_issues:
  "pt_issues (fst (visit_revision env parts content s)) = [] \<Longrightarrow>
   pt_issues (fst s) = [] \<and> (\<exists>data r. content = Some data \<and>
     identityFromRevisionPath parts = Some (pv_memory_id r, pv_revision_id r) \<and>
     ParseRevision (le_engine env) (le_string env) (le_strings env) data = Inr r \<and>
     rs_revisions (snd (visit_revision env parts content s)) = rs_revisions (snd s) @ [(pv_revision_id r, r)])"
  by (auto simp: visit_revision_def plain_issue_def revision_issue_def count_file_def Let_def
      split: prod.splits option.splits sum.splits if_splits)

lemma visit_loadout_issues: "pt_issues (fst (visit_loadout env parts content s)) = [] \<Longrightarrow> pt_issues (fst s) = []"
  by (auto simp: visit_loadout_def plain_issue_def loadout_issue_def count_file_def Let_def
      split: prod.splits option.splits sum.splits if_splits)

lemma visit_file_issues:
  assumes "pt_issues (fst (visit_path env (parts, VFile content) s)) = []"
  shows "pt_issues (fst s) = []"
proof -
  obtain report state where s: "s = (report, state)" by force
  show ?thesis
    using assms visit_revision_issues [of env parts content s] visit_loadout_issues [of env parts content s]
    by (cases "parts = []"; cases "length parts = 1"; cases "validLoadoutPath parts")
      (auto simp: visit_path_def s plain_issue_def split: if_splits)
qed

lemma visit_path_issues: "pt_issues (fst (visit_path env v s)) = [] \<Longrightarrow> pt_issues (fst s) = []"
proof -
  assume a: "pt_issues (fst (visit_path env v s)) = []"
  obtain parts x where v: "v = (parts, x)" by force
  show "pt_issues (fst s) = []"
  proof (cases x)
    case (VFile content)
    then show ?thesis using a visit_file_issues by (simp add: v)
  qed (use a in \<open>cases s; auto simp: v visit_path_def plain_issue_def split: if_splits\<close>)+
qed

lemma walk_issues: "pt_issues (fst (fold (visit_path env) vs s)) = [] \<Longrightarrow> pt_issues (fst s) = []"
proof (induction vs arbitrary: s)
  case (Cons v vs)
  then have "pt_issues (fst (visit_path env v s)) = []" by simp
  then show ?case by (rule visit_path_issues)
qed simp

lemma visit_path_keeps:
  assumes "x \<in> set (rs_revisions (snd s))"
  shows "x \<in> set (rs_revisions (snd (visit_path env v s)))"
proof -
  obtain parts y where v: "v = (parts, y)" by force
  from visit_path_adds [of env parts y s] show ?thesis
  proof
    assume "\<exists>content. y = VFile content \<and> visit_path env (parts, y) s = visit_revision env parts content s"
    then obtain content where "visit_path env (parts, y) s = visit_revision env parts content s" by blast
    then show ?thesis using visit_revision_adds [of env parts content s] assms unfolding v by auto
  qed (use assms v in simp)
qed

lemma walk_keeps:
  assumes "x \<in> set (rs_revisions (snd s))"
  shows "x \<in> set (rs_revisions (snd (fold (visit_path env) vs s)))"
  using assms
proof (induction vs arbitrary: s)
  case (Cons v vs)
  from Cons.IH [OF visit_path_keeps [OF Cons.prems]] show ?case by simp
qed simp

text \<open>The revision of every visited file at the path of an identity has been read.\<close>

lemma walk_reads:
  assumes "pt_issues (fst (fold (visit_path env) vs s)) = []" and "(parts, VFile (Some data)) \<in> set vs"
    and "identityFromRevisionPath parts = Some i"
  shows "\<exists>r. ParseRevision (le_engine env) (le_string env) (le_strings env) data = Inr r \<and>
    (pv_revision_id r, r) \<in> set (rs_revisions (snd (fold (visit_path env) vs s)))"
  using assms(1,2)
proof (induction vs arbitrary: s)
  case (Cons v vs)
  show ?case
  proof (cases "v = (parts, VFile (Some data))")
    case True
    have "pt_issues (fst (visit_path env v s)) = []" using Cons.prems(1) walk_issues by simp
    moreover have "visit_path env v s = visit_revision env parts (Some data) s"
      using identity_shape [OF assms(3)] by (cases s) (auto simp: True visit_path_def)
    ultimately obtain r where "ParseRevision (le_engine env) (le_string env) (le_strings env) data = Inr r"
      "(pv_revision_id r, r) \<in> set (rs_revisions (snd (visit_path env v s)))"
      using visit_revision_issues [of env parts "Some data" s] by fastforce
    then show ?thesis using walk_keeps by fastforce
  next
    case False
    then show ?thesis using Cons by auto
  qed
qed simp

lemma md_suffix: "pathExt (h @ ''.md'') = ''.md''" "trimSuffix (h @ ''.md'') ''.md'' = h"
  by (simp_all add: pathExt_def trimSuffix_def)

lemma identity_of_path:
  assumes "validateRevision en p = None"
  shows "identityFromRevisionPath (revisionRelativePath p) = Some (pv_memory_id p, pv_revision_id p)"
proof -
  have "validPrefixedHash (pv_memory_id p) ''memory-''" "validPrefixedHash (pv_revision_id p) ''portable-revision-''"
    using assms by (auto simp: validateRevision_def)
  then obtain m h where m: "pv_memory_id p = ''memory-'' @ m" "validSHA256 m"
    and h: "pv_revision_id p = ''portable-revision-'' @ h" "validSHA256 h"
    unfolding validPrefixedHash_def by (metis hasPrefixE trimPrefix_append)
  have "length (take 2 m) = 2" using m(2) by (simp add: validSHA256_iff)
  then show ?thesis
    using m h by (simp add: identityFromRevisionPath_def revisionRelativePath_def Let_def md_suffix trimPrefix_append [of "''memory-''", simplified]
        trimPrefix_append [of "''portable-revision-''", simplified])
qed

end
