(* ===== verification/Portable_Projection.thy ===== *)
theory Portable_Projection
  imports Portable_Write Promotion_Props
begin

text \<open>
  The projection of a promotion history: the portable revisions are linked as the local ones are, and carry
  the same content.
\<close>

lemma bindR_Inr_iff [simp]: "bindR m f = Inr y \<longleftrightarrow> (\<exists>x. m = Inr x \<and> f x = Inr y)"
  by (cases m) auto

text \<open>What a portable revision keeps of the local one.\<close>

definition projects :: "string \<Rightarrow> revision \<Rightarrow> portable_revision \<Rightarrow> bool" where
  "projects mid v p \<longleftrightarrow>
     pv_memory_id p = mid \<and> rn_memory_id v = mid \<and> pv_action p = rn_action v \<and> pv_kind p = rn_kind v \<and>
     pv_scope_kind p = sp_kind (rn_scope v) \<and> pv_scope_value p = sp_value (rn_scope v) \<and>
     pv_rule_change p = rn_rule_change v \<and>
     (if rn_action v = ActionRevoke then pv_status p = StatusRevoked \<and> pv_text p = []
      else pv_status p = StatusActive \<and> pv_text p = rn_text v \<and>
        (\<exists>s. rn_source v = Some s \<and> pv_basis p = so_review_basis s))"

lemma finalizeRevision_Inr:
  assumes "finalizeRevision en r = Inr p"
  shows "validateRevision en p = None \<and> pv_memory_id p = pv_memory_id r \<and> pv_parent p = pv_parent r \<and>
    pv_action p = pv_action r \<and> pv_status p = pv_status r \<and> pv_kind p = pv_kind r \<and>
    pv_scope_kind p = pv_scope_kind r \<and> pv_scope_value p = pv_scope_value r \<and> pv_basis p = pv_basis r \<and>
    pv_text p = pv_text r \<and> pv_rule_change p = pv_rule_change r"
  using assms by (auto simp: finalizeRevision_def Let_def split: option.splits if_splits)

lemma project_action_Inr:
  "project_action v = Inr (action, status) \<Longrightarrow>
   action = rn_action v \<and> status = (if rn_action v = ActionRevoke then StatusRevoked else StatusActive)"
  by (auto simp: project_action_def split: if_splits)

lemma project_content_Inr:
  assumes "project_content v (project_draft mid parent action status v) = Inr r"
  shows "pv_memory_id r = mid \<and> pv_parent r = parent \<and> pv_action r = action \<and> pv_status r = status \<and>
    pv_kind r = rn_kind v \<and> pv_scope_kind r = sp_kind (rn_scope v) \<and> pv_scope_value r = sp_value (rn_scope v) \<and>
    pv_rule_change r = rn_rule_change v \<and>
    (if status = StatusActive then pv_text r = rn_text v \<and> (\<exists>s. rn_source v = Some s \<and> pv_basis r = so_review_basis s)
     else pv_text r = [])"
  using assms by (auto simp: project_content_def project_draft_def split: if_splits option.splits)

lemma project_revision_Inr:
  assumes "project_revision en mid known v = Inr p"
  shows "validateRevision en p = None \<and> projects mid v p \<and>
    (if rn_parent v = [] then pv_parent p = [] else map_of known (rn_parent v) = Some (pv_parent p))"
proof -
  obtain parent action status r where
    parent: "project_parent known v = Inr parent" and act: "project_action v = Inr (action, status)" and
    content: "project_content v (project_draft mid parent action status v) = Inr r" and
    last: "(case finalizeRevision en r of Inl e \<Rightarrow> Inl (ProjectInvalid e)
       | Inr p \<Rightarrow> if pv_memory_id p \<noteq> rn_memory_id v then Inl MemoryChanged else Inr p) = Inr p"
    using assms unfolding project_revision_def bindR_Inr_iff by (auto simp del: sum.case_eq_if)
  have fin: "finalizeRevision en r = Inr p" and mid: "pv_memory_id p = rn_memory_id v"
    using last by (auto split: sum.splits if_splits)
  note f = finalizeRevision_Inr [OF fin] and c = project_content_Inr [OF content] and a = project_action_Inr [OF act]
  have "if rn_parent v = [] then pv_parent p = [] else map_of known (rn_parent v) = Some (pv_parent p)"
    using parent f c by (auto simp: project_parent_def split: if_splits option.splits)
  moreover have "projects mid v p"
    using f c a mid by (cases "rn_action v = ActionRevoke") (simp_all add: projects_def)
  ultimately show ?thesis using f by blast
qed

text \<open>The local revisions are linked, the first one to \<open>u\<close>.\<close>

fun follows :: "revision \<Rightarrow> revision list \<Rightarrow> bool" where
  "follows u [] \<longleftrightarrow> True"
| "follows u (v # vs) \<longleftrightarrow> rn_parent v = rn_revision_id u \<and> rn_action v \<noteq> ActionPromote \<and> follows v vs"

lemma follows_snoc: "follows u (vs @ [v]) \<longleftrightarrow>
    follows u vs \<and> rn_parent v = rn_revision_id (last (u # vs)) \<and> rn_action v \<noteq> ActionPromote"
  by (induction u vs rule: follows.induct) auto

lemma lifecycle_follows: "lifecycle (u # vs) \<Longrightarrow> rn_action u = ActionPromote \<and> rn_parent u = [] \<and> follows u vs"
proof (induction vs rule: rev_induct)
  case (snoc v vs)
  from snoc.prems have l: "lifecycle (u # vs)" "rn_parent v = rn_revision_id (last (u # vs))"
    "rn_action v = ActionSupersede \<or> rn_action v = ActionRevoke"
    using lifecycle_snoc [of "u # vs" v] by auto
  show ?case using snoc.IH [OF l(1)] l(2,3) by (auto simp: follows_snoc)
qed simp

lemma valid_parent: "validateRevision en p = None \<Longrightarrow> pv_action p \<noteq> ActionPromote \<Longrightarrow> pv_parent p \<noteq> []"
  by (auto simp: validateRevision_def check_portable_action_def split: if_splits)

lemma project_from_linked:
  assumes "project_from en mid ((rn_revision_id u, pv_revision_id q) # known) vs = Inr ps" and "follows u vs"
  shows "parent_linked (q # ps) \<and> list_all2 (projects mid) vs ps \<and> list_all (\<lambda>p. validateRevision en p = None) ps"
  using assms
proof (induction vs arbitrary: u q known ps)
  case (Cons v vs)
  obtain p qs where p: "project_revision en mid ((rn_revision_id u, pv_revision_id q) # known) v = Inr p"
    and qs: "project_from en mid ((rn_revision_id v, pv_revision_id p) # (rn_revision_id u, pv_revision_id q) # known) vs = Inr qs"
    and ps: "ps = p # qs"
    using Cons.prems(1) by auto
  note f = project_revision_Inr [OF p]
  have "pv_parent p \<noteq> []"
    using valid_parent [of en p] f Cons.prems(2) by (auto simp: projects_def)
  then have "pv_parent p = pv_revision_id q" using f Cons.prems(2) by (auto split: if_splits)
  then show ?case using Cons.IH [OF qs] Cons.prems(2) f ps by simp
qed simp

lemma projectHistory_linked:
  assumes "projectHistory en (mid, vs) = Inr ps" and "lifecycle vs" and "vs \<noteq> []"
  shows "ps \<noteq> [] \<and> parent_linked ps \<and> pv_parent (hd ps) = [] \<and> list_all2 (projects mid) vs ps \<and>
    list_all (\<lambda>p. validateRevision en p = None) ps"
proof -
  obtain u us where vs: "vs = u # us" using assms(3) by (cases vs) auto
  note l = lifecycle_follows [OF assms(2) [unfolded vs]]
  obtain p qs where p: "project_revision en mid [] u = Inr p" and qs: "project_from en mid [(rn_revision_id u, pv_revision_id p)] us = Inr qs"
    and ps: "ps = p # qs"
    using assms(1) by (auto simp: projectHistory_def vs)
  show ?thesis
    using project_revision_Inr [OF p] project_from_linked [OF qs] l ps by (simp add: vs)
qed

text \<open>Every portable revision of the history is a member of its memory.\<close>

lemma projects_memory: "list_all2 (projects mid) vs ps \<Longrightarrow> p \<in> set ps \<Longrightarrow> pv_memory_id p = mid"
  by (induction rule: list_all2_induct) (auto simp: projects_def)

section \<open>Planning and writing\<close>

lemma plan_revisions_Inr:
  assumes "plan_revisions combined ps = Inr (c, planned, n)" and "p \<in> set ps"
  shows "(pv_revision_id p, p) \<in> set combined \<or> p \<in> set planned"
  using assms
proof (induction ps arbitrary: combined c planned n)
  case (Cons q ps)
  show ?case
  proof (cases "map_of combined (pv_revision_id q)")
    case None
    then obtain planned' where r: "plan_revisions (combined @ [(pv_revision_id q, q)]) ps = Inr (c, planned', n)" "planned = q # planned'"
      using Cons.prems(1) by (auto split: prod.splits)
    show ?thesis using Cons.IH [OF r(1)] r(2) Cons.prems(2) by auto
  next
    case (Some current)
    then have c: "current = q" "map_of combined (pv_revision_id q) = Some q" using Cons.prems(1) by (auto split: if_splits)
    then obtain n' where r: "plan_revisions combined ps = Inr (c, planned, n')"
      using Cons.prems(1) by (auto split: prod.splits)
    show ?thesis using Cons.IH [OF r] Cons.prems(2) map_of_SomeD [OF c(2)] by auto
  qed
qed simp

lemma project_selected_Inr:
  assumes "project_selected pv s en hs = Inr projected" and "h \<in> set hs"
  shows "check_eligible pv s h = None \<and> (\<exists>ps. projectHistory en h = Inr ps \<and> set ps \<subseteq> set projected)"
  using assms
proof (induction hs arbitrary: projected)
  case (Cons g hs)
  then obtain ps qs where "check_eligible pv s g = None" "projectHistory en g = Inr ps"
    "project_selected pv s en hs = Inr qs" "projected = ps @ qs"
    by (auto split: option.splits sum.splits)
  then show ?case using Cons.IH [of qs] Cons.prems(2) by (cases "h = g") auto
qed simp

lemma write_planned_ok:
  assumes "write_planned en faults k ps (t, result) = ((t', result'), None)" and "tree_ok t"
  shows "tree_ok t' \<and> (\<forall>q x. lookup_node q t = Some (FsFile x) \<longrightarrow> lookup_node q t' = Some (FsFile x)) \<and>
    (\<forall>p \<in> set ps. \<exists>data. RenderRevision en p = Inr data \<and> lookup_node (revisionRelativePath p) t' = Some (FsFile (Some data))) \<and>
    xr_files result' = xr_files result @ map revisionRelativePath ps"
  using assms
proof (induction ps arbitrary: k t result)
  case (Cons p ps)
  obtain data u result1 where r: "RenderRevision en p = Inr data"
    "writeFileAtomic (faults k) (revisionRelativePath p) data t = (u, None)"
    "write_planned en faults (Suc k) ps (u, result1) = ((t', result'), None)"
    "xr_files result1 = xr_files result @ [revisionRelativePath p]"
    using Cons.prems(1) by (auto split: sum.splits prod.splits option.splits)
  note w = writeFileAtomic_ok [OF r(2) Cons.prems(2)]
  note ih = Cons.IH [OF r(3) conjunct1 [OF w]]
  show ?case using w ih r(1,4) by auto
qed simp

end
