(* ===== verification/Portable_Sample.thy ===== *)
theory Portable_Sample
  imports Portable_Projection Promotion_Claims
begin

text \<open>
  A sample for the witnesses of the portable repository: the promoted memory of the promotion sample, its
  projection, an initialised repository, and the repository that the export leaves.
\<close>

section \<open>Strings that the encoder leaves as they are\<close>

definition plain_char :: "char \<Rightarrow> bool" where
  "plain_char c \<longleftrightarrow> byte_in 0x20 0x7E c \<and> (of_char c :: int) \<notin> {0x22, 0x5C, 0x3C, 0x3E, 0x26}"

lemma json_chars_plain: "list_all plain_char v \<Longrightarrow> json_chars v = v"
proof (induction v)
  case Nil
  then show ?case by (simp add: json_chars.simps)
next
  case (Cons c v)
  then have "utf8_len (c # v) = 1" by (auto simp: plain_char_def byte_in_def)
  moreover have "json_char c = [c]"
    using Cons.prems by (auto simp: plain_char_def byte_in_def json_char_def Let_def)
  ultimately show ?case using Cons by (subst json_chars.simps) simp
qed

lemma plain_hex: "validSHA256 h \<Longrightarrow> list_all plain_char h"
  by (auto simp: validSHA256_iff list_all_iff plain_char_def lower_hex_def byte_in_def)

definition unquote :: "string \<Rightarrow> string" where
  "unquote s = butlast (tl s)"

lemma unquote_plain: "list_all plain_char v \<Longrightarrow> unquote (json_string v) = v"
  by (simp add: unquote_def json_string_def json_chars_plain)

definition sample_load :: load_env where
  "sample_load = \<lparr>le_engine = quiet_engine, le_unicode = sample_unicode, le_string = (\<lambda>s. Some (unquote s)),
     le_strings = (\<lambda>s. Some [unquote (unquote s)]), le_loadout = (\<lambda>_. None)\<rparr>"

lemma sample_load_fields [simp]:
  "le_engine sample_load = quiet_engine" "le_unicode sample_load = sample_unicode" "le_string sample_load s = Some (unquote s)"
  "le_strings sample_load s = Some [unquote (unquote s)]" "le_loadout sample_load s = None"
  by (simp_all add: sample_load_def)

section \<open>The projected memory\<close>

definition sample_portable_draft :: portable_revision where
  "sample_portable_draft =
     (project_draft sample_memory_id [] ActionPromote StatusActive (sample_revision 2))
       \<lparr>pv_text := ''use tabs'', pv_basis := [BasisExplicitUserConfirmation],
        pv_schema_version := PortableRevisionSchemaVersion, pv_authorization := ''not_granted'',
        pv_privacy := PortablePrivacy, pv_text_sha256 := textDigest ''use tabs''\<rparr>"

definition sample_portable :: portable_revision where
  "sample_portable = sample_portable_draft\<lparr>pv_revision_id := the (deriveRevisionID sample_portable_draft)\<rparr>"

lemma sample_local:
  "rn_parent (sample_revision 2) = []" "rn_action (sample_revision 2) = ActionPromote" "rn_kind (sample_revision 2) = KindConstraint"
  "rn_scope (sample_revision 2) = \<lparr>sp_kind = ScopeGlobal, sp_value = ''*''\<rparr>" "rn_text (sample_revision 2) = ''use tabs''"
  "rn_memory_id (sample_revision 2) = sample_memory_id" "rn_status (sample_revision 2) = StatusActive"
  "\<exists>s. rn_source (sample_revision 2) = Some s \<and> so_review_basis s = [BasisExplicitUserConfirmation]"
  by (simp_all add: sample_revision_def sample_unnamed_def active_revision_def base_revision_def sample_promote_def sample_text
      sample_proof_fields active_source_def)

lemma portable_json_Some: "marshal (portable_revision_json r) \<noteq> None"
proof -
  have "all_some (map marshal (map JStr b)) = Some (map json_string b)" for b
    by (induction b) simp_all
  then show ?thesis
    by (cases "pv_basis r = []"; cases "pv_parent r = []"; cases "pv_text r = []"; cases "pv_text_sha256 r = []")
      (simp_all add: portable_revision_json_def omit_str_def omit_list_def all_some_append del: map_map)
qed

lemma derive_Some: "\<exists>d. deriveRevisionID r = Some (''portable-revision-'' @ sha256_hex d)"
  using portable_json_Some [of "r\<lparr>pv_revision_id := [], pv_text := []\<rparr>"] by (auto simp: deriveRevisionID_def)

lemma derive_without_id: "deriveRevisionID (r\<lparr>pv_revision_id := i\<rparr>) = deriveRevisionID r"
  by (simp add: deriveRevisionID_def)

lemma sample_portable_fields:
  "pv_schema_version sample_portable = PortableRevisionSchemaVersion" "pv_memory_id sample_portable = sample_memory_id"
  "pv_parent sample_portable = []" "pv_action sample_portable = ActionPromote" "pv_status sample_portable = StatusActive"
  "pv_kind sample_portable = KindConstraint" "pv_scope_kind sample_portable = ScopeGlobal" "pv_scope_value sample_portable = ''*''"
  "pv_basis sample_portable = [BasisExplicitUserConfirmation]" "pv_text sample_portable = ''use tabs''"
  "pv_text_sha256 sample_portable = sha256_hex ''use tabs''" "pv_authorization sample_portable = ''not_granted''"
  "pv_privacy sample_portable = PortablePrivacy"
  by (simp_all add: sample_portable_def sample_portable_draft_def project_draft_def sample_local textDigest_def)

lemma sample_portable_id: "deriveRevisionID sample_portable = Some (pv_revision_id sample_portable)"
  "\<exists>d. pv_revision_id sample_portable = ''portable-revision-'' @ sha256_hex d"
  using derive_Some [of sample_portable_draft] by (auto simp: sample_portable_def derive_without_id)

lemma sample_memory: "sample_memory_id = expectedMemoryID_portable (sha256_hex ''use tabs'') ScopeGlobal ''*''"
  by (simp add: sample_memory_id_def expectedMemoryID_portable_def expectedMemoryID_def sample_proof_fields textDigest_def)

lemma sample_memory_hash: "\<exists>d. sample_memory_id = ''memory-'' @ sha256_hex d"
  unfolding sample_memory expectedMemoryID_portable_def by blast

lemma sample_short: "\<not> blank ''use tabs''" "trimSpace ''*'' = ''*''" "\<not> containsAny ''*'' [CHR 0x00, CHR 0x0D, CHR 0x0A]"
  by code_simp+

lemma sample_portable_valid: "validateRevision quiet_engine sample_portable = None"
proof -
  have m: "validPrefixedHash sample_memory_id ''memory-''"
    using sample_memory_hash validPrefixedHash_append validSHA256_sha256_hex by metis
  have i: "validPrefixedHash (pv_revision_id sample_portable) ''portable-revision-''"
    using sample_portable_id(2) validPrefixedHash_append validSHA256_sha256_hex by metis
  have s: "validScope_portable ScopeGlobal ''*''" by (simp add: validScope_portable_def sample_short)
  have a: "check_portable_action sample_portable = None"
    by (simp add: check_portable_action_def sample_portable_fields sample_memory)
  have c: "check_portable_content quiet_engine sample_portable = None"
    by (simp add: check_portable_content_def sample_portable_fields sample_short MaxTextBytes_def sample_utf8 textDigest_def
        validBasis_portable_def validReviewBasis_def)
  show ?thesis
    unfolding validateRevision_def sample_portable_id(1)
    by (simp add: sample_portable_fields m i s a c validKind_def)
qed

lemma sample_finalized:
  "finalizeRevision quiet_engine ((project_draft sample_memory_id [] ActionPromote StatusActive (sample_revision 2))
     \<lparr>pv_text := ''use tabs'', pv_basis := [BasisExplicitUserConfirmation]\<rparr>) = Inr sample_portable"
proof -
  define d where "d = (project_draft sample_memory_id [] ActionPromote StatusActive (sample_revision 2))
     \<lparr>pv_text := ''use tabs'', pv_basis := [BasisExplicitUserConfirmation]\<rparr>"
  define e where "e = d\<lparr>pv_schema_version := PortableRevisionSchemaVersion, pv_authorization := ''not_granted'',
     pv_privacy := PortablePrivacy\<rparr>"
  have e: "pv_status e = StatusActive" "pv_text e = ''use tabs''" "e\<lparr>pv_text_sha256 := textDigest ''use tabs''\<rparr> = sample_portable_draft"
    unfolding e_def d_def sample_portable_draft_def by (simp_all add: project_draft_def)
  obtain i where i: "deriveRevisionID sample_portable_draft = Some i" using derive_Some by blast
  then have p: "sample_portable_draft\<lparr>pv_revision_id := i\<rparr> = sample_portable" by (simp add: sample_portable_def)
  show ?thesis
    unfolding d_def [symmetric] finalizeRevision_def e_def [symmetric] Let_def e if_P [OF refl] i option.case p sample_portable_valid ..
qed

lemma sample_projects: "projectHistory quiet_engine (sample_memory_id, [sample_revision 2]) = Inr [sample_portable]"
proof -
  obtain src where src: "rn_source (sample_revision 2) = Some src" "so_review_basis src = [BasisExplicitUserConfirmation]"
    using sample_local(8) by blast
  have st: "pv_status (project_draft sample_memory_id [] ActionPromote StatusActive (sample_revision 2)) = StatusActive"
    by (simp add: project_draft_def)
  have "project_content (sample_revision 2) (project_draft sample_memory_id [] ActionPromote StatusActive (sample_revision 2)) =
      Inr ((project_draft sample_memory_id [] ActionPromote StatusActive (sample_revision 2))
        \<lparr>pv_text := ''use tabs'', pv_basis := [BasisExplicitUserConfirmation]\<rparr>)"
    by (simp only: project_content_def st src option.case sample_local if_True simp_thms)
  moreover have "project_parent [] (sample_revision 2) = Inr []" "project_action (sample_revision 2) = Inr (ActionPromote, StatusActive)"
    by (simp_all add: project_parent_def project_action_def sample_local)
  ultimately have "project_revision quiet_engine sample_memory_id [] (sample_revision 2) = Inr sample_portable"
    by (simp only: project_revision_def bindR_Inr prod.case sample_finalized sum.case sample_portable_fields sample_local simp_thms if_False)
  then show ?thesis by (simp add: projectHistory_def)
qed

lemma sample_plain: "list_all (list_all plain_char)
    [PortableRevisionSchemaVersion, [], ActionPromote, StatusActive, KindConstraint, ScopeGlobal, ''*'', ''not_granted'',
     PortablePrivacy, BasisExplicitUserConfirmation, ''memory-'', ''portable-revision-'']"
  by code_simp

lemma sample_decodes: "decodes_header (le_string sample_load) (le_strings sample_load) sample_portable"
proof -
  obtain m h where m: "sample_memory_id = ''memory-'' @ m" "list_all plain_char m"
    and h: "pv_revision_id sample_portable = ''portable-revision-'' @ h" "list_all plain_char h"
    using sample_memory_hash sample_portable_id(2) plain_hex [OF validSHA256_sha256_hex] by metis
  have t: "list_all plain_char (sha256_hex ''use tabs'')" by (rule plain_hex) simp
  have "list_all (list_all plain_char) (header_strings sample_portable)"
    using sample_plain m(2) h(2) t
    unfolding header_strings_def sample_portable_fields m(1) h(1) list.pred_inject list_all_append by blast
  then have "\<forall>v \<in> set (header_strings sample_portable). unquote (json_string v) = v"
    using unquote_plain by (auto simp: list_all_iff)
  moreover have "unquote (json_string BasisExplicitUserConfirmation) = BasisExplicitUserConfirmation"
    using sample_plain unquote_plain by (simp only: list.pred_inject)
  moreover have "unquote (marshal_basis [b]) = json_string b" for b by (simp add: marshal_basis_def unquote_def)
  ultimately show ?thesis
    by (simp add: decodes_header_def list_all_iff sample_portable_fields(9) del: set_simps)
qed

section \<open>The repository\<close>

definition fixed_entries :: "(string \<times> fs_node) list" where
  "fixed_entries =
     [(''.gitattributes'', FsFile (Some repositoryAttributesData)), (''.gitignore'', FsFile (Some repositoryIgnoreData)),
      (''README.md'', FsFile (Some repositoryReadmeData)), (''portable-memory-repository.yaml'', FsFile (Some repositoryManifestData))]"

definition sample_tree :: fs_node where
  "sample_tree = FsDir False fixed_entries"

definition sample_data :: string where
  "sample_data = projr (RenderRevision quiet_engine sample_portable)"

lemma sample_rendered: "RenderRevision quiet_engine sample_portable = Inr sample_data"
  by (simp add: sample_data_def RenderRevision_def sample_portable_valid)

definition memories_dir :: "string \<Rightarrow> string \<Rightarrow> string \<Rightarrow> fs_node" where
  "memories_dir a m h = FsDir False [(a, FsDir False [(m, FsDir False [(h, FsFile (Some sample_data))])])]"

definition exported_tree :: "string \<Rightarrow> string \<Rightarrow> string \<Rightarrow> fs_node" where
  "exported_tree a m h = FsDir False
     [(''.gitattributes'', FsFile (Some repositoryAttributesData)), (''.gitignore'', FsFile (Some repositoryIgnoreData)),
      (''README.md'', FsFile (Some repositoryReadmeData)), (''memories'', memories_dir a m h),
      (''portable-memory-repository.yaml'', FsFile (Some repositoryManifestData))]"

lemma name_order:
  "''memories'' \<noteq> ''.gitattributes'' \<and> \<not> ''memories'' < ''.gitattributes'' \<and> ''memories'' \<noteq> ''.gitignore'' \<and> \<not> ''memories'' < ''.gitignore'' \<and>
   ''memories'' \<noteq> ''README.md'' \<and> \<not> ''memories'' < ''README.md'' \<and> ''memories'' \<noteq> ''portable-memory-repository.yaml'' \<and>
   ''memories'' < ''portable-memory-repository.yaml'' \<and> ''.gitattributes'' < ''.gitignore'' \<and> ''.gitattributes'' < ''README.md'' \<and>
   ''.gitattributes'' < ''portable-memory-repository.yaml'' \<and> ''.gitignore'' < ''README.md'' \<and>
   ''.gitignore'' < ''portable-memory-repository.yaml'' \<and> ''README.md'' < ''portable-memory-repository.yaml''"
  by code_simp

lemma sample_tree_ok: "tree_ok sample_tree"
  using name_order by (simp add: sample_tree_def fixed_entries_def)

lemma sample_insert:
  "insert_entry ''memories'' t fixed_entries =
     [(''.gitattributes'', FsFile (Some repositoryAttributesData)), (''.gitignore'', FsFile (Some repositoryIgnoreData)),
      (''README.md'', FsFile (Some repositoryReadmeData)), (''memories'', t),
      (''portable-memory-repository.yaml'', FsFile (Some repositoryManifestData))]"
  using name_order by (simp add: fixed_entries_def)

lemma sample_written:
  "writeFileAtomic None [''memories'', a, m, h] sample_data sample_tree = (exported_tree a m h, None)"
proof -
  have "map_of fixed_entries ''memories'' = None" by (simp add: fixed_entries_def)
  then have d: "make_dirs [''memories'', a, m] sample_tree =
      Some (FsDir False (insert_entry ''memories'' (FsDir False [(a, FsDir False [(m, FsDir False [])])]) fixed_entries))"
    by (simp add: sample_tree_def)
  have "insert_entry ''memories'' t (insert_entry ''memories'' u fixed_entries) = insert_entry ''memories'' t fixed_entries" for t u
    unfolding sample_insert using name_order by simp
  moreover have "map_of (insert_entry ''memories'' t fixed_entries) ''memories'' = Some t" for t
    unfolding sample_insert by simp
  ultimately show ?thesis
    by (simp add: writeFileAtomic_def d exported_tree_def memories_dir_def sample_insert [of "memories_dir a m h", symmetric, unfolded memories_dir_def])
qed

text \<open>A walk that meets the fixed files and, at its path, the sample revision.\<close>

lemma fixed_files_fine:
  assumes "list_all (\<lambda>f. map_of es (fst f) = Some (FsFile (Some (snd f)))) repository_files"
  shows "\<exists>n. fold (\<lambda>f r. check_fixed_file (FsDir b es) r f) repository_files empty_repository_report = empty_repository_report\<lparr>pt_files := n\<rparr>"
proof -
  have s: "check_fixed_file (FsDir b es) (empty_repository_report\<lparr>pt_files := n\<rparr>) f = empty_repository_report\<lparr>pt_files := n + 1\<rparr>"
    if "map_of es (fst f) = Some (FsFile (Some (snd f)))" for f n
    using that by (simp add: check_fixed_file_def)
  have "\<exists>k. fold (\<lambda>f r. check_fixed_file (FsDir b es) r f) fs (empty_repository_report\<lparr>pt_files := n\<rparr>) = empty_repository_report\<lparr>pt_files := k\<rparr>"
    if "list_all (\<lambda>f. map_of es (fst f) = Some (FsFile (Some (snd f)))) fs" for fs n
    using that by (induction fs arbitrary: n) (simp_all add: s, blast)
  from this [OF assms, of 0] show ?thesis by (simp add: empty_repository_report_def)
qed

lemma root_file_fine:
  "map_of repository_files n \<noteq> None \<Longrightarrow> visit_path env ([n], VFile d) s = s"
  by (cases s) (auto simp: visit_path_def)

lemma root_dir_fine: "visit_path env ([], VDir) s = s"
  by (cases s) (simp add: visit_path_def)

lemma memories_dir_fine: "hd ps = ''memories'' \<Longrightarrow> ps \<noteq> [] \<Longrightarrow> visit_path env (ps, VDir) s = s"
  by (cases s) (auto simp: visit_path_def)

lemma fixed_names: "list_all (\<lambda>n. map_of repository_files n \<noteq> None)
    [''.gitattributes'', ''.gitignore'', ''README.md'', ''portable-memory-repository.yaml'']"
  by (simp add: repository_files_def)

lemma sample_loads:
  "\<exists>report. load_tree sample_load sample_tree (visits [] sample_tree) = (report, empty_repository) \<and> pt_issues report = []"
proof -
  have v: "visits [] sample_tree = [([], VDir), ([''.gitattributes''], VFile (Some repositoryAttributesData)),
      ([''.gitignore''], VFile (Some repositoryIgnoreData)), ([''README.md''], VFile (Some repositoryReadmeData)),
      ([''portable-memory-repository.yaml''], VFile (Some repositoryManifestData))]"
    by (simp add: sample_tree_def fixed_entries_def skips_dir_def)
  have "fold (visit_path sample_load) (visits [] sample_tree) s = s" for s
    using fixed_names unfolding v by (simp add: root_dir_fine root_file_fine)
  moreover have "list_all (\<lambda>f. map_of fixed_entries (fst f) = Some (FsFile (Some (snd f)))) repository_files"
    by (simp add: repository_files_def fixed_entries_def)
  then obtain n where "fold (\<lambda>f r. check_fixed_file sample_tree r f) repository_files empty_repository_report =
      empty_repository_report\<lparr>pt_files := n\<rparr>" using fixed_files_fine unfolding sample_tree_def by blast
  ultimately show ?thesis
    by (simp add: load_tree_def validateRepositoryState_def memory_ids_def empty_repository_def validateSemanticHeads_def
        semantic_keys_def validateLoadoutState_def empty_repository_report_def)
qed

section \<open>The repository after the export\<close>

definition sample_binding :: "(string \<times> portable_revision) list" where
  "sample_binding = [(pv_revision_id sample_portable, sample_portable)]"

lemma sample_graph: "graph_issues sample_binding sample_memory_id = []" "heads_of sample_binding sample_memory_id = [pv_revision_id sample_portable]"
proof -
  have c: "children_of sample_binding i = []" for i by (simp add: children_of_def sample_binding_def sample_portable_fields)
  have r: "revisions_of sample_binding sample_memory_id = [sample_portable]"
    by (simp add: revisions_of_def sample_binding_def sample_portable_fields)
  have y: "\<not> cycle_from sample_binding m seen sample_portable" for m seen
    by (subst cycle_from.simps) (simp add: sample_portable_fields)
  show h: "heads_of sample_binding sample_memory_id = [pv_revision_id sample_portable]" by (simp add: heads_of_def r c)
  show "graph_issues sample_binding sample_memory_id = []"
    by (simp add: graph_issues_def r c check_parent_def check_fork_def sample_portable_fields roots_of_def h hasCycle_def y)
qed

definition sample_state :: repository_state where
  "sample_state = \<lparr>rs_revisions = sample_binding, rs_heads = [(sample_memory_id, sample_portable)], rs_loadouts = []\<rparr>"

lemma sample_validated:
  assumes "pt_issues report = []"
  shows "\<exists>report'. validateRepositoryState u (report, \<lparr>rs_revisions = sample_binding, rs_heads = [], rs_loadouts = []\<rparr>) = (report', sample_state) \<and>
    pt_issues report' = []"
proof -
  let ?s = "\<lparr>rs_revisions = sample_binding, rs_heads = [], rs_loadouts = []\<rparr>"
  have ids: "memory_ids sample_binding = [sample_memory_id]" by (simp add: memory_ids_def sample_binding_def sample_portable_fields)
  have m: "map_of sample_binding (pv_revision_id sample_portable) = Some sample_portable" by (simp add: sample_binding_def)
  obtain r where r: "check_memory sample_memory_id (report\<lparr>pt_memories := 1\<rparr>, ?s) = (r, sample_state)" "pt_issues r = []"
    using assms by (simp add: check_memory_def sample_graph m Let_def add_repository_issues_def sample_portable_fields sample_state_def)
  have "length (semantic_group u [(sample_memory_id, sample_portable)] key) < 2" for key
    by (simp add: semantic_group_def)
  then have "pt_issues (validateSemanticHeads u (rs_heads sample_state) r) = []"
    using r(2) by (simp add: validateSemanticHeads_Nil sample_state_def)
  then show ?thesis using r(1) by (simp add: validateRepositoryState_def ids)
qed

lemma sample_exported_loads:
  assumes path: "revisionRelativePath sample_portable = [''memories'', a, m, h]"
    and id: "identityFromRevisionPath [''memories'', a, m, h] = Some (sample_memory_id, pv_revision_id sample_portable)"
  shows "\<exists>report. load_tree sample_load (exported_tree a m h) (visits [] (exported_tree a m h)) = (report, sample_state) \<and> pt_issues report = []"
proof -
  let ?t = "exported_tree a m h"
  have v: "visits [] ?t = [([], VDir), ([''.gitattributes''], VFile (Some repositoryAttributesData)),
      ([''.gitignore''], VFile (Some repositoryIgnoreData)), ([''README.md''], VFile (Some repositoryReadmeData)),
      ([''memories''], VDir), ([''memories'', a], VDir), ([''memories'', a, m], VDir),
      ([''memories'', a, m, h], VFile (Some sample_data)),
      ([''portable-memory-repository.yaml''], VFile (Some repositoryManifestData))]"
    by (simp add: exported_tree_def memories_dir_def skips_dir_def)
  have parse: "ParseRevision (le_engine sample_load) (le_string sample_load) (le_strings sample_load) sample_data = Inr sample_portable"
    using Parse_Render sample_rendered sample_decodes by simp
  have nl: "\<not> validLoadoutPath [''memories'', a, m, h]" by (simp add: validLoadoutPath_def)
  have rev: "visit_path sample_load ([''memories'', a, m, h], VFile (Some sample_data)) (r, empty_repository) =
      ((count_file r)\<lparr>pt_revisions := pt_revisions r + 1\<rparr>,
       \<lparr>rs_revisions = sample_binding, rs_heads = [], rs_loadouts = []\<rparr>)" for r
    using nl parse
    by (simp add: visit_path_def visit_revision_def id empty_repository_def sample_portable_fields sample_binding_def Let_def count_file_def)
  have walk: "fold (visit_path sample_load) (visits [] ?t) (r, empty_repository) =
      ((count_file r)\<lparr>pt_revisions := pt_revisions r + 1\<rparr>,
       \<lparr>rs_revisions = sample_binding, rs_heads = [], rs_loadouts = []\<rparr>)" for r
    using fixed_names unfolding v by (simp add: root_dir_fine root_file_fine memories_dir_fine rev)
  obtain n where n: "fold (\<lambda>f r. check_fixed_file ?t r f) repository_files empty_repository_report = empty_repository_report\<lparr>pt_files := n\<rparr>"
    using fixed_files_fine [of "node_entries ?t" False]
    by (auto simp: exported_tree_def repository_files_def)
  obtain r where r: "validateRepositoryState sample_unicode
      ((count_file (empty_repository_report\<lparr>pt_files := n\<rparr>))\<lparr>pt_revisions := pt_revisions (empty_repository_report\<lparr>pt_files := n\<rparr>) + 1\<rparr>,
       \<lparr>rs_revisions = sample_binding, rs_heads = [], rs_loadouts = []\<rparr>) = (r, sample_state)" "pt_issues r = []"
    using sample_validated [of "(count_file (empty_repository_report\<lparr>pt_files := n\<rparr>))
        \<lparr>pt_revisions := pt_revisions (empty_repository_report\<lparr>pt_files := n\<rparr>) + 1\<rparr>" sample_unicode]
    by (auto simp: count_file_def empty_repository_report_def)
  have "validateLoadoutState (r, sample_state) = r" by (simp add: validateLoadoutState_def sample_state_def)
  then show ?thesis
    using r by (simp add: load_tree_def Let_def n walk)
qed

section \<open>The export\<close>

definition sample_export :: export_env where
  "sample_export = \<lparr>xe_load = sample_load, xe_promotion = sample_pv 2,
     xe_resolve = (\<lambda>p. Some \<lparr>rp_absolute = True, rp_parts = [p]\<rparr>), xe_evidence_root = ''e''\<rparr>"

definition no_export_faults :: export_faults where
  "no_export_faults = \<lparr>xf_lock = None, xf_write = (\<lambda>_. None), xf_release_ok = True, xf_release_again_ok = True\<rparr>"

lemma sample_history:
  obtains st where "replayVerified_promotion (sample_pv 2) (promoted_store 2) = (st, None)"
    and "ps_history st = [sample_promotion 2]" and "map_of (ps_current st) sample_memory_id = Some (sample_revision 2)"
    and "memory_revisions sample_memory_id (ps_history st) = [sample_revision 2]"
proof -
  obtain st where st: "replayVerified_promotion (sample_pv 2) (promoted_store 2) = (st, None)" "ps_history st = [sample_promotion 2]"
    using sample_promoted_history [OF sample_times] by auto
  have v: "record_revision (sample_promotion 2) = sample_revision 2"
    using sample_event_facts(3) [OF sample_times] by (simp add: sample_promotion_event_def)
  have ok: "promotion_state_ok quiet_engine st"
    using replay_promotion_ok replayVerified_promotion_iff [THEN iffD1, OF st(1)] by (metis sample_pv_fields(4))
  have "map_of (ps_current st) sample_memory_id = Some (sample_revision 2)"
    using ok current_of_simps(2) [of "[]" "sample_promotion 2"] v sample_local(6)
    by (simp add: promotion_state_ok_def st(2) set_current_def)
  moreover have "memory_revisions sample_memory_id (ps_history st) = [sample_revision 2]"
    using memory_revisions_simps(2) [of sample_memory_id "[]" "sample_promotion 2"] st(2) v sample_local(6) by simp
  ultimately show ?thesis using that st by blast
qed

lemma sample_histories: "ListHistories (sample_pv 2) (promoted_store 2) = Inr [(sample_memory_id, [sample_revision 2])]"
proof -
  obtain st where st: "replayVerified_promotion (sample_pv 2) (promoted_store 2) = (st, None)" "ps_history st = [sample_promotion 2]"
    "memory_revisions sample_memory_id (ps_history st) = [sample_revision 2]"
    by (rule sample_history)
  have "pe_revision (pr_event (sample_promotion 2)) = sample_revision 2"
    using sample_event_facts(3) [OF sample_times] by (simp add: sample_promotion_event_def)
  then show ?thesis using st sample_local(6) by (simp add: ListHistories_def)
qed

lemma sample_eligible: "check_eligible (sample_pv 2) (promoted_store 2) (sample_memory_id, [sample_revision 2]) = None"
proof -
  obtain st where st: "replayVerified_promotion (sample_pv 2) (promoted_store 2) = (st, None)"
    "map_of (ps_current st) sample_memory_id = Some (sample_revision 2)"
    by (rule sample_history)
  have m: "validPrefixedHash sample_memory_id ''memory-''"
    using sample_memory_hash validPrefixedHash_append validSHA256_sha256_hex by metis
  have e: "st_events (promoted_store 2) = st_events note_store" "st_blobs (promoted_store 2) = st_blobs note_store"
    "rst_file (promoted_store 2) = rst_file reviewed_store" by (simp_all add: promoted_store_def)
  have "rn_source (sample_revision 2) = Some (active_source sample_candidate sample_proof)"
    by (simp add: sample_revision_def sample_unnamed_def active_revision_def)
  then have "source_current (sample_pv 2) (promoted_store 2) (sample_revision 2)"
    using ready_resolves [OF e]
    by (simp add: source_current_def sample_local(7) resolve_source_def active_source_def sample_proof_fields)
  then show ?thesis
    by (simp add: check_eligible_def sample_local(7) GetStatus_promotion_def m st)
qed

lemma sample_path:
  obtains a m h where "revisionRelativePath sample_portable = [''memories'', a, m, h]"
    and "identityFromRevisionPath [''memories'', a, m, h] = Some (sample_memory_id, pv_revision_id sample_portable)"
proof -
  obtain a m h where path: "revisionRelativePath sample_portable = [''memories'', a, m, h]"
    by (simp add: revisionRelativePath_def Let_def)
  show ?thesis using that [OF path] identity_of_path [OF sample_portable_valid] by (simp add: path sample_portable_fields)
qed

lemma sample_export_fields [simp]:
  "xe_load sample_export = sample_load" "xe_promotion sample_export = sample_pv 2" "xe_evidence_root sample_export = ''e''"
  "xe_resolve sample_export p = Some \<lparr>rp_absolute = True, rp_parts = [p]\<rparr>"
  by (simp_all add: sample_export_def)

lemma sample_export_locked:
  "\<exists>t' result. export_locked sample_export (promoted_store 2) (\<lambda>_. None) ''m'' [] (RootDir sample_tree) = (RootDir t', result, None)"
proof -
  obtain a m h where path: "revisionRelativePath sample_portable = [''memories'', a, m, h]"
    "identityFromRevisionPath [''memories'', a, m, h] = Some (sample_memory_id, pv_revision_id sample_portable)"
    by (rule sample_path)
  have b: "\<not> blank ''m''" by code_simp
  obtain r0 where r0: "loadRepository sample_load ''m'' (RootDir sample_tree) = (r0, empty_repository)" "pt_issues r0 = []"
    using sample_loads b by (auto simp: loadRepository_def)
  obtain r1 where r1: "loadRepository sample_load ''m'' (RootDir (exported_tree a m h)) = (r1, sample_state)" "pt_issues r1 = []"
    using sample_exported_loads [OF path] b by (auto simp: loadRepository_def)
  have sel: "selectHistories [(sample_memory_id, [sample_revision 2])] [] = Inr [(sample_memory_id, [sample_revision 2])]"
    by (simp add: selectHistories_def)
  have proj: "project_selected (sample_pv 2) (promoted_store 2) quiet_engine [(sample_memory_id, [sample_revision 2])] = Inr [sample_portable]"
    by (simp add: sample_eligible sample_projects bindR_def)
  have plan: "plan_revisions [] [sample_portable] = Inr (sample_binding, [sample_portable], 0)"
    by (simp add: bindR_def sample_binding_def)
  have e: "rs_revisions empty_repository = []" "rs_loadouts empty_repository = []" by (simp_all add: empty_repository_def)
  obtain r2 where r2: "validateRepositoryState sample_unicode (empty_repository_report\<lparr>pt_revisions := int (length sample_binding)\<rparr>,
      \<lparr>rs_revisions = sample_binding, rs_heads = [], rs_loadouts = []\<rparr>) = (r2, sample_state)" "pt_issues r2 = []"
    using sample_validated [of "empty_repository_report\<lparr>pt_revisions := int (length sample_binding)\<rparr>" sample_unicode]
    by (auto simp: empty_repository_report_def)
  then have comb: "pt_issues (combined_report sample_unicode sample_binding []) = []"
    by (simp add: combined_report_def validateLoadoutState_def sample_state_def)
  have wr: "write_planned quiet_engine (\<lambda>_. None) 0 [sample_portable] (sample_tree, r) =
      ((exported_tree a m h, r\<lparr>xr_files := xr_files r @ [[''memories'', a, m, h]], xr_written := Suc (xr_written r)\<rparr>), None)" for r
    by (simp add: sample_rendered path(1) sample_written)
  show ?thesis
    unfolding export_locked_def Let_def sample_export_fields sample_load_fields r0 prod.case list.case sample_histories sum.case sel proj
      e plan comb root_tree.simps option.case wr VerifyRepository_def with_tree.simps r1 fst_conv
    by blast
qed

definition sample_repository :: repository where
  "sample_repository = \<lparr>ry_root = RootDir sample_tree, ry_locked = False\<rparr>"

lemma sample_export_runs:
  "\<exists>r' result. Export sample_export (promoted_store 2) no_export_faults ''m'' [] sample_repository = (r', result, None)"
proof -
  have b: "\<not> blank ''m''" by code_simp
  have sep: "ensureSeparateRoots (xe_resolve sample_export) (xe_evidence_root sample_export) ''m'' = None"
    by (simp add: ensureSeparateRoots_def b pathsOverlap_def path_contains_def)
  obtain r0 where r0: "loadRepository sample_load ''m'' (ry_root sample_repository) = (r0, empty_repository)" "pt_issues r0 = []"
    using sample_loads b by (auto simp: loadRepository_def sample_repository_def)
  have lock: "AcquireRepositoryLock (xf_lock no_export_faults) sample_repository = (sample_repository\<lparr>ry_locked := True\<rparr>, None)"
    by (simp add: AcquireRepositoryLock_def no_export_faults_def sample_repository_def acquire_lock_def)
  obtain t' result where "export_locked sample_export (promoted_store 2) (xf_write no_export_faults) ''m'' []
      (ry_root (sample_repository\<lparr>ry_locked := True\<rparr>)) = (RootDir t', result, None)"
    using sample_export_locked by (auto simp: no_export_faults_def sample_repository_def)
  then show ?thesis
    unfolding Export_def sep option.case unfolding sample_export_fields r0 fst_conv list.case lock prod.case
    by (simp add: no_export_faults_def)
qed

end
