(* ===== verification/Portable_Claims.thy ===== *)
theory Portable_Claims
  imports Portable_Sample
begin

text \<open>
  The properties of the portable repository: the revision format reads back what it writes, a repository
  without issues holds one line of revisions per memory, and an export leaves the history of every memory
  it was asked for in the repository.
\<close>

section \<open>Loading after writing\<close>

definition walked :: "load_env \<Rightarrow> fs_node \<Rightarrow> (string list \<times> visit) list \<Rightarrow> loading" where
  "walked env t vs = fold (visit_path env) vs (fold (\<lambda>f r. check_fixed_file t r f) repository_files empty_repository_report, empty_repository)"

lemma load_tree_walk:
  assumes "load_tree env t vs = (report, state)" and "pt_issues report = []"
  shows "pt_issues (fst (walked env t vs)) = []" and "rs_revisions state = rs_revisions (snd (walked env t vs))"
proof -
  let ?v = "validateRepositoryState (le_unicode env) (walked env t vs)"
  have st: "state = snd ?v" and r: "report = finalizeReport (validateLoadoutState ?v)"
    using assms(1) by (auto simp: load_tree_def walked_def Let_def)
  have "pt_issues (fst ?v) = []"
    using check_loadout_issues assms(2) unfolding r validateLoadoutState_def by fastforce
  moreover have "rs_heads (snd (walked env t vs)) = []"
    using walk_ok [of env "(fold (\<lambda>f r. check_fixed_file t r f) repository_files empty_repository_report, empty_repository)" vs]
    by (simp add: walked_def empty_repository_def revisions_ok_def)
  ultimately show "pt_issues (fst (walked env t vs)) = []" using validateRepositoryState_Nil by blast
  show "rs_revisions state = rs_revisions (snd (walked env t vs))" by (simp add: st)
qed

lemma identity_not_skipped:
  "identityFromRevisionPath parts = Some i \<Longrightarrow> \<forall>j < length parts. \<not> skips_dir ([] @ take j parts)"
proof (intro allI impI)
  fix j assume i: "identityFromRevisionPath parts = Some i" and j: "j < length parts"
  obtain b c d where p: "parts = [''memories'', b, c, d]"
    using i by (auto simp: identityFromRevisionPath_def split: list.splits if_splits)
  have "j = 0 \<or> j = 1 \<or> j = 2 \<or> j = 3" using j p by auto
  then show "\<not> skips_dir ([] @ take j parts)" by (auto simp: p skips_dir_def numeral_2_eq_2 numeral_3_eq_3)
qed

text \<open>A revision whose rendering is a file of the tree, at its path, is among the revisions of a load without issues.\<close>

lemma loaded_revision:
  assumes "load_tree env t (visits [] t) = (report, state)" and "pt_issues report = []"
    and "lookup_node parts t = Some (FsFile (Some data))" and "identityFromRevisionPath parts = Some i"
    and "ParseRevision (le_engine env) (le_string env) (le_strings env) data = Inr p"
  shows "(pv_revision_id p, p) \<in> set (rs_revisions state)"
proof -
  note w = load_tree_walk [OF assms(1,2)]
  have "([] @ parts, VFile (Some data)) \<in> set (visits [] t)"
    by (rule visits_lookup [OF assms(3) identity_not_skipped [OF assms(4)]])
  then have "(parts, VFile (Some data)) \<in> set (visits [] t)" by simp
  from walk_reads [OF w(1) [unfolded walked_def] this assms(4)] obtain r where
    "ParseRevision (le_engine env) (le_string env) (le_strings env) data = Inr r"
    "(pv_revision_id r, r) \<in> set (rs_revisions state)"
    unfolding w(2) walked_def by blast
  then show ?thesis using assms(5) by simp
qed

lemma kept_revision:
  assumes "load_tree env t (visits [] t) = (report, state)" and "pt_issues report = []"
    and "load_tree env t' (visits [] t') = (report', state')" and "pt_issues report' = []" and "tree_ok t"
    and "\<forall>q x. lookup_node q t = Some (FsFile x) \<longrightarrow> lookup_node q t' = Some (FsFile x)"
    and "(i, p) \<in> set (rs_revisions state)"
  shows "(pv_revision_id p, p) \<in> set (rs_revisions state')"
proof -
  have "revision_file env (visits [] t) p"
    using walk_revision_files [of i p env "visits [] t"
        "(fold (\<lambda>f r. check_fixed_file t r f) repository_files empty_repository_report, empty_repository)"]
      assms(7) load_tree_walk(2) [OF assms(1,2)]
    by (simp add: walked_def empty_repository_def)
  then obtain parts data where f: "(parts, VFile (Some data)) \<in> set (visits [] t)"
    "identityFromRevisionPath parts = Some (pv_memory_id p, pv_revision_id p)"
    "ParseRevision (le_engine env) (le_string env) (le_strings env) data = Inr p"
    by (auto simp: revision_file_def)
  have "lookup_node parts t = Some (FsFile (Some data))" using lookup_visits [OF f(1) assms(5)] by simp
  then have "lookup_node parts t' = Some (FsFile (Some data))" using assms(6) by blast
  then show ?thesis by (rule loaded_revision [OF assms(3,4) _ f(2,3)])
qed

section \<open>Export\<close>

lemma export_locked_ok:
  assumes "export_locked xe s faults path requested (RootDir t) = (dir', result, None)" and "\<not> blank path"
  obtains report existing histories selected projected combined planned unchanged t' r3 report' state where
    "load_tree (xe_load xe) t (visits [] t) = (report, existing)" "pt_issues report = []"
    "ListHistories (xe_promotion xe) s = Inr histories" "selectHistories histories requested = Inr selected"
    "project_selected (xe_promotion xe) s (le_engine (xe_load xe)) selected = Inr projected"
    "plan_revisions (rs_revisions existing) projected = Inr (combined, planned, unchanged)"
    "write_planned (le_engine (xe_load xe)) faults 0 planned (t, r3) = ((t', result), None)"
    "dir' = RootDir t'" "load_tree (xe_load xe) t' (visits [] t') = (report', state)" "pt_issues report' = []"
proof -
  obtain report existing where l: "load_tree (xe_load xe) t (visits [] t) = (report, existing)" by force
  have lr: "loadRepository (xe_load xe) path (RootDir u) = load_tree (xe_load xe) u (visits [] u)" for u
    using assms(2) by (simp add: loadRepository_def)
  note e = assms(1) [unfolded export_locked_def Let_def lr l prod.case]
  have i: "pt_issues report = []" using e by (auto split: list.splits)
  note e = e [unfolded i list.case]
  obtain histories where h: "ListHistories (xe_promotion xe) s = Inr histories" using e by (auto split: sum.splits)
  note e = e [unfolded h sum.case]
  obtain selected where sel: "selectHistories histories requested = Inr selected" using e by (auto split: sum.splits)
  note e = e [unfolded sel sum.case]
  obtain projected where p: "project_selected (xe_promotion xe) s (le_engine (xe_load xe)) selected = Inr projected"
    using e by (auto split: sum.splits)
  note e = e [unfolded p sum.case]
  obtain combined planned unchanged where pl: "plan_revisions (rs_revisions existing) projected = Inr (combined, planned, unchanged)"
    using e by (auto split: sum.splits)
  note e = e [unfolded pl sum.case prod.case]
  have c: "pt_issues (combined_report (le_unicode (xe_load xe)) combined (rs_loadouts existing)) = []"
    using e by (auto split: list.splits)
  note e = e [unfolded c list.case root_tree.simps option.case]
  obtain t' r3 where w: "write_planned (le_engine (xe_load xe)) faults 0 planned (t, r3) = ((t', result), None)" and dir: "dir' = RootDir t'"
    and v: "pt_issues (VerifyRepository (xe_load xe) path (RootDir t')) = []"
    using e by (auto split: prod.splits option.splits list.splits)
  obtain report' state where l': "load_tree (xe_load xe) t' (visits [] t') = (report', state)" by force
  have "pt_issues report' = []" using v by (simp add: VerifyRepository_def lr l')
  from that [OF l i h sel p pl w dir l' this] show ?thesis .
qed

lemma verified_clean:
  assumes "verified_state env state" and "r \<in> members (rs_revisions state) mid"
  shows "clean_graph env (rs_revisions state) mid"
proof -
  have "mid \<in> set (memory_ids (rs_revisions state))" using assms(2) by (auto simp: memory_ids_def members_def)
  then show ?thesis using assms(1) by (auto simp: verified_state_def clean_graph_def)
qed

text \<open>A line from the root is the beginning of the line of its memory.\<close>

lemma beginning_of_line:
  assumes c: "clean_graph env all mid" and rs: "line_of_memory all mid rs"
    and ps: "ps \<noteq> []" "parent_linked ps" "pv_parent (hd ps) = []" "set ps \<subseteq> members all mid"
  shows "\<exists>zs. rs = ps @ zs"
proof -
  note r = rs [unfolded line_of_memory_def]
  have "hd ps \<in> members all mid" "hd rs \<in> members all mid" using ps(1,4) r by (auto simp: hd_in_set subset_iff)
  then have "ps ! 0 = rs ! 0" using only_root [OF c] ps(1,3) r hd_nth by metis
  note agree = chains_agree [OF c ps(2,4) _ _ this]
  have "distinct ps" by (rule chain_distinct [OF c ps(2,4,1,3)])
  then have "length ps \<le> length rs"
    using ps(4) r by (metis card_mono distinct_card finite_set)
  moreover from this have "ps = take (length ps) rs"
    using agree r by (intro nth_equalityI) auto
  ultimately show ?thesis by (metis append_take_drop_id)
qed

lemma histories_live:
  assumes "ListHistories pv s = Inr histories" and "h \<in> set histories"
  shows "lifecycle (snd h)"
proof -
  obtain st where st: "replayVerified_promotion pv s = (st, None)"
    and h: "histories = map (\<lambda>m. (m, memory_revisions m (ps_history st)))
             (sort (remdups (map (rn_memory_id \<circ> pe_revision \<circ> pr_event) (ps_history st))))"
    using assms(1) by (auto simp: ListHistories_def split: prod.splits option.splits)
  have "replay_promotion pv (pst_file s) = (st, None)" using st by (simp add: replayVerified_promotion_iff)
  then have "lifecycle (memory_revisions m (ps_history st))" for m
    using replay_promotion_ok by (force simp: promotion_state_ok_def)
  then show ?thesis using assms(2) by (auto simp: h)
qed

lemma selected_mem: "selectHistories histories requested = Inr selected \<Longrightarrow> h \<in> set selected \<Longrightarrow> h \<in> set histories"
  by (auto simp: selectHistories_def Let_def split: if_splits option.splits)

text \<open>Property C13. A successful export releases the lock and changes no file that was there; afterwards the whole
  repository loads without an issue, and for every selected memory the projection of its promotion history, revision by
  revision, is the beginning of the one line of revisions that the repository holds for that memory.\<close>

theorem Export_ok:
  assumes "Export xe s faults path requested r = (r', result, None)"
    and "ry_root r = RootDir t" and "tree_ok t" and "ListHistories (xe_promotion xe) s = Inr histories"
    and "\<forall>h \<in> set histories. \<forall>ps. projectHistory (le_engine (xe_load xe)) h = Inr ps \<longrightarrow>
       list_all (decodes_header (le_string (xe_load xe)) (le_strings (xe_load xe))) ps"
  shows "\<exists>selected t' report state.
    selectHistories histories requested = Inr selected \<and> r' = \<lparr>ry_root = RootDir t', ry_locked = False\<rparr> \<and> tree_ok t' \<and>
    (\<forall>q x. lookup_node q t = Some (FsFile x) \<longrightarrow> lookup_node q t' = Some (FsFile x)) \<and>
    loadRepository (xe_load xe) path (RootDir t') = (report, state) \<and> pt_issues report = [] \<and>
    (\<forall>h \<in> set selected. \<exists>ps zs. projectHistory (le_engine (xe_load xe)) h = Inr ps \<and>
       list_all2 (projects (fst h)) (snd h) ps \<and> line_of_memory (rs_revisions state) (fst h) (ps @ zs))"
proof -
  let ?env = "xe_load xe" and ?en = "le_engine (xe_load xe)"
  obtain r1 dir where lock: "AcquireRepositoryLock (xf_lock faults) r = (r1, None)"
    and locked: "export_locked xe s (xf_write faults) path requested (ry_root r1) = (dir, result, None)"
    and r': "r' = r1\<lparr>ry_root := dir, ry_locked := False\<rparr>" and sep: "ensureSeparateRoots (xe_resolve xe) (xe_evidence_root xe) path = None"
    using assms(1) by (auto simp: Export_def ReleaseRepositoryLock_def Let_def split: option.splits list.splits prod.splits if_splits)
  have r1: "ry_root r1 = RootDir t" using lock assms(2) by (auto simp: AcquireRepositoryLock_def split: prod.splits)
  have path: "\<not> blank path" using sep by (auto simp: ensureSeparateRoots_def split: if_splits)
  obtain report existing histories' selected projected combined planned unchanged t' r3 report' state where
    x: "load_tree ?env t (visits [] t) = (report, existing)" "pt_issues report = []"
    "ListHistories (xe_promotion xe) s = Inr histories'" "selectHistories histories' requested = Inr selected"
    "project_selected (xe_promotion xe) s ?en selected = Inr projected"
    "plan_revisions (rs_revisions existing) projected = Inr (combined, planned, unchanged)"
    "write_planned ?en (xf_write faults) 0 planned (t, r3) = ((t', result), None)"
    "dir = RootDir t'" "load_tree ?env t' (visits [] t') = (report', state)" "pt_issues report' = []"
    by (rule export_locked_ok [OF locked [unfolded r1] path]) (rule that)
  have hist: "histories' = histories" using x(3) assms(4) by simp
  have load: "loadRepository ?env path (RootDir t') = (report', state)" using path x(9) by (simp add: loadRepository_def)
  note ver = loadRepository_verified [OF load x(10)]
  note w = write_planned_ok [OF x(7) assms(3)]
  have line: "\<exists>ps zs. projectHistory ?en h = Inr ps \<and> list_all2 (projects (fst h)) (snd h) ps \<and>
      line_of_memory (rs_revisions state) (fst h) (ps @ zs)" if h: "h \<in> set selected" for h
  proof -
    obtain ps where e: "check_eligible (xe_promotion xe) s h = None" and ps: "projectHistory ?en h = Inr ps" "set ps \<subseteq> set projected"
      using project_selected_Inr [OF x(5) h] by auto
    have ne: "snd h \<noteq> []" using e by (auto simp: check_eligible_def)
    have hm: "h \<in> set histories" using selected_mem [OF x(4) h] hist by simp
    have "projectHistory ?en (fst h, snd h) = Inr ps" using ps(1) by simp
    note p = projectHistory_linked [OF this histories_live [OF assms(4) hm] ne]
    have mem: "p \<in> members (rs_revisions state) (fst h)" if q: "p \<in> set ps" for p
    proof -
      have v: "validateRevision ?en p = None" and d: "decodes_header (le_string ?env) (le_strings ?env) p"
        using p assms(5) hm ps(1) q by (auto simp: list_all_iff)
      from plan_revisions_Inr [OF x(6)] ps(2) q
      have "(pv_revision_id p, p) \<in> set (rs_revisions existing) \<or> p \<in> set planned" by blast
      then have "(pv_revision_id p, p) \<in> set (rs_revisions state)"
      proof
        assume "(pv_revision_id p, p) \<in> set (rs_revisions existing)"
        then show ?thesis using kept_revision [OF x(1,2,9,10) assms(3)] w by blast
      next
        assume "p \<in> set planned"
        then obtain data where data: "RenderRevision ?en p = Inr data"
          "lookup_node (revisionRelativePath p) t' = Some (FsFile (Some data))" using w by blast
        show ?thesis
          by (rule loaded_revision [OF x(9,10) data(2) identity_of_path [OF v] Parse_Render [OF data(1) d]])
      qed
      moreover have "pv_memory_id p = fst h" using projects_memory p q by blast
      ultimately show ?thesis by (force simp: members_def)
    qed
    then have sub: "set ps \<subseteq> members (rs_revisions state) (fst h)" by blast
    then have c: "clean_graph ?env (rs_revisions state) (fst h)"
      using verified_clean [OF ver] p by (metis hd_in_set subset_iff)
    obtain rs where rs: "line_of_memory (rs_revisions state) (fst h) rs" using linear_history [OF c] by blast
    show ?thesis using beginning_of_line [OF c rs] p sub ps(1) rs by blast
  qed
  have "r' = \<lparr>ry_root = RootDir t', ry_locked = False\<rparr>" using r' x(8) by simp
  then show ?thesis using x(4) hist w load x(10) line by blast
qed

theorem Export_ok_witness:
  "\<exists>r' result t' report state ps zs.
     Export sample_export (promoted_store 2) no_export_faults ''m'' [] sample_repository = (r', result, None) \<and>
     r' = \<lparr>ry_root = RootDir t', ry_locked = False\<rparr> \<and> loadRepository sample_load ''m'' (RootDir t') = (report, state) \<and>
     pt_issues report = [] \<and> projectHistory quiet_engine (sample_memory_id, [sample_revision 2]) = Inr ps \<and>
     line_of_memory (rs_revisions state) sample_memory_id (ps @ zs)"
proof -
  obtain r' result where run: "Export sample_export (promoted_store 2) no_export_faults ''m'' [] sample_repository = (r', result, None)"
    using sample_export_runs by blast
  have root: "ry_root sample_repository = RootDir sample_tree" by (simp add: sample_repository_def)
  have dec: "\<forall>h \<in> set [(sample_memory_id, [sample_revision 2])]. \<forall>ps. projectHistory (le_engine (xe_load sample_export)) h = Inr ps \<longrightarrow>
       list_all (decodes_header (le_string (xe_load sample_export)) (le_strings (xe_load sample_export))) ps"
    using sample_projects sample_decodes by simp
  have hist: "ListHistories (xe_promotion sample_export) (promoted_store 2) = Inr [(sample_memory_id, [sample_revision 2])]"
    using sample_histories by simp
  from Export_ok [OF run root sample_tree_ok hist dec] show ?thesis
    using run by (fastforce simp: selectHistories_def)
qed

section \<open>Two gaps at the root\<close>

text \<open>\<open>filepath.WalkDir\<close> does not enter a root that is a symbolic link, which \<open>os.Stat\<close> accepts: whatever such a
  repository holds, no revision and no loadout of it is loaded.\<close>

lemma symlinked_root_empty:
  "snd (loadRepository env path (RootLink tree)) = empty_repository"
  by (simp add: loadRepository_def load_tree_def root_invalid_def empty_repository_def visit_path_def
      validateRepositoryState_def memory_ids_def validateLoadoutState_def plain_issue_def addIssue_def
      validateSemanticHeads_def semantic_keys_def split: prod.splits)

text \<open>An absolute evidence root and a repository given by a relative path are never found to overlap.\<close>

lemma relative_root_separate:
  "rp_absolute evidence \<Longrightarrow> \<not> rp_absolute repository \<Longrightarrow> \<not> pathsOverlap evidence repository"
  by (simp add: pathsOverlap_def path_contains_def)

section \<open>The format\<close>

text \<open>Property C33. Parsing and rendering a portable revision are inverse to each other: the only input that parses to a
  revision is its rendering, and the rendering parses to it.\<close>

theorem ParseRevision_iff:
  assumes "decodes_header unq unl r"
  shows "ParseRevision en unq unl data = Inr r \<longleftrightarrow> RenderRevision en r = Inr data"
  using Parse_Render [OF _ assms] Parse_canonical by blast

theorem ParseRevision_iff_witness:
  "\<exists>data. RenderRevision quiet_engine sample_portable = Inr data \<and>
     ParseRevision quiet_engine (le_string sample_load) (le_strings sample_load) data = Inr sample_portable"
  using ParseRevision_iff [OF sample_decodes, of quiet_engine sample_data] sample_rendered by blast

section \<open>A verified repository\<close>

lemma strictly_sorted_sort: "distinct xs \<Longrightarrow> strictly_sorted (sort xs)" for xs :: "string list"
  by (metis distinct_sort sorted_sort strict_sorted_iff strictly_sorted_def)

lemma loaded_head:
  assumes v: "verified_state env state" and m: "mid \<in> set (memory_ids (rs_revisions state))"
  shows "\<exists>rs. line_of_memory (rs_revisions state) mid rs \<and> map_of (rs_heads state) mid = Some (last rs)"
proof -
  have "graph_issues (rs_revisions state) mid = []" using v m by (auto simp: verified_state_def)
  then have c: "clean_graph env (rs_revisions state) mid" using v by (simp add: clean_graph_def verified_state_def)
  obtain rs where rs: "line_of_memory (rs_revisions state) mid rs" using linear_history [OF c] by blast
  have "map_of (map (\<lambda>mid. (mid, head_of (rs_revisions state) mid)) ids) mid = Some (head_of (rs_revisions state) mid)"
    if "mid \<in> set ids" for ids using that by (induction ids) auto
  then show ?thesis using rs v m by (auto simp: line_of_memory_def verified_state_def state_of_revisions_def)
qed

lemma line_unique: "line_of_memory all mid rs \<Longrightarrow> line_of_memory all mid rs' \<Longrightarrow> last rs = last rs'"
  by (simp add: line_of_memory_def)

lemma line_head_memory: "line_of_memory all mid rs \<Longrightarrow> last rs \<in> members all mid \<and> pv_memory_id (last rs) = mid"
  by (auto simp: line_of_memory_def members_def dest: last_in_set)

lemma one_per_group:
  assumes "\<And>key. length (semantic_group u heads key) < 2" and "(i, a) \<in> set heads" "(j, b) \<in> set heads"
    and "pv_status a = StatusActive" "pv_status b = StatusActive" "fst (semanticIdentity u a) = fst (semanticIdentity u b)"
  shows "i = j \<and> a = b"
proof (rule ccontr)
  assume "\<not> (i = j \<and> a = b)"
  then have "1 < length (filter (\<lambda>h. pv_status (snd h) = StatusActive \<and> fst (semanticIdentity u (snd h)) = fst (semanticIdentity u b)) heads)"
    using two_in_filter [of "(i, a)" heads "(j, b)"] assms by auto
  then show False using assms(1) [of "fst (semanticIdentity u b)"] by (simp add: semantic_group_def)
qed

lemma active_revisions_spec:
  assumes "loadRepository env path dir = (report, state)" and "pt_issues report = []"
  shows "strictly_sorted (map pv_memory_id (fst (LoadActiveRevisions env path dir))) \<and>
    (\<forall>r. r \<in> set (fst (LoadActiveRevisions env path dir)) \<longleftrightarrow> pv_status r = StatusActive \<and>
       (\<exists>rs. line_of_memory (rs_revisions state) (pv_memory_id r) rs \<and> last rs = r)) \<and>
    (\<forall>a \<in> set (fst (LoadActiveRevisions env path dir)). validateRevision (le_engine env) a = None \<and>
       (\<forall>b \<in> set (fst (LoadActiveRevisions env path dir)).
          fst (semanticIdentity (le_unicode env) a) = fst (semanticIdentity (le_unicode env) b) \<longrightarrow> a = b))"
proof -
  note v = loadRepository_verified [OF assms]
  let ?all = "rs_revisions state" and ?heads = "rs_heads state"
  define ids where "ids = sort (map fst (filter (\<lambda>h. pv_status (snd h) = StatusActive) ?heads))"
  define rs where "rs = map (\<lambda>i. case map_of ?heads i of None \<Rightarrow> zero_revision | Some r \<Rightarrow> r) ids"
  have L: "fst (LoadActiveRevisions env path dir) = rs"
    by (simp add: LoadActiveRevisions_def assms ids_def rs_def)
  have heads: "?heads = map (\<lambda>mid. (mid, head_of ?all mid)) (memory_ids ?all)"
    using v by (simp add: verified_state_def state_of_revisions_def)
  have dist: "distinct (map fst ?heads)" by (simp add: heads comp_def memory_ids_def)
  have bind: "map_of ?heads i = Some r \<longleftrightarrow> (i, r) \<in> set ?heads" for i r
    using dist by (simp add: map_of_eq_Some_iff)
  have head: "(i, r) \<in> set ?heads \<longleftrightarrow> i = pv_memory_id r \<and> (\<exists>l. line_of_memory ?all i l \<and> last l = r)" for i r
  proof
    assume "(i, r) \<in> set ?heads"
    then have "i \<in> set (memory_ids ?all)" "map_of ?heads i = Some r" using bind by (auto simp: heads)
    then show "i = pv_memory_id r \<and> (\<exists>l. line_of_memory ?all i l \<and> last l = r)"
      using loaded_head [OF v] line_head_memory by fastforce
  next
    assume r: "i = pv_memory_id r \<and> (\<exists>l. line_of_memory ?all i l \<and> last l = r)"
    then obtain l where l: "line_of_memory ?all i l" "last l = r" by blast
    then have "i \<in> set (memory_ids ?all)" using line_head_memory by (force simp: memory_ids_def members_def)
    then show "(i, r) \<in> set ?heads" using l by (auto simp: heads line_of_memory_def)
  qed
  have mem: "r \<in> set rs \<longleftrightarrow> pv_status r = StatusActive \<and> (\<exists>i. (i, r) \<in> set ?heads)" for r
  proof -
    have "r \<in> set rs \<longleftrightarrow> (\<exists>i r'. (i, r') \<in> set ?heads \<and> pv_status r' = StatusActive \<and> r = (case map_of ?heads i of None \<Rightarrow> zero_revision | Some r \<Rightarrow> r))"
      by (force simp: rs_def ids_def)
    also have "\<dots> \<longleftrightarrow> pv_status r = StatusActive \<and> (\<exists>i. (i, r) \<in> set ?heads)"
    proof
      assume "\<exists>i r'. (i, r') \<in> set ?heads \<and> pv_status r' = StatusActive \<and> r = (case map_of ?heads i of None \<Rightarrow> zero_revision | Some r \<Rightarrow> r)"
      then obtain i r' where "(i, r') \<in> set ?heads" "pv_status r' = StatusActive"
        "r = (case map_of ?heads i of None \<Rightarrow> zero_revision | Some r \<Rightarrow> r)" by blast
      moreover from this have "r = r'" using bind [THEN iffD2] by simp
      ultimately show "pv_status r = StatusActive \<and> (\<exists>i. (i, r) \<in> set ?heads)" by blast
    next
      assume "pv_status r = StatusActive \<and> (\<exists>i. (i, r) \<in> set ?heads)"
      then obtain i where i: "(i, r) \<in> set ?heads" "pv_status r = StatusActive" by blast
      then have "r = (case map_of ?heads i of None \<Rightarrow> zero_revision | Some r \<Rightarrow> r)" using bind [THEN iffD2] by simp
      with i show "\<exists>i r'. (i, r') \<in> set ?heads \<and> pv_status r' = StatusActive \<and> r = (case map_of ?heads i of None \<Rightarrow> zero_revision | Some r \<Rightarrow> r)"
        by blast
    qed
    finally show ?thesis .
  qed
  have sorted: "strictly_sorted ids"
    unfolding ids_def by (rule strictly_sorted_sort) (use dist in \<open>simp add: distinct_map_filter\<close>)
  have ms: "map pv_memory_id rs = ids"
    unfolding rs_def map_map
  proof (rule map_idI)
    fix i assume "i \<in> set ids"
    then obtain r where "(i, r) \<in> set ?heads" by (auto simp: ids_def)
    then show "(pv_memory_id \<circ> (\<lambda>i. case map_of ?heads i of None \<Rightarrow> zero_revision | Some r \<Rightarrow> r)) i = i"
      using bind [THEN iffD2, of i r] head [THEN iffD1, of i r] by simp
  qed
  have val: "validateRevision (le_engine env) r = None" if "r \<in> set rs" for r
    using that mem head line_head_memory member_id v unfolding verified_state_def by metis
  have one: "a = b" if "a \<in> set rs" "b \<in> set rs" "fst (semanticIdentity (le_unicode env) a) = fst (semanticIdentity (le_unicode env) b)" for a b
    using that mem one_per_group [of "le_unicode env" ?heads _ a _ b] v unfolding verified_state_def by metis
  have ends: "r \<in> set rs \<longleftrightarrow> pv_status r = StatusActive \<and> (\<exists>l. line_of_memory ?all (pv_memory_id r) l \<and> last l = r)" for r
    unfolding mem head by blast
  show ?thesis
    unfolding L ms using sorted by (intro conjI allI ballI impI ends val one)
qed

text \<open>Property C14. What retrieval is given of a repository that loads without an issue: the active revisions are, in
  the order of the memory ids and each memory at most once, exactly the ends of the lines of revisions that are not
  revoked; each of them is valid, and no two say the same in the same scope.\<close>

theorem LoadActiveRevisions_ok:
  assumes "loadRepository env path dir = (report, state)" and "pt_issues report = []"
  shows "strictly_sorted (map pv_memory_id (fst (LoadActiveRevisions env path dir))) \<and>
    (\<forall>r. r \<in> set (fst (LoadActiveRevisions env path dir)) \<longleftrightarrow> pv_status r = StatusActive \<and>
       (\<exists>rs. line_of_memory (rs_revisions state) (pv_memory_id r) rs \<and> last rs = r)) \<and>
    (\<forall>a \<in> set (fst (LoadActiveRevisions env path dir)). validateRevision (le_engine env) a = None \<and>
       (\<forall>b \<in> set (fst (LoadActiveRevisions env path dir)).
          fst (semanticIdentity (le_unicode env) a) = fst (semanticIdentity (le_unicode env) b) \<longrightarrow> a = b))"
  by (rule active_revisions_spec [OF assms])

theorem LoadActiveRevisions_ok_witness:
  "\<exists>a m h. set (fst (LoadActiveRevisions sample_load ''m'' (RootDir (exported_tree a m h)))) = {sample_portable}"
proof -
  obtain a m h where path: "revisionRelativePath sample_portable = [''memories'', a, m, h]"
    "identityFromRevisionPath [''memories'', a, m, h] = Some (sample_memory_id, pv_revision_id sample_portable)"
    by (rule sample_path)
  have b: "\<not> blank ''m''" by code_simp
  obtain report where l: "loadRepository sample_load ''m'' (RootDir (exported_tree a m h)) = (report, sample_state)" "pt_issues report = []"
    using sample_exported_loads [OF path] b by (auto simp: loadRepository_def)
  note ends = LoadActiveRevisions_ok [OF l, THEN conjunct2, THEN conjunct1]
  obtain rs where rs: "line_of_memory sample_binding sample_memory_id rs"
    using linear_history sample_graph(1) loadRepository_verified [OF l]
    by (fastforce simp: clean_graph_def verified_state_def sample_state_def)
  have mem: "members sample_binding i = (if i = sample_memory_id then {sample_portable} else {})" for i
    by (auto simp: members_def sample_binding_def sample_portable_fields)
  let ?L = "set (fst (LoadActiveRevisions sample_load ''m'' (RootDir (exported_tree a m h))))"
  have last: "last rs = sample_portable" using line_head_memory [OF rs] mem [of sample_memory_id] by simp
  have "sample_portable \<in> ?L"
    using ends [THEN spec, of sample_portable] rs last by (simp add: sample_state_def sample_portable_fields) blast
  moreover have "r = sample_portable" if r: "r \<in> ?L" for r
  proof -
    obtain l where "line_of_memory sample_binding (pv_memory_id r) l" "last l = r"
      using ends [THEN spec, of r, THEN iffD1, OF r] unfolding sample_state_def repository_state.simps by blast
    then have "r \<in> members sample_binding (pv_memory_id r)" using line_head_memory by blast
    then show ?thesis using mem by (auto split: if_splits)
  qed
  ultimately have "?L = {sample_portable}" by blast
  then show ?thesis by blast
qed

end
