(* ===== verification/Retrieval_Text.thy ===== *)
theory Retrieval_Text
  imports Portable_Types
begin

text \<open>
  The text functions of retrieval (\<open>internal/retrieval/search.go\<close>): the terms a text is searched by, the
  normalised phrase, and the token estimate of the budgets. Runes are held in their UTF-8 encoding, as in
  \<open>Candidate_Text\<close>. What \<open>unicode.In\<close> says of Han, Hiragana, Katakana and Hangul and what
  \<open>strconv.IsPrint\<close> says of a rune outside ASCII are arguments.
\<close>

record lexicon =
  lx_unicode :: unicode
  lx_cjk :: "string \<Rightarrow> bool"
  lx_print :: "string \<Rightarrow> bool"

section \<open>Terms\<close>

definition ignoredTerms :: "string list" where
  "ignoredTerms =
     [''a'', ''an'', ''and'', ''are'', ''as'', ''at'', ''be'', ''by'', ''for'', ''from'', ''in'', ''is'', ''it'',
      ''of'', ''on'', ''or'', ''that'', ''the'', ''this'', ''to'', ''with'',
      [CHR 0xE4, CHR 0xB8, CHR 0x80, CHR 0xE4, CHR 0xB8, CHR 0xAA],
      [CHR 0xE4, CHR 0xBB, CHR 0xA5, CHR 0xE5, CHR 0x8F, CHR 0x8A],
      [CHR 0xE5, CHR 0x8F, CHR 0xAF, CHR 0xE4, CHR 0xBB, CHR 0xA5],
      [CHR 0xE5, CHR 0xBA, CHR 0x94, CHR 0xE8, CHR 0xAF, CHR 0xA5],
      [CHR 0xE8, CHR 0xBF, CHR 0x99, CHR 0xE4, CHR 0xB8, CHR 0xAA],
      [CHR 0xE9, CHR 0x9C, CHR 0x80, CHR 0xE8, CHR 0xA6, CHR 0x81]]"

definition ignoredTerm :: "string \<Rightarrow> bool" where
  "ignoredTerm term \<longleftrightarrow> term \<in> set ignoredTerms"

definition flushWord :: "string \<Rightarrow> string list" where
  "flushWord word = (if word = [] \<or> ignoredTerm word then [] else [word])"

text \<open>A run of one character is a term; a longer run is searched by its pairs of neighbours.\<close>

definition flushCJK :: "string list \<Rightarrow> string list" where
  "flushCJK cjk = filter (\<lambda>t. \<not> ignoredTerm t) (if length cjk = 1 then cjk else map2 (@) cjk (tl cjk))"

fun lexical_from :: "lexicon \<Rightarrow> string \<Rightarrow> string list \<Rightarrow> string list \<Rightarrow> string list" where
  "lexical_from lx word cjk [] = flushWord word @ flushCJK cjk"
| "lexical_from lx word cjk (r # rs) =
     (if lx_cjk lx r then flushWord word @ lexical_from lx [] (cjk @ [r]) rs
      else flushCJK cjk @
        (if uc_word (lx_unicode lx) r then lexical_from lx (word @ r) [] rs
         else flushWord word @ lexical_from lx [] [] rs))"

definition lexicalTerms :: "lexicon \<Rightarrow> string \<Rightarrow> string list" where
  "lexicalTerms lx value = lexical_from lx [] [] (runes (uc_lower (lx_unicode lx) value))"

definition frequencies :: "string list \<Rightarrow> string \<Rightarrow> nat" where
  "frequencies terms = count_list terms"

definition normalizePhrase :: "lexicon \<Rightarrow> string \<Rightarrow> string" where
  "normalizePhrase lx value =
     trimSpace (normalize_runes (lx_unicode lx) [] False (runes (uc_lower (lx_unicode lx) value)))"

section \<open>The token estimate\<close>

text \<open>A letter or a digit of ASCII.\<close>

definition ascii_word :: "string \<Rightarrow> bool" where
  "ascii_word r \<longleftrightarrow>
     (case r of [c] \<Rightarrow> byte_in 48 57 c \<or> byte_in 65 90 c \<or> byte_in 97 122 c | _ \<Rightarrow> False)"

definition flushASCII :: "nat \<Rightarrow> nat" where
  "flushASCII run = (if 0 < run then (run + 3) div 4 else 0)"

fun count_tokens :: "nat \<Rightarrow> nat \<Rightarrow> string list \<Rightarrow> nat" where
  "count_tokens count run [] = count + flushASCII run"
| "count_tokens count run (r # rs) =
     (if ascii_word r then count_tokens count (Suc run) rs
      else let count = count + flushASCII run in
        if r \<in> set space_encodings then count_tokens count 0 rs
        else if 1 < length r then count_tokens (count + 2) 0 rs
        else count_tokens (count + 1) 0 rs)"

definition estimateTokens :: "string \<Rightarrow> int" where
  "estimateTokens value =
     (let count = count_tokens 0 0 (runes value) in if count = 0 \<and> value \<noteq> [] then 1 else int count)"

lemma estimateTokens_nonneg [simp]: "0 \<le> estimateTokens s"
  by (simp add: estimateTokens_def Let_def)

section \<open>Quoting\<close>

text \<open>The verb \<open>%q\<close> of \<open>fmt\<close>, which is \<open>strconv.Quote\<close>. The code point of an encoded rune:\<close>

fun rune_value :: "string \<Rightarrow> int" where
  "rune_value [a] = of_char a"
| "rune_value [a, b] = (of_char a - 0xC0) * 64 + (of_char b - 0x80)"
| "rune_value [a, b, c] = (of_char a - 0xE0) * 4096 + (of_char b - 0x80) * 64 + (of_char c - 0x80)"
| "rune_value [a, b, c, d] =
     (of_char a - 0xF0) * 262144 + (of_char b - 0x80) * 4096 + (of_char c - 0x80) * 64 + (of_char d - 0x80)"
| "rune_value _ = 0xFFFD"

definition quote_rune :: "lexicon \<Rightarrow> string \<Rightarrow> string" where
  "quote_rune lx r =
     (let v = rune_value r in
      if v = 0x22 \<or> v = 0x5C then CHR 0x5C # r
      else if (if v < 0x80 then 0x20 \<le> v \<and> v < 0x7F else lx_print lx r) then r
      else if v = 0x07 then [CHR 0x5C, CHR ''a'']
      else if v = 0x08 then [CHR 0x5C, CHR ''b'']
      else if v = 0x0C then [CHR 0x5C, CHR ''f'']
      else if v = 0x0A then [CHR 0x5C, CHR ''n'']
      else if v = 0x0D then [CHR 0x5C, CHR ''r'']
      else if v = 0x09 then [CHR 0x5C, CHR ''t'']
      else if v = 0x0B then [CHR 0x5C, CHR ''v'']
      else if v < 0x80 then CHR 0x5C # CHR ''x'' # hex_byte v
      else if v < 0x10000 then CHR 0x5C # CHR ''u'' # hex_byte (v div 256) @ hex_byte (v mod 256)
      else CHR 0x5C # CHR ''U'' # hex_byte 0 @ hex_byte (v div 65536) @ hex_byte (v div 256 mod 256) @ hex_byte (v mod 256))"

function quote_chars :: "lexicon \<Rightarrow> string \<Rightarrow> string" where
  "quote_chars lx s =
     (if s = [] then []
      else let n = utf8_len s in
        if n = 0 then CHR 0x5C # CHR ''x'' # hex_byte (of_char (hd s)) @ quote_chars lx (tl s)
        else quote_rune lx (take n s) @ quote_chars lx (drop n s))"
  by pat_completeness auto
termination
  by (relation "measure (\<lambda>(lx, s). length s)") (auto simp: Let_def)

declare quote_chars.simps [simp del]

definition quote :: "lexicon \<Rightarrow> string \<Rightarrow> string" where
  "quote lx s = CHR 0x22 # quote_chars lx s @ [CHR 0x22]"

section \<open>Terms are not blank\<close>

text \<open>No white space character is a letter, a digit or of a CJK script.\<close>

definition lexicon_ok :: "lexicon \<Rightarrow> bool" where
  "lexicon_ok lx \<longleftrightarrow> (\<forall>r \<in> set space_encodings. \<not> uc_word (lx_unicode lx) r \<and> \<not> lx_cjk lx r)"

text \<open>The length of an encoding is read off its own bytes.\<close>

lemma utf8_len_le: "utf8_len s \<le> length s"
  by (cases s) (auto simp: utf8_two_def utf8_three_def utf8_four_def split: list.splits)

lemma utf8_len_prefix:
  assumes "utf8_len s = n" and "0 < n"
  shows "utf8_len (take n s @ t) = n"
proof (cases s)
  case Nil
  with assms show ?thesis by simp
next
  case (Cons a s')
  show ?thesis
    using assms unfolding Cons
    by (auto simp: utf8_two_def utf8_three_def utf8_four_def eval_nat_numeral
        split: list.splits if_splits)
qed

lemma space_encodings_len: "list_all (\<lambda>e. utf8_len e = length e \<and> e \<noteq> []) space_encodings"
  by code_simp

lemma space_encoding_len: "e \<in> set space_encodings \<Longrightarrow> utf8_len (e @ t) = length e \<and> 0 < length e"
  using space_encodings_len utf8_len_prefix [of e "length e" t] by (auto simp: list_all_iff)

lemma space_prefix_cases:
  "space_prefix es s = 0 \<or> (\<exists>e \<in> set es. hasPrefix s e \<and> space_prefix es s = length e)"
  by (induction es) auto

lemma space_prefix_rune:
  assumes "utf8_len r = length r" and "r \<noteq> []" and "r \<notin> set space_encodings"
  shows "space_prefix space_encodings (r @ t) = 0"
proof (rule ccontr)
  assume "space_prefix space_encodings (r @ t) \<noteq> 0"
  then obtain e where e: "e \<in> set space_encodings" "hasPrefix (r @ t) e"
    using space_prefix_cases [of space_encodings "r @ t"] by auto
  from e(2) obtain t' where t': "r @ t = e @ t'" by (elim hasPrefixE)
  have "utf8_len (r @ t) = length r" using utf8_len_prefix [of r "length r" t] assms by simp
  moreover have "utf8_len (e @ t') = length e" using space_encoding_len [OF e(1)] by simp
  ultimately have "r = e" using t' by (simp add: append_eq_append_conv)
  then show False using e(1) assms(3) by simp
qed

text \<open>A string is blank only if it begins with a white space character.\<close>

lemma space_prefix_append: "space_prefix es s \<noteq> 0 \<Longrightarrow> space_prefix es (s @ t) \<noteq> 0"
  by (induction es) (auto simp: hasPrefix_def split: if_splits)

lemma trim_rev_Nil:
  assumes "trim_with (map rev es) (rev s) = []" and "s \<noteq> []" and ne: "[] \<notin> set es"
  shows "space_prefix es s \<noteq> 0"
  using assms(1,2)
proof (induction "length s" arbitrary: s rule: less_induct)
  case less
  let ?n = "space_prefix (map rev es) (rev s)"
  have "trim_with (map rev es) (rev s) = (if ?n = 0 then rev s else trim_with (map rev es) (drop ?n (rev s)))"
    using less.prems(2) by (subst trim_with.simps) (simp add: Let_def)
  then have n: "?n \<noteq> 0" "trim_with (map rev es) (drop ?n (rev s)) = []"
    using less.prems by (auto split: if_splits)
  obtain e where e: "e \<in> set es" "hasPrefix (rev s) (rev e)" "?n = length e"
    using space_prefix_cases [of "map rev es" "rev s"] n(1) by auto
  from e(2) obtain t where "rev s = rev e @ t" by (elim hasPrefixE)
  then have s: "s = rev t @ e" by (metis rev_append rev_rev_ident)
  show ?case
  proof (cases "t = []")
    case True
    then have "s = e" using s by simp
    moreover have "space_prefix es e \<noteq> 0" using e(1) less.prems(2) ne \<open>s = e\<close>
      by (induction es) (auto simp: hasPrefix_def)
    ultimately show ?thesis by simp
  next
    case False
    have "trim_with (map rev es) (rev (rev t)) = []" using n(2) e(3) s by simp
    then have "space_prefix es (rev t) \<noteq> 0" using less.hyps [of "rev t"] n(1) e(3) False s by simp
    then show ?thesis using space_prefix_append s by blast
  qed
qed

lemma not_blank:
  assumes "space_prefix space_encodings s = 0" and "s \<noteq> []"
  shows "\<not> blank s"
proof
  assume b: "blank s"
  have "trimLeftSpace s = s" using assms by (simp add: trimLeftSpace_def trim_with.simps Let_def)
  then have "trim_with (map rev space_encodings) (rev s) = []"
    using b by (simp add: trimSpace_def trimRightSpace_def)
  moreover have "[] \<notin> set space_encodings" by (simp add: space_encodings_def)
  ultimately show False using trim_rev_Nil assms by blast
qed

definition starts_visible :: "string \<Rightarrow> bool" where
  "starts_visible w \<longleftrightarrow> (\<exists>r t. w = r @ t \<and> r \<noteq> [] \<and> utf8_len r = length r \<and> r \<notin> set space_encodings)"

lemma starts_visible_not_blank: "starts_visible w \<Longrightarrow> \<not> blank w"
  using space_prefix_rune not_blank by (fastforce simp: starts_visible_def)

lemma starts_visible_append [intro]: "starts_visible w \<Longrightarrow> starts_visible (w @ t)"
  unfolding starts_visible_def by (metis append.assoc)

lemma runes_encoded: "r \<in> set (runes s) \<Longrightarrow> utf8_len r = length r \<and> r \<noteq> []"
proof (induction s rule: runes.induct)
  case (1 s)
  show ?case
  proof (cases "s = []")
    case True
    with 1 show ?thesis by (simp add: runes.simps)
  next
    case False
    let ?n = "utf8_len s"
    have e: "runes s = (if ?n = 0 then runeError # runes (tl s) else take ?n s # runes (drop ?n s))"
      using False by (subst runes.simps) (simp add: Let_def)
    have "utf8_len runeError = length runeError" by code_simp
    moreover have "utf8_len (take ?n s) = length (take ?n s) \<and> take ?n s \<noteq> []" if "?n \<noteq> 0"
      using utf8_len_prefix [of s ?n "[]"] utf8_len_le [of s] that False by simp
    ultimately show ?thesis using 1 False e by (auto split: if_splits)
  qed
qed

lemma flushWord_visible: "t \<in> set (flushWord w) \<Longrightarrow> w = [] \<or> starts_visible w \<Longrightarrow> starts_visible t"
  by (auto simp: flushWord_def split: if_splits)

lemma flushCJK_visible: "t \<in> set (flushCJK cs) \<Longrightarrow> \<forall>c \<in> set cs. starts_visible c \<Longrightarrow> starts_visible t"
  by (auto simp: flushCJK_def split: if_splits dest: set_zip_leftD)

lemma lexical_from_visible:
  "lexicon_ok lx \<Longrightarrow> t \<in> set (lexical_from lx w cs rs) \<Longrightarrow> w = [] \<or> starts_visible w \<Longrightarrow> \<forall>c \<in> set cs. starts_visible c \<Longrightarrow>
    \<forall>r \<in> set rs. utf8_len r = length r \<and> r \<noteq> [] \<Longrightarrow> starts_visible t"
proof (induction lx w cs rs rule: lexical_from.induct)
  case (1 lx w cs)
  then show ?case using flushWord_visible flushCJK_visible by auto
next
  case (2 lx w cs r rs)
  have r: "starts_visible r" if "lx_cjk lx r \<or> uc_word (lx_unicode lx) r"
    using that 2(4,8) unfolding starts_visible_def lexicon_ok_def by (metis append_Nil2 list.set_intros(1))
  consider (cjk) "lx_cjk lx r" | (word) "\<not> lx_cjk lx r" "uc_word (lx_unicode lx) r"
    | (other) "\<not> lx_cjk lx r" "\<not> uc_word (lx_unicode lx) r" by blast
  then show ?case
  proof cases
    case cjk
    then have "t \<in> set (flushWord w) \<or> t \<in> set (lexical_from lx [] (cs @ [r]) rs)" using 2(5) by simp
    moreover have "\<forall>c \<in> set (cs @ [r]). starts_visible c" using 2(7) r cjk by simp
    ultimately show ?thesis using 2(1) [OF cjk] 2(4,6,8) flushWord_visible by auto
  next
    case word
    then have "t \<in> set (flushCJK cs) \<or> t \<in> set (lexical_from lx (w @ r) [] rs)" using 2(5) by simp
    moreover have "starts_visible (w @ r)" using 2(6) r word by auto
    ultimately show ?thesis using 2(2) [OF word] 2(4,7,8) flushCJK_visible by auto
  next
    case other
    then have "t \<in> set (flushCJK cs) \<or> t \<in> set (flushWord w) \<or> t \<in> set (lexical_from lx [] [] rs)" using 2(5) by simp
    then show ?thesis using 2(3) [OF other] 2(4,6,7,8) flushCJK_visible flushWord_visible by auto
  qed
qed

lemma lexicalTerms_visible:
  assumes "lexicon_ok lx" and "t \<in> set (lexicalTerms lx v)"
  shows "\<not> blank t"
proof (rule starts_visible_not_blank)
  show "starts_visible t"
    by (rule lexical_from_visible [OF assms(1) assms(2) [unfolded lexicalTerms_def]]) (auto dest: runes_encoded)
qed

end
