(* ===== verification/Retrieval_Types.thy ===== *)
theory Retrieval_Types
  imports Retrieval_Text
begin

text \<open>
  The data of retrieval (\<open>internal/retrieval/types.go\<close>) and its JSON encoding. A slice of the source whose nil
  value is told apart from an empty one by the verifier is an option; the embedded \<open>MemoryReference\<close> of a match
  and of an adoption item is a field whose two members are encoded in place.
\<close>

abbreviation RequestSchemaVersion_retrieval :: string where "RequestSchemaVersion_retrieval \<equiv> ''memory-retrieval-request/v1alpha1''"
abbreviation ResultSchemaVersion :: string where "ResultSchemaVersion \<equiv> ''memory-retrieval-result/v1alpha1''"
abbreviation ReceiptSchemaVersion :: string where "ReceiptSchemaVersion \<equiv> ''memory-retrieval-receipt/v1alpha1''"
abbreviation ContextSchemaVersion :: string where "ContextSchemaVersion \<equiv> ''memory-context/v1alpha1''"
abbreviation InjectionReceiptSchemaVersion :: string where "InjectionReceiptSchemaVersion \<equiv> ''memory-injection-receipt/v1alpha1''"
abbreviation AdoptionRequestSchemaVersion :: string where "AdoptionRequestSchemaVersion \<equiv> ''memory-adoption-request/v1alpha1''"
abbreviation AdoptionReceiptSchemaVersion :: string where "AdoptionReceiptSchemaVersion \<equiv> ''memory-adoption-receipt/v1alpha1''"
abbreviation AdapterVersion_retrieval :: string where "AdapterVersion_retrieval \<equiv> ''v1alpha1''"
abbreviation PrivacyLocalOnly_retrieval :: string where "PrivacyLocalOnly_retrieval \<equiv> ''local_only''"
abbreviation DefaultLimit :: int where "DefaultLimit \<equiv> 5"
abbreviation MaximumLimit :: int where "MaximumLimit \<equiv> 20"
abbreviation DefaultTokenBudget :: int where "DefaultTokenBudget \<equiv> 800"
abbreviation MaximumTokenBudget :: int where "MaximumTokenBudget \<equiv> 4096"
abbreviation DefaultByteBudget :: int where "DefaultByteBudget \<equiv> 4096"
abbreviation MaximumByteBudget :: int where "MaximumByteBudget \<equiv> 65536"
abbreviation MaximumQueryBytes :: nat where "MaximumQueryBytes \<equiv> 65536"

abbreviation ChannelCLI :: string where "ChannelCLI \<equiv> ''cli''"

abbreviation KindInjection :: string where "KindInjection \<equiv> ''memory_injection''"
abbreviation KindAdoption :: string where "KindAdoption \<equiv> ''memory_adoption''"

abbreviation AdoptionAdopted :: string where "AdoptionAdopted \<equiv> ''adopted''"
abbreviation AdoptionNotAdopted :: string where "AdoptionNotAdopted \<equiv> ''not_adopted''"
abbreviation AdoptionUnknown :: string where "AdoptionUnknown \<equiv> ''unknown''"
abbreviation OutcomeHelpful :: string where "OutcomeHelpful \<equiv> ''helpful''"
abbreviation OutcomeNeutral :: string where "OutcomeNeutral \<equiv> ''neutral''"
abbreviation OutcomeHarmful :: string where "OutcomeHarmful \<equiv> ''harmful''"
abbreviation OutcomeUnknown :: string where "OutcomeUnknown \<equiv> ''unknown''"

section \<open>Requests\<close>

record retrieval_context =
  rx_agent :: agent
  rx_thread_id :: string
  rx_session_id :: string
  rx_repository :: string
  rx_project :: string
  rx_task :: string
  rx_channel :: string

record retrieval_request =
  se_schema_version :: string
  se_query :: string
  se_memory_id :: string
  se_context :: retrieval_context
  se_limit :: int
  se_token_budget :: int
  se_byte_budget :: int

definition retrieval_context_json :: "retrieval_context \<Rightarrow> json" where
  "retrieval_context_json x = JObj
     ([(''agent'', JStr (rx_agent x))] @ omit_str ''thread_id'' (rx_thread_id x) @
      omit_str ''session_id'' (rx_session_id x) @ omit_str ''repository'' (rx_repository x) @
      omit_str ''project'' (rx_project x) @ omit_str ''task'' (rx_task x) @
      [(''channel'', JStr (rx_channel x))])"

definition retrieval_request_json :: "retrieval_request \<Rightarrow> json" where
  "retrieval_request_json q = JObj
     ([(''schema_version'', JStr (se_schema_version q))] @ omit_str ''query'' (se_query q) @
      omit_str ''memory_id'' (se_memory_id q) @
      [(''context'', retrieval_context_json (se_context q)), (''limit'', JInt (se_limit q)),
       (''token_budget'', JInt (se_token_budget q)), (''byte_budget'', JInt (se_byte_budget q))])"

section \<open>Results\<close>

record memory_reference =
  mr_memory_id :: string
  mr_revision_id :: string

definition memory_reference_fields :: "memory_reference \<Rightarrow> (string \<times> json) list" where
  "memory_reference_fields r = [(''memory_id'', JStr (mr_memory_id r)), (''revision_id'', JStr (mr_revision_id r))]"

record memory_match =
  mm_reference :: memory_reference
  mm_kind :: string
  mm_scope_kind :: string
  mm_scope_value :: string
  mm_basis :: "string list option"
  mm_text :: string
  mm_text_sha256 :: string
  mm_score :: int
  mm_terms :: "string list option"
  mm_tokens :: int
  mm_bytes :: int
  mm_specificity :: int
  mm_rationale :: "string list option"

definition memory_match_json :: "memory_match \<Rightarrow> json" where
  "memory_match_json m = JObj
     (memory_reference_fields (mm_reference m) @
      [(''kind'', JStr (mm_kind m)), (''scope_kind'', JStr (mm_scope_kind m)), (''scope_value'', JStr (mm_scope_value m)),
       (''evidence_basis'', json_slice JStr (mm_basis m)), (''text'', JStr (mm_text m)),
       (''text_sha256'', JStr (mm_text_sha256 m)), (''score'', JInt (mm_score m)),
       (''matched_terms'', json_slice JStr (mm_terms m)), (''estimated_tokens'', JInt (mm_tokens m)),
       (''bytes'', JInt (mm_bytes m)), (''scope_specificity'', JInt (mm_specificity m)),
       (''selection_rationale'', json_slice JStr (mm_rationale m))])"

record exclusion_counts =
  xc_scope_mismatch :: int
  xc_no_lexical_match :: int
  xc_result_limit :: int
  xc_token_budget :: int
  xc_byte_budget :: int

definition exclusion_counts_json :: "exclusion_counts \<Rightarrow> json" where
  "exclusion_counts_json x = JObj
     [(''scope_mismatch'', JInt (xc_scope_mismatch x)), (''no_lexical_match'', JInt (xc_no_lexical_match x)),
      (''result_limit'', JInt (xc_result_limit x)), (''token_budget'', JInt (xc_token_budget x)),
      (''byte_budget'', JInt (xc_byte_budget x))]"

definition no_exclusions :: exclusion_counts where
  "no_exclusions = \<lparr>xc_scope_mismatch = 0, xc_no_lexical_match = 0, xc_result_limit = 0, xc_token_budget = 0, xc_byte_budget = 0\<rparr>"

record retrieval_result =
  rt_schema_version :: string
  rt_receipt_id :: string
  rt_status :: string
  rt_selector_sha256 :: string
  rt_repository_state :: string
  rt_issues :: "string list option"
  rt_active :: int
  rt_applicable :: int
  rt_selected :: "memory_match list option"
  rt_selected_tokens :: int
  rt_selected_bytes :: int
  rt_token_budget :: int
  rt_byte_budget :: int
  rt_exclusions :: exclusion_counts
  rt_gaps :: "string list option"
  rt_privacy :: string

definition retrieval_result_json :: "retrieval_result \<Rightarrow> json" where
  "retrieval_result_json r = JObj
     ([(''schema_version'', JStr (rt_schema_version r)), (''receipt_id'', JStr (rt_receipt_id r)),
       (''status'', JStr (rt_status r)), (''selector_sha256'', JStr (rt_selector_sha256 r))] @
      omit_str ''repository_state_sha256'' (rt_repository_state r) @
      [(''repository_issues'', json_slice JStr (rt_issues r)), (''active_memories'', JInt (rt_active r)),
       (''applicable_memories'', JInt (rt_applicable r)), (''selected'', json_slice memory_match_json (rt_selected r)),
       (''selected_estimated_tokens'', JInt (rt_selected_tokens r)), (''selected_bytes'', JInt (rt_selected_bytes r)),
       (''token_budget'', JInt (rt_token_budget r)), (''byte_budget'', JInt (rt_byte_budget r)),
       (''exclusions'', exclusion_counts_json (rt_exclusions r)), (''context_gaps'', json_slice JStr (rt_gaps r)),
       (''privacy'', JStr (rt_privacy r))])"

text \<open>The zero value of a \<open>Result\<close>, and the matches of a result, which a nil slice does not have.\<close>

definition zero_result :: retrieval_result where
  "zero_result = \<lparr>rt_schema_version = [], rt_receipt_id = [], rt_status = [], rt_selector_sha256 = [],
     rt_repository_state = [], rt_issues = None, rt_active = 0, rt_applicable = 0, rt_selected = None,
     rt_selected_tokens = 0, rt_selected_bytes = 0, rt_token_budget = 0, rt_byte_budget = 0,
     rt_exclusions = no_exclusions, rt_gaps = None, rt_privacy = []\<rparr>"

definition selected_matches :: "retrieval_result \<Rightarrow> memory_match list" where
  "selected_matches r = (case rt_selected r of None \<Rightarrow> [] | Some ms \<Rightarrow> ms)"

section \<open>Receipts\<close>

record retrieval_receipt =
  tc_schema_version :: string
  tc_receipt_id :: string
  tc_recorded_at :: gotime
  tc_portable_root :: string
  tc_portable_root_sha256 :: string
  tc_request :: retrieval_request
  tc_request_sha256 :: string
  tc_result :: retrieval_result
  tc_privacy :: string

definition retrieval_receipt_json :: "retrieval_receipt \<Rightarrow> json" where
  "retrieval_receipt_json t = JObj
     [(''schema_version'', JStr (tc_schema_version t)), (''receipt_id'', JStr (tc_receipt_id t)),
      (''recorded_at'', JTime (tc_recorded_at t)), (''portable_root'', JStr (tc_portable_root t)),
      (''portable_root_sha256'', JStr (tc_portable_root_sha256 t)), (''request'', retrieval_request_json (tc_request t)),
      (''request_sha256'', JStr (tc_request_sha256 t)), (''result'', retrieval_result_json (tc_result t)),
      (''privacy'', JStr (tc_privacy t))]"

record context_result =
  cx_schema_version :: string
  cx_injection_id :: string
  cx_retrieval :: retrieval_result
  cx_memories :: "memory_reference list"
  cx_content :: string
  cx_content_sha256 :: string
  cx_content_bytes :: int
  cx_tokens :: int
  cx_privacy :: string

record injection_receipt =
  ij_schema_version :: string
  ij_injection_id :: string
  ij_retrieval_id :: string
  ij_recorded_at :: gotime
  ij_channel :: string
  ij_content :: string
  ij_content_sha256 :: string
  ij_content_bytes :: int
  ij_tokens :: int
  ij_memories :: "memory_reference list"
  ij_privacy :: string

definition injection_receipt_json :: "injection_receipt \<Rightarrow> json" where
  "injection_receipt_json i = JObj
     [(''schema_version'', JStr (ij_schema_version i)), (''injection_id'', JStr (ij_injection_id i)),
      (''retrieval_receipt_id'', JStr (ij_retrieval_id i)), (''recorded_at'', JTime (ij_recorded_at i)),
      (''channel'', JStr (ij_channel i)), (''content'', JStr (ij_content i)),
      (''content_sha256'', JStr (ij_content_sha256 i)), (''content_bytes'', JInt (ij_content_bytes i)),
      (''estimated_tokens'', JInt (ij_tokens i)),
      (''memories'', JArr (map (\<lambda>m. JObj (memory_reference_fields m)) (ij_memories i))),
      (''privacy'', JStr (ij_privacy i))]"

record reporter =
  po_kind :: string
  po_id :: string

record adoption_item =
  ai_reference :: memory_reference
  ai_adoption :: string
  ai_outcome :: string
  ai_reason :: string

record adoption_request =
  dq_schema_version :: string
  dq_reporter :: reporter
  dq_retrieval_id :: string
  dq_injection_id :: string
  dq_items :: "adoption_item list"
  dq_evidence :: "string list"

record adoption_receipt =
  dr_schema_version :: string
  dr_adoption_id :: string
  dr_recorded_at :: gotime
  dr_reporter :: reporter
  dr_retrieval_id :: string
  dr_injection_id :: string
  dr_items :: "adoption_item list"
  dr_evidence :: "string list"
  dr_request_sha256 :: string
  dr_privacy :: string

definition reporter_json :: "reporter \<Rightarrow> json" where
  "reporter_json p = JObj [(''kind'', JStr (po_kind p)), (''id'', JStr (po_id p))]"

definition adoption_item_json :: "adoption_item \<Rightarrow> json" where
  "adoption_item_json i = JObj
     (memory_reference_fields (ai_reference i) @
      [(''adoption'', JStr (ai_adoption i)), (''outcome'', JStr (ai_outcome i)), (''reason'', JStr (ai_reason i))])"

definition adoption_request_json :: "adoption_request \<Rightarrow> json" where
  "adoption_request_json q = JObj
     ([(''schema_version'', JStr (dq_schema_version q)), (''reporter'', reporter_json (dq_reporter q)),
       (''retrieval_receipt_id'', JStr (dq_retrieval_id q))] @ omit_str ''injection_id'' (dq_injection_id q) @
      [(''items'', JArr (map adoption_item_json (dq_items q)))] @
      omit_list ''outcome_evidence_event_ids'' (map JStr (dq_evidence q)))"

definition adoption_receipt_json :: "adoption_receipt \<Rightarrow> json" where
  "adoption_receipt_json r = JObj
     ([(''schema_version'', JStr (dr_schema_version r)), (''adoption_id'', JStr (dr_adoption_id r)),
       (''recorded_at'', JTime (dr_recorded_at r)), (''reporter'', reporter_json (dr_reporter r)),
       (''retrieval_receipt_id'', JStr (dr_retrieval_id r))] @ omit_str ''injection_id'' (dr_injection_id r) @
      [(''items'', JArr (map adoption_item_json (dr_items r)))] @
      omit_list ''outcome_evidence_event_ids'' (map JStr (dr_evidence r)) @
      [(''request_sha256'', JStr (dr_request_sha256 r)), (''privacy'', JStr (dr_privacy r))])"

record receipt_report =
  vn_retrievals :: int
  vn_injections :: int
  vn_adoptions :: int
  vn_open :: "string list"
  vn_issues :: "string list"

section \<open>The small checks\<close>

definition validAgent_retrieval :: "agent \<Rightarrow> bool" where
  "validAgent_retrieval a \<longleftrightarrow>
     a = AgentCodex \<or> a = AgentClaudeCode \<or> a = AgentOpenCode \<or> a = AgentDeepSeekHarness \<or> a = AgentUnknown"

definition validChannel :: "string \<Rightarrow> bool" where
  "validChannel c \<longleftrightarrow>
     c \<in> {ChannelCLI, ''mcp'', ''codex_hook'', ''claude_code_hook'', ''opencode_plugin'', ''harness''}"

definition validPrefixedHash_retrieval :: "string \<Rightarrow> string \<Rightarrow> bool" where
  "validPrefixedHash_retrieval value p \<longleftrightarrow>
     hasPrefix value p \<and>
     (let digest = trimPrefix value p in
      \<not> (length digest \<noteq> 64 \<or> map ascii_lower digest \<noteq> digest) \<and>
      list_all (\<lambda>c. c \<in> set ''0123456789abcdef'') digest)"

definition validDigest :: "string \<Rightarrow> bool" where
  "validDigest value = validPrefixedHash_retrieval (''digest-'' @ value) ''digest-''"

definition validMemoryReference :: "memory_reference \<Rightarrow> bool" where
  "validMemoryReference r \<longleftrightarrow>
     validPrefixedHash_retrieval (mr_memory_id r) ''memory-'' \<and>
     validPrefixedHash_retrieval (mr_revision_id r) ''portable-revision-''"

definition referenceKey :: "memory_reference \<Rightarrow> string" where
  "referenceKey r = mr_memory_id r @ CHR 0x00 # mr_revision_id r"

definition validReporter :: "reporter \<Rightarrow> bool" where
  "validReporter p \<longleftrightarrow> \<not> blank (po_id p) \<and> (po_kind p = ''human'' \<or> po_kind p = ''agent'' \<or> po_kind p = ''harness'')"

fun isSortedUnique :: "string list \<Rightarrow> bool" where
  "isSortedUnique [] \<longleftrightarrow> True"
| "isSortedUnique [v] \<longleftrightarrow> \<not> blank v"
| "isSortedUnique (v # w # vs) \<longleftrightarrow> \<not> blank v \<and> v < w \<and> isSortedUnique (w # vs)"

definition sortedUnique_retrieval :: "string list \<Rightarrow> string list" where
  "sortedUnique_retrieval values = remdups_adj (filter (\<lambda>v. v \<noteq> []) (sort values))"

definition contextGaps :: "retrieval_context \<Rightarrow> string list" where
  "contextGaps x =
     (if blank (rx_thread_id x) then [''thread_id_unavailable''] else []) @
     (if blank (rx_session_id x) then [''session_id_unavailable''] else [])"

definition threadIDForContext :: "retrieval_context \<Rightarrow> string" where
  "threadIDForContext x = (if blank (rx_thread_id x) then ''standalone-retrieval'' else rx_thread_id x)"

lemma hex_digits_lower: "c \<in> set ''0123456789abcdef'' \<longleftrightarrow> lower_hex c"
proof
  have "list_all lower_hex ''0123456789abcdef''" by code_simp
  then show "c \<in> set ''0123456789abcdef'' \<Longrightarrow> lower_hex c" by (simp only: list_all_iff)
next
  assume c: "lower_hex c"
  have "list_all (\<lambda>n. char_of n \<in> set ''0123456789abcdef'') ([48..57] @ [97..102 :: int])" by code_simp
  moreover have "(of_char c :: int) \<in> set ([48..57] @ [97..102])" using c unfolding lower_hex_def set_append set_upto by auto
  ultimately have "char_of (of_char c :: int) \<in> set ''0123456789abcdef''" by (simp only: list_all_iff)
  then show "c \<in> set ''0123456789abcdef''" by (simp only: char_of_char)
qed

lemma validPrefixedHash_retrieval_iff: "validPrefixedHash_retrieval value p \<longleftrightarrow> validPrefixedHash value p"
proof -
  have "map ascii_lower v = v" if "\<forall>c \<in> set v. lower_hex c" for v
    using that by (simp add: ascii_lower_lower_hex map_idI)
  then show ?thesis
    by (auto simp: validPrefixedHash_retrieval_def validPrefixedHash_def validSHA256_iff Let_def list_all_iff
        hex_digits_lower simp del: set_simps)
qed

lemma validDigest_sha256 [simp]: "validDigest (sha256_hex s)"
  unfolding validDigest_def validPrefixedHash_retrieval_iff by (rule validPrefixedHash_append [THEN iffD2]) simp

lemma isSortedUnique_iff: "isSortedUnique vs \<longleftrightarrow> strictly_sorted vs \<and> (\<forall>v \<in> set vs. \<not> blank v)"
proof (induction vs rule: isSortedUnique.induct)
  case (3 v w vs)
  then show ?case by (auto simp: strictly_sorted_def dest: less_trans)
qed (auto simp: strictly_sorted_def)

end
