(* ===== verification/Retrieval_Search.thy ===== *)
theory Retrieval_Search
  imports Retrieval_Types Portable_Export
begin

text \<open>
  Searching the active memories of a portable repository (\<open>internal/retrieval/search.go\<close>): the request and its
  defaults, the memories in scope, their ranking, the selection within the budgets, and the receipt that every
  search appends to the evidence ledger. Scores are unbounded integers: a query of at most 64 KiB and counts
  capped at 3 and 2 keep them far below \<open>2 ^ 63\<close>.
\<close>

section \<open>The request\<close>

datatype request_error =
    RequestSchema string
  | SelectorNotExactlyOne
  | QueryTooLong
  | QueryWithoutTerms
  | MemoryIdInvalid
  | ContextAgentInvalid
  | ContextChannelInvalid
  | LimitRange
  | TokenBudgetRange
  | ByteBudgetRange

definition request_defaults :: "retrieval_request \<Rightarrow> retrieval_request" where
  "request_defaults q = q\<lparr>
     se_schema_version := (if se_schema_version q = [] then RequestSchemaVersion_retrieval else se_schema_version q),
     se_context := (if rx_channel (se_context q) = [] then (se_context q)\<lparr>rx_channel := ChannelCLI\<rparr> else se_context q),
     se_limit := (if se_limit q = 0 then DefaultLimit else se_limit q),
     se_token_budget := (if se_token_budget q = 0 then DefaultTokenBudget else se_token_budget q),
     se_byte_budget := (if se_byte_budget q = 0 then DefaultByteBudget else se_byte_budget q)\<rparr>"

definition check_selector :: "lexicon \<Rightarrow> retrieval_request \<Rightarrow> request_error option" where
  "check_selector lx q = first_error
     [fail_if ((\<not> blank (se_query q)) = (\<not> blank (se_memory_id q))) SelectorNotExactlyOne,
      (if \<not> blank (se_query q) then first_error
         [fail_if (MaximumQueryBytes < length (se_query q)) QueryTooLong,
          fail_if (lexicalTerms lx (se_query q) = []) QueryWithoutTerms]
       else fail_if (\<not> validPrefixedHash_retrieval (se_memory_id q) ''memory-'') MemoryIdInvalid)]"

definition check_request :: "lexicon \<Rightarrow> retrieval_request \<Rightarrow> request_error option" where
  "check_request lx q = first_error
     [fail_if (se_schema_version q \<noteq> RequestSchemaVersion_retrieval) (RequestSchema (se_schema_version q)),
      check_selector lx q,
      fail_if (\<not> validAgent_retrieval (rx_agent (se_context q))) ContextAgentInvalid,
      fail_if (\<not> validChannel (rx_channel (se_context q))) ContextChannelInvalid,
      fail_if (se_limit q < 1 \<or> MaximumLimit < se_limit q) LimitRange,
      fail_if (se_token_budget q < 1 \<or> MaximumTokenBudget < se_token_budget q) TokenBudgetRange,
      fail_if (se_byte_budget q < 1 \<or> MaximumByteBudget < se_byte_budget q) ByteBudgetRange]"

text \<open>The defaults do not affect an earlier check, so they are filled in first.\<close>

definition normalizeRequest :: "lexicon \<Rightarrow> retrieval_request \<Rightarrow> request_error + retrieval_request" where
  "normalizeRequest lx request =
     (let q = request_defaults request in case check_request lx q of Some e \<Rightarrow> Inl e | None \<Rightarrow> Inr q)"

definition selectorDigest :: "retrieval_request \<Rightarrow> string" where
  "selectorDigest q =
     (if se_memory_id q \<noteq> [] then sha256_hex (''memory_id'' @ CHR 0x00 # se_memory_id q)
      else sha256_hex (''query'' @ CHR 0x00 # se_query q))"

definition repositoryStateDigest :: "portable_revision list \<Rightarrow> string" where
  "repositoryStateDigest revisions =
     sha256_hex (join_with [newline]
       (RepositorySchemaVersion # map (\<lambda>r. pv_memory_id r @ CHR 0x00 # pv_revision_id r) revisions))"

section \<open>Scope\<close>

definition scopeValueApplies :: "string \<Rightarrow> string \<Rightarrow> retrieval_context \<Rightarrow> bool" where
  "scopeValueApplies kind value x =
     (if kind = ScopeGlobal then value = ''*''
      else if kind = ScopeAgent then value = rx_agent x
      else if kind = ScopeRepository then rx_repository x \<noteq> [] \<and> value = rx_repository x
      else if kind = ScopeProject then rx_project x \<noteq> [] \<and> value = rx_project x
      else if kind = ScopeTask then rx_task x \<noteq> [] \<and> value = rx_task x
      else False)"

definition scopeApplies :: "portable_revision \<Rightarrow> retrieval_context \<Rightarrow> bool" where
  "scopeApplies r x = scopeValueApplies (pv_scope_kind r) (pv_scope_value r) x"

definition scopeSpecificity :: "string \<Rightarrow> int" where
  "scopeSpecificity kind =
     (if kind = ScopeTask then 5 else if kind = ScopeProject then 4 else if kind = ScopeRepository then 3
      else if kind = ScopeAgent then 2 else if kind = ScopeGlobal then 1 else 0)"

section \<open>Ranking\<close>

record ranked_revision =
  rk_revision :: portable_revision
  rk_score :: int
  rk_terms :: "string list"
  rk_specificity :: int
  rk_rationale :: "string list"

text \<open>The terms of a document are kept by revision id; a later revision of the same id overwrites an earlier one.\<close>

definition document_terms :: "lexicon \<Rightarrow> portable_revision list \<Rightarrow> string \<Rightarrow> string list" where
  "document_terms lx rs i =
     (case map_of (rev (map (\<lambda>r. (pv_revision_id r, lexicalTerms lx (pv_text r))) rs)) i of
        None \<Rightarrow> [] | Some ts \<Rightarrow> ts)"

definition document_frequency :: "lexicon \<Rightarrow> portable_revision list \<Rightarrow> string \<Rightarrow> nat" where
  "document_frequency lx rs t = length (filter (\<lambda>r. 0 < frequencies (lexicalTerms lx (pv_text r)) t) rs)"

definition term_score :: "nat \<Rightarrow> nat \<Rightarrow> nat \<Rightarrow> nat \<Rightarrow> int" where
  "term_score documents df tf queryCount =
     (let idf = 1000 + (int documents - int df) * 1000 div (int df + 1)
      in idf * int (if 3 < tf then 3 else tf) * int (if 2 < queryCount then 2 else queryCount))"

definition kind_score :: "string \<Rightarrow> int" where
  "kind_score kind =
     (if kind = KindCorrection then 300 else if kind = KindConstraint then 200 else if kind = KindDirective then 100 else 0)"

definition basis_score :: "string list \<Rightarrow> int" where
  "basis_score basis = sum_list (map (\<lambda>b. if b = BasisUserCorrection \<or> b = BasisOutcomeEvidence then 50 else 0) basis)"

text \<open>Whether the memory holds the query as a phrase, and the reasons a match is given.\<close>

definition phrase_match :: "lexicon \<Rightarrow> string \<Rightarrow> string \<Rightarrow> bool" where
  "phrase_match lx query text \<longleftrightarrow>
     normalizePhrase lx query \<noteq> [] \<and> contains (normalizePhrase lx text) (normalizePhrase lx query)"

definition lexical_rationale :: "lexicon \<Rightarrow> string \<Rightarrow> string \<Rightarrow> string \<Rightarrow> string list" where
  "lexical_rationale lx query text scope_kind =
     [''lexical_match'', ''scope_'' @ scope_kind] @ (if phrase_match lx query text then [''exact_phrase''] else [])"

text \<open>The loop over the frequencies of the query terms: the order in which Go ranges over them does not matter.\<close>

definition rank_revision ::
  "lexicon \<Rightarrow> retrieval_request \<Rightarrow> portable_revision list \<Rightarrow> portable_revision \<Rightarrow> ranked_revision option" where
  "rank_revision lx q rs r =
     (let terms = lexicalTerms lx (se_query q);
          doc = document_terms lx rs (pv_revision_id r);
          matched = filter (\<lambda>t. frequencies doc t \<noteq> 0) (remdups terms);
          score = sum_list (map (\<lambda>t. term_score (length rs) (document_frequency lx rs t) (frequencies doc t) (frequencies terms t)) matched);
          specificity = scopeSpecificity (pv_scope_kind r)
      in if matched = [] then None
         else Some \<lparr>rk_revision = r,
                    rk_score = score + (if phrase_match lx (se_query q) (pv_text r) then 8000 else 0) + specificity * 250 +
                               kind_score (pv_kind r) + basis_score (pv_basis r),
                    rk_terms = sort matched, rk_specificity = specificity,
                    rk_rationale = lexical_rationale lx (se_query q) (pv_text r) (pv_scope_kind r)\<rparr>)"

text \<open>
  The order of \<open>sort.Slice\<close>: by score and specificity downwards, then by memory id, which no two active
  revisions share.
\<close>

definition rank_key :: "ranked_revision \<Rightarrow> int \<times> int \<times> string" where
  "rank_key k = (- rk_score k, - rk_specificity k, pv_memory_id (rk_revision k))"

section \<open>Selection\<close>

text \<open>\<open>append\<close> of any elements to a nil slice.\<close>

definition slice_of :: "'a list \<Rightarrow> 'a list option" where
  "slice_of xs = (if xs = [] then None else Some xs)"

definition make_match ::
  "portable_revision \<Rightarrow> int \<Rightarrow> string list \<Rightarrow> int \<Rightarrow> string list \<Rightarrow> memory_match" where
  "make_match r score terms specificity rationale =
     \<lparr>mm_reference = \<lparr>mr_memory_id = pv_memory_id r, mr_revision_id = pv_revision_id r\<rparr>, mm_kind = pv_kind r,
      mm_scope_kind = pv_scope_kind r, mm_scope_value = pv_scope_value r, mm_basis = slice_of (pv_basis r),
      mm_text = pv_text r, mm_text_sha256 = pv_text_sha256 r, mm_score = score, mm_terms = Some terms,
      mm_tokens = estimateTokens (pv_text r), mm_bytes = int (length (pv_text r)), mm_specificity = specificity,
      mm_rationale = Some rationale\<rparr>"

definition exclude :: "(exclusion_counts \<Rightarrow> exclusion_counts) \<Rightarrow> retrieval_result \<Rightarrow> retrieval_result" where
  "exclude f t = t\<lparr>rt_exclusions := f (rt_exclusions t)\<rparr>"

definition select_match :: "memory_match \<Rightarrow> retrieval_result \<Rightarrow> retrieval_result" where
  "select_match m t = t\<lparr>rt_selected := Some (selected_matches t @ [m]),
     rt_selected_bytes := rt_selected_bytes t + mm_bytes m, rt_selected_tokens := rt_selected_tokens t + mm_tokens m\<rparr>"

definition select_step :: "retrieval_request \<Rightarrow> ranked_revision \<Rightarrow> retrieval_result \<Rightarrow> retrieval_result" where
  "select_step q k t =
     (let m = make_match (rk_revision k) (rk_score k) (rk_terms k) (rk_specificity k) (rk_rationale k) in
      if se_limit q \<le> int (length (selected_matches t))
      then exclude (\<lambda>x. x\<lparr>xc_result_limit := xc_result_limit x + 1\<rparr>) t
      else if se_byte_budget q < rt_selected_bytes t + mm_bytes m
      then exclude (\<lambda>x. x\<lparr>xc_byte_budget := xc_byte_budget x + 1\<rparr>) t
      else if se_token_budget q < rt_selected_tokens t + mm_tokens m
      then exclude (\<lambda>x. x\<lparr>xc_token_budget := xc_token_budget x + 1\<rparr>) t
      else select_match m t)"

fun rankExactMemory :: "portable_revision list \<Rightarrow> retrieval_request \<Rightarrow> retrieval_result \<Rightarrow> retrieval_result" where
  "rankExactMemory [] q t = t"
| "rankExactMemory (r # rs) q t =
     (if pv_memory_id r \<noteq> se_memory_id q then rankExactMemory rs q t
      else let m = make_match r 1 [] (scopeSpecificity (pv_scope_kind r)) [''exact_memory_id'', ''scope_'' @ pv_scope_kind r] in
        if se_byte_budget q < mm_bytes m then exclude (\<lambda>x. x\<lparr>xc_byte_budget := xc_byte_budget x + 1\<rparr>) t
        else if se_token_budget q < mm_tokens m then exclude (\<lambda>x. x\<lparr>xc_token_budget := xc_token_budget x + 1\<rparr>) t
        else t\<lparr>rt_selected := Some (selected_matches t @ [m]), rt_selected_bytes := mm_bytes m,
               rt_selected_tokens := mm_tokens m\<rparr>)"

definition rankRevisions ::
  "lexicon \<Rightarrow> portable_revision list \<Rightarrow> retrieval_request \<Rightarrow> retrieval_result \<Rightarrow> retrieval_result" where
  "rankRevisions lx revisions q t =
     (let applicable = filter (\<lambda>r. scopeApplies r (se_context q)) revisions;
          mismatches = int (length revisions) - int (length applicable);
          t1 = (exclude (\<lambda>x. x\<lparr>xc_scope_mismatch := xc_scope_mismatch x + mismatches\<rparr>) t)
                 \<lparr>rt_applicable := int (length applicable)\<rparr>
      in if se_memory_id q \<noteq> [] then rankExactMemory applicable q t1
         else let ranked = List.map_filter (rank_revision lx q applicable) applicable;
                  unmatched = int (length applicable) - int (length ranked);
                  t2 = exclude (\<lambda>x. x\<lparr>xc_no_lexical_match := xc_no_lexical_match x + unmatched\<rparr>) t1
              in fold (select_step q) (sort_key rank_key ranked) t2)"

section \<open>The evidence of a search\<close>

text \<open>
  Appending is tried up to six times while another writer holds the lock; \<open>at_wait\<close> is what other processes do to
  the store while this one sleeps.
\<close>

record 's append_try =
  at_faults :: open_faults
  at_outcome :: write_outcome
  at_close :: "bool \<times> bool"
  at_wait :: "'s \<Rightarrow> 's"

record 's evidence_io =
  io_decode :: "string \<Rightarrow> ledger_record option"
  io_filesystem :: filesystem
  io_tries :: "nat \<Rightarrow> 's append_try"

fun append_attempts ::
  "(string \<Rightarrow> ledger_record option) \<Rightarrow> filesystem \<Rightarrow> 'a evidence_store_scheme append_try list \<Rightarrow> event
    \<Rightarrow> 'a evidence_store_scheme \<Rightarrow> 'a evidence_store_scheme \<times> batch_error option" where
  "append_attempts dec fs [] e s = (s, None)"
| "append_attempts dec fs (t # ts) e s =
     (case AppendOne dec fs (at_faults t) (at_outcome t) (at_close t) e s of
        (s', Inr r) \<Rightarrow> (s', None)
      | (s', Inl x) \<Rightarrow>
          if x \<noteq> BatchOpen (OpenLock LockHeld) \<or> ts = [] then (s', Some x)
          else append_attempts dec fs ts e (at_wait t s'))"

definition appendEvidenceWithRetry ::
  "'a evidence_store_scheme evidence_io \<Rightarrow> event \<Rightarrow> 'a evidence_store_scheme \<Rightarrow> 'a evidence_store_scheme \<times> batch_error option" where
  "appendEvidenceWithRetry io = append_attempts (io_decode io) (io_filesystem io) (map (io_tries io) [0..<6])"

text \<open>The event of a receipt; \<open>parents\<close> is empty for a retrieval, which has no causality.\<close>

definition receipt_event ::
  "string \<Rightarrow> string \<Rightarrow> gotime \<Rightarrow> string \<Rightarrow> retrieval_context \<Rightarrow> string \<Rightarrow> string list \<Rightarrow> string \<Rightarrow> event" where
  "receipt_event kind event_id time device x path_hash parents data =
     \<lparr>ev_schema_version = SchemaVersion, ev_event_id = event_id, ev_kind = kind, ev_observed_at = time, ev_recorded_at = time,
      ev_source = \<lparr>src_agent = rx_agent x, src_adapter = ''agentmem-retrieval'',
        src_adapter_version = AdapterVersion_retrieval, src_device_id = device, src_os = [],
        src_thread_id = threadIDForContext x, src_session_id = rx_session_id x, src_source_event_id = [],
        src_source_path_hash = path_hash, src_acquisition_path_hash = [], src_source_cursor = [],
        src_byte_start = None, src_byte_end = None\<rparr>,
      ev_payload = Some (InlinePayload ''json'' ''application/json'' data), ev_reasoning = None,
      ev_completeness = \<lparr>cp_status = CompletenessComplete, cp_reason = [], cp_expected_bytes = None, cp_captured_bytes = None\<rparr>,
      ev_causality = (if parents = [] then None
                      else Some \<lparr>ca_parent_event_ids = parents, ca_call_id = [], ca_compaction_id = []\<rparr>),
      ev_classification = PrivacyLocalOnly_retrieval\<rparr>"

datatype receipt_error = ReceiptEncode | ReceiptAppend batch_error

definition append_receipt ::
  "'a evidence_store_scheme evidence_io \<Rightarrow> json \<Rightarrow> (string \<Rightarrow> event) \<Rightarrow> 'a evidence_store_scheme
    \<Rightarrow> 'a evidence_store_scheme \<times> receipt_error option" where
  "append_receipt io receipt make_event s =
     (case marshal receipt of
        None \<Rightarrow> (s, Some ReceiptEncode)
      | Some data \<Rightarrow>
          (case appendEvidenceWithRetry io (make_event data) s of
             (s', None) \<Rightarrow> (s', None) | (s', Some e) \<Rightarrow> (s', Some (ReceiptAppend e))))"

definition appendReceiptEvent ::
  "'a evidence_store_scheme evidence_io \<Rightarrow> retrieval_receipt \<Rightarrow> retrieval_context \<Rightarrow> 'a evidence_store_scheme
    \<Rightarrow> 'a evidence_store_scheme \<times> receipt_error option" where
  "appendReceiptEvent io t x s = append_receipt io (retrieval_receipt_json t)
     (receipt_event KindRetrieval (tc_receipt_id t) (tc_recorded_at t) (st_device_id s) x (tc_portable_root_sha256 t) []) s"

section \<open>Search\<close>

text \<open>
  The environment of a search: the tables, \<open>filepath.Abs\<close>, \<open>filepath.EvalSymlinks\<close>, the repository that a path
  leads to, the clock and the random bytes of \<open>NewEventID\<close> (\<open>None\<close> when reading them fails).
\<close>

record search_env =
  sv_lexicon :: lexicon
  sv_load :: load_env
  sv_absolute :: "string \<Rightarrow> string option"
  sv_resolve :: "string \<Rightarrow> resolved_path option"
  sv_evidence_root :: string
  sv_repository :: "string \<Rightarrow> fs_root"
  sv_now :: gotime
  sv_random :: "string option"

datatype search_error =
    SearchRequest request_error
  | SearchRoot
  | SearchRandom
  | SearchEncode
  | SearchReceipt receipt_error
  | RepositoryRejected retrieval_result

definition initial_result :: "string \<Rightarrow> retrieval_request \<Rightarrow> retrieval_result" where
  "initial_result receipt_id q =
     \<lparr>rt_schema_version = ResultSchemaVersion, rt_receipt_id = receipt_id, rt_status = ''completed'',
      rt_selector_sha256 = selectorDigest q, rt_repository_state = [], rt_issues = Some [], rt_active = 0, rt_applicable = 0,
      rt_selected = Some [], rt_selected_tokens = 0, rt_selected_bytes = 0, rt_token_budget = se_token_budget q,
      rt_byte_budget = se_byte_budget q, rt_exclusions = no_exclusions, rt_gaps = Some (contextGaps (se_context q)),
      rt_privacy = PrivacyLocalOnly_retrieval\<rparr>"

definition blocked_result :: "string list \<Rightarrow> retrieval_result \<Rightarrow> retrieval_result" where
  "blocked_result issues t = t\<lparr>rt_status := ''blocked'', rt_issues := Some issues\<rparr>"

definition search_result :: "search_env \<Rightarrow> string \<Rightarrow> string \<Rightarrow> retrieval_request \<Rightarrow> retrieval_result" where
  "search_result env absoluteRoot receipt_id q =
     (let t = initial_result receipt_id q in
      case ensureSeparateRoots (sv_resolve env) (sv_evidence_root env) absoluteRoot of
        Some e \<Rightarrow>
          blocked_result [if e = RootsOverlap then ''storage_roots_not_separate'' else ''storage_roots_unresolved''] t
      | None \<Rightarrow>
          (case LoadActiveRevisions (sv_load env) absoluteRoot (sv_repository env absoluteRoot) of
             (revisions, report) \<Rightarrow>
               (let t1 = t\<lparr>rt_active := pt_active report\<rparr> in
                if pt_issues report \<noteq> []
                then blocked_result (sortedUnique_retrieval (map pi_code (pt_issues report))) t1
                else rankRevisions (sv_lexicon env) revisions q
                       (t1\<lparr>rt_repository_state := repositoryStateDigest revisions\<rparr>))))"

definition make_receipt :: "gotime \<Rightarrow> string \<Rightarrow> retrieval_request \<Rightarrow> string \<Rightarrow> retrieval_result \<Rightarrow> retrieval_receipt" where
  "make_receipt now absoluteRoot q request_bytes t =
     \<lparr>tc_schema_version = ReceiptSchemaVersion, tc_receipt_id = rt_receipt_id t, tc_recorded_at = now,
      tc_portable_root = absoluteRoot, tc_portable_root_sha256 = sha256_hex absoluteRoot, tc_request = q,
      tc_request_sha256 = sha256_hex request_bytes, tc_result = t, tc_privacy = PrivacyLocalOnly_retrieval\<rparr>"

definition Search ::
  "search_env \<Rightarrow> 'a evidence_store_scheme evidence_io \<Rightarrow> string \<Rightarrow> retrieval_request \<Rightarrow> 'a evidence_store_scheme
    \<Rightarrow> 'a evidence_store_scheme \<times> (search_error + retrieval_result)" where
  "Search env io portableRoot request s =
     (case normalizeRequest (sv_lexicon env) request of
        Inl e \<Rightarrow> (s, Inl (SearchRequest e))
      | Inr q \<Rightarrow>
     (case sv_absolute env portableRoot of
        None \<Rightarrow> (s, Inl SearchRoot)
      | Some absoluteRoot \<Rightarrow>
     if blank portableRoot then (s, Inl SearchRoot)
     else (case sv_random env of
        None \<Rightarrow> (s, Inl SearchRandom)
      | Some random \<Rightarrow>
     (let t = search_result env absoluteRoot (''retrieval-'' @ NewEventID (sv_now env) random) q in
      case marshal (retrieval_request_json q) of
        None \<Rightarrow> (s, Inl SearchEncode)
      | Some bytes \<Rightarrow>
     (case appendReceiptEvent io (make_receipt (sv_now env) absoluteRoot q bytes t) (se_context q) s of
        (s', Some e) \<Rightarrow> (s', Inl (SearchReceipt e))
      | (s', None) \<Rightarrow>
          if rt_status t = ''blocked'' then (s', Inl (RepositoryRejected t)) else (s', Inr t))))))"

end
