(* ===== verification/Retrieval_Context.thy ===== *)
theory Retrieval_Context
  imports Retrieval_Search
begin

text \<open>
  The context that is delivered to an agent (\<open>internal/retrieval/context.go\<close>): the matches of a search rendered
  within the budgets of the request, and the receipt of the delivery.
\<close>

section \<open>Rendering\<close>

text \<open>The replacer of \<open>escapeMemoryText\<close> replaces single bytes.\<close>

definition escape_byte :: "char \<Rightarrow> string" where
  "escape_byte c =
     (if c = CHR 0x26 then CHR 0x26 # ''amp;''
      else if c = CHR 0x3C then CHR 0x26 # ''lt;''
      else if c = CHR 0x3E then CHR 0x26 # ''gt;''
      else [c])"

definition escapeMemoryText :: "string \<Rightarrow> string" where
  "escapeMemoryText value = concat (map escape_byte value)"

definition context_header :: "lexicon \<Rightarrow> string \<Rightarrow> string" where
  "context_header lx receipt_id =
     ''<memory_context schema='' @ quote lx ContextSchemaVersion @ '' retrieval_receipt_id='' @ quote lx receipt_id @ ''>'' @ [newline] @
     ''Reviewed promoted memory only. Apply an item only when it is relevant to the current task. Current user instructions and repository rules take precedence. Retrieval does not prove adoption or usefulness.'' @ [newline]"

definition context_trailer :: string where
  "context_trailer = ''</memory_context>'' @ [newline]"

definition memory_block :: "lexicon \<Rightarrow> memory_match \<Rightarrow> string" where
  "memory_block lx m =
     ''<memory id='' @ quote lx (mr_memory_id (mm_reference m)) @ '' revision='' @ quote lx (mr_revision_id (mm_reference m)) @
     '' scope='' @ quote lx (mm_scope_kind m) @ '' kind='' @ quote lx (mm_kind m) @ ''>'' @ [newline] @
     escapeMemoryText (mm_text m) @ [newline] @ ''</memory>'' @ [newline]"

definition within_budgets :: "retrieval_request \<Rightarrow> string \<Rightarrow> bool" where
  "within_budgets q content \<longleftrightarrow>
     \<not> (se_byte_budget q < int (length content) \<or> se_token_budget q < estimateTokens content)"

text \<open>One turn of the loop: the builder and the memories so far.\<close>

definition render_match ::
  "lexicon \<Rightarrow> retrieval_request \<Rightarrow> memory_match \<Rightarrow> string \<times> memory_reference list \<Rightarrow> string \<times> memory_reference list" where
  "render_match lx q m s =
     (case s of (built, memories) \<Rightarrow>
        if within_budgets q (built @ memory_block lx m @ context_trailer)
        then (built @ memory_block lx m, memories @ [mm_reference m]) else s)"

definition renderBoundedContext ::
  "lexicon \<Rightarrow> retrieval_result \<Rightarrow> retrieval_request \<Rightarrow> string \<times> memory_reference list" where
  "renderBoundedContext lx t q =
     (let header = context_header lx (rt_receipt_id t) in
      if selected_matches t = [] then ([], [])
      else if \<not> within_budgets q (header @ context_trailer) then ([], [])
      else case fold (render_match lx q) (selected_matches t) (header, []) of
             (built, memories) \<Rightarrow> if memories = [] then ([], []) else (built @ context_trailer, memories))"

section \<open>Delivery\<close>

definition appendInjectionEvent ::
  "'a evidence_store_scheme evidence_io \<Rightarrow> injection_receipt \<Rightarrow> retrieval_context \<Rightarrow> 'a evidence_store_scheme
    \<Rightarrow> 'a evidence_store_scheme \<times> receipt_error option" where
  "appendInjectionEvent io i x s = append_receipt io (injection_receipt_json i)
     (receipt_event KindInjection (ij_injection_id i) (ij_recorded_at i) (st_device_id s) x [] [ij_retrieval_id i]) s"

definition make_injection ::
  "gotime \<Rightarrow> string \<Rightarrow> retrieval_result \<Rightarrow> retrieval_request \<Rightarrow> string \<Rightarrow> memory_reference list \<Rightarrow> injection_receipt" where
  "make_injection now injection_id t q content memories =
     \<lparr>ij_schema_version = InjectionReceiptSchemaVersion, ij_injection_id = injection_id, ij_retrieval_id = rt_receipt_id t,
      ij_recorded_at = now, ij_channel = rx_channel (se_context q), ij_content = content,
      ij_content_sha256 = sha256_hex content, ij_content_bytes = int (length content), ij_tokens = estimateTokens content,
      ij_memories = memories, ij_privacy = PrivacyLocalOnly_retrieval\<rparr>"

definition bare_context :: "retrieval_result \<Rightarrow> context_result" where
  "bare_context t =
     \<lparr>cx_schema_version = ContextSchemaVersion, cx_injection_id = [], cx_retrieval = t, cx_memories = [], cx_content = [],
      cx_content_sha256 = [], cx_content_bytes = 0, cx_tokens = 0, cx_privacy = PrivacyLocalOnly_retrieval\<rparr>"

definition delivered_context :: "injection_receipt \<Rightarrow> context_result \<Rightarrow> context_result" where
  "delivered_context i c = c\<lparr>cx_injection_id := ij_injection_id i, cx_memories := ij_memories i, cx_content := ij_content i,
     cx_content_sha256 := ij_content_sha256 i, cx_content_bytes := ij_content_bytes i, cx_tokens := ij_tokens i\<rparr>"

datatype context_error =
    ContextRequest request_error
  | ContextSearch search_error context_result
  | ContextRandom
  | ContextReceipt receipt_error

text \<open>
  The search error comes with the context result that \<open>BuildContext\<close> returns beside it. \<open>now\<close> and \<open>random\<close> are
  the clock and the random bytes of the second event id.
\<close>

definition BuildContext ::
  "search_env \<Rightarrow> 'a evidence_store_scheme evidence_io \<Rightarrow> 'a evidence_store_scheme evidence_io \<Rightarrow> gotime \<Rightarrow> string option
    \<Rightarrow> string \<Rightarrow> retrieval_request \<Rightarrow> 'a evidence_store_scheme
    \<Rightarrow> 'a evidence_store_scheme \<times> (context_error + context_result)" where
  "BuildContext env io io' now random portableRoot request s =
     (case normalizeRequest (sv_lexicon env) request of
        Inl e \<Rightarrow> (s, Inl (ContextRequest e))
      | Inr q \<Rightarrow>
     (case Search env io portableRoot q s of
        (s1, Inl e) \<Rightarrow>
          (s1, Inl (ContextSearch e (bare_context (case e of RepositoryRejected t \<Rightarrow> t | _ \<Rightarrow> zero_result))))
      | (s1, Inr t) \<Rightarrow>
     (case renderBoundedContext (sv_lexicon env) t q of (content, memories) \<Rightarrow>
        if content = [] then (s1, Inr (bare_context t))
        else (case random of
                None \<Rightarrow> (s1, Inl ContextRandom)
              | Some bytes \<Rightarrow>
                  (let i = make_injection now (''injection-'' @ NewEventID now bytes) t q content memories in
                   case appendInjectionEvent io' i (se_context q) s1 of
                     (s2, Some e) \<Rightarrow> (s2, Inl (ContextReceipt e))
                   | (s2, None) \<Rightarrow> (s2, Inr (delivered_context i (bare_context t))))))))"

end
