(* ===== verification/Retrieval_Receipts.thy ===== *)
theory Retrieval_Receipts
  imports Retrieval_Context
begin

text \<open>
  What the verifier checks of each receipt by itself (\<open>internal/retrieval/verify.go\<close>) and what it and
  \<open>RecordAdoption\<close> check of an adoption request and of the evidence for an outcome
  (\<open>internal/retrieval/adoption.go\<close>). The strict JSON decoder is an argument that gives the receipt or the text of
  its error.
\<close>

section \<open>Decoding\<close>

record receipt_decoders =
  rd_retrieval :: "string \<Rightarrow> string + retrieval_receipt"
  rd_injection :: "string \<Rightarrow> string + injection_receipt"
  rd_adoption :: "string \<Rightarrow> string + adoption_receipt"

definition decodeReceiptEvent :: "(string \<Rightarrow> string + 'r) \<Rightarrow> event \<Rightarrow> string + 'r" where
  "decodeReceiptEvent decode e =
     (case ev_payload e of
        None \<Rightarrow> Inl ''receipt is not complete inline JSON''
      | Some p \<Rightarrow>
          (case pl_content p of
             None \<Rightarrow> Inl ''receipt is not complete inline JSON''
           | Some content \<Rightarrow>
               if pl_encoding p \<noteq> ''json'' \<or> pl_media_type p \<noteq> ''application/json'' \<or>
                  cp_status (ev_completeness e) \<noteq> CompletenessComplete
               then Inl ''receipt is not complete inline JSON''
               else if src_adapter (ev_source e) \<noteq> ''agentmem-retrieval'' \<or>
                       src_adapter_version (ev_source e) \<noteq> AdapterVersion_retrieval
               then Inl ''receipt has an invalid source adapter''
               else decode content))"

definition sourceMatchesContext :: "event \<Rightarrow> retrieval_context \<Rightarrow> bool" where
  "sourceMatchesContext e x \<longleftrightarrow>
     src_agent (ev_source e) = rx_agent x \<and> src_thread_id (ev_source e) = threadIDForContext x \<and>
     src_session_id (ev_source e) = rx_session_id x"

definition causalityMatches :: "event \<Rightarrow> string list \<Rightarrow> bool" where
  "causalityMatches e expected \<longleftrightarrow>
     (if expected = [] then ev_causality e = None
      else case ev_causality e of
             None \<Rightarrow> False
           | Some c \<Rightarrow> sort (ca_parent_event_ids c) = sort expected)"

section \<open>Retrieval receipts\<close>

definition validExclusionCounts :: "exclusion_counts \<Rightarrow> bool" where
  "validExclusionCounts x \<longleftrightarrow>
     0 \<le> xc_scope_mismatch x \<and> 0 \<le> xc_no_lexical_match x \<and> 0 \<le> xc_result_limit x \<and> 0 \<le> xc_token_budget x \<and>
     0 \<le> xc_byte_budget x"

definition validMatchKind :: "string \<Rightarrow> bool" where
  "validMatchKind kind \<longleftrightarrow> kind = KindConstraint \<or> kind = KindCorrection \<or> kind = KindDirective"

definition validEvidenceBasis :: "string list option \<Rightarrow> bool" where
  "validEvidenceBasis values \<longleftrightarrow>
     (case values of None \<Rightarrow> False | Some bs \<Rightarrow> bs \<noteq> [] \<and> list_all validReviewBasis bs \<and> strictly_sorted bs)"

definition validMatchSelection :: "lexicon \<Rightarrow> memory_match \<Rightarrow> retrieval_request \<Rightarrow> bool" where
  "validMatchSelection lx m q \<longleftrightarrow>
     0 < mm_score m \<and>
     (let terms = (case mm_terms m of None \<Rightarrow> [] | Some ts \<Rightarrow> ts);
          scopeReason = ''scope_'' @ mm_scope_kind m
      in if se_memory_id q \<noteq> []
         then mr_memory_id (mm_reference m) = se_memory_id q \<and> mm_score m = 1 \<and> terms = [] \<and>
              mm_rationale m = Some [''exact_memory_id'', scopeReason]
         else isSortedUnique terms \<and>
              (\<forall>t \<in> set terms. frequencies (lexicalTerms lx (se_query q)) t \<noteq> 0 \<and>
                              frequencies (lexicalTerms lx (mm_text m)) t \<noteq> 0) \<and>
              mm_rationale m = Some (lexical_rationale lx (se_query q) (mm_text m) (mm_scope_kind m)))"

definition matchPrecedes :: "memory_match \<Rightarrow> memory_match \<Rightarrow> bool" where
  "matchPrecedes l r \<longleftrightarrow>
     (if mm_score l \<noteq> mm_score r then mm_score r < mm_score l
      else if mm_specificity l \<noteq> mm_specificity r then mm_specificity r < mm_specificity l
      else mr_memory_id (mm_reference l) < mr_memory_id (mm_reference r))"

definition validMatch :: "lexicon \<Rightarrow> retrieval_request \<Rightarrow> memory_match \<Rightarrow> bool" where
  "validMatch lx q m \<longleftrightarrow>
     validMemoryReference (mm_reference m) \<and> mm_text_sha256 m = sha256_hex (mm_text m) \<and> \<not> blank (mm_text m) \<and>
     mm_bytes m = int (length (mm_text m)) \<and> mm_tokens m = estimateTokens (mm_text m) \<and> validMatchKind (mm_kind m) \<and>
     validEvidenceBasis (mm_basis m) \<and> mm_terms m \<noteq> None \<and> mm_rationale m \<noteq> None \<and>
     scopeValueApplies (mm_scope_kind m) (mm_scope_value m) (se_context q) \<and>
     mm_specificity m = scopeSpecificity (mm_scope_kind m) \<and> validMatchSelection lx m q"

text \<open>One turn of the loop over the selected matches: the previous match and the keys seen.\<close>

fun match_issues :: "lexicon \<Rightarrow> retrieval_request \<Rightarrow> memory_match option \<Rightarrow> string list \<Rightarrow> memory_match list \<Rightarrow> string list" where
  "match_issues lx q previous seen [] = []"
| "match_issues lx q previous seen (m # ms) =
     (if validMatch lx q m then [] else [''retrieval result contains an invalid memory match'']) @
     (case previous of None \<Rightarrow> [] | Some p \<Rightarrow> if matchPrecedes p m then [] else [''retrieval result ordering is invalid'']) @
     (if referenceKey (mm_reference m) \<in> set seen then [''retrieval result repeats a memory match''] else []) @
     match_issues lx q (Some m) (referenceKey (mm_reference m) # seen) ms"

definition envelope_issues :: "lexicon \<Rightarrow> event \<Rightarrow> retrieval_receipt \<Rightarrow> string list" where
  "envelope_issues lx e c =
     (if tc_schema_version c \<noteq> ReceiptSchemaVersion \<or> tc_receipt_id c \<noteq> ev_event_id e \<or>
         rt_receipt_id (tc_result c) \<noteq> ev_event_id e \<or> tc_privacy c \<noteq> PrivacyLocalOnly_retrieval
      then [''receipt envelope is invalid''] else []) @
     (if tc_recorded_at c \<noteq> ev_recorded_at e \<or> ev_observed_at e \<noteq> ev_recorded_at e
      then [''receipt timestamps do not match the evidence event''] else []) @
     (if \<not> sourceMatchesContext e (se_context (tc_request c)) \<or> \<not> causalityMatches e []
      then [''retrieval event context or causality is invalid''] else []) @
     (if tc_portable_root c = [] \<or> tc_portable_root_sha256 c \<noteq> sha256_hex (tc_portable_root c) \<or>
         src_source_path_hash (ev_source e) \<noteq> tc_portable_root_sha256 c
      then [''portable repository identity is invalid''] else []) @
     (if normalizeRequest lx (tc_request c) \<noteq> Inr (tc_request c)
      then [''normalized retrieval request is invalid''] else []) @
     (if tc_request_sha256 c \<noteq> sha256_hex (case marshal (retrieval_request_json (tc_request c)) of None \<Rightarrow> [] | Some b \<Rightarrow> b)
      then [''retrieval request hash is invalid''] else [])"

definition result_issues :: "retrieval_request \<Rightarrow> retrieval_result \<Rightarrow> string list" where
  "result_issues q t =
     (if rt_schema_version t \<noteq> ResultSchemaVersion \<or> rt_privacy t \<noteq> PrivacyLocalOnly_retrieval \<or>
         rt_selector_sha256 t \<noteq> selectorDigest q \<or> rt_token_budget t \<noteq> se_token_budget q \<or>
         rt_byte_budget t \<noteq> se_byte_budget q \<or> rt_selected t = None \<or> rt_issues t = None \<or> rt_gaps t = None \<or>
         \<not> isSortedUnique (case rt_issues t of None \<Rightarrow> [] | Some is \<Rightarrow> is) \<or> rt_gaps t \<noteq> Some (contextGaps (se_context q))
      then [''retrieval result envelope is invalid''] else []) @
     (if rt_active t < 0 \<or> rt_applicable t < 0 \<or> rt_active t < rt_applicable t \<or> \<not> validExclusionCounts (rt_exclusions t)
      then [''retrieval result counts are invalid''] else []) @
     (let issues = (case rt_issues t of None \<Rightarrow> [] | Some is \<Rightarrow> is) in
      if rt_status t = ''completed'' then
        (if issues \<noteq> [] \<or> \<not> validDigest (rt_repository_state t)
         then [''completed retrieval has invalid repository state''] else []) @
        (if xc_scope_mismatch (rt_exclusions t) + rt_applicable t \<noteq> rt_active t
         then [''completed retrieval has invalid scope accounting''] else [])
      else if rt_status t = ''blocked'' then
        (if issues = [] \<or> rt_repository_state t \<noteq> [] \<or> selected_matches t \<noteq> []
         then [''blocked retrieval has invalid repository state''] else [])
      else [''retrieval result has an invalid status''])"

definition budget_issues :: "retrieval_request \<Rightarrow> retrieval_result \<Rightarrow> string list" where
  "budget_issues q t =
     (let tokens = sum_list (map mm_tokens (selected_matches t)); bytes = sum_list (map mm_bytes (selected_matches t));
          x = rt_exclusions t; count = int (length (selected_matches t)) in
      (if tokens \<noteq> rt_selected_tokens t \<or> bytes \<noteq> rt_selected_bytes t \<or> rt_token_budget t < tokens \<or>
          rt_byte_budget t < bytes \<or> se_limit q < count
       then [''retrieval result budget accounting is invalid''] else []) @
      (if rt_status t = ''completed'' \<and> se_query q \<noteq> [] \<and>
          rt_applicable t \<noteq> xc_no_lexical_match x + count + xc_result_limit x + xc_token_budget x + xc_byte_budget x
       then [''retrieval result exclusion accounting is invalid''] else []))"

definition validateReceipt :: "lexicon \<Rightarrow> event \<Rightarrow> retrieval_receipt \<Rightarrow> string list" where
  "validateReceipt lx e c = sortedUnique_retrieval
     (envelope_issues lx e c @ result_issues (tc_request c) (tc_result c) @
      match_issues lx (tc_request c) None [] (selected_matches (tc_result c)) @
      budget_issues (tc_request c) (tc_result c))"

section \<open>Injection receipts\<close>

fun reference_issues :: "string list \<Rightarrow> memory_reference list \<Rightarrow> string list" where
  "reference_issues seen [] = []"
| "reference_issues seen (r # rs) =
     (if validMemoryReference r then [] else [''injection contains an invalid memory reference'']) @
     (if referenceKey r \<in> set seen then [''injection repeats a memory reference''] else []) @
     reference_issues (referenceKey r # seen) rs"

definition validateInjectionReceipt :: "event \<Rightarrow> injection_receipt \<Rightarrow> string list" where
  "validateInjectionReceipt e i = sortedUnique_retrieval
     ((if ij_schema_version i \<noteq> InjectionReceiptSchemaVersion \<or> ij_injection_id i \<noteq> ev_event_id e \<or>
          \<not> hasPrefix (ij_retrieval_id i) ''retrieval-'' \<or> ij_privacy i \<noteq> PrivacyLocalOnly_retrieval \<or>
          \<not> validChannel (ij_channel i)
       then [''injection receipt envelope is invalid''] else []) @
      (if ij_recorded_at i \<noteq> ev_recorded_at e \<or> ev_observed_at e \<noteq> ev_recorded_at e
       then [''injection timestamps do not match the evidence event''] else []) @
      (if ij_content i = [] \<or> ij_content_sha256 i \<noteq> sha256_hex (ij_content i) \<or>
          ij_content_bytes i \<noteq> int (length (ij_content i)) \<or> ij_tokens i \<noteq> estimateTokens (ij_content i)
       then [''injected content integrity is invalid''] else []) @
      reference_issues [] (ij_memories i) @
      (if ij_memories i = [] then [''injection contains no memories''] else []))"

section \<open>Adoption requests and receipts\<close>

datatype adoption_error =
    AdoptionSchema string
  | AdoptionReporter
  | AdoptionRetrievalId
  | AdoptionInjectionId
  | AdoptionEmpty
  | AdoptionReference
  | AdoptionRepeated
  | AdoptionState
  | OutcomeState
  | OutcomeWithoutAdoption
  | AdoptionReason
  | EvidenceOrder
  | OutcomeNeedsInjection
  | OutcomeNeedsEvidence
  | OutcomeNotAttributable

fun check_adoption_items :: "string list \<Rightarrow> adoption_item list \<Rightarrow> adoption_error option" where
  "check_adoption_items seen [] = None"
| "check_adoption_items seen (i # is) = first_error
     [fail_if (\<not> validMemoryReference (ai_reference i)) AdoptionReference,
      fail_if (referenceKey (ai_reference i) \<in> set seen) AdoptionRepeated,
      fail_if (ai_adoption i \<notin> {AdoptionAdopted, AdoptionNotAdopted, AdoptionUnknown}) AdoptionState,
      fail_if (ai_outcome i \<notin> {OutcomeHelpful, OutcomeNeutral, OutcomeHarmful, OutcomeUnknown}) OutcomeState,
      fail_if (ai_adoption i \<noteq> AdoptionAdopted \<and> ai_outcome i \<noteq> OutcomeUnknown) OutcomeWithoutAdoption,
      fail_if (blank (ai_reason i)) AdoptionReason,
      check_adoption_items (referenceKey (ai_reference i) # seen) is]"

definition attributed_outcomes :: "adoption_item list \<Rightarrow> nat" where
  "attributed_outcomes is = length (filter (\<lambda>i. ai_outcome i \<noteq> OutcomeUnknown) is)"

definition validateAdoptionRequest :: "adoption_request \<Rightarrow> adoption_error option" where
  "validateAdoptionRequest q = first_error
     [fail_if (dq_schema_version q \<noteq> AdoptionRequestSchemaVersion) (AdoptionSchema (dq_schema_version q)),
      fail_if (\<not> validReporter (dq_reporter q)) AdoptionReporter,
      fail_if (\<not> hasPrefix (dq_retrieval_id q) ''retrieval-'') AdoptionRetrievalId,
      fail_if (dq_injection_id q \<noteq> [] \<and> \<not> hasPrefix (dq_injection_id q) ''injection-'') AdoptionInjectionId,
      fail_if (dq_items q = []) AdoptionEmpty,
      check_adoption_items [] (dq_items q),
      fail_if (\<not> isSortedUnique (dq_evidence q)) EvidenceOrder,
      fail_if (attributed_outcomes (dq_items q) \<noteq> 0 \<and> dq_injection_id q = []) OutcomeNeedsInjection,
      fail_if (attributed_outcomes (dq_items q) \<noteq> 0 \<and> dq_evidence q = []) OutcomeNeedsEvidence,
      fail_if (1 < attributed_outcomes (dq_items q)) OutcomeNotAttributable]"

text \<open>The request that an adoption receipt answers.\<close>

definition adoption_request_of :: "adoption_receipt \<Rightarrow> adoption_request" where
  "adoption_request_of r =
     \<lparr>dq_schema_version = AdoptionRequestSchemaVersion, dq_reporter = dr_reporter r, dq_retrieval_id = dr_retrieval_id r,
      dq_injection_id = dr_injection_id r, dq_items = dr_items r, dq_evidence = dr_evidence r\<rparr>"

definition validateAdoptionReceipt :: "event \<Rightarrow> adoption_receipt \<Rightarrow> string list" where
  "validateAdoptionReceipt e r = sortedUnique_retrieval
     ((if dr_schema_version r \<noteq> AdoptionReceiptSchemaVersion \<or> dr_adoption_id r \<noteq> ev_event_id e \<or>
          dr_privacy r \<noteq> PrivacyLocalOnly_retrieval
       then [''adoption receipt envelope is invalid''] else []) @
      (if dr_recorded_at r \<noteq> ev_recorded_at e \<or> ev_observed_at e \<noteq> ev_recorded_at e
       then [''adoption timestamps do not match the evidence event''] else []) @
      (if validateAdoptionRequest (adoption_request_of r) \<noteq> None
       then [''adoption request projection is invalid''] else []) @
      (if dr_request_sha256 r \<noteq> sha256_hex (case marshal (adoption_request_json (adoption_request_of r)) of None \<Rightarrow> [] | Some b \<Rightarrow> b)
       then [''adoption request hash is invalid''] else []))"

section \<open>Causality\<close>

text \<open>The events of the log with their indexes, by id; the entry of an id that comes last is the one that is found.\<close>

type_synonym event_index = "(string \<times> nat \<times> event) list"

definition indexed_event :: "event_index \<Rightarrow> string \<Rightarrow> event option" where
  "indexed_event evs i = map_option snd (map_of evs i)"

definition event_position :: "event_index \<Rightarrow> string \<Rightarrow> nat" where
  "event_position evs i = (case map_of evs i of None \<Rightarrow> 0 | Some (n, _) \<Rightarrow> n)"

text \<open>The parents of an event that the log holds before it.\<close>

definition earlier_parents :: "event_index \<Rightarrow> string \<Rightarrow> string list" where
  "earlier_parents evs i =
     (case indexed_event evs i of
        None \<Rightarrow> []
      | Some e \<Rightarrow>
          (case ev_causality e of
             None \<Rightarrow> []
           | Some c \<Rightarrow> filter (\<lambda>p. indexed_event evs p \<noteq> None \<and> event_position evs p < event_position evs i)
                         (ca_parent_event_ids c)))"

lemma earlier_parents_known: "p \<in> set (earlier_parents evs i) \<Longrightarrow> p \<in> fst ` set evs"
  by (auto simp: earlier_parents_def indexed_event_def split: option.splits
      dest!: map_of_SomeD intro: rev_image_eqI)

function descends :: "event_index \<Rightarrow> string \<Rightarrow> string list \<Rightarrow> string list \<Rightarrow> bool" where
  "descends evs ancestor seen [] = False"
| "descends evs ancestor seen (current # queue) =
     (if current \<in> set seen then descends evs ancestor seen queue
      else if ancestor \<in> set (earlier_parents evs current) then True
      else descends evs ancestor (current # seen) (queue @ earlier_parents evs current))"
  by pat_completeness auto
termination
proof (relation "(\<lambda>(evs, ancestor, seen, queue). card ((set queue \<union> fst ` set evs) - set seen))
    <*mlex*> measure (\<lambda>(evs, ancestor, seen, queue). length queue)")
  show "wf ((\<lambda>(evs, ancestor, seen, queue). card ((set queue \<union> fst ` set evs) - set seen))
      <*mlex*> measure (\<lambda>(evs :: event_index, ancestor :: string, seen :: string list, queue :: string list). length queue))"
    by (rule wf_mlex) simp
next
  fix evs :: event_index and ancestor current :: string and seen queue :: "string list"
  assume "current \<in> set seen"
  then have "card ((set queue \<union> fst ` set evs) - set seen) \<le> card ((set (current # queue) \<union> fst ` set evs) - set seen)"
    by (intro card_mono) auto
  then show "((evs, ancestor, seen, queue), (evs, ancestor, seen, current # queue))
      \<in> (\<lambda>(evs, ancestor, seen, queue). card ((set queue \<union> fst ` set evs) - set seen))
        <*mlex*> measure (\<lambda>(evs, ancestor, seen, queue). length queue)"
    by (auto simp: mlex_prod_def)
next
  fix evs :: event_index and ancestor current :: string and seen queue :: "string list"
  assume "current \<notin> set seen"
  then have "card ((set (queue @ earlier_parents evs current) \<union> fst ` set evs) - set (current # seen))
      < card ((set (current # queue) \<union> fst ` set evs) - set seen)"
    using earlier_parents_known [of _ evs current] by (intro psubset_card_mono) auto
  then show "((evs, ancestor, current # seen, queue @ earlier_parents evs current), (evs, ancestor, seen, current # queue))
      \<in> (\<lambda>(evs, ancestor, seen, queue). card ((set queue \<union> fst ` set evs) - set seen))
        <*mlex*> measure (\<lambda>(evs, ancestor, seen, queue). length queue)"
    by (auto simp: mlex_prod_def)
qed

definition eventDescendsFrom :: "event_index \<Rightarrow> string \<Rightarrow> string \<Rightarrow> bool" where
  "eventDescendsFrom evs event_id ancestor =
     (if event_id = ancestor then indexed_event evs event_id \<noteq> None
      else if indexed_event evs ancestor = None then False
      else descends evs ancestor [] [event_id])"

section \<open>Evidence of an outcome\<close>

datatype evidence_error = EvidenceKind | EvidenceIncomplete | EvidenceOpen blob_issue | EvidenceRead | EvidenceContent

definition verifyOutcomeEvidence :: "'a evidence_store_scheme \<Rightarrow> event \<Rightarrow> evidence_error option" where
  "verifyOutcomeEvidence s e =
     (if ev_kind e \<noteq> KindToolResult \<and> ev_kind e \<noteq> KindFileChange then Some EvidenceKind
      else if cp_status (ev_completeness e) \<noteq> CompletenessComplete then Some EvidenceIncomplete
      else case ev_payload e of
        None \<Rightarrow> Some EvidenceIncomplete
      | Some p \<Rightarrow>
          (case pl_blob p of
             None \<Rightarrow> None
           | Some b \<Rightarrow>
               (case OpenBlob s b of
                  Inl i \<Rightarrow> Some (EvidenceOpen i)
                | Inr (Readable c failed) \<Rightarrow>
                    if failed then Some EvidenceRead
                    else fail_if (int (length c) \<noteq> pl_size p \<or> sha256_hex c \<noteq> pl_sha256 p) EvidenceContent
                | Inr _ \<Rightarrow> Some EvidenceRead)))"

definition referenceSet :: "memory_reference list \<Rightarrow> string list" where
  "referenceSet rs = map referenceKey rs"

definition referencesFromMatches :: "memory_match list \<Rightarrow> string list" where
  "referencesFromMatches ms = referenceSet (map mm_reference ms)"

end
