(* ===== verification/Retrieval_Verify.thy ===== *)
theory Retrieval_Verify
  imports Retrieval_Receipts
begin

text \<open>
  The verification of the whole graph of receipts in the evidence ledger (\<open>Verify\<close> of
  \<open>internal/retrieval/verify.go\<close>) and the lookups that rest on it (\<open>internal/retrieval/resolve.go\<close>). Go ranges over
  maps of the receipts; the issues and open retrievals are sorted at the end, so the order does not matter and the
  maps are lists in the order of the log.
\<close>

section \<open>Collecting the receipts\<close>

text \<open>The texts of the errors that come from the ledger, the decoder and the file system are arguments.\<close>

record receipt_texts = receipt_decoders +
  rd_visit_text :: "unit visit_error log_error \<Rightarrow> string"
  rd_evidence_text :: "evidence_error \<Rightarrow> string"

record receipt_graph =
  rg_report :: receipt_report
  rg_position :: nat
  rg_events :: event_index
  rg_retrievals :: "(string \<times> retrieval_receipt) list"
  rg_injections :: "(string \<times> injection_receipt) list"
  rg_adoptions :: "(string \<times> adoption_receipt) list"

definition empty_graph :: receipt_graph where
  "empty_graph =
     \<lparr>rg_report = \<lparr>vn_retrievals = 0, vn_injections = 0, vn_adoptions = 0, vn_open = [], vn_issues = []\<rparr>,
      rg_position = 0, rg_events = [], rg_retrievals = [], rg_injections = [], rg_adoptions = []\<rparr>"

definition graph_issues_add :: "string list \<Rightarrow> receipt_graph \<Rightarrow> receipt_graph" where
  "graph_issues_add is g = g\<lparr>rg_report := (rg_report g)\<lparr>vn_issues := vn_issues (rg_report g) @ is\<rparr>\<rparr>"

definition prefixed_issues :: "string \<Rightarrow> string \<Rightarrow> string list \<Rightarrow> string list" where
  "prefixed_issues kind i issues = map (\<lambda>x. kind @ '' '' @ i @ '': '' @ x) issues"

text \<open>Decoding and validating one receipt: its issues, or the receipt.\<close>

definition admit_receipt ::
  "(string \<Rightarrow> string + 'r) \<Rightarrow> (event \<Rightarrow> 'r \<Rightarrow> string list) \<Rightarrow> event \<Rightarrow> string list + 'r" where
  "admit_receipt decode validate e =
     (case decodeReceiptEvent decode e of
        Inl text \<Rightarrow> Inl [text]
      | Inr c \<Rightarrow> if validate e c \<noteq> [] then Inl (validate e c) else Inr c)"

definition visit_retrieval :: "lexicon \<Rightarrow> 'd receipt_decoders_scheme \<Rightarrow> event \<Rightarrow> receipt_graph \<Rightarrow> receipt_graph" where
  "visit_retrieval lx rd e g =
     (let g = g\<lparr>rg_report := (rg_report g)\<lparr>vn_retrievals := vn_retrievals (rg_report g) + 1\<rparr>\<rparr> in
      case admit_receipt (rd_retrieval rd) (validateReceipt lx) e of
        Inl issues \<Rightarrow> graph_issues_add (prefixed_issues ''retrieval'' (ev_event_id e) issues) g
      | Inr c \<Rightarrow> g\<lparr>rg_retrievals := rg_retrievals g @ [(tc_receipt_id c, c)]\<rparr>)"

definition visit_injection :: "'d receipt_decoders_scheme \<Rightarrow> event \<Rightarrow> receipt_graph \<Rightarrow> receipt_graph" where
  "visit_injection rd e g =
     (let g = g\<lparr>rg_report := (rg_report g)\<lparr>vn_injections := vn_injections (rg_report g) + 1\<rparr>\<rparr> in
      case admit_receipt (rd_injection rd) validateInjectionReceipt e of
        Inl issues \<Rightarrow> graph_issues_add (prefixed_issues ''injection'' (ev_event_id e) issues) g
      | Inr i \<Rightarrow> g\<lparr>rg_injections := rg_injections g @ [(ij_injection_id i, i)]\<rparr>)"

definition visit_adoption :: "'d receipt_decoders_scheme \<Rightarrow> event \<Rightarrow> receipt_graph \<Rightarrow> receipt_graph" where
  "visit_adoption rd e g =
     (let g = g\<lparr>rg_report := (rg_report g)\<lparr>vn_adoptions := vn_adoptions (rg_report g) + 1\<rparr>\<rparr> in
      case admit_receipt (rd_adoption rd) validateAdoptionReceipt e of
        Inl issues \<Rightarrow> graph_issues_add (prefixed_issues ''adoption'' (ev_event_id e) issues) g
      | Inr a \<Rightarrow> g\<lparr>rg_adoptions := rg_adoptions g @ [(dr_adoption_id a, a)]\<rparr>)"

definition visit_receipt :: "lexicon \<Rightarrow> 'd receipt_decoders_scheme \<Rightarrow> event \<Rightarrow> receipt_graph \<Rightarrow> receipt_graph" where
  "visit_receipt lx rd e g =
     (let n = Suc (rg_position g); g = g\<lparr>rg_position := n\<rparr> in
      if indexed_event (rg_events g) (ev_event_id e) \<noteq> None
      then graph_issues_add [''event id '' @ ev_event_id e @ '' appears more than once''] g
      else let g = g\<lparr>rg_events := (ev_event_id e, n, e) # rg_events g\<rparr> in
        if ev_kind e = KindRetrieval then visit_retrieval lx rd e g
        else if ev_kind e = KindInjection then visit_injection rd e g
        else if ev_kind e = KindAdoption then visit_adoption rd e g
        else g)"

section \<open>Checking the links\<close>

text \<open>The id of a receipt is the id of its event, so the event is always found.\<close>

definition indexed_matches :: "event_index \<Rightarrow> string \<Rightarrow> (event \<Rightarrow> bool) \<Rightarrow> bool" where
  "indexed_matches evs i P = (case indexed_event evs i of None \<Rightarrow> False | Some e \<Rightarrow> P e)"

definition issue_unless :: "bool \<Rightarrow> string \<Rightarrow> string list" where
  "issue_unless b i = (if b then [] else [i])"

definition injection_links :: "lexicon \<Rightarrow> receipt_graph \<Rightarrow> injection_receipt \<Rightarrow> retrieval_receipt \<Rightarrow> string list" where
  "injection_links lx g i t =
     (let name = ''injection '' @ ij_injection_id i; evs = rg_events g;
          allowed = referencesFromMatches (selected_matches (tc_result t));
          expected = renderBoundedContext lx (tc_result t) (tc_request t) in
      issue_unless (event_position evs (tc_receipt_id t) < event_position evs (ij_injection_id i))
        (name @ '' does not follow its retrieval'') @
      issue_unless (ij_channel i = rx_channel (se_context (tc_request t)) \<and>
                    indexed_matches evs (ij_injection_id i) (\<lambda>e. sourceMatchesContext e (se_context (tc_request t))))
        (name @ '' has a context that differs from its retrieval'') @
      issue_unless (indexed_matches evs (ij_injection_id i) (\<lambda>e. causalityMatches e [tc_receipt_id t]))
        (name @ '' has invalid causal parents'') @
      concat (map (\<lambda>m. issue_unless (referenceKey m \<in> set allowed) (name @ '' contains a memory absent from its retrieval''))
        (ij_memories i)) @
      issue_unless (ij_content i = fst expected \<and> ij_memories i = snd expected)
        (name @ '' differs from deterministic retrieval output''))"

definition injection_issues :: "lexicon \<Rightarrow> receipt_graph \<Rightarrow> injection_receipt \<Rightarrow> string list" where
  "injection_issues lx g i =
     (case map_of (rg_retrievals g) (ij_retrieval_id i) of
        None \<Rightarrow> [''injection '' @ ij_injection_id i @ '' references an unavailable retrieval'']
      | Some t \<Rightarrow> injection_links lx g i t)"

definition evidence_issues ::
  "receipt_texts \<Rightarrow> 'a evidence_store_scheme \<Rightarrow> receipt_graph \<Rightarrow> adoption_receipt \<Rightarrow> retrieval_receipt \<Rightarrow> string \<Rightarrow> string list" where
  "evidence_issues rd s g a t ev =
     (let name = ''adoption '' @ dr_adoption_id a; evs = rg_events g; n = event_position evs ev in
      case indexed_event evs ev of
        None \<Rightarrow> [name @ '' references unavailable outcome evidence'']
      | Some e \<Rightarrow>
          if n \<le> event_position evs (tc_receipt_id t) \<or>
             dr_injection_id a \<noteq> [] \<and> n \<le> event_position evs (dr_injection_id a)
          then [name @ '' references outcome evidence that does not follow memory delivery'']
          else if event_position evs (dr_adoption_id a) \<le> n
          then [name @ '' references outcome evidence that does not precede it'']
          else if \<not> sourceMatchesContext e (se_context (tc_request t))
          then [name @ '' references outcome evidence from another task context'']
          else (case verifyOutcomeEvidence s e of
                  Some x \<Rightarrow> [name @ '' has invalid outcome evidence: '' @ rd_evidence_text rd x]
                | None \<Rightarrow>
                    issue_unless
                      (eventDescendsFrom evs ev (if dr_injection_id a = [] then dr_retrieval_id a else dr_injection_id a))
                      (name @ '' has outcome evidence without memory-delivery causality'')))"

text \<open>The causal parents of an adoption event.\<close>

definition adoption_parents :: "string \<Rightarrow> string list \<Rightarrow> string \<Rightarrow> string list" where
  "adoption_parents retrieval evidence injection =
     sortedUnique_retrieval ([retrieval] @ evidence @ (if injection \<noteq> [] then [injection] else []))"

text \<open>What the adoption may speak of; \<open>None\<close> when its injection is not available.\<close>

definition adoption_delivery :: "receipt_graph \<Rightarrow> adoption_receipt \<Rightarrow> retrieval_receipt \<Rightarrow> string list option" where
  "adoption_delivery g a t =
     (if dr_injection_id a = [] then Some (referencesFromMatches (selected_matches (tc_result t)))
      else case map_of (rg_injections g) (dr_injection_id a) of
        None \<Rightarrow> None
      | Some i \<Rightarrow> if ij_retrieval_id i \<noteq> dr_retrieval_id a then None else Some (referenceSet (ij_memories i)))"

definition adoption_links ::
  "receipt_texts \<Rightarrow> 'a evidence_store_scheme \<Rightarrow> receipt_graph \<Rightarrow> adoption_receipt \<Rightarrow> retrieval_receipt \<Rightarrow> string list" where
  "adoption_links rd s g a t =
     (let name = ''adoption '' @ dr_adoption_id a; evs = rg_events g in
      issue_unless (event_position evs (tc_receipt_id t) < event_position evs (dr_adoption_id a))
        (name @ '' does not follow its retrieval'') @
      issue_unless (indexed_matches evs (dr_adoption_id a) (\<lambda>e. sourceMatchesContext e (se_context (tc_request t))))
        (name @ '' has a context that differs from its retrieval'') @
      (case adoption_delivery g a t of
         None \<Rightarrow> [name @ '' references an unavailable or unrelated injection'']
       | Some allowed \<Rightarrow>
           issue_unless (dr_injection_id a = [] \<or> event_position evs (dr_injection_id a) < event_position evs (dr_adoption_id a))
             (name @ '' does not follow its injection'') @
           concat (map (\<lambda>i. issue_unless (referenceKey (ai_reference i) \<in> set allowed)
             (name @ '' contains a memory absent from its delivery'')) (dr_items a)) @
           concat (map (evidence_issues rd s g a t) (dr_evidence a)) @
           issue_unless (indexed_matches evs (dr_adoption_id a)
               (\<lambda>e. causalityMatches e (adoption_parents (dr_retrieval_id a) (dr_evidence a) (dr_injection_id a))))
             (name @ '' has invalid causal parents'')))"

definition adoption_issues ::
  "receipt_texts \<Rightarrow> 'a evidence_store_scheme \<Rightarrow> receipt_graph \<Rightarrow> adoption_receipt \<Rightarrow> string list" where
  "adoption_issues rd s g a =
     (case map_of (rg_retrievals g) (dr_retrieval_id a) of
        None \<Rightarrow> [''adoption '' @ dr_adoption_id a @ '' references an unavailable retrieval'']
      | Some t \<Rightarrow> adoption_links rd s g a t)"

section \<open>Open retrievals\<close>

definition injected_keys :: "receipt_graph \<Rightarrow> string \<Rightarrow> string list" where
  "injected_keys g i =
     concat (map (\<lambda>x. if ij_retrieval_id (snd x) = i \<and> map_of (rg_retrievals g) i \<noteq> None
                      then referenceSet (ij_memories (snd x)) else []) (rg_injections g))"

definition observed_keys :: "receipt_graph \<Rightarrow> string \<Rightarrow> string list" where
  "observed_keys g i =
     concat (map (\<lambda>x. if dr_retrieval_id (snd x) = i \<and>
                         (case map_of (rg_retrievals g) i of None \<Rightarrow> False | Some t \<Rightarrow> adoption_delivery g (snd x) t \<noteq> None)
                      then map (\<lambda>y. referenceKey (ai_reference y)) (dr_items (snd x)) else []) (rg_adoptions g))"

definition retrieval_open :: "receipt_graph \<Rightarrow> string \<times> retrieval_receipt \<Rightarrow> bool" where
  "retrieval_open g x =
     (let injected = injected_keys g (fst x);
          expected = (if injected = [] then referencesFromMatches (selected_matches (tc_result (snd x))) else injected)
      in list_ex (\<lambda>k. k \<notin> set (observed_keys g (fst x))) expected)"

section \<open>Verify\<close>

definition finalizeVerification :: "receipt_report \<Rightarrow> receipt_report" where
  "finalizeVerification r =
     r\<lparr>vn_open := sortedUnique_retrieval (vn_open r), vn_issues := sortedUnique_retrieval (vn_issues r)\<rparr>"

definition graph_report :: "lexicon \<Rightarrow> receipt_texts \<Rightarrow> 'a evidence_store_scheme \<Rightarrow> receipt_graph \<Rightarrow> receipt_report" where
  "graph_report lx rd s g = finalizeVerification ((rg_report g)
     \<lparr>vn_issues := vn_issues (rg_report g) @
        concat (map (\<lambda>x. injection_issues lx g (snd x)) (rg_injections g)) @
        concat (map (\<lambda>x. adoption_issues rd s g (snd x)) (rg_adoptions g)),
      vn_open := map fst (filter (retrieval_open g) (rg_retrievals g))\<rparr>)"

definition Verify_retrieval ::
  "lexicon \<Rightarrow> receipt_texts \<Rightarrow> (string \<Rightarrow> ledger_record option) \<Rightarrow> 'a evidence_store_scheme \<Rightarrow> receipt_report" where
  "Verify_retrieval lx rd dec s =
     (case visitRecords dec (\<lambda>r g. Inr (visit_receipt lx rd (lr_event r) g)) (st_events s) empty_graph of
        (g, Inl e) \<Rightarrow> finalizeVerification
          (rg_report (graph_issues_add [''evidence ledger verification failed: '' @ rd_visit_text rd e] g))
      | (g, Inr _) \<Rightarrow> graph_report lx rd s g)"

section \<open>Lookups\<close>

datatype resolve_error =
    ResolveIdRequired
  | ResolveUnverified "string list"
  | ResolveVisit "string list visit_error log_error"
  | ResolveUnavailable
  | ResolveNothingDelivered

text \<open>The visitor of \<open>ResolveVerifiedInjection\<close> and \<open>ResolveVerifiedRetrieval\<close>.\<close>

definition resolve_step ::
  "string \<Rightarrow> string \<Rightarrow> (string \<Rightarrow> string + 'r) \<Rightarrow> (event \<Rightarrow> 'r \<Rightarrow> string list) \<Rightarrow> string list \<Rightarrow> string list \<Rightarrow> ledger_record
    \<Rightarrow> 'r option \<Rightarrow> string list + 'r option" where
  "resolve_step wanted kind decode validate twice other r found =
     (let e = lr_event r in
      if ev_event_id e \<noteq> wanted then Inr found
      else if found \<noteq> None then Inl twice
      else if ev_kind e \<noteq> kind then Inl other
      else case admit_receipt decode validate e of Inl issues \<Rightarrow> Inl issues | Inr c \<Rightarrow> Inr (Some c))"

definition ResolveVerifiedInjection ::
  "lexicon \<Rightarrow> receipt_texts \<Rightarrow> (string \<Rightarrow> ledger_record option) \<Rightarrow> string \<Rightarrow> 'a evidence_store_scheme
    \<Rightarrow> resolve_error + injection_receipt" where
  "ResolveVerifiedInjection lx rd dec injectionID s =
     (if blank injectionID then Inl ResolveIdRequired
      else if vn_issues (Verify_retrieval lx rd dec s) \<noteq> [] then Inl (ResolveUnverified (vn_issues (Verify_retrieval lx rd dec s)))
      else case visitRecords dec
          (resolve_step injectionID KindInjection (rd_injection rd) validateInjectionReceipt
             [''injection id appears more than once''] [''requested event is not an injection receipt''])
          (st_events s) None of
        (found, Inl e) \<Rightarrow> Inl (ResolveVisit e)
      | (found, Inr _) \<Rightarrow>
          (case found of
             None \<Rightarrow> Inl ResolveUnavailable
           | Some i \<Rightarrow> if ij_content i = [] \<or> ij_memories i = [] then Inl ResolveNothingDelivered else Inr i))"

definition ResolveVerifiedRetrieval ::
  "lexicon \<Rightarrow> receipt_texts \<Rightarrow> (string \<Rightarrow> ledger_record option) \<Rightarrow> string \<Rightarrow> 'a evidence_store_scheme
    \<Rightarrow> resolve_error + retrieval_receipt" where
  "ResolveVerifiedRetrieval lx rd dec receiptID s =
     (if blank receiptID then Inl ResolveIdRequired
      else if vn_issues (Verify_retrieval lx rd dec s) \<noteq> [] then Inl (ResolveUnverified (vn_issues (Verify_retrieval lx rd dec s)))
      else case visitRecords dec
          (resolve_step receiptID KindRetrieval (rd_retrieval rd) (validateReceipt lx)
             [''retrieval receipt id appears more than once''] [''requested event is not a retrieval receipt''])
          (st_events s) None of
        (found, Inl e) \<Rightarrow> Inl (ResolveVisit e)
      | (found, Inr _) \<Rightarrow> (case found of None \<Rightarrow> Inl ResolveUnavailable | Some t \<Rightarrow> Inr t))"

text \<open>The index of all retrievals, decoded but not validated again.\<close>

definition list_step ::
  "(string \<Rightarrow> string + retrieval_receipt) \<Rightarrow> ledger_record \<Rightarrow> (string \<times> retrieval_receipt) list
    \<Rightarrow> string list + (string \<times> retrieval_receipt) list" where
  "list_step decode r found =
     (if ev_kind (lr_event r) \<noteq> KindRetrieval then Inr found
      else case decodeReceiptEvent decode (lr_event r) of
        Inl text \<Rightarrow> Inl [text]
      | Inr t \<Rightarrow>
          if map_of found (tc_receipt_id t) \<noteq> None then Inl [''retrieval receipt id appears more than once'']
          else Inr (found @ [(tc_receipt_id t, t)]))"

definition ListVerifiedRetrievals ::
  "lexicon \<Rightarrow> receipt_texts \<Rightarrow> (string \<Rightarrow> ledger_record option) \<Rightarrow> 'a evidence_store_scheme
    \<Rightarrow> resolve_error + (string \<times> retrieval_receipt) list" where
  "ListVerifiedRetrievals lx rd dec s =
     (if vn_issues (Verify_retrieval lx rd dec s) \<noteq> [] then Inl (ResolveUnverified (vn_issues (Verify_retrieval lx rd dec s)))
      else case visitRecords dec (list_step (rd_retrieval rd)) (st_events s) [] of
        (found, Inl e) \<Rightarrow> Inl (ResolveVisit e)
      | (found, Inr _) \<Rightarrow> Inr found)"

end
