(* ===== verification/Retrieval_Adoption.thy ===== *)
theory Retrieval_Adoption
  imports Retrieval_Verify
begin

text \<open>
  Recording whether delivered memories were adopted (\<open>RecordAdoption\<close> of \<open>internal/retrieval/adoption.go\<close>): the
  receipts it refers to are read back from the verified log, every item must have been delivered, and the evidence of
  an outcome must follow the delivery and descend from it.
\<close>

section \<open>The receipts an adoption refers to\<close>

record adoption_references =
  af_position :: nat
  af_events :: event_index
  af_retrieval :: "retrieval_receipt option"
  af_injection :: "injection_receipt option"

definition no_references :: adoption_references where
  "no_references = \<lparr>af_position = 0, af_events = [], af_retrieval = None, af_injection = None\<rparr>"

text \<open>The visitor; it stops at a referenced receipt that does not decode or is not valid.\<close>

definition reference_step ::
  "lexicon \<Rightarrow> 'd receipt_decoders_scheme \<Rightarrow> adoption_request \<Rightarrow> ledger_record \<Rightarrow> adoption_references
    \<Rightarrow> string list + adoption_references" where
  "reference_step lx rd q r f =
     (let e = lr_event r; n = Suc (af_position f);
          f1 = f\<lparr>af_position := n, af_events := (ev_event_id e, n, e) # af_events f\<rparr>;
          g = (if ev_event_id e = dq_retrieval_id q then
                 (case admit_receipt (rd_retrieval rd) (validateReceipt lx) e of
                    Inl issues \<Rightarrow> Inl issues | Inr t \<Rightarrow> Inr (f1\<lparr>af_retrieval := Some t\<rparr>))
               else Inr f1)
      in case g of
           Inl issues \<Rightarrow> Inl issues
         | Inr f2 \<Rightarrow>
             if dq_injection_id q \<noteq> [] \<and> ev_event_id e = dq_injection_id q then
               (case admit_receipt (rd_injection rd) validateInjectionReceipt e of
                  Inl issues \<Rightarrow> Inl issues | Inr i \<Rightarrow> Inr (f2\<lparr>af_injection := Some i\<rparr>))
             else Inr f2)"

section \<open>The checks\<close>

datatype align_error = AgentDiffers | ThreadDiffers | SessionDiffers

definition alignAdoptionContext :: "retrieval_context \<Rightarrow> retrieval_context \<Rightarrow> align_error + retrieval_context" where
  "alignAdoptionContext observed retrieved =
     (if rx_agent observed \<noteq> AgentUnknown \<and> rx_agent observed \<noteq> rx_agent retrieved then Inl AgentDiffers
      else if rx_thread_id observed \<noteq> [] \<and> rx_thread_id observed \<noteq> rx_thread_id retrieved then Inl ThreadDiffers
      else if rx_session_id observed \<noteq> [] \<and> rx_session_id observed \<noteq> rx_session_id retrieved then Inl SessionDiffers
      else Inr (observed\<lparr>rx_agent := rx_agent retrieved, rx_thread_id := rx_thread_id retrieved,
                         rx_session_id := rx_session_id retrieved\<rparr>))"

datatype record_error =
    RecordAgent
  | RecordChannel
  | RecordRequest adoption_error
  | RecordReferences "string list visit_error log_error"
  | RecordNoRetrieval
  | RecordAlign align_error
  | RecordNoInjection
  | RecordInjectionOrder
  | RecordInjectionContext
  | RecordInjectionMemory
  | RecordInjectionOutput
  | RecordItem
  | RecordEvidenceMissing string
  | RecordEvidenceOrder string
  | RecordEvidenceContext string
  | RecordEvidenceInvalid string evidence_error
  | RecordEvidenceCausality string
  | RecordEncode
  | RecordRandom
  | RecordReceipt receipt_error

text \<open>The checks of the referenced injection, and what the items may then speak of.\<close>

definition check_injection ::
  "lexicon \<Rightarrow> adoption_request \<Rightarrow> adoption_references \<Rightarrow> retrieval_receipt \<Rightarrow> record_error + string list" where
  "check_injection lx q f t =
     (let allowed = referencesFromMatches (selected_matches (tc_result t)); evs = af_events f in
      if dq_injection_id q = [] then Inr allowed
      else case af_injection f of
        None \<Rightarrow> Inl RecordNoInjection
      | Some i \<Rightarrow>
          if ij_injection_id i \<noteq> dq_injection_id q \<or> ij_retrieval_id i \<noteq> dq_retrieval_id q then Inl RecordNoInjection
          else if event_position evs (dq_injection_id q) \<le> event_position evs (dq_retrieval_id q) then Inl RecordInjectionOrder
          else if ij_channel i \<noteq> rx_channel (se_context (tc_request t)) \<or>
                  \<not> indexed_matches evs (dq_injection_id q) (\<lambda>e. sourceMatchesContext e (se_context (tc_request t)) \<and>
                       causalityMatches e [dq_retrieval_id q])
          then Inl RecordInjectionContext
          else if \<not> list_all (\<lambda>m. referenceKey m \<in> set allowed) (ij_memories i) then Inl RecordInjectionMemory
          else (case renderBoundedContext lx (tc_result t) (tc_request t) of (content, memories) \<Rightarrow>
                  if ij_content i \<noteq> content \<or> ij_memories i \<noteq> memories then Inl RecordInjectionOutput
                  else Inr (referenceSet (ij_memories i))))"

definition check_evidence ::
  "'a evidence_store_scheme \<Rightarrow> adoption_request \<Rightarrow> adoption_references \<Rightarrow> retrieval_receipt \<Rightarrow> string \<Rightarrow> record_error option" where
  "check_evidence s q f t ev =
     (let evs = af_events f;
          delivery = (if dq_injection_id q \<noteq> [] then dq_injection_id q else dq_retrieval_id q) in
      case indexed_event evs ev of
        None \<Rightarrow> Some (RecordEvidenceMissing ev)
      | Some e \<Rightarrow> first_error
          [fail_if (event_position evs ev \<le> event_position evs delivery) (RecordEvidenceOrder ev),
           fail_if (\<not> sourceMatchesContext e (se_context (tc_request t))) (RecordEvidenceContext ev),
           map_option (RecordEvidenceInvalid ev) (verifyOutcomeEvidence s e),
           fail_if (\<not> eventDescendsFrom evs ev delivery) (RecordEvidenceCausality ev)])"

definition check_adoption ::
  "lexicon \<Rightarrow> 'a evidence_store_scheme \<Rightarrow> adoption_request \<Rightarrow> adoption_references \<Rightarrow> retrieval_receipt \<Rightarrow> record_error option" where
  "check_adoption lx s q f t =
     (case check_injection lx q f t of
        Inl e \<Rightarrow> Some e
      | Inr allowed \<Rightarrow> first_error
          [fail_if (\<not> list_all (\<lambda>i. referenceKey (ai_reference i) \<in> set allowed) (dq_items q)) RecordItem,
           first_error (map (check_evidence s q f t) (dq_evidence q))])"

section \<open>Recording\<close>

definition make_adoption :: "gotime \<Rightarrow> string \<Rightarrow> string \<Rightarrow> adoption_request \<Rightarrow> adoption_receipt" where
  "make_adoption now adoption_id request_bytes q =
     \<lparr>dr_schema_version = AdoptionReceiptSchemaVersion, dr_adoption_id = adoption_id, dr_recorded_at = now,
      dr_reporter = dq_reporter q, dr_retrieval_id = dq_retrieval_id q, dr_injection_id = dq_injection_id q,
      dr_items = dq_items q, dr_evidence = dq_evidence q, dr_request_sha256 = sha256_hex request_bytes,
      dr_privacy = PrivacyLocalOnly_retrieval\<rparr>"

definition appendAdoptionEvent ::
  "'a evidence_store_scheme evidence_io \<Rightarrow> adoption_receipt \<Rightarrow> retrieval_context \<Rightarrow> 'a evidence_store_scheme
    \<Rightarrow> 'a evidence_store_scheme \<times> receipt_error option" where
  "appendAdoptionEvent io a x s = append_receipt io (adoption_receipt_json a)
     (receipt_event KindAdoption (dr_adoption_id a) (dr_recorded_at a) (st_device_id s) x []
        (adoption_parents (dr_retrieval_id a) (dr_evidence a) (dr_injection_id a))) s"

definition RecordAdoption ::
  "lexicon \<Rightarrow> receipt_texts \<Rightarrow> 'a evidence_store_scheme evidence_io \<Rightarrow> gotime \<Rightarrow> string option \<Rightarrow> retrieval_context
    \<Rightarrow> adoption_request \<Rightarrow> 'a evidence_store_scheme \<Rightarrow> 'a evidence_store_scheme \<times> (record_error + adoption_receipt)" where
  "RecordAdoption lx rd io now random x q s =
     (let x = (if rx_channel x = [] then x\<lparr>rx_channel := ChannelCLI\<rparr> else x) in
      if \<not> validAgent_retrieval (rx_agent x) then (s, Inl RecordAgent)
      else if \<not> validChannel (rx_channel x) then (s, Inl RecordChannel)
      else case validateAdoptionRequest q of
        Some e \<Rightarrow> (s, Inl (RecordRequest e))
      | None \<Rightarrow>
     (case visitRecords (io_decode io) (reference_step lx rd q) (st_events s) no_references of
        (f, Inl e) \<Rightarrow> (s, Inl (RecordReferences e))
      | (f, Inr _) \<Rightarrow>
     (case af_retrieval f of
        None \<Rightarrow> (s, Inl RecordNoRetrieval)
      | Some t \<Rightarrow>
     if tc_receipt_id t \<noteq> dq_retrieval_id q \<or> rt_status (tc_result t) \<noteq> ''completed'' then (s, Inl RecordNoRetrieval)
     else (case alignAdoptionContext x (se_context (tc_request t)) of
        Inl e \<Rightarrow> (s, Inl (RecordAlign e))
      | Inr y \<Rightarrow>
     (case check_adoption lx s q f t of
        Some e \<Rightarrow> (s, Inl e)
      | None \<Rightarrow>
     (case marshal (adoption_request_json q) of
        None \<Rightarrow> (s, Inl RecordEncode)
      | Some bytes \<Rightarrow>
     (case random of
        None \<Rightarrow> (s, Inl RecordRandom)
      | Some b \<Rightarrow>
     (let a = make_adoption now (''adoption-'' @ NewEventID now b) bytes q in
      case appendAdoptionEvent io a y s of
        (s', Some e) \<Rightarrow> (s', Inl (RecordReceipt e))
      | (s', None) \<Rightarrow> (s', Inr a)))))))))"

end
