(* ===== verification/Retrieval_Load.thy ===== *)
theory Retrieval_Load
  imports Portable_Claims Retrieval_Adoption
begin

text \<open>
  What retrieval is given by \<open>LoadActiveRevisions\<close>: the report counts the active memories, every issue has a
  visible code, and the revisions are valid and have ids of their own.
\<close>

section \<open>The report\<close>

lemma codes_visible [simp]:
  "\<not> blank ''repository_root_invalid''" "\<not> blank ''repository_file_changed''" "\<not> blank ''repository_file_missing''"
  "\<not> blank ''repository_read_error''" "\<not> blank ''unexpected_path''" "\<not> blank ''invalid_loadout''"
  "\<not> blank ''loadout_path_mismatch''" "\<not> blank ''duplicate_loadout''" "\<not> blank ''invalid_revision''"
  "\<not> blank ''revision_path_mismatch''" "\<not> blank ''duplicate_revision''" "\<not> blank ''missing_parent''"
  "\<not> blank ''invalid_parent''" "\<not> blank ''revision_fork''" "\<not> blank ''root_conflict''" "\<not> blank ''revision_cycle''"
  "\<not> blank ''head_conflict''" "\<not> blank ''semantic_conflict''" "\<not> blank ''duplicate_semantic_memory''"
  "\<not> blank ''invalid_loadout_reference''"
  by code_simp+

definition codes_ok :: "portable_report \<Rightarrow> bool" where
  "codes_ok report \<longleftrightarrow> (\<forall>i \<in> set (pt_issues report). \<not> blank (pi_code i))"

lemma issue_code [simp]: "pi_code (issue c l m r ms rs t) = c"
  by (simp add: issue_def)

lemma codes_ok_simps [simp]:
  "codes_ok (addIssue report i) \<longleftrightarrow> codes_ok report \<and> \<not> blank (pi_code i)"
  "codes_ok (add_repository_issues report is) \<longleftrightarrow> codes_ok report \<and> (\<forall>i \<in> set is. \<not> blank (pi_code i))"
  "codes_ok (plain_issue c m report) \<longleftrightarrow> codes_ok report \<and> \<not> blank c"
  "codes_ok (revision_issue c mid rid m report) \<longleftrightarrow> codes_ok report \<and> \<not> blank c"
  "codes_ok (loadout_issue c lid m report) \<longleftrightarrow> codes_ok report \<and> \<not> blank c"
  "codes_ok (count_file report) \<longleftrightarrow> codes_ok report"
  "codes_ok (finalizeReport report) \<longleftrightarrow> codes_ok report"
  "codes_ok (report\<lparr>pt_files := n\<rparr>) \<longleftrightarrow> codes_ok report" "codes_ok (report\<lparr>pt_active := n\<rparr>) \<longleftrightarrow> codes_ok report"
  "codes_ok (report\<lparr>pt_revoked := n\<rparr>) \<longleftrightarrow> codes_ok report" "codes_ok (report\<lparr>pt_memories := n\<rparr>) \<longleftrightarrow> codes_ok report"
  "codes_ok (report\<lparr>pt_revisions := n\<rparr>) \<longleftrightarrow> codes_ok report" "codes_ok (report\<lparr>pt_loadouts := n\<rparr>) \<longleftrightarrow> codes_ok report"
  by (auto simp: codes_ok_def plain_issue_def revision_issue_def loadout_issue_def count_file_def finalizeReport_def)

text \<open>The number of active memories is that of the active heads.\<close>

definition active_heads :: "repository_state \<Rightarrow> (string \<times> portable_revision) list" where
  "active_heads state = filter (\<lambda>h. pv_status (snd h) = StatusActive) (rs_heads state)"

definition counted :: "loading \<Rightarrow> bool" where
  "counted s \<longleftrightarrow> codes_ok (fst s) \<and> pt_active (fst s) = int (length (active_heads (snd s)))"

lemma pt_active_simps [simp]:
  "pt_active (addIssue report i) = pt_active report"
  "pt_active (plain_issue c m report) = pt_active report"
  "pt_active (revision_issue c mid rid m report) = pt_active report"
  "pt_active (loadout_issue c lid m report) = pt_active report"
  "pt_active (count_file report) = pt_active report"
  "pt_active (finalizeReport report) = pt_active report"
  by (simp_all add: addIssue_def plain_issue_def revision_issue_def loadout_issue_def count_file_def finalizeReport_def)

lemma pt_active_add [simp]: "pt_active (add_repository_issues report is) = pt_active report"
  by (induction "is" arbitrary: report) (simp_all add: add_repository_issues_def)

lemma check_fixed_file_counted:
  "codes_ok report \<Longrightarrow> codes_ok (check_fixed_file t report f) \<and> pt_active (check_fixed_file t report f) = pt_active report"
  by (auto simp: check_fixed_file_def Let_def split: option.splits fs_node.splits)

lemma fixed_files_counted:
  "codes_ok report \<Longrightarrow> codes_ok (fold (\<lambda>f r. check_fixed_file t r f) fs report) \<and>
     pt_active (fold (\<lambda>f r. check_fixed_file t r f) fs report) = pt_active report"
  by (induction fs arbitrary: report) (auto simp: check_fixed_file_counted)

lemma visit_loadout_counted: "counted s \<Longrightarrow> counted (visit_loadout env parts content s)"
  by (auto simp: visit_loadout_def counted_def active_heads_def Let_def split: prod.splits option.splits sum.splits)

lemma visit_revision_counted: "counted s \<Longrightarrow> counted (visit_revision env parts content s)"
  by (auto simp: visit_revision_def counted_def active_heads_def Let_def split: prod.splits option.splits sum.splits)

lemma visit_path_counted: "counted s \<Longrightarrow> counted (visit_path env pv s)"
proof -
  assume c: "counted s"
  obtain parts v where pv: "pv = (parts, v)" by fastforce
  obtain report state where s: "s = (report, state)" by fastforce
  have i: "counted (plain_issue code m report, state)" if "\<not> blank code" for code m
    using c that by (simp add: s counted_def)
  note loadout = visit_loadout_counted [OF c] and revision = visit_revision_counted [OF c]
  show ?thesis
    using c i loadout revision unfolding visit_path_def pv s
    by (cases v) (simp_all only: prod.case visit.case split: if_split, simp_all)
qed

lemma walk_counted: "counted s \<Longrightarrow> counted (fold (visit_path env) vs s)"
  by (induction vs arbitrary: s) (auto simp: visit_path_counted)

lemma graph_codes: "i \<in> set (graph_issues all mid) \<Longrightarrow> \<not> blank (pi_code i)"
  by (auto simp: graph_issues_def graph_issue_def check_parent_def check_fork_def split: if_splits option.splits)

lemma check_memory_counted: "counted s \<Longrightarrow> counted (check_memory mid s)"
  using graph_codes
  by (auto simp: check_memory_def counted_def active_heads_def Let_def split: prod.splits list.splits)

lemma check_memories_counted: "counted s \<Longrightarrow> counted (fold check_memory ids s)"
  by (induction ids arbitrary: s) (auto simp: check_memory_counted)

lemma semantic_heads_counted:
  "codes_ok report \<Longrightarrow> codes_ok (validateSemanticHeads u heads report) \<and>
     pt_active (validateSemanticHeads u heads report) = pt_active report"
proof -
  have "codes_ok r \<Longrightarrow> codes_ok (fold (\<lambda>key r. let g = semantic_group u heads key in
       if length g < 2 then r else addIssue r (semantic_issue u g)) ks r) \<and>
     pt_active (fold (\<lambda>key r. let g = semantic_group u heads key in
       if length g < 2 then r else addIssue r (semantic_issue u g)) ks r) = pt_active r" for ks r
    by (induction ks arbitrary: r) (auto simp: Let_def semantic_issue_def)
  then show "codes_ok report \<Longrightarrow> ?thesis" by (simp add: validateSemanticHeads_def)
qed

lemma validateRepositoryState_counted: "counted s \<Longrightarrow> counted (validateRepositoryState u s)"
proof -
  assume "counted s"
  then have "counted ((fst s)\<lparr>pt_memories := n\<rparr>, snd s)" for n by (simp add: counted_def)
  from check_memories_counted [OF this] show ?thesis
    using semantic_heads_counted
    by (auto simp: validateRepositoryState_def counted_def Let_def case_prod_beta)
qed

lemma loadouts_counted:
  "codes_ok report \<Longrightarrow> codes_ok (fold (check_loadout state) ls report) \<and>
     pt_active (fold (check_loadout state) ls report) = pt_active report"
  by (induction ls arbitrary: report) (auto simp: check_loadout_def)

lemma empty_report_ok [simp]: "codes_ok empty_repository_report" "pt_active empty_repository_report = 0"
  by (simp_all add: codes_ok_def empty_repository_report_def)

lemma load_tree_counted: "counted (load_tree env t vs)"
proof -
  have "counted (fold (\<lambda>f r. check_fixed_file t r f) repository_files empty_repository_report, empty_repository)"
    using fixed_files_counted by (simp add: counted_def active_heads_def empty_repository_def)
  from validateRepositoryState_counted [OF walk_counted [OF this]] show ?thesis
    using loadouts_counted by (simp add: load_tree_def counted_def Let_def validateLoadoutState_def)
qed

lemma loadRepository_counted: "counted (loadRepository env path dir)"
proof -
  have "counted (root_invalid m)" for m
    by (simp add: root_invalid_def counted_def active_heads_def empty_repository_def)
  then show ?thesis using load_tree_counted by (simp add: loadRepository_def split: fs_root.splits)
qed

section \<open>The active revisions\<close>

lemma given_report:
  assumes "LoadActiveRevisions env path dir = (rs, report)"
  shows "codes_ok report" and "0 \<le> pt_active report" and "pt_issues report = [] \<Longrightarrow> pt_active report = int (length rs)"
proof -
  obtain state where l: "loadRepository env path dir = (report, state)"
    using assms by (cases "loadRepository env path dir") (auto simp: LoadActiveRevisions_def Let_def split: if_splits)
  then have c: "counted (report, state)" using loadRepository_counted [of env path dir] by simp
  then show "codes_ok report" and "0 \<le> pt_active report" by (simp_all add: counted_def)
  assume "pt_issues report = []"
  then have "length rs = length (active_heads state)"
    using assms by (auto simp: LoadActiveRevisions_def l Let_def active_heads_def)
  then show "pt_active report = int (length rs)" using c by (simp add: counted_def)
qed

lemma given_revisions:
  assumes "LoadActiveRevisions env path dir = (rs, report)" and "pt_issues report = []"
  shows "distinct (map pv_memory_id rs)" and "distinct (map pv_revision_id rs)"
    and "\<forall>r \<in> set rs. pv_status r = StatusActive \<and> validateRevision (le_engine env) r = None"
proof -
  obtain state where l: "loadRepository env path dir = (report, state)"
    using assms by (cases "loadRepository env path dir") (auto simp: LoadActiveRevisions_def Let_def split: if_splits)
  note a = active_revisions_spec [OF l assms(2), unfolded assms(1) fst_conv]
  have srt: "strictly_sorted (map pv_memory_id rs)" using a by blast
  then show m: "distinct (map pv_memory_id rs)"
    by (simp only: strictly_sorted_def strict_sorted_iff)
  have v: "revisions_ok env (rs_revisions state)"
    using loadRepository_verified [OF l assms(2)] by (simp add: verified_state_def)
  have mem: "(pv_revision_id r, r) \<in> set (rs_revisions state)" if r: "r \<in> set rs" for r
  proof -
    obtain l where "line_of_memory (rs_revisions state) (pv_memory_id r) l" "last l = r" using a r by blast
    then have "r \<in> members (rs_revisions state) (pv_memory_id r)" using line_head_memory by blast
    then show ?thesis using v by (auto simp: members_def revisions_ok_def list_all_iff)
  qed
  have "inj_on pv_revision_id (set rs)"
  proof (rule inj_onI)
    fix x y assume "x \<in> set rs" "y \<in> set rs" "pv_revision_id x = pv_revision_id y"
    then have "(pv_revision_id x, x) \<in> set (rs_revisions state)" "(pv_revision_id x, y) \<in> set (rs_revisions state)"
      using mem by metis+
    then show "x = y" using v eq_key_imp_eq_value by (fastforce simp: revisions_ok_def)
  qed
  then show "distinct (map pv_revision_id rs)" using m by (simp add: distinct_map)
  show "\<forall>r \<in> set rs. pv_status r = StatusActive \<and> validateRevision (le_engine env) r = None"
    using a by blast
qed

text \<open>What the format promises of an active revision.\<close>

lemma valid_active:
  assumes "validateRevision en r = None" and "pv_status r = StatusActive"
  shows "validPrefixedHash (pv_memory_id r) ''memory-''" and "validPrefixedHash (pv_revision_id r) ''portable-revision-''"
    and "validKind (pv_kind r)" and "\<not> blank (pv_text r)" and "pv_text_sha256 r = textDigest (pv_text r)"
    and "validBasis_portable (pv_basis r)"
  using assms unfolding validateRevision_def check_portable_content_def first_error_Cons fail_if_None by auto

end
