(* ===== verification/Retrieval_Props.thy ===== *)
theory Retrieval_Props
  imports Retrieval_Load "HOL-Library.Sublist"
begin

text \<open>
  Ranking and selection: the selection is a subsequence of the ranking, stays within the limit and the budgets of
  the request, and every memory that is not selected is counted for one reason.
\<close>

section \<open>One turn of the selection\<close>

abbreviation match_of :: "ranked_revision \<Rightarrow> memory_match" where
  "match_of k \<equiv> make_match (rk_revision k) (rk_score k) (rk_terms k) (rk_specificity k) (rk_rationale k)"

definition same_envelope :: "retrieval_result \<Rightarrow> retrieval_result \<Rightarrow> bool" where
  "same_envelope t t' \<longleftrightarrow>
     rt_schema_version t' = rt_schema_version t \<and> rt_receipt_id t' = rt_receipt_id t \<and> rt_status t' = rt_status t \<and>
     rt_selector_sha256 t' = rt_selector_sha256 t \<and> rt_repository_state t' = rt_repository_state t \<and>
     rt_issues t' = rt_issues t \<and> rt_active t' = rt_active t \<and> rt_token_budget t' = rt_token_budget t \<and>
     rt_byte_budget t' = rt_byte_budget t \<and> rt_gaps t' = rt_gaps t \<and> rt_privacy t' = rt_privacy t"

definition within_request :: "retrieval_request \<Rightarrow> retrieval_result \<Rightarrow> bool" where
  "within_request q t \<longleftrightarrow>
     rt_selected t \<noteq> None \<and> rt_selected_bytes t = sum_list (map mm_bytes (selected_matches t)) \<and>
     rt_selected_tokens t = sum_list (map mm_tokens (selected_matches t)) \<and>
     rt_selected_bytes t \<le> se_byte_budget q \<and> rt_selected_tokens t \<le> se_token_budget q \<and>
     int (length (selected_matches t)) \<le> se_limit q \<and> validExclusionCounts (rt_exclusions t)"

text \<open>The memories that a result accounts for beside those out of scope.\<close>

definition accounted :: "retrieval_result \<Rightarrow> int" where
  "accounted t =
     xc_no_lexical_match (rt_exclusions t) + int (length (selected_matches t)) + xc_result_limit (rt_exclusions t) +
     xc_token_budget (rt_exclusions t) + xc_byte_budget (rt_exclusions t)"

named_theorems selection_defs

lemmas [selection_defs] = exclude_def select_match_def selected_matches_def same_envelope_def within_request_def accounted_def
  validExclusionCounts_def

lemma select_step_envelope: "same_envelope t (select_step q k t) \<and> rt_applicable (select_step q k t) = rt_applicable t \<and>
    xc_scope_mismatch (rt_exclusions (select_step q k t)) = xc_scope_mismatch (rt_exclusions t)"
  by (simp add: select_step_def Let_def selection_defs)

lemma select_step_within: "within_request q t \<Longrightarrow> within_request q (select_step q k t)"
  by (auto simp: select_step_def Let_def selection_defs)

lemma select_step_accounted: "accounted (select_step q k t) = accounted t + 1"
  by (simp add: select_step_def Let_def selection_defs)

lemma select_step_selected:
  "selected_matches (select_step q k t) = selected_matches t \<or>
   selected_matches (select_step q k t) = selected_matches t @ [match_of k]"
  by (simp add: select_step_def Let_def selection_defs)

lemma same_envelope_trans: "same_envelope a b \<Longrightarrow> same_envelope b c \<Longrightarrow> same_envelope a c"
  by (simp add: same_envelope_def)

lemma same_envelope_refl [simp]: "same_envelope t t"
  by (simp add: same_envelope_def)

section \<open>The whole selection\<close>

lemma selection_envelope:
  "same_envelope t (fold (select_step q) ks t) \<and> rt_applicable (fold (select_step q) ks t) = rt_applicable t \<and>
   xc_scope_mismatch (rt_exclusions (fold (select_step q) ks t)) = xc_scope_mismatch (rt_exclusions t)"
proof (induction ks arbitrary: t)
  case (Cons k ks)
  then show ?case using select_step_envelope [of t q k] same_envelope_trans by (metis fold_simps(2))
qed simp

lemma selection_within: "within_request q t \<Longrightarrow> within_request q (fold (select_step q) ks t)"
  by (induction ks arbitrary: t) (simp_all add: select_step_within)

lemma selection_accounted: "accounted (fold (select_step q) ks t) = accounted t + int (length ks)"
  by (induction ks arbitrary: t) (simp_all add: select_step_accounted)

lemma selection_subseq:
  "\<exists>ks'. subseq ks' ks \<and> selected_matches (fold (select_step q) ks t) = selected_matches t @ map match_of ks'"
proof (induction ks arbitrary: t)
  case (Cons k ks)
  from Cons.IH [of "select_step q k t"] obtain ks' where ks': "subseq ks' ks"
    "selected_matches (fold (select_step q) (k # ks) t) = selected_matches (select_step q k t) @ map match_of ks'" by auto
  from select_step_selected [of q k t] show ?case
  proof
    assume "selected_matches (select_step q k t) = selected_matches t"
    with ks' show ?thesis by (intro exI [of _ ks']) auto
  next
    assume "selected_matches (select_step q k t) = selected_matches t @ [match_of k]"
    with ks' show ?thesis by (intro exI [of _ "k # ks'"]) auto
  qed
qed auto

section \<open>The ranking\<close>

lemma matchPrecedes_key: "matchPrecedes (match_of a) (match_of b) \<longleftrightarrow> rank_key a < rank_key b"
  by (auto simp: matchPrecedes_def rank_key_def make_match_def less_prod_def')

lemma sorted_wrt_subseq: "subseq xs ys \<Longrightarrow> sorted_wrt P ys \<Longrightarrow> sorted_wrt P xs"
proof (induction rule: list_emb.induct)
  case (list_emb_Cons2 x y xs ys)
  then show ?case using list_emb_set by (fastforce elim: list_emb_set)
qed auto

lemma map_filter_map: "(\<And>x k. f x = Some k \<Longrightarrow> g k = x) \<Longrightarrow> map g (List.map_filter f xs) = filter (\<lambda>x. f x \<noteq> None) xs"
  by (induction xs) (auto simp: List.map_filter_simps split: option.split)

lemma rank_revision_of: "rank_revision lx q rs r = Some k \<Longrightarrow> rk_revision k = r"
  by (auto simp: rank_revision_def Let_def split: if_splits)

lemma ranked_sorted:
  assumes "distinct (map pv_memory_id rs)"
  shows "sorted_wrt (\<lambda>a b. rank_key a < rank_key b) (sort_key rank_key (List.map_filter (rank_revision lx q rs) rs))"
proof -
  let ?ks = "List.map_filter (rank_revision lx q rs) rs"
  have "map rk_revision ?ks = filter (\<lambda>r. rank_revision lx q rs r \<noteq> None) rs"
    by (rule map_filter_map) (rule rank_revision_of)
  then have "map (pv_memory_id \<circ> rk_revision) ?ks = map pv_memory_id (filter (\<lambda>r. rank_revision lx q rs r \<noteq> None) rs)"
    by (metis map_map)
  then have "distinct (map (pv_memory_id \<circ> rk_revision) ?ks)"
    using assms by (simp add: distinct_map_filter)
  then have "distinct (map rank_key ?ks)"
    by (auto simp: distinct_map inj_on_def rank_key_def)
  then have "distinct (map rank_key (sort_key rank_key ?ks))" by (simp add: distinct_map)
  moreover have "sorted (map rank_key (sort_key rank_key ?ks))" by simp
  ultimately have "sorted_wrt (<) (map rank_key (sort_key rank_key ?ks))"
    by (simp only: strict_sorted_iff)
  then show ?thesis by (simp add: sorted_wrt_map)
qed

section \<open>Every match is valid\<close>

lemma document_terms_own:
  assumes "distinct (map pv_revision_id rs)" and "r \<in> set rs"
  shows "document_terms lx rs (pv_revision_id r) = lexicalTerms lx (pv_text r)"
proof -
  let ?f = "\<lambda>r. (pv_revision_id r, lexicalTerms lx (pv_text r))"
  have "distinct (map fst (rev (map ?f rs)))" using assms(1) by (simp add: rev_map [symmetric] comp_def)
  moreover have "?f r \<in> set (rev (map ?f rs))" using assms(2) by simp
  ultimately have "map_of (rev (map ?f rs)) (pv_revision_id r) = Some (lexicalTerms lx (pv_text r))"
    by (simp only: map_of_eq_Some_iff)
  then show ?thesis by (simp add: document_terms_def)
qed

lemma term_score_pos: "df \<le> n \<Longrightarrow> 0 < tf \<Longrightarrow> 0 < c \<Longrightarrow> 0 < term_score n df tf c"
proof -
  assume "df \<le> n" "0 < tf" "0 < c"
  moreover have "0 \<le> (int n - int df) * 1000 div (int df + 1)" using \<open>df \<le> n\<close> by (simp add: pos_imp_zdiv_nonneg_iff)
  ultimately show ?thesis by (simp add: term_score_def Let_def)
qed

lemma sum_list_pos: "xs \<noteq> [] \<Longrightarrow> \<forall>x \<in> set xs. 0 < x \<Longrightarrow> 0 < sum_list (xs :: int list)"
proof (induction xs)
  case (Cons x xs)
  then show ?case by (cases "xs = []") (auto intro: add_pos_pos)
qed simp

lemma scopeSpecificity_nonneg [simp]: "0 \<le> scopeSpecificity kind"
  by (simp add: scopeSpecificity_def)

lemma kind_score_nonneg [simp]: "0 \<le> kind_score kind"
  by (simp add: kind_score_def)

lemma basis_score_nonneg [simp]: "0 \<le> basis_score basis"
  unfolding basis_score_def by (rule sum_list_nonneg) auto

lemma frequencies_zero [simp]:
  "frequencies ts t = 0 \<longleftrightarrow> t \<notin> set ts" "0 < frequencies ts t \<longleftrightarrow> t \<in> set ts"
  by (simp_all add: frequencies_def count_list_0_iff flip: neq0_conv)

lemma rank_revision_Some:
  assumes "rank_revision lx q rs r = Some k" and "distinct (map pv_revision_id rs)" and "r \<in> set rs"
  shows "rk_specificity k = scopeSpecificity (pv_scope_kind r)"
    and "rk_rationale k = lexical_rationale lx (se_query q) (pv_text r) (pv_scope_kind r)"
    and "set (rk_terms k) = set (lexicalTerms lx (se_query q)) \<inter> set (lexicalTerms lx (pv_text r))"
    and "strictly_sorted (rk_terms k)" and "0 < rk_score k"
proof -
  let ?terms = "lexicalTerms lx (se_query q)" and ?doc = "lexicalTerms lx (pv_text r)"
  define matched where "matched = filter (\<lambda>t. frequencies ?doc t \<noteq> 0) (remdups ?terms)"
  note k = assms(1) [unfolded rank_revision_def Let_def document_terms_own [OF assms(2,3)], folded matched_def]
  have ne: "matched \<noteq> []" using k by (auto split: if_splits)
  show "rk_specificity k = scopeSpecificity (pv_scope_kind r)"
    and "rk_rationale k = lexical_rationale lx (se_query q) (pv_text r) (pv_scope_kind r)"
    using k ne by auto
  have terms: "rk_terms k = sort matched" using k ne by auto
  then show "set (rk_terms k) = set ?terms \<inter> set ?doc" by (auto simp: matched_def)
  have "distinct matched" by (simp add: matched_def)
  then show "strictly_sorted (rk_terms k)"
    using terms strictly_sorted_sort by simp
  let ?score = "\<lambda>t. term_score (length rs) (document_frequency lx rs t) (frequencies ?doc t) (frequencies ?terms t)"
  have "0 < ?score t" if "t \<in> set matched" for t
    using that
    by (intro term_score_pos) (auto simp: matched_def document_frequency_def)
  then have "0 < sum_list (map ?score matched)" using ne by (intro sum_list_pos) auto
  moreover have "rk_score k = sum_list (map ?score matched) + (if phrase_match lx (se_query q) (pv_text r) then 8000 else 0) +
      scopeSpecificity (pv_scope_kind r) * 250 + kind_score (pv_kind r) + basis_score (pv_basis r)"
    using k ne by auto
  moreover have "0 \<le> (if phrase_match lx (se_query q) (pv_text r) then 8000 else 0 :: int)" by simp
  ultimately show "0 < rk_score k"
    using scopeSpecificity_nonneg [of "pv_scope_kind r"] kind_score_nonneg [of "pv_kind r"] basis_score_nonneg [of "pv_basis r"]
    by linarith
qed

text \<open>The part of the check that does not depend on how the match was found.\<close>

lemma make_match_valid:
  assumes "validateRevision en r = None" and "pv_status r = StatusActive" and "scopeApplies r (se_context q)"
    and "validMatchSelection lx (make_match r score terms (scopeSpecificity (pv_scope_kind r)) rationale) q"
  shows "validMatch lx q (make_match r score terms (scopeSpecificity (pv_scope_kind r)) rationale)"
  using valid_active [OF assms(1,2)] assms(3,4)
  by (simp add: validMatch_def make_match_def validMemoryReference_def validPrefixedHash_retrieval_iff textDigest_def
      validMatchKind_def validKind_def validEvidenceBasis_def validBasis_portable_def slice_of_def scopeApplies_def disj_ac)

lemma ranked_match_valid:
  assumes "rank_revision lx q rs r = Some k" and "distinct (map pv_revision_id rs)" and "r \<in> set rs" and "lexicon_ok lx"
    and "validateRevision en r = None" and "pv_status r = StatusActive" and "scopeApplies r (se_context q)"
    and "se_memory_id q = []"
  shows "validMatch lx q (match_of k)"
proof -
  note k = rank_revision_Some [OF assms(1-3)] and r = rank_revision_of [OF assms(1)]
  have "isSortedUnique (rk_terms k)"
    using k(3,4) lexicalTerms_visible [OF assms(4)] by (auto simp: isSortedUnique_iff)
  then have "validMatchSelection lx (match_of k) q"
    using k assms(8) by (auto simp: validMatchSelection_def make_match_def r)
  then show ?thesis
    using make_match_valid [OF assms(5-7)] k(1) r by simp
qed

lemma exact_match_valid:
  assumes "validateRevision en r = None" and "pv_status r = StatusActive" and "scopeApplies r (se_context q)"
    and "pv_memory_id r = se_memory_id q" and "se_memory_id q \<noteq> []"
  shows "validMatch lx q (make_match r 1 [] (scopeSpecificity (pv_scope_kind r)) [''exact_memory_id'', ''scope_'' @ pv_scope_kind r])"
  by (rule make_match_valid [OF assms(1-3)]) (use assms(4,5) in \<open>simp add: validMatchSelection_def make_match_def\<close>)

end
