(* ===== verification/Retrieval_Result.thy ===== *)
theory Retrieval_Result
  imports Retrieval_Props
begin

text \<open>
  The result of a search as a whole, and that the receipt it is recorded in passes every check that the verifier
  makes of a receipt by itself.
\<close>

section \<open>The matches of a result\<close>

abbreviation match_memory :: "memory_match \<Rightarrow> string" where
  "match_memory m \<equiv> mr_memory_id (mm_reference m)"

definition match_from :: "portable_revision \<Rightarrow> memory_match \<Rightarrow> bool" where
  "match_from r m \<longleftrightarrow>
     mm_reference m = \<lparr>mr_memory_id = pv_memory_id r, mr_revision_id = pv_revision_id r\<rparr> \<and> mm_text m = pv_text r"

definition matches_ok :: "lexicon \<Rightarrow> retrieval_request \<Rightarrow> portable_revision list \<Rightarrow> memory_match list \<Rightarrow> bool" where
  "matches_ok lx q rs ms \<longleftrightarrow>
     sorted_wrt matchPrecedes ms \<and> distinct (map match_memory ms) \<and>
     (\<forall>m \<in> set ms. validMatch lx q m \<and> (\<exists>r \<in> set rs. scopeApplies r (se_context q) \<and> match_from r m))"

lemma match_from_make [simp]: "match_from r (make_match r score terms specificity rationale)"
  by (simp add: match_from_def make_match_def)

lemma make_match_memory [simp]: "match_memory (make_match r score terms specificity rationale) = pv_memory_id r"
  by (simp add: make_match_def)

lemma matches_ok_Nil [simp]: "matches_ok lx q rs []"
  by (simp add: matches_ok_def)

text \<open>The keys of references with valid memory ids tell the memories apart.\<close>

lemma referenceKey_inj:
  assumes "referenceKey a = referenceKey b" and "validMemoryReference a" and "validMemoryReference b"
  shows "mr_memory_id a = mr_memory_id b"
proof -
  have "length (mr_memory_id r) = 71" if r: "validMemoryReference r" for r
  proof -
    have "validPrefixedHash (mr_memory_id r) ''memory-''"
      using r by (simp add: validMemoryReference_def validPrefixedHash_retrieval_iff)
    then obtain h where "mr_memory_id r = ''memory-'' @ h" "validSHA256 h"
      unfolding validPrefixedHash_def using hasPrefixE trimPrefix_append by metis
    then show ?thesis by (simp add: validSHA256_iff)
  qed
  then show ?thesis using assms by (simp add: referenceKey_def)
qed

lemma match_issues_Nil:
  assumes "sorted_wrt matchPrecedes ms" and "\<forall>m \<in> set ms. validMatch lx q m"
    and "distinct (map match_memory ms)" and "\<And>p. previous = Some p \<Longrightarrow> \<forall>m \<in> set ms. matchPrecedes p m"
    and "\<forall>m \<in> set ms. referenceKey (mm_reference m) \<notin> set seen"
  shows "match_issues lx q previous seen ms = []"
  using assms
proof (induction ms arbitrary: previous seen)
  case (Cons m ms)
  have valid: "validMemoryReference (mm_reference m')" if "m' \<in> set (m # ms)" for m'
  proof -
    have "validMatch lx q m'" using Cons.prems(2) that by blast
    then show ?thesis by (simp add: validMatch_def)
  qed
  have "match_memory m' \<noteq> match_memory m" if "m' \<in> set ms" for m'
  proof -
    have "match_memory m' \<in> set (map match_memory ms)" using that by auto
    then show ?thesis using Cons.prems(3) by auto
  qed
  then have key: "referenceKey (mm_reference m') \<noteq> referenceKey (mm_reference m)" if "m' \<in> set ms" for m'
    using that referenceKey_inj [OF _ valid [of m'] valid [of m]] by force
  have "match_issues lx q (Some m) (referenceKey (mm_reference m) # seen) ms = []"
    by (rule Cons.IH) (use Cons.prems key in \<open>simp_all\<close>)
  moreover have "validMatch lx q m" "referenceKey (mm_reference m) \<notin> set seen" using Cons.prems(2,5) by simp_all
  moreover have "case previous of None \<Rightarrow> True | Some p \<Rightarrow> matchPrecedes p m"
    using Cons.prems(4) by (simp split: option.split)
  ultimately show ?case by (cases previous) simp_all
qed simp

section \<open>The ranked search\<close>

lemma distinct_sorted_wrt: "distinct xs \<longleftrightarrow> sorted_wrt (\<noteq>) xs"
  by (induction xs) auto

lemma subseq_distinct: "subseq xs ys \<Longrightarrow> distinct ys \<Longrightarrow> distinct xs"
  unfolding distinct_sorted_wrt by (rule sorted_wrt_subseq)

definition fresh_result :: "retrieval_result \<Rightarrow> bool" where
  "fresh_result t \<longleftrightarrow> rt_selected t = Some [] \<and> rt_selected_bytes t = 0 \<and> rt_selected_tokens t = 0 \<and> rt_exclusions t = no_exclusions"

definition request_ok :: "retrieval_request \<Rightarrow> bool" where
  "request_ok q \<longleftrightarrow> 1 \<le> se_limit q \<and> 1 \<le> se_token_budget q \<and> 1 \<le> se_byte_budget q"

definition revisions_given :: "scan_engine \<Rightarrow> portable_revision list \<Rightarrow> bool" where
  "revisions_given en rs \<longleftrightarrow> distinct (map pv_memory_id rs) \<and> distinct (map pv_revision_id rs) \<and>
     (\<forall>r \<in> set rs. pv_status r = StatusActive \<and> validateRevision en r = None)"

text \<open>What ranking establishes of a result.\<close>

definition ranked_result :: "lexicon \<Rightarrow> portable_revision list \<Rightarrow> retrieval_request \<Rightarrow> retrieval_result \<Rightarrow> retrieval_result \<Rightarrow> bool" where
  "ranked_result lx rs q t t' \<longleftrightarrow>
     same_envelope t t' \<and> within_request q t' \<and> 0 \<le> rt_applicable t' \<and>
     xc_scope_mismatch (rt_exclusions t') + rt_applicable t' = int (length rs) \<and>
     (se_memory_id q \<noteq> [] \<or> accounted t' = rt_applicable t') \<and> matches_ok lx q rs (selected_matches t')"

lemma revisions_given_filter: "revisions_given en rs \<Longrightarrow> revisions_given en (filter P rs)"
  by (auto simp: revisions_given_def distinct_map_filter)

lemma ranked_matches_ok:
  assumes g: "revisions_given en rs" and "lexicon_ok lx" and "se_memory_id q = []"
    and scope: "\<forall>r \<in> set rs. scopeApplies r (se_context q)"
    and sub: "subseq ks (sort_key rank_key (List.map_filter (rank_revision lx q rs) rs))"
  shows "matches_ok lx q rs (map match_of ks)"
proof -
  note g = g [unfolded revisions_given_def]
  have lt: "sorted_wrt (\<lambda>a b. rank_key a < rank_key b) ks"
    using sorted_wrt_subseq [OF sub ranked_sorted] g by blast
  have mem: "\<exists>r \<in> set rs. rank_revision lx q rs r = Some k" if "k \<in> set ks" for k
  proof -
    have "k \<in> set (List.map_filter (rank_revision lx q rs) rs)"
      using that list_emb_set [OF sub] by auto
    then show ?thesis by (auto simp: List.map_filter_def)
  qed
  have ids: "distinct (map (\<lambda>k. pv_memory_id (rk_revision k)) ks)"
  proof -
    let ?ks = "List.map_filter (rank_revision lx q rs) rs"
    have "map rk_revision ?ks = filter (\<lambda>r. rank_revision lx q rs r \<noteq> None) rs"
      by (rule map_filter_map) (rule rank_revision_of)
    then have "map (pv_memory_id \<circ> rk_revision) ?ks = map pv_memory_id (filter (\<lambda>r. rank_revision lx q rs r \<noteq> None) rs)"
      by (metis map_map)
    then have "distinct (map (pv_memory_id \<circ> rk_revision) ?ks)" using g by (simp add: distinct_map_filter)
    then have "distinct (map (pv_memory_id \<circ> rk_revision) (sort_key rank_key ?ks))"
      by (simp add: distinct_map)
    from subseq_distinct [OF subseq_map [OF sub] this] show ?thesis by (simp add: comp_def)
  qed
  have "validMatch lx q (match_of k) \<and> (\<exists>r \<in> set rs. scopeApplies r (se_context q) \<and> match_from r (match_of k))"
    if "k \<in> set ks" for k
  proof -
    obtain r where r: "r \<in> set rs" "rank_revision lx q rs r = Some k" using mem \<open>k \<in> set ks\<close> by blast
    have "validMatch lx q (match_of k)"
      by (rule ranked_match_valid [OF r(2) _ r(1) assms(2)]) (use g r scope assms(3) in auto)
    then show ?thesis using r scope rank_revision_of [OF r(2)] by fastforce
  qed
  then show ?thesis
    using lt ids by (auto simp: matches_ok_def sorted_wrt_map matchPrecedes_key comp_def)
qed

lemma rankExactMemory_cases:
  assumes "within_request q t" and "selected_matches t = []" and "request_ok q" and "revisions_given en rs" and "se_memory_id q \<noteq> []"
    and "\<forall>r \<in> set rs. scopeApplies r (se_context q)"
  shows "same_envelope t (rankExactMemory rs q t) \<and> within_request q (rankExactMemory rs q t) \<and>
    rt_applicable (rankExactMemory rs q t) = rt_applicable t \<and>
    xc_scope_mismatch (rt_exclusions (rankExactMemory rs q t)) = xc_scope_mismatch (rt_exclusions t) \<and>
    matches_ok lx q rs (selected_matches (rankExactMemory rs q t))"
  using assms(4,6)
proof (induction rs)
  case Nil
  then show ?case using assms(1,2) by simp
next
  case (Cons r rs)
  let ?m = "make_match r 1 [] (scopeSpecificity (pv_scope_kind r)) [''exact_memory_id'', ''scope_'' @ pv_scope_kind r]"
  have g: "revisions_given en rs" using Cons.prems(1) by (simp add: revisions_given_def)
  have widen: "matches_ok lx q rs ms \<Longrightarrow> matches_ok lx q (r # rs) ms" for ms by (auto simp: matches_ok_def)
  show ?case
  proof (cases "pv_memory_id r = se_memory_id q")
    case False
    then show ?thesis using Cons.IH [OF g] Cons.prems(2) widen by simp
  next
    case True
    have "validMatch lx q ?m"
      by (rule exact_match_valid) (use Cons.prems True assms(5) in \<open>auto simp: revisions_given_def\<close>)
    then have ok: "matches_ok lx q (r # rs) [?m]" using Cons.prems(2) by (auto simp: matches_ok_def)
    show ?thesis
      using True assms(1-3) ok
      by (auto simp: Let_def selection_defs request_ok_def)
  qed
qed

lemma rankRevisions_ok:
  assumes "fresh_result t" and "request_ok q" and "revisions_given en rs" and "lexicon_ok lx"
  shows "ranked_result lx rs q t (rankRevisions lx rs q t)"
proof -
  let ?app = "filter (\<lambda>r. scopeApplies r (se_context q)) rs"
  let ?mis = "int (length rs) - int (length ?app)"
  define t1 where "t1 = (exclude (\<lambda>x. x\<lparr>xc_scope_mismatch := xc_scope_mismatch x + ?mis\<rparr>) t)\<lparr>rt_applicable := int (length ?app)\<rparr>"
  have le: "length ?app \<le> length rs" by simp
  have t1: "same_envelope t t1" "within_request q t1" "rt_applicable t1 = int (length ?app)"
    "xc_scope_mismatch (rt_exclusions t1) = ?mis" "accounted t1 = 0" "selected_matches t1 = []"
    using assms(1,2) le
    by (simp_all add: t1_def selection_defs fresh_result_def request_ok_def no_exclusions_def)
  have g: "revisions_given en ?app" using revisions_given_filter [OF assms(3)] .
  have scope: "\<forall>r \<in> set ?app. scopeApplies r (se_context q)" by simp
  have widen: "matches_ok lx q ?app ms \<Longrightarrow> matches_ok lx q rs ms" for ms by (auto simp: matches_ok_def)
  show ?thesis
  proof (cases "se_memory_id q = []")
    case False
    have "same_envelope t1 (rankExactMemory ?app q t1) \<and> within_request q (rankExactMemory ?app q t1) \<and>
        rt_applicable (rankExactMemory ?app q t1) = rt_applicable t1 \<and>
        xc_scope_mismatch (rt_exclusions (rankExactMemory ?app q t1)) = xc_scope_mismatch (rt_exclusions t1) \<and>
        matches_ok lx q ?app (selected_matches (rankExactMemory ?app q t1))"
      by (rule rankExactMemory_cases [OF t1(2,6) assms(2) g False scope])
    moreover have "rankRevisions lx rs q t = rankExactMemory ?app q t1"
      using False by (simp add: rankRevisions_def Let_def t1_def)
    ultimately show ?thesis
      using t1 False widen same_envelope_trans by (auto simp: ranked_result_def)
  next
    case True
    let ?ranked = "List.map_filter (rank_revision lx q ?app) ?app"
    let ?un = "int (length ?app) - int (length ?ranked)"
    define t2 where "t2 = exclude (\<lambda>x. x\<lparr>xc_no_lexical_match := xc_no_lexical_match x + ?un\<rparr>) t1"
    have "length ?ranked \<le> length ?app" unfolding List.map_filter_def length_map by (rule length_filter_le)
    then have t2: "same_envelope t1 t2" "within_request q t2" "rt_applicable t2 = int (length ?app)"
      "xc_scope_mismatch (rt_exclusions t2) = ?mis" "accounted t2 = ?un" "selected_matches t2 = []"
      using t1 by (auto simp: t2_def selection_defs)
    have r: "rankRevisions lx rs q t = fold (select_step q) (sort_key rank_key ?ranked) t2"
      using True by (simp add: rankRevisions_def Let_def t1_def t2_def)
    obtain ks where ks: "subseq ks (sort_key rank_key ?ranked)"
      "selected_matches (rankRevisions lx rs q t) = map match_of ks"
      using selection_subseq [of "sort_key rank_key ?ranked" q t2] t2(6) r by auto
    have "matches_ok lx q rs (selected_matches (rankRevisions lx rs q t))"
      unfolding ks(2) by (rule widen) (rule ranked_matches_ok [OF g assms(4) True scope ks(1)])
    moreover have "same_envelope t (rankRevisions lx rs q t)"
      using selection_envelope [of t2 q "sort_key rank_key ?ranked"] t1(1) t2(1) same_envelope_trans r by metis
    ultimately show ?thesis
      using selection_envelope [of t2 q "sort_key rank_key ?ranked"] selection_within [OF t2(2)]
        selection_accounted [of q "sort_key rank_key ?ranked" t2] t2
      by (simp add: ranked_result_def r)
  qed
qed

section \<open>The result of a search\<close>

text \<open>What every result keeps of the request it answers.\<close>

definition result_for :: "string \<Rightarrow> retrieval_request \<Rightarrow> retrieval_result \<Rightarrow> bool" where
  "result_for receipt_id q t \<longleftrightarrow>
     rt_schema_version t = ResultSchemaVersion \<and> rt_privacy t = PrivacyLocalOnly_retrieval \<and>
     rt_receipt_id t = receipt_id \<and> rt_selector_sha256 t = selectorDigest q \<and>
     rt_token_budget t = se_token_budget q \<and> rt_byte_budget t = se_byte_budget q \<and>
     rt_gaps t = Some (contextGaps (se_context q)) \<and> within_request q t \<and> 0 \<le> rt_applicable t \<and>
     rt_applicable t \<le> rt_active t"

lemma initial_result_fresh [simp]: "fresh_result (initial_result i q)"
  by (simp add: fresh_result_def initial_result_def)

lemma fresh_update [simp]:
  "fresh_result (t\<lparr>rt_active := n\<rparr>) \<longleftrightarrow> fresh_result t"
  "fresh_result (t\<lparr>rt_repository_state := d\<rparr>) \<longleftrightarrow> fresh_result t"
  by (simp_all add: fresh_result_def)

lemma normalizeRequest_ok:
  assumes "normalizeRequest lx request = Inr q"
  shows "request_ok q" and "check_request lx q = None" and "q = request_defaults request" and "normalizeRequest lx q = Inr q"
proof -
  show c: "check_request lx q = None" and q: "q = request_defaults request"
    using assms by (auto simp: normalizeRequest_def Let_def split: option.splits)
  show "request_ok q" using c unfolding check_request_def first_error_Cons fail_if_None by (auto simp: request_ok_def)
  have "request_defaults q = q" by (simp add: q request_defaults_def)
  then show "normalizeRequest lx q = Inr q" using c by (simp add: normalizeRequest_def Let_def)
qed

lemma remdups_adj_strict: "sorted xs \<Longrightarrow> sorted_wrt (<) (remdups_adj xs)" for xs :: "'a :: linorder list"
  by (induction xs rule: remdups_adj.induct) (auto simp: less_le)

lemma sortedUnique_strict: "strictly_sorted (sortedUnique_retrieval vs)"
  unfolding sortedUnique_retrieval_def strictly_sorted_def by (rule remdups_adj_strict) (simp add: sorted_wrt_filter)

text \<open>A search is blocked with the codes of what is wrong with the repository, or it reaches the ranking.\<close>

lemma search_result_cases:
  assumes "request_ok q" and "lexicon_ok (sv_lexicon env)"
  obtains (blocked) issues n where "search_result env root_path i q = blocked_result issues ((initial_result i q)\<lparr>rt_active := n\<rparr>)"
      "0 \<le> n" "issues \<noteq> []" "isSortedUnique issues"
  | (ranked) rs report where
      "LoadActiveRevisions (sv_load env) root_path (sv_repository env root_path) = (rs, report)" "pt_issues report = []"
      "revisions_given (le_engine (sv_load env)) rs" "rt_active (search_result env root_path i q) = int (length rs)"
      "rt_status (search_result env root_path i q) = ''completed''"
      "rt_repository_state (search_result env root_path i q) = repositoryStateDigest rs"
      "rt_issues (search_result env root_path i q) = Some []"
      "ranked_result (sv_lexicon env) rs q
         ((initial_result i q)\<lparr>rt_active := int (length rs), rt_repository_state := repositoryStateDigest rs\<rparr>)
         (search_result env root_path i q)"
proof (cases "ensureSeparateRoots (sv_resolve env) (sv_evidence_root env) root_path")
  case (Some e)
  have "isSortedUnique [if e = RootsOverlap then ''storage_roots_not_separate'' else ''storage_roots_unresolved'']"
    by (cases "e = RootsOverlap") (simp_all only: if_True if_False, code_simp+)
  then show ?thesis
    using Some by (intro blocked [of "[if e = RootsOverlap then ''storage_roots_not_separate'' else ''storage_roots_unresolved'']" 0])
      (simp_all add: search_result_def Let_def initial_result_def)
next
  case None
  obtain rs report where l: "LoadActiveRevisions (sv_load env) root_path (sv_repository env root_path) = (rs, report)"
    by fastforce
  note report = given_report [OF l]
  show ?thesis
  proof (cases "pt_issues report = []")
    case False
    have "isSortedUnique (sortedUnique_retrieval (map pi_code (pt_issues report)))"
      using report(1) sortedUnique_strict by (auto simp: isSortedUnique_iff sortedUnique_retrieval_def codes_ok_def)
    moreover have "sortedUnique_retrieval (map pi_code (pt_issues report)) \<noteq> []"
    proof -
      have "\<not> blank (pi_code (hd (pt_issues report)))" using False report(1) by (simp add: codes_ok_def)
      then have "pi_code (hd (pt_issues report)) \<noteq> []" by auto
      then have "pi_code (hd (pt_issues report)) \<in> set (sortedUnique_retrieval (map pi_code (pt_issues report)))"
        using False by (simp add: sortedUnique_retrieval_def)
      then show ?thesis by (metis list.set(1) empty_iff)
    qed
    ultimately show ?thesis
      using None l False report(2)
      by (intro blocked [of "sortedUnique_retrieval (map pi_code (pt_issues report))" "pt_active report"])
        (auto simp: search_result_def Let_def)
  next
    case True
    let ?t = "(initial_result i q)\<lparr>rt_active := int (length rs), rt_repository_state := repositoryStateDigest rs\<rparr>"
    have g: "revisions_given (le_engine (sv_load env)) rs"
      using given_revisions [OF l True] by (simp add: revisions_given_def)
    have r: "search_result env root_path i q = rankRevisions (sv_lexicon env) rs q ?t"
      using None l True report(3) by (simp add: search_result_def Let_def)
    have ok: "ranked_result (sv_lexicon env) rs q ?t (search_result env root_path i q)"
      unfolding r by (rule rankRevisions_ok [OF _ assms(1) g assms(2)]) simp
    then have "same_envelope ?t (search_result env root_path i q)" by (simp add: ranked_result_def)
    then show ?thesis
      using ranked [OF l True g _ _ _ _ ok] by (simp add: same_envelope_def initial_result_def)
  qed
qed

end
