(* ===== verification/Retrieval_Causality.thy ===== *)
theory Retrieval_Causality
  imports Retrieval_Adoption
begin

text \<open>
  The search through the causes of an event: it finds an ancestor exactly when a chain of parents leads to it, each
  of them indexed and earlier in the log. So a delivery stays a cause when the log grows.
\<close>

section \<open>Chains of parents\<close>

definition caused_by :: "event_index \<Rightarrow> (string \<times> string) set" where
  "caused_by evs = {(p, c). \<exists>e k. indexed_event evs c = Some e \<and> ev_causality e = Some k \<and>
     p \<in> set (ca_parent_event_ids k) \<and> indexed_event evs p \<noteq> None \<and> event_position evs p < event_position evs c}"

lemma earlier_parents_iff: "p \<in> set (earlier_parents evs c) \<longleftrightarrow> (p, c) \<in> caused_by evs"
proof (cases "indexed_event evs c")
  case (Some e)
  then show ?thesis by (cases "ev_causality e") (auto simp: earlier_parents_def caused_by_def)
qed (simp add: earlier_parents_def caused_by_def)

lemma descends_sound:
  "descends evs a seen queue \<Longrightarrow> \<exists>q \<in> set queue. (a, q) \<in> (caused_by evs)\<^sup>+"
proof (induction evs a seen queue rule: descends.induct)
  case (2 evs a seen current queue)
  consider "current \<in> set seen" | "current \<notin> set seen" "a \<in> set (earlier_parents evs current)"
    | "current \<notin> set seen" "a \<notin> set (earlier_parents evs current)" by blast
  then show ?case
  proof cases
    case 1
    then show ?thesis using 2 by auto
  next
    case 2
    then show ?thesis using earlier_parents_iff by auto
  next
    case 3
    then obtain q where "q \<in> set queue \<or> (q, current) \<in> caused_by evs" "(a, q) \<in> (caused_by evs)\<^sup>+"
      using 2 earlier_parents_iff by fastforce
    then show ?thesis using trancl_into_trancl by fastforce
  qed
qed simp

lemma unreachable:
  assumes "\<forall>s \<in> S. (a, s) \<notin> r \<and> (\<forall>p. (p, s) \<in> r \<longrightarrow> p \<in> S)" and "(a, q) \<in> r\<^sup>+"
  shows "q \<notin> S"
  using assms(2,1) by (induction rule: trancl.induct) auto

lemma descends_complete:
  assumes "\<forall>s \<in> set seen. (a, s) \<notin> caused_by evs \<and> (\<forall>p. (p, s) \<in> caused_by evs \<longrightarrow> p \<in> set seen \<union> set queue)"
    and "q \<in> set seen \<union> set queue" and "(a, q) \<in> (caused_by evs)\<^sup>+"
  shows "descends evs a seen queue"
  using assms
proof (induction evs a seen queue rule: descends.induct)
  case (1 evs a seen)
  then show ?case using unreachable [of "set seen" a "caused_by evs" q] by auto
next
  case (2 evs a seen current queue)
  consider "current \<in> set seen" | "current \<notin> set seen" "a \<in> set (earlier_parents evs current)"
    | "current \<notin> set seen" "a \<notin> set (earlier_parents evs current)" by blast
  then show ?case
  proof cases
    case 1
    then have "set (current # queue) \<union> set seen = set queue \<union> set seen" by auto
    then show ?thesis using 1 2 by auto
  next
    case 3
    have "descends evs a (current # seen) (queue @ earlier_parents evs current)"
    proof (rule "2.IH"(2) [OF 3])
      show "\<forall>s \<in> set (current # seen). (a, s) \<notin> caused_by evs \<and>
          (\<forall>p. (p, s) \<in> caused_by evs \<longrightarrow> p \<in> set (current # seen) \<union> set (queue @ earlier_parents evs current))"
        using "2.prems"(1) 3(2) earlier_parents_iff by auto
      show "q \<in> set (current # seen) \<union> set (queue @ earlier_parents evs current)" using "2.prems"(2) by auto
    qed (rule "2.prems")
    then show ?thesis using 3 by simp
  qed simp
qed

lemma eventDescendsFrom_iff:
  "eventDescendsFrom evs e a \<longleftrightarrow> indexed_event evs a \<noteq> None \<and> (a, e) \<in> (caused_by evs)\<^sup>*"
proof (cases "e = a")
  case False
  have "descends evs a [] [e] \<longleftrightarrow> (a, e) \<in> (caused_by evs)\<^sup>+"
    using descends_sound [of evs a "[]" "[e]"] descends_complete [of "[]" a evs "[e]" e] by auto
  then show ?thesis using False by (auto simp: eventDescendsFrom_def rtrancl_eq_or_trancl)
qed (auto simp: eventDescendsFrom_def)

end
