(* ===== verification/Retrieval_Graph.thy ===== *)
theory Retrieval_Graph
  imports Retrieval_Causality Retrieval_Result
begin

text \<open>
  How the graph of receipts grows: when an event with a new id is appended to a verified ledger, every check of the
  receipts that were there gives what it gave before, so the ledger stays verified if the new receipt is valid by
  itself and its own links are.
\<close>

section \<open>Reports without issues\<close>

abbreviation silent :: "string list \<Rightarrow> bool" where
  "silent is \<equiv> set is \<subseteq> {[]}"

lemma sortedUnique_Nil: "sortedUnique_retrieval is = [] \<longleftrightarrow> silent is"
proof -
  have "set (sortedUnique_retrieval is) = set is - {[]}" by (auto simp: sortedUnique_retrieval_def)
  then show ?thesis by (metis Diff_eq_empty_iff set_empty)
qed

lemma silent_issue_unless [simp]: "i \<noteq> [] \<Longrightarrow> silent (issue_unless b i) \<longleftrightarrow> b"
  by (simp add: issue_unless_def)

definition graph_of :: "lexicon \<Rightarrow> 'd receipt_decoders_scheme \<Rightarrow> ledger_record list \<Rightarrow> receipt_graph" where
  "graph_of lx rd rs = fold (\<lambda>r. visit_receipt lx rd (lr_event r)) rs empty_graph"

lemma graph_of_append: "graph_of lx rd (rs @ [r]) = visit_receipt lx rd (lr_event r) (graph_of lx rd rs)"
  by (simp add: graph_of_def)

lemma visit_all_fold: "visit_all (\<lambda>r g. Inr (f r g)) rs g = Some (fold f rs g)"
  by (induction rs arbitrary: g) simp_all

definition clean :: "lexicon \<Rightarrow> receipt_texts \<Rightarrow> 'a evidence_store_scheme \<Rightarrow> receipt_graph \<Rightarrow> bool" where
  "clean lx rd s g \<longleftrightarrow> silent (vn_issues (rg_report g)) \<and>
     (\<forall>x \<in> set (rg_injections g). silent (injection_issues lx g (snd x))) \<and>
     (\<forall>x \<in> set (rg_adoptions g). silent (adoption_issues rd s g (snd x)))"

lemma graph_report_clean: "vn_issues (graph_report lx rd s g) = [] \<longleftrightarrow> clean lx rd s g"
  by (auto simp: graph_report_def finalizeVerification_def sortedUnique_Nil clean_def)

lemma Verify_retrieval_clean:
  "vn_issues (Verify_retrieval lx rd dec s) = [] \<longleftrightarrow>
     (\<exists>h. lastRecordHash dec (st_events s) = Inr h) \<and> clean lx rd s (graph_of lx rd (decoded_records dec (st_events s)))"
proof -
  let ?visitor = "\<lambda>r g. Inr (visit_receipt lx rd (lr_event r) g)"
  obtain g out where v: "visitRecords dec ?visitor (st_events s) empty_graph = (g, out :: unit visit_error log_error + string)"
    by fastforce
  note spec = visitRecords_Inr [of dec ?visitor "st_events s" empty_graph, unfolded visit_all_fold, folded graph_of_def]
  show ?thesis
  proof (cases out)
    case (Inr h)
    then show ?thesis using v spec [of g h] by (auto simp: Verify_retrieval_def graph_report_clean)
  next
    case (Inl e)
    then have "\<nexists>h. lastRecordHash dec (st_events s) = Inr h" using v spec by (metis Inl_Inr_False prod.inject)
    then show ?thesis
      using v Inl by (simp add: Verify_retrieval_def finalizeVerification_def sortedUnique_Nil graph_issues_add_def)
  qed
qed

section \<open>Well-formed graphs\<close>

definition wf_graph :: "receipt_graph \<Rightarrow> bool" where
  "wf_graph g \<longleftrightarrow>
     (\<forall>x \<in> set (rg_events g). fst (snd x) \<le> rg_position g) \<and>
     (\<forall>x \<in> set (rg_retrievals g). tc_receipt_id (snd x) = fst x \<and> fst x \<in> fst ` set (rg_events g)) \<and>
     (\<forall>x \<in> set (rg_injections g). ij_injection_id (snd x) = fst x \<and> fst x \<in> fst ` set (rg_events g)) \<and>
     (\<forall>x \<in> set (rg_adoptions g). dr_adoption_id (snd x) = fst x \<and> fst x \<in> fst ` set (rg_events g))"

lemma indexed_event_None: "indexed_event evs i = None \<longleftrightarrow> i \<notin> fst ` set evs"
  by (simp add: indexed_event_def map_of_eq_None_iff)

lemma receipt_ids:
  "validateReceipt lx e c = [] \<Longrightarrow> tc_receipt_id c = ev_event_id e"
  "validateInjectionReceipt e i = [] \<Longrightarrow> ij_injection_id i = ev_event_id e"
  "validateAdoptionReceipt e a = [] \<Longrightarrow> dr_adoption_id a = ev_event_id e"
  by (auto simp: validateReceipt_def validateInjectionReceipt_def validateAdoptionReceipt_def sortedUnique_Nil envelope_issues_def
      split: if_splits)

lemma admit_Inr: "admit_receipt dec validate e = Inr c \<longleftrightarrow> decodeReceiptEvent dec e = Inr c \<and> validate e c = []"
  by (auto simp: admit_receipt_def split: sum.splits)

text \<open>The three kinds of receipt, told apart once.\<close>

lemma visit_receipt_cases:
  assumes "indexed_event (rg_events g) (ev_event_id e) = None"
  obtains (retrieval) "ev_kind e = KindRetrieval"
      "visit_receipt lx rd e g = visit_retrieval lx rd e (g\<lparr>rg_position := Suc (rg_position g),
         rg_events := (ev_event_id e, Suc (rg_position g), e) # rg_events g\<rparr>)"
  | (injection) "ev_kind e = KindInjection"
      "visit_receipt lx rd e g = visit_injection rd e (g\<lparr>rg_position := Suc (rg_position g),
         rg_events := (ev_event_id e, Suc (rg_position g), e) # rg_events g\<rparr>)"
  | (adoption) "ev_kind e = KindAdoption"
      "visit_receipt lx rd e g = visit_adoption rd e (g\<lparr>rg_position := Suc (rg_position g),
         rg_events := (ev_event_id e, Suc (rg_position g), e) # rg_events g\<rparr>)"
  | (other) "ev_kind e \<notin> {KindRetrieval, KindInjection, KindAdoption}"
      "visit_receipt lx rd e g = g\<lparr>rg_position := Suc (rg_position g),
         rg_events := (ev_event_id e, Suc (rg_position g), e) # rg_events g\<rparr>"
proof -
  let ?g = "g\<lparr>rg_position := Suc (rg_position g), rg_events := (ev_event_id e, Suc (rg_position g), e) # rg_events g\<rparr>"
  have v: "visit_receipt lx rd e g =
      (if ev_kind e = KindRetrieval then visit_retrieval lx rd e ?g
       else if ev_kind e = KindInjection then visit_injection rd e ?g
       else if ev_kind e = KindAdoption then visit_adoption rd e ?g else ?g)"
    using assms by (simp add: visit_receipt_def Let_def)
  consider "ev_kind e = KindRetrieval" | "ev_kind e = KindInjection" | "ev_kind e = KindAdoption"
    | "ev_kind e \<notin> {KindRetrieval, KindInjection, KindAdoption}" by blast
  then show thesis
  proof cases
    case 1
    show thesis by (rule retrieval [OF 1]) (simp add: v 1)
  next
    case 2
    show thesis by (rule injection [OF 2]) (simp add: v 2)
  next
    case 3
    show thesis by (rule adoption [OF 3]) (simp add: v 3)
  next
    case 4
    show thesis by (rule other [OF 4]) (use 4 in \<open>simp add: v\<close>)
  qed
qed

lemmas visit_kind_defs = visit_retrieval_def visit_injection_def visit_adoption_def graph_issues_add_def Let_def

text \<open>What a visit leaves of the graph: one more event, and the receipts with at most one of its id.\<close>

definition grows :: "event \<Rightarrow> receipt_graph \<Rightarrow> receipt_graph \<Rightarrow> bool" where
  "grows e g g' \<longleftrightarrow>
     rg_position g' = Suc (rg_position g) \<and> rg_events g' = (ev_event_id e, Suc (rg_position g), e) # rg_events g \<and>
     (\<exists>cs. rg_retrievals g' = rg_retrievals g @ cs \<and> (\<forall>x \<in> set cs. fst x = ev_event_id e \<and> tc_receipt_id (snd x) = ev_event_id e)) \<and>
     (\<exists>is. rg_injections g' = rg_injections g @ is \<and> (\<forall>x \<in> set is. fst x = ev_event_id e \<and> ij_injection_id (snd x) = ev_event_id e)) \<and>
     (\<exists>as. rg_adoptions g' = rg_adoptions g @ as \<and> (\<forall>x \<in> set as. fst x = ev_event_id e \<and> dr_adoption_id (snd x) = ev_event_id e))"

lemma visit_grows:
  assumes "indexed_event (rg_events g) (ev_event_id e) = None"
  shows "grows e g (visit_receipt lx rd e g)"
  using assms
proof (cases rule: visit_receipt_cases [where lx = lx and rd = rd])
  case retrieval
  then show ?thesis
    by (auto simp: grows_def visit_kind_defs admit_Inr dest: receipt_ids split: sum.split)
next
  case injection
  then show ?thesis
    by (auto simp: grows_def visit_kind_defs admit_Inr dest: receipt_ids split: sum.split)
next
  case adoption
  then show ?thesis
    by (auto simp: grows_def visit_kind_defs admit_Inr dest: receipt_ids split: sum.split)
qed (simp add: grows_def)

lemma grows_wf:
  assumes "grows e g g'" and "wf_graph g"
  shows "wf_graph g'"
proof -
  obtain cs ii as where g': "rg_events g' = (ev_event_id e, Suc (rg_position g), e) # rg_events g"
    "rg_position g' = Suc (rg_position g)"
    "rg_retrievals g' = rg_retrievals g @ cs" "\<forall>x \<in> set cs. fst x = ev_event_id e \<and> tc_receipt_id (snd x) = ev_event_id e"
    "rg_injections g' = rg_injections g @ ii" "\<forall>x \<in> set ii. fst x = ev_event_id e \<and> ij_injection_id (snd x) = ev_event_id e"
    "rg_adoptions g' = rg_adoptions g @ as" "\<forall>x \<in> set as. fst x = ev_event_id e \<and> dr_adoption_id (snd x) = ev_event_id e"
    using assms(1) unfolding grows_def by blast
  show ?thesis
    using assms(2) g'(4,6,8) unfolding wf_graph_def g'(1,2,3,5,7)
    by (simp only: set_append ball_Un list.set image_insert fst_conv snd_conv insert_iff ball_simps le_Suc_eq simp_thms)
      (simp add: le_SucI)
qed

lemma visit_wf: "wf_graph g \<Longrightarrow> wf_graph (visit_receipt lx rd e g)"
proof (cases "indexed_event (rg_events g) (ev_event_id e) = None")
  case False
  then show "wf_graph g \<Longrightarrow> ?thesis"
    by (auto simp: visit_receipt_def Let_def wf_graph_def graph_issues_add_def le_Suc_eq)
qed (blast intro: grows_wf visit_grows)

lemma graph_of_wf: "wf_graph (graph_of lx rd rs)"
proof (induction rs rule: rev_induct)
  case Nil
  then show ?case by (simp add: graph_of_def wf_graph_def empty_graph_def)
qed (simp add: graph_of_append visit_wf)

section \<open>The links of the receipts that were there\<close>

lemma grows_events:
  assumes "grows e g g'"
  shows "i \<noteq> ev_event_id e \<Longrightarrow> indexed_event (rg_events g') i = indexed_event (rg_events g) i"
    and "i \<noteq> ev_event_id e \<Longrightarrow> event_position (rg_events g') i = event_position (rg_events g) i"
    and "i \<noteq> ev_event_id e \<Longrightarrow> indexed_matches (rg_events g') i P = indexed_matches (rg_events g) i P"
    and "indexed_event (rg_events g') (ev_event_id e) = Some e"
    and "event_position (rg_events g') (ev_event_id e) = Suc (rg_position g)"
  using assms by (auto simp: grows_def indexed_event_def event_position_def indexed_matches_def)

lemma map_of_append_key:
  "\<forall>x \<in> set ys. fst x = i \<Longrightarrow> k \<noteq> i \<Longrightarrow> map_of (xs @ ys) k = map_of xs k"
  by (induction ys) (auto simp: map_of_append map_add_def split: option.splits)

lemma grows_receipts:
  assumes "grows e g g'" and "i \<noteq> ev_event_id e"
  shows "map_of (rg_retrievals g') i = map_of (rg_retrievals g) i"
    and "map_of (rg_injections g') i = map_of (rg_injections g) i"
  using assms map_of_append_key [of _ "ev_event_id e" i] by (force simp: grows_def)+

lemma position_le: "wf_graph g \<Longrightarrow> event_position (rg_events g) i \<le> rg_position g"
  by (auto simp: wf_graph_def event_position_def split: option.split dest!: map_of_SomeD)

lemma grows_caused_by:
  assumes "grows e g g'" and "wf_graph g" and "c \<noteq> ev_event_id e"
    and "indexed_event (rg_events g) (ev_event_id e) = None"
  shows "(p, c) \<in> caused_by (rg_events g') \<longleftrightarrow> (p, c) \<in> caused_by (rg_events g)"
proof (cases "p = ev_event_id e")
  case True
  have "\<not> Suc (rg_position g) < event_position (rg_events g) c" using position_le [OF assms(2), of c] by simp
  then show ?thesis
    using assms(4) by (simp add: True caused_by_def grows_events [OF assms(1)] assms(3))
next
  case False
  then show ?thesis by (simp add: caused_by_def grows_events [OF assms(1)] assms(3))
qed

lemma caused_by_indexed: "(p, c) \<in> caused_by evs \<Longrightarrow> indexed_event evs p \<noteq> None"
  by (auto simp: caused_by_def)

lemma grows_descends:
  assumes "grows e g g'" and "wf_graph g" and "indexed_event (rg_events g) (ev_event_id e) = None"
    and "i \<noteq> ev_event_id e" and "a \<noteq> ev_event_id e"
  shows "eventDescendsFrom (rg_events g') i a \<longleftrightarrow> eventDescendsFrom (rg_events g) i a"
proof -
  note same = grows_caused_by [OF assms(1,2) _ assms(3)]
  have "(a, i) \<in> (caused_by (rg_events g'))\<^sup>* \<Longrightarrow> i \<noteq> ev_event_id e \<Longrightarrow> (a, i) \<in> (caused_by (rg_events g))\<^sup>*" for i
  proof (induction rule: rtrancl_induct)
    case (step y z)
    then have "(y, z) \<in> caused_by (rg_events g)" using same by blast
    moreover from this have "y \<noteq> ev_event_id e" using caused_by_indexed assms(3) by blast
    ultimately show ?case using step.IH by (blast intro: rtrancl_into_rtrancl)
  qed simp
  moreover have "(a, i) \<in> (caused_by (rg_events g))\<^sup>* \<Longrightarrow> i \<noteq> ev_event_id e \<Longrightarrow> (a, i) \<in> (caused_by (rg_events g'))\<^sup>*" for i
  proof (induction rule: rtrancl_induct)
    case (step y z)
    then have "(y, z) \<in> caused_by (rg_events g')" using same by blast
    moreover have "y \<noteq> ev_event_id e" using step.hyps(2) caused_by_indexed assms(3) by blast
    ultimately show ?case using step.IH by (blast intro: rtrancl_into_rtrancl)
  qed simp
  ultimately show ?thesis
    using assms(4) by (simp only: eventDescendsFrom_iff grows_events(1) [OF assms(1,5)]) blast
qed

text \<open>The appended event, and a graph it grows.\<close>

lemma grows_known: "wf_graph g \<Longrightarrow> indexed_event (rg_events g) i = None \<Longrightarrow>
    (\<forall>x \<in> set (rg_retrievals g). fst x \<noteq> i \<and> tc_receipt_id (snd x) \<noteq> i) \<and>
    (\<forall>x \<in> set (rg_injections g). fst x \<noteq> i \<and> ij_injection_id (snd x) \<noteq> i) \<and>
    (\<forall>x \<in> set (rg_adoptions g). fst x \<noteq> i \<and> dr_adoption_id (snd x) \<noteq> i)"
  by (auto simp: wf_graph_def indexed_event_None)

lemma found_retrieval:
  "wf_graph g \<Longrightarrow> indexed_event (rg_events g) i = None \<Longrightarrow> map_of (rg_retrievals g) k = Some t \<Longrightarrow>
     k \<noteq> i \<and> tc_receipt_id t = k"
  using grows_known [of g i] by (auto simp: wf_graph_def dest!: map_of_SomeD)

lemma grows_injection:
  assumes "grows e g g'" and "wf_graph g" and "indexed_event (rg_events g) (ev_event_id e) = None"
    and "x \<in> set (rg_injections g)" and "silent (injection_issues lx g (snd x))"
  shows "injection_issues lx g' (snd x) = injection_issues lx g (snd x)"
proof -
  obtain t where t: "map_of (rg_retrievals g) (ij_retrieval_id (snd x)) = Some t"
    using assms(5) by (auto simp: injection_issues_def split: option.splits)
  note r = found_retrieval [OF assms(2,3) t]
  have i: "ij_injection_id (snd x) \<noteq> ev_event_id e" using grows_known [OF assms(2,3)] assms(4) by blast
  have ti: "tc_receipt_id t \<noteq> ev_event_id e" using r by simp
  have "injection_links lx g' (snd x) t = injection_links lx g (snd x) t"
    unfolding injection_links_def Let_def grows_events(2,3) [OF assms(1) i] grows_events(2) [OF assms(1) ti] ..
  then show ?thesis using r t grows_receipts(1) [OF assms(1)] by (simp add: injection_issues_def)
qed

lemma grows_delivery:
  assumes "grows e g g'" and "wf_graph g" and "indexed_event (rg_events g) (ev_event_id e) = None"
    and "adoption_delivery g a t \<noteq> None"
  shows "adoption_delivery g' a t = adoption_delivery g a t" and "dr_injection_id a = [] \<or> dr_injection_id a \<noteq> ev_event_id e"
proof -
  have "dr_injection_id a = [] \<or> (\<exists>i. (dr_injection_id a, i) \<in> set (rg_injections g))"
    using assms(4) by (auto simp: adoption_delivery_def split: if_splits option.splits dest: map_of_SomeD)
  then show c: "dr_injection_id a = [] \<or> dr_injection_id a \<noteq> ev_event_id e"
    using grows_known [OF assms(2,3)] by fastforce
  then show "adoption_delivery g' a t = adoption_delivery g a t"
    using grows_receipts(2) [OF assms(1)] by (auto simp: adoption_delivery_def)
qed

lemma verifyOutcomeEvidence_cong: "st_blobs s' = st_blobs s \<Longrightarrow> verifyOutcomeEvidence s' e = verifyOutcomeEvidence s e"
  by (simp add: verifyOutcomeEvidence_def OpenBlob_def split: option.split)

lemma grows_evidence:
  assumes "grows e g g'" and "wf_graph g" and "indexed_event (rg_events g) (ev_event_id e) = None"
    and "st_blobs s' = st_blobs s" and "silent (evidence_issues rd s g a t ev)"
    and "dr_adoption_id a \<noteq> ev_event_id e" and "dr_retrieval_id a \<noteq> ev_event_id e" and "tc_receipt_id t \<noteq> ev_event_id e"
    and "dr_injection_id a = [] \<or> dr_injection_id a \<noteq> ev_event_id e"
  shows "evidence_issues rd s' g' a t ev = evidence_issues rd s g a t ev"
proof -
  have "indexed_event (rg_events g) ev \<noteq> None"
    using assms(5) by (auto simp: evidence_issues_def Let_def split: option.splits)
  then have ev: "ev \<noteq> ev_event_id e" using assms(3) by auto
  let ?delivery = "if dr_injection_id a = [] then dr_retrieval_id a else dr_injection_id a"
  have "?delivery \<noteq> ev_event_id e" using assms(7,9) by auto
  note d = grows_descends [OF assms(1-3) ev this]
  have "dr_injection_id a \<noteq> [] \<and> n \<le> event_position (rg_events g') (dr_injection_id a) \<longleftrightarrow>
      dr_injection_id a \<noteq> [] \<and> n \<le> event_position (rg_events g) (dr_injection_id a)" for n
    using assms(9) grows_events(2) [OF assms(1)] by auto
  then show ?thesis
    unfolding evidence_issues_def Let_def d grows_events(1,2) [OF assms(1) ev] grows_events(2) [OF assms(1,8)]
      grows_events(2) [OF assms(1,6)] verifyOutcomeEvidence_cong [OF assms(4)] by (simp only:)
qed

lemma silent_concat_map: "silent (concat (map f xs)) \<longleftrightarrow> (\<forall>x \<in> set xs. silent (f x))"
  by auto

lemma concat_map_cong: "(\<And>x. x \<in> set xs \<Longrightarrow> f x = g x) \<Longrightarrow> concat (map f xs) = concat (map g xs)"
  by (metis map_cong)

lemma grows_adoption:
  assumes "grows e g g'" and "wf_graph g" and "indexed_event (rg_events g) (ev_event_id e) = None"
    and "st_blobs s' = st_blobs s" and "x \<in> set (rg_adoptions g)" and "silent (adoption_issues rd s g (snd x))"
  shows "adoption_issues rd s' g' (snd x) = adoption_issues rd s g (snd x)"
proof -
  let ?a = "snd x"
  obtain t where t: "map_of (rg_retrievals g) (dr_retrieval_id ?a) = Some t"
    using assms(6) by (auto simp: adoption_issues_def split: option.splits)
  have r: "dr_retrieval_id ?a \<noteq> ev_event_id e" "tc_receipt_id t \<noteq> ev_event_id e"
    using found_retrieval [OF assms(2,3) t] by auto
  have a: "dr_adoption_id ?a \<noteq> ev_event_id e" using grows_known [OF assms(2,3)] assms(5) by blast
  have links: "silent (adoption_links rd s g ?a t)" using assms(6) t by (simp add: adoption_issues_def)
  then obtain allowed where d: "adoption_delivery g ?a t = Some allowed"
    by (auto simp: adoption_links_def Let_def split: option.splits)
  note same = grows_delivery [OF assms(1-3), of ?a t]
  have d': "adoption_delivery g' ?a t = Some allowed" using same(1) d by simp
  have i: "dr_injection_id ?a = [] \<or> dr_injection_id ?a \<noteq> ev_event_id e" using same(2) d by simp
  have order: "dr_injection_id ?a = [] \<or> event_position (rg_events g') (dr_injection_id ?a) < n \<longleftrightarrow>
      dr_injection_id ?a = [] \<or> event_position (rg_events g) (dr_injection_id ?a) < n" for n
    using i grows_events(2) [OF assms(1)] by auto
  have "silent (concat (map (evidence_issues rd s g ?a t) (dr_evidence ?a)))"
    using links d by (simp only: adoption_links_def Let_def option.case set_append Un_subset_iff)
  then have "concat (map (evidence_issues rd s' g' ?a t) (dr_evidence ?a)) =
      concat (map (evidence_issues rd s g ?a t) (dr_evidence ?a))"
    unfolding silent_concat_map
    by (intro concat_map_cong grows_evidence [OF assms(1-4) _ a r i]) blast
  then have "adoption_links rd s' g' ?a t = adoption_links rd s g ?a t"
    by (simp only: adoption_links_def Let_def d d' option.case order grows_events(2,3) [OF assms(1) a]
        grows_events(2) [OF assms(1) r(2)])
  then show ?thesis
    by (simp only: adoption_issues_def t grows_receipts(1) [OF assms(1) r(1)] option.case)
qed

text \<open>A verified graph stays so when the new receipt is admitted and its links are in order.\<close>

lemma grows_clean:
  assumes "grows e g g'" and "wf_graph g" and "indexed_event (rg_events g) (ev_event_id e) = None"
    and "st_blobs s' = st_blobs s" and "clean lx rd s g" and "silent (vn_issues (rg_report g'))"
    and "\<And>x. x \<in> set (rg_injections g') \<Longrightarrow> x \<notin> set (rg_injections g) \<Longrightarrow> silent (injection_issues lx g' (snd x))"
    and "\<And>x. x \<in> set (rg_adoptions g') \<Longrightarrow> x \<notin> set (rg_adoptions g) \<Longrightarrow> silent (adoption_issues rd s' g' (snd x))"
  shows "clean lx rd s' g'"
  unfolding clean_def
proof (intro conjI ballI)
  fix x assume "x \<in> set (rg_injections g')"
  then show "silent (injection_issues lx g' (snd x))"
    using assms(5,7) grows_injection [OF assms(1-3), of x lx] by (cases "x \<in> set (rg_injections g)") (simp_all add: clean_def)
next
  fix x assume "x \<in> set (rg_adoptions g')"
  then show "silent (adoption_issues rd s' g' (snd x))"
    using assms(5,8) grows_adoption [OF assms(1-4), of x rd] by (cases "x \<in> set (rg_adoptions g)") (simp_all add: clean_def)
qed (rule assms(6))

end
