(* ===== verification/Retrieval_Append.thy ===== *)
theory Retrieval_Append
  imports Retrieval_Graph
begin

text \<open>
  The receipts of a search and of a delivery, as they reach the ledger: each passes the checks that the verifier
  makes of it by itself, and the append that writes it leaves the ledger verified.
\<close>

section \<open>The receipt of a search\<close>

lemma decode_receipt_event [simp]:
  "decodeReceiptEvent decode (receipt_event kind i time device x hash parents data) = decode data"
  by (simp add: decodeReceiptEvent_def receipt_event_def InlinePayload_def)

lemma receipt_event_fields [simp]:
  "ev_event_id (receipt_event kind i time device x hash parents data) = i"
  "ev_kind (receipt_event kind i time device x hash parents data) = kind"
  "sourceMatchesContext (receipt_event kind i time device x hash parents data) x"
  "ev_observed_at (receipt_event kind i time device x hash parents data) = time"
  "ev_recorded_at (receipt_event kind i time device x hash parents data) = time"
  "src_source_path_hash (ev_source (receipt_event kind i time device x hash parents data)) = hash"
  by (simp_all add: receipt_event_def sourceMatchesContext_def)

lemma receipt_event_causality [simp]:
  "causalityMatches (receipt_event kind i time device x hash parents data) parents"
  by (simp add: receipt_event_def causalityMatches_def)

lemma make_receipt_fields [simp]:
  "tc_schema_version (make_receipt now path q bytes t) = ReceiptSchemaVersion"
  "tc_receipt_id (make_receipt now path q bytes t) = rt_receipt_id t"
  "tc_recorded_at (make_receipt now path q bytes t) = now"
  "tc_portable_root (make_receipt now path q bytes t) = path"
  "tc_portable_root_sha256 (make_receipt now path q bytes t) = sha256_hex path"
  "tc_request (make_receipt now path q bytes t) = q"
  "tc_request_sha256 (make_receipt now path q bytes t) = sha256_hex bytes"
  "tc_result (make_receipt now path q bytes t) = t"
  "tc_privacy (make_receipt now path q bytes t) = PrivacyLocalOnly_retrieval"
  by (simp_all add: make_receipt_def)

lemma envelope_silent:
  assumes "normalizeRequest lx q = Inr q" and "path \<noteq> []" and "marshal (retrieval_request_json q) = Some bytes"
  shows "envelope_issues lx (receipt_event KindRetrieval (rt_receipt_id t) now device (se_context q) (sha256_hex path) [] data)
    (make_receipt now path q bytes t) = []"
  using assms receipt_event_causality [of KindRetrieval "rt_receipt_id t" now device "se_context q" "sha256_hex path" "[]" data]
  by (simp add: envelope_issues_def)

lemma blocked_valid:
  assumes "0 \<le> n" and "issues \<noteq> []" and "isSortedUnique issues" and "request_ok q"
    and t: "t = blocked_result issues ((initial_result i q)\<lparr>rt_active := n\<rparr>)"
  shows "result_issues q t = []" and "budget_issues q t = []" and "selected_matches t = []" and "rt_receipt_id t = i"
    and "rt_status t = ''blocked''"
  using assms(1-4)
  by (simp_all add: t result_issues_def budget_issues_def blocked_result_def initial_result_def selected_matches_def
      validExclusionCounts_def no_exclusions_def request_ok_def)

lemma ranked_valid:
  assumes "ranked_result lx rs q ((initial_result i q)\<lparr>rt_active := int (length rs), rt_repository_state := repositoryStateDigest rs\<rparr>) t"
    and "se_query q = [] \<or> se_memory_id q = []"
  shows "result_issues q t = []" and "budget_issues q t = []" and "rt_receipt_id t = i" and "rt_status t = ''completed''"
proof -
  note r = assms(1) [unfolded ranked_result_def same_envelope_def within_request_def]
  have e: "rt_schema_version t = ResultSchemaVersion" "rt_receipt_id t = i" "rt_status t = ''completed''"
    "rt_selector_sha256 t = selectorDigest q" "rt_repository_state t = repositoryStateDigest rs" "rt_issues t = Some []"
    "rt_active t = int (length rs)" "rt_token_budget t = se_token_budget q" "rt_byte_budget t = se_byte_budget q"
    "rt_gaps t = Some (contextGaps (se_context q))" "rt_privacy t = PrivacyLocalOnly_retrieval"
    using r by (simp_all add: initial_result_def)
  show "rt_receipt_id t = i" "rt_status t = ''completed''" using e by simp_all
  have d: "validDigest (repositoryStateDigest rs)" by (simp add: repositoryStateDigest_def validDigest_sha256)
  have w: "\<exists>ms. rt_selected t = Some ms" "rt_selected_bytes t = sum_list (map mm_bytes (selected_matches t))"
    "rt_selected_tokens t = sum_list (map mm_tokens (selected_matches t))" "rt_selected_bytes t \<le> se_byte_budget q"
    "rt_selected_tokens t \<le> se_token_budget q" "int (length (selected_matches t)) \<le> se_limit q"
    "validExclusionCounts (rt_exclusions t)" "0 \<le> rt_applicable t"
    "xc_scope_mismatch (rt_exclusions t) + rt_applicable t = int (length rs)"
    "se_memory_id q \<noteq> [] \<or> accounted t = rt_applicable t"
    using r by blast+
  have "0 \<le> xc_scope_mismatch (rt_exclusions t)" using w(7) by (simp add: validExclusionCounts_def)
  then have "rt_applicable t \<le> int (length rs)" using w(9) by linarith
  then show "result_issues q t = []"
    using w(1,7-9) d by (auto simp: result_issues_def e)
  show "budget_issues q t = []"
    using w assms(2) by (auto simp: budget_issues_def e accounted_def)
qed

lemma search_receipt_valid:
  assumes "normalizeRequest (sv_lexicon env) request = Inr q" and "lexicon_ok (sv_lexicon env)" and "path \<noteq> []"
    and "se_query q = [] \<or> se_memory_id q = []" and "marshal (retrieval_request_json q) = Some bytes"
    and t: "t = search_result env path i q"
  shows "validateReceipt (sv_lexicon env) (receipt_event KindRetrieval i now device (se_context q) (sha256_hex path) [] data)
      (make_receipt now path q bytes t) = []" and "rt_receipt_id t = i"
proof -
  note q = normalizeRequest_ok [OF assms(1)]
  have "result_issues q t = [] \<and> budget_issues q t = [] \<and> match_issues (sv_lexicon env) q None [] (selected_matches t) = [] \<and> rt_receipt_id t = i"
    using q(1) assms(2)
  proof (cases rule: search_result_cases [where root_path = path and i = i])
    case (blocked issues n)
    then show ?thesis using blocked_valid [OF blocked(2-4) q(1), of t i] t by simp
  next
    case (ranked rs report)
    have "matches_ok (sv_lexicon env) q rs (selected_matches t)" using ranked(8) t by (simp add: ranked_result_def)
    then have "match_issues (sv_lexicon env) q None [] (selected_matches t) = []"
      by (intro match_issues_Nil) (auto simp: matches_ok_def)
    then show ?thesis using ranked_valid [OF ranked(8) assms(4)] t by simp
  qed
  moreover from this have "envelope_issues (sv_lexicon env) (receipt_event KindRetrieval i now device (se_context q) (sha256_hex path) [] data)
      (make_receipt now path q bytes t) = []"
    using envelope_silent [OF q(4) assms(3,5), of t now device data] by simp
  ultimately show "validateReceipt (sv_lexicon env) (receipt_event KindRetrieval i now device (se_context q) (sha256_hex path) [] data)
      (make_receipt now path q bytes t) = []" and "rt_receipt_id t = i"
    by (simp_all add: validateReceipt_def sortedUnique_retrieval_def)
qed

section \<open>The append\<close>

lemma AppendOne_held:
  "AppendOne dec fs faults outcome close e s = (s', Inl (BatchOpen (OpenLock LockHeld))) \<Longrightarrow> s' = s"
  by (auto simp: AppendOne_def AppendBatchStore_def NewAppender_def acquireWriterLock_def acquire_lock_def openAppenderAt_def
      split: prod.splits sum.splits option.splits if_splits lock_fault.splits)

lemma append_attempts_ok:
  assumes "append_attempts dec fs ts e s = (s', None)" and "ts \<noteq> []" and "P s"
    and "\<And>t s. t \<in> set ts \<Longrightarrow> P s \<Longrightarrow> P (at_wait t s)"
  shows "\<exists>t s0 r. t \<in> set ts \<and> P s0 \<and> AppendOne dec fs (at_faults t) (at_outcome t) (at_close t) e s0 = (s', Inr r)"
  using assms
proof (induction ts arbitrary: s)
  case (Cons t ts)
  obtain s1 x where a: "AppendOne dec fs (at_faults t) (at_outcome t) (at_close t) e s = (s1, x)" by fastforce
  show ?case
  proof (cases x)
    case (Inr r)
    then show ?thesis using a Cons.prems(1,3) by auto
  next
    case (Inl f)
    then have f: "f = BatchOpen (OpenLock LockHeld)" "ts \<noteq> []" "append_attempts dec fs ts e (at_wait t s1) = (s', None)"
      using a Cons.prems(1) by (auto split: if_splits)
    have "s1 = s" using AppendOne_held a Inl f(1) by blast
    then show ?thesis using Cons.IH [OF _ f(2), of "at_wait t s"] f(3) Cons.prems(3,4) by fastforce
  qed
qed simp

text \<open>The states that the store may be in after some of the waits of the retries.\<close>

inductive waited :: "'s evidence_io \<Rightarrow> 's \<Rightarrow> 's \<Rightarrow> bool" for io s where
  waited_start: "waited io s s"
| waited_wait: "waited io s u \<Longrightarrow> waited io s (at_wait (io_tries io n) u)"

text \<open>The decoder gives back what the encoder wrote: for one receipt, and for the record of an event whenever the
  store is in such a state.\<close>

definition reads_back :: "(string \<Rightarrow> string + 'r) \<Rightarrow> ('r \<Rightarrow> json) \<Rightarrow> 'r \<Rightarrow> bool" where
  "reads_back decode encode c \<longleftrightarrow> (\<forall>data. marshal (encode c) = Some data \<longrightarrow> decode data = Inr c)"

definition stores :: "'a evidence_store_scheme evidence_io \<Rightarrow> event \<Rightarrow> 'a evidence_store_scheme \<Rightarrow> bool" where
  "stores io e s \<longleftrightarrow> (\<forall>u p r. waited io s u \<longrightarrow> lastRecordHash (io_decode io) (st_events u) = Inr p \<longrightarrow>
     makeRecord e p = Some r \<longrightarrow> survives (io_decode io) r)"

lemma append_receipt_ok:
  assumes "append_receipt io receipt mk s = (s', None)"
    and "\<And>data. marshal receipt = Some data \<Longrightarrow> stores io (mk data) s"
  obtains data s0 r h where "marshal receipt = Some data" "waited io s s0" "lr_event r = mk data" "st_blobs s' = st_blobs s0"
    "decoded_records (io_decode io) (st_events s') = decoded_records (io_decode io) (st_events s0) @ [r]"
    "lastRecordHash (io_decode io) (st_events s') = Inr h"
proof -
  obtain data where data: "marshal receipt = Some data"
    and run: "append_attempts (io_decode io) (io_filesystem io) (map (io_tries io) [0..<6]) (mk data) s = (s', None)"
    using assms(1) by (auto simp: append_receipt_def appendEvidenceWithRetry_def split: option.splits prod.splits)
  have waits: "t \<in> set (map (io_tries io) [0..<6]) \<Longrightarrow> waited io s u \<Longrightarrow> waited io s (at_wait t u)" for t u
    using waited_wait by fastforce
  have some: "map (io_tries io) [0..<6] \<noteq> []" by simp
  have "\<exists>t s0 r. t \<in> set (map (io_tries io) [0..<6]) \<and> waited io s s0 \<and>
      AppendOne (io_decode io) (io_filesystem io) (at_faults t) (at_outcome t) (at_close t) (mk data) s0 = (s', Inr r)"
    by (rule append_attempts_ok [where P = "waited io s", OF run some waited_start]) (rule waits)
  then obtain t s0 r where s0: "t \<in> set (map (io_tries io) [0..<6])" "waited io s s0"
    and one: "AppendOne (io_decode io) (io_filesystem io) (at_faults t) (at_outcome t) (at_close t) (mk data) s0 = (s', Inr r)"
    by blast
  obtain rs where batch: "AppendBatchStore (io_decode io) (io_filesystem io) (at_faults t) (at_outcome t) (at_close t) [mk data] s0 = (s', Inr rs)"
    using one by (auto simp: AppendOne_def split: prod.splits sum.splits)
  have "batch_survives (io_decode io) [mk data] p" if "lastRecordHash (io_decode io) (st_events s0) = Inr p" for p
    using assms(2) [OF data] s0(2) that by (auto simp: batch_survives_def stores_def split: option.splits)
  note ok = AppendBatchStore_ok [OF batch this]
  then obtain r' where "rs = [r']" "lr_event r' = mk data" by auto
  then show thesis using that [OF data s0(2), of r'] ok by blast
qed

section \<open>Verified ledgers\<close>

definition event_ids :: "(string \<Rightarrow> ledger_record option) \<Rightarrow> 'a evidence_store_scheme \<Rightarrow> string set" where
  "event_ids dec s = (\<lambda>r. ev_event_id (lr_event r)) ` set (decoded_records dec (st_events s))"

text \<open>What a writer of the receipt \<open>i\<close> relies on: the receipts verify and the id is new.\<close>

definition ready :: "lexicon \<Rightarrow> receipt_texts \<Rightarrow> (string \<Rightarrow> ledger_record option) \<Rightarrow> string \<Rightarrow> 'a evidence_store_scheme \<Rightarrow> bool" where
  "ready lx rd dec i s \<longleftrightarrow> vn_issues (Verify_retrieval lx rd dec s) = [] \<and> i \<notin> event_ids dec s"

lemma visit_report_events:
  "fst ` set (rg_events (visit_receipt lx rd e g)) \<subseteq> insert (ev_event_id e) (fst ` set (rg_events g))"
  by (cases "indexed_event (rg_events g) (ev_event_id e) = None")
    (use visit_grows [of g e lx rd] in \<open>auto simp: grows_def visit_receipt_def Let_def graph_issues_add_def\<close>)

lemma graph_of_events: "fst ` set (rg_events (graph_of lx rd rs)) \<subseteq> (\<lambda>r. ev_event_id (lr_event r)) ` set rs"
proof (induction rs rule: rev_induct)
  case (snoc r rs)
  from order_trans [OF visit_report_events insert_mono [OF this]] show ?case by (simp add: graph_of_append)
qed (simp add: graph_of_def empty_graph_def)

lemma ready_fresh:
  "ready lx rd dec i s \<Longrightarrow> indexed_event (rg_events (graph_of lx rd (decoded_records dec (st_events s)))) i = None"
  unfolding ready_def event_ids_def indexed_event_None using graph_of_events by blast

text \<open>An append keeps the ledger verified when the new event is silent in the graph it makes.\<close>

lemma append_verified:
  assumes "ready lx rd dec i s" and "lr_event r = e" and "ev_event_id e = i"
    and "decoded_records dec (st_events s') = decoded_records dec (st_events s) @ [r]"
    and "lastRecordHash dec (st_events s') = Inr h" and "st_blobs s' = st_blobs s"
    and g: "g = graph_of lx rd (decoded_records dec (st_events s))" and g': "g' = visit_receipt lx rd e g"
    and "silent (vn_issues (rg_report g) ) \<Longrightarrow> silent (vn_issues (rg_report g'))"
    and "\<And>x. x \<in> set (rg_injections g') \<Longrightarrow> x \<notin> set (rg_injections g) \<Longrightarrow> silent (injection_issues lx g' (snd x))"
    and "\<And>x. x \<in> set (rg_adoptions g') \<Longrightarrow> x \<notin> set (rg_adoptions g) \<Longrightarrow> silent (adoption_issues rd s' g' (snd x))"
  shows "vn_issues (Verify_retrieval lx rd dec s') = []"
proof -
  have fresh: "indexed_event (rg_events g) (ev_event_id e) = None"
    using ready_fresh [OF assms(1)] assms(3) g by simp
  have cl: "clean lx rd s g" using assms(1) by (simp add: ready_def Verify_retrieval_clean g)
  then have si: "silent (vn_issues (rg_report g'))" using assms(9) by (simp add: clean_def)
  have "clean lx rd s' g'"
    unfolding g' by (rule grows_clean [OF visit_grows [OF fresh] _ fresh assms(6) cl])
      (use graph_of_wf g si g' assms(10,11) in auto)
  then show ?thesis
    using assms(2,4,5) g g' by (simp add: Verify_retrieval_clean graph_of_append)
qed

end
