(* ===== verification/Retrieval_Deliver.thy ===== *)
theory Retrieval_Deliver
  imports Retrieval_Append
begin

text \<open>
  Search and delivery against the verified ledger: while other processes only add to it and keep it verified, the
  receipt that \<open>Search\<close> writes is found again by \<open>ResolveVerifiedRetrieval\<close>, and the one that \<open>BuildContext\<close>
  writes by \<open>ResolveVerifiedInjection\<close>.
\<close>

section \<open>What the other processes may do\<close>

definition others_append ::
  "lexicon \<Rightarrow> receipt_texts \<Rightarrow> 'a evidence_store_scheme evidence_io \<Rightarrow> string \<Rightarrow> 'a evidence_store_scheme \<Rightarrow> bool" where
  "others_append lx rd io i s \<longleftrightarrow> (\<forall>u. waited io s u \<longrightarrow> ready lx rd (io_decode io) i s \<longrightarrow>
     ready lx rd (io_decode io) i u \<and>
     set (decoded_records (io_decode io) (st_events s)) \<subseteq> set (decoded_records (io_decode io) (st_events u)))"

section \<open>Finding a receipt in the log\<close>

lemma visit_all_append:
  "visit_all f (rs @ rs') v = Option.bind (visit_all f rs v) (visit_all f rs')"
  by (induction rs arbitrary: v) (auto split: sum.split)

lemma resolve_none:
  "wanted \<notin> (\<lambda>r. ev_event_id (lr_event r)) ` set rs \<Longrightarrow>
     visit_all (resolve_step wanted kind decode validate twice other) rs None = Some None"
  by (induction rs) (auto simp: resolve_step_def)

lemma resolve_last:
  assumes "wanted \<notin> event_ids dec s" and "decoded_records dec (st_events s') = decoded_records dec (st_events s) @ [r]"
    and "ev_event_id (lr_event r) = wanted" and "ev_kind (lr_event r) = kind"
    and "admit_receipt decode validate (lr_event r) = Inr c" and "lastRecordHash dec (st_events s') = Inr h"
  shows "visitRecords dec (resolve_step wanted kind decode validate twice other) (st_events s') None = (Some c, Inr h)"
  using assms resolve_none [of wanted "decoded_records dec (st_events s)" kind decode validate twice other]
  unfolding visitRecords_Inr by (simp add: visit_all_append event_ids_def resolve_step_def)

section \<open>Search\<close>

definition search_receipt :: "search_env \<Rightarrow> string \<Rightarrow> string \<Rightarrow> retrieval_request \<Rightarrow> retrieval_receipt" where
  "search_receipt env path i q =
     make_receipt (sv_now env) path q (the (marshal (retrieval_request_json q))) (search_result env path i q)"

definition search_event :: "search_env \<Rightarrow> string \<Rightarrow> string \<Rightarrow> string \<Rightarrow> retrieval_request \<Rightarrow> event" where
  "search_event env device path i q =
     receipt_event KindRetrieval i (sv_now env) device (se_context q) (sha256_hex path) []
       (the (marshal (retrieval_receipt_json (search_receipt env path i q))))"

text \<open>A search that wrote its receipt.\<close>

lemma Search_ran:
  assumes "Search env io portableRoot request s = (s', out)" and "out = Inr t \<or> out = Inl (RepositoryRejected t)"
  obtains q path random i where "normalizeRequest (sv_lexicon env) request = Inr q" "sv_absolute env portableRoot = Some path"
    "sv_random env = Some random" "i = ''retrieval-'' @ NewEventID (sv_now env) random" "t = search_result env path i q"
    "marshal (retrieval_request_json q) \<noteq> None"
    "appendReceiptEvent io (search_receipt env path i q) (se_context q) s = (s', None)"
    "out = (if rt_status t = ''blocked'' then Inl (RepositoryRejected t) else Inr t)"
proof -
  obtain q path random where q: "normalizeRequest (sv_lexicon env) request = Inr q" "sv_absolute env portableRoot = Some path"
    "sv_random env = Some random" and ran: "Search env io portableRoot request s =
      (let t = search_result env path (''retrieval-'' @ NewEventID (sv_now env) random) q in
      case marshal (retrieval_request_json q) of
        None \<Rightarrow> (s, Inl SearchEncode)
      | Some bytes \<Rightarrow>
     (case appendReceiptEvent io (make_receipt (sv_now env) path q bytes t) (se_context q) s of
        (s', Some e) \<Rightarrow> (s', Inl (SearchReceipt e))
      | (s', None) \<Rightarrow>
          if rt_status t = ''blocked'' then (s', Inl (RepositoryRejected t)) else (s', Inr t)))"
    using assms by (auto simp: Search_def split: sum.splits option.splits if_splits)
  define i where "i = ''retrieval-'' @ NewEventID (sv_now env) random"
  obtain bytes where b: "marshal (retrieval_request_json q) = Some bytes"
    using assms ran by (auto simp: Let_def split: option.splits)
  have c: "make_receipt (sv_now env) path q bytes (search_result env path i q) = search_receipt env path i q"
    by (simp add: search_receipt_def b)
  have ran': "(s', out) = (case appendReceiptEvent io (search_receipt env path i q) (se_context q) s of
        (s', Some e) \<Rightarrow> (s', Inl (SearchReceipt e))
      | (s', None) \<Rightarrow> if rt_status (search_result env path i q) = ''blocked''
                      then (s', Inl (RepositoryRejected (search_result env path i q))) else (s', Inr (search_result env path i q)))"
    using ran assms(1) unfolding i_def [symmetric] Let_def b option.case c by simp
  obtain s1 x where a: "appendReceiptEvent io (search_receipt env path i q) (se_context q) s = (s1, x)" by fastforce
  have "x = None \<and> s1 = s' \<and> t = search_result env path i q \<and>
      out = (if rt_status t = ''blocked'' then Inl (RepositoryRejected t) else Inr t)"
    using ran' assms(2) a by (cases x) (auto split: if_splits)
  then show thesis using that [OF q i_def] b a by auto
qed

lemma receipt_id_visible: "\<not> blank (''retrieval-'' @ x)" "\<not> blank (''injection-'' @ x)" "\<not> blank (''adoption-'' @ x)"
proof -
  have "starts_visible ''retrieval-''" "starts_visible ''injection-''" "starts_visible ''adoption-''"
    unfolding starts_visible_def
    by (rule exI [of _ "''r''"], rule exI [of _ "''etrieval-''"], code_simp)
      (rule exI [of _ "''i''"], rule exI [of _ "''njection-''"], code_simp,
       rule exI [of _ "''a''"], rule exI [of _ "''doption-''"], code_simp)
  then show "\<not> blank (''retrieval-'' @ x)" "\<not> blank (''injection-'' @ x)" "\<not> blank (''adoption-'' @ x)"
    by - (rule starts_visible_not_blank, rule starts_visible_append, assumption)+
qed

lemma Search_appended:
  assumes "appendReceiptEvent io (search_receipt env path i q) (se_context q) s = (s', None)"
    and "ready (sv_lexicon env) rd (io_decode io) i s" and "others_append (sv_lexicon env) rd io i s"
    and "normalizeRequest (sv_lexicon env) request = Inr q" and "lexicon_ok (sv_lexicon env)" and "path \<noteq> []"
    and "se_query q = [] \<or> se_memory_id q = []" and "marshal (retrieval_request_json q) \<noteq> None"
    and "reads_back (rd_retrieval rd) retrieval_receipt_json (search_receipt env path i q)"
    and "stores io (search_event env (st_device_id s) path i q) s"
  shows "\<exists>s0 r h. waited io s s0 \<and> lr_event r = search_event env (st_device_id s) path i q \<and>
    decoded_records (io_decode io) (st_events s') = decoded_records (io_decode io) (st_events s0) @ [r] \<and>
    lastRecordHash (io_decode io) (st_events s') = Inr h \<and>
    admit_receipt (rd_retrieval rd) (validateReceipt (sv_lexicon env)) (lr_event r) = Inr (search_receipt env path i q) \<and>
    vn_issues (Verify_retrieval (sv_lexicon env) rd (io_decode io) s') = []"
proof -
  let ?c = "search_receipt env path i q" and ?lx = "sv_lexicon env"
  obtain bytes where b: "marshal (retrieval_request_json q) = Some bytes" using assms(8) by blast
  have c: "?c = make_receipt (sv_now env) path q bytes (search_result env path i q)" by (simp add: search_receipt_def b)
  note valid = search_receipt_valid(1) [OF assms(4-7) b refl, where i = i and now = "sv_now env" and device = "st_device_id s", folded c]
    search_receipt_valid(2) [OF assms(4-7) b refl, where i = i]
  have id: "tc_receipt_id ?c = i" "tc_recorded_at ?c = sv_now env" "tc_portable_root_sha256 ?c = sha256_hex path"
    by (simp_all add: c valid(2))
  have run: "append_receipt io (retrieval_receipt_json ?c)
      (receipt_event KindRetrieval i (sv_now env) (st_device_id s) (se_context q) (sha256_hex path) []) s = (s', None)"
    using assms(1) by (simp add: appendReceiptEvent_def id)
  have st: "stores io (receipt_event KindRetrieval i (sv_now env) (st_device_id s) (se_context q) (sha256_hex path) [] data) s"
    if "marshal (retrieval_receipt_json ?c) = Some data" for data
    using assms(10) that by (simp add: search_event_def)
  obtain data s0 r h where data: "marshal (retrieval_receipt_json ?c) = Some data" and p0: "waited io s s0"
    and ev: "lr_event r = receipt_event KindRetrieval i (sv_now env) (st_device_id s) (se_context q) (sha256_hex path) [] data"
    and blobs: "st_blobs s' = st_blobs s0"
    and log: "decoded_records (io_decode io) (st_events s') = decoded_records (io_decode io) (st_events s0) @ [r]"
    and last: "lastRecordHash (io_decode io) (st_events s') = Inr h"
    by (rule append_receipt_ok [OF run st])
  have ev': "lr_event r = search_event env (st_device_id s) path i q" by (simp add: ev search_event_def data)
  have dec: "rd_retrieval rd data = Inr ?c" using assms(9) data by (simp add: reads_back_def)
  have adm: "admit_receipt (rd_retrieval rd) (validateReceipt ?lx) (lr_event r) = Inr ?c"
    by (simp add: admit_Inr ev dec valid(1))
  let ?g = "graph_of ?lx rd (decoded_records (io_decode io) (st_events s0))"
  have idr: "ev_event_id (lr_event r) = i" by (simp add: ev)
  have rdy: "ready ?lx rd (io_decode io) i s0" using assms(2,3) p0 by (simp add: others_append_def)
  have fresh: "indexed_event (rg_events ?g) (ev_event_id (lr_event r)) = None" using ready_fresh [OF rdy] by (simp add: ev)
  have g': "rg_injections (visit_receipt ?lx rd (lr_event r) ?g) = rg_injections ?g"
    "rg_adoptions (visit_receipt ?lx rd (lr_event r) ?g) = rg_adoptions ?g"
    "vn_issues (rg_report (visit_receipt ?lx rd (lr_event r) ?g)) = vn_issues (rg_report ?g)"
    using fresh adm by (simp_all add: visit_receipt_def Let_def visit_retrieval_def ev)
  have "vn_issues (Verify_retrieval ?lx rd (io_decode io) s') = []"
    by (rule append_verified [OF rdy refl idr log last blobs refl refl]) (simp_all add: g')
  then show ?thesis using p0 ev' log last adm by blast
qed

lemma Search_verified:
  assumes "Search env io portableRoot request s = (s', out)" and "out = Inr t \<or> out = Inl (RepositoryRejected t)"
    and "normalizeRequest (sv_lexicon env) request = Inr q" and "se_query q = [] \<or> se_memory_id q = []"
    and "sv_absolute env portableRoot = Some path" and "path \<noteq> []" and "lexicon_ok (sv_lexicon env)"
    and "ready (sv_lexicon env) rd (io_decode io) (rt_receipt_id t) s" and "others_append (sv_lexicon env) rd io (rt_receipt_id t) s"
    and "reads_back (rd_retrieval rd) retrieval_receipt_json (search_receipt env path (rt_receipt_id t) q)"
    and "stores io (search_event env (st_device_id s) path (rt_receipt_id t) q) s"
  shows "vn_issues (Verify_retrieval (sv_lexicon env) rd (io_decode io) s') = [] \<and>
    ResolveVerifiedRetrieval (sv_lexicon env) rd (io_decode io) (rt_receipt_id t) s' =
      Inr (search_receipt env path (rt_receipt_id t) q) \<and>
    t = search_result env path (rt_receipt_id t) q"
proof -
  obtain q' path' random i where ran: "normalizeRequest (sv_lexicon env) request = Inr q'" "sv_absolute env portableRoot = Some path'"
    "i = ''retrieval-'' @ NewEventID (sv_now env) random" "t = search_result env path' i q'"
    "marshal (retrieval_request_json q') \<noteq> None"
    "appendReceiptEvent io (search_receipt env path' i q') (se_context q') s = (s', None)"
    using Search_ran [OF assms(1,2)] by metis
  have q: "q' = q" "path' = path" using ran(1,2) assms(3,5) by simp_all
  obtain bytes where "marshal (retrieval_request_json q) = Some bytes" using ran(5) q by auto
  from search_receipt_valid(2) [OF assms(3,7,6,4) this ran(4) [unfolded q]] have i: "rt_receipt_id t = i" .
  obtain s0 r h where a: "waited io s s0" "lr_event r = search_event env (st_device_id s) path i q"
    "decoded_records (io_decode io) (st_events s') = decoded_records (io_decode io) (st_events s0) @ [r]"
    "lastRecordHash (io_decode io) (st_events s') = Inr h"
    "admit_receipt (rd_retrieval rd) (validateReceipt (sv_lexicon env)) (lr_event r) = Inr (search_receipt env path i q)"
    "vn_issues (Verify_retrieval (sv_lexicon env) rd (io_decode io) s') = []"
    using Search_appended [OF ran(6) [unfolded q] assms(8,9) [unfolded i] assms(3,7,6,4) ran(5) [unfolded q] assms(10,11) [unfolded i]]
    by blast
  have "ready (sv_lexicon env) rd (io_decode io) i s0" using a(1) assms(8,9) by (simp add: others_append_def i)
  then have fresh: "i \<notin> event_ids (io_decode io) s0" by (simp add: ready_def)
  have "visitRecords (io_decode io) (resolve_step i KindRetrieval (rd_retrieval rd) (validateReceipt (sv_lexicon env))
      [''retrieval receipt id appears more than once''] [''requested event is not a retrieval receipt''])
      (st_events s') None = (Some (search_receipt env path i q), Inr h)"
    by (rule resolve_last [OF fresh a(3) _ _ a(5,4)]) (simp_all add: a(2) search_event_def)
  moreover have "\<not> blank i" unfolding ran(3) by (rule receipt_id_visible(1))
  ultimately have "ResolveVerifiedRetrieval (sv_lexicon env) rd (io_decode io) i s' = Inr (search_receipt env path i q)"
    using a(6) by (simp add: ResolveVerifiedRetrieval_def)
  then show ?thesis using a(6) ran(4) unfolding i q by blast
qed

section \<open>Rendering within the budgets\<close>

lemma render_fold:
  assumes "within_budgets q (built @ context_trailer)"
  shows "\<exists>ms'. subseq ms' ms \<and>
    fold (render_match lx q) ms (built, refs) = (built @ concat (map (memory_block lx) ms'), refs @ map mm_reference ms') \<and>
    within_budgets q (built @ concat (map (memory_block lx) ms') @ context_trailer)"
  using assms
proof (induction ms arbitrary: built refs)
  case (Cons m ms)
  show ?case
  proof (cases "within_budgets q (built @ memory_block lx m @ context_trailer)")
    case True
    then have "within_budgets q ((built @ memory_block lx m) @ context_trailer)" by simp
    from Cons.IH [OF this, of "refs @ [mm_reference m]"] obtain ms' where "subseq ms' ms"
      "fold (render_match lx q) ms (built @ memory_block lx m, refs @ [mm_reference m]) =
        ((built @ memory_block lx m) @ concat (map (memory_block lx) ms'), (refs @ [mm_reference m]) @ map mm_reference ms')"
      "within_budgets q ((built @ memory_block lx m) @ concat (map (memory_block lx) ms') @ context_trailer)" by blast
    moreover have "render_match lx q m (built, refs) = (built @ memory_block lx m, refs @ [mm_reference m])"
      using True by (simp add: render_match_def)
    ultimately show ?thesis by (intro exI [of _ "m # ms'"]) simp
  next
    case False
    from Cons.IH [OF Cons.prems, of refs] obtain ms' where "subseq ms' ms"
      "fold (render_match lx q) ms (built, refs) = (built @ concat (map (memory_block lx) ms'), refs @ map mm_reference ms')"
      "within_budgets q (built @ concat (map (memory_block lx) ms') @ context_trailer)" by blast
    moreover have "render_match lx q m (built, refs) = (built, refs)" using False by (simp add: render_match_def)
    ultimately show ?thesis by (intro exI [of _ ms']) auto
  qed
next
  case Nil
  then show ?case by (intro exI [of _ "[]"]) simp
qed

lemma rendered:
  "renderBoundedContext lx t q = ([], []) \<or>
   (\<exists>ms. ms \<noteq> [] \<and> subseq ms (selected_matches t) \<and>
     renderBoundedContext lx t q =
       (context_header lx (rt_receipt_id t) @ concat (map (memory_block lx) ms) @ context_trailer, map mm_reference ms) \<and>
     within_budgets q (context_header lx (rt_receipt_id t) @ concat (map (memory_block lx) ms) @ context_trailer))"
proof (cases "selected_matches t = [] \<or> \<not> within_budgets q (context_header lx (rt_receipt_id t) @ context_trailer)")
  case False
  let ?h = "context_header lx (rt_receipt_id t)"
  have "within_budgets q (?h @ context_trailer)" using False by simp
  from render_fold [OF this, of "selected_matches t" lx "[]"] obtain ms where ms: "subseq ms (selected_matches t)"
    "fold (render_match lx q) (selected_matches t) (?h, []) = (?h @ concat (map (memory_block lx) ms), map mm_reference ms)"
    "within_budgets q (?h @ concat (map (memory_block lx) ms) @ context_trailer)" by auto
  show ?thesis
  proof (cases "ms = []")
    case True
    then show ?thesis using False ms(2) by (simp add: renderBoundedContext_def Let_def)
  next
    case ne: False
    then have "renderBoundedContext lx t q = (?h @ concat (map (memory_block lx) ms) @ context_trailer, map mm_reference ms)"
      using False ms(2) by (simp add: renderBoundedContext_def Let_def)
    then show ?thesis using ne ms(1,3) by blast
  qed
qed (auto simp: renderBoundedContext_def Let_def)

end
