(* ===== verification/Retrieval_Injection.thy ===== *)
theory Retrieval_Injection
  imports Retrieval_Deliver
begin

text \<open>
  A delivery against the verified ledger: the injection receipt that \<open>BuildContext\<close> writes after its search passes
  the verifier, links included, and \<open>ResolveVerifiedInjection\<close> gives back what was delivered.
\<close>

section \<open>The receipt by itself\<close>

lemma reference_issues_Nil:
  "\<forall>r \<in> set rs. validMemoryReference r \<Longrightarrow> distinct (map mr_memory_id rs) \<Longrightarrow> \<forall>r \<in> set rs. referenceKey r \<notin> set seen \<Longrightarrow>
     reference_issues seen rs = []"
proof (induction rs arbitrary: seen)
  case (Cons r rs)
  have "referenceKey r' \<noteq> referenceKey r" if r': "r' \<in> set rs" for r'
  proof
    assume "referenceKey r' = referenceKey r"
    from referenceKey_inj [OF this] have "mr_memory_id r' = mr_memory_id r" using Cons.prems(1) r' by simp
    then have "mr_memory_id r \<in> mr_memory_id ` set rs" using r' by (metis image_eqI)
    then show False using Cons.prems(2) by simp
  qed
  then have "reference_issues (referenceKey r # seen) rs = []"
    using Cons.prems by (intro Cons.IH) auto
  then show ?case using Cons.prems(1,3) by simp
qed simp

lemma context_header_not_empty: "context_header lx i @ x \<noteq> []"
  by (simp add: context_header_def)

lemma rendered_memories:
  assumes "renderBoundedContext lx t q = (content, memories)" and "content \<noteq> []" and "matches_ok lx q rs (selected_matches t)"
  shows "memories \<noteq> []" and "\<forall>r \<in> set memories. validMemoryReference r" and "distinct (map mr_memory_id memories)"
    and "\<forall>r \<in> set memories. referenceKey r \<in> set (referencesFromMatches (selected_matches t))"
proof -
  obtain ms where ms: "ms \<noteq> []" "subseq ms (selected_matches t)" "memories = map mm_reference ms"
    using rendered [of lx t q] assms(1,2) by auto
  have sub: "set ms \<subseteq> set (selected_matches t)" using list_emb_set [OF ms(2)] by auto
  show "memories \<noteq> []" using ms by simp
  show "\<forall>r \<in> set memories. validMemoryReference r"
    using ms(3) sub assms(3) by (auto simp: matches_ok_def validMatch_def)
  have "distinct (map match_memory ms)"
    using subseq_distinct [OF subseq_map [OF ms(2), of match_memory]] assms(3) by (simp add: matches_ok_def)
  then show "distinct (map mr_memory_id memories)" by (simp add: ms(3) comp_def)
  show "\<forall>r \<in> set memories. referenceKey r \<in> set (referencesFromMatches (selected_matches t))"
    using sub by (auto simp: ms(3) referencesFromMatches_def referenceSet_def)
qed

lemma make_injection_fields [simp]:
  "ij_schema_version (make_injection now j t q content memories) = InjectionReceiptSchemaVersion"
  "ij_injection_id (make_injection now j t q content memories) = j"
  "ij_retrieval_id (make_injection now j t q content memories) = rt_receipt_id t"
  "ij_recorded_at (make_injection now j t q content memories) = now"
  "ij_channel (make_injection now j t q content memories) = rx_channel (se_context q)"
  "ij_content (make_injection now j t q content memories) = content"
  "ij_content_sha256 (make_injection now j t q content memories) = sha256_hex content"
  "ij_content_bytes (make_injection now j t q content memories) = int (length content)"
  "ij_tokens (make_injection now j t q content memories) = estimateTokens content"
  "ij_memories (make_injection now j t q content memories) = memories"
  "ij_privacy (make_injection now j t q content memories) = PrivacyLocalOnly_retrieval"
  by (simp_all add: make_injection_def)

lemma injection_valid:
  assumes "renderBoundedContext lx t q = (content, memories)" and "content \<noteq> []" and "matches_ok lx q rs (selected_matches t)"
    and "validChannel (rx_channel (se_context q))" and "hasPrefix (rt_receipt_id t) ''retrieval-''"
  shows "validateInjectionReceipt (receipt_event KindInjection j now device x hash parents data)
    (make_injection now j t q content memories) = []"
  using assms(2,4,5) rendered_memories [OF assms(1-3)] reference_issues_Nil [of memories "[]"]
  by (simp add: validateInjectionReceipt_def sortedUnique_retrieval_def)

section \<open>The retrieval in the graph\<close>

lemma visit_silent:
  assumes "silent (vn_issues (rg_report (visit_receipt lx rd e g)))"
  shows "silent (vn_issues (rg_report g))" and "indexed_event (rg_events g) (ev_event_id e) = None"
proof -
  show n: "indexed_event (rg_events g) (ev_event_id e) = None"
  proof (rule ccontr)
    assume "indexed_event (rg_events g) (ev_event_id e) \<noteq> None"
    with assms show False by (simp add: visit_receipt_def Let_def graph_issues_add_def)
  qed
  then show "silent (vn_issues (rg_report g))"
  proof (cases rule: visit_receipt_cases [where lx = lx and rd = rd])
    case retrieval
    then show ?thesis using assms by (auto simp: visit_kind_defs split: sum.splits)
  next
    case injection
    then show ?thesis using assms by (auto simp: visit_kind_defs split: sum.splits)
  next
    case adoption
    then show ?thesis using assms by (auto simp: visit_kind_defs split: sum.splits)
  next
    case other
    then show ?thesis using assms by simp
  qed
qed

lemma graph_finds_retrieval:
  assumes "silent (vn_issues (rg_report (graph_of lx rd rs)))" and "r \<in> set rs" and "ev_kind (lr_event r) = KindRetrieval"
    and "admit_receipt (rd_retrieval rd) (validateReceipt lx) (lr_event r) = Inr c"
  shows "map_of (rg_retrievals (graph_of lx rd rs)) (tc_receipt_id c) = Some c"
  using assms(1,2)
proof (induction rs rule: rev_induct)
  case (snoc r' rs)
  let ?g = "graph_of lx rd rs"
  note v = visit_silent [OF snoc.prems(1) [unfolded graph_of_append]]
  have id: "tc_receipt_id c = ev_event_id (lr_event r)" using assms(4) receipt_ids(1) [of lx "lr_event r" c] by (simp add: admit_Inr)
  show ?case
  proof (cases "r = r'")
    case True
    have "map_of (rg_retrievals ?g) (tc_receipt_id c) = None"
      using grows_known [OF graph_of_wf v(2)] True id by (auto simp: map_of_eq_None_iff)
    moreover have "rg_retrievals (graph_of lx rd (rs @ [r'])) = rg_retrievals ?g @ [(tc_receipt_id c, c)]"
      using v(2) assms(3,4) True by (simp add: graph_of_append visit_receipt_def Let_def visit_retrieval_def)
    ultimately show ?thesis by (simp add: map_add_def)
  next
    case False
    then have found: "map_of (rg_retrievals ?g) (tc_receipt_id c) = Some c" using snoc v(1) by simp
    then show ?thesis
      using grows_receipts(1) [OF visit_grows [OF v(2), of lx rd], of "tc_receipt_id c"]
        found_retrieval [OF graph_of_wf v(2) found]
      by (simp add: graph_of_append)
  qed
qed simp

section \<open>The append\<close>

definition injection_event :: "string \<Rightarrow> injection_receipt \<Rightarrow> retrieval_context \<Rightarrow> event" where
  "injection_event device i x =
     receipt_event KindInjection (ij_injection_id i) (ij_recorded_at i) device x [] [ij_retrieval_id i]
       (the (marshal (injection_receipt_json i)))"

lemma injection_appended:
  assumes "appendInjectionEvent io i x s = (s', None)" and "ready lx rd (io_decode io) (ij_injection_id i) s"
    and "others_append lx rd io (ij_injection_id i) s" and "r \<in> set (decoded_records (io_decode io) (st_events s))"
    and "ev_kind (lr_event r) = KindRetrieval" and "admit_receipt (rd_retrieval rd) (validateReceipt lx) (lr_event r) = Inr c"
    and "\<And>device data. validateInjectionReceipt
       (receipt_event KindInjection (ij_injection_id i) (ij_recorded_at i) device x [] [ij_retrieval_id i] data) i = []"
    and "ij_retrieval_id i = tc_receipt_id c" and "x = se_context (tc_request c)" and "ij_channel i = rx_channel x"
    and "renderBoundedContext lx (tc_result c) (tc_request c) = (ij_content i, ij_memories i)"
    and "\<forall>m \<in> set (ij_memories i). referenceKey m \<in> set (referencesFromMatches (selected_matches (tc_result c)))"
    and "reads_back (rd_injection rd) injection_receipt_json i"
    and "stores io (injection_event (st_device_id s) i x) s"
  shows "vn_issues (Verify_retrieval lx rd (io_decode io) s') = [] \<and>
    (\<exists>h. visitRecords (io_decode io) (resolve_step (ij_injection_id i) KindInjection (rd_injection rd) validateInjectionReceipt
       twice other) (st_events s') None = (Some i, Inr h))"
proof -
  let ?e = "receipt_event KindInjection (ij_injection_id i) (ij_recorded_at i) (st_device_id s) x [] [ij_retrieval_id i]"
  have run: "append_receipt io (injection_receipt_json i) ?e s = (s', None)"
    using assms(1) by (simp add: appendInjectionEvent_def)
  have st: "stores io (?e data) s" if "marshal (injection_receipt_json i) = Some data" for data
    using assms(14) that by (simp add: injection_event_def)
  obtain data s0 r1 h where data: "marshal (injection_receipt_json i) = Some data" and p0: "waited io s s0"
    and ev: "lr_event r1 = ?e data" and blobs: "st_blobs s' = st_blobs s0"
    and log: "decoded_records (io_decode io) (st_events s') = decoded_records (io_decode io) (st_events s0) @ [r1]"
    and last: "lastRecordHash (io_decode io) (st_events s') = Inr h"
    by (rule append_receipt_ok [OF run st])
  have rdy: "ready lx rd (io_decode io) (ij_injection_id i) s0" and known: "r \<in> set (decoded_records (io_decode io) (st_events s0))"
    using assms(2-4) p0 by (auto simp: others_append_def)
  have dec: "rd_injection rd data = Inr i" using assms(13) data by (simp add: reads_back_def)
  have adm: "admit_receipt (rd_injection rd) validateInjectionReceipt (lr_event r1) = Inr i"
    using assms(7) [of "st_device_id s" data] by (simp add: admit_Inr ev dec)
  have idr: "ev_event_id (lr_event r1) = ij_injection_id i" by (simp add: ev)
  let ?g = "graph_of lx rd (decoded_records (io_decode io) (st_events s0))"
  let ?g' = "visit_receipt lx rd (lr_event r1) ?g"
  have fresh: "indexed_event (rg_events ?g) (ev_event_id (lr_event r1)) = None" using ready_fresh [OF rdy] by (simp add: ev)
  note grow = visit_grows [OF fresh, of lx rd]
  have sil: "silent (vn_issues (rg_report ?g))"
    using rdy by (simp add: ready_def Verify_retrieval_clean clean_def)
  note found = graph_finds_retrieval [OF sil known assms(5,6)]
  have ne: "tc_receipt_id c \<noteq> ev_event_id (lr_event r1)" using found_retrieval [OF graph_of_wf fresh found] by simp
  have g': "rg_injections ?g' = rg_injections ?g @ [(ij_injection_id i, i)]" "rg_adoptions ?g' = rg_adoptions ?g"
    "vn_issues (rg_report ?g') = vn_issues (rg_report ?g)"
    using fresh adm by (simp_all add: visit_receipt_def Let_def visit_injection_def ev)
  have pos: "event_position (rg_events ?g') (tc_receipt_id c) < event_position (rg_events ?g') (ij_injection_id i)"
    using position_le [OF graph_of_wf, of lx rd] grows_events(2) [OF grow ne] grows_events(5) [OF grow]
    by (simp add: idr le_imp_less_Suc)
  have ix: "indexed_matches (rg_events ?g') (ij_injection_id i) Q = Q (lr_event r1)" for Q
    using grows_events(4) [OF grow] by (simp add: indexed_matches_def idr)
  have par: "causalityMatches (lr_event r1) [tc_receipt_id c]"
    using receipt_event_causality [of KindInjection _ _ _ _ _ "[tc_receipt_id c]"] by (simp add: ev assms(8))
  have src: "sourceMatchesContext (lr_event r1) (se_context (tc_request c))" by (simp add: ev assms(9))
  have "injection_links lx ?g' i c = []"
    using pos par src assms(9-12) by (simp add: injection_links_def Let_def ix issue_unless_def)
  then have links: "silent (injection_issues lx ?g' i)"
    using grows_receipts(1) [OF grow ne] found by (simp add: injection_issues_def assms(8))
  have "vn_issues (Verify_retrieval lx rd (io_decode io) s') = []"
    by (rule append_verified [OF rdy refl idr log last blobs refl refl]) (use links in \<open>auto simp: g'\<close>)
  moreover have "visitRecords (io_decode io) (resolve_step (ij_injection_id i) KindInjection (rd_injection rd) validateInjectionReceipt
       twice other) (st_events s') None = (Some i, Inr h)"
    by (rule resolve_last [OF _ log _ _ adm last]) (use rdy in \<open>simp_all add: ready_def ev\<close>)
  ultimately show ?thesis by blast
qed

section \<open>The delivery\<close>

lemma BuildContext_ran:
  assumes "BuildContext env io io' now random portableRoot request s = (s', Inr c)" and "cx_content c \<noteq> []"
  obtains q t s1 bytes where "normalizeRequest (sv_lexicon env) request = Inr q" "Search env io portableRoot q s = (s1, Inr t)"
    "renderBoundedContext (sv_lexicon env) t q = (cx_content c, cx_memories c)" "random = Some bytes"
    "cx_injection_id c = ''injection-'' @ NewEventID now bytes" "cx_retrieval c = t"
    "appendInjectionEvent io' (make_injection now (cx_injection_id c) t q (cx_content c) (cx_memories c)) (se_context q) s1 = (s', None)"
proof -
  obtain q t s1 where q: "normalizeRequest (sv_lexicon env) request = Inr q" "Search env io portableRoot q s = (s1, Inr t)"
    and ran: "(case renderBoundedContext (sv_lexicon env) t q of (content, memories) \<Rightarrow>
        if content = [] then (s1, Inr (bare_context t))
        else (case random of
                None \<Rightarrow> (s1, Inl ContextRandom)
              | Some bytes \<Rightarrow>
                  (let i = make_injection now (''injection-'' @ NewEventID now bytes) t q content memories in
                   case appendInjectionEvent io' i (se_context q) s1 of
                     (s2, Some e) \<Rightarrow> (s2, Inl (ContextReceipt e))
                   | (s2, None) \<Rightarrow> (s2, Inr (delivered_context i (bare_context t)))))) = (s', Inr c)"
    using assms(1) by (auto simp: BuildContext_def split: sum.splits prod.splits)
  obtain content memories where r: "renderBoundedContext (sv_lexicon env) t q = (content, memories)" by fastforce
  have ne: "content \<noteq> []" using ran r assms(2) by (auto simp: bare_context_def)
  obtain bytes where b: "random = Some bytes" using ran r ne by (auto split: option.splits)
  define j where "j = ''injection-'' @ NewEventID now bytes"
  obtain s2 x where a: "appendInjectionEvent io' (make_injection now j t q content memories) (se_context q) s1 = (s2, x)" by fastforce
  have c: "x = None" "s2 = s'" "c = delivered_context (make_injection now j t q content memories) (bare_context t)"
    using ran r ne b a by (auto simp: j_def Let_def split: option.splits)
  then have "cx_content c = content" "cx_memories c = memories" "cx_injection_id c = j" "cx_retrieval c = t"
    by (simp_all add: delivered_context_def bare_context_def)
  then show thesis using that [OF q, of bytes] r b a c(1,2) by (simp add: j_def)
qed

text \<open>What a delivery is found to be in the ledger.\<close>

definition context_injection :: "gotime \<Rightarrow> retrieval_request \<Rightarrow> context_result \<Rightarrow> injection_receipt" where
  "context_injection now q c = make_injection now (cx_injection_id c) (cx_retrieval c) q (cx_content c) (cx_memories c)"

text \<open>What the search leaves for the delivery: its receipt is in the verified ledger and the id of the delivery is new.\<close>

lemma Search_for_delivery:
  assumes "Search env io portableRoot q s = (s1, Inr t)" and "normalizeRequest (sv_lexicon env) q = Inr q"
    and "se_query q = [] \<or> se_memory_id q = []" and "sv_absolute env portableRoot = Some path" and "path \<noteq> []"
    and "lexicon_ok (sv_lexicon env)" and "i = rt_receipt_id t" and "hasPrefix j ''injection-''"
    and "ready (sv_lexicon env) rd (io_decode io) i s" and "ready (sv_lexicon env) rd (io_decode io) j s"
    and "others_append (sv_lexicon env) rd io i s" and "others_append (sv_lexicon env) rd io j s"
    and "reads_back (rd_retrieval rd) retrieval_receipt_json (search_receipt env path i q)"
    and "stores io (search_event env (st_device_id s) path i q) s"
  shows "\<exists>r rb rs. ev_kind (lr_event r) = KindRetrieval \<and>
    admit_receipt (rd_retrieval rd) (validateReceipt (sv_lexicon env)) (lr_event r) = Inr (search_receipt env path i q) \<and>
    search_receipt env path i q = make_receipt (sv_now env) path q rb t \<and> matches_ok (sv_lexicon env) q rs (selected_matches t) \<and>
    hasPrefix i ''retrieval-'' \<and> ready (sv_lexicon env) rd (io_decode io) j s1 \<and>
    r \<in> set (decoded_records (io_decode io) (st_events s1))"
proof -
  let ?lx = "sv_lexicon env" and ?dec = "io_decode io"
  obtain random i' where search: "i' = ''retrieval-'' @ NewEventID (sv_now env) random" "t = search_result env path i' q"
    "marshal (retrieval_request_json q) \<noteq> None" "appendReceiptEvent io (search_receipt env path i' q) (se_context q) s = (s1, None)"
    using Search_ran [OF assms(1) disjI1 [OF refl]] assms(2,4) by (metis option.inject sum.inject(2))
  obtain rb where rb: "marshal (retrieval_request_json q) = Some rb" using search(3) by auto
  have i: "i' = i" using search_receipt_valid(2) [OF assms(2,6,5,3) rb search(2)] assms(7) by simp
  obtain s0 r h where s0: "waited io s s0" and ev: "lr_event r = search_event env (st_device_id s) path i q"
    and log: "decoded_records ?dec (st_events s1) = decoded_records ?dec (st_events s0) @ [r]"
    and adm: "admit_receipt (rd_retrieval rd) (validateReceipt ?lx) (lr_event r) = Inr (search_receipt env path i q)"
    and v1: "vn_issues (Verify_retrieval ?lx rd ?dec s1) = []"
    using Search_appended [OF search(4) [unfolded i] assms(9,11,2,6,5,3) search(3) assms(13,14)] by blast
  have "j \<noteq> i" using search(1) assms(8) i by (auto simp: hasPrefix_def)
  moreover have "ready ?lx rd ?dec j s0" using s0 assms(10,12) by (simp add: others_append_def)
  ultimately have "ready ?lx rd ?dec j s1" using v1 log by (auto simp: ready_def event_ids_def ev search_event_def)
  moreover have "\<exists>rs. matches_ok ?lx q rs (selected_matches t)"
    using normalizeRequest_ok(1) [OF assms(2)] assms(6)
  proof (cases rule: search_result_cases [where root_path = path and i = i])
    case (blocked issues n)
    then have "selected_matches t = []" using search(2) i by (simp add: blocked_result_def initial_result_def selected_matches_def)
    then show ?thesis by (intro exI [of _ "[]"]) simp
  next
    case (ranked rs report)
    then show ?thesis using search(2) i by (auto simp: ranked_result_def)
  qed
  moreover have "search_receipt env path i q = make_receipt (sv_now env) path q rb t"
    by (simp add: search_receipt_def rb search(2) i)
  moreover have "hasPrefix i ''retrieval-''" using search(1) i by (simp add: hasPrefix_def)
  moreover have "ev_kind (lr_event r) = KindRetrieval" by (simp add: ev search_event_def)
  moreover have "r \<in> set (decoded_records ?dec (st_events s1))" by (simp add: log)
  ultimately show ?thesis using adm by blast
qed

lemma BuildContext_verified:
  assumes "BuildContext env io io' now random portableRoot request s = (s', Inr c)" and "cx_content c \<noteq> []"
    and "normalizeRequest (sv_lexicon env) request = Inr q" and "se_query q = [] \<or> se_memory_id q = []"
    and "sv_absolute env portableRoot = Some path" and "path \<noteq> []" and "lexicon_ok (sv_lexicon env)" and "io_decode io' = io_decode io"
    and "i = rt_receipt_id (cx_retrieval c)" and "j = cx_injection_id c" and s1: "s1 = fst (Search env io portableRoot q s)"
    and "ready (sv_lexicon env) rd (io_decode io) i s" and "ready (sv_lexicon env) rd (io_decode io) j s"
    and "others_append (sv_lexicon env) rd io i s" and "others_append (sv_lexicon env) rd io j s"
    and "others_append (sv_lexicon env) rd io' j s1"
    and "reads_back (rd_retrieval rd) retrieval_receipt_json (search_receipt env path i q)"
    and "reads_back (rd_injection rd) injection_receipt_json (context_injection now q c)"
    and "stores io (search_event env (st_device_id s) path i q) s"
    and "stores io' (injection_event (st_device_id s1) (context_injection now q c) (se_context q)) s1"
  shows "vn_issues (Verify_retrieval (sv_lexicon env) rd (io_decode io) s') = [] \<and>
    ResolveVerifiedInjection (sv_lexicon env) rd (io_decode io) j s' = Inr (context_injection now q c)"
proof -
  let ?lx = "sv_lexicon env" and ?dec = "io_decode io"
  obtain t bytes where ran: "Search env io portableRoot q s = (s1, Inr t)"
    "renderBoundedContext ?lx t q = (cx_content c, cx_memories c)" "j = ''injection-'' @ NewEventID now bytes" "cx_retrieval c = t"
    "appendInjectionEvent io' (make_injection now j t q (cx_content c) (cx_memories c)) (se_context q) s1 = (s', None)"
    using BuildContext_ran [OF assms(1,2)] assms(3,10) s1 by (metis sum.inject(2) fst_conv)
  note q = normalizeRequest_ok [OF assms(3)]
  have j: "hasPrefix j ''injection-''" "\<not> blank j" unfolding ran(3) by (simp add: hasPrefix_def, rule receipt_id_visible(2))
  have i: "i = rt_receipt_id t" using assms(9) ran(4) by simp
  obtain r rb rs where r: "ev_kind (lr_event r) = KindRetrieval"
    "admit_receipt (rd_retrieval rd) (validateReceipt ?lx) (lr_event r) = Inr (search_receipt env path i q)"
    "search_receipt env path i q = make_receipt (sv_now env) path q rb t" "matches_ok ?lx q rs (selected_matches t)"
    "hasPrefix i ''retrieval-''" "ready ?lx rd ?dec j s1" "r \<in> set (decoded_records ?dec (st_events s1))"
    using Search_for_delivery [OF ran(1) q(4) assms(4-7) i j(1) assms(12-15,17,19)] by blast
  have ch: "validChannel (rx_channel (se_context q))"
    using q(2) unfolding check_request_def first_error_Cons fail_if_None by blast
  note memories = rendered_memories [OF ran(2) assms(2) r(4)]
  let ?i = "make_injection now j t q (cx_content c) (cx_memories c)"
  have ci: "context_injection now q c = ?i" using ran(4) assms(10) by (simp add: context_injection_def)
  have "vn_issues (Verify_retrieval ?lx rd (io_decode io') s') = [] \<and>
    (\<exists>h. visitRecords (io_decode io') (resolve_step (ij_injection_id ?i) KindInjection (rd_injection rd) validateInjectionReceipt
       [''injection id appears more than once''] [''requested event is not an injection receipt'']) (st_events s') None = (Some ?i, Inr h))"
  proof (rule injection_appended [where r = r and c = "search_receipt env path i q", OF ran(5)])
    show "ready ?lx rd (io_decode io') (ij_injection_id ?i) s1" using r(6) assms(8) by simp
    show "others_append ?lx rd io' (ij_injection_id ?i) s1" using assms(16) by simp
    show "r \<in> set (decoded_records (io_decode io') (st_events s1))" using r(7) assms(8) by simp
    show "validateInjectionReceipt (receipt_event KindInjection (ij_injection_id ?i) (ij_recorded_at ?i) device (se_context q) []
        [ij_retrieval_id ?i] data) ?i = []" for device data
      unfolding make_injection_fields by (rule injection_valid [OF ran(2) assms(2) r(4) ch r(5) [unfolded i]])
    show "reads_back (rd_injection rd) injection_receipt_json ?i" using assms(18) ci by simp
    show "stores io' (injection_event (st_device_id s1) ?i (se_context q)) s1" using assms(20) ci by simp
  qed (use r(1,2) memories ran(2) in \<open>simp_all add: r(3)\<close>)
  then show ?thesis
    using j(2) memories(1) assms(2,8) by (auto simp: ResolveVerifiedInjection_def ci)
qed

end
