(* ===== verification/Retrieval_Sample.thy ===== *)
theory Retrieval_Sample
  imports Retrieval_Injection
begin

text \<open>
  A sample for the witnesses of retrieval: the exported repository of the portable sample, searched by the id of its
  memory from an empty ledger that nobody else writes to, and the delivery of what is found.
\<close>

section \<open>The repository\<close>

definition sample_lexicon :: lexicon where
  "sample_lexicon = \<lparr>lx_unicode = sample_unicode, lx_cjk = (\<lambda>_. False), lx_print = (\<lambda>_. False)\<rparr>"

lemma sample_lexicon_ok: "lexicon_ok sample_lexicon"
proof -
  have "list_all (\<lambda>r. \<not> uc_word sample_unicode r) space_encodings" by code_simp
  then show ?thesis by (simp add: lexicon_ok_def sample_lexicon_def list_all_iff)
qed

lemma sample_active:
  "\<exists>a m h report. LoadActiveRevisions sample_load ''m'' (RootDir (exported_tree a m h)) = ([sample_portable], report) \<and>
     pt_issues report = []"
proof -
  obtain a m h where path: "revisionRelativePath sample_portable = [''memories'', a, m, h]"
    "identityFromRevisionPath [''memories'', a, m, h] = Some (sample_memory_id, pv_revision_id sample_portable)"
    by (rule sample_path)
  have b: "\<not> blank ''m''" by code_simp
  obtain report where l: "loadRepository sample_load ''m'' (RootDir (exported_tree a m h)) = (report, sample_state)" "pt_issues report = []"
    using sample_exported_loads [OF path] b by (auto simp: loadRepository_def)
  have "rs_heads sample_state = [(sample_memory_id, sample_portable)]" by (simp add: sample_state_def)
  then have "LoadActiveRevisions sample_load ''m'' (RootDir (exported_tree a m h)) = ([sample_portable], report)"
    using l by (simp add: LoadActiveRevisions_def sample_portable_fields)
  then show ?thesis using l(2) by blast
qed

section \<open>The request\<close>

definition sample_context :: retrieval_context where
  "sample_context = \<lparr>rx_agent = AgentCodex, rx_thread_id = ''t1'', rx_session_id = [], rx_repository = [], rx_project = [],
     rx_task = [], rx_channel = ChannelCLI\<rparr>"

definition sample_query :: retrieval_request where
  "sample_query = \<lparr>se_schema_version = RequestSchemaVersion_retrieval, se_query = [], se_memory_id = sample_memory_id,
     se_context = sample_context, se_limit = 5, se_token_budget = 4096, se_byte_budget = 4096\<rparr>"

lemma sample_query_fields [simp]:
  "se_schema_version sample_query = RequestSchemaVersion_retrieval" "se_query sample_query = []"
  "se_memory_id sample_query = sample_memory_id" "se_context sample_query = sample_context" "se_limit sample_query = 5"
  "se_token_budget sample_query = 4096" "se_byte_budget sample_query = 4096"
  "rx_agent sample_context = AgentCodex" "rx_thread_id sample_context = ''t1''" "rx_session_id sample_context = []"
  "rx_repository sample_context = []" "rx_project sample_context = []" "rx_task sample_context = []"
  "rx_channel sample_context = ChannelCLI"
  by (simp_all add: sample_query_def sample_context_def)

lemma sample_memory_valid: "validPrefixedHash_retrieval sample_memory_id ''memory-''" "\<not> blank sample_memory_id" "sample_memory_id \<noteq> []"
proof -
  obtain d where d: "sample_memory_id = ''memory-'' @ sha256_hex d" using sample_memory_hash by blast
  show "validPrefixedHash_retrieval sample_memory_id ''memory-''"
    unfolding d validPrefixedHash_retrieval_iff using validPrefixedHash_append validSHA256_sha256_hex by metis
  have "starts_visible ''memory-''"
    unfolding starts_visible_def by (rule exI [of _ "''m''"], rule exI [of _ "''emory-''"]) code_simp
  then have "starts_visible sample_memory_id" unfolding d by (rule starts_visible_append)
  then show "\<not> blank sample_memory_id" by (rule starts_visible_not_blank)
  show "sample_memory_id \<noteq> []" by (simp add: d)
qed

lemma sample_normalized_request: "normalizeRequest lx sample_query = Inr sample_query"
proof -
  have n: "trimSpace [] = []" by code_simp
  have d: "request_defaults sample_query = sample_query" by (simp add: request_defaults_def sample_query_def sample_context_def)
  have "check_request lx sample_query = None"
    using sample_memory_valid
    by (simp add: check_request_def check_selector_def n validAgent_retrieval_def validChannel_def)
  then show ?thesis by (simp add: normalizeRequest_def d Let_def)
qed

section \<open>The search\<close>

definition sample_now :: gotime where
  "sample_now = 62135596800000000000"

definition sample_search :: "string \<Rightarrow> string \<Rightarrow> string \<Rightarrow> search_env" where
  "sample_search a m h = \<lparr>sv_lexicon = sample_lexicon, sv_load = sample_load, sv_absolute = Some,
     sv_resolve = (\<lambda>p. Some \<lparr>rp_absolute = True, rp_parts = [p]\<rparr>), sv_evidence_root = ''e'',
     sv_repository = (\<lambda>_. RootDir (exported_tree a m h)), sv_now = sample_now, sv_random = Some ''r''\<rparr>"

lemma sample_search_fields [simp]:
  "sv_lexicon (sample_search a m h) = sample_lexicon" "sv_load (sample_search a m h) = sample_load"
  "sv_absolute (sample_search a m h) p = Some p" "sv_resolve (sample_search a m h) p = Some \<lparr>rp_absolute = True, rp_parts = [p]\<rparr>"
  "sv_evidence_root (sample_search a m h) = ''e''" "sv_repository (sample_search a m h) p = RootDir (exported_tree a m h)"
  "sv_now (sample_search a m h) = sample_now" "sv_random (sample_search a m h) = Some ''r''"
  by (simp_all add: sample_search_def)

definition sample_match :: memory_match where
  "sample_match = make_match sample_portable 1 [] 1 [''exact_memory_id'', ''scope_global'']"

lemma sample_match_fields:
  "mm_bytes sample_match = 8" "mm_tokens sample_match = 2" "mm_text sample_match = ''use tabs''"
  "mm_reference sample_match = \<lparr>mr_memory_id = sample_memory_id, mr_revision_id = pv_revision_id sample_portable\<rparr>"
  "mm_kind sample_match = KindConstraint" "mm_scope_kind sample_match = ScopeGlobal"
proof -
  have "estimateTokens ''use tabs'' = 2" by code_simp
  then show "mm_bytes sample_match = 8" "mm_tokens sample_match = 2" "mm_text sample_match = ''use tabs''"
    "mm_reference sample_match = \<lparr>mr_memory_id = sample_memory_id, mr_revision_id = pv_revision_id sample_portable\<rparr>"
    "mm_kind sample_match = KindConstraint" "mm_scope_kind sample_match = ScopeGlobal"
    by (simp_all add: sample_match_def make_match_def sample_portable_fields)
qed

lemma sample_searched:
  assumes "LoadActiveRevisions sample_load ''m'' (RootDir (exported_tree a m h)) = ([sample_portable], report)" and "pt_issues report = []"
  shows "selected_matches (search_result (sample_search a m h) ''m'' i sample_query) = [sample_match]"
    and "rt_status (search_result (sample_search a m h) ''m'' i sample_query) = ''completed''"
    and "rt_receipt_id (search_result (sample_search a m h) ''m'' i sample_query) = i"
proof -
  have b: "\<not> blank ''m''" by code_simp
  have sep: "ensureSeparateRoots (\<lambda>p. Some \<lparr>rp_absolute = True, rp_parts = [p]\<rparr>) ''e'' ''m'' = None"
    by code_simp
  have sep': "ensureSeparateRoots (sv_resolve (sample_search a m h)) ''e'' ''m'' = None"
    using sep by (simp add: sample_search_def)
  have s: "scopeApplies sample_portable sample_context" by (simp add: scopeApplies_def scopeValueApplies_def sample_portable_fields)
  have m: "make_match sample_portable 1 [] (scopeSpecificity (pv_scope_kind sample_portable))
      [''exact_memory_id'', ''scope_'' @ pv_scope_kind sample_portable] = sample_match"
    by (simp add: sample_match_def sample_portable_fields scopeSpecificity_def)
  have rank: "rankExactMemory [sample_portable] sample_query t = t\<lparr>rt_selected := Some (selected_matches t @ [sample_match]),
      rt_selected_bytes := 8, rt_selected_tokens := 2\<rparr>" for t
    unfolding rankExactMemory.simps Let_def m using sample_portable_fields(2) sample_match_fields(1,2) by simp
  let ?r = "search_result (sample_search a m h) ''m'' i sample_query"
  have f: "filter (\<lambda>r. scopeApplies r (se_context sample_query)) [sample_portable] = [sample_portable]" using s by simp
  let ?t = "(initial_result i sample_query)\<lparr>rt_active := pt_active report, rt_repository_state := repositoryStateDigest [sample_portable]\<rparr>"
  define t where "t = (exclude (\<lambda>x. x\<lparr>xc_scope_mismatch := xc_scope_mismatch x +
      (int (length [sample_portable]) - int (length [sample_portable]))\<rparr>) ?t)\<lparr>rt_applicable := int (length [sample_portable])\<rparr>"
  have "?r = rankRevisions sample_lexicon [sample_portable] sample_query ?t"
    by (simp add: search_result_def sep' assms)
  also have "\<dots> = rankExactMemory [sample_portable] sample_query t"
    unfolding rankRevisions_def Let_def f t_def [symmetric] using sample_memory_valid(3) by simp
  finally have r: "?r = t\<lparr>rt_selected := Some (selected_matches t @ [sample_match]), rt_selected_bytes := 8, rt_selected_tokens := 2\<rparr>"
    by (simp only: rank)
  have "selected_matches t = []" "rt_status t = ''completed''" "rt_receipt_id t = i"
    by (simp_all add: t_def exclude_def initial_result_def selected_matches_def)
  then show "selected_matches ?r = [sample_match]" "rt_status ?r = ''completed''" "rt_receipt_id ?r = i"
    by (simp_all add: r selected_matches_def)
qed

section \<open>The rendering\<close>

lemma flushASCII_le: "flushASCII run \<le> run"
  unfolding flushASCII_def by presburger

lemma count_tokens_le: "count_tokens c run rs \<le> c + run + 2 * length rs"
proof (induction c run rs rule: count_tokens.induct)
  case (2 c run r rs)
  then show ?case using flushASCII_le [of run] by (auto simp: Let_def)
qed (simp add: flushASCII_le)

lemma length_runes: "length (runes s) \<le> length s"
proof (induction s rule: runes.induct)
  case (1 s)
  consider "s = []" | "s \<noteq> []" "utf8_len s = 0" | "s \<noteq> []" "utf8_len s \<noteq> 0" by blast
  then show ?case
  proof cases
    case 1
    then show ?thesis by (simp add: runes.simps)
  next
    case 2
    then have "length (runes (tl s)) \<le> length (tl s)" using 1(1) by simp
    moreover have "runes s = runeError # runes (tl s)" using 2 by (subst runes.simps) simp
    ultimately show ?thesis using 2(1) by (cases s) simp_all
  next
    case 3
    then have "length (runes (drop (utf8_len s) s)) \<le> length s - utf8_len s" using 1(2) by simp
    moreover have "runes s = take (utf8_len s) s # runes (drop (utf8_len s) s)" using 3 by (subst runes.simps) (simp add: Let_def)
    ultimately show ?thesis using 3(2) utf8_len_le [of s] by simp
  qed
qed

lemma estimateTokens_le: "estimateTokens s \<le> 2 * int (length s)"
  using count_tokens_le [of 0 0 "runes s"] length_runes [of s]
  by (cases s) (auto simp: estimateTokens_def Let_def)

lemma quote_chars_plain: "list_all plain_char s \<Longrightarrow> quote_chars lx s = s"
proof (induction s)
  case (Cons c s)
  then have u: "utf8_len (c # s) = 1" by (auto simp: plain_char_def byte_in_def)
  have "c \<noteq> CHR 0x7F" using Cons.prems by (auto simp: plain_char_def byte_in_def)
  then have "quote_rune lx [c] = [c]"
    using Cons.prems by (auto simp: plain_char_def byte_in_def quote_rune_def Let_def)
  then show ?case using Cons u by (subst quote_chars.simps) (simp add: Let_def)
qed (simp add: quote_chars.simps)

lemma length_quote: "list_all plain_char s \<Longrightarrow> length (quote lx s) = length s + 2"
  by (simp add: quote_def quote_chars_plain)

definition sample_receipt_id :: string where
  "sample_receipt_id = ''retrieval-'' @ NewEventID sample_now ''r''"

definition sample_delivery_id :: string where
  "sample_delivery_id = ''injection-'' @ NewEventID sample_now ''r''"

lemma sample_ids_plain: "list_all plain_char sample_receipt_id" "length sample_receipt_id = 29"
  by code_simp+

lemma prefixed_hash_plain:
  "list_all plain_char p \<Longrightarrow> list_all plain_char (p @ sha256_hex d) \<and> length (p @ sha256_hex d) = length p + 64"
  using plain_hex [OF validSHA256_sha256_hex [of d]] validSHA256_sha256_hex [of d] by (simp add: validSHA256_iff)

lemma sample_reference_plain:
  "list_all plain_char sample_memory_id" "length sample_memory_id = 71"
  "list_all plain_char (pv_revision_id sample_portable)" "length (pv_revision_id sample_portable) = 82"
proof -
  have p: "list_all plain_char ''memory-''" "list_all plain_char ''portable-revision-''" by code_simp+
  obtain d e where "sample_memory_id = ''memory-'' @ sha256_hex d" "pv_revision_id sample_portable = ''portable-revision-'' @ sha256_hex e"
    using sample_memory_hash sample_portable_id(2) by blast
  then show "list_all plain_char sample_memory_id" "length sample_memory_id = 71"
    "list_all plain_char (pv_revision_id sample_portable)" "length (pv_revision_id sample_portable) = 82"
    using prefixed_hash_plain [OF p(1), of d] prefixed_hash_plain [OF p(2), of e] by simp_all
qed

lemma sample_lengths:
  "length (context_header lx sample_receipt_id) < 500" "length (memory_block lx sample_match) < 500" "length context_trailer < 500"
proof -
  have p: "list_all plain_char ContextSchemaVersion" "list_all plain_char ScopeGlobal" "list_all plain_char KindConstraint"
    by code_simp+
  show "length (context_header lx sample_receipt_id) < 500"
    using length_quote [OF p(1)] length_quote [OF sample_ids_plain(1)] sample_ids_plain(2) by (simp add: context_header_def)
  have "length (escapeMemoryText ''use tabs'') = 8" by code_simp
  then show "length (memory_block lx sample_match) < 500"
    using length_quote [OF p(2)] length_quote [OF p(3)] length_quote [OF sample_reference_plain(1)]
      length_quote [OF sample_reference_plain(3)] sample_reference_plain(2,4)
    by (simp add: memory_block_def sample_match_fields)
  show "length context_trailer < 500" by (simp add: context_trailer_def)
qed

lemma small_within: "length s < 2000 \<Longrightarrow> within_budgets sample_query s"
  using estimateTokens_le [of s] by (simp add: within_budgets_def)

lemma sample_context_rendered:
  assumes "selected_matches t = [sample_match]" and "rt_receipt_id t = sample_receipt_id"
  shows "renderBoundedContext lx t sample_query =
    (context_header lx sample_receipt_id @ memory_block lx sample_match @ context_trailer, [mm_reference sample_match])"
proof -
  note l = sample_lengths(1,2) [of lx] sample_lengths(3)
  have "within_budgets sample_query (context_header lx sample_receipt_id @ context_trailer)"
    "within_budgets sample_query (context_header lx sample_receipt_id @ memory_block lx sample_match @ context_trailer)"
    using l by (auto intro!: small_within)
  then show ?thesis by (simp add: renderBoundedContext_def Let_def assms render_match_def)
qed

section \<open>The ledger\<close>

lemma receipt_event_valid:
  assumes "kind = KindRetrieval \<or> kind = KindInjection \<or> kind = KindAdoption" and "i \<noteq> []" and "time \<noteq> 0"
    and "rx_agent x \<noteq> []" and "device \<noteq> []" and "hash = [] \<or> validSHA256 hash"
  shows "validateEvent (receipt_event kind i time device x hash parents data) = None"
proof -
  have k: "validEventKindForVersion SchemaVersion kind" "kind \<noteq> []" "kind \<noteq> KindReasoning"
    using assms(1) by (auto simp: validEventKindForVersion_def baseKinds_def)
  have t: "threadIDForContext x \<noteq> []" by (auto simp: threadIDForContext_def dest: arg_cong [where f = trimSpace])
  show ?thesis
    using k t assms(2-6)
    by (simp add: validateEvent_def receipt_event_def Let_def validateReasoning_def)
qed

lemma receipt_event_payload:
  "Option.bind (ev_payload (receipt_event kind i time device x hash parents data)) pl_blob = None"
  by (simp add: receipt_event_def InlinePayload_def)

text \<open>An environment in which nothing fails and nobody else writes.\<close>

definition sample_io :: "(string \<Rightarrow> ledger_record option) \<Rightarrow> evidence_store evidence_io" where
  "sample_io dec = \<lparr>io_decode = dec, io_filesystem = sample_fs,
     io_tries = (\<lambda>_. \<lparr>at_faults = no_open_faults, at_outcome = WriteOk, at_close = (True, True), at_wait = id\<rparr>)\<rparr>"

lemma sample_io_fields [simp]: "io_decode (sample_io dec) = dec" "at_wait (io_tries (sample_io dec) n) = id"
  by (simp_all add: sample_io_def)

lemma sample_waited: "waited (sample_io dec) s u \<longleftrightarrow> u = s"
proof
  show "waited (sample_io dec) s u \<Longrightarrow> u = s" by (induction rule: waited.induct) simp_all
qed (simp add: waited_start)

lemma sample_others: "others_append lx rd (sample_io dec) i s"
  by (simp add: others_append_def sample_waited)

lemma NewAppender_root:
  "NewAppender dec fs faults s = (s', x) \<Longrightarrow> st_root s' = st_root s \<and> st_device_id s' = st_device_id s"
  by (auto simp: NewAppender_def acquireWriterLock_def releaseWriterLock_def openAppenderAt_def
      split: prod.splits sum.splits option.splits if_splits)

lemma AppendBatch_root:
  "AppendBatch outcome es a s = (s', x) \<Longrightarrow> st_root s' = st_root s \<and> st_device_id s' = st_device_id s"
  by (auto simp: AppendBatch_def write_events_def split: option.splits if_splits write_outcome.splits)

lemma CloseAppender_root:
  "CloseAppender f r a s = (s', x) \<Longrightarrow> st_root s' = st_root s \<and> st_device_id s' = st_device_id s"
  by (auto simp: CloseAppender_def releaseWriterLock_def split: if_splits)

lemma AppendBatchStore_root:
  assumes "AppendBatchStore dec fs faults outcome close es s = (s', Inr rs)"
  shows "st_root s' = st_root s \<and> st_device_id s' = st_device_id s"
proof -
  obtain a s1 a2 s2 a3 where "NewAppender dec fs faults s = (s1, Inr a)" "AppendBatch outcome es a s1 = (s2, a2, Inr rs)"
    "CloseAppender (fst close) (snd close) a2 s2 = (s', a3, None)"
    using AppendBatchStore_success [OF assms] .
  then show ?thesis using NewAppender_root AppendBatch_root CloseAppender_root by metis
qed

lemma AppendOne_built:
  assumes "AppendBatchStore dec fs faults outcome close [e] s = (s', Inr rs)" and "lastRecordHash dec (st_events s) = Inr p"
  shows "\<exists>r. makeRecord e p = Some r \<and> rs = [r]"
proof -
  obtain a s1 a2 s2 a3 where n: "NewAppender dec fs faults s = (s1, Inr a)" and b: "AppendBatch outcome [e] a s1 = (s2, a2, Inr rs)"
    and "CloseAppender (fst close) (snd close) a2 s2 = (s', a3, None)"
    using AppendBatchStore_success [OF assms(1)] .
  then show ?thesis
    using NewAppender_ok [OF n] assms(2) b
    by (auto simp: AppendBatch_def split: if_splits option.splits write_outcome.splits)
qed

text \<open>One receipt after another, from an unlocked store under \<open>evidence\<close>.\<close>

definition sample_open :: "(string \<Rightarrow> ledger_record option) \<Rightarrow> ledger_record list \<Rightarrow> evidence_store \<Rightarrow> bool" where
  "sample_open dec rs s \<longleftrightarrow> st_root s = [''evidence''] \<and> st_device_id s = ''device-1'' \<and> \<not> st_writer_lock s \<and>
     decoded_records dec (st_events s) = rs \<and> lastRecordHash dec (st_events s) = Inr (last_hash [] rs)"

lemma sample_appends:
  assumes "sample_open dec rs s" and "marshal receipt = Some data" and "validateEvent (mk data) = None"
    and "json_time (ev_observed_at (mk data)) \<noteq> None" and "json_time (ev_recorded_at (mk data)) \<noteq> None"
    and "Option.bind (ev_payload (mk data)) pl_blob = None" and "makeRecord (mk data) (last_hash [] rs) = Some r" and "survives dec r"
  shows "\<exists>s'. append_receipt (sample_io dec) receipt mk s = (s', None) \<and> sample_open dec (rs @ [r]) s'"
proof -
  note o = assms(1) [unfolded sample_open_def]
  obtain s' rs' where run: "AppendBatchStore dec sample_fs no_open_faults WriteOk (True, True) [mk data] s = (s', Inr rs')"
    using AppendBatchStore_accepts [of sample_fs s dec "last_hash [] rs" "[mk data]"] sample_guard o assms(3-6) by auto
  have rs': "rs' = [r]" using AppendOne_built [OF run] o assms(7) by auto
  have "batch_survives dec [mk data] p" if "lastRecordHash dec (st_events s) = Inr p" for p
    using that o assms(7,8) by (auto simp: batch_survives_def split: option.splits)
  note ok = AppendBatchStore_ok [OF run this]
  have "[0..<6] = [0, 1, 2, 3, 4, 5 :: nat]" by (simp add: upt_rec)
  then have "appendEvidenceWithRetry (sample_io dec) (mk data) s = (s', None)"
    by (simp add: appendEvidenceWithRetry_def sample_io_def AppendOne_def run)
  then have "append_receipt (sample_io dec) receipt mk s = (s', None)" using assms(2) by (simp add: append_receipt_def)
  moreover have "last_hash [] (rs @ [r]) = lr_hash r" by (simp add: last_hash_def)
  ultimately show ?thesis using ok AppendBatchStore_root [OF run] o rs' by (auto simp: sample_open_def last_hash_def)
qed

section \<open>Two records that a decoder tells apart\<close>

lemma space_free:
  assumes "list_all (\<lambda>e. e \<noteq> [] \<and> hd e \<noteq> c) es"
  shows "space_prefix es (c # s) = 0"
proof (rule ccontr)
  assume "space_prefix es (c # s) \<noteq> 0"
  then obtain e where "e \<in> set es" "hasPrefix (c # s) e" using space_prefix_cases [of es "c # s"] by auto
  then have e: "e \<noteq> []" "hd e \<noteq> c" and p: "hasPrefix (c # s) e" using assms by (simp_all add: list_all_iff)
  from p obtain t where "c # s = e @ t" by (elim hasPrefixE)
  then show False using e by (metis hd_append2 list.sel(1))
qed

lemma payload_of_object: "line_payload (CHR ''{'' # x @ [CHR ''}'']) = CHR ''{'' # x @ [CHR ''}'']"
proof -
  have "list_all (\<lambda>e. e \<noteq> [] \<and> hd e \<noteq> CHR ''{'') space_encodings" by code_simp
  from space_free [OF this] have left: "trimLeftSpace (CHR ''{'' # y) = CHR ''{'' # y" for y
    by (simp add: trimLeftSpace_def trim_with.simps)
  have "list_all (\<lambda>e. e \<noteq> [] \<and> hd e \<noteq> CHR ''}'') (map rev space_encodings)" by code_simp
  from space_free [OF this] have stop: "trim_with (map rev space_encodings) (CHR ''}'' # y) = CHR ''}'' # y" for y
    by (subst trim_with.simps) (simp add: Let_def)
  have "space_prefix (map rev space_encodings) (newline # y) = 1" for y
    by (simp add: space_encodings_def hasPrefix_def newline_def)
  then have "trim_with (map rev space_encodings) (newline # CHR ''}'' # y) = CHR ''}'' # y" for y
    by (subst trim_with.simps) (simp add: Let_def stop)
  then show ?thesis by (simp add: line_payload_def trimSpace_def left trimRightSpace_def)
qed

lemma record_line:
  assumes "makeRecord e p = Some r" and "marshal (ledger_record_json r) = Some l" and "\<forall>c \<in> set p. lower_hex c"
  shows "\<exists>x h. length h = 64 \<and> l = CHR ''{'' # (x @ CHR 0x22 # p @ ''\",\"record_hash\":\"'' @ h) @ [CHR 0x22, CHR ''}'']"
proof -
  obtain d where r: "lr_previous r = p" "lr_hash r = sha256_hex d" using assms(1) by (auto simp: makeRecord_def)
  have h: "\<forall>c \<in> set (sha256_hex d). lower_hex c" "length (sha256_hex d) = 64"
    using validSHA256_sha256_hex [of d] by (simp_all add: validSHA256_iff)
  obtain e' where e': "marshal (event_json (lr_event r)) = Some e'"
    using assms(2) ledger_record_json_None [of r] by (cases "marshal (event_json (lr_event r))") auto
  have k: "json_string ''previous_record_hash'' = ''\"previous_record_hash\"''" "json_string ''record_hash'' = ''\"record_hash\"''"
    by code_simp+
  have "l = CHR ''{'' # ((json_string ''event'' @ CHR '':'' # e' @ CHR '','' # ''\"previous_record_hash\":'') @
      CHR 0x22 # p @ ''\",\"record_hash\":\"'' @ sha256_hex d) @ [CHR 0x22, CHR ''}'']"
    using assms(2) by (simp add: ledger_record_json_def e' k r json_string_def [of p] json_string_def [of "sha256_hex d"]
        json_chars_lower_hex assms(3) h(1))
  then show ?thesis using h(2) by blast
qed

lemma lines_differ:
  assumes "makeRecord e1 [] = Some r1" and "marshal (ledger_record_json r1) = Some l1"
    and "makeRecord e2 p = Some r2" and "marshal (ledger_record_json r2) = Some l2"
    and "\<forall>c \<in> set p. lower_hex c" and "p \<noteq> []"
  shows "line_payload l1 \<noteq> line_payload l2"
proof
  obtain x h where l1: "length h = 64" "l1 = CHR ''{'' # (x @ CHR 0x22 # [] @ ''\",\"record_hash\":\"'' @ h) @ [CHR 0x22, CHR ''}'']"
    using record_line [OF assms(1,2)] by auto
  obtain y k where l2: "length k = 64" "l2 = CHR ''{'' # (y @ CHR 0x22 # p @ ''\",\"record_hash\":\"'' @ k) @ [CHR 0x22, CHR ''}'']"
    using record_line [OF assms(3-5)] by auto
  have obj: "line_payload l1 = l1" "line_payload l2 = l2"
    using payload_of_object [of "(x @ CHR 0x22 # [] @ ''\",\"record_hash\":\"'' @ h) @ [CHR 0x22]"]
      payload_of_object [of "(y @ CHR 0x22 # p @ ''\",\"record_hash\":\"'' @ k) @ [CHR 0x22]"] l1(2) l2(2) by simp_all
  assume "line_payload l1 = line_payload l2"
  then have eq: "(x @ [CHR 0x22]) @ ''\",\"record_hash\":\"'' @ h = (y @ CHR 0x22 # p) @ ''\",\"record_hash\":\"'' @ k"
    using l1(2) l2(2) obj by simp
  have len: "length (''\",\"record_hash\":\"'' @ h) = length (''\",\"record_hash\":\"'' @ k)" using l1(1) l2(1) by simp
  from append_eq_append_conv [OF disjI2 [OF len], THEN iffD1, OF eq] have "x @ [CHR 0x22] = y @ CHR 0x22 # p" by (rule conjunct1)
  then have "last (CHR 0x22 # p) = CHR 0x22" by (metis last_appendR last_snoc list.distinct(1))
  then have "CHR 0x22 \<in> set p" using assms(6) last_in_set by fastforce
  then show False using assms(5) by (auto simp: lower_hex_def)
qed

definition two_records :: "ledger_record \<Rightarrow> ledger_record \<Rightarrow> string \<Rightarrow> ledger_record option" where
  "two_records r1 r2 payload =
     Some (if payload = line_payload (the (marshal (ledger_record_json r1))) then r1 else r2)"

lemma two_records_survive:
  assumes "makeRecord e1 [] = Some r1" and "makeRecord e2 (lr_hash r1) = Some r2"
    and "marshal (event_json e1) \<noteq> None" and "marshal (event_json e2) \<noteq> None"
  shows "survives (two_records r1 r2) r1" and "survives (two_records r1 r2) r2"
proof -
  have e: "lr_event r1 = e1" "lr_event r2 = e2" using assms(1,2) by (auto simp: makeRecord_def)
  obtain l1 l2 where l: "marshal (ledger_record_json r1) = Some l1" "marshal (ledger_record_json r2) = Some l2"
    using ledger_record_json_None [of r1] ledger_record_json_None [of r2] assms(3,4) e by auto
  obtain d where d: "lr_hash r1 = sha256_hex d" using assms(1) by (auto simp: makeRecord_def)
  have "\<forall>c \<in> set (lr_hash r1). lower_hex c" "lr_hash r1 \<noteq> []"
    using validSHA256_sha256_hex [of d] by (auto simp: validSHA256_iff d)
  from lines_differ [OF assms(1) l(1) assms(2) l(2) this]
  show "survives (two_records r1 r2) r1" and "survives (two_records r1 r2) r2"
    by (simp_all add: survives_def two_records_def l)
qed

section \<open>The encodings\<close>

lemma marshal_atoms [simp]:
  "(marshal JNull = None) = False" "(marshal (JStr s) = None) = False" "(marshal (JInt i) = None) = False"
  by simp_all

lemma json_slice_str [simp]: "(marshal (json_slice JStr v) = None) = False"
  by (cases v) (simp_all add: json_slice_def marshal_JArr_None del: marshal.simps)

lemma retrieval_request_json_None [simp]: "(marshal (retrieval_request_json q) = None) = False"
  by (simp add: retrieval_request_json_def retrieval_context_json_def marshal_JObj_None bex_Un del: marshal.simps)

lemma match_json_None [simp]: "(marshal (memory_match_json m) = None) = False"
  by (simp add: memory_match_json_def memory_reference_fields_def marshal_JObj_None bex_Un del: marshal.simps)

lemma result_json_None [simp]: "(marshal (retrieval_result_json t) = None) = False"
proof -
  have "(marshal (json_slice memory_match_json v) = None) = False" for v
    by (cases v) (simp_all add: json_slice_def marshal_JArr_None del: marshal.simps)
  then show ?thesis
    by (simp add: retrieval_result_json_def exclusion_counts_json_def marshal_JObj_None bex_Un del: marshal.simps)
qed

lemma receipt_json_None: "marshal (retrieval_receipt_json c) = None \<longleftrightarrow> json_time (tc_recorded_at c) = None"
  by (simp add: retrieval_receipt_json_def marshal_JObj_None del: marshal.simps(1-4,6-))

lemma injection_json_None: "marshal (injection_receipt_json i) = None \<longleftrightarrow> json_time (ij_recorded_at i) = None"
  by (simp add: injection_receipt_json_def memory_reference_fields_def marshal_None del: marshal.simps(1-4,6-))

section \<open>The runs\<close>

abbreviation sample_found :: "string \<Rightarrow> string \<Rightarrow> string \<Rightarrow> retrieval_result" where
  "sample_found a m h \<equiv> search_result (sample_search a m h) ''m'' sample_receipt_id sample_query"

definition sample_injection :: "string \<Rightarrow> string \<Rightarrow> string \<Rightarrow> injection_receipt" where
  "sample_injection a m h = make_injection sample_now sample_delivery_id (sample_found a m h) sample_query
     (context_header sample_lexicon sample_receipt_id @ memory_block sample_lexicon sample_match @ context_trailer)
     [mm_reference sample_match]"

definition sample_search_event :: "string \<Rightarrow> string \<Rightarrow> string \<Rightarrow> event" where
  "sample_search_event a m h = search_event (sample_search a m h) ''device-1'' ''m'' sample_receipt_id sample_query"

definition sample_injection_event :: "string \<Rightarrow> string \<Rightarrow> string \<Rightarrow> event" where
  "sample_injection_event a m h = injection_event ''device-1'' (sample_injection a m h) sample_context"

definition sample_first :: "string \<Rightarrow> string \<Rightarrow> string \<Rightarrow> ledger_record" where
  "sample_first a m h = the (makeRecord (sample_search_event a m h) [])"

definition sample_second :: "string \<Rightarrow> string \<Rightarrow> string \<Rightarrow> ledger_record" where
  "sample_second a m h = the (makeRecord (sample_injection_event a m h) (lr_hash (sample_first a m h)))"

definition sample_decoder :: "string \<Rightarrow> string \<Rightarrow> string \<Rightarrow> string \<Rightarrow> ledger_record option" where
  "sample_decoder a m h = two_records (sample_first a m h) (sample_second a m h)"

definition sample_texts :: "string \<Rightarrow> string \<Rightarrow> string \<Rightarrow> receipt_texts" where
  "sample_texts a m h = \<lparr>rd_retrieval = (\<lambda>_. Inr (search_receipt (sample_search a m h) ''m'' sample_receipt_id sample_query)),
     rd_injection = (\<lambda>_. Inr (sample_injection a m h)), rd_adoption = (\<lambda>_. Inl ''none''),
     rd_visit_text = (\<lambda>_. ''visit''), rd_evidence_text = (\<lambda>_. ''evidence'')\<rparr>"

lemma sample_clock: "json_time sample_now \<noteq> None" "sample_now \<noteq> 0"
  by code_simp+

lemma sample_event_fields:
  "ev_observed_at (sample_search_event a m h) = sample_now" "ev_recorded_at (sample_search_event a m h) = sample_now"
  "ev_observed_at (sample_injection_event a m h) = sample_now" "ev_recorded_at (sample_injection_event a m h) = sample_now"
  by (simp_all add: sample_search_event_def search_event_def sample_injection_event_def injection_event_def sample_injection_def)

lemma sample_records:
  "makeRecord (sample_search_event a m h) [] = Some (sample_first a m h)"
  "makeRecord (sample_injection_event a m h) (lr_hash (sample_first a m h)) = Some (sample_second a m h)"
  "survives (sample_decoder a m h) (sample_first a m h)" "survives (sample_decoder a m h) (sample_second a m h)"
proof -
  have j: "marshal (event_json (sample_search_event a m h)) \<noteq> None" "marshal (event_json (sample_injection_event a m h)) \<noteq> None"
    using sample_clock by (simp_all add: event_json_None sample_event_fields)
  show r: "makeRecord (sample_search_event a m h) [] = Some (sample_first a m h)"
    "makeRecord (sample_injection_event a m h) (lr_hash (sample_first a m h)) = Some (sample_second a m h)"
    using j by (auto simp: sample_first_def sample_second_def makeRecord_def record_input_def)
  show "survives (sample_decoder a m h) (sample_first a m h)" "survives (sample_decoder a m h) (sample_second a m h)"
    unfolding sample_decoder_def by (rule two_records_survive [OF r j])+
qed

lemma sample_store_empty:
  "lastRecordHash dec (st_events sample_store) = Inr []" "decoded_records dec (st_events sample_store) = []"
  "st_device_id sample_store = ''device-1''" "st_root sample_store = [''evidence'']" "\<not> st_writer_lock sample_store"
  by (simp_all add: sample_store_def lastRecordHash_def replay_log_def decoded_records_def file_bytes_def List.map_filter_simps)

lemma sample_ready: "ready lx rd dec i sample_store"
  by (simp add: ready_def event_ids_def sample_store_empty Verify_retrieval_clean graph_of_def clean_def empty_graph_def)

lemma sample_stores:
  "lastRecordHash (sample_decoder a m h) (st_events s) = Inr [] \<Longrightarrow> stores (sample_io (sample_decoder a m h)) (sample_search_event a m h) s"
  "lastRecordHash (sample_decoder a m h) (st_events s) = Inr (lr_hash (sample_first a m h)) \<Longrightarrow>
     stores (sample_io (sample_decoder a m h)) (sample_injection_event a m h) s"
  using sample_records [of a m h] by (auto simp: stores_def sample_waited)

text \<open>The search and the delivery.\<close>

lemma sample_store_open: "sample_open dec [] sample_store"
  by (simp add: sample_open_def sample_store_empty last_hash_def)

lemma sample_search_run:
  assumes "LoadActiveRevisions sample_load ''m'' (RootDir (exported_tree a m h)) = ([sample_portable], report)" and "pt_issues report = []"
  shows "\<exists>s'. Search (sample_search a m h) (sample_io (sample_decoder a m h)) ''m'' sample_query sample_store = (s', Inr (sample_found a m h)) \<and>
    sample_open (sample_decoder a m h) [sample_first a m h] s'"
proof -
  note found = sample_searched [OF assms, of sample_receipt_id]
  let ?c = "search_receipt (sample_search a m h) ''m'' sample_receipt_id sample_query" and ?dec = "sample_decoder a m h"
  have id: "tc_receipt_id ?c = sample_receipt_id" "tc_recorded_at ?c = sample_now" "tc_portable_root_sha256 ?c = sha256_hex ''m''"
    by (simp_all add: search_receipt_def found(3))
  obtain data where data: "marshal (retrieval_receipt_json ?c) = Some data"
    using receipt_json_None [of ?c] sample_clock(1) id(2) by auto
  let ?mk = "receipt_event KindRetrieval sample_receipt_id sample_now ''device-1'' sample_context (sha256_hex ''m'') []"
  have ev: "?mk data = sample_search_event a m h" by (simp add: sample_search_event_def search_event_def data)
  have valid: "validateEvent (?mk data) = None"
    by (rule receipt_event_valid) (simp_all add: sample_receipt_id_def sample_clock(2))
  have rec: "makeRecord (?mk data) (last_hash [] []) = Some (sample_first a m h)"
    using sample_records(1) by (simp add: ev last_hash_def)
  obtain s' where run: "append_receipt (sample_io ?dec) (retrieval_receipt_json ?c) ?mk sample_store = (s', None)"
    "sample_open ?dec [sample_first a m h] s'"
    using sample_appends [where mk = ?mk, OF sample_store_open data valid _ _ receipt_event_payload rec sample_records(3)] sample_clock(1)
    by auto
  then have app: "appendReceiptEvent (sample_io ?dec) ?c sample_context sample_store = (s', None)"
    by (simp add: appendReceiptEvent_def id sample_store_empty(3))
  obtain bytes where b: "marshal (retrieval_request_json sample_query) = Some bytes"
    using retrieval_request_json_None [of sample_query] by (cases "marshal (retrieval_request_json sample_query)") simp_all
  have c: "make_receipt sample_now ''m'' sample_query bytes (sample_found a m h) = ?c" by (simp add: search_receipt_def b)
  have m: "\<not> blank ''m''" by code_simp
  have "Search (sample_search a m h) (sample_io ?dec) ''m'' sample_query sample_store = (s', Inr (sample_found a m h))"
    unfolding Search_def sample_normalized_request sum.case sample_search_fields option.case if_not_P [OF m] sample_receipt_id_def [symmetric]
      Let_def b c sample_query_fields app prod.case found(2) by simp
  then show ?thesis using run(2) by blast
qed

definition sample_delivered :: "string \<Rightarrow> string \<Rightarrow> string \<Rightarrow> context_result" where
  "sample_delivered a m h = delivered_context (sample_injection a m h) (bare_context (sample_found a m h))"

lemma sample_delivery_run:
  assumes "LoadActiveRevisions sample_load ''m'' (RootDir (exported_tree a m h)) = ([sample_portable], report)" and "pt_issues report = []"
  shows "\<exists>s'. BuildContext (sample_search a m h) (sample_io (sample_decoder a m h)) (sample_io (sample_decoder a m h)) sample_now (Some ''r'')
      ''m'' sample_query sample_store = (s', Inr (sample_delivered a m h))"
proof -
  note found = sample_searched [OF assms, of sample_receipt_id]
  let ?i = "sample_injection a m h" and ?dec = "sample_decoder a m h"
  obtain s1 where run1: "Search (sample_search a m h) (sample_io ?dec) ''m'' sample_query sample_store = (s1, Inr (sample_found a m h))"
    "sample_open ?dec [sample_first a m h] s1"
    using sample_search_run [OF assms] by blast
  have id: "ij_injection_id ?i = sample_delivery_id" "ij_recorded_at ?i = sample_now" "ij_retrieval_id ?i = sample_receipt_id"
    by (simp_all add: sample_injection_def found(3))
  obtain data where data: "marshal (injection_receipt_json ?i) = Some data"
    using injection_json_None [of ?i] sample_clock(1) id(2) by auto
  let ?mk = "receipt_event KindInjection sample_delivery_id sample_now ''device-1'' sample_context [] [sample_receipt_id]"
  have ev: "?mk data = sample_injection_event a m h" by (simp add: sample_injection_event_def injection_event_def data id)
  have valid: "validateEvent (?mk data) = None"
    by (rule receipt_event_valid) (simp_all add: sample_delivery_id_def sample_clock(2))
  have rec: "makeRecord (?mk data) (last_hash [] [sample_first a m h]) = Some (sample_second a m h)"
    using sample_records(2) by (simp add: ev last_hash_def)
  obtain s' where "append_receipt (sample_io ?dec) (injection_receipt_json ?i) ?mk s1 = (s', None)"
    using sample_appends [where mk = ?mk, OF run1(2) data valid _ _ receipt_event_payload rec sample_records(4)] sample_clock(1)
    by auto
  moreover have "st_device_id s1 = ''device-1''" using run1(2) by (simp add: sample_open_def)
  ultimately have app: "appendInjectionEvent (sample_io ?dec) ?i sample_context s1 = (s', None)"
    by (simp add: appendInjectionEvent_def id)
  let ?content = "context_header sample_lexicon sample_receipt_id @ memory_block sample_lexicon sample_match @ context_trailer"
  have ren: "renderBoundedContext sample_lexicon (sample_found a m h) sample_query = (?content, [mm_reference sample_match])"
    by (rule sample_context_rendered [OF found(1,3)])
  have inj: "make_injection sample_now (''injection-'' @ NewEventID sample_now ''r'') (sample_found a m h) sample_query ?content
      [mm_reference sample_match] = ?i"
    by (simp add: sample_injection_def sample_delivery_id_def)
  have "BuildContext (sample_search a m h) (sample_io ?dec) (sample_io ?dec) sample_now (Some ''r'') ''m'' sample_query sample_store =
      (s', Inr (sample_delivered a m h))"
    unfolding BuildContext_def sample_normalized_request sum.case sample_search_fields run1(1) prod.case ren
      if_not_P [OF context_header_not_empty] option.case inj Let_def sample_query_fields app sample_delivered_def ..
  then show ?thesis by blast
qed

lemma sample_delivered_fields:
  assumes "rt_receipt_id (sample_found a m h) = sample_receipt_id"
  shows "cx_content (sample_delivered a m h) \<noteq> []" "cx_retrieval (sample_delivered a m h) = sample_found a m h"
    and "cx_injection_id (sample_delivered a m h) = sample_delivery_id"
    and "context_injection sample_now sample_query (sample_delivered a m h) = sample_injection a m h"
  by (simp_all add: sample_delivered_def delivered_context_def bare_context_def sample_injection_def context_injection_def
      context_trailer_def)

end
