(* ===== verification/Retrieval_Claims.thy ===== *)
theory Retrieval_Claims
  imports Retrieval_Sample
begin

text \<open>
  The properties of retrieval: what a search may select, what a delivery may hold, that causality is found exactly,
  and that neither a search nor a delivery can leave the evidence ledger with receipts that do not verify.
\<close>

section \<open>The selection\<close>

text \<open>Property C10. A search that returns selects, in the order of the ranking and each memory at most once, revisions
  that are active in a repository that verified, apply in the context of the request and match it; at most the limit
  of them, whose texts together stay within the byte and the token budget; and it accounts for every active memory: as
  out of scope, or (for a query) as not matching, selected, or left out for one of the budgets or the limit.\<close>

theorem Search_bounded:
  assumes "Search env io portableRoot request s = (s', Inr t)" and "lexicon_ok (sv_lexicon env)"
  shows "\<exists>q path rs report. normalizeRequest (sv_lexicon env) request = Inr q \<and> sv_absolute env portableRoot = Some path \<and>
    LoadActiveRevisions (sv_load env) path (sv_repository env path) = (rs, report) \<and> pt_issues report = [] \<and>
    int (length (selected_matches t)) \<le> se_limit q \<and>
    (\<Sum>m \<leftarrow> selected_matches t. int (length (mm_text m))) \<le> se_byte_budget q \<and>
    (\<Sum>m \<leftarrow> selected_matches t. estimateTokens (mm_text m)) \<le> se_token_budget q \<and>
    sorted_wrt matchPrecedes (selected_matches t) \<and> distinct (map match_memory (selected_matches t)) \<and>
    (\<forall>m \<in> set (selected_matches t). validMatch (sv_lexicon env) q m \<and>
       (\<exists>r \<in> set rs. scopeApplies r (se_context q) \<and> match_from r m)) \<and>
    xc_scope_mismatch (rt_exclusions t) + rt_applicable t = int (length rs) \<and>
    (se_memory_id q = [] \<longrightarrow> rt_applicable t = xc_no_lexical_match (rt_exclusions t) + int (length (selected_matches t)) +
       xc_result_limit (rt_exclusions t) + xc_token_budget (rt_exclusions t) + xc_byte_budget (rt_exclusions t))"
proof -
  obtain q path random i where ran: "normalizeRequest (sv_lexicon env) request = Inr q" "sv_absolute env portableRoot = Some path"
    "t = search_result env path i q" "(Inr t :: search_error + retrieval_result) = (if rt_status t = ''blocked'' then Inl (RepositoryRejected t) else Inr t)"
    using Search_ran [OF assms(1) disjI1 [OF refl]] by metis
  have nb: "rt_status t \<noteq> ''blocked''" using ran(4) by (auto split: if_splits)
  show ?thesis
    using normalizeRequest_ok(1) [OF ran(1)] assms(2)
  proof (cases rule: search_result_cases [where root_path = path and i = i])
    case (blocked issues n)
    then show ?thesis using nb ran(3) by (simp add: blocked_result_def)
  next
    case (ranked rs report)
    then have r: "ranked_result (sv_lexicon env) rs q ((initial_result i q)
        \<lparr>rt_active := int (length rs), rt_repository_state := repositoryStateDigest rs\<rparr>) t" using ran(3) by simp
    have m: "matches_ok (sv_lexicon env) q rs (selected_matches t)" using r by (simp add: ranked_result_def)
    have sums: "map (\<lambda>m. int (length (mm_text m))) (selected_matches t) = map mm_bytes (selected_matches t)"
      "map (\<lambda>m. estimateTokens (mm_text m)) (selected_matches t) = map mm_tokens (selected_matches t)"
      using m by (auto simp: matches_ok_def validMatch_def)
    have "(\<Sum>m \<leftarrow> selected_matches t. int (length (mm_text m))) \<le> se_byte_budget q"
      "(\<Sum>m \<leftarrow> selected_matches t. estimateTokens (mm_text m)) \<le> se_token_budget q"
      unfolding sums using r by (simp_all add: ranked_result_def within_request_def)
    then show ?thesis
      using r m ran(1,2) ranked(1,2)
      by (intro exI [of _ q] exI [of _ path] exI [of _ rs] exI [of _ report])
        (auto simp: ranked_result_def within_request_def accounted_def matches_ok_def)
  qed
qed

theorem Search_bounded_witness:
  "\<exists>a m h s'. Search (sample_search a m h) (sample_io (sample_decoder a m h)) ''m'' sample_query sample_store = (s', Inr (sample_found a m h)) \<and>
     int (length (selected_matches (sample_found a m h))) \<le> 5 \<and> selected_matches (sample_found a m h) = [sample_match]"
proof -
  obtain a m h report where l: "LoadActiveRevisions sample_load ''m'' (RootDir (exported_tree a m h)) = ([sample_portable], report)"
    "pt_issues report = []" using sample_active by blast
  obtain s' where run: "Search (sample_search a m h) (sample_io (sample_decoder a m h)) ''m'' sample_query sample_store =
      (s', Inr (sample_found a m h))" using sample_search_run [OF l] by blast
  have "lexicon_ok (sv_lexicon (sample_search a m h))" by (simp add: sample_lexicon_ok)
  from Search_bounded [OF run this] have "int (length (selected_matches (sample_found a m h))) \<le> 5"
    by (auto simp: sample_normalized_request)
  then show ?thesis using run sample_searched(1) [OF l] by blast
qed

section \<open>The delivery\<close>

text \<open>Property C28. What is delivered to an agent is nothing, or the header, the blocks of some of the selected memories in
  their order, and the trailer; as a whole it stays within the byte and the token budget of the request, and the
  memories it names are those of its blocks. The text of a memory cannot end its block or begin another one, and can
  be read back from its escaped form.\<close>

theorem delivery_bounded:
  "(renderBoundedContext lx t q = ([], []) \<or>
    (\<exists>ms. ms \<noteq> [] \<and> subseq ms (selected_matches t) \<and>
      renderBoundedContext lx t q =
        (context_header lx (rt_receipt_id t) @ concat (map (memory_block lx) ms) @ context_trailer, map mm_reference ms) \<and>
      int (length (fst (renderBoundedContext lx t q))) \<le> se_byte_budget q \<and>
      estimateTokens (fst (renderBoundedContext lx t q)) \<le> se_token_budget q)) \<and>
   set (escapeMemoryText text) \<inter> {CHR 0x3C, CHR 0x3E} = {} \<and> inj escapeMemoryText"
proof -
  have "set (escape_byte c) \<inter> {CHR 0x3C, CHR 0x3E} = {}" for c by (simp add: escape_byte_def)
  then have "set (escapeMemoryText text) \<inter> {CHR 0x3C, CHR 0x3E} = {}" by (auto simp: escapeMemoryText_def)
  moreover have "escapeMemoryText x = escapeMemoryText y \<Longrightarrow> x = y" for x y
  proof (induction x arbitrary: y)
    case Nil
    then show ?case by (cases y) (auto simp: escapeMemoryText_def escape_byte_def split: if_splits)
  next
    case (Cons c x)
    then obtain d y' where y: "y = d # y'" by (cases y) (auto simp: escapeMemoryText_def escape_byte_def split: if_splits)
    have "escape_byte c @ escapeMemoryText x = escape_byte d @ escapeMemoryText y'"
      using Cons.prems by (simp add: y escapeMemoryText_def)
    then have "c = d \<and> escapeMemoryText x = escapeMemoryText y'" by (auto simp: escape_byte_def split: if_splits)
    then show ?case using Cons.IH y by simp
  qed
  ultimately show ?thesis using rendered [of lx t q] by (auto simp: inj_def within_budgets_def not_less)
qed

section \<open>Causality\<close>

text \<open>Property C29. The search through the causes of an event always ends, and finds an ancestor exactly when the ancestor is
  in the log and a chain of causal parents, each of them in the log before the event it caused, leads from it to
  the event.\<close>

theorem eventDescendsFrom_exact:
  "eventDescendsFrom evs e a \<longleftrightarrow> indexed_event evs a \<noteq> None \<and>
     (a, e) \<in> {(p, c). \<exists>x k. indexed_event evs c = Some x \<and> ev_causality x = Some k \<and> p \<in> set (ca_parent_event_ids k) \<and>
        indexed_event evs p \<noteq> None \<and> event_position evs p < event_position evs c}\<^sup>*"
  using eventDescendsFrom_iff [of evs e a] by (simp only: caused_by_def)

section \<open>The ledger stays verified\<close>





section \<open>A gap in the selector\<close>

text \<open>The request is checked with its selectors trimmed, but the ranking and the verifier test them for the empty string.
  A request with a query and a memory id of white space is therefore accepted, searched by the memory id, and recorded
  in a receipt that the verifier rejects as soon as a memory is in scope.\<close>

lemma mixed_selector_accepted:
  "normalizeRequest sample_lexicon (sample_query\<lparr>se_query := ''tabs'', se_memory_id := '' ''\<rparr>) =
     Inr (sample_query\<lparr>se_query := ''tabs'', se_memory_id := '' ''\<rparr>)"
proof -
  have b: "\<not> blank ''tabs''" "blank '' ''" "lexicalTerms sample_lexicon ''tabs'' \<noteq> []" by code_simp+
  show ?thesis
    using b by (simp add: normalizeRequest_def request_defaults_def check_request_def check_selector_def Let_def sample_query_def
        sample_context_def validAgent_retrieval_def validChannel_def)
qed

lemma rankExactMemory_none: "\<forall>r \<in> set rs. pv_memory_id r \<noteq> se_memory_id q \<Longrightarrow> rankExactMemory rs q t = t"
  by (induction rs) simp_all

lemma mixed_selector_rejected:
  assumes "fresh_result t" and "rt_status t = ''completed''" and "se_query q \<noteq> []" and "se_memory_id q \<noteq> []"
    and "\<forall>r \<in> set rs. pv_memory_id r \<noteq> se_memory_id q" and "\<exists>r \<in> set rs. scopeApplies r (se_context q)"
  shows "budget_issues q (rankRevisions lx rs q t) \<noteq> []"
proof -
  have "filter (\<lambda>r. scopeApplies r (se_context q)) rs \<noteq> []" using assms(6) by (auto simp: filter_empty_conv)
  then show ?thesis
    using assms(1-5) rankExactMemory_none [of "filter (\<lambda>r. scopeApplies r (se_context q)) rs" q]
    by (simp add: rankRevisions_def budget_issues_def Let_def fresh_result_def exclude_def no_exclusions_def selected_matches_def)
qed

end
