(* ===== verification/Spec2Isabelle.thy ===== *)
theory Spec2Isabelle
  imports Go_Base Go_Sha256 Go_Json Hash_Chain Ledger_Types Ledger Ledger_Chain Ledger_Props Ledger_Claims
    Secret_Scan Sequenced_Log Candidate_Text Candidates Candidate_Generation Candidate_Props Candidate_Selection
    Candidate_Claims Review_Types Review Review_Props Review_Groups Review_Semantics Review_Apply Review_History
    Review_Sample Review_Lookup Review_Claims Promotion_Types Promotion Promotion_Props Promotion_Apply
    Promotion_Sample Promotion_Claims Rule_Approval Approval_Props Approval_Claims
    Portable_Types Portable_Format Portable_Repository Portable_Load Portable_Props Portable_Graph Portable_Export
    Portable_Create Portable_Write Portable_Projection Portable_Sample Portable_Claims
    Retrieval_Text Retrieval_Types Retrieval_Search Retrieval_Context Retrieval_Receipts Retrieval_Verify Retrieval_Adoption
    Retrieval_Load Retrieval_Props Retrieval_Result Retrieval_Causality Retrieval_Graph Retrieval_Append Retrieval_Deliver
    Retrieval_Injection Retrieval_Sample Retrieval_Claims
begin

text \<open>
  agent-memory-system keeps what a user tells coding agents, and turns it into reviewed memories that are delivered
  back to them. This library models its Go packages from the evidence to the delivery, translated from the source
  function by function, and proves what makes each of them, and their composition, correct.

  \<^bold>\<open>How the program hangs together.\<close>

  \<^item> Every captured event is a line of the \<^bold>\<open>evidence ledger\<close> (\<open>internal/ledger\<close>), a file of JSON records
    that is only ever appended to. A record holds a SHA-256 digest of its event and of the digest before it; contents
    too large for a line are blobs, named by their digest. One process at a time appends, under a lock file.
  \<^item> \<^bold>\<open>Candidates\<close> (\<open>internal/candidates\<close>) are statements of the user that may be worth remembering. A
    generation of them is derived from the episodes of a prefix of the evidence ledger and is never changed.
  \<^item> A person reviews candidates in the \<^bold>\<open>review ledger\<close> (\<open>internal/review\<close>), promotes validated ones to
    memories in the \<^bold>\<open>promotion ledger\<close> (\<open>internal/promotion\<close>), and authorises changes of rule files for
    active revisions in the \<^bold>\<open>approval ledger\<close> (\<open>internal/ruleapproval\<close>). Each of the three is a chained
    file like the evidence ledger, and each is replayed against the one before it.
  \<^item> Promoted memories are exported to a \<^bold>\<open>portable repository\<close> (\<open>internal/portable\<close>), a directory of
    Markdown files that may be shared, free of what the \<^bold>\<open>scanner\<close> (\<open>internal/secretscan\<close>) finds sensitive.
  \<^item> \<^bold>\<open>Retrieval\<close> (\<open>internal/retrieval\<close>) searches the repository for a task, renders what it selects within
    a budget, and records what was delivered, and later what was adopted, as receipts in the evidence ledger.

  \<^bold>\<open>The theories, in the order of the imports.\<close>

  \<^item> Prelude. \<open>Go_Base\<close>: byte strings and the library functions on them, instants, files as the system presents
    them, lock files, the line loop and the torn append that all ledgers share. \<open>Go_Json\<close>: \<open>json.Marshal\<close> with
    the field order of the structs, and that its output determines what went in. \<open>Go_Sha256\<close>: the digest,
    computed, and \<open>sha_collision\<close>, the way in which a statement may fail.
  \<^item> Interfaces. \<open>Hash_Chain\<close> is the locale of what a ledger promises about its hashed bytes, with the lemma that
    equal last digests mean equal events; \<open>Sequenced_Log\<close> extends it to the ledgers with sequence numbers. They
    are interpreted as \<open>evidence\<close> (\<open>Ledger_Chain\<close>), \<open>review\<close> (\<open>Review_Props\<close>), \<open>promotion\<close>
    (\<open>Promotion_Props\<close>) and \<open>approval\<close> (\<open>Approval_Props\<close>). The locale \<open>candidate_source\<close> of
    \<open>Review_Groups\<close> is what the review ledger uses of a generation; its interpretation \<open>generation\<close> is the modelled
    \<open>Select\<close>.
  \<^item> \<open>Ledger_Types\<close> and \<open>Ledger\<close> model \<open>types.go\<close>, \<open>ledger.go\<close> and \<open>pathguard.go\<close>: the event
    checks, the store with its device identity and blobs, the readers \<open>Verify\<close>, \<open>visitRecords\<close> and
    \<open>lastRecordHash\<close>, the appender and \<open>AppendBatchStore\<close>. \<open>Ledger_Props\<close> has the file after an append,
    whole or torn, and the writers of the store as a step relation (\<open>writer_step\<close>) over any number of processes.
  \<^item> \<open>Secret_Scan\<close>: the scan, the merging of its findings and the redaction.
  \<^item> \<open>Candidate_Text\<close>, \<open>Candidates\<close>, \<open>Candidate_Generation\<close>, \<open>Candidate_Selection\<close>: the text
    functions, the observations and their aggregation, and the reader of a generation.
  \<^item> \<open>Review_Types\<close> and \<open>Review\<close>: the review records, the chained and the semantic replay, \<open>Apply\<close> and the
    lookups. \<open>Review_Semantics\<close> says what the semantic replay accepts, record by record; \<open>Review_History\<close> has
    the state machine of a candidate (\<open>review_edge\<close>).
  \<^item> \<open>Promotion_Types\<close>, \<open>Promotion\<close>, \<open>Rule_Approval\<close>: the two ledgers that rest on the review ledger.
  \<^item> \<open>Portable_Types\<close>, \<open>Portable_Format\<close>, \<open>Portable_Repository\<close>, \<open>Portable_Load\<close>,
    \<open>Portable_Export\<close>, \<open>Portable_Create\<close>: the revisions and their file format, the walk over the
    repository and its verification, and what writes to it. The file system is an explicit tree.
  \<^item> \<open>Retrieval_Text\<close> to \<open>Retrieval_Adoption\<close>: terms and token estimate, requests and ranking, rendering,
    the receipts, the verification of their graph, and the recording of adoption. \<open>Retrieval_Graph\<close> shows how
    that graph grows, \<open>Retrieval_Deliver\<close> and \<open>Retrieval_Injection\<close> follow a search and a delivery through the
    ledger while other processes append to it.
  \<^item> \<open>*_Props\<close> theories hold the lemmas of a component, \<open>*_Sample\<close> theories the concrete runs of the witnesses,
    and \<open>*_Claims\<close> theories the properties (labelled \<open>Property C\<close>\<^emph>\<open>n\<close>), each with a witness where it has
    hypotheses.

  \<^bold>\<open>What is shown.\<close>

  \<^item> Tampering: two evidence ledgers, or two review ledgers, with one last digest hold the same events in order, or
    two hashed inputs collide. A torn write never passes for a record.
  \<^item> Exclusion: in every history of opens, appends with any outcome, closes, crashes and recoveries of stale locks at
    most one process appends, and the log only grows at its end.
  \<^item> Every \<open>Apply\<close>: exactly one line is added, the lock is free again, and the verified replay accepts the new
    ledger; where it does not (a clock set back), the theorem says exactly when.
  \<^item> Grounding: what is resolved as validated, active or approved rests on records of the ledgers below it.
    Contradicting candidates are never both validated; a memory is promoted, superseded in a line, and revoked at
    most once; the decisions on an approval alternate.
  \<^item> The portable repository: the format is read back exactly as it is written, a repository that loads without an issue
    is one line of revisions per memory, and an export puts the projection of each history in it.
  \<^item> Retrieval: the selection is ranked, applicable and within its budgets; the delivered text cannot close its own
    block; a search or a delivery leaves a verified evidence ledger verified, and its receipt resolves to what was
    returned; causality is found exactly, and the search for it ends.

  \<^bold>\<open>Bounds and termination.\<close> All functions of the model are total. Loops over input are structural or go down
  with the length of the rest; the search through causes goes down with the positions of the log
  (\<open>Retrieval_Causality\<close>); the retry of an append is the six attempts of the source. Sizes, counts and offsets are unbounded
  integers; the source keeps them in 64 bits, and bounds them by the sizes of files. SHA-256 works on 32-bit words.

  \<^bold>\<open>What is an argument.\<close> JSON decoders, the Unicode tables and \<open>strings.ToLower\<close>, the matches of a
  regular expression and the entropy of a string, the clock and random identifiers, the resolution of symbolic links, and
  every failure of a system call (\<open>append_fault\<close>, \<open>lock_fault\<close>, \<open>write_outcome\<close>, ...), with the point where
  it strikes. What other processes do between the steps of a retry is an argument too. A theorem that needs more of an argument
  than its type says so in a hypothesis: \<open>unicode_ok\<close> (white space is not a letter), \<open>reads_back\<close> (a decoder
  returns what the encoder was given).

  \<^bold>\<open>Not modelled.\<close> The command line, the MCP server and the hooks dispatch to the packages above and print.
  The source adapters read log formats that other programs define. The capture supervisor, the file snapshots, the backup
  and the synchronisation are about processes, archives and the git program. The evaluation, study,
  benchmark and assessment packages run experiments about the program and are not on the path of a memory.
  \<open>candidates.Build\<close> shards its input over temporary compressed files and renames a
  directory; its computation is the modelled \<open>aggregateCandidates\<close>. \<open>ClearStaleWriterLock\<close> trusts its caller that no
  process holds the lock; it is a step of \<open>writer_step\<close>.
\<close>

end
